(* ===== verification/Prelude.thy ===== *)
theory Prelude
  imports Main
begin

text \<open>
  Shared ground of the development: JavaScript string and number helpers, the JSON values
  that are stored in \<open>jsonb\<close> columns, the errors the packages throw, and the
  state-and-exception monad in which every database command is written.

  A command of the TypeScript source is an \<open>async\<close> function over a database handle.  Here
  it is a function from the database state to a pair of a result and a state: the result is
  \<open>Inl e\<close> when the source throws \<open>e\<close> and \<open>Inr x\<close> when it returns \<open>x\<close>.  An exception
  carries the state that was reached, because a statement that was executed outside a
  transaction (or in a transaction that was already committed) is not undone by a later
  \<open>throw\<close>; \<open>transaction\<close> is the only construct that rolls the state back.
\<close>

named_theorems tx_ok \<open>when a command returns a value\<close>
named_theorems tx_err \<open>when a command throws\<close>
named_theorems preserved \<open>invariant preservation, one rule per construct or command\<close>

section \<open>Strings and numbers\<close>

definition em_dash :: string where
  "em_dash = [CHR 0xE2, CHR 0x80, CHR 0x94]"

definition middle_dot :: string where
  "middle_dot = [CHR 0xC2, CHR 0xB7]"

definition is_digit :: "char \<Rightarrow> bool" where
  "is_digit c \<longleftrightarrow> 48 \<le> (of_char c :: nat) \<and> (of_char c :: nat) \<le> 57"

definition digit_val :: "char \<Rightarrow> nat" where
  "digit_val c = of_char c - 48"

definition digit_char :: "nat \<Rightarrow> char" where
  "digit_char n = char_of (48 + n)"

text \<open>Decimal rendering: \<open>BigInt.prototype.toString\<close> and \<open>String(n)\<close> on integers.\<close>

fun show_nat :: "nat \<Rightarrow> string" where
  "show_nat n = (if n < 10 then [digit_char n] else show_nat (n div 10) @ [digit_char (n mod 10)])"

declare show_nat.simps [simp del]

definition show_int :: "int \<Rightarrow> string" where
  "show_int i = (if i < 0 then ''-'' @ show_nat (nat (- i)) else show_nat (nat i))"

text \<open>The value of a digit string, \<open>BigInt(s)\<close> on a string that matches \<open>\d*\<close>.\<close>

definition digits_val :: "string \<Rightarrow> nat" where
  "digits_val = foldl (\<lambda>n c. 10 * n + digit_val c) 0"

text \<open>\<open>String.prototype.padStart\<close>, \<open>padEnd\<close> and \<open>slice(0, n)\<close>.\<close>

definition padStart :: "nat \<Rightarrow> char \<Rightarrow> string \<Rightarrow> string" where
  "padStart n c s = replicate (n - length s) c @ s"

definition padEnd :: "nat \<Rightarrow> char \<Rightarrow> string \<Rightarrow> string" where
  "padEnd n c s = s @ replicate (n - length s) c"

text \<open>White space as matched by \<open>\s\<close> and removed by \<open>trim\<close>, on the one-byte characters.\<close>

definition is_space :: "char \<Rightarrow> bool" where
  "is_space c \<longleftrightarrow> (of_char c :: nat) \<in> {9, 10, 11, 12, 13, 32}"

definition trim :: "string \<Rightarrow> string" where
  "trim s = rev (dropWhile is_space (rev (dropWhile is_space s)))"

definition is_upper :: "char \<Rightarrow> bool" where
  "is_upper c \<longleftrightarrow> 65 \<le> (of_char c :: nat) \<and> (of_char c :: nat) \<le> 90"

definition is_lower :: "char \<Rightarrow> bool" where
  "is_lower c \<longleftrightarrow> 97 \<le> (of_char c :: nat) \<and> (of_char c :: nat) \<le> 122"

definition to_upper :: "char \<Rightarrow> char" where
  "to_upper c = (if is_lower c then char_of (of_char c - 32 :: nat) else c)"

definition to_lower :: "char \<Rightarrow> char" where
  "to_lower c = (if is_upper c then char_of (of_char c + 32 :: nat) else c)"

definition toUpperCase :: "string \<Rightarrow> string" where
  "toUpperCase = map to_upper"

definition toLowerCase :: "string \<Rightarrow> string" where
  "toLowerCase = map to_lower"

definition starts_with :: "string \<Rightarrow> string \<Rightarrow> bool" where
  "starts_with p s \<longleftrightarrow> take (length p) s = p"

text \<open>JavaScript truthiness of an optional string: \<open>undefined\<close>, \<open>null\<close> and the empty string are false.\<close>

definition truthy :: "string option \<Rightarrow> bool" where
  "truthy v \<longleftrightarrow> v \<noteq> None \<and> v \<noteq> Some ''''"

text \<open>The nullish coalescing operator \<open>a ?? b\<close>.\<close>

definition nullish :: "'a option \<Rightarrow> 'a \<Rightarrow> 'a" where
  "nullish a b = (case a of None \<Rightarrow> b | Some x \<Rightarrow> x)"

lemma nullish_simps [simp]: "nullish None b = b" "nullish (Some a) b = a"
  by (simp_all add: nullish_def)

text \<open>BigInt division truncates toward zero.\<close>

definition bigint_div :: "int \<Rightarrow> int \<Rightarrow> int" where
  "bigint_div a b = sgn a * sgn b * (\<bar>a\<bar> div \<bar>b\<bar>)"

lemma bigint_div_nonneg [simp]: "0 \<le> a \<Longrightarrow> 0 < b \<Longrightarrow> bigint_div a b = a div b"
  by (cases "a = 0") (auto simp: bigint_div_def)

subsection \<open>Digits\<close>

lemma of_char_digit [simp]: "n < 10 \<Longrightarrow> (of_char (digit_char n) :: nat) = 48 + n"
  by (simp add: digit_char_def)

lemma digit_char_props [simp]:
  "n < 10 \<Longrightarrow> is_digit (digit_char n)" "n < 10 \<Longrightarrow> digit_val (digit_char n) = n"
  by (simp_all add: is_digit_def digit_val_def)

lemma show_nat_digits [simp]: "list_all is_digit (show_nat n)"
  by (induction n rule: show_nat.induct) (subst show_nat.simps, auto)

lemma show_nat_neq_Nil [simp]: "show_nat n \<noteq> []"
  by (subst show_nat.simps) auto

lemma digits_foldl:
  "foldl (\<lambda>n c. 10 * n + digit_val c) k b = k * 10 ^ length b + foldl (\<lambda>n c. 10 * n + digit_val c) 0 b"
proof (induction b arbitrary: k)
  case (Cons c b)
  show ?case using Cons [of "10 * k + digit_val c"] Cons [of "digit_val c"] by (simp add: algebra_simps)
qed simp

lemma digits_val_append: "digits_val (a @ b) = digits_val a * 10 ^ length b + digits_val b"
  using digits_foldl [of "digits_val a" b] by (simp add: digits_val_def)

lemma digits_val_show_nat [simp]: "digits_val (show_nat n) = n"
proof (induction n rule: show_nat.induct)
  case (1 n)
  show ?case
  proof (cases "n < 10")
    case True
    then show ?thesis by (subst show_nat.simps) (simp add: digits_val_def)
  next
    case False
    have "digits_val (show_nat n) = digits_val (show_nat (n div 10)) * 10 + n mod 10"
      by (subst show_nat.simps) (use False in \<open>simp add: digits_val_append, simp add: digits_val_def\<close>)
    also have "\<dots> = n" by (simp add: 1 [OF False])
    finally show ?thesis .
  qed
qed

lemma inj_show_nat [simp]: "inj show_nat"
  by (rule injI) (metis digits_val_show_nat)

lemma length_show_nat: "0 < k \<Longrightarrow> n < 10 ^ k \<Longrightarrow> length (show_nat n) \<le> k"
proof (induction k arbitrary: n)
  case (Suc k)
  show ?case
  proof (cases "n < 10")
    case True
    then show ?thesis by (subst show_nat.simps) simp
  next
    case False
    with Suc.prems have "0 < k" by (cases k) auto
    moreover have "n div 10 < 10 ^ k" using Suc.prems by (simp add: less_mult_imp_div_less mult.commute)
    ultimately have "length (show_nat (n div 10)) \<le> k" by (rule Suc.IH)
    then show ?thesis using False by (subst show_nat.simps) simp
  qed
qed simp

lemma padStart_digits:
  assumes "length ds \<le> n" and "list_all is_digit ds"
  shows "length (padStart n CHR ''0'' ds) = n" and "list_all is_digit (padStart n CHR ''0'' ds)"
    and "digits_val (padStart n CHR ''0'' ds) = digits_val ds"
proof -
  have z: "digits_val (replicate k CHR ''0'') = 0" for k
  proof (induction k)
    case (Suc k)
    then show ?case
      using digits_val_append [of "[CHR ''0'']" "replicate k CHR ''0''"] by (simp add: digits_val_def digit_val_def)
  qed (simp add: digits_val_def)
  show "length (padStart n CHR ''0'' ds) = n" using assms by (simp add: padStart_def)
  have "is_digit CHR ''0''" by (simp add: is_digit_def)
  then show "list_all is_digit (padStart n CHR ''0'' ds)" using assms(2) by (auto simp: padStart_def list_all_iff)
  show "digits_val (padStart n CHR ''0'' ds) = digits_val ds" by (simp add: padStart_def digits_val_append z)
qed

lemma is_digit_neq [simp]:
  "is_digit c \<Longrightarrow> \<not> is_space c" "is_digit c \<Longrightarrow> c \<noteq> CHR ''-''" "is_digit c \<Longrightarrow> c \<noteq> CHR ''.''"
  "is_digit c \<Longrightarrow> c \<noteq> CHR '',''" "\<not> is_digit CHR ''.''" "\<not> is_digit CHR '',''" "\<not> is_digit CHR ''-''"
  by (auto simp: is_digit_def is_space_def)

lemma show_int_nat [simp]: "show_int (int n) = show_nat n"
  by (simp add: show_int_def)

section \<open>JSON values\<close>

text \<open>
  Values that reach a \<open>jsonb\<close> column.  \<open>toJsonSafe\<close> (packages/database/src/json-safe.ts)
  replaces every \<open>bigint\<close> by its decimal string and every valid date by its ISO form; keys
  whose value is \<open>undefined\<close> are dropped by the JSON serialisation.
\<close>

datatype jsval =
    JUndefined
  | JNull
  | JBool bool
  | JNumber int
  | JBigInt int
  | JString string
  | JDate int
  | JArray "jsval list"
  | JObject "(string \<times> jsval) list"

definition js_opt :: "string option \<Rightarrow> jsval" where
  "js_opt v = (case v of None \<Rightarrow> JUndefined | Some x \<Rightarrow> JString x)"

definition js_lookup :: "string \<Rightarrow> jsval \<Rightarrow> jsval" where
  "js_lookup k v = (case v of
      JObject kvs \<Rightarrow> (case map_of kvs k of None \<Rightarrow> JUndefined | Some x \<Rightarrow> x)
    | _ \<Rightarrow> JUndefined)"

section \<open>Errors\<close>

text \<open>
  One constructor per error class of the packages, with the message and, where the class
  carries one, the code.  The \<open>Db\<close> constructors are the failures PostgreSQL raises: a unique
  index (SQLSTATE 23505), a foreign key (23503) and the integrity triggers of
  packages/database/custom-migrations (P0001).  \<open>OutOfFuel\<close> stands for a recursion that
  would not return.
\<close>

datatype error =
    PlainError string
  | DbUnique string
  | DbForeignKey string
  | DbTrigger string
  | OutOfFuel
  | MoneyParseError string
  | LedgerError string string
  | InsufficientFundsError string
  | JournalUnbalancedError string
  | AccountNotFoundError string
  | ApprovalPolicyError string
  | ApprovalError string string
  | IllegalTransitionError string string
  | PaymentError string string
  | ExecutionError string string
  | ReversalError string string
  | BeneficiaryError string string
  | BulkError string string
  | WebhookError string string
  | CollectionError string string
  | ReconExceptionError string string
  | TaxComputationError string
  | IdentityValidationError string string
  | ProviderError string
  | PlatformConfigError string string
  | ApiKeyError string string
  | DsarError string string
  | EtimsError string string bool
  | EtimsServiceError string string
  | DeliveryReplayError string string
  | SecretRotationError string string

text \<open>\<open>err.message\<close> of a thrown error.  The text PostgreSQL gives to a violated constraint is stood
  for by the name of the constraint.\<close>

fun error_message :: "error \<Rightarrow> string" where
  "error_message (PlainError m) = m"
| "error_message (DbUnique c) = c"
| "error_message (DbForeignKey c) = c"
| "error_message (DbTrigger c) = c"
| "error_message OutOfFuel = ''Maximum call stack size exceeded''"
| "error_message (MoneyParseError m) = m"
| "error_message (LedgerError m c) = m"
| "error_message (InsufficientFundsError w) = ''Insufficient available balance on wallet '' @ w"
| "error_message (JournalUnbalancedError d) = ''Journal would be unbalanced: '' @ d"
| "error_message (AccountNotFoundError c) = ''Ledger account not found: '' @ c"
| "error_message (ApprovalPolicyError m) = m"
| "error_message (ApprovalError m c) = m"
| "error_message (IllegalTransitionError a b) = ''Illegal payment state transition: '' @ a @ '' -> '' @ b"
| "error_message (PaymentError m c) = m"
| "error_message (ExecutionError m c) = m"
| "error_message (ReversalError m c) = m"
| "error_message (BeneficiaryError m c) = m"
| "error_message (BulkError m c) = m"
| "error_message (WebhookError m c) = m"
| "error_message (CollectionError m c) = m"
| "error_message (ReconExceptionError m c) = m"
| "error_message (TaxComputationError m) = m"
| "error_message (IdentityValidationError m f) = m"
| "error_message (ProviderError m) = m"
| "error_message (PlatformConfigError m c) = m"
| "error_message (ApiKeyError m c) = m"
| "error_message (DsarError m c) = m"
| "error_message (EtimsError m c r) = m"
| "error_message (EtimsServiceError m c) = m"
| "error_message (DeliveryReplayError m c) = m"
| "error_message (SecretRotationError m c) = m"

section \<open>The command monad\<close>

type_synonym ('s, 'a) tx = "'s \<Rightarrow> (error + 'a) \<times> 's"

definition return :: "'a \<Rightarrow> ('s, 'a) tx" where
  "return x s = (Inr x, s)"

definition throw :: "error \<Rightarrow> ('s, 'a) tx" where
  "throw e s = (Inl e, s)"

definition gets :: "('s \<Rightarrow> 'a) \<Rightarrow> ('s, 'a) tx" where
  "gets f s = (Inr (f s), s)"

definition modify :: "('s \<Rightarrow> 's) \<Rightarrow> ('s, unit) tx" where
  "modify f s = (Inr (), f s)"

definition bind :: "('s, 'a) tx \<Rightarrow> ('a \<Rightarrow> ('s, 'b) tx) \<Rightarrow> ('s, 'b) tx" where
  "bind m f s = (case m s of (Inl e, t) \<Rightarrow> (Inl e, t) | (Inr x, t) \<Rightarrow> f x t)"

definition seq :: "('s, 'a) tx \<Rightarrow> ('s, 'b) tx \<Rightarrow> ('s, 'b) tx" where
  "seq m n = bind m (\<lambda>_. n)"

text \<open>\<open>if (!b) throw e\<close>\<close>

definition guard :: "bool \<Rightarrow> error \<Rightarrow> ('s, unit) tx" where
  "guard b e = (if b then return () else throw e)"

definition whenM :: "bool \<Rightarrow> ('s, unit) tx \<Rightarrow> ('s, unit) tx" where
  "whenM b m = (if b then m else return ())"

text \<open>\<open>const [row] = await ...; if (!row) throw e\<close>\<close>

definition require :: "'a option \<Rightarrow> error \<Rightarrow> ('s, 'a) tx" where
  "require v e = (case v of None \<Rightarrow> throw e | Some x \<Rightarrow> return x)"

text \<open>\<open>db.transaction(...)\<close>: a thrown error rolls back to the state at entry.  Nested
  transactions are savepoints, with the same meaning.\<close>

definition transaction :: "('s, 'a) tx \<Rightarrow> ('s, 'a) tx" where
  "transaction m s = (case m s of (Inl e, _) \<Rightarrow> (Inl e, s) | (Inr x, t) \<Rightarrow> (Inr x, t))"

definition catch :: "('s, 'a) tx \<Rightarrow> (error \<Rightarrow> ('s, 'a) tx) \<Rightarrow> ('s, 'a) tx" where
  "catch m h s = (case m s of (Inl e, t) \<Rightarrow> h e t | (Inr x, t) \<Rightarrow> (Inr x, t))"

text \<open>\<open>for (const x of xs) await body(x)\<close>\<close>

primrec forEachM :: "'a list \<Rightarrow> ('a \<Rightarrow> ('s, unit) tx) \<Rightarrow> ('s, unit) tx" where
  "forEachM [] body = return ()"
| "forEachM (x # xs) body = seq (body x) (forEachM xs body)"

text \<open>A loop that threads the local variables of the function through its body.\<close>

primrec foldM :: "'a list \<Rightarrow> 'b \<Rightarrow> ('b \<Rightarrow> 'a \<Rightarrow> ('s, 'b) tx) \<Rightarrow> ('s, 'b) tx" where
  "foldM [] acc body = return acc"
| "foldM (x # xs) acc body = bind (body acc x) (\<lambda>acc'. foldM xs acc' body)"

subsection \<open>When a command returns and when it throws\<close>

lemma return_ok [tx_ok]: "return x s = (Inr y, t) \<longleftrightarrow> y = x \<and> t = s"
  by (auto simp: return_def)

lemma return_err [tx_err]: "return x s = (Inl e, t) \<longleftrightarrow> False"
  by (simp add: return_def)

lemma throw_ok [tx_ok]: "throw e s = (Inr y, t) \<longleftrightarrow> False"
  by (simp add: throw_def)

lemma throw_err [tx_err]: "throw e s = (Inl e', t) \<longleftrightarrow> e' = e \<and> t = s"
  by (auto simp: throw_def)

lemma gets_ok [tx_ok]: "gets f s = (Inr y, t) \<longleftrightarrow> y = f s \<and> t = s"
  by (auto simp: gets_def)

lemma gets_err [tx_err]: "gets f s = (Inl e, t) \<longleftrightarrow> False"
  by (simp add: gets_def)

lemma modify_ok [tx_ok]: "modify f s = (Inr y, t) \<longleftrightarrow> t = f s"
  by (auto simp: modify_def)

lemma modify_err [tx_err]: "modify f s = (Inl e, t) \<longleftrightarrow> False"
  by (simp add: modify_def)

lemma bind_ok [tx_ok]:
  "bind m f s = (Inr y, t) \<longleftrightarrow> (\<exists>x u. m s = (Inr x, u) \<and> f x u = (Inr y, t))"
  by (auto simp: bind_def split: prod.splits sum.splits)

lemma bind_err [tx_err]:
  "bind m f s = (Inl e, t) \<longleftrightarrow>
     m s = (Inl e, t) \<or> (\<exists>x u. m s = (Inr x, u) \<and> f x u = (Inl e, t))"
  by (auto simp: bind_def split: prod.splits sum.splits)

lemma seq_ok [tx_ok]:
  "seq m n s = (Inr y, t) \<longleftrightarrow> (\<exists>x u. m s = (Inr x, u) \<and> n u = (Inr y, t))"
  by (simp add: seq_def bind_ok)

lemma seq_err [tx_err]:
  "seq m n s = (Inl e, t) \<longleftrightarrow>
     m s = (Inl e, t) \<or> (\<exists>x u. m s = (Inr x, u) \<and> n u = (Inl e, t))"
  by (simp add: seq_def bind_err)

lemma guard_ok [tx_ok]: "guard b e s = (Inr y, t) \<longleftrightarrow> b \<and> t = s"
  by (auto simp: guard_def return_def throw_def)

lemma guard_err [tx_err]: "guard b e s = (Inl e', t) \<longleftrightarrow> \<not> b \<and> e' = e \<and> t = s"
  by (auto simp: guard_def return_def throw_def)

lemma whenM_ok [tx_ok]:
  "whenM b m s = (Inr y, t) \<longleftrightarrow> (if b then m s = (Inr y, t) else t = s)"
  by (auto simp: whenM_def return_def)

lemma whenM_err [tx_err]: "whenM b m s = (Inl e, t) \<longleftrightarrow> b \<and> m s = (Inl e, t)"
  by (auto simp: whenM_def return_def)

lemma require_ok [tx_ok]: "require v e s = (Inr y, t) \<longleftrightarrow> v = Some y \<and> t = s"
  by (auto simp: require_def return_def throw_def split: option.splits)

lemma require_err [tx_err]: "require v e s = (Inl e', t) \<longleftrightarrow> v = None \<and> e' = e \<and> t = s"
  by (auto simp: require_def return_def throw_def split: option.splits)

lemma transaction_ok [tx_ok]: "transaction m s = (Inr x, t) \<longleftrightarrow> m s = (Inr x, t)"
  by (auto simp: transaction_def split: prod.splits sum.splits)

lemma transaction_err [tx_err]:
  "transaction m s = (Inl e, t) \<longleftrightarrow> t = s \<and> (\<exists>u. m s = (Inl e, u))"
  by (auto simp: transaction_def split: prod.splits sum.splits)

lemma catch_ok [tx_ok]:
  "catch m h s = (Inr x, t) \<longleftrightarrow>
     m s = (Inr x, t) \<or> (\<exists>e u. m s = (Inl e, u) \<and> h e u = (Inr x, t))"
  by (auto simp: catch_def split: prod.splits sum.splits)

text \<open>A transaction that throws leaves the database exactly as it was.\<close>

lemma transaction_rollback: "transaction m s = (Inl e, t) \<Longrightarrow> t = s"
  by (simp add: transaction_err)

subsection \<open>Running a command forward\<close>

lemma bind_step: "m s = (Inr x, t) \<Longrightarrow> bind m f s = f x t"
  by (simp add: bind_def)

lemma seq_step: "m s = (Inr x, t) \<Longrightarrow> seq m n s = n t"
  by (simp add: seq_def bind_def)

lemmas tx_run = bind_def seq_def return_def throw_def gets_def modify_def guard_def whenM_def
  require_def transaction_def catch_def

subsection \<open>Invariants of commands\<close>

text \<open>\<open>preserves P m\<close>: whether \<open>m\<close> returns or throws, it leads from a state with \<open>P\<close> to one
  with \<open>P\<close>.\<close>

definition preserves :: "('s \<Rightarrow> bool) \<Rightarrow> ('s, 'a) tx \<Rightarrow> bool" where
  "preserves P m \<longleftrightarrow> (\<forall>s. P s \<longrightarrow> P (snd (m s)))"

lemma preservesI: "(\<And>s r t. P s \<Longrightarrow> m s = (r, t) \<Longrightarrow> P t) \<Longrightarrow> preserves P m"
  by (auto simp: preserves_def) (metis prod.collapse)

lemma preservesD: "preserves P m \<Longrightarrow> P s \<Longrightarrow> m s = (r, t) \<Longrightarrow> P t"
  by (auto simp: preserves_def dest!: spec[of _ s])

lemma preserves_return [preserved]: "preserves P (return x)"
  by (simp add: preserves_def return_def)

lemma preserves_throw [preserved]: "preserves P (throw e)"
  by (simp add: preserves_def throw_def)

lemma preserves_gets [preserved]: "preserves P (gets f)"
  by (simp add: preserves_def gets_def)

lemma preserves_guard [preserved]: "preserves P (guard b e)"
  by (simp add: preserves_def guard_def return_def throw_def)

lemma preserves_require [preserved]: "preserves P (require v e)"
  by (simp add: preserves_def require_def return_def throw_def split: option.splits)

lemma preserves_modify: "(\<And>s. P s \<Longrightarrow> P (f s)) \<Longrightarrow> preserves P (modify f)"
  by (simp add: preserves_def modify_def)

lemma preserves_bind [preserved]:
  assumes "preserves P m" and "\<And>x. preserves P (f x)"
  shows "preserves P (bind m f)"
proof (rule preservesI)
  fix s r t
  assume "P s" and "bind m f s = (r, t)"
  then show "P t"
    using assms by (cases r) (auto simp: bind_ok bind_err dest: preservesD)
qed

lemma preserves_seq [preserved]:
  "preserves P m \<Longrightarrow> preserves P n \<Longrightarrow> preserves P (seq m n)"
  by (simp add: seq_def preserves_bind)

lemma preserves_whenM [preserved]: "(b \<Longrightarrow> preserves P m) \<Longrightarrow> preserves P (whenM b m)"
  by (auto simp: whenM_def preserves_return)

lemma preserves_if [preserved]:
  "(b \<Longrightarrow> preserves P m) \<Longrightarrow> (\<not> b \<Longrightarrow> preserves P n) \<Longrightarrow> preserves P (if b then m else n)"
  by simp

lemma preserves_case_option [preserved]:
  "(v = None \<Longrightarrow> preserves P m) \<Longrightarrow> (\<And>x. v = Some x \<Longrightarrow> preserves P (f x)) \<Longrightarrow>
     preserves P (case v of None \<Rightarrow> m | Some x \<Rightarrow> f x)"
  by (cases v) simp_all

lemma preserves_case_list [preserved]:
  "(v = [] \<Longrightarrow> preserves P m) \<Longrightarrow> (\<And>x xs. v = x # xs \<Longrightarrow> preserves P (f x xs)) \<Longrightarrow>
     preserves P (case v of [] \<Rightarrow> m | x # xs \<Rightarrow> f x xs)"
  by (cases v) simp_all

lemma preserves_case_prod [preserved]:
  "(\<And>x y. v = (x, y) \<Longrightarrow> preserves P (f x y)) \<Longrightarrow> preserves P (case v of (x, y) \<Rightarrow> f x y)"
  by (cases v) simp

lemma preserves_case_sum [preserved]:
  "(\<And>x. v = Inl x \<Longrightarrow> preserves P (f x)) \<Longrightarrow> (\<And>x. v = Inr x \<Longrightarrow> preserves P (g x)) \<Longrightarrow>
     preserves P (case v of Inl x \<Rightarrow> f x | Inr x \<Rightarrow> g x)"
  by (cases v) simp_all

lemma preserves_let [preserved]: "preserves P (f v) \<Longrightarrow> preserves P (let x = v in f x)"
  by simp

lemma preserves_catch [preserved]:
  assumes "preserves P m" and "\<And>e. preserves P (h e)"
  shows "preserves P (catch m h)"
proof (rule preservesI)
  fix s r t
  assume P: "P s" and run: "catch m h s = (r, t)"
  obtain r' u where m: "m s = (r', u)" by (cases "m s")
  from P m have "P u" by (rule preservesD [OF assms(1)])
  with run m show "P t"
    by (cases r') (auto simp: catch_def dest: preservesD [OF assms(2)])
qed

lemma preserves_forEachM [preserved]:
  "(\<And>x. x \<in> set xs \<Longrightarrow> preserves P (body x)) \<Longrightarrow> preserves P (forEachM xs body)"
  by (induction xs) (auto intro: preserved)

lemma preserves_foldM [preserved]:
  "(\<And>a x. x \<in> set xs \<Longrightarrow> preserves P (body a x)) \<Longrightarrow> preserves P (foldM xs acc body)"
  by (induction xs arbitrary: acc) (auto intro!: preserved)

text \<open>For a transaction only the committed outcome counts: intermediate states may break the
  invariant.\<close>

lemma preserves_transactionI:
  "(\<And>s x t. P s \<Longrightarrow> m s = (Inr x, t) \<Longrightarrow> P t) \<Longrightarrow> preserves P (transaction m)"
  by (rule preservesI) (auto simp: transaction_def split: prod.splits sum.splits)

lemma preserves_transaction [preserved]: "preserves P m \<Longrightarrow> preserves P (transaction m)"
  by (rule preserves_transactionI) (blast dest: preservesD)

section \<open>Tables\<close>

text \<open>
  A table is the list of its rows in insertion order.  \<open>select ... limit 1\<close> is \<open>find\<close>, an
  \<open>update ... where\<close> is \<open>update_rows\<close>, an insert appends.
\<close>

definition update_rows :: "('r \<Rightarrow> bool) \<Rightarrow> ('r \<Rightarrow> 'r) \<Rightarrow> 'r list \<Rightarrow> 'r list" where
  "update_rows P f = map (\<lambda>r. if P r then f r else r)"

lemma update_rows_Nil [simp]: "update_rows P f [] = []"
  by (simp add: update_rows_def)

lemma update_rows_Cons [simp]:
  "update_rows P f (r # rs) = (if P r then f r else r) # update_rows P f rs"
  by (simp add: update_rows_def)

lemma update_rows_append [simp]:
  "update_rows P f (xs @ ys) = update_rows P f xs @ update_rows P f ys"
  by (simp add: update_rows_def)

lemma update_rows_eq_Nil [simp]: "update_rows P f rs = [] \<longleftrightarrow> rs = []"
  by (simp add: update_rows_def)

lemma length_update_rows [simp]: "length (update_rows P f rs) = length rs"
  by (simp add: update_rows_def)

lemma in_set_update_rows:
  "r \<in> set (update_rows P f rs) \<longleftrightarrow> (\<exists>q \<in> set rs. r = (if P q then f q else q))"
  by (auto simp: update_rows_def)

lemma map_update_rows [simp]:
  "(\<And>r. P r \<Longrightarrow> k (f r) = k r) \<Longrightarrow> map k (update_rows P f rs) = map k rs"
  by (simp add: update_rows_def)

lemma image_update_rows [simp]:
  "(\<And>r. P r \<Longrightarrow> k (f r) = k r) \<Longrightarrow> k ` set (update_rows P f rs) = k ` set rs"
  by (metis list.set_map map_update_rows)

lemma find_update_rows:
  "find P rs = Some r \<Longrightarrow> (\<And>q. P q \<Longrightarrow> P (f q)) \<Longrightarrow> find P (update_rows P f rs) = Some (f r)"
  by (induction rs) (auto split: if_splits)

lemma update_rows_none: "(\<And>r. r \<in> set rs \<Longrightarrow> \<not> P r) \<Longrightarrow> update_rows P f rs = rs"
  by (induction rs) auto

lemma filter_update_rows_keep:
  "(\<And>r. P r \<Longrightarrow> Q (f r) \<longleftrightarrow> Q r) \<Longrightarrow>
     filter Q (update_rows P f rs) = update_rows P f (filter Q rs)"
  by (induction rs) auto

lemma find_SomeD: "find P xs = Some x \<Longrightarrow> x \<in> set xs \<and> P x"
  by (auto simp: find_Some_iff)

lemma find_NoneD: "find P xs = None \<Longrightarrow> y \<in> set xs \<Longrightarrow> \<not> P y"
  by (auto simp: find_None_iff)

lemma filter_key:
  "distinct (map k xs) \<Longrightarrow> x \<in> set xs \<Longrightarrow> filter (\<lambda>y. k y = k x) xs = [x]"
  by (induction xs) (auto simp: image_iff filter_empty_conv)

text \<open>On a table with a primary key, the row a key selects is the only one with that key.\<close>

lemma find_key:
  "distinct (map k xs) \<Longrightarrow> x \<in> set xs \<Longrightarrow> find (\<lambda>r. k r = k x) xs = Some x"
  by (induction xs) (auto simp: image_iff)

lemma distinct_key_eq:
  "distinct (map k xs) \<Longrightarrow> x \<in> set xs \<Longrightarrow> y \<in> set xs \<Longrightarrow> k x = k y \<Longrightarrow> x = y"
  by (induction xs) (auto simp: image_iff)

lemma sum_list_map_filter_append [simp]:
  "sum_list (map f (filter P (xs @ ys))) =
     sum_list (map f (filter P xs)) + (sum_list (map f (filter P ys)) :: int)"
  by simp

text \<open>Updating the one row with a given key changes a sum over the table by that row's change.\<close>

lemma sum_list_update_key:
  fixes g :: "'r \<Rightarrow> int"
  assumes "distinct (map k xs)" and "x \<in> set xs"
  shows "sum_list (map g (update_rows (\<lambda>r. k r = k x) f xs)) =
     sum_list (map g xs) + g (f x) - g x"
  using assms
proof (induction xs)
  case (Cons y ys)
  show ?case
  proof (cases "k y = k x")
    case True
    with Cons.prems have xy: "y = x" by (auto simp: image_iff)
    with Cons.prems have "\<And>r. r \<in> set ys \<Longrightarrow> k r \<noteq> k x" by (auto simp: image_iff)
    then have "update_rows (\<lambda>r. k r = k x) f ys = ys" by (intro update_rows_none) auto
    with xy show ?thesis by simp
  next
    case False
    with Cons show ?thesis by auto
  qed
qed simp

end
