(* ===== verification/Json.thy ===== *)
theory Json
  imports Prelude
begin

text \<open>
  packages/database/src/json-safe.ts and what happens to its result: \<open>toJsonSafe\<close> replaces
  bigints and dates by strings, the JSON serialisation of the driver drops \<open>undefined\<close>.  Dates
  are milliseconds since the epoch; \<open>toISOString\<close> is the proleptic Gregorian calendar.
\<close>

section \<open>Dates\<close>

text \<open>Year, month and day of a day number counted from 1970-01-01.\<close>

definition civil_from_days :: "int \<Rightarrow> int \<times> int \<times> int" where
  "civil_from_days days =
     (let z = days + 719468; era = z div 146097; doe = z mod 146097;
          yoe = (doe - doe div 1460 + doe div 36524 - doe div 146096) div 365;
          doy = doe - (365 * yoe + yoe div 4 - yoe div 100);
          mp = (5 * doy + 2) div 153;
          d = doy - (153 * mp + 2) div 5 + 1;
          m = (if mp < 10 then mp + 3 else mp - 9);
          y = yoe + era * 400 + (if m \<le> 2 then 1 else 0)
      in (y, m, d))"

definition days_from_civil :: "int \<Rightarrow> int \<Rightarrow> int \<Rightarrow> int" where
  "days_from_civil year m d =
     (let y = (if m \<le> 2 then year - 1 else year); era = y div 400; yoe = y mod 400;
          doy = (153 * (if 2 < m then m - 3 else m + 9) + 2) div 5 + d - 1;
          doe = yoe * 365 + yoe div 4 - yoe div 100 + doy
      in era * 146097 + doe - 719468)"

definition pad_int :: "nat \<Rightarrow> int \<Rightarrow> string" where
  "pad_int n i = padStart n CHR ''0'' (show_int i)"

definition iso_year :: "int \<Rightarrow> string" where
  "iso_year y = (if 0 \<le> y \<and> y \<le> 9999 then pad_int 4 y
     else if y < 0 then ''-'' @ pad_int 6 (- y) else ''+'' @ pad_int 6 y)"

definition toISOString :: "int \<Rightarrow> string" where
  "toISOString ms =
     (let day = ms div 86400000; t = ms mod 86400000
      in case civil_from_days day of (y, m, d) \<Rightarrow>
         iso_year y @ ''-'' @ pad_int 2 m @ ''-'' @ pad_int 2 d @ ''T'' @
         pad_int 2 (t div 3600000) @ '':'' @ pad_int 2 (t div 60000 mod 60) @ '':'' @
         pad_int 2 (t div 1000 mod 60) @ ''.'' @ pad_int 3 (t mod 1000) @ ''Z'')"

section \<open>toJsonSafe\<close>

primrec toJsonSafe :: "jsval \<Rightarrow> jsval" where
  "toJsonSafe JUndefined = JUndefined"
| "toJsonSafe JNull = JNull"
| "toJsonSafe (JBool b) = JBool b"
| "toJsonSafe (JNumber n) = JNumber n"
| "toJsonSafe (JBigInt n) = JString (show_int n)"
| "toJsonSafe (JString s) = JString s"
| "toJsonSafe (JDate t) = JString (toISOString t)"
| "toJsonSafe (JArray vs) = JArray (map toJsonSafe vs)"
| "toJsonSafe (JObject kvs) = JObject (map (map_prod id toJsonSafe) kvs)"

text \<open>What a \<open>jsonb\<close> column holds after \<open>JSON.stringify\<close>: a key whose value is \<open>undefined\<close> is
  dropped, an \<open>undefined\<close> array element becomes \<open>null\<close>.\<close>

definition null_undefined :: "jsval \<Rightarrow> jsval" where
  "null_undefined v = (case v of JUndefined \<Rightarrow> JNull | _ \<Rightarrow> v)"

primrec stored :: "jsval \<Rightarrow> jsval" where
  "stored JUndefined = JUndefined"
| "stored JNull = JNull"
| "stored (JBool b) = JBool b"
| "stored (JNumber n) = JNumber n"
| "stored (JBigInt n) = JBigInt n"
| "stored (JString s) = JString s"
| "stored (JDate t) = JDate t"
| "stored (JArray vs) = JArray (map (null_undefined \<circ> stored) vs)"
| "stored (JObject kvs) = JObject (filter (\<lambda>kv. snd kv \<noteq> JUndefined) (map (map_prod id stored) kvs))"

definition to_jsonb :: "jsval \<Rightarrow> jsval" where
  "to_jsonb v = stored (toJsonSafe v)"

text \<open>\<open>String(v)\<close>: array elements are joined by commas, with the empty string for \<open>null\<close> and
  \<open>undefined\<close>.  Dates do not occur in stored JSON; they print in ISO form here.\<close>

fun join :: "string \<Rightarrow> string list \<Rightarrow> string" where
  "join sep [] = []"
| "join sep [s] = s"
| "join sep (s # ss) = s @ sep @ join sep ss"

definition is_nullish :: "jsval \<Rightarrow> bool" where
  "is_nullish v \<longleftrightarrow> v = JUndefined \<or> v = JNull"

primrec js_string :: "jsval \<Rightarrow> string" where
  "js_string JUndefined = ''undefined''"
| "js_string JNull = ''null''"
| "js_string (JBool b) = (if b then ''true'' else ''false'')"
| "js_string (JNumber n) = show_int n"
| "js_string (JBigInt n) = show_int n"
| "js_string (JString s) = s"
| "js_string (JDate t) = toISOString t"
| "js_string (JArray vs) =
     join '','' (map (\<lambda>(v, s). if is_nullish v then [] else s) (map (\<lambda>v. (v, js_string v)) vs))"
| "js_string (JObject kvs) = ''[object Object]''"

text \<open>Truthiness of a value, \<open>a ?? b\<close> on values, and \<open>BigInt(s)\<close> on a string: white space around it
  is ignored, the empty string is zero, a sign is allowed on decimal digits, and \<open>0x\<close>, \<open>0o\<close>,
  \<open>0b\<close> introduce other bases.\<close>

fun js_truthy :: "jsval \<Rightarrow> bool" where
  "js_truthy JUndefined = False"
| "js_truthy JNull = False"
| "js_truthy (JBool b) = b"
| "js_truthy (JNumber n) = (n \<noteq> 0)"
| "js_truthy (JBigInt n) = (n \<noteq> 0)"
| "js_truthy (JString s) = (s \<noteq> [])"
| "js_truthy _ = True"

definition js_nullish :: "jsval \<Rightarrow> jsval \<Rightarrow> jsval" where
  "js_nullish a b = (if is_nullish a then b else a)"

definition base_digit :: "nat \<Rightarrow> char \<Rightarrow> nat option" where
  "base_digit b c = (let d = (if is_digit c then digit_val c
       else if is_lower c then of_char c - 87 else if is_upper c then of_char c - 55 else b)
     in if d < b then Some d else None)"

fun base_val :: "nat \<Rightarrow> nat \<Rightarrow> string \<Rightarrow> nat option" where
  "base_val b acc [] = Some acc"
| "base_val b acc (c # cs) = (case base_digit b c of None \<Rightarrow> None | Some d \<Rightarrow> base_val b (b * acc + d) cs)"

definition base_literal :: "nat \<Rightarrow> string \<Rightarrow> int option" where
  "base_literal b s = (if s = [] then None else map_option int (base_val b 0 s))"

definition bigint_of_string :: "string \<Rightarrow> int option" where
  "bigint_of_string raw = (let s = trim raw in
     if s = [] then Some 0
     else if starts_with ''0x'' s \<or> starts_with ''0X'' s then base_literal 16 (drop 2 s)
     else if starts_with ''0o'' s \<or> starts_with ''0O'' s then base_literal 8 (drop 2 s)
     else if starts_with ''0b'' s \<or> starts_with ''0B'' s then base_literal 2 (drop 2 s)
     else if starts_with ''-'' s then map_option uminus (base_literal 10 (drop 1 s))
     else if starts_with ''+'' s then base_literal 10 (drop 1 s)
     else base_literal 10 s)"

text \<open>Values \<open>JSON.stringify\<close> accepts as they are.\<close>

primrec json_safe :: "jsval \<Rightarrow> bool" where
  "json_safe JUndefined = True"
| "json_safe JNull = True"
| "json_safe (JBool b) = True"
| "json_safe (JNumber n) = True"
| "json_safe (JBigInt n) = False"
| "json_safe (JString s) = True"
| "json_safe (JDate t) = False"
| "json_safe (JArray vs) = list_all id (map json_safe vs)"
| "json_safe (JObject kvs) = list_all snd (map (map_prod id json_safe) kvs)"

lemma json_safe_toJsonSafe: "json_safe (toJsonSafe v)"
  by (induction v) (auto simp: list_all_iff)

lemma toJsonSafe_id: "json_safe v \<Longrightarrow> toJsonSafe v = v"
  by (induction v) (auto simp: list_all_iff intro!: map_idI)

lemma json_safe_null_undefined [simp]: "json_safe (null_undefined v) = json_safe v"
  by (cases v) (simp_all add: null_undefined_def)

lemma json_safe_stored: "json_safe v \<Longrightarrow> json_safe (stored v)"
proof (induction v)
  case (JArray vs)
  then show ?case by (auto simp: list_all_iff)
next
  case (JObject kvs)
  then show ?case by (fastforce simp: list_all_iff)
qed simp_all

lemma stored_defined: "null_undefined v = JUndefined \<longleftrightarrow> False" "stored (null_undefined v) = null_undefined (stored v)"
  by (cases v; simp add: null_undefined_def)+

lemma null_undefined_idem [simp]: "null_undefined (null_undefined v) = null_undefined v"
  by (cases v) (simp_all add: null_undefined_def)

lemma stored_idem: "stored (stored v) = stored v"
proof (induction v)
  case (JArray vs)
  then show ?case by (auto simp: stored_defined)
next
  case (JObject kvs)
  have "filter (\<lambda>kv. snd kv \<noteq> JUndefined) (map (map_prod id stored) (filter (\<lambda>kv. snd kv \<noteq> JUndefined) (map (map_prod id stored) kvs))) =
    filter (\<lambda>kv. snd kv \<noteq> JUndefined) (map (map_prod id stored) kvs)"
  proof -
    have "\<forall>kv \<in> set kvs. stored (stored (snd kv)) = stored (snd kv)"
      by (intro ballI JObject) (auto simp: snds.simps)
    then show ?thesis by (induction kvs) auto
  qed
  then show ?case by simp
qed simp_all


end
