(* ===== verification/Interfaces.thy ===== *)
theory Interfaces
  imports Prelude
begin

text \<open>
  The interfaces several components share, as locales: a set of commands with an invariant, a
  printer with its parser, a normaliser.  Each is interpreted on definitions of the model by
  the theory of the component that provides them.
\<close>

section \<open>Commands with an invariant\<close>

text \<open>A history is a list of commands executed one after the other; a command that throws leaves
  the state it had reached and the next command runs from there.\<close>

definition run_all :: "('c \<Rightarrow> ('s, 'r) tx) \<Rightarrow> 'c list \<Rightarrow> 's \<Rightarrow> 's" where
  "run_all exec cs s = foldl (\<lambda>t c. snd (exec c t)) s cs"

inductive reachable :: "('c \<Rightarrow> ('s, 'r) tx) \<Rightarrow> ('s \<Rightarrow> bool) \<Rightarrow> 's \<Rightarrow> bool" for exec init where
  reachable_init: "init s \<Longrightarrow> reachable exec init s"
| reachable_step: "reachable exec init s \<Longrightarrow> exec c s = (r, t) \<Longrightarrow> reachable exec init t"

lemma run_all_simps [simp]:
  "run_all exec [] s = s" "run_all exec (c # cs) s = run_all exec cs (snd (exec c s))"
  by (simp_all add: run_all_def)

lemma reachable_run_all: "reachable exec init s \<Longrightarrow> reachable exec init (run_all exec cs s)"
proof (induction cs arbitrary: s)
  case (Cons c cs)
  then show ?case by (cases "exec c s") (auto intro: reachable_step)
qed simp

lemma reachable_iff_run_all:
  "reachable exec init t \<longleftrightarrow> (\<exists>s cs. init s \<and> t = run_all exec cs s)"
proof
  show "reachable exec init t \<Longrightarrow> \<exists>s cs. init s \<and> t = run_all exec cs s"
  proof (induction rule: reachable.induct)
    case (reachable_init s)
    then show ?case by (intro exI [of _ s] exI [of _ "[]"]) simp
  next
    case (reachable_step s c r t)
    then obtain s0 cs where "init s0" "s = run_all exec cs s0" by blast
    with reachable_step.hyps show ?case
      by (intro exI [of _ s0] exI [of _ "cs @ [c]"]) (simp add: run_all_def)
  qed
qed (auto intro: reachable_run_all reachable.intros)

locale command_system =
  fixes exec :: "'c \<Rightarrow> ('s, 'r) tx" and inv :: "'s \<Rightarrow> bool"
  assumes exec_preserves: "preserves inv (exec c)"
begin

lemma run_all_inv: "inv s \<Longrightarrow> inv (run_all exec cs s)"
proof (induction cs arbitrary: s)
  case (Cons c cs)
  have "inv (snd (exec c s))" using exec_preserves Cons.prems by (simp add: preserves_def)
  with Cons.IH show ?case by simp
qed simp

lemma reachable_inv: "(\<And>s. init s \<Longrightarrow> inv s) \<Longrightarrow> reachable exec init t \<Longrightarrow> inv t"
  unfolding reachable_iff_run_all using run_all_inv by blast

end

section \<open>Printers and parsers\<close>

locale codec =
  fixes print :: "'a \<Rightarrow> string" and parse :: "string \<Rightarrow> error + 'a" and valid :: "'a \<Rightarrow> bool"
  assumes parse_print: "valid x \<Longrightarrow> parse (print x) = Inr x"
begin

lemma print_inj: "valid x \<Longrightarrow> valid y \<Longrightarrow> print x = print y \<Longrightarrow> x = y"
  by (metis parse_print sum.inject(2))

lemma parse_onto: "valid x \<Longrightarrow> \<exists>s. parse s = Inr x"
  by (rule exI [of _ "print x"]) (rule parse_print)

end

section \<open>Normalisers\<close>

locale normaliser =
  fixes normalise :: "string \<Rightarrow> string option" and canonical :: "string \<Rightarrow> bool"
  assumes normalise_canonical: "normalise raw = Some v \<Longrightarrow> canonical v"
    and normalise_fixed: "canonical v \<Longrightarrow> normalise v = Some v"
begin

lemma normalise_idem: "normalise raw = Some v \<Longrightarrow> normalise v = Some v"
  by (rule normalise_fixed) (rule normalise_canonical)

lemma range_canonical: "(\<exists>raw. normalise raw = Some v) \<longleftrightarrow> canonical v"
  using normalise_canonical normalise_fixed by blast

end

end
