(* ===== verification/Money.thy ===== *)
theory Money
  imports Interfaces
begin

text \<open>
  packages/money/src/money.ts: decimal strings and integer minor units.  \<open>parseMinor\<close> is
  modelled branch by branch, its four regular expressions as recognisers on strings;
  \<open>minorToDecimalString\<close> and \<open>minorToDisplay\<close> are the printers, \<open>Money\<close> is the value object.  The
  main results are the two round trips: what is printed is read back as the same amount.
\<close>

section \<open>Parsing\<close>

definition MINOR_UNITS_PER_UNIT :: int where "MINOR_UNITS_PER_UNIT = 100"

text \<open>The argument \<open>string | number | bigint\<close>.  A \<open>number\<close> is used only through \<open>toFixed(2)\<close>, so it
  is represented by that string, or by \<open>None\<close> when it is not finite.\<close>

datatype raw_amount = RawBigInt int | RawNumber "string option" | RawString string

definition stripGrouping :: "string \<Rightarrow> string" where
  "stripGrouping raw = filter (\<lambda>c. \<not> is_space c) raw"

text \<open>\<open>(sep \d{1,2})\<close> up to the end of the string.\<close>

definition fraction_tail :: "char \<Rightarrow> string \<Rightarrow> bool" where
  "fraction_tail sep s \<longleftrightarrow> (case s of [] \<Rightarrow> False
     | c # ds \<Rightarrow> c = sep \<and> (length ds = 1 \<or> length ds = 2) \<and> list_all is_digit ds)"

text \<open>\<open>(sep \d{3})*\<close>: the number of groups at the head of the string and what follows them.\<close>

fun groups :: "char \<Rightarrow> string \<Rightarrow> nat \<times> string" where
  "groups sep (c # d1 # d2 # d3 # rest) =
     (if c = sep \<and> is_digit d1 \<and> is_digit d2 \<and> is_digit d3
      then (case groups sep rest of (n, r) \<Rightarrow> (Suc n, r))
      else (0, c # d1 # d2 # d3 # rest))"
| "groups sep s = (0, s)"

definition grouped :: "char \<Rightarrow> string \<Rightarrow> nat \<times> string" where
  "grouped sep s = (let d = takeWhile is_digit s in
     if 1 \<le> length d \<and> length d \<le> 3 then groups sep (dropWhile is_digit s) else (0, s))"

text \<open>\<open>/^\d{1,3}(,\d{3})+(\.\d{1,2})?$/\<close>\<close>

definition matches_grouped :: "string \<Rightarrow> bool" where
  "matches_grouped s \<longleftrightarrow> (case grouped CHR '','' s of
     (n, r) \<Rightarrow> 1 \<le> n \<and> (r = [] \<or> fraction_tail CHR ''.'' r))"

text \<open>\<open>/^(?:\d{1,3}(?:\.\d{3})+(?:,\d{1,2})|\d{1,3}(?:\.\d{3}){2,})$/\<close>\<close>

definition matches_european :: "string \<Rightarrow> bool" where
  "matches_european s \<longleftrightarrow> (case grouped CHR ''.'' s of
     (n, r) \<Rightarrow> 1 \<le> n \<and> fraction_tail CHR '','' r \<or> 2 \<le> n \<and> r = [])"

text \<open>\<open>/^\d+(sep\d{1,2})?$/\<close>\<close>

definition matches_plain :: "char \<Rightarrow> string \<Rightarrow> bool" where
  "matches_plain sep s \<longleftrightarrow> (let r = dropWhile is_digit s in
     takeWhile is_digit s \<noteq> [] \<and> (r = [] \<or> fraction_tail sep r))"

definition decimal_mark :: "string \<Rightarrow> char option" where
  "decimal_mark s =
     (if matches_grouped s then Some CHR ''.''
      else if matches_european s then Some CHR '',''
      else if matches_plain CHR ''.'' s then Some CHR ''.''
      else if matches_plain CHR '','' s then Some CHR '',''
      else None)"

definition parseMinor_string :: "string \<Rightarrow> error + int" where
  "parseMinor_string raw =
     (let cleaned = stripGrouping (trim raw);
          negative = starts_with ''-'' cleaned;
          unsigned = (if negative then drop 1 cleaned else cleaned)
      in case decimal_mark unsigned of
           None \<Rightarrow> Inl (MoneyParseError (''Invalid amount: \"'' @ raw @ ''\"''))
         | Some sep \<Rightarrow>
           (let wholeRaw = takeWhile (\<lambda>c. c \<noteq> sep) unsigned;
                fraction = takeWhile (\<lambda>c. c \<noteq> sep) (drop 1 (dropWhile (\<lambda>c. c \<noteq> sep) unsigned));
                other = (if sep = CHR ''.'' then CHR '','' else CHR ''.'');
                whole = filter (\<lambda>c. c \<noteq> other) wholeRaw;
                fracPadded = take 2 (padEnd 2 CHR ''0'' fraction);
                minor = int (digits_val whole) * MINOR_UNITS_PER_UNIT + int (digits_val fracPadded)
            in Inr (if negative then - minor else minor)))"

definition parseMinor :: "raw_amount \<Rightarrow> error + int" where
  "parseMinor raw = (case raw of
     RawBigInt n \<Rightarrow> if n < 0 then Inl (MoneyParseError ''Minor units must be non-negative'') else Inr n
   | RawNumber None \<Rightarrow> Inl (MoneyParseError ''Amount must be finite'')
   | RawNumber (Some asString) \<Rightarrow> parseMinor_string asString
   | RawString s \<Rightarrow> parseMinor_string s)"

section \<open>Printing\<close>

definition minorToDecimalString :: "int \<Rightarrow> string" where
  "minorToDecimalString minor =
     (let negative = minor < 0; a = (if negative then - minor else minor);
          whole = bigint_div a MINOR_UNITS_PER_UNIT; frac = a mod MINOR_UNITS_PER_UNIT
      in (if negative then ''-'' else '''') @ show_int whole @ ''.'' @ padStart 2 CHR ''0'' (show_int frac))"

text \<open>\<open>replace(/\B(?=(\d{3})+(?!\d))/g, ",")\<close> on a digit string: a comma before every group of
  three digits counted from the right, except at the start.\<close>

function group_thousands :: "string \<Rightarrow> string" where
  "group_thousands s = (if length s \<le> 3 then s
     else group_thousands (take (length s - 3) s) @ '','' @ drop (length s - 3) s)"
  by auto
termination by (relation "measure length") auto

declare group_thousands.simps [simp del]

definition minorToDisplay :: "string \<Rightarrow> int \<Rightarrow> string" where
  "minorToDisplay currency minor =
     (let negative = minor < 0; a = (if negative then - minor else minor);
          whole = bigint_div a MINOR_UNITS_PER_UNIT; frac = a mod MINOR_UNITS_PER_UNIT
      in (if currency = ''KES'' then ''KES '' else '''') @ (if negative then ''-'' else '''') @
         group_thousands (show_int whole) @ ''.'' @ padStart 2 CHR ''0'' (show_int frac))"

section \<open>The value object\<close>

record money =
  m_currency :: string
  m_minor :: int

definition Money_new :: "raw_amount \<Rightarrow> string \<Rightarrow> error + money" where
  "Money_new raw currency = (case raw of
     RawBigInt n \<Rightarrow> Inr \<lparr> m_currency = currency, m_minor = n \<rparr>
   | _ \<Rightarrow> (case parseMinor raw of Inl e \<Rightarrow> Inl e | Inr n \<Rightarrow> Inr \<lparr> m_currency = currency, m_minor = n \<rparr>))"

definition Money_fromMinor :: "int \<Rightarrow> string \<Rightarrow> money" where
  "Money_fromMinor minor currency = \<lparr> m_currency = currency, m_minor = minor \<rparr>"

definition Money_fromDecimalString :: "string \<Rightarrow> string \<Rightarrow> error + money" where
  "Money_fromDecimalString v currency = (case parseMinor (RawString v) of
     Inl e \<Rightarrow> Inl e | Inr n \<Rightarrow> Inr (Money_fromMinor n currency))"

definition Money_zero :: "string \<Rightarrow> money" where
  "Money_zero currency = Money_fromMinor 0 currency"

text \<open>An item of \<open>Money.sum\<close> has a minor amount and perhaps a currency.\<close>

fun Money_sum_loop :: "string \<Rightarrow> int \<Rightarrow> (int \<times> string option) list \<Rightarrow> error + int" where
  "Money_sum_loop currency acc [] = Inr acc"
| "Money_sum_loop currency acc ((minor, c) # items) =
     (if nullish c ''KES'' \<noteq> currency
      then Inl (PlainError (''Currency mismatch in sum: '' @ nullish c ''KES'' @ '' vs '' @ currency))
      else Money_sum_loop currency (acc + minor) items)"

definition Money_sum :: "(int \<times> string option) list \<Rightarrow> error + money" where
  "Money_sum items = (case items of
     [] \<Rightarrow> Inr (Money_zero ''KES'')
   | (_, c) # _ \<Rightarrow> (case Money_sum_loop (nullish c ''KES'') 0 items of
       Inl e \<Rightarrow> Inl e | Inr n \<Rightarrow> Inr (Money_fromMinor n (nullish c ''KES''))))"

definition assertSameCurrency :: "money \<Rightarrow> money \<Rightarrow> 'a \<Rightarrow> error + 'a" where
  "assertSameCurrency a b v =
     (if m_currency a \<noteq> m_currency b
      then Inl (PlainError (''Currency mismatch: '' @ m_currency a @ '' vs '' @ m_currency b)) else Inr v)"

definition Money_add :: "money \<Rightarrow> money \<Rightarrow> error + money" where
  "Money_add a b = assertSameCurrency a b (Money_fromMinor (m_minor a + m_minor b) (m_currency a))"

definition Money_sub :: "money \<Rightarrow> money \<Rightarrow> error + money" where
  "Money_sub a b = assertSameCurrency a b (Money_fromMinor (m_minor a - m_minor b) (m_currency a))"

definition Money_neg :: "money \<Rightarrow> money" where
  "Money_neg a = Money_fromMinor (- m_minor a) (m_currency a)"

definition percentFloor :: "money \<Rightarrow> int \<Rightarrow> money" where
  "percentFloor a percentBps = Money_fromMinor (bigint_div (m_minor a * percentBps) 10000) (m_currency a)"

definition isZero :: "money \<Rightarrow> bool" where "isZero a \<longleftrightarrow> m_minor a = 0"
definition isNegative :: "money \<Rightarrow> bool" where "isNegative a \<longleftrightarrow> m_minor a < 0"

definition isGreaterThan :: "money \<Rightarrow> money \<Rightarrow> error + bool" where
  "isGreaterThan a b = assertSameCurrency a b (m_minor a > m_minor b)"
definition isLessThan :: "money \<Rightarrow> money \<Rightarrow> error + bool" where
  "isLessThan a b = assertSameCurrency a b (m_minor a < m_minor b)"
definition isGreaterThanOrEqual :: "money \<Rightarrow> money \<Rightarrow> error + bool" where
  "isGreaterThanOrEqual a b = assertSameCurrency a b (m_minor a \<ge> m_minor b)"
definition money_equals :: "money \<Rightarrow> money \<Rightarrow> bool" where
  "money_equals a b \<longleftrightarrow> m_currency a = m_currency b \<and> m_minor a = m_minor b"

definition toDecimalString :: "money \<Rightarrow> string" where
  "toDecimalString a = minorToDecimalString (m_minor a)"
definition toDisplay :: "money \<Rightarrow> string" where
  "toDisplay a = minorToDisplay (m_currency a) (m_minor a)"

definition toDbMinor :: "int \<Rightarrow> string" where "toDbMinor minor = show_int minor"

section \<open>What is printed is read back\<close>

lemma no_space_id:
  assumes "list_all (\<lambda>c. \<not> is_space c) s"
  shows "stripGrouping (trim s) = s"
proof -
  have "dropWhile is_space t = t" if "list_all (\<lambda>c. \<not> is_space c) t" for t
    using that by (cases t) auto
  from this [of s] this [of "rev s"] assms show ?thesis
    by (simp add: trim_def stripGrouping_def filter_id_conv) (simp add: list_all_iff)
qed

lemma digit_char_zero: "digit_char 0 = CHR ''0''"
  by code_simp

lemma two_digits:
  assumes "f < 100"
  shows "padStart 2 CHR ''0'' (show_nat f) = [digit_char (f div 10), digit_char (f mod 10)]"
proof (cases "f < 10")
  case True
  then show ?thesis by (simp add: padStart_def show_nat.simps digit_char_zero)
next
  case False
  with assms have "show_nat f = [digit_char (f div 10), digit_char (f mod 10)]"
    by (subst show_nat.simps, simp, subst show_nat.simps, simp)
  then show ?thesis by (simp add: padStart_def)
qed

text \<open>The common part of both round trips: a whole part of digits and commas, a dot, two digits.\<close>

lemma parse_body:
  assumes W: "W \<noteq> []" "is_digit (hd W)" "list_all (\<lambda>c. is_digit c \<or> c = CHR '','') W"
    and F: "length F = 2" "list_all is_digit F"
    and mark: "decimal_mark (W @ CHR ''.'' # F) = Some CHR ''.''"
  shows "parseMinor_string ((if neg then ''-'' else []) @ W @ CHR ''.'' # F) =
     Inr (let m = int (digits_val (filter (\<lambda>c. c \<noteq> CHR '','') W)) * 100 + int (digits_val F)
          in if neg then - m else m)"
proof -
  let ?u = "W @ CHR ''.'' # F"
  have space: "\<not> is_space CHR '',''" "\<not> is_space CHR ''.''" "\<not> is_space CHR ''-''"
    by (simp_all add: is_space_def)
  have "list_all (\<lambda>c. \<not> is_space c) ((if neg then ''-'' else []) @ ?u)"
    using W(3) F(2) space by (fastforce simp: list_all_iff)
  then have cleaned: "stripGrouping (trim ((if neg then ''-'' else []) @ ?u)) = (if neg then ''-'' else []) @ ?u"
    by (rule no_space_id)
  have neg: "starts_with ''-'' ((if neg then ''-'' else []) @ ?u) = neg"
    using W(1,2) by (cases W) (auto simp: starts_with_def)
  have notin: "CHR ''.'' \<notin> set W" "CHR ''.'' \<notin> set F" using W(3) F(2) by (auto simp: list_all_iff)
  then have whole: "takeWhile (\<lambda>c. c \<noteq> CHR ''.'') ?u = W"
    and frac: "takeWhile (\<lambda>c. c \<noteq> CHR ''.'') (drop 1 (dropWhile (\<lambda>c. c \<noteq> CHR ''.'') ?u)) = F"
    by (auto simp: takeWhile_append dropWhile_append takeWhile_eq_all_conv)
  show ?thesis
    unfolding parseMinor_string_def cleaned Let_def neg
    using mark F(1) whole frac by (simp add: padEnd_def MINOR_UNITS_PER_UNIT_def del: dropWhile_append2 takeWhile_append2)
qed

lemma mark_plain:
  assumes "W \<noteq> []" "list_all is_digit W" and F: "length F = 2" "list_all is_digit F"
  shows "decimal_mark (W @ CHR ''.'' # F) = Some CHR ''.''"
proof -
  have tw: "takeWhile is_digit (W @ CHR ''.'' # F) = W" "dropWhile is_digit (W @ CHR ''.'' # F) = CHR ''.'' # F"
    using assms(2) by (auto simp: list_all_iff takeWhile_append dropWhile_append takeWhile_eq_all_conv)
  obtain a b where ab: "F = [a, b]" using F(1) by (auto simp: numeral_2_eq_2 length_Suc_conv)
  have "\<not> matches_grouped (W @ CHR ''.'' # F)" "\<not> matches_european (W @ CHR ''.'' # F)"
    unfolding matches_grouped_def matches_european_def grouped_def tw Let_def by (simp_all add: ab)
  moreover have "matches_plain CHR ''.'' (W @ CHR ''.'' # F)"
    unfolding matches_plain_def tw Let_def using assms by (simp add: fraction_tail_def)
  ultimately show ?thesis by (simp add: decimal_mark_def)
qed

text \<open>The shape of a grouped whole part: a first group of one to three digits, then groups of three.\<close>

lemma group_thousands_shape:
  assumes "s \<noteq> []" and "list_all is_digit s"
  shows "\<exists>h gs. group_thousands s = h @ concat (map (\<lambda>g. CHR '','' # g) gs) \<and> s = h @ concat gs \<and>
     1 \<le> length h \<and> length h \<le> 3 \<and> list_all is_digit h \<and>
     (\<forall>g \<in> set gs. length g = 3 \<and> list_all is_digit g)"
  using assms
proof (induction s rule: group_thousands.induct)
  case (1 s)
  show ?case
  proof (cases "length s \<le> 3")
    case True
    with "1.prems" show ?thesis
      by (intro exI [of _ s] exI [of _ "[]"]) (auto simp: group_thousands.simps Suc_le_eq)
  next
    case False
    let ?k = "length s - 3"
    have "take ?k s \<noteq> []" "list_all is_digit (take ?k s)" "length (drop ?k s) = 3" "list_all is_digit (drop ?k s)"
      using False "1.prems" by (auto simp: list_all_iff dest: in_set_takeD in_set_dropD)
    moreover from "1.IH" [OF False this(1,2)] obtain h gs where
      hg: "group_thousands (take ?k s) = h @ concat (map (\<lambda>g. CHR '','' # g) gs)" "take ?k s = h @ concat gs"
      "1 \<le> length h" "length h \<le> 3" "list_all is_digit h" "\<forall>g \<in> set gs. length g = 3 \<and> list_all is_digit g"
      by blast
    moreover have "group_thousands s = group_thousands (take ?k s) @ '','' @ drop ?k s"
      using False by (subst group_thousands.simps) simp
    moreover have "s = (h @ concat gs) @ drop ?k s" by (metis append_take_drop_id hg(2))
    ultimately show ?thesis
      by (intro exI [of _ h] exI [of _ "gs @ [drop ?k s]"]) auto
  qed
qed

lemma groups_concat:
  "\<forall>g \<in> set gs. length g = 3 \<and> list_all is_digit g \<Longrightarrow> length r = 3 \<Longrightarrow>
     groups CHR '','' (concat (map (\<lambda>g. CHR '','' # g) gs) @ r) = (length gs, r)"
proof (induction gs)
  case Nil
  then obtain a b c where "r = [a, b, c]" by (auto simp: numeral_3_eq_3 length_Suc_conv)
  then show ?case by simp
next
  case (Cons g gs)
  then obtain a b c where "g = [a, b, c]" "is_digit a" "is_digit b" "is_digit c"
    by (auto simp: numeral_3_eq_3 length_Suc_conv)
  with Cons show ?case by simp
qed

lemma mark_grouped:
  assumes "s \<noteq> []" "list_all is_digit s" and F: "length F = 2" "list_all is_digit F"
  shows "decimal_mark (group_thousands s @ CHR ''.'' # F) = Some CHR ''.''"
proof -
  obtain h gs where h: "group_thousands s = h @ concat (map (\<lambda>g. CHR '','' # g) gs)"
    "1 \<le> length h" "length h \<le> 3" "list_all is_digit h" and gs: "\<forall>g \<in> set gs. length g = 3 \<and> list_all is_digit g"
    using group_thousands_shape [OF assms(1,2)] by blast
  let ?r = "concat (map (\<lambda>g. CHR '','' # g) gs) @ CHR ''.'' # F"
  show ?thesis
  proof (cases "gs = []")
    case True
    with h have "h \<noteq> []" "group_thousands s = h" by auto
    with h(4) F show ?thesis by (simp add: mark_plain)
  next
    case False
    then obtain r where "?r = CHR '','' # r" by (cases gs) auto
    then have "takeWhile is_digit (h @ ?r) = h" "dropWhile is_digit (h @ ?r) = ?r"
      using h(4) by (auto simp: list_all_iff takeWhile_append dropWhile_append)
    moreover have "groups CHR '','' ?r = (length gs, CHR ''.'' # F)"
      using gs F by (intro groups_concat) auto
    ultimately have "matches_grouped (h @ ?r)"
      using h(2,3) False F by (simp add: matches_grouped_def grouped_def Let_def fraction_tail_def Suc_le_eq)
    then show ?thesis by (simp add: decimal_mark_def h(1))
  qed
qed

lemma group_thousands_chars:
  assumes "s \<noteq> []" "list_all is_digit s"
  shows "group_thousands s \<noteq> []" "is_digit (hd (group_thousands s))"
    "list_all (\<lambda>c. is_digit c \<or> c = CHR '','') (group_thousands s)"
    "filter (\<lambda>c. c \<noteq> CHR '','') (group_thousands s) = s"
proof -
  obtain h gs where g: "group_thousands s = h @ concat (map (\<lambda>g. CHR '','' # g) gs)" "s = h @ concat gs"
    "1 \<le> length h" "list_all is_digit h" "\<forall>g \<in> set gs. length g = 3 \<and> list_all is_digit g"
    using group_thousands_shape [OF assms] by blast
  have digits: "filter (\<lambda>c. c \<noteq> CHR '','') x = x" if "list_all is_digit x" for x
    using that by (auto simp: list_all_iff filter_id_conv)
  have "filter (\<lambda>c. c \<noteq> CHR '','') (concat (map (\<lambda>g. CHR '','' # g) gs)) = concat gs"
    using g(5) by (induction gs) (auto simp: digits)
  then show "filter (\<lambda>c. c \<noteq> CHR '','') (group_thousands s) = s"
    unfolding g(1) filter_append digits [OF g(4)] by (simp only: g(2))
  show "group_thousands s \<noteq> []" "is_digit (hd (group_thousands s))"
    using g(3,4) by (cases h; simp add: g(1))+
  show "list_all (\<lambda>c. is_digit c \<or> c = CHR '','') (group_thousands s)"
    using g(4,5) by (fastforce simp: g(1) list_all_iff)
qed

lemma amount_parts:
  fixes a :: int
  assumes "0 \<le> a"
  shows "bigint_div a MINOR_UNITS_PER_UNIT = int (nat a div 100)" "a mod MINOR_UNITS_PER_UNIT = int (nat a mod 100)"
    "int (nat a div 100) * 100 + int (nat a mod 100) = a"
  using assms by (simp_all add: MINOR_UNITS_PER_UNIT_def zdiv_int zmod_int)

lemma fraction_digits:
  "length (padStart 2 CHR ''0'' (show_nat (n mod 100))) = 2"
  "list_all is_digit (padStart 2 CHR ''0'' (show_nat (n mod 100)))"
  "digits_val (padStart 2 CHR ''0'' (show_nat (n mod 100))) = n mod 100"
proof -
  have "n mod 100 div 10 < 10" "n mod 100 mod 10 < 10" by simp_all
  then show "length (padStart 2 CHR ''0'' (show_nat (n mod 100))) = 2"
    "list_all is_digit (padStart 2 CHR ''0'' (show_nat (n mod 100)))"
    "digits_val (padStart 2 CHR ''0'' (show_nat (n mod 100))) = n mod 100"
    using two_digits [of "n mod 100"] by (simp_all add: digits_val_def)
qed

lemma parse_decimal_string: "parseMinor (RawString (minorToDecimalString m)) = Inr m"
proof -
  let ?neg = "m < 0" and ?a = "if m < 0 then - m else m"
  let ?W = "show_nat (nat ?a div 100)" and ?F = "padStart 2 CHR ''0'' (show_nat (nat ?a mod 100))"
  have a: "0 \<le> ?a" by simp
  have "minorToDecimalString m = (if ?neg then ''-'' else []) @ ?W @ CHR ''.'' # ?F"
    unfolding minorToDecimalString_def Let_def amount_parts(1,2) [OF a] show_int_nat by simp
  moreover have "filter (\<lambda>c. c \<noteq> CHR '','') ?W = ?W"
    using show_nat_digits [of "nat ?a div 100"] by (auto simp: list_all_iff filter_id_conv)
  moreover have "is_digit (hd ?W)" "list_all (\<lambda>c. is_digit c \<or> c = CHR '','') ?W"
    using show_nat_digits [of "nat ?a div 100"] by (auto simp: list_all_iff)
  ultimately have "parseMinor_string (minorToDecimalString m) =
      Inr (let n = int (digits_val ?W) * 100 + int (digits_val ?F) in if ?neg then - n else n)"
    using parse_body [of ?W ?F ?neg] mark_plain [of ?W ?F] fraction_digits [of "nat ?a"] by simp
  then show ?thesis
    using amount_parts(3) [OF a] by (simp add: parseMinor_def fraction_digits(3) Let_def split: if_splits)
qed

lemma parse_display: "parseMinor (RawString (drop 4 (minorToDisplay ''KES'' m))) = Inr m"
proof -
  let ?neg = "m < 0" and ?a = "if m < 0 then - m else m"
  let ?s = "show_nat (nat ?a div 100)" and ?F = "padStart 2 CHR ''0'' (show_nat (nat ?a mod 100))"
  let ?W = "group_thousands ?s"
  have a: "0 \<le> ?a" by simp
  have "drop 4 (minorToDisplay ''KES'' m) = (if ?neg then ''-'' else []) @ ?W @ CHR ''.'' # ?F"
    unfolding minorToDisplay_def Let_def amount_parts(1,2) [OF a] show_int_nat by simp
  then have "parseMinor_string (drop 4 (minorToDisplay ''KES'' m)) =
      Inr (let n = int (digits_val ?s) * 100 + int (digits_val ?F) in if ?neg then - n else n)"
    using parse_body [of ?W ?F ?neg] mark_grouped [of ?s ?F] group_thousands_chars [of ?s]
      fraction_digits [of "nat ?a"] by simp
  then show ?thesis
    using amount_parts(3) [OF a] by (simp add: parseMinor_def fraction_digits(3) Let_def split: if_splits)
qed

interpretation decimal: codec minorToDecimalString "\<lambda>s. parseMinor (RawString s)" "\<lambda>_. True"
  by unfold_locales (rule parse_decimal_string)

interpretation display: codec "\<lambda>m. drop 4 (minorToDisplay ''KES'' m)" "\<lambda>s. parseMinor (RawString s)" "\<lambda>_. True"
  by unfold_locales (rule parse_display)

section \<open>Properties\<close>

text \<open>C38.  Round trip: reading back what \<open>minorToDecimalString\<close> prints, or what \<open>minorToDisplay\<close>
  prints after the currency prefix, with its thousands separators, gives the same amount, for
  every amount, negative ones included.\<close>

theorem money_round_trip:
  "parseMinor (RawString (minorToDecimalString m)) = Inr m \<and>
   parseMinor (RawString (drop 4 (minorToDisplay ''KES'' m))) = Inr m"
  using decimal.parse_print [of m] display.parse_print [of m] by simp

end
