(* ===== verification/Schema.thy ===== *)
theory Schema
  imports Prelude
begin

text \<open>
  The database: one record per table of packages/database/src/schema/index.ts, with the
  columns that the modelled commands read or write (a column no modelled command touches, and
  the \<open>createdAt\<close>/\<open>updatedAt\<close> stamps nobody reads, are left out), and the state \<open>db\<close> with all
  tables.  \<open>varchar\<close> columns that hold an enumeration are datatypes with the values listed in
  the schema, nullable columns are options, \<open>bigint\<close> money columns are unbounded integers
  (values beyond the 64-bit range, which PostgreSQL refuses with an error, are out of scope),
  timestamps are milliseconds since the epoch.

  Two fields of \<open>db\<close> stand for the world outside: \<open>uuid_gen\<close> is PostgreSQL's
  \<open>gen_random_uuid()\<close> as the sequence of the values it will return, of which \<open>uuid_next\<close> have
  been used, and \<open>now\<close> is the clock, which stands still during one command.
\<close>

section \<open>Wallets and ledger\<close>

datatype wallet_status = W_ACTIVE | W_FROZEN | W_CLOSED

record wallet =
  w_id :: string
  w_tenantId :: string
  w_name :: string
  w_currency :: string
  w_availableMinor :: int
  w_reservedMinor :: int
  w_status :: wallet_status
  w_createdAt :: int
  w_updatedAt :: int

datatype reservation_status = HELD | RELEASED | APPLIED

record walletReservation =
  wr_id :: string
  wr_tenantId :: string
  wr_paymentId :: string
  wr_walletId :: string
  wr_amountMinor :: int
  wr_status :: reservation_status

datatype walletLedgerEntryType = FUND | RESERVE | RESERVE_DENIED | RELEASE | APPLY

record walletLedgerEntry =
  wle_id :: string
  wle_tenantId :: string
  wle_walletId :: string
  wle_entryType :: walletLedgerEntryType
  wle_refType :: "string option"
  wle_refId :: "string option"
  wle_amountMinor :: int
  wle_deltaAvailableMinor :: int
  wle_deltaReservedMinor :: int
  wle_availableAfterMinor :: int
  wle_reservedAfterMinor :: int
  wle_note :: "string option"
  wle_createdAt :: int

record chartAccount =
  coa_id :: string
  coa_tenantId :: string
  coa_code :: string
  coa_name :: string
  coa_type :: string
  coa_isSystem :: bool

datatype account_kind = SYSTEM | WALLET

record ledgerAccount =
  la_id :: string
  la_tenantId :: string
  la_chartAccountId :: "string option"
  la_kind :: account_kind
  la_walletId :: "string option"
  la_code :: string
  la_name :: string
  la_currency :: string
  la_postedBalanceMinor :: int

record journal =
  j_id :: string
  j_tenantId :: string
  j_referenceType :: string
  j_referenceId :: string
  j_description :: string
  j_createdById :: "string option"
  j_postedAt :: int

record journalEntry =
  je_id :: string
  je_journalId :: string
  je_ledgerAccountId :: string
  je_debitMinor :: int
  je_creditMinor :: int
  je_memo :: "string option"
  je_postedAt :: int

record balanceSnapshot =
  bs_id :: string
  bs_ledgerAccountId :: string
  bs_asOf :: int
  bs_balanceMinor :: int

record fundingEvent =
  fe_id :: string
  fe_tenantId :: string
  fe_walletId :: string
  fe_amountMinor :: int
  fe_reference :: "string option"
  fe_method :: string
  fe_status :: string
  fe_createdById :: "string option"

section \<open>Payments\<close>

datatype payment_state =
    DRAFT
  | VALIDATING
  | PENDING_APPROVAL
  | APPROVED
  | REJECTED
  | QUEUED
  | PROCESSING
  | PROVIDER_PENDING
  | SUCCESS
  | FAILED
  | REVERSED
  | CANCELLED

record payment =
  p_id :: string
  p_tenantId :: string
  p_paymentNumber :: string
  p_batchId :: "string option"
  p_product :: string
  p_channel :: string
  p_amountMinor :: int
  p_feeMinor :: int
  p_totalMinor :: int
  p_currency :: string
  p_status :: payment_state
  p_sourceWalletId :: "string option"
  p_beneficiaryId :: "string option"
  p_beneficiarySnapshot :: jsval
  p_branchId :: "string option"
  p_departmentId :: "string option"
  p_category :: "string option"
  p_remark :: "string option"
  p_idempotencyKey :: "string option"
  p_providerReference :: "string option"
  p_providerStatus :: "string option"
  p_riskFlags :: "string list"
  p_approvalRequired :: bool
  p_approvedById :: "string option"
  p_approvedAt :: "int option"
  p_scheduledFor :: "int option"
  p_successAt :: "int option"
  p_failureReason :: "string option"
  p_reversalReason :: "string option"
  p_createdById :: "string option"
  p_createdAt :: int
  p_updatedAt :: int
  p_version :: int

record paymentStatusHistory =
  psh_id :: string
  psh_paymentId :: string
  psh_fromStatus :: "payment_state option"
  psh_toStatus :: payment_state
  psh_reason :: "string option"
  psh_actorId :: "string option"

record paymentAttempt =
  pa_id :: string
  pa_paymentId :: string
  pa_attemptNumber :: int
  pa_providerReference :: "string option"
  pa_status :: string
  pa_errorCode :: "string option"
  pa_errorMessage :: "string option"
  pa_latencyMs :: int
  pa_createdAt :: int

datatype idempotency_status = IR_IN_PROGRESS | IR_COMPLETED | IR_FAILED

record idempotencyRecord =
  ir_id :: string
  ir_tenantId :: string
  ir_scope :: string
  ir_key :: string
  ir_status :: idempotency_status
  ir_response :: jsval
  ir_createdAt :: int
  ir_completedAt :: "int option"

record reversal =
  rv_id :: string
  rv_tenantId :: string
  rv_paymentId :: string
  rv_amountMinor :: int
  rv_reason :: string
  rv_status :: string
  rv_createdById :: "string option"

record feeRule =
  fr_id :: string
  fr_tenantId :: "string option"
  fr_product :: string
  fr_channel :: string
  fr_provider :: string
  fr_flatFeeMinor :: int
  fr_percentBps :: int
  fr_minFeeMinor :: int
  fr_maxFeeMinor :: int
  fr_currency :: string
  fr_effectiveFrom :: "int option"
  fr_effectiveTo :: "int option"
  fr_status :: string
  fr_version :: int
  fr_changeComment :: "string option"
  fr_createdById :: "string option"
  fr_createdAt :: int

record feeCalculation =
  fc_id :: string
  fc_tenantId :: string
  fc_paymentId :: string
  fc_ruleId :: "string option"
  fc_amountMinor :: int
  fc_feeMinor :: int
  fc_currency :: string
  fc_ruleSnapshot :: jsval

record outboxEvent =
  ob_id :: string
  ob_eventType :: string
  ob_aggregateType :: string
  ob_aggregateId :: string
  ob_tenantId :: "string option"
  ob_payload :: jsval
  ob_attempts :: int
  ob_publishedAt :: "int option"
  ob_lastError :: "string option"
  ob_createdAt :: int

section \<open>Approvals and payees\<close>

datatype approval_mode = SEQUENTIAL | PARALLEL | ANY

text \<open>\<open>ApprovalContext\<close> and \<open>ApprovalRule\<close> of packages/approvals/src/policy.ts; they are also the
  content of the policy snapshot column.\<close>

record approvalContext =
  ctx_amountMinor :: int
  ctx_product :: string
  ctx_channel :: string
  ctx_branchId :: "string option"
  ctx_departmentId :: "string option"
  ctx_riskFlags :: "string list option"
  ctx_accumulatedTodayMinor :: "int option"

record approvalRule =
  rl_minAmountMinor :: "int option"
  rl_maxAmountMinor :: "int option"
  rl_products :: "string list option"
  rl_channels :: "string list option"
  rl_branchIds :: "string list option"
  rl_departmentIds :: "string list option"
  rl_riskFlags :: "string list option"
  rl_mode :: approval_mode
  rl_requiredRoles :: "string list"
  rl_minApprovers :: int
  rl_order :: int

record policySnapshot =
  sn_rules :: "approvalRule list"
  sn_context :: approvalContext
  sn_metadata :: jsval

datatype request_status =
  AR_PENDING | AR_PARTIALLY_APPROVED | AR_APPROVED | AR_REJECTED | AR_EXPIRED | AR_CANCELLED

record approvalRequest =
  ar_id :: string
  ar_tenantId :: string
  ar_paymentId :: "string option"
  ar_batchId :: "string option"
  ar_resourceType :: "string option"
  ar_resourceId :: "string option"
  ar_policyId :: "string option"
  ar_policySnapshot :: policySnapshot
  ar_status :: request_status
  ar_mode :: approval_mode
  ar_requiredApprovals :: int
  ar_currentLevel :: int
  ar_dueAt :: "int option"
  ar_createdById :: string
  ar_createdAt :: int
  ar_executedAt :: "int option"
  ar_executionError :: "string option"

datatype step_status = ST_PENDING | ST_IN_PROGRESS | ST_APPROVED | ST_REJECTED | ST_SKIPPED

record approvalStep =
  as_id :: string
  as_requestId :: string
  as_level :: int
  as_mode :: approval_mode
  as_roles :: "string list"
  as_minApprovers :: int
  as_status :: step_status

datatype decision = APPROVE | REJECT

record approvalAction =
  aa_id :: string
  aa_requestId :: string
  aa_stepId :: string
  aa_actorId :: string
  aa_decision :: decision
  aa_comment :: "string option"

record approvalDelegation =
  ad_fromUserId :: string
  ad_toUserId :: string
  ad_startsAt :: int
  ad_endsAt :: int

datatype beneficiary_status = B_PENDING | B_ACTIVE | B_REJECTED

record beneficiary =
  b_id :: string
  b_tenantId :: string
  b_type :: string
  b_name :: string
  b_phone :: "string option"
  b_email :: "string option"
  b_bankAccountName :: "string option"
  b_bankAccountNumber :: "string option"
  b_bankCode :: "string option"
  b_tillNumber :: "string option"
  b_paybillNumber :: "string option"
  b_paybillAccount :: "string option"
  b_notes :: "string option"
  b_idType :: "string option"
  b_idNumber :: "string option"
  b_kraPin :: "string option"
  b_status :: beneficiary_status
  b_createdById :: "string option"

section \<open>Compliance\<close>

datatype watchlist_kind = SANCTIONS | PEP | ADVERSE

record amlWatchlist =
  aw_id :: string
  aw_kind :: watchlist_kind
  aw_name :: string
  aw_aliases :: "string list"
  aw_active :: bool

datatype screening_result = CLEAR | HIT

datatype risk_level = LOW | MEDIUM | HIGH | CRITICAL

record kycScreening =
  ks_id :: string
  ks_tenantId :: "string option"
  ks_subjectType :: string
  ks_subjectName :: string
  ks_subjectRef :: "string option"
  ks_result :: screening_result
  ks_score :: int
  ks_matchedEntries :: "(string \<times> watchlist_kind \<times> string \<times> int) list"
  ks_paymentId :: "string option"
  ks_createdById :: "string option"

datatype case_kind = SANCTION_HIT | PEP_HIT | ADVERSE_HIT | DOC_REVIEW

datatype case_status = KC_OPEN | KC_IN_REVIEW | KC_APPROVED | KC_REJECTED | KC_CLOSED

record kycCase =
  kc_id :: string
  kc_tenantId :: "string option"
  kc_screeningId :: "string option"
  kc_paymentId :: "string option"
  kc_kind :: case_kind
  kc_status :: case_status
  kc_riskLevel :: risk_level
  kc_note :: "string option"
  kc_decidedById :: "string option"
  kc_decidedAt :: "int option"
  kc_decisionNote :: "string option"

record auditEvent =
  ae_id :: string
  ae_tenantId :: "string option"
  ae_actorId :: "string option"
  ae_actorRole :: "string option"
  ae_action :: string
  ae_resourceType :: string
  ae_resourceId :: "string option"
  ae_before :: jsval
  ae_after :: jsval
  ae_ip :: "string option"
  ae_createdAt :: int

section \<open>Batches, inbound money and reconciliation\<close>

datatype batch_status =
    BT_UPLOADED | BT_SCANNED | BT_PARSED | BT_VALIDATED | BT_IN_REVIEW | BT_SUBMITTED | BT_APPROVED
  | BT_PROCESSING | BT_COMPLETED | BT_PARTIALLY_FAILED | BT_FAILED | BT_CANCELLED

record paymentBatch =
  pb_id :: string
  pb_tenantId :: string
  pb_name :: string
  pb_channel :: string
  pb_product :: string
  pb_currency :: string
  pb_totalAmountMinor :: int
  pb_rowCount :: nat
  pb_validRowCount :: nat
  pb_errorRowCount :: nat
  pb_status :: batch_status
  pb_fileRef :: "string option"
  pb_createdById :: "string option"

datatype row_status = RW_VALID | RW_ERROR | RW_PENDING | RW_SUCCESS | RW_FAILED | RW_SKIPPED

record paymentBatchRow =
  br_id :: string
  br_batchId :: string
  br_rowNumber :: int
  br_recipientName :: string
  br_phone :: string
  br_amountMinor :: int
  br_reference :: "string option"
  br_category :: "string option"
  br_status :: row_status
  br_errorMessage :: "string option"
  br_paymentId :: "string option"

record approvalPolicy =
  ap_id :: string
  ap_tenantId :: "string option"
  ap_name :: string
  ap_description :: "string option"
  ap_rules :: jsval
  ap_version :: int
  ap_active :: bool
  ap_createdById :: "string option"

datatype webhook_status = WH_RECEIVED | WH_PROCESSED | WH_DUPLICATE | WH_FAILED | WH_UNMATCHED

record webhookEvent =
  we_id :: string
  we_tenantId :: "string option"
  we_type :: string
  we_providerEventId :: "string option"
  we_payload :: jsval
  we_signature :: "string option"
  we_status :: webhook_status
  we_processedAt :: "int option"

datatype collection_status = CO_PENDING | CO_SUCCESS | CO_FAILED | CO_CANCELLED | CO_EXPIRED

record collection =
  co_id :: string
  co_tenantId :: string
  co_collectionNumber :: string
  co_walletId :: string
  co_channel :: string
  co_status :: collection_status
  co_amountMinor :: int
  co_currency :: string
  co_accountReference :: "string option"
  co_description :: "string option"
  co_customerId :: "string option"
  co_payerName :: "string option"
  co_payerPhone :: "string option"
  co_payerIdType :: "string option"
  co_payerIdNumber :: "string option"
  co_payerKraPin :: "string option"
  co_invoiceId :: "string option"
  co_receiptId :: "string option"
  co_paymentLinkId :: "string option"
  co_providerCode :: "string option"
  co_providerReference :: "string option"
  co_receiptNumber :: "string option"
  co_failureReason :: "string option"
  co_idempotencyKey :: "string option"
  co_rawCallback :: jsval
  co_requestedById :: "string option"
  co_settledAt :: "int option"
  co_createdAt :: int

record customer =
  cu_id :: string
  cu_tenantId :: string
  cu_name :: string
  cu_phone :: "string option"
  cu_idType :: "string option"
  cu_idNumber :: "string option"
  cu_kraPin :: "string option"

record tenant =
  tn_id :: string
  tn_name :: string
  tn_status :: string
  tn_kraPin :: "string option"
  tn_collectionAccountRef :: "string option"

datatype link_status = PL_ACTIVE | PL_PAUSED | PL_CLOSED

record paymentLink =
  pl_id :: string
  pl_tenantId :: string
  pl_token :: string
  pl_name :: string
  pl_description :: "string option"
  pl_amountMinor :: int
  pl_currency :: string
  pl_channel :: string
  pl_status :: link_status
  pl_maxUses :: "int option"
  pl_useCount :: int
  pl_expiresAt :: "int option"
  pl_createdById :: "string option"
  pl_createdAt :: int

record etimsDevice =
  dv_id :: string
  dv_tenantId :: string
  dv_kraPin :: string
  dv_branchId :: string
  dv_deviceSerial :: string
  dv_driver :: string
  dv_status :: string
  dv_cmcKeyEncrypted :: "string option"
  dv_sdcId :: "string option"
  dv_mrcNo :: "string option"
  dv_taxpayerName :: "string option"
  dv_lastInvoiceNo :: int
  dv_autoReceipt :: bool
  dv_defaultTaxType :: string
  dv_lastError :: "string option"
  dv_initialisedAt :: "int option"

record etimsDocument =
  ed_id :: string
  ed_tenantId :: string
  ed_deviceId :: "string option"
  ed_docType :: string
  ed_number :: string
  ed_invoiceNo :: "int option"
  ed_originalDocumentId :: "string option"
  ed_status :: string
  ed_paymentStatus :: string
  ed_customerId :: "string option"
  ed_customerName :: "string option"
  ed_customerPhone :: "string option"
  ed_customerEmail :: "string option"
  ed_customerKraPin :: "string option"
  ed_customerIdType :: "string option"
  ed_customerIdNumber :: "string option"
  ed_lines :: jsval
  ed_taxSummary :: jsval
  ed_subtotalMinor :: int
  ed_taxMinor :: int
  ed_totalMinor :: int
  ed_paidMinor :: int
  ed_paymentMethod :: "string option"
  ed_dueAt :: "int option"
  ed_notes :: "string option"
  ed_collectionId :: "string option"
  ed_cuInvoiceNo :: "string option"
  ed_receiptNo :: "int option"
  ed_totalReceiptNo :: "int option"
  ed_internalData :: "string option"
  ed_receiptSignature :: "string option"
  ed_sdcId :: "string option"
  ed_mrcNo :: "string option"
  ed_signedAt :: "int option"
  ed_verificationUrl :: "string option"
  ed_sandbox :: bool
  ed_submissionAttempts :: int
  ed_lastError :: "string option"
  ed_requestPayload :: jsval
  ed_responsePayload :: jsval
  ed_publicToken :: "string option"
  ed_createdById :: "string option"
  ed_updatedAt :: int

record reconRun =
  rr_id :: string
  rr_tenantId :: string
  rr_periodStart :: int
  rr_periodEnd :: int
  rr_source :: string
  rr_status :: string
  rr_createdById :: "string option"
  rr_createdAt :: int

datatype recon_item_status =
  RI_PENDING | RI_MATCHED | RI_PARTIAL | RI_UNMATCHED | RI_DUPLICATE | RI_UNKNOWN

record reconItem =
  ri_id :: string
  ri_tenantId :: string
  ri_runId :: "string option"
  ri_source :: string
  ri_providerReference :: string
  ri_amountMinor :: int
  ri_currency :: string
  ri_occurredAt :: int
  ri_status :: recon_item_status
  ri_paymentId :: "string option"
  ri_notes :: "string option"
  ri_createdAt :: int

record reconMatch =
  rm_id :: string
  rm_itemId :: string
  rm_paymentId :: string
  rm_matchType :: string

datatype exception_kind = AMOUNT_MISMATCH | UNMATCHED | DUPLICATE | UNKNOWN | ORPHAN

datatype exception_status = RX_OPEN | RX_INVESTIGATING | RX_RESOLVED | RX_ESCALATED

record reconException =
  rx_id :: string
  rx_tenantId :: string
  rx_itemId :: "string option"
  rx_paymentId :: "string option"
  rx_kind :: exception_kind
  rx_severity :: string
  rx_status :: exception_status
  rx_resolution :: "string option"
  rx_resolvedById :: "string option"
  rx_resolvedAt :: "int option"
  rx_createdAt :: int
  rx_updatedAt :: int

record reconActivity =
  ra_id :: string
  ra_exceptionId :: string
  ra_tenantId :: string
  ra_actorId :: "string option"
  ra_action :: string
  ra_note :: "string option"
  ra_fromStatus :: "exception_status option"
  ra_toStatus :: "exception_status option"
  ra_createdAt :: int

section \<open>Users and access\<close>

record user =
  us_id :: string
  us_tenantId :: "string option"
  us_email :: string
  us_phone :: "string option"
  us_fullName :: string
  us_passwordHash :: "string option"
  us_status :: string
  us_mfaEnabled :: bool
  us_mfaSecretEncrypted :: "string option"
  us_failedLoginAttempts :: int
  us_lockedUntil :: "int option"
  us_lastLoginAt :: "int option"
  us_createdAt :: int

record session =
  se_id :: string
  se_userId :: string
  se_tenantId :: "string option"
  se_tokenHash :: string
  se_ip :: "string option"
  se_userAgent :: "string option"
  se_deviceName :: "string option"
  se_expiresAt :: int
  se_lastSeenAt :: int
  se_revokedAt :: "int option"
  se_createdAt :: int

record mfaFactor =
  mf_id :: string
  mf_userId :: string
  mf_secretEncrypted :: string
  mf_enabled :: bool
  mf_verifiedAt :: "int option"

record mfaBackupCode =
  bc_id :: string
  bc_userId :: string
  bc_codeHash :: string
  bc_usedAt :: "int option"

record role =
  ro_id :: string
  ro_tenantId :: "string option"
  ro_scope :: string
  ro_name :: string
  ro_isSystem :: bool

record permission =
  pm_id :: string
  pm_code :: string

record rolePermission =
  rp_roleId :: string
  rp_permissionId :: string

record userRole =
  ur_userId :: string
  ur_roleId :: string
  ur_tenantId :: string

datatype role_approval = RA_NONE | RA_PENDING | RA_APPROVED | RA_REJECTED

record invitation =
  iv_id :: string
  iv_tenantId :: string
  iv_email :: string
  iv_roleId :: string
  iv_tokenHash :: string
  iv_rawToken :: "string option"
  iv_invitedById :: "string option"
  iv_roleApprovalStatus :: role_approval
  iv_roleApprovedById :: "string option"
  iv_expiresAt :: int
  iv_acceptedAt :: "int option"
  iv_createdAt :: int

record loginEvent =
  le_id :: string
  le_userId :: "string option"
  le_event :: string
  le_ip :: "string option"
  le_createdAt :: int

record securityEvent =
  sv_id :: string
  sv_tenantId :: "string option"
  sv_userId :: "string option"
  sv_eventType :: string
  sv_severity :: string
  sv_details :: jsval
  sv_ip :: "string option"
  sv_createdAt :: int

record apiKey =
  ak_id :: string
  ak_tenantId :: string
  ak_name :: string
  ak_keyPrefix :: string
  ak_keyHash :: string
  ak_status :: string
  ak_lastUsedAt :: "int option"
  ak_createdById :: "string option"
  ak_expiresAt :: "int option"
  ak_createdAt :: int

record notification =
  nt_id :: string
  nt_tenantId :: "string option"
  nt_userId :: "string option"
  nt_channel :: string
  nt_templateCode :: "string option"
  nt_title :: "string option"
  nt_body :: "string option"
  nt_data :: jsval
  nt_sentAt :: "int option"
  nt_status :: string
  nt_createdAt :: int

section \<open>Platform configuration\<close>

record biller =
  bl_id :: string
  bl_code :: string
  bl_name :: string
  bl_category :: "string option"
  bl_channel :: string
  bl_accountNumber :: string
  bl_enabled :: bool

record airtimeProduct =
  at_id :: string
  at_providerCode :: string
  at_network :: string
  at_productCode :: string
  at_name :: string
  at_type :: string
  at_denominationMinor :: int
  at_currency :: string
  at_enabled :: bool

record feeVersion =
  fv_id :: string
  fv_feeRuleId :: string
  fv_version :: int
  fv_snapshot :: jsval
  fv_changeComment :: "string option"
  fv_createdById :: "string option"

record approvalPolicyVersion =
  pv_id :: string
  pv_policyId :: string
  pv_version :: int
  pv_rulesSnapshot :: jsval
  pv_changeComment :: "string option"
  pv_createdById :: "string option"

record featureFlag =
  ff_id :: string
  ff_key :: string
  ff_enabled :: bool
  ff_tenantId :: "string option"

section \<open>Schedules, reports and outbound webhooks\<close>

datatype schedule_status = SC_ACTIVE | SC_PAUSED | SC_COMPLETED | SC_CANCELLED

record paymentSchedule =
  ps_id :: string
  ps_tenantId :: string
  ps_name :: string
  ps_beneficiaryId :: "string option"
  ps_beneficiarySnapshot :: jsval
  ps_amountMinor :: int
  ps_currency :: string
  ps_frequency :: string
  ps_cronExpr :: "string option"
  ps_startDate :: int
  ps_endDate :: "int option"
  ps_nextRunAt :: "int option"
  ps_lastRunAt :: "int option"
  ps_status :: schedule_status
  ps_channel :: string
  ps_category :: "string option"
  ps_createdById :: "string option"

record reportSchedule =
  rs_id :: string
  rs_tenantId :: string
  rs_reportType :: string
  rs_frequency :: string
  rs_retentionDays :: int
  rs_nextRunAt :: int
  rs_active :: bool
  rs_createdById :: "string option"
  rs_createdAt :: int

record report =
  rt_id :: string
  rt_tenantId :: string
  rt_reportType :: string
  rt_status :: string
  rt_payloadRef :: "string option"
  rt_rowCount :: int
  rt_requestedById :: "string option"
  rt_scheduleId :: "string option"
  rt_completedAt :: "int option"

record fileObject =
  fo_id :: string
  fo_filename :: string
  fo_storageKey :: string
  fo_checksumSha256 :: string
  fo_scanStatus :: string

record webhookSubscription =
  ws_id :: string
  ws_tenantId :: string
  ws_url :: string
  ws_secretEncrypted :: string
  ws_secretVersion :: int
  ws_secretRotatedAt :: "int option"
  ws_events :: "string list"
  ws_status :: string
  ws_createdById :: "string option"
  ws_createdAt :: int

datatype delivery_status = WD_PENDING | WD_DELIVERED | WD_FAILED

record webhookDelivery =
  wd_id :: string
  wd_tenantId :: string
  wd_subscriptionId :: string
  wd_eventType :: string
  wd_payload :: jsval
  wd_payloadBody :: "string option"
  wd_signature :: "string option"
  wd_status :: delivery_status
  wd_attempts :: int
  wd_responseStatus :: "int option"
  wd_lastError :: "string option"
  wd_nextRetryAt :: "int option"

section \<open>The database\<close>

record db =
  uuid_gen :: "nat \<Rightarrow> string"
  uuid_next :: nat
  now :: int
  wallets :: "wallet list"
  walletReservations :: "walletReservation list"
  walletLedgerEntries :: "walletLedgerEntry list"
  chartOfAccounts :: "chartAccount list"
  ledgerAccounts :: "ledgerAccount list"
  journals :: "journal list"
  journalEntries :: "journalEntry list"
  balanceSnapshots :: "balanceSnapshot list"
  fundingEvents :: "fundingEvent list"
  payments :: "payment list"
  paymentStatusHistories :: "paymentStatusHistory list"
  paymentAttempts :: "paymentAttempt list"
  idempotencyRecords :: "idempotencyRecord list"
  reversals :: "reversal list"
  feeRules :: "feeRule list"
  feeCalculations :: "feeCalculation list"
  outboxEvents :: "outboxEvent list"
  approvalRequests :: "approvalRequest list"
  approvalSteps :: "approvalStep list"
  approvalActions :: "approvalAction list"
  approvalDelegations :: "approvalDelegation list"
  beneficiaries :: "beneficiary list"
  amlWatchlists :: "amlWatchlist list"
  kycScreenings :: "kycScreening list"
  kycCases :: "kycCase list"
  auditEvents :: "auditEvent list"
  paymentBatches :: "paymentBatch list"
  paymentBatchRows :: "paymentBatchRow list"
  approvalPolicies :: "approvalPolicy list"
  webhookEvents :: "webhookEvent list"
  collections :: "collection list"
  customers :: "customer list"
  tenants :: "tenant list"
  paymentLinks :: "paymentLink list"
  etimsDocuments :: "etimsDocument list"
  reconRuns :: "reconRun list"
  reconItems :: "reconItem list"
  reconMatches :: "reconMatch list"
  reconExceptions :: "reconException list"
  reconExceptionActivity :: "reconActivity list"
  users :: "user list"
  sessions :: "session list"
  mfaFactors :: "mfaFactor list"
  mfaBackupCodes :: "mfaBackupCode list"
  roles :: "role list"
  permissions :: "permission list"
  rolePermissions :: "rolePermission list"
  userRoles :: "userRole list"
  invitations :: "invitation list"
  loginEvents :: "loginEvent list"
  securityEvents :: "securityEvent list"
  apiKeys :: "apiKey list"
  notifications :: "notification list"
  billers :: "biller list"
  airtimeCatalog :: "airtimeProduct list"
  feeVersions :: "feeVersion list"
  approvalPolicyVersions :: "approvalPolicyVersion list"
  featureFlags :: "featureFlag list"
  paymentSchedules :: "paymentSchedule list"
  reportSchedules :: "reportSchedule list"
  reports :: "report list"
  fileObjects :: "fileObject list"
  webhookSubscriptions :: "webhookSubscription list"
  webhookDeliveries :: "webhookDelivery list"
  etimsDevices :: "etimsDevice list"

type_synonym 'a cmd = "(db, 'a) tx"

definition empty_db :: "(nat \<Rightarrow> string) \<Rightarrow> int \<Rightarrow> db" where
  "empty_db gen t = \<lparr> uuid_gen = gen, uuid_next = 0, now = t,
     wallets = [], walletReservations = [], walletLedgerEntries = [], chartOfAccounts = [],
     ledgerAccounts = [], journals = [], journalEntries = [], balanceSnapshots = [],
     fundingEvents = [], payments = [], paymentStatusHistories = [], paymentAttempts = [],
     idempotencyRecords = [], reversals = [], feeRules = [], feeCalculations = [],
     outboxEvents = [], approvalRequests = [], approvalSteps = [], approvalActions = [],
     approvalDelegations = [], beneficiaries = [], amlWatchlists = [], kycScreenings = [],
     kycCases = [], auditEvents = [], paymentBatches = [], paymentBatchRows = [],
     approvalPolicies = [], webhookEvents = [], collections = [], customers = [], tenants = [],
     paymentLinks = [], etimsDocuments = [], reconRuns = [], reconItems = [], reconMatches = [],
     reconExceptions = [], reconExceptionActivity = [],
     users = [], sessions = [], mfaFactors = [], mfaBackupCodes = [], roles = [], permissions = [],
     rolePermissions = [], userRoles = [], invitations = [], loginEvents = [], securityEvents = [],
     apiKeys = [], notifications = [], billers = [], airtimeCatalog = [], feeVersions = [],
     approvalPolicyVersions = [], featureFlags = [], paymentSchedules = [], reportSchedules = [],
     reports = [], fileObjects = [], webhookSubscriptions = [], webhookDeliveries = [], etimsDevices = [] \<rparr>"

text \<open>\<open>uuid("id").primaryKey().defaultRandom()\<close>: the id of a new row.\<close>

definition fresh_id :: "string cmd" where
  "fresh_id s = (Inr (uuid_gen s (uuid_next s)), s\<lparr>uuid_next := Suc (uuid_next s)\<rparr>)"

lemma fresh_id_ok [tx_ok]:
  "fresh_id s = (Inr x, t) \<longleftrightarrow>
     x = uuid_gen s (uuid_next s) \<and> t = s\<lparr>uuid_next := Suc (uuid_next s)\<rparr>"
  by (auto simp: fresh_id_def)

lemma fresh_id_err [tx_err]: "fresh_id s = (Inl e, t) \<longleftrightarrow> False"
  by (simp add: fresh_id_def)

text \<open>The ids handed out so far.\<close>

definition used_ids :: "db \<Rightarrow> string set" where
  "used_ids s = uuid_gen s ` {..< uuid_next s}"

text \<open>The documented behaviour of \<open>gen_random_uuid()\<close> the uniqueness results rest on: it does not
  repeat a value.\<close>

definition uuids_distinct :: "db \<Rightarrow> bool" where
  "uuids_distinct s \<longleftrightarrow> inj (uuid_gen s)"

lemma fresh_not_used: "uuids_distinct s \<Longrightarrow> uuid_gen s (uuid_next s) \<notin> used_ids s"
  by (auto simp: uuids_distinct_def used_ids_def inj_def)

text \<open>An id generator for examples, one that provably never repeats.\<close>

definition unary_id :: "nat \<Rightarrow> string" where
  "unary_id n = replicate (Suc n) CHR ''u''"

lemma inj_unary_id [simp]: "inj unary_id"
  by (rule injI) (auto simp: unary_id_def dest: arg_cong [where f = length])

end
