(* ===== verification/Ledger.thy ===== *)
theory Ledger
  imports Schema
begin

text \<open>
  packages/ledger: the double-entry ledger (ledger.ts), the wallets with their reservations
  and append-only movement log (wallet.ts), and the health check (health.ts), together with
  the integrity triggers of custom-migrations/001 and 011 that run inside their statements.
  The results about these commands are in \<open>Ledger_Invariants\<close>.
\<close>

section \<open>Statements with triggers\<close>

text \<open>\<open>UPDATE wallets\<close> runs \<open>zf_assert_non_negative_minor\<close> on every changed row, and drizzle sets
  \<open>updated_at\<close>.  The updated rows are returned.\<close>

definition updateWallets :: "(wallet \<Rightarrow> bool) \<Rightarrow> (wallet \<Rightarrow> wallet) \<Rightarrow> wallet list cmd" where
  "updateWallets P f s =
     (let g = (\<lambda>w. (f w)\<lparr>w_updatedAt := now s\<rparr>);
          rows = map g (filter P (wallets s))
      in if list_all (\<lambda>w. 0 \<le> w_availableMinor w \<and> 0 \<le> w_reservedMinor w) rows
         then (Inr rows, s\<lparr>wallets := update_rows P g (wallets s)\<rparr>)
         else (Inl (DbTrigger ''zf_assert_non_negative_minor''), s))"

text \<open>\<open>INSERT INTO journal_entries\<close>: \<open>zf_assert_journal_entry_valid\<close> before, the foreign keys, and
  \<open>zf_sync_ledger_account_balance\<close> after the insert.\<close>

definition journal_entry_valid :: "int \<Rightarrow> int \<Rightarrow> bool" where
  "journal_entry_valid debit credit \<longleftrightarrow>
     \<not> (debit < 0 \<or> credit < 0) \<and>
     \<not> (debit = 0 \<and> credit = 0 \<or> 0 < debit \<and> 0 < credit)"

definition sync_ledger_account_balance :: "journalEntry \<Rightarrow> ledgerAccount list \<Rightarrow> ledgerAccount list" where
  "sync_ledger_account_balance e =
     update_rows (\<lambda>a. la_id a = je_ledgerAccountId e)
       (\<lambda>a. a\<lparr>la_postedBalanceMinor :=
                la_postedBalanceMinor a + (je_debitMinor e - je_creditMinor e)\<rparr>)"

definition insertJournalEntry :: "string \<Rightarrow> string \<Rightarrow> int \<Rightarrow> int \<Rightarrow> string option \<Rightarrow> unit cmd" where
  "insertJournalEntry journalId accountId debit credit memo =
     bind fresh_id (\<lambda>eid.
     seq (guard (journal_entry_valid debit credit) (DbTrigger ''zf_assert_journal_entry_valid''))
     (bind (gets (\<lambda>s. journalId \<in> j_id ` set (journals s))) (\<lambda>hasJournal.
     seq (guard hasJournal (DbForeignKey ''journal_entries.journal_id''))
     (bind (gets (\<lambda>s. accountId \<in> la_id ` set (ledgerAccounts s))) (\<lambda>hasAccount.
     seq (guard hasAccount (DbForeignKey ''journal_entries.ledger_account_id''))
     (modify (\<lambda>s.
        let e = \<lparr> je_id = eid, je_journalId = journalId, je_ledgerAccountId = accountId,
                  je_debitMinor = debit, je_creditMinor = credit, je_memo = memo,
                  je_postedAt = now s \<rparr>
        in s\<lparr>journalEntries := journalEntries s @ [e],
             ledgerAccounts := sync_ledger_account_balance e (ledgerAccounts s)\<rparr>)))))))"

text \<open>The deltas \<open>zf_assert_wallet_ledger_entry\<close> requires for each entry type.\<close>

fun entry_deltas_ok :: "walletLedgerEntryType \<Rightarrow> int \<Rightarrow> int \<Rightarrow> int \<Rightarrow> bool" where
  "entry_deltas_ok FUND amount da dr \<longleftrightarrow> da = amount \<and> dr = 0"
| "entry_deltas_ok RESERVE amount da dr \<longleftrightarrow> da = - amount \<and> dr = amount"
| "entry_deltas_ok RELEASE amount da dr \<longleftrightarrow> da = amount \<and> dr = - amount"
| "entry_deltas_ok APPLY amount da dr \<longleftrightarrow> da = 0 \<and> dr = - amount"
| "entry_deltas_ok RESERVE_DENIED amount da dr \<longleftrightarrow> da = 0 \<and> dr = 0"

definition assert_wallet_ledger_entry :: "walletLedgerEntry \<Rightarrow> db \<Rightarrow> bool" where
  "assert_wallet_ledger_entry e s \<longleftrightarrow>
     0 \<le> wle_amountMinor e \<and>
     (case find (\<lambda>w. w_id w = wle_walletId e) (wallets s) of
        None \<Rightarrow> False
      | Some w \<Rightarrow> wle_availableAfterMinor e = w_availableMinor w
                \<and> wle_reservedAfterMinor e = w_reservedMinor w) \<and>
     entry_deltas_ok (wle_entryType e) (wle_amountMinor e)
       (wle_deltaAvailableMinor e) (wle_deltaReservedMinor e)"

section \<open>ledger.ts\<close>

definition WALLET_CODE :: string where "WALLET_CODE = ''1000''"
definition PAYMENT_CLEARING :: string where "PAYMENT_CLEARING = ''1200''"
definition FLOAT_LIABILITY :: string where "FLOAT_LIABILITY = ''2000''"
definition FEE_REVENUE :: string where "FEE_REVENUE = ''4000''"
definition PROVIDER_SETTLEMENT :: string where "PROVIDER_SETTLEMENT = ''5000''"

lemmas SYSTEM_CHART = WALLET_CODE_def PAYMENT_CLEARING_def FLOAT_LIABILITY_def FEE_REVENUE_def
  PROVIDER_SETTLEMENT_def

record journalEntryInput =
  jei_ledgerAccountId :: string
  jei_debitMinor :: "int option"
  jei_creditMinor :: "int option"
  jei_memo :: "string option"

record postJournalInput =
  pji_tenantId :: string
  pji_referenceType :: string
  pji_referenceId :: string
  pji_description :: string
  pji_entries :: "journalEntryInput list"
  pji_actorId :: "string option"

definition chartDefs :: "(string \<times> string \<times> string) list" where
  "chartDefs =
     [(WALLET_CODE, ''Cash '' @ em_dash @ '' Wallets'', ''ASSET''),
      (PAYMENT_CLEARING, ''Payment Clearing'', ''ASSET''),
      (FLOAT_LIABILITY, ''Customer Float Liabilities'', ''LIABILITY''),
      (FEE_REVENUE, ''Fee Revenue'', ''REVENUE''),
      (PROVIDER_SETTLEMENT, ''Provider Settlement'', ''LIABILITY'')]"

text \<open>\<open>onConflictDoNothing\<close> on the unique index \<open>(tenant_id, code)\<close>: a conflicting row is skipped.\<close>

definition insertChartAccount :: "string \<Rightarrow> string \<times> string \<times> string \<Rightarrow> unit cmd" where
  "insertChartAccount tenantId d = (case d of (code, name, typ) \<Rightarrow>
     bind fresh_id (\<lambda>cid.
     modify (\<lambda>s.
       if \<exists>c \<in> set (chartOfAccounts s). coa_tenantId c = tenantId \<and> coa_code c = code then s
       else s\<lparr>chartOfAccounts := chartOfAccounts s @
              [\<lparr> coa_id = cid, coa_tenantId = tenantId, coa_code = code, coa_name = name,
                 coa_type = typ, coa_isSystem = True \<rparr>]\<rparr>)))"

definition insertSystemAccount :: "string \<Rightarrow> string \<times> string \<times> string \<Rightarrow> unit cmd" where
  "insertSystemAccount tenantId d = (case d of (code, name, typ) \<Rightarrow>
     bind fresh_id (\<lambda>aid.
     modify (\<lambda>s.
       if \<exists>a \<in> set (ledgerAccounts s). la_tenantId a = tenantId \<and> la_code a = code then s
       else s\<lparr>ledgerAccounts := ledgerAccounts s @
              [\<lparr> la_id = aid, la_tenantId = tenantId, la_chartAccountId = None,
                 la_kind = SYSTEM, la_walletId = None, la_code = code, la_name = name,
                 la_currency = ''KES'', la_postedBalanceMinor = 0 \<rparr>]\<rparr>)))"

definition ensureSystemChart :: "string \<Rightarrow> unit cmd" where
  "ensureSystemChart tenantId = transaction
     (seq (forEachM chartDefs (insertChartAccount tenantId))
          (forEachM chartDefs (insertSystemAccount tenantId)))"

definition getSystemAccount :: "string \<Rightarrow> string \<Rightarrow> ledgerAccount cmd" where
  "getSystemAccount tenantId code =
     bind (gets (\<lambda>s. find (\<lambda>a. la_tenantId a = tenantId \<and> la_code a = code) (ledgerAccounts s)))
       (\<lambda>row. require row (AccountNotFoundError (code @ '' (tenant '' @ tenantId @ '')'')))"

text \<open>
  \<open>getWalletLedgerAccount\<close> calls itself when the insert met a conflict.  Nothing changes between
  the two calls of a sequential run, so the recursion is given fuel; \<open>OutOfFuel\<close> stands for
  the call that never returns.  The insert skips a row that collides on \<open>(tenant_id, code)\<close> or
  on \<open>wallet_id\<close>.
\<close>

fun getWalletLedgerAccount_fuel :: "nat \<Rightarrow> string \<Rightarrow> string \<Rightarrow> ledgerAccount cmd" where
  "getWalletLedgerAccount_fuel 0 walletId tenantId = throw OutOfFuel"
| "getWalletLedgerAccount_fuel (Suc fuel) walletId tenantId =
     bind (gets (\<lambda>s. find (\<lambda>a. la_walletId a = Some walletId) (ledgerAccounts s))) (\<lambda>existing.
     case existing of
       Some a \<Rightarrow> return a
     | None \<Rightarrow>
       bind (gets (\<lambda>s. find (\<lambda>w. w_id w = walletId) (wallets s))) (\<lambda>row.
       bind (require row (AccountNotFoundError (''wallet '' @ walletId))) (\<lambda>wallet.
       seq (guard (w_tenantId wallet = tenantId) (AccountNotFoundError (''wallet '' @ walletId)))
       (bind fresh_id (\<lambda>aid.
        let code = ''wallet:'' @ walletId;
            created = \<lparr> la_id = aid, la_tenantId = tenantId, la_chartAccountId = None,
                        la_kind = WALLET, la_walletId = Some walletId, la_code = code,
                        la_name = ''Wallet '' @ em_dash @ '' '' @ w_name wallet,
                        la_currency = w_currency wallet, la_postedBalanceMinor = 0 \<rparr>
        in bind (gets (\<lambda>s. \<exists>a \<in> set (ledgerAccounts s).
                   (la_tenantId a = tenantId \<and> la_code a = code) \<or> la_walletId a = Some walletId))
           (\<lambda>conflict.
             if conflict then getWalletLedgerAccount_fuel fuel walletId tenantId
             else seq (modify (\<lambda>s. s\<lparr>ledgerAccounts := ledgerAccounts s @ [created]\<rparr>))
                      (return created)))))))"

definition getWalletLedgerAccount :: "string \<Rightarrow> string \<Rightarrow> ledgerAccount cmd" where
  "getWalletLedgerAccount walletId tenantId = getWalletLedgerAccount_fuel 2 walletId tenantId"

text \<open>\<open>postJournal\<close>: the totals first, then the journal row, then the entries one by one, then a
  balance snapshot of every affected account.\<close>

definition debitTotal :: "journalEntryInput list \<Rightarrow> int" where
  "debitTotal es = sum_list (map (\<lambda>e. nullish (jei_debitMinor e) 0) es)"

definition creditTotal :: "journalEntryInput list \<Rightarrow> int" where
  "creditTotal es = sum_list (map (\<lambda>e. nullish (jei_creditMinor e) 0) es)"

definition insertSnapshot :: "ledgerAccount \<Rightarrow> unit cmd" where
  "insertSnapshot acc = bind fresh_id (\<lambda>sid.
     modify (\<lambda>s. s\<lparr>balanceSnapshots := balanceSnapshots s @
       [\<lparr> bs_id = sid, bs_ledgerAccountId = la_id acc, bs_asOf = now s,
          bs_balanceMinor = la_postedBalanceMinor acc \<rparr>]\<rparr>))"

definition postJournalEntry :: "string \<Rightarrow> journalEntryInput \<Rightarrow> unit cmd" where
  "postJournalEntry journalId entry =
     (let debit = nullish (jei_debitMinor entry) 0; credit = nullish (jei_creditMinor entry) 0
      in seq (guard (\<not> ((0 < debit) = (0 < credit)))
               (JournalUnbalancedError ''entry must be purely debit or credit''))
             (insertJournalEntry journalId (jei_ledgerAccountId entry) debit credit (jei_memo entry)))"

definition postJournal :: "postJournalInput \<Rightarrow> string cmd" where
  "postJournal input = transaction (
     let debits = debitTotal (pji_entries input); credits = creditTotal (pji_entries input) in
     seq (guard (debits = credits)
            (JournalUnbalancedError (''debits '' @ show_int debits @ '' != credits '' @ show_int credits)))
     (seq (guard (\<not> debits \<le> 0) (JournalUnbalancedError ''zero-value journal''))
     (bind fresh_id (\<lambda>jid.
      seq (modify (\<lambda>s. s\<lparr>journals := journals s @
             [\<lparr> j_id = jid, j_tenantId = pji_tenantId input,
                j_referenceType = pji_referenceType input, j_referenceId = pji_referenceId input,
                j_description = pji_description input, j_createdById = pji_actorId input,
                j_postedAt = now s \<rparr>]\<rparr>))
      (seq (forEachM (pji_entries input) (postJournalEntry jid))
      (bind (gets (\<lambda>s. filter (\<lambda>a. la_id a \<in> set (map jei_ledgerAccountId (pji_entries input)))
                       (ledgerAccounts s))) (\<lambda>accounts.
       seq (forEachM accounts insertSnapshot)
           (return jid))))))))"

section \<open>wallet.ts\<close>

record walletBalance =
  wb_walletId :: string
  wb_availableMinor :: int
  wb_reservedMinor :: int
  wb_totalMinor :: int

record ledgerEntryInput =
  lei_tenantId :: string
  lei_walletId :: string
  lei_entryType :: walletLedgerEntryType
  lei_refType :: "string option"
  lei_refId :: "string option"
  lei_amountMinor :: int
  lei_deltaAvailableMinor :: int
  lei_deltaReservedMinor :: int
  lei_note :: "string option"

definition appendWalletLedgerEntry :: "ledgerEntryInput \<Rightarrow> unit cmd" where
  "appendWalletLedgerEntry input =
     bind (gets (\<lambda>s. find (\<lambda>w. w_id w = lei_walletId input) (wallets s))) (\<lambda>row.
     bind (require row (LedgerError (''Wallet not found: '' @ lei_walletId input) ''WALLET_NOT_FOUND''))
       (\<lambda>wallet.
     bind fresh_id (\<lambda>eid.
     bind (gets now) (\<lambda>t.
     let e = \<lparr> wle_id = eid, wle_tenantId = lei_tenantId input, wle_walletId = lei_walletId input,
               wle_entryType = lei_entryType input, wle_refType = lei_refType input,
               wle_refId = lei_refId input, wle_amountMinor = lei_amountMinor input,
               wle_deltaAvailableMinor = lei_deltaAvailableMinor input,
               wle_deltaReservedMinor = lei_deltaReservedMinor input,
               wle_availableAfterMinor = w_availableMinor wallet,
               wle_reservedAfterMinor = w_reservedMinor wallet,
               wle_note = lei_note input, wle_createdAt = t \<rparr>
     in bind (gets (assert_wallet_ledger_entry e)) (\<lambda>ok.
        seq (guard ok (DbTrigger ''zf_assert_wallet_ledger_entry''))
            (modify (\<lambda>s. s\<lparr>walletLedgerEntries := walletLedgerEntries s @ [e]\<rparr>)))))))"

definition listWalletLedgerEntries ::
  "string \<Rightarrow> int option \<Rightarrow> walletLedgerEntryType option \<Rightarrow> walletLedgerEntry list cmd" where
  "listWalletLedgerEntries walletId limit entryType =
     gets (\<lambda>s. take (nat (min (nullish limit 50) 500))
       (sort_key (\<lambda>e. - wle_createdAt e)
         (filter (\<lambda>e. wle_walletId e = walletId \<and>
             (case entryType of None \<Rightarrow> True | Some ty \<Rightarrow> wle_entryType e = ty))
           (walletLedgerEntries s))))"

definition countDeniedReservations :: "string \<Rightarrow> nat cmd" where
  "countDeniedReservations walletId =
     gets (\<lambda>s. length (filter (\<lambda>e. wle_walletId e = walletId \<and> wle_entryType e = RESERVE_DENIED)
       (walletLedgerEntries s)))"

definition balance_of :: "wallet \<Rightarrow> walletBalance" where
  "balance_of w = \<lparr> wb_walletId = w_id w, wb_availableMinor = w_availableMinor w,
     wb_reservedMinor = w_reservedMinor w,
     wb_totalMinor = w_availableMinor w + w_reservedMinor w \<rparr>"

definition getWalletBalance :: "string \<Rightarrow> string \<Rightarrow> walletBalance cmd" where
  "getWalletBalance walletId tenantId =
     bind (gets (\<lambda>s. find (\<lambda>w. w_id w = walletId \<and> w_tenantId w = tenantId) (wallets s))) (\<lambda>row.
     bind (require row (LedgerError (''Wallet not found: '' @ walletId) ''WALLET_NOT_FOUND'')) (\<lambda>w.
     return (balance_of w)))"

definition recordWalletFunding ::
  "string \<Rightarrow> string \<Rightarrow> string option \<Rightarrow> string option \<Rightarrow> int \<Rightarrow> string option \<Rightarrow> unit cmd" where
  "recordWalletFunding tenantId walletId refType refId amountMinor note =
     appendWalletLedgerEntry
       \<lparr> lei_tenantId = tenantId, lei_walletId = walletId, lei_entryType = FUND,
         lei_refType = refType, lei_refId = refId, lei_amountMinor = amountMinor,
         lei_deltaAvailableMinor = amountMinor, lei_deltaReservedMinor = 0, lei_note = note \<rparr>"

text \<open>The first transaction of \<open>reserveFunds\<close>; \<open>None\<close> is the \<open>denied\<close> outcome.  The insert into
  \<open>wallet_reservations\<close> is subject to its foreign key to \<open>payments\<close> and to the unique index on
  \<open>payment_id\<close>.\<close>

definition insertReservation :: "string \<Rightarrow> string \<Rightarrow> string \<Rightarrow> int \<Rightarrow> string cmd" where
  "insertReservation tenantId paymentId walletId amountMinor =
     bind fresh_id (\<lambda>rid.
     bind (gets (\<lambda>s. paymentId \<in> p_id ` set (payments s))) (\<lambda>hasPayment.
     seq (guard hasPayment (DbForeignKey ''wallet_reservations.payment_id''))
     (bind (gets (\<lambda>s. paymentId \<in> wr_paymentId ` set (walletReservations s))) (\<lambda>taken.
      seq (guard (\<not> taken) (DbUnique ''wallet_reservations_payment_uidx''))
      (seq (modify (\<lambda>s. s\<lparr>walletReservations := walletReservations s @
             [\<lparr> wr_id = rid, wr_tenantId = tenantId, wr_paymentId = paymentId,
                wr_walletId = walletId, wr_amountMinor = amountMinor, wr_status = HELD \<rparr>]\<rparr>))
           (return rid))))))"

definition reserveFunds_attempt ::
  "string \<Rightarrow> string \<Rightarrow> string \<Rightarrow> int \<Rightarrow> (string \<times> walletBalance) option cmd" where
  "reserveFunds_attempt tenantId paymentId walletId amountMinor = transaction (
     bind (updateWallets
             (\<lambda>w. w_id w = walletId \<and> w_tenantId w = tenantId \<and> amountMinor \<le> w_availableMinor w)
             (\<lambda>w. w\<lparr>w_availableMinor := w_availableMinor w - amountMinor,
                     w_reservedMinor := w_reservedMinor w + amountMinor\<rparr>)) (\<lambda>updated.
     case updated of
       [] \<Rightarrow> return None
     | w # _ \<Rightarrow>
       bind (insertReservation tenantId paymentId walletId amountMinor) (\<lambda>rid.
       seq (appendWalletLedgerEntry
             \<lparr> lei_tenantId = tenantId, lei_walletId = walletId, lei_entryType = RESERVE,
               lei_refType = Some ''payment'', lei_refId = Some paymentId,
               lei_amountMinor = amountMinor, lei_deltaAvailableMinor = - amountMinor,
               lei_deltaReservedMinor = amountMinor, lei_note = Some (''reservation '' @ rid) \<rparr>)
           (return (Some (rid, (balance_of w)\<lparr>wb_walletId := walletId\<rparr>))))))"

definition reserveFunds :: "string \<Rightarrow> string \<Rightarrow> string \<Rightarrow> int \<Rightarrow> (string \<times> walletBalance) cmd" where
  "reserveFunds tenantId paymentId walletId amountMinor =
     bind (reserveFunds_attempt tenantId paymentId walletId amountMinor) (\<lambda>attempt.
     case attempt of
       Some r \<Rightarrow> return r
     | None \<Rightarrow>
       seq (transaction (appendWalletLedgerEntry
             \<lparr> lei_tenantId = tenantId, lei_walletId = walletId, lei_entryType = RESERVE_DENIED,
               lei_refType = Some ''payment'', lei_refId = Some paymentId,
               lei_amountMinor = amountMinor, lei_deltaAvailableMinor = 0,
               lei_deltaReservedMinor = 0,
               lei_note = Some ''denied: available balance insufficient'' \<rparr>))
           (throw (InsufficientFundsError walletId)))"

definition setReservationStatus :: "string \<Rightarrow> reservation_status \<Rightarrow> unit cmd" where
  "setReservationStatus reservationId st =
     modify (\<lambda>s. s\<lparr>walletReservations :=
       update_rows (\<lambda>r. wr_id r = reservationId) (\<lambda>r. r\<lparr>wr_status := st\<rparr>) (walletReservations s)\<rparr>)"

definition releaseReservation :: "string \<Rightarrow> unit cmd" where
  "releaseReservation reservationId = transaction (
     bind (gets (\<lambda>s. find (\<lambda>r. wr_id r = reservationId) (walletReservations s))) (\<lambda>row.
     case row of
       None \<Rightarrow> return ()
     | Some res \<Rightarrow>
       if wr_status res \<noteq> HELD then return ()
       else
         seq (updateWallets (\<lambda>w. w_id w = wr_walletId res)
               (\<lambda>w. w\<lparr>w_availableMinor := w_availableMinor w + wr_amountMinor res,
                       w_reservedMinor := w_reservedMinor w - wr_amountMinor res\<rparr>))
         (seq (setReservationStatus reservationId RELEASED)
              (appendWalletLedgerEntry
                \<lparr> lei_tenantId = wr_tenantId res, lei_walletId = wr_walletId res,
                  lei_entryType = RELEASE, lei_refType = Some ''payment'',
                  lei_refId = Some (wr_paymentId res), lei_amountMinor = wr_amountMinor res,
                  lei_deltaAvailableMinor = wr_amountMinor res,
                  lei_deltaReservedMinor = - wr_amountMinor res,
                  lei_note = Some (''reservation '' @ reservationId) \<rparr>))))"

definition applyReservation :: "string \<Rightarrow> unit cmd" where
  "applyReservation reservationId = transaction (
     bind (gets (\<lambda>s. find (\<lambda>r. wr_id r = reservationId) (walletReservations s))) (\<lambda>row.
     case row of
       None \<Rightarrow> return ()
     | Some res \<Rightarrow>
       if wr_status res \<noteq> HELD then return ()
       else
         seq (updateWallets (\<lambda>w. w_id w = wr_walletId res)
               (\<lambda>w. w\<lparr>w_reservedMinor := w_reservedMinor w - wr_amountMinor res\<rparr>))
         (seq (setReservationStatus reservationId APPLIED)
              (appendWalletLedgerEntry
                \<lparr> lei_tenantId = wr_tenantId res, lei_walletId = wr_walletId res,
                  lei_entryType = APPLY, lei_refType = Some ''payment'',
                  lei_refId = Some (wr_paymentId res), lei_amountMinor = wr_amountMinor res,
                  lei_deltaAvailableMinor = 0,
                  lei_deltaReservedMinor = - wr_amountMinor res,
                  lei_note = Some (''reservation '' @ reservationId) \<rparr>))))"

definition debit_entry :: "string \<Rightarrow> int \<Rightarrow> string \<Rightarrow> journalEntryInput" where
  "debit_entry account amount memo =
     \<lparr> jei_ledgerAccountId = account, jei_debitMinor = Some amount, jei_creditMinor = Some 0,
       jei_memo = Some memo \<rparr>"

definition credit_entry :: "string \<Rightarrow> int \<Rightarrow> string \<Rightarrow> journalEntryInput" where
  "credit_entry account amount memo =
     \<lparr> jei_ledgerAccountId = account, jei_debitMinor = Some 0, jei_creditMinor = Some amount,
       jei_memo = Some memo \<rparr>"

definition postPaymentSuccessJournal ::
  "string \<Rightarrow> string \<Rightarrow> string option \<Rightarrow> int \<Rightarrow> int \<Rightarrow> string option \<Rightarrow> unit cmd" where
  "postPaymentSuccessJournal tenantId paymentId walletId amountMinor feeMinor actorId =
     bind (getSystemAccount tenantId PAYMENT_CLEARING) (\<lambda>clearingAcc.
     let entries0 = [debit_entry (la_id clearingAcc) (amountMinor + feeMinor) ''payment amount + fee''] in
     bind (if truthy walletId
           then bind (getWalletLedgerAccount (the walletId) tenantId) (\<lambda>walletAcc.
                  return (entries0 @ [credit_entry (la_id walletAcc) amountMinor ''principal'']))
           else bind (getSystemAccount tenantId FLOAT_LIABILITY) (\<lambda>floatAcc.
                  return (entries0 @ [credit_entry (la_id floatAcc) amountMinor ''principal (float)''])))
       (\<lambda>entries1.
     bind (if 0 < feeMinor
           then bind (getSystemAccount tenantId FEE_REVENUE) (\<lambda>feeAcc.
                  return (entries1 @ [credit_entry (la_id feeAcc) feeMinor ''fee revenue'']))
           else return entries1) (\<lambda>entries.
     seq (postJournal \<lparr> pji_tenantId = tenantId, pji_referenceType = ''payment'',
            pji_referenceId = paymentId,
            pji_description = (if truthy walletId
              then ''Payment success '' @ em_dash @ '' wallet '' @ the walletId
              else ''Payment success '' @ em_dash @ '' float (batch)''),
            pji_entries = entries, pji_actorId = actorId \<rparr>)
         (return ()))))"

definition postReversalJournal ::
  "string \<Rightarrow> string \<Rightarrow> string option \<Rightarrow> int \<Rightarrow> string option \<Rightarrow> unit cmd" where
  "postReversalJournal tenantId paymentId walletId amountMinor actorId =
     bind (getSystemAccount tenantId PAYMENT_CLEARING) (\<lambda>clearingAcc.
     bind (if truthy walletId
           then bind (getWalletLedgerAccount (the walletId) tenantId) (\<lambda>walletAcc.
                  return [debit_entry (la_id walletAcc) amountMinor ''reversed principal''])
           else bind (getSystemAccount tenantId FLOAT_LIABILITY) (\<lambda>floatAcc.
                  return [debit_entry (la_id floatAcc) amountMinor ''reversed principal (float)'']))
       (\<lambda>entries0.
     seq (postJournal \<lparr> pji_tenantId = tenantId, pji_referenceType = ''reversal'',
            pji_referenceId = paymentId,
            pji_description = (if truthy walletId
              then ''Payment reversal '' @ em_dash @ '' wallet '' @ the walletId
              else ''Payment reversal '' @ em_dash @ '' float (batch)''),
            pji_entries = entries0 @ [credit_entry (la_id clearingAcc) amountMinor ''reversed principal''],
            pji_actorId = actorId \<rparr>)
         (return ())))"

definition postFundingJournal :: "string \<Rightarrow> string \<Rightarrow> int \<Rightarrow> string option \<Rightarrow> unit cmd" where
  "postFundingJournal tenantId walletId amountMinor actorId =
     bind (getWalletLedgerAccount walletId tenantId) (\<lambda>walletAcc.
     bind (getSystemAccount tenantId FLOAT_LIABILITY) (\<lambda>liabilityAcc.
     seq (postJournal \<lparr> pji_tenantId = tenantId, pji_referenceType = ''funding'',
            pji_referenceId = walletId,
            pji_description = ''Wallet funding '' @ em_dash @ '' wallet '' @ walletId,
            pji_entries =
              [\<lparr> jei_ledgerAccountId = la_id walletAcc, jei_debitMinor = Some amountMinor,
                 jei_creditMinor = None, jei_memo = Some ''funding'' \<rparr>,
               \<lparr> jei_ledgerAccountId = la_id liabilityAcc, jei_debitMinor = None,
                 jei_creditMinor = Some amountMinor, jei_memo = Some ''float liability'' \<rparr>],
            pji_actorId = actorId \<rparr>)
         (return ())))"

section \<open>health.ts\<close>

record tenantLedgerHealth =
  lh_tenantId :: string
  lh_journalsChecked :: nat
  lh_unbalancedJournals :: nat
  lh_totalDebitMinor :: int
  lh_totalCreditMinor :: int
  lh_netZero :: bool
  lh_healthy :: bool

text \<open>The query: the entries joined with their journal, restricted to the tenant when one is
  given, grouped by journal and tenant, with the two sums.\<close>

definition health_join :: "db \<Rightarrow> (journalEntry \<times> journal) list" where
  "health_join s = concat (map (\<lambda>e. map (\<lambda>j. (e, j))
     (filter (\<lambda>j. j_id j = je_journalId e) (journals s))) (journalEntries s))"

definition health_rows :: "string option \<Rightarrow> db \<Rightarrow> (string \<times> string \<times> int \<times> int) list" where
  "health_rows tenantId s =
     (let joined = filter (\<lambda>(e, j). truthy tenantId \<longrightarrow> Some (j_tenantId j) = tenantId) (health_join s)
      in map (\<lambda>(jid, tid). let grp = filter (\<lambda>(e, j). je_journalId e = jid \<and> j_tenantId j = tid) joined
                in (jid, tid, sum_list (map (je_debitMinor \<circ> fst) grp),
                              sum_list (map (je_creditMinor \<circ> fst) grp)))
           (remdups (map (\<lambda>(e, j). (je_journalId e, j_tenantId j)) joined)))"

text \<open>The JavaScript \<open>Map\<close> from tenants to running totals, in insertion order.\<close>

type_synonym health_acc = "(string \<times> nat \<times> nat \<times> int \<times> int) list"

fun health_add :: "health_acc \<Rightarrow> string \<Rightarrow> int \<Rightarrow> int \<Rightarrow> health_acc" where
  "health_add [] tid d c = [(tid, 1, if d \<noteq> c then 1 else 0, d, c)]"
| "health_add ((t, n, u, dt, ct) # acc) tid d c =
     (if t = tid then (t, n + 1, (if d \<noteq> c then u + 1 else u), dt + d, ct + c) # acc
      else (t, n, u, dt, ct) # health_add acc tid d c)"

definition health_fold :: "(string \<times> string \<times> int \<times> int) list \<Rightarrow> health_acc" where
  "health_fold rows = foldl (\<lambda>acc (jid, tid, d, c). health_add acc tid d c) [] rows"

definition health_view :: "string \<times> nat \<times> nat \<times> int \<times> int \<Rightarrow> tenantLedgerHealth" where
  "health_view r = (case r of (tid, n, u, d, c) \<Rightarrow>
     \<lparr> lh_tenantId = tid, lh_journalsChecked = n, lh_unbalancedJournals = u,
       lh_totalDebitMinor = d, lh_totalCreditMinor = c, lh_netZero = (d = c),
       lh_healthy = (u = 0 \<and> d = c) \<rparr>)"

definition checkLedgerHealth :: "string option \<Rightarrow> tenantLedgerHealth list cmd" where
  "checkLedgerHealth tenantId = gets (\<lambda>s. map health_view (health_fold (health_rows tenantId s)))"

end
