(* ===== verification/Payment_State.thy ===== *)
theory Payment_State
  imports Json Money Ledger
begin

text \<open>
  The parts of packages/payments-core every payment command is built from: the state machine
  (state.ts), the transactional outbox (outbox.ts), the fee engine (fees.ts), the idempotency
  guard of payments.ts and its garbage collection (idempotency-gc.ts).
\<close>

section \<open>state.ts\<close>

fun TRANSITIONS :: "payment_state \<Rightarrow> payment_state list" where
  "TRANSITIONS DRAFT = [VALIDATING, CANCELLED]"
| "TRANSITIONS VALIDATING = [PENDING_APPROVAL, QUEUED, FAILED, CANCELLED]"
| "TRANSITIONS PENDING_APPROVAL = [APPROVED, REJECTED, CANCELLED]"
| "TRANSITIONS APPROVED = [QUEUED, FAILED, CANCELLED]"
| "TRANSITIONS REJECTED = []"
| "TRANSITIONS QUEUED = [PROCESSING, CANCELLED, FAILED]"
| "TRANSITIONS PROCESSING = [PROVIDER_PENDING, SUCCESS, FAILED]"
| "TRANSITIONS PROVIDER_PENDING = [SUCCESS, FAILED, REVERSED]"
| "TRANSITIONS SUCCESS = [REVERSED]"
| "TRANSITIONS FAILED = [QUEUED, CANCELLED]"
| "TRANSITIONS REVERSED = []"
| "TRANSITIONS CANCELLED = []"

definition canTransition :: "payment_state \<Rightarrow> payment_state \<Rightarrow> bool" where
  "canTransition src tgt \<longleftrightarrow> (if src = tgt then True else tgt \<in> set (TRANSITIONS src))"

fun state_name :: "payment_state \<Rightarrow> string" where
  "state_name DRAFT = ''DRAFT''"
| "state_name VALIDATING = ''VALIDATING''"
| "state_name PENDING_APPROVAL = ''PENDING_APPROVAL''"
| "state_name APPROVED = ''APPROVED''"
| "state_name REJECTED = ''REJECTED''"
| "state_name QUEUED = ''QUEUED''"
| "state_name PROCESSING = ''PROCESSING''"
| "state_name PROVIDER_PENDING = ''PROVIDER_PENDING''"
| "state_name SUCCESS = ''SUCCESS''"
| "state_name FAILED = ''FAILED''"
| "state_name REVERSED = ''REVERSED''"
| "state_name CANCELLED = ''CANCELLED''"

text \<open>\<open>UPDATE payments SET ... WHERE id = ...\<close>; drizzle sets \<open>updated_at\<close>.\<close>

definition updatePayment :: "string \<Rightarrow> (payment \<Rightarrow> payment) \<Rightarrow> unit cmd" where
  "updatePayment paymentId f = modify (\<lambda>s. s\<lparr>payments :=
     update_rows (\<lambda>p. p_id p = paymentId) (\<lambda>p. (f p)\<lparr>p_updatedAt := now s\<rparr>) (payments s)\<rparr>)"

definition insertStatusHistory ::
  "string \<Rightarrow> payment_state option \<Rightarrow> payment_state \<Rightarrow> string option \<Rightarrow> string option \<Rightarrow> unit cmd" where
  "insertStatusHistory paymentId src tgt reason actorId = bind fresh_id (\<lambda>hid.
     modify (\<lambda>s. s\<lparr>paymentStatusHistories := paymentStatusHistories s @
       [\<lparr> psh_id = hid, psh_paymentId = paymentId, psh_fromStatus = src, psh_toStatus = tgt,
          psh_reason = reason, psh_actorId = actorId \<rparr>]\<rparr>))"

definition transitionPayment ::
  "string \<Rightarrow> payment_state \<Rightarrow> string option \<Rightarrow> string option \<Rightarrow> int option \<Rightarrow> unit cmd" where
  "transitionPayment paymentId tgt actorId reason expectedVersion =
     bind (gets (\<lambda>s. find (\<lambda>p. p_id p = paymentId) (payments s))) (\<lambda>row.
     bind (require row (PlainError (''Payment not found: '' @ paymentId))) (\<lambda>payment.
     seq (guard (\<not> (expectedVersion \<noteq> None \<and> Some (p_version payment) \<noteq> expectedVersion))
            (PlainError (''Payment '' @ paymentId @ '' was modified concurrently (version '' @
               show_int (p_version payment) @ '' != '' @ show_int (the expectedVersion) @ '')'')))
     (let src = p_status payment in
      seq (guard (canTransition src tgt) (IllegalTransitionError (state_name src) (state_name tgt)))
          (whenM (src \<noteq> tgt)
            (seq (insertStatusHistory (p_id payment) (Some src) tgt reason actorId)
                 (updatePayment (p_id payment)
                    (\<lambda>p. p\<lparr>p_status := tgt, p_version := p_version payment + 1\<rparr>)))))))"

section \<open>outbox.ts\<close>

definition enqueueOutbox ::
  "string \<Rightarrow> string \<Rightarrow> string \<Rightarrow> string option \<Rightarrow> jsval \<Rightarrow> string cmd" where
  "enqueueOutbox eventType aggregateType aggregateId tenantId payload =
     bind fresh_id (\<lambda>oid.
     seq (modify (\<lambda>s. s\<lparr>outboxEvents := outboxEvents s @
            [\<lparr> ob_id = oid, ob_eventType = eventType, ob_aggregateType = aggregateType,
               ob_aggregateId = aggregateId, ob_tenantId = tenantId, ob_payload = to_jsonb payload,
               ob_attempts = 0, ob_publishedAt = None, ob_lastError = None, ob_createdAt = now s \<rparr>]\<rparr>))
         (return oid))"

definition updateOutbox :: "string \<Rightarrow> (db \<Rightarrow> outboxEvent \<Rightarrow> outboxEvent) \<Rightarrow> unit cmd" where
  "updateOutbox eventId f = modify (\<lambda>s. s\<lparr>outboxEvents :=
     update_rows (\<lambda>e. ob_id e = eventId) (f s) (outboxEvents s)\<rparr>)"

definition markPublished :: "string \<Rightarrow> unit cmd" where
  "markPublished eventId = updateOutbox eventId (\<lambda>s e. e\<lparr>ob_publishedAt := Some (now s)\<rparr>)"

definition markFailed :: "string \<Rightarrow> string \<Rightarrow> unit cmd" where
  "markFailed eventId err = updateOutbox eventId
     (\<lambda>s e. e\<lparr>ob_attempts := ob_attempts e + 1, ob_lastError := Some (take 500 err)\<rparr>)"

definition pullUnpublished :: "nat \<Rightarrow> outboxEvent list cmd" where
  "pullUnpublished limit = gets (\<lambda>s. take limit (sort_key ob_createdAt
     (filter (\<lambda>e. ob_publishedAt e = None \<and> ob_attempts e < 10) (outboxEvents s))))"

section \<open>fees.ts\<close>

record feeContext =
  fx_tenantId :: string
  fx_product :: string
  fx_channel :: string
  fx_providerCode :: string

record feeResult =
  fee_feeMinor :: int
  fee_ruleId :: "string option"
  fee_ruleSnapshot :: jsval
  fee_currency :: string

definition fee_rule_applies :: "feeContext \<Rightarrow> int \<Rightarrow> feeRule \<Rightarrow> bool" where
  "fee_rule_applies ctx t r \<longleftrightarrow>
     fr_product r = fx_product ctx \<and> fr_channel r = fx_channel ctx \<and>
     fr_provider r = fx_providerCode ctx \<and> fr_status r = ''ACTIVE'' \<and>
     (case fr_effectiveFrom r of None \<Rightarrow> True | Some d \<Rightarrow> d \<le> t) \<and>
     (case fr_effectiveTo r of None \<Rightarrow> True | Some d \<Rightarrow> d \<ge> t) \<and>
     (fr_tenantId r = Some (fx_tenantId ctx) \<or> fr_tenantId r = None)"

definition findFeeRule :: "feeContext \<Rightarrow> feeRule option cmd" where
  "findFeeRule ctx = gets (\<lambda>s.
     case sort_key fr_createdAt (filter (fee_rule_applies ctx (now s)) (feeRules s)) of
       [] \<Rightarrow> None
     | r # _ \<Rightarrow> Some r)"

definition clamp_fee :: "feeRule \<Rightarrow> money \<Rightarrow> money" where
  "clamp_fee rule fee0 =
     (let fee1 = (if 0 < fr_minFeeMinor rule \<and> m_minor fee0 < fr_minFeeMinor rule
                  then Money_fromMinor (fr_minFeeMinor rule) ''KES'' else fee0)
      in if 0 < fr_maxFeeMinor rule \<and> m_minor fee1 > fr_maxFeeMinor rule
         then Money_fromMinor (fr_maxFeeMinor rule) ''KES'' else fee1)"

definition fee_snapshot :: "feeRule \<Rightarrow> jsval" where
  "fee_snapshot rule = toJsonSafe (JObject
     [(''ruleId'', JString (fr_id rule)), (''product'', JString (fr_product rule)),
      (''channel'', JString (fr_channel rule)), (''provider'', JString (fr_provider rule)),
      (''flatFeeMinor'', JBigInt (fr_flatFeeMinor rule)), (''percentBps'', JNumber (fr_percentBps rule)),
      (''minFeeMinor'', JBigInt (fr_minFeeMinor rule)), (''maxFeeMinor'', JBigInt (fr_maxFeeMinor rule)),
      (''currency'', JString (fr_currency rule)), (''version'', JNumber (fr_version rule)),
      (''effectiveFrom'', js_opt (map_option toISOString (fr_effectiveFrom rule))),
      (''effectiveTo'', js_opt (map_option toISOString (fr_effectiveTo rule)))])"

definition computeFee :: "int \<Rightarrow> feeContext \<Rightarrow> feeResult cmd" where
  "computeFee amountMinor ctx = bind (findFeeRule ctx) (\<lambda>row.
     case row of
       None \<Rightarrow> return \<lparr> fee_feeMinor = 0, fee_ruleId = None,
                 fee_ruleSnapshot = JObject [(''source'', JString ''no-rule'')], fee_currency = ''KES'' \<rparr>
     | Some rule \<Rightarrow>
       (let amount = Money_fromMinor amountMinor ''KES'' in
        case Money_add (Money_fromMinor (fr_flatFeeMinor rule) ''KES'')
               (percentFloor amount (fr_percentBps rule)) of
          Inl e \<Rightarrow> throw e
        | Inr fee0 \<Rightarrow> return \<lparr> fee_feeMinor = m_minor (clamp_fee rule fee0),
                         fee_ruleId = Some (fr_id rule), fee_ruleSnapshot = fee_snapshot rule,
                         fee_currency = ''KES'' \<rparr>))"

definition recordFeeCalculation :: "string \<Rightarrow> string \<Rightarrow> int \<Rightarrow> feeResult \<Rightarrow> unit cmd" where
  "recordFeeCalculation tenantId paymentId amountMinor fee = bind fresh_id (\<lambda>cid.
     modify (\<lambda>s. s\<lparr>feeCalculations := feeCalculations s @
       [\<lparr> fc_id = cid, fc_tenantId = tenantId, fc_paymentId = paymentId, fc_ruleId = fee_ruleId fee,
          fc_amountMinor = amountMinor, fc_feeMinor = fee_feeMinor fee, fc_currency = fee_currency fee,
          fc_ruleSnapshot = stored (fee_ruleSnapshot fee) \<rparr>]\<rparr>))"

definition minorToDecimal :: "string \<Rightarrow> error + string" where
  "minorToDecimal v = (case parseMinor (RawString v) of Inl e \<Rightarrow> Inl e
     | Inr n \<Rightarrow> Inr (toDecimalString (Money_fromMinor n ''KES'')))"

definition snapshotToDecimalString :: "jsval \<Rightarrow> string \<Rightarrow> error + string" where
  "snapshotToDecimalString snapshot key = (case js_lookup key snapshot of
     JString v \<Rightarrow> minorToDecimal v | _ \<Rightarrow> Inr ''0.00'')"

section \<open>The idempotency guard\<close>

definition idempotency_match :: "string \<Rightarrow> string \<Rightarrow> string \<Rightarrow> idempotencyRecord \<Rightarrow> bool" where
  "idempotency_match tenantId scope key r \<longleftrightarrow>
     ir_tenantId r = tenantId \<and> ir_scope r = scope \<and> ir_key r = key"

text \<open>\<open>withIdempotency\<close>: the result of the guarded command is a JSON object; the pair is
  \<open>{ replayed, result }\<close>.\<close>

definition withIdempotency :: "string \<Rightarrow> string \<Rightarrow> string \<Rightarrow> jsval cmd \<Rightarrow> (bool \<times> jsval) cmd" where
  "withIdempotency tenantId scope key run =
     bind (gets (\<lambda>s. find (idempotency_match tenantId scope key) (idempotencyRecords s))) (\<lambda>prior.
     if prior \<noteq> None \<and> ir_status (the prior) = IR_COMPLETED
     then return (True, ir_response (the prior))
     else
       bind fresh_id (\<lambda>iid.
       seq (modify (\<lambda>s. if \<exists>r \<in> set (idempotencyRecords s). idempotency_match tenantId scope key r then s
              else s\<lparr>idempotencyRecords := idempotencyRecords s @
                [\<lparr> ir_id = iid, ir_tenantId = tenantId, ir_scope = scope, ir_key = key,
                   ir_status = IR_IN_PROGRESS, ir_response = JNull, ir_createdAt = now s,
                   ir_completedAt = None \<rparr>]\<rparr>))
       (bind run (\<lambda>result.
        seq (modify (\<lambda>s. s\<lparr>idempotencyRecords :=
               update_rows (idempotency_match tenantId scope key)
                 (\<lambda>r. r\<lparr>ir_status := IR_COMPLETED, ir_response := to_jsonb result,
                         ir_completedAt := Some (now s)\<rparr>) (idempotencyRecords s)\<rparr>))
            (return (False, result))))))"

section \<open>idempotency-gc.ts\<close>

definition gc_staleHours :: int where "gc_staleHours = 24"
definition gc_completedDays :: int where "gc_completedDays = 90"

definition gc_stale :: "int \<Rightarrow> idempotencyRecord \<Rightarrow> bool" where
  "gc_stale before r \<longleftrightarrow> ir_status r = IR_IN_PROGRESS \<and> ir_createdAt r < before"

definition gc_finished :: "int \<Rightarrow> idempotencyRecord \<Rightarrow> bool" where
  "gc_finished before r \<longleftrightarrow> (ir_status r = IR_COMPLETED \<or> ir_status r = IR_FAILED) \<and>
     (case ir_completedAt r of None \<Rightarrow> False | Some t \<Rightarrow> t < before)"

definition gcIdempotencyRecords :: "int option \<Rightarrow> int option \<Rightarrow> (nat \<times> nat) cmd" where
  "gcIdempotencyRecords staleHours completedDays =
     bind (gets (\<lambda>s. (now s - nullish staleHours gc_staleHours * 3600000,
                       now s - nullish completedDays gc_completedDays * 86400000))) (\<lambda>(staleBefore, completedBefore).
     bind (gets (\<lambda>s. length (filter (gc_stale staleBefore) (idempotencyRecords s)))) (\<lambda>freed.
     seq (modify (\<lambda>s. s\<lparr>idempotencyRecords := filter (\<lambda>r. \<not> gc_stale staleBefore r) (idempotencyRecords s)\<rparr>))
     (bind (gets (\<lambda>s. length (filter (gc_finished completedBefore) (idempotencyRecords s)))) (\<lambda>purged.
      seq (modify (\<lambda>s. s\<lparr>idempotencyRecords := filter (\<lambda>r. \<not> gc_finished completedBefore r) (idempotencyRecords s)\<rparr>))
          (return (freed, purged))))))"

end
