(* ===== verification/Approvals.thy ===== *)
theory Approvals
  imports Interfaces Json Schema
begin

text \<open>
  packages/approvals: the evaluation of approval policies (policy.ts) and the life cycle of
  approval requests with maker-checker enforcement (service.ts).  The policy snapshot column
  holds the rules, context and metadata; it is modelled by that structure instead of its JSON
  text.
\<close>

section \<open>policy.ts\<close>

record stepRequirement =
  rq_level :: int
  rq_mode :: approval_mode
  rq_roles :: "string list"
  rq_minApprovers :: int

text \<open>A list condition restricts only when it is present and not empty.\<close>

definition restricts :: "'a list option \<Rightarrow> bool" where
  "restricts c \<longleftrightarrow> (case c of None \<Rightarrow> False | Some xs \<Rightarrow> xs \<noteq> [])"

definition ruleMatches :: "approvalRule \<Rightarrow> approvalContext \<Rightarrow> bool" where
  "ruleMatches rule ctx =
     (if rl_minAmountMinor rule \<noteq> None \<and> ctx_amountMinor ctx < the (rl_minAmountMinor rule) then False
      else if rl_maxAmountMinor rule \<noteq> None \<and> the (rl_maxAmountMinor rule) > 0 \<and>
              ctx_amountMinor ctx > the (rl_maxAmountMinor rule) then False
      else if restricts (rl_products rule) \<and> ctx_product ctx \<notin> set (the (rl_products rule)) then False
      else if restricts (rl_channels rule) \<and> ctx_channel ctx \<notin> set (the (rl_channels rule)) then False
      else if restricts (rl_branchIds rule) \<and>
              (\<not> truthy (ctx_branchId ctx) \<or> the (ctx_branchId ctx) \<notin> set (the (rl_branchIds rule))) then False
      else if restricts (rl_departmentIds rule) \<and>
              (\<not> truthy (ctx_departmentId ctx) \<or> the (ctx_departmentId ctx) \<notin> set (the (rl_departmentIds rule))) then False
      else if restricts (rl_riskFlags rule) \<and>
              \<not> list_ex (\<lambda>f. f \<in> set (nullish (ctx_riskFlags ctx) [])) (the (rl_riskFlags rule)) then False
      else True)"

text \<open>The steps of the rule that matched: a sequential rule with several role groups gives one
  level per group.\<close>

definition ruleSteps :: "approvalRule \<Rightarrow> stepRequirement list" where
  "ruleSteps rule =
     (if rl_mode rule = SEQUENTIAL \<and> length (rl_requiredRoles rule) > 1
      then map (\<lambda>(i, role). \<lparr> rq_level = int i + 1, rq_mode = SEQUENTIAL, rq_roles = [role],
             rq_minApprovers = 1 \<rparr>) (enumerate 0 (rl_requiredRoles rule))
      else [\<lparr> rq_level = 1, rq_mode = rl_mode rule, rq_roles = rl_requiredRoles rule,
              rq_minApprovers = rl_minApprovers rule \<rparr>])"

fun first_match :: "approvalRule list \<Rightarrow> approvalContext \<Rightarrow> stepRequirement list" where
  "first_match [] ctx = []"
| "first_match (rule # rules) ctx = (if ruleMatches rule ctx then ruleSteps rule else first_match rules ctx)"

definition evaluatePolicy :: "approvalRule list \<Rightarrow> approvalContext \<Rightarrow> stepRequirement list" where
  "evaluatePolicy rules ctx = first_match (sort_key rl_order rules) ctx"

fun validateRules :: "approvalRule list \<Rightarrow> error option" where
  "validateRules [] = None"
| "validateRules (rule # rules) =
     (if rl_requiredRoles rule = [] then Some (ApprovalPolicyError ''requiredRoles must not be empty'')
      else if rl_minApprovers rule < 1 then Some (ApprovalPolicyError ''minApprovers must be >= 1'')
      else if rl_mode rule = ANY \<and> rl_minApprovers rule > int (length (rl_requiredRoles rule))
        then Some (ApprovalPolicyError ''ANY mode minApprovers cannot exceed the number of eligible roles'')
      else validateRules rules)"

definition needsApproval :: "approvalRule list \<Rightarrow> approvalContext \<Rightarrow> bool" where
  "needsApproval rules ctx \<longleftrightarrow> length (evaluatePolicy rules ctx) > 0"

section \<open>service.ts\<close>

record createApprovalInput =
  ca_tenantId :: string
  ca_paymentId :: "string option"
  ca_batchId :: "string option"
  ca_resourceType :: "string option"
  ca_resourceId :: "string option"
  ca_policyId :: "string option"
  ca_rules :: "approvalRule list"
  ca_context :: approvalContext
  ca_metadata :: jsval
  ca_createdById :: string
  ca_dueAt :: "int option"

record approvalActionInput =
  ai_requestId :: string
  ai_actorId :: string
  ai_actorRoles :: "string list"
  ai_decision :: decision
  ai_comment :: "string option"
  ai_delegatedForId :: "string option"

definition insertStep :: "string \<Rightarrow> stepRequirement \<Rightarrow> unit cmd" where
  "insertStep rid step = bind fresh_id (\<lambda>sid.
     modify (\<lambda>s. s\<lparr>approvalSteps := approvalSteps s @
       [\<lparr> as_id = sid, as_requestId = rid, as_level = rq_level step, as_mode = rq_mode step,
          as_roles = rq_roles step, as_minApprovers = rq_minApprovers step,
          as_status = (if rq_level step = 1 then ST_IN_PROGRESS else ST_PENDING) \<rparr>]\<rparr>))"

definition createApprovalRequest :: "createApprovalInput \<Rightarrow> string cmd" where
  "createApprovalRequest input = (case validateRules (ca_rules input) of
     Some e \<Rightarrow> throw e
   | None \<Rightarrow>
     (let steps = evaluatePolicy (ca_rules input) (ca_context input) in
      case steps of
        [] \<Rightarrow> throw (ApprovalError ''No approval steps required for this payment'' ''NO_STEPS_REQUIRED'')
      | first # _ \<Rightarrow> transaction (
          bind fresh_id (\<lambda>rid.
          bind (gets (\<lambda>s. (case ca_paymentId input of None \<Rightarrow> True | Some p \<Rightarrow> p \<in> p_id ` set (payments s)) \<and>
                  (case ca_batchId input of None \<Rightarrow> True | Some b \<Rightarrow> b \<in> pb_id ` set (paymentBatches s)))) (\<lambda>refs.
          seq (guard refs (DbForeignKey ''approval_requests''))
          (seq (modify (\<lambda>s. s\<lparr>approvalRequests := approvalRequests s @
             [\<lparr> ar_id = rid, ar_tenantId = ca_tenantId input, ar_paymentId = ca_paymentId input,
                ar_batchId = ca_batchId input, ar_resourceType = ca_resourceType input,
                ar_resourceId = ca_resourceId input, ar_policyId = ca_policyId input,
                ar_policySnapshot = \<lparr> sn_rules = ca_rules input, sn_context = ca_context input,
                                      sn_metadata = to_jsonb (ca_metadata input) \<rparr>,
                ar_status = AR_PENDING, ar_mode = rq_mode first,
                ar_requiredApprovals = sum_list (map rq_minApprovers steps), ar_currentLevel = 1,
                ar_dueAt = ca_dueAt input, ar_createdById = ca_createdById input,
                ar_createdAt = now s, ar_executedAt = None, ar_executionError = None \<rparr>]\<rparr>))
          (seq (forEachM steps (insertStep rid))
               (return rid))))))))"

definition resolveDelegatee :: "string \<Rightarrow> string cmd" where
  "resolveDelegatee fromUserId = gets (\<lambda>s.
     case find (\<lambda>d. ad_fromUserId d = fromUserId \<and> ad_startsAt d \<le> now s \<and> ad_endsAt d \<ge> now s)
            (approvalDelegations s) of
       None \<Rightarrow> fromUserId
     | Some d \<Rightarrow> ad_toUserId d)"

definition setRequest :: "string \<Rightarrow> (approvalRequest \<Rightarrow> approvalRequest) \<Rightarrow> unit cmd" where
  "setRequest rid f = modify (\<lambda>s. s\<lparr>approvalRequests :=
     update_rows (\<lambda>r. ar_id r = rid) f (approvalRequests s)\<rparr>)"

definition setStepStatus :: "string \<Rightarrow> step_status \<Rightarrow> unit cmd" where
  "setStepStatus sid st = modify (\<lambda>s. s\<lparr>approvalSteps :=
     update_rows (\<lambda>r. as_id r = sid) (\<lambda>r. r\<lparr>as_status := st\<rparr>) (approvalSteps s)\<rparr>)"

definition step_eligible :: "approvalRequest \<Rightarrow> approvalStep \<Rightarrow> bool" where
  "step_eligible request st =
     (if as_status st = ST_APPROVED \<or> as_status st = ST_REJECTED \<or> as_status st = ST_SKIPPED then False
      else if ar_mode request = SEQUENTIAL \<or> as_mode st = SEQUENTIAL
        then as_level st = ar_currentLevel request
      else True)"

definition resolved :: "request_status \<Rightarrow> bool" where
  "resolved st \<longleftrightarrow> st = AR_APPROVED \<or> st = AR_REJECTED \<or> st = AR_EXPIRED \<or> st = AR_CANCELLED"

fun request_status_name :: "request_status \<Rightarrow> string" where
  "request_status_name AR_PENDING = ''PENDING''"
| "request_status_name AR_PARTIALLY_APPROVED = ''PARTIALLY_APPROVED''"
| "request_status_name AR_APPROVED = ''APPROVED''"
| "request_status_name AR_REJECTED = ''REJECTED''"
| "request_status_name AR_EXPIRED = ''EXPIRED''"
| "request_status_name AR_CANCELLED = ''CANCELLED''"

text \<open>The insert into \<open>approval_actions\<close>, with its unique index on request and actor.\<close>

definition insertAction :: "string \<Rightarrow> string \<Rightarrow> approvalActionInput \<Rightarrow> unit cmd" where
  "insertAction rid sid input =
     bind fresh_id (\<lambda>aid.
     bind (gets (\<lambda>s. \<exists>a \<in> set (approvalActions s). aa_requestId a = rid \<and> aa_actorId a = ai_actorId input)) (\<lambda>dup.
     seq (guard (\<not> dup) (DbUnique ''approval_actions_request_actor_uidx''))
         (modify (\<lambda>s. s\<lparr>approvalActions := approvalActions s @
           [\<lparr> aa_id = aid, aa_requestId = rid, aa_stepId = sid, aa_actorId = ai_actorId input,
              aa_decision = ai_decision input, aa_comment = ai_comment input \<rparr>]\<rparr>))))"

text \<open>The part of \<open>recordApprovalAction\<close> after the action was recorded on the target step.\<close>

definition rejectRequest :: "approvalRequest \<Rightarrow> approvalStep \<Rightarrow> (request_status \<times> string) cmd" where
  "rejectRequest request target =
     seq (setRequest (ar_id request) (\<lambda>r. r\<lparr>ar_status := AR_REJECTED, ar_currentLevel := as_level target\<rparr>))
     (seq (setStepStatus (as_id target) ST_REJECTED)
          (return (AR_REJECTED, ar_id request)))"

definition approveStep :: "approvalRequest \<Rightarrow> approvalStep list \<Rightarrow> approvalStep \<Rightarrow> (request_status \<times> string) cmd" where
  "approveStep request steps target =
     bind (gets (\<lambda>s. int (length (filter (\<lambda>a. aa_stepId a = as_id target \<and> aa_decision a = APPROVE)
                        (approvalActions s))))) (\<lambda>approverCount.
     if approverCount \<ge> as_minApprovers target
     then seq (setStepStatus (as_id target) ST_APPROVED)
       (case find (\<lambda>st. as_level st > as_level target \<and> as_status st = ST_PENDING) steps of
          Some nxt \<Rightarrow>
            seq (setRequest (ar_id request)
                   (\<lambda>r. r\<lparr>ar_status := AR_PARTIALLY_APPROVED, ar_currentLevel := as_level nxt\<rparr>))
            (seq (setStepStatus (as_id nxt) ST_IN_PROGRESS)
                 (return (AR_PARTIALLY_APPROVED, ar_id request)))
        | None \<Rightarrow>
            seq (setRequest (ar_id request) (\<lambda>r. r\<lparr>ar_status := AR_APPROVED\<rparr>))
                (return (AR_APPROVED, ar_id request)))
     else return (AR_PARTIALLY_APPROVED, ar_id request))"

definition recordApprovalAction :: "approvalActionInput \<Rightarrow> (request_status \<times> string) cmd" where
  "recordApprovalAction input = transaction (
     bind (gets (\<lambda>s. find (\<lambda>r. ar_id r = ai_requestId input) (approvalRequests s))) (\<lambda>row.
     bind (require row (ApprovalError ''Approval request not found'' ''NOT_FOUND'')) (\<lambda>request.
     seq (guard (\<not> resolved (ar_status request))
            (ApprovalError (''Approval request is already '' @ request_status_name (ar_status request)) ''ALREADY_RESOLVED''))
     (seq (guard (ar_createdById request \<noteq> ai_actorId input)
            (ApprovalError ''A payment creator cannot approve their own request'' ''MAKER_CHECKER_VIOLATION''))
     (seq (guard (\<not> (truthy (ai_delegatedForId input) \<and> Some (ar_createdById request) = ai_delegatedForId input))
            (ApprovalError ''A payment creator cannot approve their own request, even via delegation''
               ''MAKER_CHECKER_VIOLATION''))
     (bind (gets (\<lambda>s. find (\<lambda>a. aa_requestId a = ar_id request \<and> aa_actorId a = ai_actorId input)
                       (approvalActions s))) (\<lambda>existing.
      seq (guard (existing = None) (ApprovalError ''This user has already acted on this request'' ''ALREADY_ACTED''))
     (bind (gets (\<lambda>s. sort_key as_level (filter (\<lambda>st. as_requestId st = ar_id request) (approvalSteps s)))) (\<lambda>steps.
      case filter (step_eligible request) steps of
        [] \<Rightarrow> throw (ApprovalError ''No approval step is currently actionable'' ''NO_ACTIONABLE_STEP'')
      | target # _ \<Rightarrow>
        seq (guard (list_ex (\<lambda>r. r \<in> set (ai_actorRoles input)) (as_roles target))
               (ApprovalError (''Actor lacks a required role for level '' @ show_int (as_level target)) ''ROLE_MISMATCH''))
        (seq (insertAction (ar_id request) (as_id target) input)
        (case ai_decision input of
           REJECT \<Rightarrow> rejectRequest request target
         | APPROVE \<Rightarrow> approveStep request steps target)))))))))))"

definition listApprovalRequests :: "string \<Rightarrow> request_status option \<Rightarrow> int option \<Rightarrow> approvalRequest list cmd" where
  "listApprovalRequests tenantId status limit = gets (\<lambda>s.
     take (nat (nullish limit 50)) (sort_key (\<lambda>r. - ar_createdAt r)
       (filter (\<lambda>r. ar_tenantId r = tenantId \<and> (case status of None \<Rightarrow> True | Some st \<Rightarrow> ar_status r = st))
         (approvalRequests s))))"

definition approval_due :: "int \<Rightarrow> approvalRequest \<Rightarrow> bool" where
  "approval_due t r \<longleftrightarrow> ar_status r = AR_PENDING \<and> (case ar_dueAt r of None \<Rightarrow> False | Some d \<Rightarrow> d \<le> t)"

definition expireDueApprovals :: "int \<Rightarrow> nat cmd" where
  "expireDueApprovals t =
     bind (gets (\<lambda>s. length (filter (approval_due t) (approvalRequests s)))) (\<lambda>n.
     seq (modify (\<lambda>s. s\<lparr>approvalRequests := update_rows (approval_due t)
            (\<lambda>r. r\<lparr>ar_status := AR_EXPIRED\<rparr>) (approvalRequests s)\<rparr>))
         (return n))"

end
