(* ===== verification/Kyc.thy ===== *)
theory Kyc
  imports Schema
begin

text \<open>
  packages/kyc/src/index.ts: name screening against the watch list, the payment gate and the
  decision of review cases.  Names are one-byte strings.  A similarity is the pair of the
  sizes of intersection and union; the comparison with 0.66 and the rounding to a percentage
  are the exact ones, which agree with the floating-point computation for every similarity of
  at least 0.66 between names of fewer than 2000 tokens.
\<close>

section \<open>Name matching\<close>

definition STOPWORDS :: "string list" where
  "STOPWORDS =
     [''ltd'', ''limited'', ''co'', ''company'', ''corp'', ''corporation'', ''trading'', ''holdings'',
      ''holding'', ''group'', ''and'', ''the'', ''of'', ''for'', ''inc'', ''international'', ''enterprises'',
      ''investments'', ''general'', ''suppliers'', ''stores'']"

definition name_char :: "char \<Rightarrow> bool" where
  "name_char c \<longleftrightarrow> is_lower c \<or> is_digit c \<or> is_space c"

text \<open>\<open>replace(/\s+/g, " ")\<close>\<close>

fun squeeze :: "string \<Rightarrow> string" where
  "squeeze [] = []"
| "squeeze [c] = (if is_space c then '' '' else [c])"
| "squeeze (c # d # s) = (if is_space c then (if is_space d then squeeze (d # s) else '' '' @ squeeze (d # s))
     else c # squeeze (d # s))"

definition normalizeName :: "string \<Rightarrow> string" where
  "normalizeName name = trim (squeeze (map (\<lambda>c. if name_char c then c else CHR '' '') (toLowerCase name)))"

text \<open>\<open>split(" ")\<close>\<close>

fun split_words :: "string \<Rightarrow> string list" where
  "split_words [] = [[]]"
| "split_words (c # s) = (case split_words s of
     [] \<Rightarrow> [[c]]
   | w # ws \<Rightarrow> if c = CHR '' '' then [] # w # ws else (c # w) # ws)"

definition significantTokens :: "string \<Rightarrow> string list" where
  "significantTokens name = filter (\<lambda>t. 3 \<le> length t \<and> t \<notin> set STOPWORDS) (split_words (normalizeName name))"

definition tokenSimilarity :: "string list \<Rightarrow> string list \<Rightarrow> nat \<times> nat" where
  "tokenSimilarity a b =
     (if a = [] \<or> b = [] then (0, 1)
      else (length (filter (\<lambda>t. t \<in> set b) (remdups a)), length (remdups (a @ b))))"

definition similar :: "nat \<times> nat \<Rightarrow> bool" where
  "similar sim \<longleftrightarrow> 66 * snd sim \<le> 100 * fst sim"

definition percentage :: "nat \<times> nat \<Rightarrow> nat" where
  "percentage sim = (200 * fst sim + snd sim) div (2 * snd sim)"

fun score_loop :: "string \<Rightarrow> nat \<Rightarrow> string list \<Rightarrow> nat" where
  "score_loop name best [] = best"
| "score_loop name best (cand # cands) =
     (let candTokens = significantTokens cand in
      if candTokens = [] then score_loop name best cands
      else let sim = tokenSimilarity (significantTokens name) candTokens in
        if normalizeName cand = normalizeName name then 100
        else if similar sim then score_loop name (max best (percentage sim)) cands
        else score_loop name best cands)"

definition scoreName :: "string \<Rightarrow> amlWatchlist \<Rightarrow> nat" where
  "scoreName name entry = score_loop name 0 (aw_name entry # aw_aliases entry)"

section \<open>Screening\<close>

record screeningMatch =
  sm_entryId :: string
  sm_kind :: watchlist_kind
  sm_matchedName :: string
  sm_score :: nat

record screeningOutcome =
  so_result :: screening_result
  so_score :: nat
  so_matches :: "screeningMatch list"

definition screen_matches :: "string \<Rightarrow> amlWatchlist list \<Rightarrow> screeningMatch list" where
  "screen_matches name entries =
     map (\<lambda>e. \<lparr> sm_entryId = aw_id e, sm_kind = aw_kind e, sm_matchedName = aw_name e,
                 sm_score = scoreName name e \<rparr>)
       (filter (\<lambda>e. 66 \<le> scoreName name e) entries)"

definition screenName :: "string \<Rightarrow> screeningOutcome cmd" where
  "screenName name = gets (\<lambda>s.
     let matches = sort_key (\<lambda>m. - int (sm_score m)) (screen_matches name (filter aw_active (amlWatchlists s)))
     in \<lparr> so_result = (if matches \<noteq> [] then HIT else CLEAR),
          so_score = (case matches of [] \<Rightarrow> 0 | m # _ \<Rightarrow> sm_score m), so_matches = matches \<rparr>)"

definition screenRecipient ::
  "string \<Rightarrow> string option \<Rightarrow> string option \<Rightarrow> string option \<Rightarrow> string option \<Rightarrow> (string \<times> screeningOutcome) cmd" where
  "screenRecipient name phone paymentId tenantId actorId =
     bind (screenName name) (\<lambda>outcome.
     bind fresh_id (\<lambda>kid.
     seq (modify (\<lambda>s. s\<lparr>kycScreenings := kycScreenings s @
            [\<lparr> ks_id = kid, ks_tenantId = tenantId, ks_subjectType = ''BENEFICIARY'', ks_subjectName = name,
               ks_subjectRef = phone, ks_result = so_result outcome, ks_score = int (so_score outcome),
               ks_matchedEntries = map (\<lambda>m. (sm_entryId m, sm_kind m, sm_matchedName m, int (sm_score m)))
                 (so_matches outcome),
               ks_paymentId = paymentId, ks_createdById = actorId \<rparr>]\<rparr>))
         (return (kid, outcome))))"

fun kind_name :: "watchlist_kind \<Rightarrow> string" where
  "kind_name SANCTIONS = ''SANCTIONS''"
| "kind_name PEP = ''PEP''"
| "kind_name ADVERSE = ''ADVERSE''"

definition openCaseForHit ::
  "string option \<Rightarrow> string \<Rightarrow> string option \<Rightarrow> string \<Rightarrow> watchlist_kind \<Rightarrow> risk_level \<Rightarrow> string cmd" where
  "openCaseForHit tenantId screeningId paymentId name kind riskLevel =
     bind fresh_id (\<lambda>cid.
     seq (modify (\<lambda>s. s\<lparr>kycCases := kycCases s @
            [\<lparr> kc_id = cid, kc_tenantId = tenantId, kc_screeningId = Some screeningId,
               kc_paymentId = paymentId,
               kc_kind = (case kind of PEP \<Rightarrow> PEP_HIT | ADVERSE \<Rightarrow> ADVERSE_HIT | SANCTIONS \<Rightarrow> SANCTION_HIT),
               kc_status = KC_OPEN, kc_riskLevel = riskLevel,
               kc_note = Some (''Watchlist match on \"'' @ name @ ''\" ('' @ kind_name kind @ '').''),
               kc_decidedById = None, kc_decidedAt = None, kc_decisionNote = None \<rparr>]\<rparr>))
         (return cid))"

definition worst_step :: "risk_level \<Rightarrow> watchlist_kind \<Rightarrow> risk_level" where
  "worst_step acc kind = (case kind of
     SANCTIONS \<Rightarrow> (if acc = CRITICAL then acc else CRITICAL)
   | PEP \<Rightarrow> (if acc = HIGH \<or> acc = CRITICAL then acc else HIGH)
   | ADVERSE \<Rightarrow> (if acc = MEDIUM then acc else MEDIUM))"

definition worst_risk :: "screeningMatch list \<Rightarrow> risk_level" where
  "worst_risk ms = foldl (\<lambda>acc m. worst_step acc (sm_kind m)) MEDIUM ms"

record paymentScreening =
  ps_hit :: bool
  ps_caseId :: "string option"
  ps_screeningId :: string
  ps_matchedNames :: "string list"

definition screenRecipientForPayment ::
  "string \<Rightarrow> string \<Rightarrow> string \<Rightarrow> string option \<Rightarrow> string option \<Rightarrow> paymentScreening cmd" where
  "screenRecipientForPayment tenantId paymentId name phone actorId =
     bind (screenRecipient name phone (Some paymentId) (Some tenantId) actorId) (\<lambda>(screeningId, outcome).
     case so_matches outcome of
       [] \<Rightarrow> return \<lparr> ps_hit = False, ps_caseId = None, ps_screeningId = screeningId, ps_matchedNames = [] \<rparr>
     | m # ms \<Rightarrow>
       if so_result outcome \<noteq> HIT
       then return \<lparr> ps_hit = False, ps_caseId = None, ps_screeningId = screeningId, ps_matchedNames = [] \<rparr>
       else bind (openCaseForHit (Some tenantId) screeningId (Some paymentId) name (sm_kind m)
                    (worst_risk (m # ms))) (\<lambda>caseId.
            return \<lparr> ps_hit = True, ps_caseId = Some caseId, ps_screeningId = screeningId,
                     ps_matchedNames = map sm_matchedName (m # ms) \<rparr>))"

section \<open>Case management\<close>

datatype case_decision = DECIDE_APPROVED | DECIDE_REJECTED | DECIDE_CLOSED

definition decideCase :: "string \<Rightarrow> case_decision \<Rightarrow> string \<Rightarrow> string \<Rightarrow> unit cmd" where
  "decideCase caseId decision note actorId = modify (\<lambda>s. s\<lparr>kycCases :=
     update_rows (\<lambda>c. kc_id c = caseId)
       (\<lambda>c. c\<lparr>kc_status := (case decision of DECIDE_APPROVED \<Rightarrow> KC_APPROVED
                 | DECIDE_REJECTED \<Rightarrow> KC_REJECTED | DECIDE_CLOSED \<Rightarrow> KC_CLOSED),
               kc_decidedById := Some actorId, kc_decidedAt := Some (now s),
               kc_decisionNote := Some note\<rparr>) (kycCases s)\<rparr>)"

end
