(* ===== verification/Validation.thy ===== *)
theory Validation
  imports Interfaces
begin

text \<open>
  packages/validation: Kenyan phone numbers (phone.ts) and identity documents and KRA PINs
  (identity.ts).  The functions are string normalisers; the results are that a normalised value
  has the canonical shape and is a fixed point, and what the classifiers say of it.
\<close>

section \<open>phone.ts\<close>

definition KENYA_COUNTRY_CODE :: string where "KENYA_COUNTRY_CODE = ''254''"

definition SAFARICOM_PREFIXES :: "string list" where
  "SAFARICOM_PREFIXES =
     [''701'', ''702'', ''703'', ''704'', ''705'', ''706'', ''707'', ''708'', ''709'', ''710'',
      ''711'', ''712'', ''713'', ''714'', ''715'', ''716'', ''717'', ''718'', ''719'', ''720'',
      ''721'', ''722'', ''723'', ''724'', ''725'', ''726'', ''727'', ''728'', ''729'', ''740'',
      ''741'', ''742'', ''743'', ''744'', ''745'', ''746'', ''747'', ''748'', ''749'', ''790'',
      ''791'', ''792'', ''793'', ''794'', ''795'', ''796'', ''797'', ''798'', ''799'']"

definition phone_char :: "char \<Rightarrow> bool" where
  "phone_char c \<longleftrightarrow> is_digit c \<or> c = CHR ''+''"

definition normalizeKenyanPhone :: "string \<Rightarrow> string option" where
  "normalizeKenyanPhone raw =
     (if raw = '''' then None else
      let d0 = filter phone_char raw;
          d1 = (if starts_with ''+'' d0 then drop 1 d0 else d0);
          d2 = (if starts_with ''0'' d1 then KENYA_COUNTRY_CODE @ drop 1 d1 else d1)
      in if length d2 \<noteq> 12 \<or> \<not> starts_with KENYA_COUNTRY_CODE d2 then None else Some (''+'' @ d2))"

text \<open>\<open>e164.replace(/^\+/, "")\<close>\<close>

definition strip_plus :: "string \<Rightarrow> string" where
  "strip_plus s = (if starts_with ''+'' s then drop 1 s else s)"

definition isSafaricomNumber :: "string \<Rightarrow> bool" where
  "isSafaricomNumber e164 =
     (let national = strip_plus e164 in
      if \<not> starts_with KENYA_COUNTRY_CODE national then False
      else list_ex (\<lambda>p. starts_with p (drop 3 national)) SAFARICOM_PREFIXES)"

definition formatKenyanPhone :: "string \<Rightarrow> string" where
  "formatKenyanPhone e164 =
     (let national = strip_plus e164 in
      if starts_with KENYA_COUNTRY_CODE national
      then (let rest = drop 3 national
            in ''+254 '' @ take 3 rest @ '' '' @ take 3 (drop 3 rest) @ '' '' @ drop 6 rest)
      else e164)"

section \<open>identity.ts\<close>

datatype idDocumentType = NATIONAL_ID | ALIEN_ID | PASSPORT | MILITARY_ID | COMPANY_REG

definition ID_DOCUMENT_TYPES :: "(string \<times> idDocumentType) list" where
  "ID_DOCUMENT_TYPES = [(''NATIONAL_ID'', NATIONAL_ID), (''ALIEN_ID'', ALIEN_ID),
     (''PASSPORT'', PASSPORT), (''MILITARY_ID'', MILITARY_ID), (''COMPANY_REG'', COMPANY_REG)]"

fun ID_DOCUMENT_LABELS :: "idDocumentType \<Rightarrow> string" where
  "ID_DOCUMENT_LABELS NATIONAL_ID = ''National ID''"
| "ID_DOCUMENT_LABELS ALIEN_ID = ''Alien / Foreigner ID''"
| "ID_DOCUMENT_LABELS PASSPORT = ''Passport''"
| "ID_DOCUMENT_LABELS MILITARY_ID = ''Military ID''"
| "ID_DOCUMENT_LABELS COMPANY_REG = ''Business reg. no.''"

text \<open>\<open>/^[AP]\d{9}[A-Z]$/\<close>\<close>

definition kra_pin_re :: "string \<Rightarrow> bool" where
  "kra_pin_re v \<longleftrightarrow> length v = 11 \<and> (v ! 0 = CHR ''A'' \<or> v ! 0 = CHR ''P'') \<and>
     list_all is_digit (take 9 (drop 1 v)) \<and> is_upper (v ! 10)"

definition normalizeKraPin :: "string option \<Rightarrow> string option" where
  "normalizeKraPin raw = (case raw of None \<Rightarrow> None | Some r \<Rightarrow>
     if r = '''' then None
     else let v = filter (\<lambda>c. \<not> (is_space c \<or> c = CHR ''-'')) (toUpperCase r)
          in if kra_pin_re v then Some v else None)"

definition isValidKraPin :: "string option \<Rightarrow> bool" where
  "isValidKraPin raw \<longleftrightarrow> normalizeKraPin raw \<noteq> None"

datatype pin_kind = INDIVIDUAL | NON_INDIVIDUAL

definition kraPinKind :: "string \<Rightarrow> pin_kind option" where
  "kraPinKind pin = (case normalizeKraPin (Some pin) of None \<Rightarrow> None
     | Some v \<Rightarrow> Some (if starts_with ''A'' v then INDIVIDUAL else NON_INDIVIDUAL))"

definition digits_between :: "nat \<Rightarrow> nat \<Rightarrow> string \<Rightarrow> bool" where
  "digits_between lo hi s \<longleftrightarrow> lo \<le> length s \<and> length s \<le> hi \<and> list_all is_digit s"

definition alnum :: "char \<Rightarrow> bool" where
  "alnum c \<longleftrightarrow> is_upper c \<or> is_digit c"

fun id_number_re :: "idDocumentType \<Rightarrow> string \<Rightarrow> bool" where
  "id_number_re NATIONAL_ID s = digits_between 6 8 s"
| "id_number_re ALIEN_ID s = digits_between 6 9 s"
| "id_number_re MILITARY_ID s = digits_between 5 10 s"
| "id_number_re PASSPORT s =
     (6 \<le> length s \<and> length s \<le> 9 \<and> list_all alnum s \<and> list_ex is_digit s)"
| "id_number_re COMPANY_REG s =
     (4 \<le> length s \<and> length s \<le> 30 \<and>
      list_all (\<lambda>c. alnum c \<or> c = CHR ''/'' \<or> c = CHR ''-'') s)"

definition normalizeIdNumber :: "idDocumentType \<Rightarrow> string option \<Rightarrow> string option" where
  "normalizeIdNumber ty raw = (case raw of None \<Rightarrow> None | Some r \<Rightarrow>
     if r = '''' then None
     else let compact = filter (\<lambda>c. \<not> is_space c) (toUpperCase r)
          in if id_number_re ty compact then Some compact else None)"

definition bullet :: string where "bullet = [CHR 0xE2, CHR 0x80, CHR 0xA2]"

definition maskIdentifier :: "string option \<Rightarrow> string" where
  "maskIdentifier value = (case value of None \<Rightarrow> '''' | Some v \<Rightarrow>
     if v = '''' then ''''
     else if length v \<le> 4 then concat (replicate (length v) bullet)
     else take 2 v @ concat (replicate (max 2 (length v - 4)) bullet) @ drop (length v - 2) v)"

record identityInput =
  ii_idType :: "string option"
  ii_idNumber :: "string option"
  ii_kraPin :: "string option"

record normalizedIdentity =
  ni_idType :: "idDocumentType option"
  ni_idNumber :: "string option"
  ni_kraPin :: "string option"

definition normalizeIdentity_id :: "identityInput \<Rightarrow> error + (idDocumentType \<times> string) option" where
  "normalizeIdentity_id input =
     (let rawNumber = (if truthy (ii_idNumber input) then trim (the (ii_idNumber input)) else '''');
          rawType = (if truthy (ii_idType input) then toUpperCase (trim (the (ii_idType input))) else '''')
      in if rawNumber = '''' then Inr None
         else case map_of ID_DOCUMENT_TYPES (if rawType = '''' then ''NATIONAL_ID'' else rawType) of
           None \<Rightarrow> Inl (IdentityValidationError (''Unknown ID type \"'' @ rawType @ ''\"'') ''idType'')
         | Some ty \<Rightarrow> (case normalizeIdNumber ty (Some rawNumber) of
             None \<Rightarrow> Inl (IdentityValidationError
               (''\"'' @ rawNumber @ ''\" is not a valid '' @ ID_DOCUMENT_LABELS ty @ '' number'') ''idNumber'')
           | Some n \<Rightarrow> Inr (Some (ty, n))))"

definition normalizeIdentity :: "identityInput \<Rightarrow> error + normalizedIdentity" where
  "normalizeIdentity input =
     (case normalizeIdentity_id input of Inl e \<Rightarrow> Inl e | Inr idn \<Rightarrow>
      let rawPin = (if truthy (ii_kraPin input) then trim (the (ii_kraPin input)) else '''') in
      if rawPin = '''' then Inr \<lparr> ni_idType = map_option fst idn, ni_idNumber = map_option snd idn, ni_kraPin = None \<rparr>
      else case normalizeKraPin (Some rawPin) of
        None \<Rightarrow> Inl (IdentityValidationError (''\"'' @ rawPin @
          ''\" is not a valid KRA PIN (expected e.g. A012345678Z for individuals or P051234567Q for companies)'') ''kraPin'')
      | Some pin \<Rightarrow> Inr \<lparr> ni_idType = map_option fst idn, ni_idNumber = map_option snd idn, ni_kraPin = Some pin \<rparr>)"

datatype query_kind = KRA_PIN | PHONE | ID_NUMBER | TEXT

text \<open>\<open>/^(\+?254|0)[17]\d{8}$/\<close> and \<open>/^[A-Z]{0,2}\d{5,9}$/\<close>\<close>

definition phone_query_re :: "string \<Rightarrow> bool" where
  "phone_query_re v \<longleftrightarrow> list_ex (\<lambda>p. starts_with p v \<and>
     (let r = drop (length p) v in length r = 9 \<and> (r ! 0 = CHR ''1'' \<or> r ! 0 = CHR ''7'') \<and>
        list_all is_digit (drop 1 r))) [''+254'', ''254'', ''0'']"

definition id_query_re :: "string \<Rightarrow> bool" where
  "id_query_re v \<longleftrightarrow> length (takeWhile is_upper v) \<le> 2 \<and> digits_between 5 9 (dropWhile is_upper v)"

definition classifyIdentityQuery :: "string \<Rightarrow> query_kind" where
  "classifyIdentityQuery q =
     (let v = filter (\<lambda>c. \<not> (is_space c \<or> c = CHR ''-'')) (toUpperCase (trim q)) in
      if kra_pin_re v then KRA_PIN
      else if phone_query_re v then PHONE
      else if id_query_re v then ID_NUMBER
      else TEXT)"

section \<open>Normal forms\<close>

lemma starts_with_append [simp]: "starts_with p (p @ s)"
  by (simp add: starts_with_def)

lemma starts_with_conv: "starts_with p s \<longleftrightarrow> (\<exists>r. s = p @ r)"
  by (metis append_take_drop_id starts_with_append starts_with_def)

definition canonical_phone :: "string \<Rightarrow> bool" where
  "canonical_phone v \<longleftrightarrow> (\<exists>d. v = ''+254'' @ d \<and> length d = 9 \<and> list_all phone_char d)"

lemma phone_canonical:
  assumes "normalizeKenyanPhone raw = Some v"
  shows "canonical_phone v"
proof -
  define d1 where "d1 = (let d0 = filter phone_char raw in if starts_with ''+'' d0 then drop 1 d0 else d0)"
  define d2 where "d2 = (if starts_with ''0'' d1 then KENYA_COUNTRY_CODE @ drop 1 d1 else d1)"
  have v: "v = ''+'' @ d2" "length d2 = 12" "starts_with ''254'' d2"
    using assms by (auto simp: normalizeKenyanPhone_def d1_def d2_def Let_def KENYA_COUNTRY_CODE_def
        simp del: starts_with_append split: if_splits)
  have "list_all phone_char d1" by (auto simp: d1_def Let_def list_all_iff dest: in_set_dropD)
  moreover have "list_all phone_char KENYA_COUNTRY_CODE" by code_simp
  ultimately have "list_all phone_char d2" by (auto simp: d2_def list_all_iff dest: in_set_dropD)
  moreover obtain r where "d2 = ''254'' @ r" using v(3) by (auto simp: starts_with_conv)
  ultimately show ?thesis using v(1,2) by (auto simp: canonical_phone_def)
qed

lemma phone_fixed:
  assumes "canonical_phone v"
  shows "normalizeKenyanPhone v = Some v"
proof -
  obtain d where d: "v = ''+254'' @ d" "length d = 9" "list_all phone_char d"
    using assms by (auto simp: canonical_phone_def)
  have "filter phone_char d = d" using d(3) by (auto simp: list_all_iff filter_id_conv)
  moreover have "filter phone_char ''+254'' = ''+254''" by code_simp
  ultimately have "filter phone_char v = ''+254'' @ d" by (simp only: d(1) filter_append)
  with d show ?thesis
    by (simp add: normalizeKenyanPhone_def starts_with_def KENYA_COUNTRY_CODE_def Let_def)
qed

interpretation phone: normaliser normalizeKenyanPhone canonical_phone
  by unfold_locales (fact phone_canonical, fact phone_fixed)

lemma upper_chars [simp]:
  "is_upper c \<Longrightarrow> to_upper c = c" "is_digit c \<Longrightarrow> to_upper c = c" "is_upper c \<Longrightarrow> \<not> is_space c"
  "is_upper c \<Longrightarrow> c \<noteq> CHR ''-''" "to_upper CHR ''-'' = CHR ''-''" "to_upper CHR ''/'' = CHR ''/''"
  "\<not> is_upper CHR ''-''"
  by (auto simp: to_upper_def is_upper_def is_lower_def is_digit_def is_space_def)

lemma alnum_fixed:
  assumes "list_all alnum s"
  shows "toUpperCase s = s" "filter (\<lambda>c. \<not> (is_space c \<or> c = CHR ''-'')) s = s"
    "filter (\<lambda>c. \<not> is_space c) s = s"
  using assms by (auto simp: toUpperCase_def list_all_iff alnum_def filter_id_conv intro!: map_idI)

lemma kra_pin_alnum:
  assumes "kra_pin_re v"
  shows "list_all alnum v"
proof -
  have len: "length v = 11" using assms by (simp add: kra_pin_re_def)
  have "alnum (v ! i)" if "i < 11" for i
  proof -
    have "is_upper CHR ''A''" "is_upper CHR ''P''" by code_simp+
    then have "alnum (v ! 0)" "alnum (v ! 10)" using assms by (auto simp: kra_pin_re_def alnum_def)
    moreover have "is_digit (v ! i)" if "0 < i" "i < 10" for i
    proof -
      have "v ! i = take 9 (drop 1 v) ! (i - 1)" using that len by simp
      moreover have "take 9 (drop 1 v) ! (i - 1) \<in> set (take 9 (drop 1 v))"
        using that len by (intro nth_mem) simp
      ultimately show ?thesis using assms by (auto simp: kra_pin_re_def list_all_iff)
    qed
    ultimately show ?thesis using that by (cases "i = 0"; cases "i = 10") (auto simp: alnum_def)
  qed
  then show ?thesis by (simp add: list_all_length len)
qed

lemma kra_canonical: "normalizeKraPin (Some raw) = Some v \<Longrightarrow> kra_pin_re v"
  by (auto simp: normalizeKraPin_def Let_def split: if_splits)

lemma kra_fixed:
  assumes "kra_pin_re v"
  shows "normalizeKraPin (Some v) = Some v"
proof -
  have "v \<noteq> []" using assms by (auto simp: kra_pin_re_def)
  with assms alnum_fixed [OF kra_pin_alnum [OF assms]] show ?thesis by (simp add: normalizeKraPin_def)
qed

interpretation kra: normaliser "\<lambda>s. normalizeKraPin (Some s)" kra_pin_re
  by unfold_locales (fact kra_canonical, fact kra_fixed)

lemma id_canonical: "normalizeIdNumber ty (Some raw) = Some v \<Longrightarrow> id_number_re ty v"
  by (auto simp: normalizeIdNumber_def Let_def split: if_splits)

lemma id_fixed:
  assumes "id_number_re ty v"
  shows "normalizeIdNumber ty (Some v) = Some v"
proof -
  have "list_all (\<lambda>c. alnum c \<or> c = CHR ''/'' \<or> c = CHR ''-'') v" and ne: "v \<noteq> []"
    using assms by (cases ty; auto simp: digits_between_def alnum_def list_all_iff)+
  moreover have "\<not> is_space CHR ''/''" "\<not> is_space CHR ''-''" by code_simp+
  ultimately have "toUpperCase v = v" "filter (\<lambda>c. \<not> is_space c) v = v"
    by (auto simp: toUpperCase_def list_all_iff alnum_def filter_id_conv intro!: map_idI)
  with assms ne show ?thesis by (simp add: normalizeIdNumber_def)
qed

interpretation id_number: normaliser "\<lambda>s. normalizeIdNumber ty (Some s)" "id_number_re ty"
  by unfold_locales (fact id_canonical, fact id_fixed)

section \<open>Properties\<close>

text \<open>The three normalisers (phone numbers, KRA PINs, identity document numbers) are
  idempotent: a value they return is canonical and is returned unchanged when it is normalised
  again, so comparing normalised values is comparing what was stored.\<close>

theorem normalisers_idempotent:
  "(normalizeKenyanPhone raw = Some v \<longrightarrow> normalizeKenyanPhone v = Some v) \<and>
   (normalizeKraPin (Some raw) = Some v \<longrightarrow> kra_pin_re v \<and> normalizeKraPin (Some v) = Some v) \<and>
   (normalizeIdNumber ty (Some raw) = Some v \<longrightarrow> id_number_re ty v \<and> normalizeIdNumber ty (Some v) = Some v)"
  using phone.normalise_idem kra.normalise_idem kra.normalise_canonical
    id_number.normalise_idem id_number.normalise_canonical by blast

theorem normalisers_idempotent_witness:
  "normalizeKenyanPhone ''+254712345678'' = Some ''+254712345678'' \<and>
   normalizeKraPin (Some ''A012345678Z'') = Some ''A012345678Z'' \<and>
   normalizeIdNumber PASSPORT (Some ''AK1234567'') = Some ''AK1234567''"
proof -
  have "normalizeKenyanPhone ''0712 345 678'' = Some ''+254712345678''"
    and "normalizeKraPin (Some ''a01234-5678z'') = Some ''A012345678Z''"
    and "normalizeIdNumber PASSPORT (Some ''ak 1234567'') = Some ''AK1234567''"
    by code_simp+
  with normalisers_idempotent show ?thesis by blast
qed

text \<open>\<open>normalizeKenyanPhone\<close> returns exactly the strings \<open>+254\<close> followed by nine characters that are
  digits or plus signs: a plus sign that is not the first character is kept, so the result
  need not be a phone number.\<close>

theorem normalizeKenyanPhone_range:
  "(\<exists>raw. normalizeKenyanPhone raw = Some v) \<longleftrightarrow>
     (\<exists>d. v = ''+254'' @ d \<and> length d = 9 \<and> list_all (\<lambda>c. is_digit c \<or> c = CHR ''+'') d)"
  using phone.range_canonical [of v] by (simp add: canonical_phone_def phone_char_def [abs_def])

end
