(* ===== verification/Payments.thy ===== *)
theory Payments
  imports Payment_State Approvals Kyc Validation
begin

text \<open>
  The payment commands of packages/payments-core/src/payments.ts and the payee book of
  beneficiaries.ts.  A payment is created as a draft under the idempotency guard, submitted
  (payee gate, watch-list screening, approval policy), queued with its funds reserved, and
  cancelled; \<open>fundWallet\<close> brings money in.  Foreign keys to the tables of branches and departments,
  which are not modelled, are taken to hold.
\<close>

section \<open>beneficiaries.ts\<close>

definition BENEFICIARY_APPROVER_ROLES :: "string list" where
  "BENEFICIARY_APPROVER_ROLES = [''APPROVER'', ''FINANCE_MANAGER'', ''OWNER'']"

record registerBeneficiaryInput =
  rb_tenantId :: string
  rb_createdById :: string
  rb_type :: "string option"
  rb_name :: string
  rb_phone :: "string option"
  rb_email :: "string option"
  rb_bankAccountName :: "string option"
  rb_bankAccountNumber :: "string option"
  rb_bankCode :: "string option"
  rb_tillNumber :: "string option"
  rb_paybillNumber :: "string option"
  rb_paybillAccount :: "string option"
  rb_notes :: "string option"
  rb_idType :: "string option"
  rb_idNumber :: "string option"
  rb_kraPin :: "string option"

text \<open>A rule without conditions, as the object literals of the source write it.\<close>

definition plain_rule :: "approval_mode \<Rightarrow> string list \<Rightarrow> int \<Rightarrow> int \<Rightarrow> approvalRule" where
  "plain_rule mode requiredRoles minApprovers order =
     \<lparr> rl_minAmountMinor = None, rl_maxAmountMinor = None, rl_products = None, rl_channels = None,
       rl_branchIds = None, rl_departmentIds = None, rl_riskFlags = None, rl_mode = mode,
       rl_requiredRoles = requiredRoles, rl_minApprovers = minApprovers, rl_order = order \<rparr>"

definition control_context :: "int \<Rightarrow> string \<Rightarrow> string \<Rightarrow> approvalContext" where
  "control_context amountMinor product channel =
     \<lparr> ctx_amountMinor = amountMinor, ctx_product = product, ctx_channel = channel,
       ctx_branchId = None, ctx_departmentId = None, ctx_riskFlags = None,
       ctx_accumulatedTodayMinor = None \<rparr>"

definition registerBeneficiary :: "registerBeneficiaryInput \<Rightarrow> (string \<times> string) cmd" where
  "registerBeneficiary input = transaction (
     bind fresh_id (\<lambda>bid.
     seq (modify (\<lambda>s. s\<lparr>beneficiaries := beneficiaries s @
            [\<lparr> b_id = bid, b_tenantId = rb_tenantId input, b_type = nullish (rb_type input) ''person'',
               b_name = rb_name input, b_phone = rb_phone input, b_email = rb_email input,
               b_bankAccountName = rb_bankAccountName input,
               b_bankAccountNumber = rb_bankAccountNumber input, b_bankCode = rb_bankCode input,
               b_tillNumber = rb_tillNumber input, b_paybillNumber = rb_paybillNumber input,
               b_paybillAccount = rb_paybillAccount input, b_notes = rb_notes input,
               b_idType = rb_idType input, b_idNumber = rb_idNumber input, b_kraPin = rb_kraPin input,
               b_status = B_PENDING, b_createdById = Some (rb_createdById input) \<rparr>]\<rparr>))
     (bind (createApprovalRequest
             \<lparr> ca_tenantId = rb_tenantId input, ca_paymentId = None, ca_batchId = None,
               ca_resourceType = Some ''beneficiary'', ca_resourceId = Some bid, ca_policyId = None,
               ca_rules = [plain_rule ANY BENEFICIARY_APPROVER_ROLES 1 1],
               ca_context = control_context 0 ''control'' ''internal'', ca_metadata = JUndefined,
               ca_createdById = rb_createdById input, ca_dueAt = None \<rparr>) (\<lambda>requestId.
      seq (enqueueOutbox ''beneficiary.registration_requested'' ''beneficiary'' bid (Some (rb_tenantId input))
             (JObject [(''beneficiaryId'', JString bid), (''approvalRequestId'', JString requestId)]))
          (return (bid, requestId))))))"

definition setBeneficiaryStatus :: "string \<Rightarrow> beneficiary_status \<Rightarrow> unit cmd" where
  "setBeneficiaryStatus bid st = modify (\<lambda>s. s\<lparr>beneficiaries :=
     update_rows (\<lambda>b. b_id b = bid) (\<lambda>b. b\<lparr>b_status := st\<rparr>) (beneficiaries s)\<rparr>)"

definition beneficiary_event :: "string \<Rightarrow> string \<Rightarrow> string \<Rightarrow> string \<Rightarrow> unit cmd" where
  "beneficiary_event eventType tenantId bid actorId =
     seq (enqueueOutbox eventType ''beneficiary'' bid (Some tenantId)
            (JObject [(''beneficiaryId'', JString bid), (''actorId'', JString actorId)]))
         (return ())"

definition activateBeneficiary :: "string \<Rightarrow> string \<Rightarrow> string \<Rightarrow> unit cmd" where
  "activateBeneficiary tenantId bid actorId = transaction (
     bind (gets (\<lambda>s. find (\<lambda>b. b_id b = bid \<and> b_tenantId b = tenantId) (beneficiaries s))) (\<lambda>row.
     bind (require row (BeneficiaryError ''Payee not found'' ''NOT_FOUND'')) (\<lambda>b.
     if b_status b = B_ACTIVE then return ()
     else seq (setBeneficiaryStatus bid B_ACTIVE)
              (beneficiary_event ''beneficiary.activated'' tenantId bid actorId))))"

definition rejectBeneficiary :: "string \<Rightarrow> string \<Rightarrow> string \<Rightarrow> unit cmd" where
  "rejectBeneficiary tenantId bid actorId = transaction (
     bind (gets (\<lambda>s. find (\<lambda>b. b_id b = bid \<and> b_tenantId b = tenantId) (beneficiaries s))) (\<lambda>row.
     bind (require row (BeneficiaryError ''Payee not found'' ''NOT_FOUND'')) (\<lambda>b.
     if b_status b \<noteq> B_PENDING then return ()
     else seq (setBeneficiaryStatus bid B_REJECTED)
              (beneficiary_event ''beneficiary.rejected'' tenantId bid actorId))))"

definition assertPayeeApproved :: "string \<Rightarrow> string option \<Rightarrow> unit cmd" where
  "assertPayeeApproved tenantId beneficiaryId =
     (if \<not> truthy beneficiaryId then return ()
      else bind (gets (\<lambda>s. find (\<lambda>b. b_id b = the beneficiaryId \<and> b_tenantId b = tenantId) (beneficiaries s))) (\<lambda>row.
       bind (require row (BeneficiaryError ''Payee not found in your workspace'' ''NOT_FOUND'')) (\<lambda>b.
       seq (guard (b_status b \<noteq> B_REJECTED)
              (BeneficiaryError (''Payee \"'' @ b_name b @ ''\" was rejected '' @ em_dash @ '' choose another payee'')
                 ''PAYEE_NOT_APPROVED''))
           (guard (b_status b = B_ACTIVE)
              (BeneficiaryError (''Payee \"'' @ b_name b @ ''\" is pending approval '' @ em_dash @
                 '' an approver must activate it in the Approval center first'') ''PAYEE_NOT_APPROVED'')))))"

section \<open>createPayment\<close>

record recipient =
  rc_name :: string
  rc_phone :: "string option"
  rc_email :: "string option"
  rc_bankAccountName :: "string option"
  rc_bankAccountNumber :: "string option"
  rc_bankCode :: "string option"
  rc_tillNumber :: "string option"
  rc_paybillNumber :: "string option"
  rc_paybillAccount :: "string option"
  rc_type :: "string option"

record createPaymentInput =
  cp_tenantId :: string
  cp_actorId :: string
  cp_amount :: string
  cp_channel :: string
  cp_product :: "string option"
  cp_sourceWalletId :: string
  cp_branchId :: "string option"
  cp_departmentId :: "string option"
  cp_category :: "string option"
  cp_remark :: "string option"
  cp_recipient :: recipient
  cp_idempotencyKey :: string
  cp_providerCode :: "string option"

text \<open>\<open>normalizeKenyanPhone\<close> returns \<open>null\<close> for a phone number it does not accept.\<close>

definition buildBeneficiarySnapshot :: "createPaymentInput \<Rightarrow> jsval" where
  "buildBeneficiarySnapshot input = (let r = cp_recipient input in toJsonSafe (JObject
     [(''name'', JString (rc_name r)),
      (''phone'', if truthy (rc_phone r)
                 then (case normalizeKenyanPhone (the (rc_phone r)) of None \<Rightarrow> JNull | Some v \<Rightarrow> JString v)
                 else JUndefined),
      (''email'', js_opt (rc_email r)),
      (''bankAccountName'', js_opt (rc_bankAccountName r)),
      (''bankAccountNumber'', js_opt (rc_bankAccountNumber r)),
      (''bankCode'', js_opt (rc_bankCode r)),
      (''tillNumber'', js_opt (rc_tillNumber r)),
      (''paybillNumber'', js_opt (rc_paybillNumber r)),
      (''paybillAccount'', js_opt (rc_paybillAccount r)),
      (''type'', JString (nullish (rc_type r) ''person''))]))"

text \<open>\<open>ZF-<year>-<tenant prefix>-<random>\<close>; \<open>crypto.randomUUID()\<close> draws from the id generator, the
  year is that of the clock in UTC.\<close>

definition generatePaymentNumber :: "string \<Rightarrow> string cmd" where
  "generatePaymentNumber tenantId =
     bind fresh_id (\<lambda>uuid.
     bind (gets now) (\<lambda>t.
     return (''ZF-'' @ show_int (fst (civil_from_days (t div 86400000))) @ ''-'' @
       toUpperCase (take 4 tenantId) @ ''-'' @ toUpperCase (take 6 uuid))))"

definition loadWallet :: "string \<Rightarrow> string \<Rightarrow> wallet cmd" where
  "loadWallet tenantId walletId =
     bind (gets (\<lambda>s. find (\<lambda>w. w_id w = walletId \<and> w_tenantId w = tenantId) (wallets s))) (\<lambda>row.
     bind (require row (PaymentError ''Source wallet not found'' ''WALLET_NOT_FOUND'')) (\<lambda>w.
     seq (guard (w_status w = W_ACTIVE) (PaymentError ''Source wallet is not active'' ''WALLET_FROZEN''))
         (return w)))"

text \<open>The insert into \<open>payments\<close> with its two unique indexes (\<open>NULL\<close> keys never collide).\<close>

definition insertPayment :: "(string \<Rightarrow> db \<Rightarrow> payment) \<Rightarrow> payment cmd" where
  "insertPayment mk =
     bind fresh_id (\<lambda>pid.
     bind (gets (\<lambda>s. (mk pid s)\<lparr>p_id := pid, p_createdAt := now s, p_updatedAt := now s\<rparr>)) (\<lambda>p.
     bind (gets (\<lambda>s. p_idempotencyKey p \<noteq> None \<and> (\<exists>q \<in> set (payments s).
              p_tenantId q = p_tenantId p \<and> p_idempotencyKey q = p_idempotencyKey p))) (\<lambda>dupKey.
     seq (guard (\<not> dupKey) (DbUnique ''payments_idem_key_uidx''))
     (bind (gets (\<lambda>s. p_paymentNumber p \<in> p_paymentNumber ` set (payments s))) (\<lambda>dupNumber.
      seq (guard (\<not> dupNumber) (DbUnique ''payments_number_uidx''))
      (seq (modify (\<lambda>s. s\<lparr>payments := payments s @ [p]\<rparr>))
           (return p)))))))"

text \<open>A payment row with the defaults of the schema.\<close>

definition blank_payment :: "string \<Rightarrow> string \<Rightarrow> payment" where
  "blank_payment tenantId number =
     \<lparr> p_id = '''', p_tenantId = tenantId, p_paymentNumber = number, p_batchId = None,
       p_product = ''single_payment'', p_channel = '''', p_amountMinor = 0, p_feeMinor = 0,
       p_totalMinor = 0, p_currency = ''KES'', p_status = DRAFT, p_sourceWalletId = None,
       p_beneficiaryId = None, p_beneficiarySnapshot = JNull, p_branchId = None,
       p_departmentId = None, p_category = None, p_remark = None, p_idempotencyKey = None,
       p_providerReference = None, p_providerStatus = None, p_riskFlags = [],
       p_approvalRequired = False, p_approvedById = None, p_approvedAt = None,
       p_scheduledFor = None, p_successAt = None, p_failureReason = None, p_reversalReason = None,
       p_createdById = None, p_createdAt = 0, p_updatedAt = 0, p_version = 1 \<rparr>"

definition created_payment :: "payment \<Rightarrow> int \<Rightarrow> feeResult \<Rightarrow> jsval" where
  "created_payment p amountMinor fee = JObject
     [(''paymentId'', JString (p_id p)), (''paymentNumber'', JString (p_paymentNumber p)),
      (''status'', JString (state_name (p_status p))),
      (''amountMinor'', JString (show_int amountMinor)),
      (''feeMinor'', JString (show_int (fee_feeMinor fee))),
      (''totalMinor'', JString (show_int (amountMinor + fee_feeMinor fee))),
      (''approvalRequired'', JBool False)]"

definition createPayment_run :: "createPaymentInput \<Rightarrow> int \<Rightarrow> jsval cmd" where
  "createPayment_run input amountMinor =
     bind (loadWallet (cp_tenantId input) (cp_sourceWalletId input)) (\<lambda>wallet.
     bind (computeFee amountMinor
             \<lparr> fx_tenantId = cp_tenantId input, fx_product = nullish (cp_product input) ''single_payment'',
               fx_channel = cp_channel input,
               fx_providerCode = nullish (cp_providerCode input) ''local-sandbox'' \<rparr>) (\<lambda>fee.
     bind (generatePaymentNumber (cp_tenantId input)) (\<lambda>number.
     bind (insertPayment (\<lambda>pid s. (blank_payment (cp_tenantId input) number)
             \<lparr> p_product := nullish (cp_product input) ''single_payment'', p_channel := cp_channel input,
               p_amountMinor := amountMinor, p_feeMinor := fee_feeMinor fee,
               p_totalMinor := amountMinor + fee_feeMinor fee, p_status := DRAFT,
               p_sourceWalletId := Some (w_id wallet), p_branchId := cp_branchId input,
               p_departmentId := cp_departmentId input, p_category := cp_category input,
               p_remark := cp_remark input,
               p_beneficiarySnapshot := stored (buildBeneficiarySnapshot input),
               p_idempotencyKey := Some (cp_idempotencyKey input),
               p_createdById := Some (cp_actorId input) \<rparr>)) (\<lambda>payment.
     seq (recordFeeCalculation (cp_tenantId input) (p_id payment) amountMinor fee)
     (seq (insertStatusHistory (p_id payment) None DRAFT None (Some (cp_actorId input)))
          (return (created_payment payment amountMinor fee)))))))"

definition createPayment :: "createPaymentInput \<Rightarrow> (bool \<times> jsval) cmd" where
  "createPayment input = (case parseMinor (RawString (cp_amount input)) of
     Inl e \<Rightarrow> throw e
   | Inr amountMinor \<Rightarrow>
       seq (guard (0 < amountMinor) (PaymentError ''Amount must be positive'' ''INVALID_AMOUNT''))
           (transaction (withIdempotency (cp_tenantId input) ''payment.create'' (cp_idempotencyKey input)
              (createPayment_run input amountMinor))))"

section \<open>submitPayment and queuePayment\<close>

text \<open>The payload of the events that name only the payment.\<close>

definition payment_event :: "string \<Rightarrow> string \<Rightarrow> string \<Rightarrow> (string \<times> jsval) list \<Rightarrow> unit cmd" where
  "payment_event eventType paymentId tenantId extra =
     seq (enqueueOutbox eventType ''payment'' paymentId (Some tenantId)
            (JObject ((''paymentId'', JString paymentId) # extra)))
         (return ())"

definition getPayment :: "string \<Rightarrow> string \<Rightarrow> error \<Rightarrow> payment cmd" where
  "getPayment tenantId paymentId e =
     bind (gets (\<lambda>s. find (\<lambda>p. p_id p = paymentId \<and> p_tenantId p = tenantId) (payments s)))
       (\<lambda>row. require row e)"

text \<open>\<open>queuePayment\<close> reserves the total; a shortage fails the payment, any other error is rethrown.
  A payment without a source wallet selects no wallet, like the empty id here.\<close>

definition queuePayment :: "string \<Rightarrow> string \<Rightarrow> string \<Rightarrow> payment_state cmd" where
  "queuePayment paymentId actorId tenantId =
     bind (gets (\<lambda>s. find (\<lambda>p. p_id p = paymentId) (payments s))) (\<lambda>row.
     bind (require row (PaymentError ''Payment not found'' ''PAYMENT_NOT_FOUND'')) (\<lambda>payment.
     bind (catch (bind (reserveFunds tenantId (p_id payment) (nullish (p_sourceWalletId payment) [])
                          (p_totalMinor payment)) (\<lambda>_. return True))
            (\<lambda>err. case err of
               InsufficientFundsError w \<Rightarrow>
                 seq (transitionPayment (p_id payment) FAILED (Some actorId) (Some ''insufficient balance'') None)
                 (seq (payment_event ''payment.failed'' (p_id payment) tenantId
                         [(''reason'', JString ''insufficient balance'')])
                      (return False))
             | _ \<Rightarrow> throw err)) (\<lambda>reserved.
     if \<not> reserved then return FAILED
     else
       seq (transitionPayment (p_id payment) QUEUED (Some actorId) (Some ''queued for execution'') None)
       (seq (payment_event ''payment.queued'' (p_id payment) tenantId [])
            (return QUEUED)))))"

text \<open>The recipient of the snapshot: its name and phone are strings or absent.\<close>

definition snapshot_string :: "string \<Rightarrow> jsval \<Rightarrow> string option" where
  "snapshot_string k v = (case js_lookup k v of JString x \<Rightarrow> Some x | _ \<Rightarrow> None)"

text \<open>The watch-list gate; the result tells whether the recipient hit and the risk flags of the
  payment afterwards.\<close>

definition screenPayment :: "payment \<Rightarrow> string \<Rightarrow> string \<Rightarrow> (bool \<times> string list) cmd" where
  "screenPayment payment tenantId actorId =
     (let benName = trim (nullish (snapshot_string ''name'' (p_beneficiarySnapshot payment)) []) in
      if benName \<noteq> [] \<and> p_channel payment \<in> set [''mpesa'', ''till'', ''paybill'', ''bank'']
      then bind (screenRecipientForPayment tenantId (p_id payment) benName
                   (snapshot_string ''phone'' (p_beneficiarySnapshot payment)) (Some actorId)) (\<lambda>screen.
           if ps_hit screen
           then (let flags = p_riskFlags payment @ [''aml_watchlist_hit''] in
                 seq (updatePayment (p_id payment) (\<lambda>p. p\<lparr>p_riskFlags := flags\<rparr>)) (return (True, flags)))
           else return (False, p_riskFlags payment))
      else return (False, p_riskFlags payment))"

definition submit_context :: "payment \<Rightarrow> string list \<Rightarrow> approvalContext" where
  "submit_context payment flags =
     \<lparr> ctx_amountMinor = p_amountMinor payment, ctx_product = p_product payment,
       ctx_channel = p_channel payment, ctx_branchId = p_branchId payment,
       ctx_departmentId = p_departmentId payment, ctx_riskFlags = Some flags,
       ctx_accumulatedTodayMinor = None \<rparr>"

definition aml_rule :: approvalRule where
  "aml_rule = (plain_rule PARALLEL [''APPROVER''] 1 99)\<lparr>rl_riskFlags := Some [''aml_watchlist_hit'']\<rparr>"

text \<open>The rules that decide: a watch-list hit without a matching rule gets the synthetic one.\<close>

definition submit_rules :: "approvalRule list \<Rightarrow> approvalContext \<Rightarrow> bool \<Rightarrow> approvalRule list" where
  "submit_rules rules ctx amlHit = (if evaluatePolicy rules ctx = [] \<and> amlHit then [aml_rule] else rules)"

definition requestPaymentApproval ::
  "payment \<Rightarrow> string \<Rightarrow> string \<Rightarrow> approvalRule list \<Rightarrow> approvalContext \<Rightarrow> (payment_state \<times> string option) cmd" where
  "requestPaymentApproval payment tenantId actorId rules ctx =
     bind (createApprovalRequest
             \<lparr> ca_tenantId = tenantId, ca_paymentId = Some (p_id payment), ca_batchId = None,
               ca_resourceType = None, ca_resourceId = None, ca_policyId = None, ca_rules = rules,
               ca_context = ctx, ca_metadata = JUndefined, ca_createdById = actorId, ca_dueAt = None \<rparr>) (\<lambda>requestId.
     seq (transitionPayment (p_id payment) PENDING_APPROVAL (Some actorId) (Some ''approval required'') None)
     (seq (updatePayment (p_id payment) (\<lambda>p. p\<lparr>p_approvalRequired := True\<rparr>))
     (seq (payment_event ''payment.approval_requested'' (p_id payment) tenantId
             [(''approvalRequestId'', JString requestId)])
          (return (PENDING_APPROVAL, Some requestId)))))"

definition submitPayment ::
  "string \<Rightarrow> string \<Rightarrow> string \<Rightarrow> approvalRule list option \<Rightarrow> (payment_state \<times> string option) cmd" where
  "submitPayment tenantId paymentId actorId policyRules = transaction (
     bind (getPayment tenantId paymentId (PaymentError ''Payment not found'' ''PAYMENT_NOT_FOUND'')) (\<lambda>payment.
     seq (guard (p_status payment \<in> {DRAFT, VALIDATING, REJECTED, FAILED})
            (PaymentError (''Cannot submit payment in state '' @ state_name (p_status payment)) ''INVALID_STATE''))
     (seq (guard (truthy (p_sourceWalletId payment)) (PaymentError ''Payment has no source wallet'' ''NO_WALLET''))
     (seq (assertPayeeApproved tenantId (p_beneficiaryId payment))
     (seq (transitionPayment (p_id payment) VALIDATING (Some actorId) (Some ''submit'') None)
     (bind (screenPayment payment tenantId actorId) (\<lambda>(amlHit, flags).
      let ctx = submit_context payment flags;
          rules = submit_rules (nullish policyRules []) ctx amlHit
      in if evaluatePolicy rules ctx \<noteq> []
         then requestPaymentApproval payment tenantId actorId rules ctx
         else bind (queuePayment (p_id payment) actorId tenantId) (\<lambda>st. return (st, None)))))))))"

section \<open>The other commands of payments.ts\<close>

definition approveQueuedPayment :: "string \<Rightarrow> string \<Rightarrow> string \<Rightarrow> payment_state cmd" where
  "approveQueuedPayment tenantId paymentId actorId = transaction (
     bind (getPayment tenantId paymentId (PaymentError ''Payment not found'' ''PAYMENT_NOT_FOUND'')) (\<lambda>payment.
     seq (guard (p_status payment = PENDING_APPROVAL)
            (PaymentError (''Cannot approve payment in state '' @ state_name (p_status payment)) ''INVALID_STATE''))
     (seq (transitionPayment (p_id payment) APPROVED (Some actorId) (Some ''approval complete'') None)
     (bind (gets now) (\<lambda>t.
      seq (updatePayment (p_id payment) (\<lambda>p. p\<lparr>p_approvedById := Some actorId, p_approvedAt := Some t\<rparr>))
          (queuePayment (p_id payment) actorId tenantId))))))"

definition cancelPayment :: "string \<Rightarrow> string \<Rightarrow> string \<Rightarrow> string option \<Rightarrow> unit cmd" where
  "cancelPayment tenantId paymentId actorId reason = transaction (
     bind (getPayment tenantId paymentId (PaymentError ''Payment not found'' ''PAYMENT_NOT_FOUND'')) (\<lambda>payment.
     seq (guard (p_status payment \<in> {DRAFT, REJECTED, FAILED, QUEUED})
            (PaymentError (''Cannot cancel payment in state '' @ state_name (p_status payment)) ''INVALID_STATE''))
     (seq (transitionPayment (p_id payment) CANCELLED (Some actorId) reason None)
          (payment_event ''payment.cancelled'' (p_id payment) tenantId []))))"

definition fundWallet ::
  "string \<Rightarrow> string \<Rightarrow> string \<Rightarrow> string \<Rightarrow> string option \<Rightarrow> string option \<Rightarrow> string cmd" where
  "fundWallet tenantId walletId amount method reference actorId = (case parseMinor (RawString amount) of
     Inl e \<Rightarrow> throw e
   | Inr amountMinor \<Rightarrow> transaction (
     bind (gets (\<lambda>s. find (\<lambda>w. w_id w = walletId \<and> w_tenantId w = tenantId) (wallets s))) (\<lambda>row.
     bind (require row (PaymentError ''Wallet not found'' ''WALLET_NOT_FOUND'')) (\<lambda>wallet.
     bind fresh_id (\<lambda>eid.
     seq (modify (\<lambda>s. s\<lparr>fundingEvents := fundingEvents s @
            [\<lparr> fe_id = eid, fe_tenantId = tenantId, fe_walletId = w_id wallet, fe_amountMinor = amountMinor,
               fe_reference = reference, fe_method = method, fe_status = ''COMPLETED'',
               fe_createdById = actorId \<rparr>]\<rparr>))
     (seq (updateWallets (\<lambda>w. w_id w = w_id wallet)
             (\<lambda>w. w\<lparr>w_availableMinor := w_availableMinor w + amountMinor\<rparr>))
     (seq (recordWalletFunding tenantId (w_id wallet) (Some ''funding'') (Some eid) amountMinor
             (Some (''funding event '' @ eid @ '' ('' @ method @ '')'')))
     (seq (postFundingJournal tenantId (w_id wallet) amountMinor actorId)
     (seq (enqueueOutbox ''balance.funded'' ''wallet'' (w_id wallet) (Some tenantId)
             (JObject [(''walletId'', JString (w_id wallet)), (''amountMinor'', JString (show_int amountMinor)),
                       (''fundingEventId'', JString eid)]))
          (return eid))))))))))"

end
