(* ===== verification/Execution.thy ===== *)
theory Execution
  imports Payments
begin

text \<open>
  packages/payments-core: execution through a provider (execute.ts), reversal (reversal.ts) and
  the monitor of stuck payments (monitor.ts).  The provider adapters talk to the outside; an
  adapter is a parameter, a record of functions from requests to answers, where an answer is
  the thrown error's message (\<open>None\<close> when something else than an \<open>Error\<close> was thrown) or the
  result.  The time a call takes is an argument, as the clock stands still during a command.
\<close>

section \<open>Provider adapters (providers/src/types.ts)\<close>

datatype providerResultStatus = PR_SUCCESS | PR_PENDING | PR_FAILED | PR_REVERSED | PR_UNKNOWN

fun provider_status_name :: "providerResultStatus \<Rightarrow> string" where
  "provider_status_name PR_SUCCESS = ''SUCCESS''"
| "provider_status_name PR_PENDING = ''PENDING''"
| "provider_status_name PR_FAILED = ''FAILED''"
| "provider_status_name PR_REVERSED = ''REVERSED''"
| "provider_status_name PR_UNKNOWN = ''UNKNOWN''"

record providerDestination =
  pd_channel :: string
  pd_phone :: "string option"
  pd_bankAccountName :: "string option"
  pd_bankAccountNumber :: "string option"
  pd_bankCode :: "string option"
  pd_tillNumber :: "string option"
  pd_paybillNumber :: "string option"
  pd_paybillAccount :: "string option"

record providerPaymentInput =
  ppi_paymentId :: string
  ppi_reference :: string
  ppi_amountMinor :: int
  ppi_destination :: providerDestination
  ppi_providerReference :: string

record providerResult =
  prr_status :: providerResultStatus
  prr_providerReference :: "string option"
  prr_errorCode :: "string option"
  prr_errorMessage :: "string option"

record providerReversalInput =
  pvi_providerReference :: string
  pvi_amountMinor :: int
  pvi_reason :: string
  pvi_paymentId :: string

record paymentProvider =
  provider_createPayment :: "providerPaymentInput \<Rightarrow> string option + providerResult"
  provider_getPaymentStatus :: "string \<Rightarrow> string \<Rightarrow> string option + providerResult"
  provider_reversePayment :: "providerReversalInput \<Rightarrow> string option + providerResult"

section \<open>execute.ts\<close>

definition recordAttempt ::
  "string \<Rightarrow> int \<Rightarrow> string \<Rightarrow> string option \<Rightarrow> string option \<Rightarrow> int \<Rightarrow> string option \<Rightarrow> unit cmd" where
  "recordAttempt paymentId attemptNumber status errorCode errorMessage latencyMs providerReference =
     bind fresh_id (\<lambda>aid.
     modify (\<lambda>s. s\<lparr>paymentAttempts := paymentAttempts s @
       [\<lparr> pa_id = aid, pa_paymentId = paymentId, pa_attemptNumber = attemptNumber,
          pa_providerReference = providerReference, pa_status = status, pa_errorCode = errorCode,
          pa_errorMessage = map_option (take 1000) errorMessage, pa_latencyMs = latencyMs,
          pa_createdAt = now s \<rparr>]\<rparr>))"

definition settleReservation :: "string \<Rightarrow> (string \<Rightarrow> unit cmd) \<Rightarrow> unit cmd" where
  "settleReservation paymentId settle =
     bind (gets (\<lambda>s. find (\<lambda>r. wr_paymentId r = paymentId) (walletReservations s))) (\<lambda>reservation.
     case reservation of
       None \<Rightarrow> return ()
     | Some r \<Rightarrow> whenM (wr_status r = HELD) (settle (wr_id r)))"

definition applyProviderSuccess :: "string \<Rightarrow> string \<Rightarrow> string option \<Rightarrow> unit cmd" where
  "applyProviderSuccess paymentId providerReference providerEventId =
     bind (gets (\<lambda>s. find (\<lambda>p. p_id p = paymentId) (payments s))) (\<lambda>row.
     bind (require row (ExecutionError ''Payment not found'' ''PAYMENT_NOT_FOUND'')) (\<lambda>payment.
     if p_status payment = SUCCESS then return ()
     else
       seq (guard (p_status payment \<in> {PROCESSING, PROVIDER_PENDING, QUEUED})
              (ExecutionError (''Cannot mark SUCCESS from state '' @ state_name (p_status payment)) ''INVALID_STATE''))
       (seq (settleReservation (p_id payment) applyReservation)
       (seq (transitionPayment (p_id payment) SUCCESS None
               (Some (if truthy providerEventId then ''verified callback '' @ the providerEventId
                      else ''provider sync success'')) None)
       (bind (gets now) (\<lambda>t.
        seq (updatePayment (p_id payment) (\<lambda>p. p\<lparr>p_providerReference := Some providerReference,
               p_providerStatus := Some ''SUCCESS'', p_successAt := Some t\<rparr>))
       (seq (postPaymentSuccessJournal (p_tenantId payment) (p_id payment) (p_sourceWalletId payment)
               (p_amountMinor payment) (p_feeMinor payment) None)
            (payment_event ''payment.succeeded'' (p_id payment) (p_tenantId payment)
               [(''providerReference'', JString providerReference)]))))))))"

definition applyProviderFailure :: "string \<Rightarrow> string \<Rightarrow> string \<Rightarrow> string option \<Rightarrow> unit cmd" where
  "applyProviderFailure paymentId errorCode errorMessage providerEventId =
     bind (gets (\<lambda>s. find (\<lambda>p. p_id p = paymentId) (payments s))) (\<lambda>row.
     bind (require row (ExecutionError ''Payment not found'' ''PAYMENT_NOT_FOUND'')) (\<lambda>payment.
     if p_status payment \<in> {FAILED, CANCELLED, REVERSED} then return ()
     else
       seq (settleReservation (p_id payment) releaseReservation)
       (seq (transitionPayment (p_id payment) FAILED None
               (Some (if truthy providerEventId then ''verified callback '' @ the providerEventId
                      else take 300 errorMessage)) None)
       (seq (updatePayment (p_id payment) (\<lambda>p. p\<lparr>p_providerStatus := Some ''FAILED'',
               p_failureReason := Some (take 500 errorMessage)\<rparr>))
            (payment_event ''payment.failed'' (p_id payment) (p_tenantId payment)
               [(''errorCode'', JString errorCode), (''errorMessage'', JString errorMessage)])))))"

text \<open>\<open>(b.x as string) || undefined\<close>\<close>

definition snapshot_nonempty :: "string \<Rightarrow> jsval \<Rightarrow> string option" where
  "snapshot_nonempty k v = (case snapshot_string k v of Some [] \<Rightarrow> None | x \<Rightarrow> x)"

definition destination_of :: "payment \<Rightarrow> providerDestination" where
  "destination_of p = (let b = p_beneficiarySnapshot p in
     \<lparr> pd_channel = p_channel p, pd_phone = snapshot_nonempty ''phone'' b,
       pd_bankAccountName = snapshot_nonempty ''bankAccountName'' b,
       pd_bankAccountNumber = snapshot_nonempty ''bankAccountNumber'' b,
       pd_bankCode = snapshot_nonempty ''bankCode'' b,
       pd_tillNumber = snapshot_nonempty ''tillNumber'' b,
       pd_paybillNumber = snapshot_nonempty ''paybillNumber'' b,
       pd_paybillAccount = snapshot_nonempty ''paybillAccount'' b \<rparr>)"

definition applyProviderResult :: "payment \<Rightarrow> string \<Rightarrow> providerResult \<Rightarrow> unit cmd" where
  "applyProviderResult payment providerReference result = (case prr_status result of
     PR_SUCCESS \<Rightarrow> applyProviderSuccess (p_id payment) (nullish (prr_providerReference result) providerReference) None
   | PR_FAILED \<Rightarrow> applyProviderFailure (p_id payment) (nullish (prr_errorCode result) ''PROVIDER_REJECTED'')
        (nullish (prr_errorMessage result) ''provider rejected'') None
   | PR_REVERSED \<Rightarrow> transitionPayment (p_id payment) REVERSED None
        (Some (nullish (prr_errorMessage result) ''provider reversed'')) None
   | PR_PENDING \<Rightarrow> transitionPayment (p_id payment) PROVIDER_PENDING None
        (Some ''awaiting provider callback'') None
   | PR_UNKNOWN \<Rightarrow> transitionPayment (p_id payment) PROVIDER_PENDING None
        (Some (''unknown provider state '' @ em_dash @ '' monitoring'')) None)"

definition executePayment :: "string \<Rightarrow> string \<Rightarrow> paymentProvider \<Rightarrow> int \<Rightarrow> int \<Rightarrow> unit cmd" where
  "executePayment tenantId paymentId provider attemptNumber latencyMs = transaction (
     bind (getPayment tenantId paymentId (ExecutionError ''Payment not found'' ''PAYMENT_NOT_FOUND'')) (\<lambda>payment.
     if p_status payment \<noteq> QUEUED then return ()
     else
       seq (transitionPayment (p_id payment) PROCESSING None (Some (''attempt '' @ show_int attemptNumber)) None)
       (let providerReference = ''ZF-'' @ p_paymentNumber payment in
        case provider_createPayment provider
               \<lparr> ppi_paymentId = p_id payment, ppi_reference = p_paymentNumber payment,
                 ppi_amountMinor = p_amountMinor payment, ppi_destination = destination_of payment,
                 ppi_providerReference = providerReference \<rparr> of
          Inl err \<Rightarrow>
            (let message = nullish err ''unknown provider error'' in
             seq (recordAttempt (p_id payment) attemptNumber ''UNKNOWN'' (Some ''PROVIDER_ERROR'')
                    (Some (take 500 message)) latencyMs (Some providerReference))
                 (transitionPayment (p_id payment) PROVIDER_PENDING None
                    (Some (''provider error: '' @ take 200 message @ '' '' @ em_dash @ '' monitoring'')) None))
        | Inr result \<Rightarrow>
            seq (recordAttempt (p_id payment) attemptNumber (provider_status_name (prr_status result))
                   (prr_errorCode result) (prr_errorMessage result) latencyMs
                   (Some (nullish (prr_providerReference result) providerReference)))
                (applyProviderResult payment providerReference result))))"

section \<open>reversal.ts\<close>

definition REVERSAL_APPROVER_ROLES :: "string list" where
  "REVERSAL_APPROVER_ROLES = [''APPROVER'', ''FINANCE_MANAGER'', ''OWNER'']"

definition loadReversiblePayment :: "string \<Rightarrow> string \<Rightarrow> payment cmd" where
  "loadReversiblePayment tenantId paymentId =
     bind (getPayment tenantId paymentId (ReversalError ''Payment not found'' ''PAYMENT_NOT_FOUND'')) (\<lambda>payment.
     seq (guard (p_status payment = SUCCESS \<or> p_status payment = PROVIDER_PENDING)
            (ReversalError (''Cannot reverse payment in state '' @ state_name (p_status payment)) ''INVALID_STATE''))
     (seq (guard (truthy (p_providerReference payment))
            (ReversalError ''Payment has no provider reference to reverse'' ''NO_PROVIDER_REF''))
          (return payment)))"

definition requestReversalApproval :: "string \<Rightarrow> string \<Rightarrow> string \<Rightarrow> string \<Rightarrow> string cmd" where
  "requestReversalApproval tenantId paymentId actorId reason = transaction (
     bind (loadReversiblePayment tenantId paymentId) (\<lambda>payment.
     createApprovalRequest
       \<lparr> ca_tenantId = tenantId, ca_paymentId = None, ca_batchId = None,
         ca_resourceType = Some ''reversal'', ca_resourceId = Some (p_id payment), ca_policyId = None,
         ca_rules = [plain_rule ANY REVERSAL_APPROVER_ROLES 1 0],
         ca_context = control_context (p_amountMinor payment) ''reversal'' ''internal'',
         ca_metadata = JObject [(''reason'', JString reason), (''requestedBy'', JString actorId)],
         ca_createdById = actorId, ca_dueAt = None \<rparr>))"

datatype reversal_outcome = OUT_REVERSED | OUT_IN_PROGRESS

definition insertReversal :: "string \<Rightarrow> payment \<Rightarrow> string \<Rightarrow> string \<Rightarrow> string \<Rightarrow> unit cmd" where
  "insertReversal tenantId payment reason status actorId = bind fresh_id (\<lambda>rid.
     modify (\<lambda>s. s\<lparr>reversals := reversals s @
       [\<lparr> rv_id = rid, rv_tenantId = tenantId, rv_paymentId = p_id payment,
          rv_amountMinor = p_amountMinor payment, rv_reason = reason, rv_status = status,
          rv_createdById = Some actorId \<rparr>]\<rparr>))"

definition requestReversal ::
  "string \<Rightarrow> string \<Rightarrow> string \<Rightarrow> string \<Rightarrow> paymentProvider \<Rightarrow> reversal_outcome cmd" where
  "requestReversal tenantId paymentId actorId reason provider = transaction (
     bind (loadReversiblePayment tenantId paymentId) (\<lambda>payment.
     bind (gets (\<lambda>s. find (\<lambda>r. rv_paymentId r = p_id payment) (reversals s))) (\<lambda>existing.
     if existing \<noteq> None \<and> rv_status (the existing) = ''PROCESSED'' then return OUT_REVERSED
     else
       case provider_reversePayment provider
              \<lparr> pvi_providerReference = the (p_providerReference payment),
                pvi_amountMinor = p_amountMinor payment, pvi_reason = reason,
                pvi_paymentId = p_id payment \<rparr> of
         Inl err \<Rightarrow> throw (ReversalError (''Reversal request failed: '' @ nullish err ''provider error'') ''PROVIDER_ERROR'')
       | Inr result \<Rightarrow>
         seq (insertReversal tenantId payment reason
                (if prr_status result = PR_SUCCESS then ''PROCESSED'' else ''REQUESTED'') actorId)
         (if prr_status result = PR_SUCCESS
          then seq (transitionPayment (p_id payment) REVERSED (Some actorId) (Some reason) None)
            (seq (updatePayment (p_id payment) (\<lambda>p. p\<lparr>p_reversalReason := Some reason,
                    p_providerStatus := Some ''REVERSED''\<rparr>))
            (seq (postReversalJournal tenantId (p_id payment) (p_sourceWalletId payment)
                    (p_amountMinor payment) (Some actorId))
            (seq (payment_event ''payment.reversed'' (p_id payment) tenantId [(''reason'', JString reason)])
                 (return OUT_REVERSED))))
          else seq (transitionPayment (p_id payment) PROVIDER_PENDING (Some actorId) (Some ''reversal in progress'') None)
                   (return OUT_IN_PROGRESS)))))"

definition executeApprovedReversal ::
  "string \<Rightarrow> string \<Rightarrow> string \<Rightarrow> string \<Rightarrow> paymentProvider \<Rightarrow> reversal_outcome cmd" where
  "executeApprovedReversal tenantId paymentId actorId reason provider =
     bind (getPayment tenantId paymentId (ReversalError ''Payment not found'' ''PAYMENT_NOT_FOUND'')) (\<lambda>payment.
     if p_status payment = REVERSED then return OUT_REVERSED
     else requestReversal tenantId paymentId actorId reason provider)"

section \<open>monitor.ts\<close>

definition applyPolledStatus :: "payment \<Rightarrow> string \<Rightarrow> providerResult \<Rightarrow> unit cmd" where
  "applyPolledStatus payment reference status = (case prr_status status of
     PR_SUCCESS \<Rightarrow> applyProviderSuccess (p_id payment) reference (Some ''status-poll'')
   | PR_FAILED \<Rightarrow> applyProviderFailure (p_id payment) ''PROVIDER_STATUS_POLL''
        (nullish (prr_errorMessage status) ''provider reported failure'') (Some ''status-poll'')
   | PR_REVERSED \<Rightarrow>
        seq (transitionPayment (p_id payment) REVERSED None (Some ''provider status poll: reversed'') None)
            (updatePayment (p_id payment) (\<lambda>p. p\<lparr>p_providerStatus := Some ''REVERSED''\<rparr>))
   | _ \<Rightarrow> return ())"

text \<open>One turn of the loop: whatever is thrown is swallowed.\<close>

definition monitorOne :: "paymentProvider \<Rightarrow> nat \<Rightarrow> payment \<Rightarrow> nat cmd" where
  "monitorOne provider updated payment =
     (if \<not> truthy (p_providerReference payment) then return updated
      else catch
        (let reference = the (p_providerReference payment) in
         case provider_getPaymentStatus provider reference (p_id payment) of
           Inl err \<Rightarrow> throw (ProviderError (nullish err []))
         | Inr status \<Rightarrow> seq (transaction (applyPolledStatus payment reference status)) (return (updated + 1)))
        (\<lambda>_. return updated))"

definition monitorStuckPayments :: "paymentProvider \<Rightarrow> int option \<Rightarrow> nat option \<Rightarrow> (nat \<times> nat) cmd" where
  "monitorStuckPayments provider olderThanMs limit =
     bind (gets (\<lambda>s. let cutoff = now s - nullish olderThanMs (5 * 60000)
              in take (nullish limit 50) (filter (\<lambda>p. p_status p = PROVIDER_PENDING \<and> p_updatedAt p \<le> cutoff)
                   (payments s)))) (\<lambda>stuck.
     bind (foldM stuck 0 (monitorOne provider)) (\<lambda>updated.
     return (length stuck, updated)))"

end
