(* ===== verification/Collections.thy ===== *)
theory Collections
  imports Payments Execution
begin

text \<open>
  packages/payments-core/src/collections.ts: receiving money.  All paths (STK push, C2B paybill,
  bank transfer) create a pending collection and converge on \<open>settleCollection\<close>, which credits the
  wallet, logs the movement and posts the funding journal in one transaction;
  \<open>applyInvoicePayment\<close> is the function of packages/etims/src/service.ts it calls.  The search
  and the statistics queries are not modelled.
\<close>

section \<open>Amounts, numbers and look-ups\<close>

definition COLLECTION_MIN_MINOR :: int where "COLLECTION_MIN_MINOR = 100"
definition COLLECTION_MAX_MINOR :: int where "COLLECTION_MAX_MINOR = 25000000"

text \<open>The random bytes of the number are drawn from the id generator.\<close>

definition generateCollectionNumber :: "string cmd" where
  "generateCollectionNumber =
     bind fresh_id (\<lambda>rand.
     bind (gets now) (\<lambda>t.
     return (''COL-'' @ filter (\<lambda>c. c \<noteq> CHR ''-'') (take 10 (toISOString t)) @ ''-'' @ toUpperCase (take 8 rand))))"

definition resolveWallet :: "string \<Rightarrow> string option \<Rightarrow> wallet cmd" where
  "resolveWallet tenantId walletId =
     bind (gets (\<lambda>s. find (\<lambda>w. True) (sort_key w_createdAt (filter (\<lambda>w. w_tenantId w = tenantId \<and>
              (truthy walletId \<longrightarrow> Some (w_id w) = walletId)) (wallets s))))) (\<lambda>row.
     bind (require row (CollectionError ''No wallet available to receive funds'' ''WALLET_NOT_FOUND'')) (\<lambda>w.
     seq (guard (w_status w = W_ACTIVE) (CollectionError ''The receiving wallet is not active'' ''WALLET_INACTIVE''))
         (return w)))"

record payerIdentity =
  py_name :: "string option"
  py_phone :: "string option"
  py_idType :: "string option"
  py_idNumber :: "string option"
  py_kraPin :: "string option"

definition no_payer :: payerIdentity where
  "no_payer = \<lparr> py_name = None, py_phone = None, py_idType = None, py_idNumber = None, py_kraPin = None \<rparr>"

definition payerFromCustomer :: "string \<Rightarrow> string option \<Rightarrow> (string option \<times> payerIdentity) cmd" where
  "payerFromCustomer tenantId customerId =
     (if \<not> truthy customerId then return (None, no_payer)
      else bind (gets (\<lambda>s. find (\<lambda>c. cu_id c = the customerId \<and> cu_tenantId c = tenantId) (customers s))) (\<lambda>row.
        bind (require row (CollectionError ''Customer not found'' ''CUSTOMER_NOT_FOUND'')) (\<lambda>c.
        return (Some (cu_id c), \<lparr> py_name = Some (cu_name c), py_phone = cu_phone c, py_idType = cu_idType c,
          py_idNumber = cu_idNumber c, py_kraPin = cu_kraPin c \<rparr>))))"

definition loadInvoice :: "string \<Rightarrow> string option \<Rightarrow> etimsDocument option cmd" where
  "loadInvoice tenantId invoiceId =
     (if \<not> truthy invoiceId then return None
      else bind (gets (\<lambda>s. find (\<lambda>d. ed_id d = the invoiceId \<and> ed_tenantId d = tenantId) (etimsDocuments s))) (\<lambda>row.
        bind (require row (CollectionError ''Invoice not found'' ''INVOICE_NOT_FOUND'')) (\<lambda>inv.
        seq (guard (ed_docType inv = ''INVOICE'') (CollectionError ''Invoice not found'' ''INVOICE_NOT_FOUND''))
        (seq (guard (ed_status inv \<noteq> ''CANCELLED'') (CollectionError ''This invoice was cancelled'' ''INVOICE_CANCELLED''))
        (seq (guard (ed_paymentStatus inv \<noteq> ''PAID'')
                (CollectionError (''Invoice '' @ ed_number inv @ '' is already fully paid'') ''INVOICE_PAID''))
             (return (Some inv)))))))"

text \<open>\<open>a ?? b\<close> on two optional values.\<close>

definition orelse :: "'a option \<Rightarrow> 'a option \<Rightarrow> 'a option" where
  "orelse a b = (case a of None \<Rightarrow> b | Some x \<Rightarrow> Some x)"

section \<open>The collections table\<close>

definition receipt_taken :: "collection \<Rightarrow> collection list \<Rightarrow> bool" where
  "receipt_taken c cs \<longleftrightarrow> co_receiptNumber c \<noteq> None \<and>
     (\<exists>d \<in> set cs. co_id d \<noteq> co_id c \<and> co_channel d = co_channel c \<and> co_receiptNumber d = co_receiptNumber c)"

definition key_taken :: "collection \<Rightarrow> collection list \<Rightarrow> bool" where
  "key_taken c cs \<longleftrightarrow> co_idempotencyKey c \<noteq> None \<and>
     (\<exists>d \<in> set cs. co_tenantId d = co_tenantId c \<and> co_idempotencyKey d = co_idempotencyKey c)"

text \<open>The insert with the unique indexes on the number, on tenant and idempotency key, and on
  channel and receipt number.\<close>

definition insertCollection :: "(string \<Rightarrow> db \<Rightarrow> collection) \<Rightarrow> collection cmd" where
  "insertCollection mk =
     bind generateCollectionNumber (\<lambda>number.
     bind fresh_id (\<lambda>cid.
     bind (gets (\<lambda>s. (mk number s)\<lparr>co_id := cid, co_collectionNumber := number, co_status := CO_PENDING,
              co_currency := ''KES'', co_createdAt := now s\<rparr>)) (\<lambda>c.
     bind (gets (\<lambda>s. number \<in> co_collectionNumber ` set (collections s))) (\<lambda>dupNumber.
     seq (guard (\<not> dupNumber) (DbUnique ''collections_number_uidx''))
     (bind (gets (\<lambda>s. key_taken c (collections s))) (\<lambda>dupKey.
      seq (guard (\<not> dupKey) (DbUnique ''collections_idem_uidx''))
     (bind (gets (\<lambda>s. receipt_taken c (collections s))) (\<lambda>dupReceipt.
      seq (guard (\<not> dupReceipt) (DbUnique ''collections_channel_receipt_uidx''))
      (seq (modify (\<lambda>s. s\<lparr>collections := collections s @ [c]\<rparr>))
           (return c))))))))))"

text \<open>\<open>UPDATE collections ... WHERE id = ... RETURNING *\<close>, again under the receipt index.\<close>

definition updateCollection :: "string \<Rightarrow> (collection \<Rightarrow> collection) \<Rightarrow> collection option cmd" where
  "updateCollection cid f =
     bind (gets (\<lambda>s. map f (filter (\<lambda>c. co_id c = cid) (collections s)))) (\<lambda>rows.
     bind (gets (\<lambda>s. \<exists>c \<in> set rows. receipt_taken c (collections s))) (\<lambda>dup.
     seq (guard (\<not> dup) (DbUnique ''collections_channel_receipt_uidx''))
     (seq (modify (\<lambda>s. s\<lparr>collections := update_rows (\<lambda>c. co_id c = cid) f (collections s)\<rparr>))
          (return (find (\<lambda>c. True) rows)))))"

definition blank_collection :: "string \<Rightarrow> string \<Rightarrow> string \<Rightarrow> int \<Rightarrow> collection" where
  "blank_collection tenantId walletId channel amountMinor =
     \<lparr> co_id = '''', co_tenantId = tenantId, co_collectionNumber = '''', co_walletId = walletId,
       co_channel = channel, co_status = CO_PENDING, co_amountMinor = amountMinor, co_currency = ''KES'',
       co_accountReference = None, co_description = None, co_customerId = None, co_payerName = None,
       co_payerPhone = None, co_payerIdType = None, co_payerIdNumber = None, co_payerKraPin = None,
       co_invoiceId = None, co_receiptId = None, co_paymentLinkId = None, co_providerCode = None,
       co_providerReference = None, co_receiptNumber = None, co_failureReason = None,
       co_idempotencyKey = None, co_rawCallback = JNull, co_requestedById = None,
       co_settledAt = None, co_createdAt = 0 \<rparr>"

section \<open>Settlement\<close>

definition applyInvoicePayment :: "string \<Rightarrow> string \<Rightarrow> int \<Rightarrow> unit cmd" where
  "applyInvoicePayment tenantId invoiceId amountMinor =
     bind (gets (\<lambda>s. find (\<lambda>d. ed_id d = invoiceId \<and> ed_tenantId d = tenantId) (etimsDocuments s))) (\<lambda>row.
     case row of
       None \<Rightarrow> return ()
     | Some doc \<Rightarrow>
       if ed_docType doc \<noteq> ''INVOICE'' then return ()
       else (let paid = ed_paidMinor doc + amountMinor in
         modify (\<lambda>s. s\<lparr>etimsDocuments := update_rows (\<lambda>d. ed_id d = ed_id doc)
           (\<lambda>d. d\<lparr>ed_paidMinor := paid, ed_paymentStatus := (if paid \<ge> ed_totalMinor doc then ''PAID'' else ''PARTIAL''),
             ed_updatedAt := now s\<rparr>)
           (etimsDocuments s)\<rparr>)))"

record settleInput =
  si_collectionId :: string
  si_receiptNumber :: "string option"
  si_amountMinor :: "int option"
  si_payerName :: "string option"
  si_payerPhone :: "string option"
  si_raw :: "jsval option"
  si_actorId :: "string option"
  si_refType :: "string option"

definition settle_defaults :: "string \<Rightarrow> settleInput" where
  "settle_defaults cid = \<lparr> si_collectionId = cid, si_receiptNumber = None, si_amountMinor = None,
     si_payerName = None, si_payerPhone = None, si_raw = None, si_actorId = None, si_refType = None \<rparr>"

definition settle_amount :: "settleInput \<Rightarrow> collection \<Rightarrow> int" where
  "settle_amount input col = (case si_amountMinor input of
     Some a \<Rightarrow> (if 0 < a then a else co_amountMinor col) | None \<Rightarrow> co_amountMinor col)"

definition settled_collection :: "settleInput \<Rightarrow> int \<Rightarrow> int \<Rightarrow> collection \<Rightarrow> collection \<Rightarrow> collection" where
  "settled_collection input amount t col c = c\<lparr>
     co_status := CO_SUCCESS, co_amountMinor := amount,
     co_receiptNumber := orelse (si_receiptNumber input) (co_receiptNumber col),
     co_payerName := orelse (co_payerName col) (si_payerName input),
     co_payerPhone := orelse (co_payerPhone col)
        (if truthy (si_payerPhone input) then normalizeKenyanPhone (the (si_payerPhone input)) else None),
     co_rawCallback := (case si_raw input of Some r \<Rightarrow> to_jsonb r | None \<Rightarrow> co_rawCallback col),
     co_failureReason := None, co_settledAt := Some t\<rparr>"

definition js_null_opt :: "string option \<Rightarrow> jsval" where
  "js_null_opt v = (case v of None \<Rightarrow> JNull | Some x \<Rightarrow> JString x)"

definition collection_event :: "string \<Rightarrow> collection \<Rightarrow> (string \<times> jsval) list \<Rightarrow> unit cmd" where
  "collection_event eventType col extra =
     seq (enqueueOutbox eventType ''collection'' (co_id col) (Some (co_tenantId col))
            (JObject ([(''collectionId'', JString (co_id col)), (''collectionNumber'', JString (co_collectionNumber col))] @ extra)))
         (return ())"

text \<open>The wallet side of a settlement: credit, movement log, funding journal.\<close>

definition creditCollection :: "settleInput \<Rightarrow> int \<Rightarrow> collection \<Rightarrow> unit cmd" where
  "creditCollection input amount col =
     seq (updateWallets (\<lambda>w. w_id w = co_walletId col) (\<lambda>w. w\<lparr>w_availableMinor := w_availableMinor w + amount\<rparr>))
     (seq (recordWalletFunding (co_tenantId col) (co_walletId col) (Some (nullish (si_refType input) ''collection''))
             (Some (if truthy (co_paymentLinkId col) \<and> si_refType input = Some ''payment_link''
                    then the (co_paymentLinkId col) else co_id col))
             amount
             (Some (co_channel col @ '' '' @ co_collectionNumber col @
                (if truthy (si_receiptNumber input) then '' '' @ middle_dot @ '' '' @ the (si_receiptNumber input) else []))))
          (postFundingJournal (co_tenantId col) (co_walletId col) amount
             (orelse (si_actorId input) (co_requestedById col))))"

definition settleCollection :: "settleInput \<Rightarrow> (collection \<times> bool) cmd" where
  "settleCollection input = transaction (
     bind (gets (\<lambda>s. find (\<lambda>c. co_id c = si_collectionId input) (collections s))) (\<lambda>row.
     bind (require row (CollectionError ''Collection not found'' ''NOT_FOUND'')) (\<lambda>col.
     if co_status col = CO_SUCCESS then return (col, True)
     else
       seq (guard (co_status col \<noteq> CO_CANCELLED) (CollectionError ''Collection was cancelled'' ''CANCELLED''))
       (let amount = settle_amount input col in
        seq (creditCollection input amount col)
        (bind (gets now) (\<lambda>t.
         bind (updateCollection (co_id col) (settled_collection input amount t col)) (\<lambda>updated.
         let u = nullish updated col in
         seq (whenM (truthy (co_invoiceId col))
                (applyInvoicePayment (co_tenantId col) (the (co_invoiceId col)) amount))
         (seq (collection_event ''collection.received'' col
                [(''channel'', JString (co_channel col)), (''amountMinor'', JString (show_int amount)),
                 (''currency'', JString (co_currency col)),
                 (''receiptNumber'', js_null_opt (orelse (si_receiptNumber input) (co_receiptNumber col))),
                 (''payerName'', js_null_opt (co_payerName u)), (''payerPhone'', js_null_opt (co_payerPhone u)),
                 (''invoiceId'', js_null_opt (co_invoiceId col)),
                 (''accountReference'', js_null_opt (co_accountReference col))])
              (return (u, False))))))))))"

definition failCollection :: "string \<Rightarrow> string \<Rightarrow> jsval option \<Rightarrow> collection cmd" where
  "failCollection collectionId reason raw = transaction (
     bind (gets (\<lambda>s. find (\<lambda>c. co_id c = collectionId) (collections s))) (\<lambda>row.
     bind (require row (CollectionError ''Collection not found'' ''NOT_FOUND'')) (\<lambda>col.
     if co_status col \<noteq> CO_PENDING then return col
     else
       bind (updateCollection (co_id col) (\<lambda>c. c\<lparr>co_status := CO_FAILED, co_failureReason := Some (take 500 reason),
               co_rawCallback := (case raw of Some r \<Rightarrow> to_jsonb r | None \<Rightarrow> co_rawCallback col)\<rparr>)) (\<lambda>updated.
       seq (collection_event ''collection.failed'' col
              [(''reason'', JString reason), (''amountMinor'', JString (show_int (co_amountMinor col)))])
           (return (nullish updated col))))))"

definition findCollectionByProviderReference :: "string \<Rightarrow> collection option cmd" where
  "findCollectionByProviderReference reference = gets (\<lambda>s.
     find (\<lambda>c. True) (sort_key (\<lambda>c. - co_createdAt c)
       (filter (\<lambda>c. co_providerReference c = Some reference) (collections s))))"

definition expireStaleCollections :: "int option \<Rightarrow> nat cmd" where
  "expireStaleCollections olderThanMs =
     bind (gets (\<lambda>s. now s - nullish olderThanMs (10 * 60000))) (\<lambda>cutoff.
     let stale = (\<lambda>c. co_status c = CO_PENDING \<and> co_channel c = ''MPESA_STK'' \<and> co_createdAt c < cutoff) in
     bind (gets (\<lambda>s. length (filter stale (collections s)))) (\<lambda>n.
     seq (modify (\<lambda>s. s\<lparr>collections := update_rows stale
            (\<lambda>c. c\<lparr>co_status := CO_EXPIRED, co_failureReason := Some ''Payer did not complete the M-Pesa prompt''\<rparr>)
            (collections s)\<rparr>))
         (return n)))"

section \<open>Request to pay\<close>

definition is_unique_violation :: "error \<Rightarrow> bool" where
  "is_unique_violation e = (case e of DbUnique c \<Rightarrow> True | _ \<Rightarrow> False)"

record requestCollectionInput =
  rq_tenantId :: string
  rq_actorId :: string
  rq_walletId :: "string option"
  rq_phone :: string
  rq_amountMinor :: "int option"
  rq_accountReference :: "string option"
  rq_description :: "string option"
  rq_invoiceId :: "string option"
  rq_customerId :: "string option"
  rq_payer :: payerIdentity
  rq_idempotencyKey :: string

record collectionRequest =
  cr_collectionId :: string
  cr_reference :: string
  cr_amountMinor :: int
  cr_phone :: string
  cr_accountReference :: string
  cr_description :: string

record collectionResult =
  crr_status :: providerResultStatus
  crr_providerReference :: "string option"
  crr_errorMessage :: "string option"
  crr_raw :: "jsval option"

record collectionProvider =
  cpr_code :: string
  cpr_requestCollection :: "collectionRequest \<Rightarrow> string option + collectionResult"

definition find_by_key :: "string \<Rightarrow> string \<Rightarrow> collection option cmd" where
  "find_by_key tenantId key = gets (\<lambda>s. find (\<lambda>c. co_tenantId c = tenantId \<and> co_idempotencyKey c = Some key) (collections s))"

text \<open>The first non-empty string of \<open>a || b || c\<close>.\<close>

definition js_or :: "string option \<Rightarrow> string \<Rightarrow> string" where
  "js_or a b = (if truthy a then the a else b)"

definition stk_collection ::
  "requestCollectionInput \<Rightarrow> string \<Rightarrow> wallet \<Rightarrow> etimsDocument option \<Rightarrow> string option \<times> payerIdentity \<Rightarrow>
     int \<Rightarrow> string \<Rightarrow> string \<Rightarrow> collection" where
  "stk_collection input phone wallet invoice fromCustomer amountMinor accountReference providerCode =
     (let cust = snd fromCustomer; p = rq_payer input in
      (blank_collection (rq_tenantId input) (w_id wallet) ''MPESA_STK'' amountMinor)
        \<lparr> co_accountReference := Some accountReference,
          co_description := orelse (map_option (take 500) (rq_description input))
             (map_option (\<lambda>d. ''Payment for '' @ ed_number d) invoice),
          co_customerId := fst fromCustomer,
          co_payerName := orelse (py_name p) (orelse (py_name cust) (Option.bind invoice ed_customerName)),
          co_payerPhone := Some phone,
          co_payerIdType := orelse (py_idType p) (orelse (py_idType cust) (Option.bind invoice ed_customerIdType)),
          co_payerIdNumber := orelse (py_idNumber p) (orelse (py_idNumber cust) (Option.bind invoice ed_customerIdNumber)),
          co_payerKraPin := orelse (py_kraPin p) (orelse (py_kraPin cust) (Option.bind invoice ed_customerKraPin)),
          co_invoiceId := map_option ed_id invoice,
          co_providerCode := Some providerCode,
          co_idempotencyKey := Some (rq_idempotencyKey input),
          co_requestedById := Some (rq_actorId input) \<rparr>)"

text \<open>The prompt is pushed after the pending row is stored; a refusal or an exception fails the
  collection.\<close>

definition pushPrompt :: "collectionProvider \<Rightarrow> collection \<Rightarrow> string \<Rightarrow> int \<Rightarrow> string \<Rightarrow> collection cmd" where
  "pushPrompt provider col phone amountMinor accountReference = catch
     (case cpr_requestCollection provider
             \<lparr> cr_collectionId = co_id col, cr_reference = co_collectionNumber col, cr_amountMinor = amountMinor,
               cr_phone = phone, cr_accountReference = accountReference,
               cr_description = nullish (co_description col) accountReference \<rparr> of
        Inl err \<Rightarrow> throw (ProviderError (nullish err ''Provider error''))
      | Inr res \<Rightarrow>
        if crr_status res = PR_FAILED
        then failCollection (co_id col) (nullish (crr_errorMessage res) ''Request rejected by provider'') (crr_raw res)
        else bind (updateCollection (co_id col) (\<lambda>c. c\<lparr>co_providerReference := crr_providerReference res\<rparr>)) (\<lambda>updated.
          if crr_status res = PR_SUCCESS
          then bind (settleCollection ((settle_defaults (co_id col))\<lparr>si_raw := crr_raw res\<rparr>)) (\<lambda>settled. return (fst settled))
          else return (nullish updated col)))
     (\<lambda>err. failCollection (co_id col) (error_message err) None)"

definition requestStkCollection ::
  "requestCollectionInput \<Rightarrow> collectionProvider \<Rightarrow> (collection \<times> bool) cmd" where
  "requestStkCollection input provider =
     bind (find_by_key (rq_tenantId input) (rq_idempotencyKey input)) (\<lambda>prior.
     case prior of Some c \<Rightarrow> return (c, True) | None \<Rightarrow>
     bind (require (normalizeKenyanPhone (rq_phone input))
             (CollectionError ''Enter a valid Kenyan mobile number for the payer'' ''INVALID_PHONE'')) (\<lambda>phone.
     bind (loadInvoice (rq_tenantId input) (rq_invoiceId input)) (\<lambda>invoice.
     let amountMinor = nullish (rq_amountMinor input)
           (case invoice of Some d \<Rightarrow> ed_totalMinor d - ed_paidMinor d | None \<Rightarrow> 0) in
     seq (guard (amountMinor \<ge> COLLECTION_MIN_MINOR) (CollectionError ''Amount must be at least KES 1'' ''AMOUNT_TOO_SMALL''))
     (seq (guard (amountMinor \<le> COLLECTION_MAX_MINOR)
             (CollectionError ''M-Pesa allows at most KES 250,000 per transaction'' ''AMOUNT_TOO_LARGE''))
     (bind (resolveWallet (rq_tenantId input) (rq_walletId input)) (\<lambda>wallet.
      bind (payerFromCustomer (rq_tenantId input)
              (orelse (rq_customerId input) (Option.bind invoice ed_customerId))) (\<lambda>fromCustomer.
      let accountReference = take 60 (js_or (map_option trim (rq_accountReference input))
            (js_or (map_option ed_number invoice) ''Z-FLOAT'')) in
      bind (catch
              (bind (insertCollection (\<lambda>number s. stk_collection input phone wallet invoice fromCustomer amountMinor
                       accountReference (cpr_code provider))) (\<lambda>c. return (c, False)))
              (\<lambda>err. if is_unique_violation err
                 then bind (find_by_key (rq_tenantId input) (rq_idempotencyKey input)) (\<lambda>again.
                        case again of Some c \<Rightarrow> return (c, True) | None \<Rightarrow> throw err)
                 else throw err)) (\<lambda>(col, replayed).
      if replayed then return (col, True)
      else bind (pushPrompt provider col phone amountMinor accountReference) (\<lambda>c. return (c, False))))))))))"

section \<open>C2B payments\<close>

record c2bConfirmation =
  c2b_transId :: string
  c2b_transType :: string
  c2b_amountMinor :: int
  c2b_billRefNumber :: string
  c2b_msisdn :: string
  c2b_payerName :: string
  c2b_raw :: jsval

text \<open>\<open>/^([A-Z0-9]{2,20}?)(?:[-#. ](.+))?$/\<close>: the separators are not alphanumeric, so the head is
  the longest alphanumeric prefix.\<close>

definition bill_ref_parts :: "string \<Rightarrow> (string \<times> string) option" where
  "bill_ref_parts ref =
     (let head = takeWhile alnum ref; rest = dropWhile alnum ref in
      if length head < 2 \<or> length head > 20 then None
      else case rest of
        [] \<Rightarrow> Some (head, [])
      | c # tail \<Rightarrow> if c \<in> {CHR ''-'', CHR ''#'', CHR ''.'', CHR '' ''} \<and> tail \<noteq> [] \<and>
                     list_all (\<lambda>d. (of_char d :: nat) \<noteq> 10 \<and> (of_char d :: nat) \<noteq> 13) tail
                  then Some (head, trim tail) else None)"

text \<open>\<open>/^(?:INV-?)?0*(\d{1,6})$/\<close>\<close>

definition invoice_digits :: "string \<Rightarrow> string option" where
  "invoice_digits tail =
     (let ds = (if starts_with ''INV-'' tail then drop 4 tail else if starts_with ''INV'' tail then drop 3 tail else tail);
          stripped = dropWhile (\<lambda>c. c = CHR ''0'') ds
      in if ds = [] \<or> \<not> list_all is_digit ds \<or> length stripped > 6 then None
         else Some (if stripped = [] then ''0'' else stripped))"

definition resolveC2BAccount :: "string \<Rightarrow> (string \<times> string option \<times> string option) option cmd" where
  "resolveC2BAccount billRef =
     (let ref = toUpperCase (trim billRef) in
      if ref = [] then return None
      else case bill_ref_parts ref of
        None \<Rightarrow> return None
      | Some (head, tail) \<Rightarrow>
        bind (gets (\<lambda>s. find (\<lambda>t. tn_collectionAccountRef t = Some head) (tenants s))) (\<lambda>row.
        case row of
          None \<Rightarrow> return None
        | Some t \<Rightarrow>
          if tn_status t = ''SUSPENDED'' \<or> tn_status t = ''CLOSED'' then return None
          else if tail = [] then return (Some (tn_id t, None, None))
          else case invoice_digits tail of
            None \<Rightarrow> return (Some (tn_id t, None, None))
          | Some n \<Rightarrow>
            (let number = ''INV-'' @ padStart 6 CHR ''0'' n in
             bind (gets (\<lambda>s. find (\<lambda>d. ed_tenantId d = tn_id t \<and> ed_number d = number \<and> ed_docType d = ''INVOICE'')
                      (etimsDocuments s))) (\<lambda>doc.
             return (Some (tn_id t, map_option ed_id doc, map_option (\<lambda>_. number) doc))))))"

definition validateC2BPayment :: "c2bConfirmation \<Rightarrow> (bool \<times> string \<times> string) cmd" where
  "validateC2BPayment c2b =
     (if c2b_amountMinor c2b < COLLECTION_MIN_MINOR then return (False, ''C2B00013'', ''Rejected: invalid amount'')
      else bind (resolveC2BAccount (c2b_billRefNumber c2b)) (\<lambda>target.
        case target of
          None \<Rightarrow> return (False, ''C2B00012'', ''Rejected: invalid account number'')
        | Some x \<Rightarrow> return (True, ''0'', ''Accepted'')))"

datatype c2b_outcome = C2B_SETTLED | C2B_DUPLICATE | C2B_UNMATCHED

definition PLATFORM_TENANT :: string where
  "PLATFORM_TENANT = ''00000000-0000-0000-0000-000000000000''"

definition insertOrphan :: "string \<Rightarrow> string \<Rightarrow> string \<Rightarrow> int \<Rightarrow> string \<Rightarrow> unit cmd" where
  "insertOrphan tenantId source reference amountMinor notes = bind fresh_id (\<lambda>rid.
     modify (\<lambda>s. s\<lparr>reconItems := reconItems s @
       [\<lparr> ri_id = rid, ri_tenantId = tenantId, ri_runId = None, ri_source = source,
          ri_providerReference = reference, ri_amountMinor = amountMinor, ri_currency = ''KES'',
          ri_occurredAt = now s, ri_status = RI_UNKNOWN, ri_paymentId = None, ri_notes = Some notes,
          ri_createdAt = now s \<rparr>]\<rparr>))"

definition find_c2b :: "string \<Rightarrow> collection option cmd" where
  "find_c2b transId = gets (\<lambda>s. find (\<lambda>c. co_channel c = ''MPESA_C2B'' \<and> co_receiptNumber c = Some transId) (collections s))"

definition c2b_collection ::
  "c2bConfirmation \<Rightarrow> string \<Rightarrow> string option \<Rightarrow> string option \<Rightarrow> wallet \<Rightarrow> string option \<Rightarrow> customer option \<Rightarrow> collection" where
  "c2b_collection c2b tenantId invoiceId invoiceNumber wallet phone customer =
     (blank_collection tenantId (w_id wallet) ''MPESA_C2B'' (c2b_amountMinor c2b))
       \<lparr> co_accountReference := Some (take 60 (c2b_billRefNumber c2b)),
         co_description := Some (if truthy invoiceNumber then ''Paybill payment for '' @ the invoiceNumber
            else ''Paybill payment ('' @ js_or (Some (c2b_transType c2b)) ''C2B'' @ '')''),
         co_customerId := map_option cu_id customer,
         co_payerName := (if c2b_payerName c2b \<noteq> [] then Some (c2b_payerName c2b)
            else (case customer of Some c \<Rightarrow> (if cu_name c \<noteq> [] then Some (cu_name c) else None) | None \<Rightarrow> None)),
         co_payerPhone := phone,
         co_payerIdType := Option.bind customer cu_idType,
         co_payerIdNumber := Option.bind customer cu_idNumber,
         co_payerKraPin := Option.bind customer cu_kraPin,
         co_invoiceId := invoiceId,
         co_providerCode := Some ''mpesa-safaricom'',
         co_providerReference := Some (c2b_transId c2b),
         co_receiptNumber := Some (c2b_transId c2b),
         co_idempotencyKey := Some (''c2b:'' @ c2b_transId c2b),
         co_rawCallback := to_jsonb (c2b_raw c2b) \<rparr>"

definition settleC2B :: "c2bConfirmation \<Rightarrow> string \<Rightarrow> string option \<Rightarrow> string option \<Rightarrow> (c2b_outcome \<times> collection option) cmd" where
  "settleC2B c2b tenantId targetInvoice invoiceNumber =
     bind (resolveWallet tenantId None) (\<lambda>wallet.
     let phone = normalizeKenyanPhone (c2b_msisdn c2b) in
     bind (gets (\<lambda>s. case phone of None \<Rightarrow> None
              | Some ph \<Rightarrow> find (\<lambda>c. cu_tenantId c = tenantId \<and> cu_phone c = Some ph) (customers s))) (\<lambda>customer.
     bind (gets (\<lambda>s. if truthy targetInvoice \<and> map_option ed_paymentStatus
                 (find (\<lambda>d. Some (ed_id d) = targetInvoice) (etimsDocuments s)) = Some ''PAID''
              then None else targetInvoice)) (\<lambda>invoiceId.
     bind (catch (bind (insertCollection (\<lambda>number s.
                    c2b_collection c2b tenantId invoiceId invoiceNumber wallet phone customer)) (\<lambda>c. return (Inr c)))
            (\<lambda>err. if is_unique_violation err then bind (find_c2b (c2b_transId c2b)) (\<lambda>again. return (Inl again))
               else throw err)) (\<lambda>inserted.
     case inserted of
       Inl again \<Rightarrow> return (C2B_DUPLICATE, again)
     | Inr row \<Rightarrow>
       bind (settleCollection ((settle_defaults (co_id row))
               \<lparr>si_receiptNumber := Some (c2b_transId c2b), si_raw := Some (c2b_raw c2b)\<rparr>)) (\<lambda>settled.
       return (C2B_SETTLED, Some (fst settled)))))))"

definition recordC2BPayment :: "c2bConfirmation \<Rightarrow> (c2b_outcome \<times> collection option) cmd" where
  "recordC2BPayment c2b =
     bind (find_c2b (c2b_transId c2b)) (\<lambda>dupe.
     case dupe of Some c \<Rightarrow> return (C2B_DUPLICATE, Some c) | None \<Rightarrow>
     bind (resolveC2BAccount (c2b_billRefNumber c2b)) (\<lambda>target.
     case target of
       None \<Rightarrow>
         bind (gets (\<lambda>s. find (\<lambda>i. ri_source i = ''MPESA_C2B'' \<and> ri_providerReference i = c2b_transId c2b) (reconItems s))) (\<lambda>orphan.
         seq (whenM (orphan = None)
                (insertOrphan PLATFORM_TENANT ''MPESA_C2B'' (c2b_transId c2b) (c2b_amountMinor c2b)
                   (''C2B payment with unknown account \"'' @ c2b_billRefNumber c2b @ ''\" from '' @ c2b_msisdn c2b)))
             (return (C2B_UNMATCHED, None)))
     | Some (tenantId, invoiceId, invoiceNumber) \<Rightarrow> settleC2B c2b tenantId invoiceId invoiceNumber))"

section \<open>Bank transfers\<close>

record bankCollectionInput =
  bc_tenantId :: string
  bc_actorId :: string
  bc_amountMinor :: int
  bc_bankReference :: string
  bc_payer :: payerIdentity
  bc_customerId :: "string option"
  bc_invoiceId :: "string option"
  bc_description :: "string option"

definition bank_collection ::
  "bankCollectionInput \<Rightarrow> string \<Rightarrow> wallet \<Rightarrow> etimsDocument option \<Rightarrow> string option \<times> payerIdentity \<Rightarrow> collection" where
  "bank_collection input ref wallet invoice fromCustomer =
     (let cust = snd fromCustomer; p = bc_payer input in
      (blank_collection (bc_tenantId input) (w_id wallet) ''BANK_TRANSFER'' (bc_amountMinor input))
        \<lparr> co_accountReference := Some (nullish (map_option ed_number invoice) (take 60 ref)),
          co_description := Some (nullish (bc_description input)
             (case invoice of Some d \<Rightarrow> ''Bank transfer for '' @ ed_number d | None \<Rightarrow> ''Bank transfer'')),
          co_customerId := fst fromCustomer,
          co_payerName := orelse (py_name p) (orelse (py_name cust) (Option.bind invoice ed_customerName)),
          co_payerPhone := (if truthy (py_phone p) then normalizeKenyanPhone (the (py_phone p)) else py_phone cust),
          co_payerIdType := orelse (py_idType p) (py_idType cust),
          co_payerIdNumber := orelse (py_idNumber p) (py_idNumber cust),
          co_payerKraPin := orelse (py_kraPin p) (orelse (py_kraPin cust) (Option.bind invoice ed_customerKraPin)),
          co_invoiceId := map_option ed_id invoice,
          co_providerCode := Some ''bank-psp'',
          co_providerReference := Some ref,
          co_receiptNumber := Some (take 40 (toUpperCase ref)),
          co_idempotencyKey := Some (''bank:'' @ toUpperCase ref),
          co_requestedById := Some (bc_actorId input) \<rparr>)"

definition recordBankCollection :: "bankCollectionInput \<Rightarrow> collection cmd" where
  "recordBankCollection input =
     seq (guard (bc_amountMinor input \<ge> COLLECTION_MIN_MINOR) (CollectionError ''Amount must be at least KES 1'' ''AMOUNT_TOO_SMALL''))
     (let ref = trim (bc_bankReference input) in
      seq (guard (length ref \<ge> 4) (CollectionError ''Bank reference is required'' ''REFERENCE_REQUIRED''))
      (bind (loadInvoice (bc_tenantId input) (bc_invoiceId input)) (\<lambda>invoice.
       bind (resolveWallet (bc_tenantId input) None) (\<lambda>wallet.
       bind (payerFromCustomer (bc_tenantId input)
               (orelse (bc_customerId input) (Option.bind invoice ed_customerId))) (\<lambda>fromCustomer.
       bind (catch (insertCollection (\<lambda>number s. bank_collection input ref wallet invoice fromCustomer))
              (\<lambda>err. if is_unique_violation err
                 then throw (CollectionError ''A bank transfer with this reference was already recorded'' ''DUPLICATE_REFERENCE'')
                 else throw err)) (\<lambda>row.
       bind (settleCollection ((settle_defaults (co_id row))
               \<lparr>si_receiptNumber := co_receiptNumber row, si_actorId := Some (bc_actorId input)\<rparr>)) (\<lambda>settled.
       return (fst settled))))))))"

end
