(* ===== verification/Webhooks.thy ===== *)
theory Webhooks
  imports Collections
begin

text \<open>
  packages/payments-core/src/webhooks.ts: provider callbacks are verified by the adapter (a
  parameter: the theory starts from its answer), stored once per provider event, and applied to
  the payment or the collection they refer to.
\<close>

section \<open>ingestWebhook\<close>

record webhookFields =
  wf_type :: string
  wf_providerReference :: string
  wf_status :: providerResultStatus
  wf_amountMinor :: "int option"
  wf_raw :: jsval

record verifiedWebhook =
  vw_valid :: bool
  vw_providerEventId :: "string option"
  vw_event :: "webhookFields option"
  vw_reason :: "string option"

text \<open>Setting a key of an object literal: an existing key keeps its place.\<close>

fun js_set :: "string \<Rightarrow> jsval \<Rightarrow> (string \<times> jsval) list \<Rightarrow> (string \<times> jsval) list" where
  "js_set k v [] = [(k, v)]"
| "js_set k v ((k', v') # kvs) = (if k' = k then (k, v) # kvs else (k', v') # js_set k v kvs)"

definition js_fields :: "jsval \<Rightarrow> (string \<times> jsval) list" where
  "js_fields v = (case v of JObject kvs \<Rightarrow> kvs | _ \<Rightarrow> [])"

definition webhook_payload :: "webhookFields option \<Rightarrow> jsval" where
  "webhook_payload ev =
     (let raw = (case ev of None \<Rightarrow> JUndefined | Some e \<Rightarrow> wf_raw e);
          withRef = js_set ''providerReference''
            (js_nullish (js_lookup ''providerReference'' raw)
               (case ev of None \<Rightarrow> JUndefined | Some e \<Rightarrow> JString (wf_providerReference e))) (js_fields raw);
          withStatus = js_set ''status''
            (js_nullish (js_lookup ''status'' raw)
               (case ev of None \<Rightarrow> JUndefined | Some e \<Rightarrow> JString (provider_status_name (wf_status e)))) withRef;
          withAmount = (case Option.bind ev wf_amountMinor of
              Some a \<Rightarrow> (if js_lookup ''amountMinor'' raw = JUndefined
                         then js_set ''amountMinor'' (JString (show_int a)) withStatus else withStatus)
            | None \<Rightarrow> withStatus)
      in to_jsonb (JObject withAmount))"

text \<open>The insert with the unique index on \<open>provider_event_id\<close>.\<close>

definition insertWebhookEvent :: "string \<Rightarrow> string \<Rightarrow> jsval \<Rightarrow> string \<Rightarrow> unit cmd" where
  "insertWebhookEvent typ eventId payload signature =
     bind fresh_id (\<lambda>wid.
     bind (gets (\<lambda>s. Some eventId \<in> we_providerEventId ` set (webhookEvents s))) (\<lambda>dup.
     seq (guard (\<not> dup) (DbUnique ''webhook_events_provider_event_uidx''))
         (modify (\<lambda>s. s\<lparr>webhookEvents := webhookEvents s @
           [\<lparr> we_id = wid, we_tenantId = None, we_type = typ, we_providerEventId = Some eventId,
              we_payload = payload, we_signature = Some (take 1000 signature),
              we_status = WH_RECEIVED, we_processedAt = None \<rparr>]\<rparr>))))"

text \<open>The pair is \<open>{ accepted, reason }\<close>; \<open>headers\<close> is the JSON text of the request headers.\<close>

definition ingestWebhook :: "verifiedWebhook \<Rightarrow> string \<Rightarrow> (bool \<times> string option) cmd" where
  "ingestWebhook verified headers =
     seq (guard (vw_valid verified)
            (WebhookError (nullish (vw_reason verified) ''webhook verification failed'') ''VERIFY_FAILED''))
     (bind (case vw_providerEventId verified of Some e \<Rightarrow> return e | None \<Rightarrow> fresh_id) (\<lambda>eventId.
      bind (gets (\<lambda>s. find (\<lambda>w. we_providerEventId w = Some eventId) (webhookEvents s))) (\<lambda>existing.
      if existing \<noteq> None then return (False, Some ''duplicate event'')
      else catch
        (seq (insertWebhookEvent (case vw_event verified of None \<Rightarrow> ''payment.unknown'' | Some e \<Rightarrow> wf_type e)
                eventId (webhook_payload (vw_event verified)) headers)
             (return (True, None)))
        (\<lambda>err. if is_unique_violation err then return (False, Some ''duplicate event'') else throw err))))"

section \<open>processWebhookEvent\<close>

definition setWebhook :: "string \<Rightarrow> (db \<Rightarrow> webhookEvent \<Rightarrow> webhookEvent) \<Rightarrow> unit cmd" where
  "setWebhook eventId f = modify (\<lambda>s. s\<lparr>webhookEvents :=
     update_rows (\<lambda>w. we_id w = eventId) (f s) (webhookEvents s)\<rparr>)"

definition markProcessed :: "string \<Rightarrow> unit cmd" where
  "markProcessed eventId = setWebhook eventId (\<lambda>s w. w\<lparr>we_status := WH_PROCESSED, we_processedAt := Some (now s)\<rparr>)"

text \<open>\<open>String(a ?? b)\<close>\<close>

definition js_string_or :: "jsval \<Rightarrow> string \<Rightarrow> string" where
  "js_string_or v d = js_string (js_nullish v (JString d))"

definition js_string_opt :: "jsval \<Rightarrow> string option" where
  "js_string_opt v = (if js_truthy v then Some (js_string v) else None)"

definition digits_amount :: "jsval \<Rightarrow> int option" where
  "digits_amount v = (case v of JString a \<Rightarrow> (if a \<noteq> [] \<and> list_all is_digit a then bigint_of_string a else None) | _ \<Rightarrow> None)"

definition processCollectionCallback :: "string \<Rightarrow> collection \<Rightarrow> jsval \<Rightarrow> unit cmd" where
  "processCollectionCallback eventId col payload =
     (let cbStatus = js_string_or (js_lookup ''status'' payload) ''SUCCESS'' in
      seq (if cbStatus = ''SUCCESS''
           then seq (settleCollection ((settle_defaults (co_id col))
                  \<lparr> si_receiptNumber := js_string_opt (js_lookup ''receiptNumber'' payload),
                    si_amountMinor := digits_amount (js_lookup ''amountMinor'' payload),
                    si_payerPhone := js_string_opt (js_lookup ''payerPhone'' payload),
                    si_raw := Some payload \<rparr>)) (return ())
           else if cbStatus = ''FAILED''
           then seq (failCollection (co_id col)
                  (js_string_or (js_lookup ''errorMessage'' payload) ''Payer cancelled or the request failed'')
                  (Some payload)) (return ())
           else return ())
          (markProcessed eventId))"

text \<open>A callback nobody asked for is recorded once as a reconciliation orphan.\<close>

definition orphan_amount :: "jsval \<Rightarrow> int cmd" where
  "orphan_amount v = (case v of
     JString a \<Rightarrow> require (bigint_of_string a) (PlainError (''Cannot convert '' @ a @ '' to a BigInt''))
   | _ \<Rightarrow> return 0)"

definition recordOrphan :: "webhookEvent \<Rightarrow> string \<Rightarrow> jsval \<Rightarrow> unit cmd" where
  "recordOrphan event reference payload =
     seq (setWebhook (we_id event) (\<lambda>s w. w\<lparr>we_status := WH_UNMATCHED\<rparr>))
     (bind (gets (\<lambda>s. find (\<lambda>i. ri_source i = ''WEBHOOK'' \<and> ri_providerReference i = reference \<and>
              ri_status i = RI_UNKNOWN) (reconItems s))) (\<lambda>existing.
      whenM (existing = None)
        (bind (orphan_amount (js_lookup ''amountMinor'' payload)) (\<lambda>amount.
         insertOrphan (nullish (we_tenantId event) PLATFORM_TENANT) ''WEBHOOK'' reference amount
           (''webhook for unknown payment '' @ em_dash @ '' reconciliation orphan'')))))"

text \<open>The transaction that applies a callback to the payment of the attempt it refers to.\<close>

definition applyCallback :: "webhookEvent \<Rightarrow> paymentAttempt \<Rightarrow> string \<Rightarrow> jsval \<Rightarrow> unit cmd" where
  "applyCallback event attempt reference payload =
     (let status = js_string_or (js_lookup ''status'' payload) ''SUCCESS'' in
      transaction (
        seq (if status = ''SUCCESS''
             then applyProviderSuccess (pa_paymentId attempt) reference (we_providerEventId event)
             else if status = ''FAILED''
             then applyProviderFailure (pa_paymentId attempt) ''PROVIDER_CALLBACK_FAILED''
                    (js_string_or (js_lookup ''errorMessage'' payload) ''provider reported failure'')
                    (we_providerEventId event)
             else if status = ''REVERSED''
             then updatePayment (pa_paymentId attempt) (\<lambda>p. p\<lparr>p_status := REVERSED,
                    p_providerStatus := Some ''REVERSED'', p_reversalReason := Some ''provider reversed''\<rparr>)
             else updatePayment (pa_paymentId attempt) (\<lambda>p. p\<lparr>p_providerStatus := Some ''UNKNOWN''\<rparr>))
            (markProcessed (we_id event))))"

definition find_attempt :: "string \<Rightarrow> paymentAttempt option cmd" where
  "find_attempt reference = gets (\<lambda>s. find (\<lambda>a. True) (sort_key (\<lambda>a. - pa_createdAt a)
     (filter (\<lambda>a. pa_providerReference a = Some reference) (paymentAttempts s))))"

definition processWebhookEvent :: "string \<Rightarrow> unit cmd" where
  "processWebhookEvent eventId =
     bind (gets (\<lambda>s. find (\<lambda>w. we_id w = eventId) (webhookEvents s))) (\<lambda>row.
     bind (require row (WebhookError ''webhook event not found'' ''NOT_FOUND'')) (\<lambda>event.
     if we_status event = WH_PROCESSED \<or> we_status event = WH_DUPLICATE then return ()
     else
       let payload = we_payload event;
           reference = js_string_or (js_nullish (js_lookup ''providerReference'' payload) (js_lookup ''transactionId'' payload)) []
       in if reference = [] then setWebhook (we_id event) (\<lambda>s w. w\<lparr>we_status := WH_FAILED\<rparr>)
          else
            bind (find_attempt reference) (\<lambda>attempt.
            case attempt of
              Some a \<Rightarrow> applyCallback event a reference payload
            | None \<Rightarrow>
              bind (findCollectionByProviderReference reference) (\<lambda>collection.
              case collection of
                Some col \<Rightarrow> processCollectionCallback (we_id event) col payload
              | None \<Rightarrow> recordOrphan event reference payload))))"

end
