(* ===== verification/Payment_Links.thy ===== *)
theory Payment_Links
  imports Collections
begin

text \<open>
  packages/payments-core/src/payment-links.ts: public links that request a fixed amount.  A use of
  a link is claimed by a conditional update, then a \<open>PAYMENT_LINK\<close> collection is inserted and
  settled; the statements run one after the other, without a surrounding transaction.  The list
  for the user interface is not modelled.
\<close>

record paymentLinkInput =
  pli_tenantId :: string
  pli_actorId :: string
  pli_name :: string
  pli_description :: "string option"
  pli_amountMinor :: int
  pli_channel :: "string option"
  pli_maxUses :: "int option"
  pli_expiresAt :: "int option"

text \<open>The twelve random bytes are sixteen characters in base64url; they are drawn from the id
  generator.\<close>

definition generateLinkToken :: "string cmd" where
  "generateLinkToken = bind fresh_id (\<lambda>rand. return (''pl_'' @ take 16 rand))"

definition createPaymentLink :: "paymentLinkInput \<Rightarrow> paymentLink cmd" where
  "createPaymentLink input =
     bind generateLinkToken (\<lambda>token.
     bind fresh_id (\<lambda>lid.
     bind (gets (\<lambda>s. token \<in> pl_token ` set (paymentLinks s))) (\<lambda>dup.
     seq (guard (\<not> dup) (DbUnique ''payment_links_token_unique''))
     (bind (gets now) (\<lambda>t.
      let link = \<lparr> pl_id = lid, pl_tenantId = pli_tenantId input, pl_token = token, pl_name = pli_name input,
            pl_description = pli_description input, pl_amountMinor = pli_amountMinor input, pl_currency = ''KES'',
            pl_channel = nullish (pli_channel input) ''mpesa'', pl_status = PL_ACTIVE, pl_maxUses = pli_maxUses input,
            pl_useCount = 0, pl_expiresAt = pli_expiresAt input, pl_createdById = Some (pli_actorId input),
            pl_createdAt = t \<rparr>
      in seq (modify (\<lambda>s. s\<lparr>paymentLinks := paymentLinks s @ [link]\<rparr>)) (return link))))))"

record paymentLinkView =
  plv_id :: string
  plv_tenantName :: string
  plv_name :: string
  plv_description :: "string option"
  plv_amountMinor :: string
  plv_currency :: string
  plv_status :: link_status

definition getPaymentLinkView :: "string \<Rightarrow> paymentLinkView option cmd" where
  "getPaymentLinkView token =
     bind (gets (\<lambda>s. find (\<lambda>l. pl_token l = token) (paymentLinks s))) (\<lambda>row.
     case row of
       None \<Rightarrow> return None
     | Some l \<Rightarrow>
       bind (gets (\<lambda>s. find (\<lambda>t. tn_id t = pl_tenantId l) (tenants s))) (\<lambda>tenant.
       return (Some \<lparr> plv_id = pl_id l, plv_tenantName = nullish (map_option tn_name tenant) ''Z-float merchant'',
         plv_name = pl_name l, plv_description = pl_description l, plv_amountMinor = show_int (pl_amountMinor l),
         plv_currency = pl_currency l, plv_status = pl_status l \<rparr>)))"

section \<open>Paying through a link\<close>

record linkPayment =
  lp_fundedMinor :: int
  lp_walletBalanceMinor :: string
  lp_paymentLinkId :: string
  lp_collectionId :: string
  lp_collectionNumber :: string

definition may_use :: "paymentLink \<Rightarrow> bool" where
  "may_use l \<longleftrightarrow> (case pl_maxUses l of None \<Rightarrow> True | Some m \<Rightarrow> pl_useCount l < m)"

text \<open>The conditional update; the number of rows it returns is the number it changed.\<close>

definition claimUse :: "string \<Rightarrow> nat cmd" where
  "claimUse linkId =
     bind (gets (\<lambda>s. length (filter (\<lambda>l. pl_id l = linkId \<and> may_use l) (paymentLinks s)))) (\<lambda>claimed.
     seq (modify (\<lambda>s. s\<lparr>paymentLinks := update_rows (\<lambda>l. pl_id l = linkId \<and> may_use l)
            (\<lambda>l. l\<lparr>pl_useCount := pl_useCount l + 1\<rparr>) (paymentLinks s)\<rparr>))
         (return claimed))"

definition link_key :: "string \<Rightarrow> string \<Rightarrow> string" where
  "link_key token payerRef = take 128 (''paylink:'' @ token @ '':'' @ payerRef)"

definition link_collection ::
  "paymentLink \<Rightarrow> wallet \<Rightarrow> string \<Rightarrow> string \<Rightarrow> string option \<Rightarrow> string option \<Rightarrow> collection" where
  "link_collection l wallet token payerRef payerName payerPhone =
     (blank_collection (pl_tenantId l) (w_id wallet) ''PAYMENT_LINK'' (pl_amountMinor l))
       \<lparr> co_accountReference := Some (take 60 (pl_token l)), co_description := Some (pl_name l),
         co_payerName := payerName,
         co_payerPhone := (if truthy payerPhone then normalizeKenyanPhone (the payerPhone) else None),
         co_paymentLinkId := Some (pl_id l), co_providerCode := Some ''local-sandbox'',
         co_providerReference := Some (''LNK-'' @ toUpperCase (take 8 token) @ ''-'' @ toUpperCase (take 6 payerRef)),
         co_idempotencyKey := Some (link_key token payerRef), co_requestedById := pl_createdById l \<rparr>"

definition link_result :: "paymentLink \<Rightarrow> int \<Rightarrow> collection \<Rightarrow> string \<Rightarrow> linkPayment cmd" where
  "link_result l funded c walletId =
     bind (getWalletBalance walletId (pl_tenantId l)) (\<lambda>bal.
     return \<lparr> lp_fundedMinor = funded, lp_walletBalanceMinor = show_int (wb_availableMinor bal),
              lp_paymentLinkId = pl_id l, lp_collectionId = co_id c, lp_collectionNumber = co_collectionNumber c \<rparr>)"

definition collectViaPaymentLink ::
  "string \<Rightarrow> string \<Rightarrow> string option \<Rightarrow> string option \<Rightarrow> linkPayment cmd" where
  "collectViaPaymentLink token payerRef payerName payerPhone =
     bind (gets (\<lambda>s. find (\<lambda>l. pl_token l = token) (paymentLinks s))) (\<lambda>row.
     bind (require row (PlainError ''Payment link not found'')) (\<lambda>l.
     seq (guard (pl_status l = PL_ACTIVE) (PlainError ''This payment link is not active''))
     (bind (gets now) (\<lambda>t.
      seq (guard (case pl_expiresAt l of None \<Rightarrow> True | Some e \<Rightarrow> \<not> e < t) (PlainError ''This payment link has expired''))
     (bind (find_by_key (pl_tenantId l) (link_key token payerRef)) (\<lambda>prior.
      case prior of
        Some c \<Rightarrow> link_result l (co_amountMinor c) c (co_walletId c)
      | None \<Rightarrow>
        bind (gets (\<lambda>s. find (\<lambda>w. True) (sort_key w_createdAt (filter (\<lambda>w. w_tenantId w = pl_tenantId l) (wallets s))))) (\<lambda>wrow.
        bind (require wrow (PlainError ''Merchant wallet is not configured'')) (\<lambda>wallet.
        bind (claimUse (pl_id l)) (\<lambda>claimed.
        seq (guard (claimed \<noteq> 0) (PlainError ''This payment link has reached its usage limit''))
        (bind (insertCollection (\<lambda>number s. link_collection l wallet token payerRef payerName payerPhone)) (\<lambda>c.
         seq (settleCollection ((settle_defaults (co_id c))\<lparr>si_refType := Some ''payment_link'', si_actorId := pl_createdById l\<rparr>))
             (link_result l (pl_amountMinor l) c (w_id wallet)))))))))))))"

end
