(* ===== verification/Bulk.thy ===== *)
theory Bulk
  imports Payments
begin

text \<open>
  packages/payments-core/src/bulk.ts: validation of a parsed batch, its submission and
  approval, and the creation of one payment per valid row.  A batch payment has no source
  wallet: it is funded from the float.
\<close>

record parsedBulkRow =
  bk_rowNumber :: int
  bk_recipientName :: string
  bk_phone :: string
  bk_amountMinor :: int
  bk_reference :: "string option"
  bk_category :: "string option"

record createBatchInput =
  cb_tenantId :: string
  cb_actorId :: string
  cb_batchName :: string
  cb_channel :: string
  cb_product :: "string option"
  cb_rows :: "parsedBulkRow list"
  cb_fileRef :: "string option"

record validatedBatch =
  vb_batchId :: string
  vb_totalAmountMinor :: string
  vb_validRowCount :: nat
  vb_errorRowCount :: nat

text \<open>The check of one row; \<open>seen\<close> holds the keys \<open>phone|amount\<close> of the valid rows so far.\<close>

definition seen_key :: "string \<Rightarrow> int \<Rightarrow> string" where
  "seen_key phone amount = phone @ ''|'' @ show_int amount"

definition row_error :: "string list \<Rightarrow> parsedBulkRow \<Rightarrow> string option" where
  "row_error seen row =
     (let phone = normalizeKenyanPhone (bk_phone row) in
      if phone = None then Some ''Invalid Kenyan phone number''
      else if bk_amountMinor row \<le> 0 then Some ''Amount must be positive''
      else if bk_amountMinor row > 500000000 then Some ''Amount exceeds per-row limit''
      else if length (trim (bk_recipientName row)) < 2 then Some ''Recipient name too short''
      else if seen_key (the phone) (bk_amountMinor row) \<in> set seen then Some ''Duplicate row within file''
      else None)"

text \<open>The insert into \<open>payment_batch_rows\<close>, with its unique index on batch and row number.\<close>

definition insertBatchRow ::
  "string \<Rightarrow> parsedBulkRow \<Rightarrow> string \<Rightarrow> row_status \<Rightarrow> string option \<Rightarrow> unit cmd" where
  "insertBatchRow batchId row phone status errorMessage =
     bind fresh_id (\<lambda>rid.
     bind (gets (\<lambda>s. \<exists>r \<in> set (paymentBatchRows s). br_batchId r = batchId \<and> br_rowNumber r = bk_rowNumber row)) (\<lambda>dup.
     seq (guard (\<not> dup) (DbUnique ''payment_batch_rows_row_uidx''))
         (modify (\<lambda>s. s\<lparr>paymentBatchRows := paymentBatchRows s @
           [\<lparr> br_id = rid, br_batchId = batchId, br_rowNumber = bk_rowNumber row,
              br_recipientName = bk_recipientName row, br_phone = phone,
              br_amountMinor = bk_amountMinor row, br_reference = bk_reference row,
              br_category = bk_category row, br_status = status, br_errorMessage = errorMessage,
              br_paymentId = None \<rparr>]\<rparr>))))"

text \<open>The loop with its variables \<open>total\<close>, \<open>valid\<close>, \<open>errors\<close> and \<open>seen\<close>.\<close>

definition createBatch_row ::
  "string \<Rightarrow> int \<times> nat \<times> nat \<times> string list \<Rightarrow> parsedBulkRow \<Rightarrow> (int \<times> nat \<times> nat \<times> string list) cmd" where
  "createBatch_row batchId acc row = (case acc of (tot, valid, errors, seen) \<Rightarrow>
     (case row_error seen row of
        Some msg \<Rightarrow>
          seq (insertBatchRow batchId row (bk_phone row) RW_ERROR (Some msg))
              (return (tot, valid, errors + 1, seen))
      | None \<Rightarrow>
          (let phone = the (normalizeKenyanPhone (bk_phone row)) in
           seq (insertBatchRow batchId row phone RW_VALID None)
               (return (tot + bk_amountMinor row, valid + 1, errors,
                  seen @ [seen_key phone (bk_amountMinor row)])))))"

definition updateBatch :: "string \<Rightarrow> (paymentBatch \<Rightarrow> paymentBatch) \<Rightarrow> unit cmd" where
  "updateBatch batchId f = modify (\<lambda>s. s\<lparr>paymentBatches :=
     update_rows (\<lambda>b. pb_id b = batchId) f (paymentBatches s)\<rparr>)"

definition batch_event :: "string \<Rightarrow> string \<Rightarrow> string \<Rightarrow> (string \<times> jsval) list \<Rightarrow> unit cmd" where
  "batch_event eventType batchId tenantId extra =
     seq (enqueueOutbox eventType ''payment_batch'' batchId (Some tenantId)
            (JObject ((''batchId'', JString batchId) # extra)))
         (return ())"

definition createBatch :: "createBatchInput \<Rightarrow> validatedBatch cmd" where
  "createBatch input =
     seq (guard (cb_rows input \<noteq> []) (BulkError ''Batch has no rows'' ''EMPTY_BATCH''))
     (seq (guard (length (cb_rows input) \<le> 50000) (BulkError ''Batch exceeds 50,000 rows'' ''TOO_LARGE''))
     (transaction (
       bind fresh_id (\<lambda>bid.
       seq (modify (\<lambda>s. s\<lparr>paymentBatches := paymentBatches s @
              [\<lparr> pb_id = bid, pb_tenantId = cb_tenantId input, pb_name = cb_batchName input,
                 pb_channel = cb_channel input, pb_product = nullish (cb_product input) ''bulk_payment'',
                 pb_currency = ''KES'', pb_totalAmountMinor = 0, pb_rowCount = length (cb_rows input),
                 pb_validRowCount = 0, pb_errorRowCount = 0, pb_status = BT_VALIDATED,
                 pb_fileRef = cb_fileRef input, pb_createdById = Some (cb_actorId input) \<rparr>]\<rparr>))
       (bind (foldM (cb_rows input) (0, 0, 0, []) (createBatch_row bid)) (\<lambda>(tot, valid, errors, seen).
        seq (updateBatch bid (\<lambda>b. b\<lparr>pb_totalAmountMinor := tot, pb_validRowCount := valid,
               pb_errorRowCount := errors\<rparr>))
        (seq (batch_event ''batch.validated'' bid (cb_tenantId input)
               [(''totalAmountMinor'', JString (show_int tot)), (''validRowCount'', JNumber (int valid)),
                (''errorRowCount'', JNumber (int errors))])
             (return \<lparr> vb_batchId = bid, vb_totalAmountMinor = show_int tot,
                       vb_validRowCount = valid, vb_errorRowCount = errors \<rparr>))))))))"

fun batch_status_name :: "batch_status \<Rightarrow> string" where
  "batch_status_name BT_UPLOADED = ''UPLOADED''"
| "batch_status_name BT_SCANNED = ''SCANNED''"
| "batch_status_name BT_PARSED = ''PARSED''"
| "batch_status_name BT_VALIDATED = ''VALIDATED''"
| "batch_status_name BT_IN_REVIEW = ''IN_REVIEW''"
| "batch_status_name BT_SUBMITTED = ''SUBMITTED''"
| "batch_status_name BT_APPROVED = ''APPROVED''"
| "batch_status_name BT_PROCESSING = ''PROCESSING''"
| "batch_status_name BT_COMPLETED = ''COMPLETED''"
| "batch_status_name BT_PARTIALLY_FAILED = ''PARTIALLY_FAILED''"
| "batch_status_name BT_FAILED = ''FAILED''"
| "batch_status_name BT_CANCELLED = ''CANCELLED''"

definition getBatch :: "string \<Rightarrow> string \<Rightarrow> paymentBatch cmd" where
  "getBatch tenantId batchId =
     bind (gets (\<lambda>s. find (\<lambda>b. pb_id b = batchId \<and> pb_tenantId b = tenantId) (paymentBatches s)))
       (\<lambda>row. require row (BulkError ''Batch not found'' ''BATCH_NOT_FOUND''))"

definition submitBatch ::
  "string \<Rightarrow> string \<Rightarrow> string \<Rightarrow> approvalRule list option \<Rightarrow> (batch_status \<times> string option) cmd" where
  "submitBatch tenantId batchId actorId policyRules = transaction (
     bind (getBatch tenantId batchId) (\<lambda>batch.
     seq (guard (pb_status batch = BT_VALIDATED \<or> pb_status batch = BT_IN_REVIEW)
            (BulkError (''Cannot submit batch in state '' @ batch_status_name (pb_status batch)) ''INVALID_STATE''))
     (seq (guard (pb_validRowCount batch \<noteq> 0) (BulkError ''Batch has no valid rows'' ''NO_VALID_ROWS''))
     (let ctx = control_context (pb_totalAmountMinor batch) (pb_product batch) (pb_channel batch);
          rules = nullish policyRules []
      in if evaluatePolicy rules ctx \<noteq> []
         then bind (createApprovalRequest
                 \<lparr> ca_tenantId = tenantId, ca_paymentId = None, ca_batchId = Some (pb_id batch),
                   ca_resourceType = None, ca_resourceId = None, ca_policyId = None, ca_rules = rules,
                   ca_context = ctx, ca_metadata = JUndefined, ca_createdById = actorId, ca_dueAt = None \<rparr>) (\<lambda>requestId.
              seq (updateBatch (pb_id batch) (\<lambda>b. b\<lparr>pb_status := BT_SUBMITTED\<rparr>))
              (seq (batch_event ''batch.submitted'' (pb_id batch) tenantId [(''approvalRequestId'', JString requestId)])
                   (return (BT_SUBMITTED, Some requestId))))
         else seq (updateBatch (pb_id batch) (\<lambda>b. b\<lparr>pb_status := BT_APPROVED\<rparr>))
              (seq (batch_event ''batch.approved'' (pb_id batch) tenantId [])
                   (return (BT_APPROVED, None)))))))"

definition approveBatch :: "string \<Rightarrow> string \<Rightarrow> string \<Rightarrow> unit cmd" where
  "approveBatch tenantId batchId actorId = transaction (
     bind (getBatch tenantId batchId) (\<lambda>batch.
     seq (guard (pb_status batch = BT_SUBMITTED)
            (BulkError (''Cannot approve batch in state '' @ batch_status_name (pb_status batch)) ''INVALID_STATE''))
     (seq (updateBatch (pb_id batch) (\<lambda>b. b\<lparr>pb_status := BT_APPROVED\<rparr>))
          (batch_event ''batch.approved'' (pb_id batch) tenantId []))))"

definition getBatchExecutionChunk :: "string \<Rightarrow> nat option \<Rightarrow> paymentBatchRow list cmd" where
  "getBatchExecutionChunk batchId limit = gets (\<lambda>s. take (nullish limit 100) (sort_key br_rowNumber
     (filter (\<lambda>r. br_batchId r = batchId \<and> br_status r = RW_VALID) (paymentBatchRows s))))"

fun row_status_name :: "row_status \<Rightarrow> string" where
  "row_status_name RW_VALID = ''VALID''"
| "row_status_name RW_ERROR = ''ERROR''"
| "row_status_name RW_PENDING = ''PENDING''"
| "row_status_name RW_SUCCESS = ''SUCCESS''"
| "row_status_name RW_FAILED = ''FAILED''"
| "row_status_name RW_SKIPPED = ''SKIPPED''"

definition updateBatchRow :: "string \<Rightarrow> (paymentBatchRow \<Rightarrow> paymentBatchRow) \<Rightarrow> unit cmd" where
  "updateBatchRow rowId f = modify (\<lambda>s. s\<lparr>paymentBatchRows :=
     update_rows (\<lambda>r. br_id r = rowId) f (paymentBatchRows s)\<rparr>)"

definition row_key :: "string \<Rightarrow> int \<Rightarrow> string" where
  "row_key batchId n = ''batch:'' @ batchId @ '':row:'' @ show_int n"

definition batch_payment ::
  "string \<Rightarrow> string \<Rightarrow> string \<Rightarrow> string option \<Rightarrow> string option \<Rightarrow> string \<Rightarrow> paymentBatchRow \<Rightarrow> payment" where
  "batch_payment tenantId batchId actorId providerCode product number row =
     (blank_payment tenantId number)
       \<lparr> p_batchId := Some batchId, p_product := nullish product ''bulk_payment'',
         p_channel := (if br_phone row \<noteq> [] then (if providerCode = Some ''bank-psp'' then ''bank'' else ''mpesa'')
                       else ''mpesa''),
         p_amountMinor := br_amountMinor row, p_feeMinor := 0, p_totalMinor := br_amountMinor row,
         p_status := QUEUED,
         p_beneficiarySnapshot := JObject [(''name'', JString (br_recipientName row)),
            (''phone'', JString (br_phone row)), (''type'', JString ''person'')],
         p_idempotencyKey := Some (row_key batchId (br_rowNumber row)),
         p_createdById := Some actorId \<rparr>"

definition materializeBatchRow ::
  "string \<Rightarrow> string \<Rightarrow> string \<Rightarrow> string \<Rightarrow> string option \<Rightarrow> string cmd" where
  "materializeBatchRow tenantId batchId rowId actorId providerCode =
     bind (gets (\<lambda>s. find (\<lambda>r. br_id r = rowId \<and> br_batchId r = batchId) (paymentBatchRows s))) (\<lambda>found.
     bind (require found (BulkError ''Batch row not found'' ''ROW_NOT_FOUND'')) (\<lambda>row.
     seq (guard (br_status row = RW_VALID)
            (BulkError (''Row is not executable ('' @ row_status_name (br_status row) @ '')'') ''ROW_STATE''))
     (bind (gets (\<lambda>s. map_option pb_product (find (\<lambda>b. pb_id b = batchId) (paymentBatches s)))) (\<lambda>product.
      transaction (
        bind (generatePaymentNumber tenantId) (\<lambda>number.
        bind (insertPayment (\<lambda>pid s. batch_payment tenantId batchId actorId providerCode product number row)) (\<lambda>payment.
        seq (updateBatchRow (br_id row) (\<lambda>r. r\<lparr>br_paymentId := Some (p_id payment), br_status := RW_PENDING\<rparr>))
            (return (p_id payment)))))))))"

datatype row_outcome = ROW_SUCCESS | ROW_FAILED | ROW_SKIPPED

definition markBatchRowOutcome :: "string \<Rightarrow> row_outcome \<Rightarrow> string option \<Rightarrow> unit cmd" where
  "markBatchRowOutcome rowId status errorMessage = updateBatchRow rowId
     (\<lambda>r. (case errorMessage of None \<Rightarrow> r | Some m \<Rightarrow> r\<lparr>br_errorMessage := Some m\<rparr>)
        \<lparr>br_status := (case status of ROW_SUCCESS \<Rightarrow> RW_SUCCESS | ROW_FAILED \<Rightarrow> RW_FAILED | ROW_SKIPPED \<Rightarrow> RW_SKIPPED)\<rparr>)"

definition outcome_status :: "row_status list \<Rightarrow> batch_status" where
  "outcome_status rows =
     (let succeeded = length (filter (\<lambda>r. r = RW_SUCCESS) rows);
          failed = length (filter (\<lambda>r. r = RW_FAILED \<or> r = RW_ERROR) rows);
          pending = length (filter (\<lambda>r. r = RW_PENDING \<or> r = RW_VALID) rows)
      in if pending = 0
         then (if failed = 0 then BT_COMPLETED else if succeeded > 0 then BT_PARTIALLY_FAILED else BT_FAILED)
         else BT_PROCESSING)"

definition refreshBatchStatus :: "string \<Rightarrow> unit cmd" where
  "refreshBatchStatus batchId =
     bind (gets (\<lambda>s. map br_status (filter (\<lambda>r. br_batchId r = batchId) (paymentBatchRows s)))) (\<lambda>rows.
     updateBatch batchId (\<lambda>b. b\<lparr>pb_status := outcome_status rows\<rparr>))"

end
