(* ===== verification/Outbox_Relay.thy ===== *)
theory Outbox_Relay
  imports Bulk Collections
begin

text \<open>
  packages/payments-core/src/outbox-relay.ts: the dispatch loop over the outbox.  The handler is an
  argument, as in the code; the advisory lock of the database is the argument \<open>acquired\<close>.  Of
  \<open>handleOutboxEvent\<close> the propagation of a payment outcome to its batch row is here, the whole of it in
  Event_Router.thy.  The timer of \<open>runOutboxPoller\<close> only repeats the tick.
\<close>

section \<open>Payment outcomes of batch rows\<close>

definition outcome_message :: "jsval \<Rightarrow> string" where
  "outcome_message payload =
     js_string (js_nullish (js_lookup ''errorMessage'' payload)
       (js_nullish (js_lookup ''reason'' payload) (JString ''payment failed'')))"

definition syncBatchRow :: "string \<Rightarrow> jsval \<Rightarrow> unit cmd" where
  "syncBatchRow eventType payload =
     (let paymentId = js_string (js_nullish (js_lookup ''paymentId'' payload) (JString [])) in
      whenM (eventType \<noteq> ''payment.approval_requested'' \<and> paymentId \<noteq> [])
        (bind (gets (\<lambda>s. find (\<lambda>r. br_paymentId r = Some paymentId) (paymentBatchRows s))) (\<lambda>row.
         case row of
           None \<Rightarrow> return ()
         | Some r \<Rightarrow>
           seq (if eventType = ''payment.succeeded'' then markBatchRowOutcome (br_id r) ROW_SUCCESS None
                else markBatchRowOutcome (br_id r) ROW_FAILED (Some (outcome_message payload)))
           (bind (gets (\<lambda>s. find (\<lambda>p. p_id p = paymentId) (payments s))) (\<lambda>payment.
            case Option.bind payment p_batchId of
              None \<Rightarrow> return ()
            | Some b \<Rightarrow> whenM (b \<noteq> []) (refreshBatchStatus b))))))"

section \<open>The dispatch loop\<close>

definition dispatchOne :: "(outboxEvent \<Rightarrow> unit cmd) \<Rightarrow> nat \<times> nat \<Rightarrow> outboxEvent \<Rightarrow> (nat \<times> nat) cmd" where
  "dispatchOne handle counts event = catch
     (seq (handle event) (seq (markPublished (ob_id event)) (return (fst counts + 1, snd counts))))
     (\<lambda>err. seq (markFailed (ob_id event) (error_message err)) (return (fst counts, snd counts + 1)))"

definition processOutboxBatch :: "(outboxEvent \<Rightarrow> unit cmd) \<Rightarrow> nat \<Rightarrow> (nat \<times> nat) cmd" where
  "processOutboxBatch handle limit =
     bind (pullUnpublished limit) (\<lambda>events. foldM events (0, 0) (dispatchOne handle))"

text \<open>The triple is \<open>{ dispatched, failed, skipped }\<close>.\<close>

definition dispatchOutboxTick :: "bool \<Rightarrow> (outboxEvent \<Rightarrow> unit cmd) \<Rightarrow> nat option \<Rightarrow> (nat \<times> nat \<times> bool) cmd" where
  "dispatchOutboxTick acquired handle limit = transaction (
     if \<not> acquired then return (0, 0, True)
     else bind (processOutboxBatch handle (nullish limit 100)) (\<lambda>r. return (fst r, snd r, False)))"

end
