(* ===== verification/Audit_Log.thy ===== *)
theory Audit_Log
  imports Json Schema
begin

text \<open>
  packages/audit/src/index.ts: the append-only audit trail and the security events.  Neither table
  has an update or a delete (a trigger refuses them); both functions only append.
\<close>

section \<open>Writers\<close>

definition auditRow ::
  "string \<Rightarrow> int \<Rightarrow> string option \<Rightarrow> string option \<Rightarrow> string option \<Rightarrow> string option \<Rightarrow> string \<Rightarrow> string \<Rightarrow> string option \<Rightarrow>
   jsval \<Rightarrow> jsval \<Rightarrow> auditEvent" where
  "auditRow aid t ip tenantId actorId actorRole action resourceType resourceId before after =
     \<lparr> ae_id = aid, ae_tenantId = tenantId, ae_actorId = actorId, ae_actorRole = actorRole,
       ae_action = action, ae_resourceType = resourceType, ae_resourceId = resourceId,
       ae_before = to_jsonb before, ae_after = to_jsonb after, ae_ip = ip, ae_createdAt = t \<rparr>"

definition writeAuditEventFrom ::
  "string option \<Rightarrow> string option \<Rightarrow> string option \<Rightarrow> string option \<Rightarrow> string \<Rightarrow> string \<Rightarrow> string option \<Rightarrow>
   jsval \<Rightarrow> jsval \<Rightarrow> string cmd" where
  "writeAuditEventFrom ip tenantId actorId actorRole action resourceType resourceId before after =
     bind fresh_id (\<lambda>aid.
     seq (modify (\<lambda>s. s\<lparr>auditEvents := auditEvents s @
            [auditRow aid (now s) ip tenantId actorId actorRole action resourceType resourceId before after]\<rparr>))
         (return aid))"

definition writeAuditEvent ::
  "string option \<Rightarrow> string option \<Rightarrow> string option \<Rightarrow> string \<Rightarrow> string \<Rightarrow> string option \<Rightarrow> jsval \<Rightarrow> jsval \<Rightarrow> string cmd" where
  "writeAuditEvent = writeAuditEventFrom None"

definition writeSecurityEvent ::
  "string option \<Rightarrow> string option \<Rightarrow> string \<Rightarrow> string option \<Rightarrow> jsval \<Rightarrow> string option \<Rightarrow> string cmd" where
  "writeSecurityEvent tenantId userId eventType severity details ip =
     bind fresh_id (\<lambda>sid.
     seq (modify (\<lambda>s. s\<lparr>securityEvents := securityEvents s @
            [\<lparr> sv_id = sid, sv_tenantId = tenantId, sv_userId = userId, sv_eventType = eventType,
               sv_severity = nullish severity ''INFO'', sv_details = to_jsonb details, sv_ip = ip,
               sv_createdAt = now s \<rparr>]\<rparr>))
         (return sid))"

lemma writeAuditEventFrom_ok [tx_ok]:
  "writeAuditEventFrom ip tid actor role act rt rid b a s = (Inr x, t) \<longleftrightarrow>
     x = uuid_gen s (uuid_next s) \<and>
     t = s\<lparr>uuid_next := Suc (uuid_next s),
           auditEvents := auditEvents s @ [auditRow x (now s) ip tid actor role act rt rid b a]\<rparr>"
  by (auto simp: writeAuditEventFrom_def tx_ok)

lemma writeAuditEventFrom_err [tx_err]:
  "writeAuditEventFrom ip tid actor role act rt rid b a s = (Inl e, t) \<longleftrightarrow> False"
  by (simp add: writeAuditEventFrom_def tx_err tx_ok)

end
