(* ===== verification/Reconciliation.thy ===== *)
theory Reconciliation
  imports Audit_Log Payments
begin

text \<open>
  packages/payments-core: matching of provider records with payments (reconciliation.ts) and the
  life cycle of the exceptions it raises (recon-exceptions.ts), with \<open>writeAuditEvent\<close> of
  packages/audit.  The list and detail queries of the exceptions are not modelled.
\<close>

section \<open>reconciliation.ts\<close>

definition insertMatch :: "string \<Rightarrow> string \<Rightarrow> unit cmd" where
  "insertMatch itemId paymentId = bind fresh_id (\<lambda>mid.
     modify (\<lambda>s. s\<lparr>reconMatches := reconMatches s @
       [\<lparr> rm_id = mid, rm_itemId = itemId, rm_paymentId = paymentId, rm_matchType = ''EXACT'' \<rparr>]\<rparr>))"

definition setItem :: "string \<Rightarrow> recon_item_status \<Rightarrow> string option \<Rightarrow> unit cmd" where
  "setItem itemId st paymentId = modify (\<lambda>s. s\<lparr>reconItems := update_rows (\<lambda>i. ri_id i = itemId)
     (\<lambda>i. (case paymentId of None \<Rightarrow> i | Some p \<Rightarrow> i\<lparr>ri_paymentId := Some p\<rparr>)\<lparr>ri_status := st\<rparr>) (reconItems s)\<rparr>)"

definition insertException :: "string \<Rightarrow> string \<Rightarrow> string option \<Rightarrow> exception_kind \<Rightarrow> string \<Rightarrow> unit cmd" where
  "insertException tenantId itemId paymentId kind severity = bind fresh_id (\<lambda>xid.
     modify (\<lambda>s. s\<lparr>reconExceptions := reconExceptions s @
       [\<lparr> rx_id = xid, rx_tenantId = tenantId, rx_itemId = Some itemId, rx_paymentId = paymentId,
          rx_kind = kind, rx_severity = severity, rx_status = RX_OPEN, rx_resolution = None,
          rx_resolvedById = None, rx_resolvedAt = None, rx_createdAt = now s, rx_updatedAt = now s \<rparr>]\<rparr>))"

datatype match_outcome = M_MATCHED | M_PARTIAL | M_UNMATCHED

text \<open>The three branches both paths share.\<close>

definition settleItem :: "string \<Rightarrow> string \<Rightarrow> int \<Rightarrow> payment option \<Rightarrow> match_outcome cmd" where
  "settleItem tenantId itemId amountMinor payment = (case payment of
     Some p \<Rightarrow>
       if p_amountMinor p = amountMinor
       then seq (insertMatch itemId (p_id p))
            (seq (setItem itemId RI_MATCHED (Some (p_id p))) (return M_MATCHED))
       else seq (setItem itemId RI_PARTIAL (Some (p_id p)))
            (seq (insertException tenantId itemId (Some (p_id p)) AMOUNT_MISMATCH ''HIGH'') (return M_PARTIAL))
   | None \<Rightarrow>
       seq (setItem itemId RI_UNMATCHED None)
       (seq (insertException tenantId itemId None UNMATCHED ''MEDIUM'') (return M_UNMATCHED)))"

definition reconcileItem :: "nat \<times> nat \<Rightarrow> reconItem \<Rightarrow> (nat \<times> nat) cmd" where
  "reconcileItem counts item =
     bind (gets (\<lambda>s. find (\<lambda>p. p_providerReference p = Some (ri_providerReference item)) (payments s))) (\<lambda>payment.
     bind (settleItem (ri_tenantId item) (ri_id item) (ri_amountMinor item) payment) (\<lambda>outcome.
     return (if outcome = M_MATCHED then (fst counts + 1, snd counts) else (fst counts, snd counts + 1))))"

definition reconcilable :: "string option \<Rightarrow> nat option \<Rightarrow> db \<Rightarrow> reconItem list" where
  "reconcilable runId limit s =
     (if truthy runId then filter (\<lambda>i. ri_runId i = runId) (reconItems s)
      else take (nullish limit 500) (filter (\<lambda>i. ri_status i = RI_PENDING \<and>
             ri_createdAt i \<ge> now s - 30 * 86400000) (reconItems s)))"

definition runReconciliation :: "string option \<Rightarrow> nat option \<Rightarrow> (nat \<times> nat) cmd" where
  "runReconciliation runId limit =
     bind (gets (reconcilable runId limit)) (\<lambda>items. foldM items (0, 0) reconcileItem)"

record statementRow =
  sr_providerReference :: string
  sr_amountMinor :: int
  sr_occurredAt :: int
  sr_currency :: "string option"

record statementReconResult =
  srr_runId :: string
  srr_rowsImported :: nat
  srr_matched :: nat
  srr_unmatched :: nat
  srr_partial :: nat
  srr_exceptions :: nat

definition importRow ::
  "string \<Rightarrow> string \<Rightarrow> nat \<times> nat \<times> nat \<Rightarrow> statementRow \<Rightarrow> (nat \<times> nat \<times> nat) cmd" where
  "importRow tenantId runId counts row = (case counts of (matched, unmatched, part) \<Rightarrow>
     bind fresh_id (\<lambda>iid.
     seq (modify (\<lambda>s. s\<lparr>reconItems := reconItems s @
            [\<lparr> ri_id = iid, ri_tenantId = tenantId, ri_runId = Some runId, ri_source = ''PROVIDER_STATEMENT'',
               ri_providerReference = sr_providerReference row, ri_amountMinor = sr_amountMinor row,
               ri_currency = nullish (sr_currency row) ''KES'', ri_occurredAt = sr_occurredAt row,
               ri_status = RI_PENDING, ri_paymentId = None, ri_notes = None, ri_createdAt = now s \<rparr>]\<rparr>))
     (bind (gets (\<lambda>s. find (\<lambda>p. p_tenantId p = tenantId \<and> p_providerReference p = Some (sr_providerReference row))
              (payments s))) (\<lambda>payment.
      bind (settleItem tenantId iid (sr_amountMinor row) payment) (\<lambda>outcome.
      return (case outcome of
          M_MATCHED \<Rightarrow> (matched + 1, unmatched, part)
        | M_PARTIAL \<Rightarrow> (matched, unmatched, part + 1)
        | M_UNMATCHED \<Rightarrow> (matched, unmatched + 1, part)))))))"

definition reconcileStatement ::
  "string \<Rightarrow> int \<Rightarrow> int \<Rightarrow> statementRow list \<Rightarrow> string option \<Rightarrow> statementReconResult cmd" where
  "reconcileStatement tenantId periodStart periodEnd rows actorId =
     bind fresh_id (\<lambda>runId.
     seq (modify (\<lambda>s. s\<lparr>reconRuns := reconRuns s @
            [\<lparr> rr_id = runId, rr_tenantId = tenantId, rr_periodStart = periodStart, rr_periodEnd = periodEnd,
               rr_source = ''PROVIDER_STATEMENT'', rr_status = ''RUNNING'', rr_createdById = actorId,
               rr_createdAt = now s \<rparr>]\<rparr>))
     (bind (foldM rows (0, 0, 0) (importRow tenantId runId)) (\<lambda>(matched, unmatched, part).
      seq (modify (\<lambda>s. s\<lparr>reconRuns := update_rows (\<lambda>r. rr_id r = runId) (\<lambda>r. r\<lparr>rr_status := ''COMPLETED''\<rparr>) (reconRuns s)\<rparr>))
          (return \<lparr> srr_runId = runId, srr_rowsImported = length rows, srr_matched = matched,
                    srr_unmatched = unmatched, srr_partial = part, srr_exceptions = part + unmatched \<rparr>))))"

section \<open>recon-exceptions.ts\<close>

fun exception_status_name :: "exception_status \<Rightarrow> string" where
  "exception_status_name RX_OPEN = ''OPEN''"
| "exception_status_name RX_INVESTIGATING = ''INVESTIGATING''"
| "exception_status_name RX_RESOLVED = ''RESOLVED''"
| "exception_status_name RX_ESCALATED = ''ESCALATED''"

fun exception_kind_name :: "exception_kind \<Rightarrow> string" where
  "exception_kind_name AMOUNT_MISMATCH = ''AMOUNT_MISMATCH''"
| "exception_kind_name UNMATCHED = ''UNMATCHED''"
| "exception_kind_name DUPLICATE = ''DUPLICATE''"
| "exception_kind_name UNKNOWN = ''UNKNOWN''"
| "exception_kind_name ORPHAN = ''ORPHAN''"

definition RESOLVE_FROM :: "exception_status list" where
  "RESOLVE_FROM = [RX_OPEN, RX_INVESTIGATING, RX_ESCALATED]"

definition loadScoped :: "string \<Rightarrow> string option \<Rightarrow> reconException cmd" where
  "loadScoped exceptionId tenantId =
     bind (gets (\<lambda>s. find (\<lambda>x. rx_id x = exceptionId) (reconExceptions s))) (\<lambda>row.
     bind (require row (ReconExceptionError ''Recon exception not found'' ''NOT_FOUND'')) (\<lambda>x.
     seq (guard (\<not> (truthy tenantId \<and> Some (rx_tenantId x) \<noteq> tenantId))
            (ReconExceptionError ''Recon exception not found'' ''NOT_FOUND''))
         (return x)))"

definition recordActivity ::
  "reconException \<Rightarrow> string option \<Rightarrow> string \<Rightarrow> string \<Rightarrow> exception_status option \<Rightarrow> exception_status option \<Rightarrow> unit cmd" where
  "recordActivity x actorId action note src tgt = bind fresh_id (\<lambda>aid.
     modify (\<lambda>s. s\<lparr>reconExceptionActivity := reconExceptionActivity s @
       [\<lparr> ra_id = aid, ra_exceptionId = rx_id x, ra_tenantId = rx_tenantId x, ra_actorId = actorId,
          ra_action = action, ra_note = Some note, ra_fromStatus = src, ra_toStatus = tgt,
          ra_createdAt = now s \<rparr>]\<rparr>))"

definition updateException :: "string \<Rightarrow> (db \<Rightarrow> reconException \<Rightarrow> reconException) \<Rightarrow> unit cmd" where
  "updateException exceptionId f = modify (\<lambda>s. s\<lparr>reconExceptions :=
     update_rows (\<lambda>x. rx_id x = exceptionId) (\<lambda>x. (f s x)\<lparr>rx_updatedAt := now s\<rparr>) (reconExceptions s)\<rparr>)"

definition exception_audit :: "reconException \<Rightarrow> string option \<Rightarrow> string \<Rightarrow> jsval \<Rightarrow> jsval \<Rightarrow> unit cmd" where
  "exception_audit x actorId action before after =
     seq (writeAuditEvent (Some (rx_tenantId x)) actorId (Some ''tenant_user'') action ''recon_exception''
            (Some (rx_id x)) before after)
         (return ())"

definition resolveReconException :: "string \<Rightarrow> string option \<Rightarrow> string option \<Rightarrow> string \<Rightarrow> unit cmd" where
  "resolveReconException exceptionId tenantId actorId rawNote =
     bind (loadScoped exceptionId tenantId) (\<lambda>x.
     seq (guard (rx_status x \<in> set RESOLVE_FROM)
            (ReconExceptionError (''Only '' @ join ''/'' (map exception_status_name RESOLVE_FROM) @
               '' exceptions can be resolved (current: '' @ exception_status_name (rx_status x) @ '')'') ''INVALID_STATUS''))
     (let note = trim rawNote in
      seq (guard (note \<noteq> []) (ReconExceptionError ''A resolution note is required'' ''NOTE_REQUIRED''))
      (seq (guard (length note \<le> 4000)
              (ReconExceptionError ''Resolution note is too long (max 4000 characters)'' ''NOTE_TOO_LONG''))
      (seq (updateException (rx_id x) (\<lambda>s x. x\<lparr>rx_status := RX_RESOLVED, rx_resolution := Some note,
              rx_resolvedById := actorId, rx_resolvedAt := Some (now s)\<rparr>))
      (seq (recordActivity x actorId ''resolve'' note (Some (rx_status x)) (Some RX_RESOLVED))
           (exception_audit x actorId ''reconciliation.exception.resolved''
              (JObject [(''status'', JString (exception_status_name (rx_status x))), (''kind'', JString (exception_kind_name (rx_kind x)))])
              (JObject [(''status'', JString ''RESOLVED''), (''note'', JString note)])))))))"

definition reopenReconException :: "string \<Rightarrow> string option \<Rightarrow> string option \<Rightarrow> string option \<Rightarrow> unit cmd" where
  "reopenReconException exceptionId tenantId actorId rawNote =
     bind (loadScoped exceptionId tenantId) (\<lambda>x.
     seq (guard (rx_status x = RX_RESOLVED)
            (ReconExceptionError ''Only RESOLVED exceptions can be reopened'' ''INVALID_STATUS''))
     (let trimmed = trim (nullish rawNote []);
          note = (if trimmed \<noteq> [] then trimmed else ''Reopened for further investigation'') in
      seq (guard (length note \<le> 4000)
             (ReconExceptionError ''Reopen note is too long (max 4000 characters)'' ''NOTE_TOO_LONG''))
      (seq (updateException (rx_id x) (\<lambda>s x. x\<lparr>rx_status := RX_OPEN, rx_resolution := None,
              rx_resolvedById := None, rx_resolvedAt := None\<rparr>))
      (seq (recordActivity x actorId ''reopen'' note (Some RX_RESOLVED) (Some RX_OPEN))
           (exception_audit x actorId ''reconciliation.exception.reopened''
              (JObject [(''status'', JString ''RESOLVED''),
                 (''resolution'', (case rx_resolution x of None \<Rightarrow> JNull | Some r \<Rightarrow> JString r))])
              (JObject [(''status'', JString ''OPEN''), (''note'', JString note)]))))))"

definition commentOnReconException :: "string \<Rightarrow> string option \<Rightarrow> string option \<Rightarrow> string \<Rightarrow> unit cmd" where
  "commentOnReconException exceptionId tenantId actorId rawNote =
     bind (loadScoped exceptionId tenantId) (\<lambda>x.
     let note = trim rawNote in
     seq (guard (note \<noteq> []) (ReconExceptionError ''A comment is required'' ''NOTE_REQUIRED''))
     (seq (guard (length note \<le> 4000) (ReconExceptionError ''Comment is too long (max 4000 characters)'' ''NOTE_TOO_LONG''))
     (seq (recordActivity x actorId ''comment'' note None None)
          (exception_audit x actorId ''reconciliation.exception.commented''
             (JObject [(''status'', JString (exception_status_name (rx_status x)))])
             (JObject [(''status'', JString (exception_status_name (rx_status x))), (''note'', JString note)])))))"

end
