(* ===== verification/Ledger_Invariants.thy ===== *)
theory Ledger_Invariants
  imports Ledger
begin

text \<open>
  What packages/ledger guarantees.  The first part is about the double-entry ledger: the exact
  effect of \<open>postJournal\<close>, the invariant \<open>ledger_inv\<close> (every journal balances, every posted
  balance is the sum of its entries, references resolve) and its consequences for the trial
  balance and the health check.  The second part is about wallets.
\<close>

section \<open>The books\<close>

definition journal_debits :: "string \<Rightarrow> db \<Rightarrow> int" where
  "journal_debits jid s =
     sum_list (map je_debitMinor (filter (\<lambda>e. je_journalId e = jid) (journalEntries s)))"

definition journal_credits :: "string \<Rightarrow> db \<Rightarrow> int" where
  "journal_credits jid s =
     sum_list (map je_creditMinor (filter (\<lambda>e. je_journalId e = jid) (journalEntries s)))"

definition posted_sum :: "string \<Rightarrow> journalEntry list \<Rightarrow> int" where
  "posted_sum aid es =
     sum_list (map (\<lambda>e. je_debitMinor e - je_creditMinor e)
       (filter (\<lambda>e. je_ledgerAccountId e = aid) es))"

text \<open>The invariant of the books: identifiers are unique and were handed out by the generator,
  entries refer to rows and are one-sided, every journal balances, every posted balance is the
  sum of the entries of its account.\<close>

definition ledger_ids :: "db \<Rightarrow> bool" where
  "ledger_ids s \<longleftrightarrow> uuids_distinct s \<and>
     j_id ` set (journals s) \<subseteq> used_ids s \<and> distinct (map j_id (journals s)) \<and>
     la_id ` set (ledgerAccounts s) \<subseteq> used_ids s \<and> distinct (map la_id (ledgerAccounts s))"

definition entries_wf :: "db \<Rightarrow> bool" where
  "entries_wf s \<longleftrightarrow> (\<forall>e \<in> set (journalEntries s).
     je_journalId e \<in> j_id ` set (journals s) \<and>
     je_ledgerAccountId e \<in> la_id ` set (ledgerAccounts s) \<and>
     journal_entry_valid (je_debitMinor e) (je_creditMinor e))"

definition journals_balanced :: "db \<Rightarrow> bool" where
  "journals_balanced s \<longleftrightarrow>
     (\<forall>j \<in> set (journals s). journal_debits (j_id j) s = journal_credits (j_id j) s)"

definition balances_synced :: "db \<Rightarrow> bool" where
  "balances_synced s \<longleftrightarrow>
     (\<forall>a \<in> set (ledgerAccounts s). la_postedBalanceMinor a = posted_sum (la_id a) (journalEntries s))"

definition ledger_inv :: "db \<Rightarrow> bool" where
  "ledger_inv s \<longleftrightarrow> ledger_ids s \<and> entries_wf s \<and> journals_balanced s \<and> balances_synced s"

lemma used_ids_simps [simp]:
  "used_ids (s\<lparr>uuid_next := Suc (uuid_next s)\<rparr>) = insert (uuid_gen s (uuid_next s)) (used_ids s)"
  by (auto simp: used_ids_def lessThan_Suc)

lemma used_ids_mono:
  "uuid_gen t = uuid_gen s \<Longrightarrow> uuid_next s \<le> uuid_next t \<Longrightarrow> used_ids s \<subseteq> used_ids t"
  by (auto simp: used_ids_def)

text \<open>A statement on other tables is a frame.\<close>

lemma ledger_inv_frame:
  assumes "ledger_inv s" and "uuid_gen t = uuid_gen s" and "uuid_next s \<le> uuid_next t"
    and "journals t = journals s" and "journalEntries t = journalEntries s"
    and "ledgerAccounts t = ledgerAccounts s"
  shows "ledger_inv t"
proof -
  have "used_ids s \<subseteq> used_ids t" by (rule used_ids_mono) (use assms in simp_all)
  with assms(1) show ?thesis
    unfolding ledger_inv_def ledger_ids_def entries_wf_def journals_balanced_def balances_synced_def
      uuids_distinct_def journal_debits_def journal_credits_def assms(2-)
    by (blast intro: subset_trans)
qed

lemma ledger_modify [preserved]:
  assumes "\<And>s. uuid_gen (f s) = uuid_gen s" and "\<And>s. uuid_next (f s) = uuid_next s"
    and "\<And>s. journals (f s) = journals s" and "\<And>s. journalEntries (f s) = journalEntries s"
    and "\<And>s. ledgerAccounts (f s) = ledgerAccounts s"
  shows "preserves ledger_inv (modify f)"
  by (rule preserves_modify, erule ledger_inv_frame) (simp_all add: assms)

lemma ledger_fresh_id [preserved]: "preserves ledger_inv fresh_id"
  by (rule preservesI) (auto simp: fresh_id_def elim!: ledger_inv_frame)

section \<open>Exact effect of postJournal\<close>

definition entry_of :: "string \<Rightarrow> int \<Rightarrow> string \<Rightarrow> journalEntryInput \<Rightarrow> journalEntry" where
  "entry_of jid t eid i = \<lparr> je_id = eid, je_journalId = jid,
     je_ledgerAccountId = jei_ledgerAccountId i, je_debitMinor = nullish (jei_debitMinor i) 0,
     je_creditMinor = nullish (jei_creditMinor i) 0, je_memo = jei_memo i, je_postedAt = t \<rparr>"

text \<open>An entry that both the loop of \<open>postJournal\<close> and the trigger accept.\<close>

definition entry_postable :: "journalEntryInput \<Rightarrow> bool" where
  "entry_postable i \<longleftrightarrow>
     (let d = nullish (jei_debitMinor i) 0; c = nullish (jei_creditMinor i) 0
      in 0 < d \<and> c = 0 \<or> d = 0 \<and> 0 < c)"

primrec posted_entries :: "string \<Rightarrow> int \<Rightarrow> (nat \<Rightarrow> string) \<Rightarrow> nat \<Rightarrow> journalEntryInput list \<Rightarrow> journalEntry list" where
  "posted_entries jid t gen n [] = []"
| "posted_entries jid t gen n (i # is) = entry_of jid t (gen n) i # posted_entries jid t gen (Suc n) is"

lemma la_id_sync [simp]: "map la_id (sync_ledger_account_balance e as) = map la_id as"
  by (simp add: sync_ledger_account_balance_def)

lemma la_id_set_sync [simp]: "la_id ` set (sync_ledger_account_balance e as) = la_id ` set as"
  by (metis la_id_sync list.set_map)

lemma la_id_fold_sync [simp]: "map la_id (fold sync_ledger_account_balance es as) = map la_id as"
  by (induction es arbitrary: as) simp_all

lemma postJournalEntry_run:
  "postJournalEntry jid i s = (Inr u, t) \<longleftrightarrow>
     entry_postable i \<and> jid \<in> j_id ` set (journals s) \<and>
     jei_ledgerAccountId i \<in> la_id ` set (ledgerAccounts s) \<and>
     (let e = entry_of jid (now s) (uuid_gen s (uuid_next s)) i
      in t = s\<lparr>uuid_next := Suc (uuid_next s), journalEntries := journalEntries s @ [e],
               ledgerAccounts := sync_ledger_account_balance e (ledgerAccounts s)\<rparr>)"
  by (auto simp: postJournalEntry_def insertJournalEntry_def entry_postable_def entry_of_def
      journal_entry_valid_def Let_def tx_ok)

lemma post_entries_run:
  "forEachM is (postJournalEntry jid) s = (Inr u, t) \<longleftrightarrow>
     (is \<noteq> [] \<longrightarrow> jid \<in> j_id ` set (journals s)) \<and>
     (\<forall>i \<in> set is. entry_postable i \<and> jei_ledgerAccountId i \<in> la_id ` set (ledgerAccounts s)) \<and>
     (let es = posted_entries jid (now s) (uuid_gen s) (uuid_next s) is
      in t = s\<lparr>uuid_next := uuid_next s + length is,
               journalEntries := journalEntries s @ es,
               ledgerAccounts := fold sync_ledger_account_balance es (ledgerAccounts s)\<rparr>)"
proof (induction "is" arbitrary: s)
  case Nil
  then show ?case by (simp add: tx_ok)
next
  case (Cons i "is")
  then show ?case by (auto simp: tx_ok postJournalEntry_run Let_def)
qed

lemma insertSnapshots_run:
  "\<exists>ss. forEachM as insertSnapshot s =
     (Inr (), s\<lparr>uuid_next := uuid_next s + length as, balanceSnapshots := balanceSnapshots s @ ss\<rparr>)
     \<and> map bs_ledgerAccountId ss = map la_id as
     \<and> map bs_balanceMinor ss = map la_postedBalanceMinor as"
proof (induction as arbitrary: s)
  case Nil
  then show ?case by (simp add: return_def)
next
  case (Cons a as)
  let ?b = "\<lparr> bs_id = uuid_gen s (uuid_next s), bs_ledgerAccountId = la_id a, bs_asOf = now s,
              bs_balanceMinor = la_postedBalanceMinor a \<rparr>"
  let ?u = "s\<lparr>uuid_next := Suc (uuid_next s), balanceSnapshots := balanceSnapshots s @ [?b]\<rparr>"
  have one: "insertSnapshot a s = (Inr (), ?u)"
    by (simp add: insertSnapshot_def tx_run fresh_id_def)
  from Cons [of ?u] obtain ss where
    "forEachM as insertSnapshot ?u =
       (Inr (), ?u\<lparr>uuid_next := uuid_next ?u + length as,
                  balanceSnapshots := balanceSnapshots ?u @ ss\<rparr>)"
    and "map bs_ledgerAccountId ss = map la_id as"
    and "map bs_balanceMinor ss = map la_postedBalanceMinor as" by blast
  with one show ?case
    by (intro exI [of _ "?b # ss"]) (simp add: seq_step)
qed

text \<open>What a journal must satisfy to be committed.\<close>

definition journal_postable :: "postJournalInput \<Rightarrow> db \<Rightarrow> bool" where
  "journal_postable input s \<longleftrightarrow>
     debitTotal (pji_entries input) = creditTotal (pji_entries input) \<and>
     0 < debitTotal (pji_entries input) \<and>
     (\<forall>i \<in> set (pji_entries input).
        entry_postable i \<and> jei_ledgerAccountId i \<in> la_id ` set (ledgerAccounts s))"

text \<open>The state after a committed journal, up to the snapshots.\<close>

definition journal_row :: "postJournalInput \<Rightarrow> db \<Rightarrow> journal" where
  "journal_row input s = \<lparr> j_id = uuid_gen s (uuid_next s), j_tenantId = pji_tenantId input,
     j_referenceType = pji_referenceType input, j_referenceId = pji_referenceId input,
     j_description = pji_description input, j_createdById = pji_actorId input,
     j_postedAt = now s \<rparr>"

definition journal_entries :: "postJournalInput \<Rightarrow> db \<Rightarrow> journalEntry list" where
  "journal_entries input s =
     posted_entries (uuid_gen s (uuid_next s)) (now s) (uuid_gen s) (Suc (uuid_next s)) (pji_entries input)"

definition after_journal :: "postJournalInput \<Rightarrow> db \<Rightarrow> db" where
  "after_journal input s = s\<lparr>
     uuid_next := Suc (uuid_next s) + length (pji_entries input),
     journals := journals s @ [journal_row input s],
     journalEntries := journalEntries s @ journal_entries input s,
     ledgerAccounts := fold sync_ledger_account_balance (journal_entries input s) (ledgerAccounts s)\<rparr>"

lemma postJournal_commits:
  assumes "journal_postable input s"
  shows "\<exists>k ss. postJournal input s = (Inr (uuid_gen s (uuid_next s)),
     (after_journal input s)\<lparr>uuid_next := uuid_next (after_journal input s) + k,
        balanceSnapshots := balanceSnapshots s @ ss\<rparr>) \<and>
     map bs_ledgerAccountId ss = map la_id (filter (\<lambda>a. la_id a \<in>
        set (map jei_ledgerAccountId (pji_entries input))) (ledgerAccounts (after_journal input s)))"
proof -
  let ?u = "s\<lparr>uuid_next := Suc (uuid_next s), journals := journals s @ [journal_row input s]\<rparr>"
  let ?as = "filter (\<lambda>a. la_id a \<in> set (map jei_ledgerAccountId (pji_entries input)))
      (ledgerAccounts (after_journal input s))"
  have loop: "forEachM (pji_entries input) (postJournalEntry (uuid_gen s (uuid_next s))) ?u =
      (Inr (), after_journal input s)"
    unfolding post_entries_run using assms
    by (auto simp: journal_postable_def after_journal_def journal_entries_def journal_row_def Let_def)
  obtain ss where snaps: "forEachM ?as insertSnapshot (after_journal input s) = (Inr (),
       (after_journal input s)\<lparr>uuid_next := uuid_next (after_journal input s) + length ?as,
         balanceSnapshots := balanceSnapshots (after_journal input s) @ ss\<rparr>)"
    and ids: "map bs_ledgerAccountId ss = map la_id ?as"
    using insertSnapshots_run [of ?as "after_journal input s"] by blast
  have "postJournal input s = (Inr (uuid_gen s (uuid_next s)),
     (after_journal input s)\<lparr>uuid_next := uuid_next (after_journal input s) + length ?as,
        balanceSnapshots := balanceSnapshots s @ ss\<rparr>)"
    using assms loop snaps
    by (simp add: postJournal_def transaction_ok Let_def journal_postable_def tx_ok journal_row_def)
       (simp add: after_journal_def)
  with ids show ?thesis by blast
qed

lemma postJournal_only:
  assumes "postJournal input s = (Inr jid, t)"
  shows "journal_postable input s"
  using assms
  by (auto simp: postJournal_def tx_ok Let_def post_entries_run journal_postable_def)

lemma postJournal_run:
  assumes "postJournal input s = (Inr jid, t)"
  shows "journal_postable input s \<and> jid = uuid_gen s (uuid_next s) \<and>
    (\<exists>k ss. t = (after_journal input s)\<lparr>uuid_next := uuid_next (after_journal input s) + k,
        balanceSnapshots := balanceSnapshots s @ ss\<rparr>)"
  using postJournal_commits [OF postJournal_only [OF assms]] postJournal_only [OF assms] assms
  by auto

lemma postJournal_throws:
  assumes "postJournal input s = (Inl e, t)"
  shows "\<not> journal_postable input s \<and> t = s"
proof
  show "\<not> journal_postable input s" using postJournal_commits [of input s] assms by auto
  show "t = s" using assms by (auto simp: postJournal_def intro: transaction_rollback)
qed

section \<open>A committed journal keeps the books\<close>

lemma posted_entries_props:
  "e \<in> set (posted_entries jid t gen n is) \<Longrightarrow>
     je_journalId e = jid \<and> (\<exists>i \<in> set is. je_ledgerAccountId e = jei_ledgerAccountId i \<and>
       je_debitMinor e = nullish (jei_debitMinor i) 0 \<and> je_creditMinor e = nullish (jei_creditMinor i) 0)"
  by (induction "is" arbitrary: n) (auto simp: entry_of_def)

lemma posted_entries_debits:
  "sum_list (map je_debitMinor (posted_entries jid t gen n is)) = debitTotal is"
  by (induction "is" arbitrary: n) (auto simp: entry_of_def debitTotal_def)

lemma posted_entries_credits:
  "sum_list (map je_creditMinor (posted_entries jid t gen n is)) = creditTotal is"
  by (induction "is" arbitrary: n) (auto simp: entry_of_def creditTotal_def)

lemma posted_sum_append [simp]: "posted_sum aid (xs @ ys) = posted_sum aid xs + posted_sum aid ys"
  by (simp add: posted_sum_def)

lemma posted_sum_Cons:
  "posted_sum aid (e # es) =
     (if je_ledgerAccountId e = aid then je_debitMinor e - je_creditMinor e else 0) + posted_sum aid es"
  by (simp add: posted_sum_def)

lemma fold_sync:
  "fold sync_ledger_account_balance es as =
     map (\<lambda>a. a\<lparr>la_postedBalanceMinor := la_postedBalanceMinor a + posted_sum (la_id a) es\<rparr>) as"
  by (induction es arbitrary: as)
     (auto simp: posted_sum_def [of _ "[]"] posted_sum_Cons sync_ledger_account_balance_def update_rows_def)

lemma after_journal_ids [simp]:
  "map la_id (ledgerAccounts (after_journal input s)) = map la_id (ledgerAccounts s)"
  "la_id ` set (ledgerAccounts (after_journal input s)) = la_id ` set (ledgerAccounts s)"
  "map j_id (journals (after_journal input s)) = map j_id (journals s) @ [uuid_gen s (uuid_next s)]"
  "j_id ` set (journals (after_journal input s)) =
     insert (uuid_gen s (uuid_next s)) (j_id ` set (journals s))"
  "journalEntries (after_journal input s) = journalEntries s @ journal_entries input s"
  by (auto simp: after_journal_def journal_row_def fold_sync image_iff)

lemma journal_entries_new:
  assumes "journal_postable input s" and "e \<in> set (journal_entries input s)"
  shows "je_journalId e = uuid_gen s (uuid_next s)"
    and "je_ledgerAccountId e \<in> la_id ` set (ledgerAccounts s)"
    and "journal_entry_valid (je_debitMinor e) (je_creditMinor e)"
proof -
  from assms(2) obtain i where i: "i \<in> set (pji_entries input)"
    and e: "je_journalId e = uuid_gen s (uuid_next s)" "je_ledgerAccountId e = jei_ledgerAccountId i"
      "je_debitMinor e = nullish (jei_debitMinor i) 0" "je_creditMinor e = nullish (jei_creditMinor i) 0"
    unfolding journal_entries_def using posted_entries_props by blast
  from assms(1) i have "entry_postable i" "jei_ledgerAccountId i \<in> la_id ` set (ledgerAccounts s)"
    by (auto simp: journal_postable_def)
  with e show "je_journalId e = uuid_gen s (uuid_next s)"
    and "je_ledgerAccountId e \<in> la_id ` set (ledgerAccounts s)"
    and "journal_entry_valid (je_debitMinor e) (je_creditMinor e)"
    by (auto simp: entry_postable_def journal_entry_valid_def Let_def)
qed

lemma fresh_journal_id:
  "ledger_ids s \<Longrightarrow> uuid_gen s (uuid_next s) \<notin> j_id ` set (journals s)"
  using fresh_not_used [of s] by (auto simp: ledger_ids_def)

lemma ledger_ids_after_journal:
  assumes "ledger_ids s"
  shows "ledger_ids (after_journal input s)"
proof -
  have "insert (uuid_gen s (uuid_next s)) (used_ids s) \<subseteq> used_ids (after_journal input s)"
    by (auto simp: used_ids_def after_journal_def less_Suc_eq)
  moreover have "uuid_gen (after_journal input s) = uuid_gen s" by (simp add: after_journal_def)
  ultimately show ?thesis using assms fresh_journal_id [OF assms]
    unfolding ledger_ids_def uuids_distinct_def after_journal_ids by auto
qed

lemma journals_balanced_after_journal:
  assumes "ledger_ids s" and "entries_wf s" and bal: "journals_balanced s"
    and ok: "journal_postable input s"
  shows "journals_balanced (after_journal input s)"
proof -
  let ?jid = "uuid_gen s (uuid_next s)" and ?es = "journal_entries input s" and ?t = "after_journal input s"
  have all_new: "filter (\<lambda>e. je_journalId e = ?jid) ?es = ?es"
    using journal_entries_new(1) [OF ok] by (auto simp: filter_id_conv)
  have old: "filter (\<lambda>e. je_journalId e = jid) ?es = []" if "jid \<noteq> ?jid" for jid
    using journal_entries_new(1) [OF ok] that by (auto simp: filter_empty_conv)
  have no_old: "filter (\<lambda>e. je_journalId e = ?jid) (journalEntries s) = []"
    using fresh_journal_id [OF assms(1)] assms(2) unfolding filter_empty_conv entries_wf_def by metis
  have "journal_debits jid ?t = journal_credits jid ?t"
    if "jid \<in> insert ?jid (j_id ` set (journals s))" for jid
  proof (cases "jid = ?jid")
    case True
    then show ?thesis using ok all_new no_old
      by (simp add: journal_debits_def journal_credits_def journal_entries_def
          posted_entries_debits posted_entries_credits journal_postable_def)
  next
    case False
    with that bal have "journal_debits jid s = journal_credits jid s" by (auto simp: journals_balanced_def)
    with old [OF False] show ?thesis by (simp add: journal_debits_def journal_credits_def)
  qed
  then show ?thesis unfolding journals_balanced_def by (metis after_journal_ids(4) image_eqI)
qed

lemma ledger_inv_after_journal:
  assumes inv: "ledger_inv s" and ok: "journal_postable input s"
  shows "ledger_inv (after_journal input s)"
  unfolding ledger_inv_def
proof (intro conjI)
  show "entries_wf (after_journal input s)"
    using inv journal_entries_new [OF ok] by (auto simp: ledger_inv_def entries_wf_def)
  show "balances_synced (after_journal input s)"
    using inv by (auto simp: ledger_inv_def balances_synced_def after_journal_def fold_sync)
qed (use inv ok in \<open>auto simp: ledger_inv_def intro: ledger_ids_after_journal journals_balanced_after_journal\<close>)

lemma ledger_postJournal [preserved]: "preserves ledger_inv (postJournal input)"
proof (rule preservesI)
  fix s r t
  assume inv: "ledger_inv s" and run: "postJournal input s = (r, t)"
  show "ledger_inv t"
  proof (cases r)
    case (Inl e)
    with run inv show ?thesis by (auto dest: postJournal_throws)
  next
    case (Inr jid)
    with run obtain k ss where "journal_postable input s"
      and t: "t = (after_journal input s)\<lparr>uuid_next := uuid_next (after_journal input s) + k,
        balanceSnapshots := balanceSnapshots s @ ss\<rparr>"
      using postJournal_run by blast
    with inv have "ledger_inv (after_journal input s)" by (intro ledger_inv_after_journal)
    then show ?thesis by (rule ledger_inv_frame) (simp_all add: t)
  qed
qed

section \<open>Every ledger command keeps the books\<close>

lemma ledger_inv_new_account:
  assumes inv: "ledger_inv s" and a: "la_id a = uuid_gen s (uuid_next s)" "la_postedBalanceMinor a = 0"
  shows "ledger_inv (s\<lparr>uuid_next := Suc (uuid_next s), ledgerAccounts := ledgerAccounts s @ [a]\<rparr>)"
    (is "ledger_inv ?t")
proof -
  have new: "la_id a \<notin> la_id ` set (ledgerAccounts s)"
    using inv fresh_not_used [of s] unfolding a(1) ledger_inv_def ledger_ids_def by blast
  then have "filter (\<lambda>e. je_ledgerAccountId e = la_id a) (journalEntries s) = []"
    using inv unfolding ledger_inv_def entries_wf_def filter_empty_conv by metis
  then have no_entries: "posted_sum (la_id a) (journalEntries s) = 0" by (simp add: posted_sum_def)
  have "used_ids ?t = insert (la_id a) (used_ids s)"
    by (simp add: used_ids_def a(1) lessThan_Suc)
  then have "ledger_ids ?t" using inv new by (auto simp: ledger_inv_def ledger_ids_def uuids_distinct_def)
  with inv no_entries show ?thesis
    by (auto simp: ledger_inv_def entries_wf_def journals_balanced_def balances_synced_def
        journal_debits_def journal_credits_def a(2))
qed

lemma ledger_insertSystemAccount [preserved]: "preserves ledger_inv (insertSystemAccount tid d)"
proof (rule preservesI)
  fix s r t
  assume "ledger_inv s" and "insertSystemAccount tid d s = (r, t)"
  then show "ledger_inv t"
    by (cases d) (auto simp: insertSystemAccount_def tx_run fresh_id_def split: if_splits
        intro: ledger_inv_new_account elim: ledger_inv_frame)
qed

lemma ledger_insertChartAccount [preserved]: "preserves ledger_inv (insertChartAccount tid d)"
  unfolding insertChartAccount_def by (intro preserved) auto

lemma ledger_ensureSystemChart [preserved]: "preserves ledger_inv (ensureSystemChart tid)"
  unfolding ensureSystemChart_def by (intro preserved)

lemma ledger_getWalletLedgerAccount_fuel:
  "preserves ledger_inv (getWalletLedgerAccount_fuel n wid tid)"
proof (induction n)
  case 0
  show ?case by (simp add: preserves_throw)
next
  case (Suc n)
  show ?case
  proof (rule preservesI)
    fix s r t
    assume inv: "ledger_inv s" and run: "getWalletLedgerAccount_fuel (Suc n) wid tid s = (r, t)"
    then have "ledger_inv (s\<lparr>uuid_next := Suc (uuid_next s)\<rparr>)" by (auto elim: ledger_inv_frame)
    with inv run Suc show "ledger_inv t"
      by (auto simp: tx_run fresh_id_def Let_def split: if_splits option.splits
          intro: ledger_inv_new_account dest: preservesD)
  qed
qed

lemma ledger_getWalletLedgerAccount [preserved]: "preserves ledger_inv (getWalletLedgerAccount wid tid)"
  unfolding getWalletLedgerAccount_def by (rule ledger_getWalletLedgerAccount_fuel)

lemma ledger_getSystemAccount [preserved]: "preserves ledger_inv (getSystemAccount tid code)"
  unfolding getSystemAccount_def by (intro preserved)

lemma ledger_postPaymentSuccessJournal [preserved]:
  "preserves ledger_inv (postPaymentSuccessJournal tid pid wid amt fee actor)"
  unfolding postPaymentSuccessJournal_def by (intro preserved)

lemma ledger_postReversalJournal [preserved]:
  "preserves ledger_inv (postReversalJournal tid pid wid amt actor)"
  unfolding postReversalJournal_def by (intro preserved)

lemma ledger_postFundingJournal [preserved]:
  "preserves ledger_inv (postFundingJournal tid wid amt actor)"
  unfolding postFundingJournal_def by (intro preserved)

lemma ledger_updateWallets [preserved]: "preserves ledger_inv (updateWallets P f)"
  by (rule preservesI) (auto simp: updateWallets_def Let_def split: if_splits elim: ledger_inv_frame)

lemma ledger_appendWalletLedgerEntry [preserved]: "preserves ledger_inv (appendWalletLedgerEntry i)"
  unfolding appendWalletLedgerEntry_def by (intro preserved) auto

lemma ledger_recordWalletFunding [preserved]:
  "preserves ledger_inv (recordWalletFunding tid wid rt ri amt note)"
  unfolding recordWalletFunding_def by (intro preserved)

lemma ledger_reserveFunds [preserved]: "preserves ledger_inv (reserveFunds tid pid wid amt)"
  unfolding reserveFunds_def reserveFunds_attempt_def insertReservation_def by (intro preserved) auto

lemma ledger_releaseReservation [preserved]: "preserves ledger_inv (releaseReservation rid)"
  unfolding releaseReservation_def setReservationStatus_def by (intro preserved) auto

lemma ledger_applyReservation [preserved]: "preserves ledger_inv (applyReservation rid)"
  unfolding applyReservation_def setReservationStatus_def by (intro preserved) auto

section \<open>Trial balance\<close>

lemma sum_list_if_member:
  fixes v :: int
  shows "distinct xs \<Longrightarrow> sum_list (map (\<lambda>x. if y = x then v else 0) xs) = (if y \<in> set xs then v else 0)"
  by (induction xs) auto

lemma posted_sum_all:
  assumes "distinct ids" and "\<forall>e \<in> set es. je_ledgerAccountId e \<in> set ids"
  shows "sum_list (map (\<lambda>a. posted_sum a es) ids) =
     sum_list (map je_debitMinor es) - sum_list (map je_creditMinor es)"
  using assms(2)
proof (induction es)
  case Nil
  then show ?case by (simp add: posted_sum_def)
next
  case (Cons e es)
  have "sum_list (map (\<lambda>a. posted_sum a (e # es)) ids) =
      sum_list (map (\<lambda>a. if je_ledgerAccountId e = a then je_debitMinor e - je_creditMinor e else 0) ids) +
      sum_list (map (\<lambda>a. posted_sum a es) ids)"
    by (simp add: posted_sum_Cons sum_list_addf)
  with Cons assms(1) show ?case by (simp add: sum_list_if_member)
qed

lemma sum_by_journal:
  fixes f :: "journalEntry \<Rightarrow> int"
  assumes "distinct ids" and "\<forall>e \<in> set es. je_journalId e \<in> set ids"
  shows "sum_list (map (\<lambda>j. sum_list (map f (filter (\<lambda>e. je_journalId e = j) es))) ids) = sum_list (map f es)"
  using assms(2)
proof (induction es)
  case (Cons e es)
  have "sum_list (map (\<lambda>j. sum_list (map f (filter (\<lambda>e. je_journalId e = j) (e # es)))) ids) =
      sum_list (map (\<lambda>j. (if je_journalId e = j then f e else 0) +
        sum_list (map f (filter (\<lambda>e. je_journalId e = j) es))) ids)"
    by (intro arg_cong [where f = sum_list] map_cong) auto
  with Cons assms(1) show ?case by (simp add: sum_list_addf sum_list_if_member)
qed simp

lemma total_debits_credits:
  assumes "ledger_inv s"
  shows "sum_list (map je_debitMinor (journalEntries s)) = sum_list (map je_creditMinor (journalEntries s))"
proof -
  have d: "distinct (map j_id (journals s))"
    and ref: "\<forall>e \<in> set (journalEntries s). je_journalId e \<in> set (map j_id (journals s))"
    using assms by (auto simp: ledger_inv_def ledger_ids_def entries_wf_def)
  have "sum_list (map (\<lambda>j. journal_debits j s) (map j_id (journals s))) =
        sum_list (map (\<lambda>j. journal_credits j s) (map j_id (journals s)))"
    using assms by (intro arg_cong [where f = sum_list])
      (auto simp: ledger_inv_def journals_balanced_def)
  then show ?thesis
    unfolding journal_debits_def journal_credits_def sum_by_journal [OF d ref] .
qed

lemma trial_balance_zero:
  assumes "ledger_inv s"
  shows "sum_list (map la_postedBalanceMinor (ledgerAccounts s)) = 0"
proof -
  have eq: "map la_postedBalanceMinor (ledgerAccounts s) =
      map (\<lambda>a. posted_sum a (journalEntries s)) (map la_id (ledgerAccounts s))"
    using assms by (auto simp: ledger_inv_def balances_synced_def)
  have "distinct (map la_id (ledgerAccounts s))"
    and "\<forall>e \<in> set (journalEntries s). je_ledgerAccountId e \<in> set (map la_id (ledgerAccounts s))"
    using assms by (auto simp: ledger_inv_def ledger_ids_def entries_wf_def)
  then show ?thesis unfolding eq by (simp add: posted_sum_all total_debits_credits [OF assms] del: map_map)
qed

section \<open>The health check\<close>

lemma health_fold_snoc [simp]:
  "health_fold [] = []"
  "health_fold (rows @ [(j, t, d, c)]) = health_add (health_fold rows) t d c"
  by (simp_all add: health_fold_def)

lemma health_view_simps [simp]:
  "lh_healthy (health_view (t, n, u, d, c)) \<longleftrightarrow> u = 0 \<and> d = c"
  by (simp add: health_view_def)

lemma health_add_balanced:
  "list_all (lh_healthy \<circ> health_view) acc \<Longrightarrow> list_all (lh_healthy \<circ> health_view) (health_add acc tid d d)"
  by (induction acc tid d d rule: health_add.induct) auto

lemma health_add_mono:
  "list_ex (\<lambda>(t, n, u, _). 0 < u) acc \<Longrightarrow> list_ex (\<lambda>(t, n, u, _). 0 < u) (health_add acc tid d c)"
  by (induction acc tid d c rule: health_add.induct) auto

lemma health_add_unbalanced:
  "d \<noteq> c \<Longrightarrow> list_ex (\<lambda>(t, n, u, _). 0 < u) (health_add acc tid d c)"
  by (induction acc tid d c rule: health_add.induct) auto

lemma health_fold_balanced:
  "list_all (\<lambda>(j, t, d, c). d = c) rows \<Longrightarrow> list_all (lh_healthy \<circ> health_view) (health_fold rows)"
  by (induction rows rule: rev_induct) (auto intro: health_add_balanced)

lemma health_fold_unbalanced:
  "list_ex (\<lambda>(j, t, d, c). d \<noteq> c) rows \<Longrightarrow> list_ex (\<lambda>(t, n, u, _). 0 < u) (health_fold rows)"
  by (induction rows rule: rev_induct) (auto intro: health_add_mono health_add_unbalanced)

lemma healthy_iff_rows:
  "list_all lh_healthy (map health_view (health_fold rows)) \<longleftrightarrow> list_all (\<lambda>(j, t, d, c). d = c) rows"
proof
  assume "list_all (\<lambda>(j, t, d, c). d = c) rows"
  then show "list_all lh_healthy (map health_view (health_fold rows))"
    using health_fold_balanced by (simp add: list_all_iff)
next
  assume "list_all lh_healthy (map health_view (health_fold rows))"
  then have "\<not> list_ex (\<lambda>(t, n, u, _). 0 < u) (health_fold rows)"
    by (auto simp: list_all_iff list_ex_iff)
  with health_fold_unbalanced [of rows] show "list_all (\<lambda>(j, t, d, c). d = c) rows"
    by (fastforce simp: list_all_iff list_ex_iff)
qed

text \<open>A group of the query is a journal, and its sums are the sums of the journal.\<close>

lemma health_join_set:
  "(e, j) \<in> set (health_join s) \<longleftrightarrow> e \<in> set (journalEntries s) \<and> j \<in> set (journals s) \<and> j_id j = je_journalId e"
  by (auto simp: health_join_def)

lemma health_group:
  assumes "distinct (map j_id js)" and "j \<in> set js" and "K j"
  shows "map fst (filter (\<lambda>(e, j'). je_journalId e = j_id j \<and> j_tenantId j' = j_tenantId j)
      (filter (\<lambda>(e, j'). K j') (concat (map (\<lambda>e. map (\<lambda>j'. (e, j'))
        (filter (\<lambda>j'. j_id j' = je_journalId e) js)) es)))) = filter (\<lambda>e. je_journalId e = j_id j) es"
proof (induction es)
  case (Cons e es)
  show ?case
  proof (cases "je_journalId e = j_id j")
    case True
    with assms Cons filter_key [OF assms(1,2)] show ?thesis by simp
  next
    case False
    with Cons show ?thesis by (auto simp: filter_empty_conv)
  qed
qed simp

lemma health_balanced_members:
  "(\<forall>(e, j) \<in> set (filter (\<lambda>(e, j). K j) (health_join s)).
      journal_debits (j_id j) s = journal_credits (j_id j) s) \<longleftrightarrow>
   (\<forall>j \<in> set (journals s). K j \<longrightarrow> journal_debits (j_id j) s = journal_credits (j_id j) s)"
  (is "?L \<longleftrightarrow> ?R")
proof
  show "?R \<Longrightarrow> ?L" by (auto simp: health_join_set)
next
  assume L: ?L
  show ?R
  proof (intro ballI impI)
    fix j
    assume j: "j \<in> set (journals s)" "K j"
    show "journal_debits (j_id j) s = journal_credits (j_id j) s"
    proof (cases "\<exists>e \<in> set (journalEntries s). je_journalId e = j_id j")
      case True
      then obtain e where "e \<in> set (journalEntries s)" "je_journalId e = j_id j" by blast
      with j have "(e, j) \<in> set (filter (\<lambda>(e, j). K j) (health_join s))"
        by (simp add: health_join_set)
      with L show ?thesis by blast
    next
      case False
      then show ?thesis
        by (simp add: journal_debits_def journal_credits_def filter_empty_conv [THEN iffD2])
    qed
  qed
qed

lemma health_rows_balanced_iff:
  assumes "distinct (map j_id (journals s))"
  shows "list_all (\<lambda>(j, t, d, c). d = c) (health_rows tid s) \<longleftrightarrow>
    (\<forall>j \<in> set (journals s). (truthy tid \<longrightarrow> Some (j_tenantId j) = tid) \<longrightarrow>
       journal_debits (j_id j) s = journal_credits (j_id j) s)"
proof -
  let ?K = "\<lambda>j. truthy tid \<longrightarrow> Some (j_tenantId j) = tid"
  let ?J = "filter (\<lambda>(e, j). ?K j) (health_join s)"
  let ?G = "\<lambda>jid t. filter (\<lambda>(e, j). je_journalId e = jid \<and> j_tenantId j = t) ?J"
  have group: "map fst (?G (j_id j) (j_tenantId j)) = filter (\<lambda>e. je_journalId e = j_id j) (journalEntries s)"
    if "j \<in> set (journals s)" "?K j" for j
    unfolding health_join_def using health_group [OF assms, of j ?K] that by blast
  have sums: "sum_list (map (je_debitMinor \<circ> fst) (?G (j_id j) (j_tenantId j))) = journal_debits (j_id j) s"
    "sum_list (map (je_creditMinor \<circ> fst) (?G (j_id j) (j_tenantId j))) = journal_credits (j_id j) s"
    if "j \<in> set (journals s)" "?K j" for j
    unfolding journal_debits_def journal_credits_def group [OF that, symmetric] map_map by (rule refl)+
  have "list_all (\<lambda>(j, t, d, c). d = c) (health_rows tid s) \<longleftrightarrow>
     (\<forall>(e, j) \<in> set ?J. sum_list (map (je_debitMinor \<circ> fst) (?G (je_journalId e) (j_tenantId j))) =
        sum_list (map (je_creditMinor \<circ> fst) (?G (je_journalId e) (j_tenantId j))))"
    unfolding health_rows_def Let_def by (simp add: list_all_iff split_def)
  also have "\<dots> \<longleftrightarrow> (\<forall>(e, j) \<in> set ?J. journal_debits (j_id j) s = journal_credits (j_id j) s)"
    using sums by (intro ball_cong refl) (fastforce simp: health_join_set)
  also have "\<dots> \<longleftrightarrow> (\<forall>j \<in> set (journals s). ?K j \<longrightarrow> journal_debits (j_id j) s = journal_credits (j_id j) s)"
    by (rule health_balanced_members)
  finally show ?thesis .
qed

section \<open>Properties\<close>

text \<open>C20.  \<open>postJournal\<close> commits exactly the journals whose debits equal their credits, are
  positive in total and whose entries are each purely debit or credit on an existing account;
  a commit appends the journal and its entries and moves every posted balance by the debits
  minus credits of that account, and a refused journal leaves the database unchanged.\<close>

theorem postJournal_exact:
  "case postJournal input s of
     (Inl e, t) \<Rightarrow> \<not> journal_postable input s \<and> t = s
   | (Inr jid, t) \<Rightarrow> journal_postable input s \<and> jid = uuid_gen s (uuid_next s) \<and>
       journals t = journals s @ [journal_row input s] \<and>
       journalEntries t = journalEntries s @ journal_entries input s \<and>
       ledgerAccounts t = map (\<lambda>a. a\<lparr>la_postedBalanceMinor :=
         la_postedBalanceMinor a + posted_sum (la_id a) (journal_entries input s)\<rparr>) (ledgerAccounts s) \<and>
       wallets t = wallets s \<and> payments t = payments s"
proof (cases "postJournal input s")
  case (Pair r t)
  show ?thesis
  proof (cases r)
    case (Inl e)
    with Pair postJournal_throws show ?thesis by auto
  next
    case (Inr jid)
    with Pair postJournal_run [of input s jid t] show ?thesis by (auto simp: after_journal_def fold_sync)
  qed
qed

text \<open>C26.  The health check is exact: it only reads, and it reports every tenant as healthy if and only if the debits
  of every journal (of the given tenant, when one is given) equal its credits, so an unbalanced journal is
  never masked by another one.\<close>

theorem checkLedgerHealth_exact:
  assumes "distinct (map j_id (journals s))"
  shows "\<exists>hs. checkLedgerHealth tid s = (Inr hs, s) \<and>
    (list_all lh_healthy hs \<longleftrightarrow> list_all (\<lambda>j. journal_debits (j_id j) s = journal_credits (j_id j) s)
       (filter (\<lambda>j. \<not> truthy tid \<or> Some (j_tenantId j) = tid) (journals s)))"
proof -
  have "list_all lh_healthy (map health_view (health_fold (health_rows tid s))) \<longleftrightarrow>
      list_all (\<lambda>j. journal_debits (j_id j) s = journal_credits (j_id j) s)
       (filter (\<lambda>j. \<not> truthy tid \<or> Some (j_tenantId j) = tid) (journals s))"
    unfolding healthy_iff_rows health_rows_balanced_iff [OF assms] by (auto simp: list_all_iff)
  then show ?thesis unfolding checkLedgerHealth_def gets_def by blast
qed

definition lopsided :: db where
  "lopsided = (empty_db show_nat 0)\<lparr>
     journals := [\<lparr> j_id = ''j'', j_tenantId = ''acme'', j_referenceType = ''payment'', j_referenceId = ''p'',
       j_description = ''off'', j_createdById = None, j_postedAt = 0 \<rparr>],
     journalEntries := [\<lparr> je_id = ''e'', je_journalId = ''j'', je_ledgerAccountId = ''a'', je_debitMinor = 5, je_creditMinor = 0,
       je_memo = None, je_postedAt = 0 \<rparr>]\<rparr>"

theorem checkLedgerHealth_exact_witness:
  "distinct (map j_id (journals lopsided)) \<and> (\<exists>hs. checkLedgerHealth None lopsided = (Inr hs, lopsided) \<and> \<not> list_all lh_healthy hs)"
  using checkLedgerHealth_exact [of lopsided None]
  by (simp add: lopsided_def empty_db_def journal_debits_def journal_credits_def truthy_def)

end
