(* ===== verification/Wallet_Invariants.thy ===== *)
theory Wallet_Invariants
  imports Ledger_Invariants
begin

text \<open>
  What wallet.ts guarantees: \<open>wallet_inv\<close> says that no balance is negative, that the reserved
  balance of a wallet is the sum of its \<open>HELD\<close> reservations, and that both balances are the sums
  of the deltas of the append-only movement log.  Every command of the package keeps it, and
  the exact effect of reserving, releasing and applying is stated on it.
\<close>

section \<open>The wallet invariant\<close>

definition held_of :: "string \<Rightarrow> walletReservation list \<Rightarrow> int" where
  "held_of wid rs = sum_list (map wr_amountMinor
     (filter (\<lambda>r. wr_walletId r = wid \<and> wr_status r = HELD) rs))"

definition log_available :: "string \<Rightarrow> walletLedgerEntry list \<Rightarrow> int" where
  "log_available wid es = sum_list (map wle_deltaAvailableMinor (filter (\<lambda>e. wle_walletId e = wid) es))"

definition log_reserved :: "string \<Rightarrow> walletLedgerEntry list \<Rightarrow> int" where
  "log_reserved wid es = sum_list (map wle_deltaReservedMinor (filter (\<lambda>e. wle_walletId e = wid) es))"

definition wallet_ids :: "db \<Rightarrow> bool" where
  "wallet_ids s \<longleftrightarrow> uuids_distinct s \<and> distinct (map w_id (wallets s)) \<and>
     distinct (map wr_id (walletReservations s)) \<and>
     distinct (map wr_paymentId (walletReservations s)) \<and>
     wr_id ` set (walletReservations s) \<subseteq> used_ids s"

definition movements_wf :: "db \<Rightarrow> bool" where
  "movements_wf s \<longleftrightarrow>
     (\<forall>r \<in> set (walletReservations s). wr_walletId r \<in> w_id ` set (wallets s) \<and> 0 \<le> wr_amountMinor r) \<and>
     (\<forall>e \<in> set (walletLedgerEntries s). wle_walletId e \<in> w_id ` set (wallets s))"

definition wallet_row_ok :: "db \<Rightarrow> wallet \<Rightarrow> bool" where
  "wallet_row_ok s w \<longleftrightarrow>
     0 \<le> w_availableMinor w \<and> 0 \<le> w_reservedMinor w \<and>
     w_reservedMinor w = held_of (w_id w) (walletReservations s) \<and>
     w_availableMinor w = log_available (w_id w) (walletLedgerEntries s) \<and>
     w_reservedMinor w = log_reserved (w_id w) (walletLedgerEntries s)"

definition wallet_inv :: "db \<Rightarrow> bool" where
  "wallet_inv s \<longleftrightarrow> wallet_ids s \<and> movements_wf s \<and> (\<forall>w \<in> set (wallets s). wallet_row_ok s w)"

lemma wallet_invD:
  assumes "wallet_inv s"
  shows "uuids_distinct s" and "distinct (map w_id (wallets s))"
    and "distinct (map wr_id (walletReservations s))"
    and "wr_id ` set (walletReservations s) \<subseteq> used_ids s"
    and "\<And>w. w \<in> set (wallets s) \<Longrightarrow> wallet_row_ok s w"
    and "\<And>r. r \<in> set (walletReservations s) \<Longrightarrow> wr_walletId r \<in> w_id ` set (wallets s) \<and> 0 \<le> wr_amountMinor r"
  using assms by (auto simp: wallet_inv_def wallet_ids_def movements_wf_def)

lemma wallet_inv_frame:
  assumes "wallet_inv s" and "uuid_gen t = uuid_gen s" and "uuid_next s \<le> uuid_next t"
    and "wallets t = wallets s" and "walletReservations t = walletReservations s"
    and "walletLedgerEntries t = walletLedgerEntries s"
  shows "wallet_inv t"
proof -
  have "used_ids s \<subseteq> used_ids t" by (rule used_ids_mono) (use assms in simp_all)
  with assms(1) show ?thesis
    unfolding wallet_inv_def wallet_ids_def movements_wf_def wallet_row_ok_def uuids_distinct_def assms(2-)
    by (blast intro: subset_trans)
qed

lemma wallet_modify [preserved]:
  assumes "\<And>s. uuid_gen (f s) = uuid_gen s" and "\<And>s. uuid_next (f s) = uuid_next s"
    and "\<And>s. wallets (f s) = wallets s" and "\<And>s. walletReservations (f s) = walletReservations s"
    and "\<And>s. walletLedgerEntries (f s) = walletLedgerEntries s"
  shows "preserves wallet_inv (modify f)"
  by (rule preserves_modify, erule wallet_inv_frame) (simp_all add: assms)

lemma wallet_fresh_id [preserved]: "preserves wallet_inv fresh_id"
  by (rule preservesI) (auto simp: fresh_id_def elim!: wallet_inv_frame)

section \<open>The two statements every movement is made of\<close>

lemma updateWallets_one:
  assumes "distinct (map w_id (wallets s))" and P: "\<And>w. P w \<Longrightarrow> w_id w = wid"
    and run: "updateWallets P f s = (Inr rows, t)"
  shows "rows = [] \<and> t = s \<and> (\<forall>w \<in> set (wallets s). \<not> P w) \<or>
    (\<exists>w \<in> set (wallets s). P w \<and> w_id w = wid \<and> rows = [(f w)\<lparr>w_updatedAt := now s\<rparr>] \<and>
       0 \<le> w_availableMinor (f w) \<and> 0 \<le> w_reservedMinor (f w) \<and>
       t = s\<lparr>wallets := update_rows (\<lambda>v. w_id v = wid) (\<lambda>v. (f v)\<lparr>w_updatedAt := now s\<rparr>) (wallets s)\<rparr>)"
proof (cases "\<exists>w \<in> set (wallets s). P w")
  case False
  then have "filter P (wallets s) = []" by (auto simp: filter_empty_conv)
  moreover have "update_rows P g (wallets s) = wallets s" for g
    using False by (intro update_rows_none) auto
  ultimately show ?thesis using run False by (simp add: updateWallets_def Let_def)
next
  case True
  then obtain w where w: "w \<in> set (wallets s)" "P w" by blast
  have eq: "P v \<longleftrightarrow> w_id v = wid" if "v \<in> set (wallets s)" for v
    using P w distinct_key_eq [OF assms(1) that w(1)] by auto
  have "filter P (wallets s) = filter (\<lambda>v. w_id v = w_id w) (wallets s)"
    using eq P [OF w(2)] by (auto intro: filter_cong)
  also have "\<dots> = [w]" using filter_key [OF assms(1) w(1)] .
  finally have "filter P (wallets s) = [w]" .
  moreover have "update_rows P g (wallets s) = update_rows (\<lambda>v. w_id v = wid) g (wallets s)" for g
    using eq by (simp add: update_rows_def)
  ultimately show ?thesis using run w P [OF w(2)]
    by (auto simp: updateWallets_def Let_def split: if_splits)
qed

definition movement_row :: "ledgerEntryInput \<Rightarrow> wallet \<Rightarrow> db \<Rightarrow> walletLedgerEntry" where
  "movement_row i w s = \<lparr> wle_id = uuid_gen s (uuid_next s), wle_tenantId = lei_tenantId i,
     wle_walletId = lei_walletId i, wle_entryType = lei_entryType i, wle_refType = lei_refType i,
     wle_refId = lei_refId i, wle_amountMinor = lei_amountMinor i,
     wle_deltaAvailableMinor = lei_deltaAvailableMinor i,
     wle_deltaReservedMinor = lei_deltaReservedMinor i,
     wle_availableAfterMinor = w_availableMinor w, wle_reservedAfterMinor = w_reservedMinor w,
     wle_note = lei_note i, wle_createdAt = now s \<rparr>"

lemma appendWalletLedgerEntry_ok:
  "appendWalletLedgerEntry i s = (Inr u, t) \<longleftrightarrow>
     (\<exists>w. find (\<lambda>w. w_id w = lei_walletId i) (wallets s) = Some w \<and> 0 \<le> lei_amountMinor i \<and>
        entry_deltas_ok (lei_entryType i) (lei_amountMinor i) (lei_deltaAvailableMinor i)
          (lei_deltaReservedMinor i) \<and>
        t = s\<lparr>uuid_next := Suc (uuid_next s),
              walletLedgerEntries := walletLedgerEntries s @ [movement_row i w s]\<rparr>)"
  by (auto simp: appendWalletLedgerEntry_def tx_ok Let_def assert_wallet_ledger_entry_def movement_row_def)

text \<open>A movement: one wallet changes by the two deltas, the log records them, and the held
  reservations of that wallet change by the second.\<close>

lemma wallet_inv_move:
  assumes inv: "wallet_inv s" and w: "w \<in> set (wallets s)"
    and t: "uuid_gen t = uuid_gen s" "wallets t = update_rows (\<lambda>v. w_id v = w_id w) g (wallets s)"
      "walletLedgerEntries t = walletLedgerEntries s @ [e]"
    and g: "\<And>v. w_id (g v) = w_id v" "\<And>v. w_availableMinor (g v) = w_availableMinor v + da"
      "\<And>v. w_reservedMinor (g v) = w_reservedMinor v + dr"
    and e: "wle_walletId e = w_id w" "wle_deltaAvailableMinor e = da" "wle_deltaReservedMinor e = dr"
    and nonneg: "0 \<le> w_availableMinor w + da" "0 \<le> w_reservedMinor w + dr"
    and ids: "wallet_ids t"
    and rs: "\<And>r. r \<in> set (walletReservations t) \<Longrightarrow> wr_walletId r \<in> w_id ` set (wallets s) \<and> 0 \<le> wr_amountMinor r"
    and held: "held_of (w_id w) (walletReservations t) = held_of (w_id w) (walletReservations s) + dr"
      "\<And>wid. wid \<noteq> w_id w \<Longrightarrow> held_of wid (walletReservations t) = held_of wid (walletReservations s)"
  shows "wallet_inv t"
proof -
  have "map w_id (wallets t) = map w_id (wallets s)" by (simp add: t(2) g(1))
  then have wids: "w_id ` set (wallets t) = w_id ` set (wallets s)" by (metis list.set_map)
  have "movements_wf t"
    using inv rs w by (auto simp: movements_wf_def wallet_inv_def wids t(3) e(1))
  moreover have "wallet_row_ok t v'" if "v' \<in> set (wallets t)" for v'
  proof -
    from that obtain v where v: "v \<in> set (wallets s)" "v' = (if w_id v = w_id w then g v else v)"
      by (auto simp: t(2) in_set_update_rows)
    have ok: "wallet_row_ok s v" using inv v(1) by (rule wallet_invD(5))
    show ?thesis
    proof (cases "w_id v = w_id w")
      case True
      with inv v w have "v = w" by (metis wallet_invD(2) distinct_key_eq)
      with True v ok nonneg e held(1) show ?thesis
        by (auto simp: wallet_row_ok_def g t(3) log_available_def log_reserved_def)
    next
      case False
      with v ok e held(2) [OF False] show ?thesis
        by (auto simp: wallet_row_ok_def t(3) log_available_def log_reserved_def)
    qed
  qed
  ultimately show ?thesis using ids by (simp add: wallet_inv_def)
qed

section \<open>Reserving\<close>

lemma held_of_append [simp]: "held_of wid (xs @ ys) = held_of wid xs + held_of wid ys"
  by (simp add: held_of_def)

lemma insertReservation_ok:
  "insertReservation tid pid wid amt s = (Inr rid, t) \<longleftrightarrow>
     rid = uuid_gen s (uuid_next s) \<and> pid \<in> p_id ` set (payments s) \<and>
     pid \<notin> wr_paymentId ` set (walletReservations s) \<and>
     t = s\<lparr>uuid_next := Suc (uuid_next s), walletReservations := walletReservations s @
       [\<lparr> wr_id = rid, wr_tenantId = tid, wr_paymentId = pid, wr_walletId = wid,
          wr_amountMinor = amt, wr_status = HELD \<rparr>]\<rparr>"
  by (auto simp: insertReservation_def tx_ok)

text \<open>The outcome of the first transaction of \<open>reserveFunds\<close>.\<close>

definition after_reserve :: "string \<Rightarrow> string \<Rightarrow> string \<Rightarrow> int \<Rightarrow> walletLedgerEntry \<Rightarrow> db \<Rightarrow> db" where
  "after_reserve tid pid wid amt e s = s\<lparr>uuid_next := Suc (Suc (uuid_next s)),
     wallets := update_rows (\<lambda>v. w_id v = wid) (\<lambda>v. v\<lparr>w_availableMinor := w_availableMinor v - amt,
       w_reservedMinor := w_reservedMinor v + amt, w_updatedAt := now s\<rparr>) (wallets s),
     walletReservations := walletReservations s @
       [\<lparr> wr_id = uuid_gen s (uuid_next s), wr_tenantId = tid, wr_paymentId = pid, wr_walletId = wid,
          wr_amountMinor = amt, wr_status = HELD \<rparr>],
     walletLedgerEntries := walletLedgerEntries s @ [e]\<rparr>"

definition is_movement :: "walletLedgerEntry \<Rightarrow> string \<Rightarrow> walletLedgerEntryType \<Rightarrow> int \<Rightarrow> int \<Rightarrow> bool" where
  "is_movement e wid ty da dr \<longleftrightarrow> wle_walletId e = wid \<and> wle_entryType e = ty \<and>
     wle_deltaAvailableMinor e = da \<and> wle_deltaReservedMinor e = dr"

lemma reserveFunds_attempt_cases:
  assumes inv: "wallet_inv s" and run: "reserveFunds_attempt tid pid wid amt s = (Inr r, t)"
  obtains "r = None" "t = s"
      "\<forall>w \<in> set (wallets s). \<not> (w_id w = wid \<and> w_tenantId w = tid \<and> amt \<le> w_availableMinor w)"
  | w e where "w \<in> set (wallets s)" "w_id w = wid" "w_tenantId w = tid" "0 \<le> amt" "amt \<le> w_availableMinor w"
      "pid \<in> p_id ` set (payments s)" "pid \<notin> wr_paymentId ` set (walletReservations s)"
      "r = Some (uuid_gen s (uuid_next s), \<lparr> wb_walletId = wid, wb_availableMinor = w_availableMinor w - amt,
        wb_reservedMinor = w_reservedMinor w + amt, wb_totalMinor = w_availableMinor w + w_reservedMinor w \<rparr>)"
      "is_movement e wid RESERVE (- amt) amt" "t = after_reserve tid pid wid amt e s"
proof -
  let ?P = "\<lambda>w. w_id w = wid \<and> w_tenantId w = tid \<and> amt \<le> w_availableMinor w"
  let ?f = "\<lambda>w. w\<lparr>w_availableMinor := w_availableMinor w - amt, w_reservedMinor := w_reservedMinor w + amt\<rparr>"
  from run obtain rows u where upd: "updateWallets ?P ?f s = (Inr rows, u)"
    and rest: "(case rows of [] \<Rightarrow> return None | w # _ \<Rightarrow>
       bind (insertReservation tid pid wid amt) (\<lambda>rid.
       seq (appendWalletLedgerEntry
             \<lparr> lei_tenantId = tid, lei_walletId = wid, lei_entryType = RESERVE,
               lei_refType = Some ''payment'', lei_refId = Some pid,
               lei_amountMinor = amt, lei_deltaAvailableMinor = - amt,
               lei_deltaReservedMinor = amt, lei_note = Some (''reservation '' @ rid) \<rparr>)
           (return (Some (rid, (balance_of w)\<lparr>wb_walletId := wid\<rparr>))))) u = (Inr r, t)"
    by (auto simp: reserveFunds_attempt_def tx_ok)
  from updateWallets_one [OF wallet_invD(2) [OF inv] _ upd, of wid]
  consider "rows = []" "u = s" "\<forall>w \<in> set (wallets s). \<not> ?P w"
    | w where "w \<in> set (wallets s)" "?P w" "rows = [(?f w)\<lparr>w_updatedAt := now s\<rparr>]"
        "u = s\<lparr>wallets := update_rows (\<lambda>v. w_id v = wid) (\<lambda>v. (?f v)\<lparr>w_updatedAt := now s\<rparr>) (wallets s)\<rparr>"
    by auto
  then show ?thesis
  proof cases
    case 1
    with rest that(1) show ?thesis by (simp add: tx_ok)
  next
    case 2
    let ?i = "\<lparr> lei_tenantId = tid, lei_walletId = wid, lei_entryType = RESERVE,
      lei_refType = Some ''payment'', lei_refId = Some pid, lei_amountMinor = amt,
      lei_deltaAvailableMinor = - amt, lei_deltaReservedMinor = amt,
      lei_note = Some (''reservation '' @ uuid_gen s (uuid_next s)) \<rparr>"
    from 2 rest obtain rid u1 x where ins: "insertReservation tid pid wid amt u = (Inr rid, u1)"
      and app: "appendWalletLedgerEntry ?i u1 = (Inr x, t)"
      and r: "r = Some (rid, (balance_of ((?f w)\<lparr>w_updatedAt := now s\<rparr>))\<lparr>wb_walletId := wid\<rparr>)"
      by (auto simp: tx_ok insertReservation_ok)
    from app obtain v where "0 \<le> amt" and t: "t = u1\<lparr>uuid_next := Suc (uuid_next u1),
        walletLedgerEntries := walletLedgerEntries u1 @ [movement_row ?i v u1]\<rparr>"
      by (auto simp: appendWalletLedgerEntry_ok)
    moreover have "t = after_reserve tid pid wid amt (movement_row ?i v u1) s"
      using ins 2 by (simp add: t insertReservation_ok after_reserve_def)
    ultimately show ?thesis using 2 ins
      by (intro that(2) [of w "movement_row ?i v u1"])
         (auto simp: r balance_of_def is_movement_def movement_row_def insertReservation_ok)
  qed
qed

lemma wallet_inv_after_reserve:
  assumes inv: "wallet_inv s" and w: "w \<in> set (wallets s)" "w_id w = wid"
    and amt: "0 \<le> amt" "amt \<le> w_availableMinor w"
    and pid: "pid \<notin> wr_paymentId ` set (walletReservations s)"
    and e: "is_movement e wid RESERVE (- amt) amt"
  shows "wallet_inv (after_reserve tid pid wid amt e s)" (is "wallet_inv ?t")
proof -
  have row: "wallet_row_ok s w" using inv w(1) by (rule wallet_invD(5))
  have "uuid_gen s (uuid_next s) \<notin> used_ids s" using fresh_not_used [OF wallet_invD(1) [OF inv]] .
  moreover have "used_ids ?t = insert (uuid_gen s (Suc (uuid_next s))) (insert (uuid_gen s (uuid_next s)) (used_ids s))"
    by (simp add: after_reserve_def used_ids_def lessThan_Suc)
  ultimately have ids: "wallet_ids ?t" using inv pid
    by (auto simp: wallet_inv_def wallet_ids_def uuids_distinct_def after_reserve_def)
  show ?thesis
    by (rule wallet_inv_move [OF inv w(1), where da = "- amt" and dr = amt and e = e and
          g = "\<lambda>v. v\<lparr>w_availableMinor := w_availableMinor v - amt,
                      w_reservedMinor := w_reservedMinor v + amt, w_updatedAt := now s\<rparr>"])
       (use ids inv w amt e row in \<open>auto simp: after_reserve_def held_of_def is_movement_def
          wallet_row_ok_def dest: wallet_invD(6)\<close>)
qed

lemma wallet_reserveFunds_attempt [preserved]: "preserves wallet_inv (reserveFunds_attempt tid pid wid amt)"
proof (rule preservesI)
  fix s r t
  assume inv: "wallet_inv s" and run: "reserveFunds_attempt tid pid wid amt s = (r, t)"
  show "wallet_inv t"
  proof (cases r)
    case (Inl e)
    with inv run show ?thesis by (auto simp: reserveFunds_attempt_def dest: transaction_rollback)
  next
    case (Inr x)
    with run inv show ?thesis
      by (auto elim!: reserveFunds_attempt_cases [OF inv, of tid pid wid amt] intro: wallet_inv_after_reserve)
  qed
qed

text \<open>A zero-delta entry, as the denial record is, changes no balance.\<close>

lemma wallet_zero_entry:
  assumes "lei_deltaAvailableMinor i = 0" and "lei_deltaReservedMinor i = 0"
  shows "preserves wallet_inv (transaction (appendWalletLedgerEntry i))"
proof (rule preserves_transactionI)
  fix s x t
  assume inv: "wallet_inv s" and run: "appendWalletLedgerEntry i s = (Inr x, t)"
  then obtain w where w: "w \<in> set (wallets s)" "w_id w = lei_walletId i"
    and t: "t = s\<lparr>uuid_next := Suc (uuid_next s),
              walletLedgerEntries := walletLedgerEntries s @ [movement_row i w s]\<rparr>"
    by (auto simp: appendWalletLedgerEntry_ok dest: find_SomeD)
  have "wallet_inv (s\<lparr>uuid_next := Suc (uuid_next s)\<rparr>)" by (rule wallet_inv_frame [OF inv]) simp_all
  then have ids: "wallet_ids t" by (simp add: wallet_inv_def wallet_ids_def uuids_distinct_def used_ids_def t)
  show "wallet_inv t"
    by (rule wallet_inv_move [OF inv w(1), where g = "\<lambda>v. v" and da = 0 and dr = 0])
       (use ids inv w assms wallet_invD(5) [OF inv w(1)] in
         \<open>auto simp: t update_rows_def movement_row_def wallet_row_ok_def dest: wallet_invD(6)\<close>)
qed

lemma wallet_reserveFunds [preserved]: "preserves wallet_inv (reserveFunds tid pid wid amt)"
  unfolding reserveFunds_def by (intro preserved wallet_zero_entry) simp_all

section \<open>Releasing and applying\<close>

text \<open>Both commands take one held reservation out of the reserved balance; they differ in what
  is given back to the available balance.\<close>

definition after_settle ::
  "walletReservation \<Rightarrow> reservation_status \<Rightarrow> int \<Rightarrow> walletLedgerEntry \<Rightarrow> db \<Rightarrow> db" where
  "after_settle r st da e s = s\<lparr>uuid_next := Suc (uuid_next s),
     wallets := update_rows (\<lambda>v. w_id v = wr_walletId r) (\<lambda>v. v\<lparr>w_availableMinor := w_availableMinor v + da,
       w_reservedMinor := w_reservedMinor v - wr_amountMinor r, w_updatedAt := now s\<rparr>) (wallets s),
     walletReservations := update_rows (\<lambda>q. wr_id q = wr_id r) (\<lambda>q. q\<lparr>wr_status := st\<rparr>) (walletReservations s),
     walletLedgerEntries := walletLedgerEntries s @ [e]\<rparr>"

lemma held_of_settle:
  assumes "distinct (map wr_id rs)" and "r \<in> set rs" and "wr_status r = HELD" and "st \<noteq> HELD"
  shows "held_of wid (update_rows (\<lambda>q. wr_id q = wr_id r) (\<lambda>q. q\<lparr>wr_status := st\<rparr>) rs) =
     held_of wid rs - (if wr_walletId r = wid then wr_amountMinor r else 0)"
  unfolding held_of_def sum_list_map_filter'
  using sum_list_update_key [OF assms(1,2), of "\<lambda>q. if wr_walletId q = wid \<and> wr_status q = HELD then wr_amountMinor q else 0"
      "\<lambda>q. q\<lparr>wr_status := st\<rparr>"] assms(3,4) by simp

lemma held_le_reserved:
  assumes inv: "wallet_inv s" and r: "r \<in> set (walletReservations s)" "wr_status r = HELD"
    and w: "w \<in> set (wallets s)" "w_id w = wr_walletId r"
  shows "wr_amountMinor r \<le> w_reservedMinor w"
proof -
  let ?hs = "filter (\<lambda>q. wr_walletId q = w_id w \<and> wr_status q = HELD) (walletReservations s)"
  have "wr_amountMinor r \<in> set (map wr_amountMinor ?hs)" using r w by auto
  moreover have "\<And>x. x \<in> set (map wr_amountMinor ?hs) \<Longrightarrow> 0 \<le> x" using inv by (auto dest: wallet_invD(6))
  ultimately have "wr_amountMinor r \<le> sum_list (map wr_amountMinor ?hs)" by (rule member_le_sum_list)
  with wallet_invD(5) [OF inv w(1)] show ?thesis by (simp add: wallet_row_ok_def held_of_def)
qed

lemma wallet_of_reservation:
  assumes "wallet_inv s" and "r \<in> set (walletReservations s)"
  obtains w where "w \<in> set (wallets s)" "w_id w = wr_walletId r"
    "find (\<lambda>v. w_id v = wr_walletId r) (wallets s) = Some w"
proof -
  from wallet_invD(6) [OF assms] obtain w where w: "w \<in> set (wallets s)" "w_id w = wr_walletId r" by force
  with find_key [OF wallet_invD(2) [OF assms(1)] w(1)] show thesis by (intro that) simp_all
qed

text \<open>The three statements of a release or an application run through, whatever the state.\<close>

lemma settle_run:
  assumes inv: "wallet_inv s" and r: "r \<in> set (walletReservations s)" "wr_status r = HELD"
    and f: "\<And>v. f v = v\<lparr>w_availableMinor := w_availableMinor v + da,
              w_reservedMinor := w_reservedMinor v - wr_amountMinor r\<rparr>" and da: "0 \<le> da"
    and i: "lei_walletId i = wr_walletId r" "lei_amountMinor i = wr_amountMinor r"
      "lei_deltaAvailableMinor i = da" "lei_deltaReservedMinor i = - wr_amountMinor r"
      "entry_deltas_ok (lei_entryType i) (wr_amountMinor r) da (- wr_amountMinor r)"
  shows "\<exists>e. is_movement e (wr_walletId r) (lei_entryType i) da (- wr_amountMinor r) \<and>
     seq (updateWallets (\<lambda>w. w_id w = wr_walletId r) f)
       (seq (setReservationStatus (wr_id r) st) (appendWalletLedgerEntry i)) s = (Inr (), after_settle r st da e s)"
proof -
  obtain w where w: "w \<in> set (wallets s)" "w_id w = wr_walletId r"
    and find: "find (\<lambda>v. w_id v = wr_walletId r) (wallets s) = Some w"
    using wallet_of_reservation [OF inv r(1)] .
  let ?g = "\<lambda>v. (f v)\<lparr>w_updatedAt := now s\<rparr>"
  let ?u = "s\<lparr>wallets := update_rows (\<lambda>v. w_id v = wr_walletId r) ?g (wallets s)\<rparr>"
  let ?v = "?u\<lparr>walletReservations :=
      update_rows (\<lambda>q. wr_id q = wr_id r) (\<lambda>q. q\<lparr>wr_status := st\<rparr>) (walletReservations s)\<rparr>"
  have one: "filter (\<lambda>v. w_id v = wr_walletId r) (wallets s) = [w]"
    using filter_key [OF wallet_invD(2) [OF inv] w(1)] w(2) by simp
  have "0 \<le> w_availableMinor w" "wr_amountMinor r \<le> w_reservedMinor w"
    using wallet_invD(5) [OF inv w(1)] held_le_reserved [OF inv r w] by (auto simp: wallet_row_ok_def)
  then have upd: "updateWallets (\<lambda>v. w_id v = wr_walletId r) f s = (Inr [?g w], ?u)"
    using da by (simp add: updateWallets_def one f)
  have "find (\<lambda>v. w_id v = wr_walletId r) (wallets ?v) = Some (?g w)"
    using find_update_rows [OF find, of ?g] by (simp add: f)
  moreover have "0 \<le> wr_amountMinor r" using wallet_invD(6) [OF inv r(1)] by simp
  ultimately have "appendWalletLedgerEntry i ?v = (Inr (), ?v\<lparr>uuid_next := Suc (uuid_next s),
      walletLedgerEntries := walletLedgerEntries s @ [movement_row i (?g w) ?v]\<rparr>)"
    using i by (simp add: appendWalletLedgerEntry_ok)
  with upd have "seq (updateWallets (\<lambda>w. w_id w = wr_walletId r) f)
       (seq (setReservationStatus (wr_id r) st) (appendWalletLedgerEntry i)) s =
       (Inr (), after_settle r st da (movement_row i (?g w) ?v) s)"
    by (simp add: seq_step setReservationStatus_def modify_def after_settle_def f)
  then show ?thesis using i by (intro exI [of _ "movement_row i (?g w) ?v"]) (simp add: is_movement_def movement_row_def)
qed

lemma wallet_inv_after_settle:
  assumes inv: "wallet_inv s" and r: "r \<in> set (walletReservations s)" "wr_status r = HELD"
    and da: "0 \<le> da" and st: "st \<noteq> HELD" and e: "is_movement e (wr_walletId r) ty da (- wr_amountMinor r)"
  shows "wallet_inv (after_settle r st da e s)" (is "wallet_inv ?t")
proof -
  obtain w where w: "w \<in> set (wallets s)" "w_id w = wr_walletId r" using wallet_of_reservation [OF inv r(1)] .
  have le: "wr_amountMinor r \<le> w_reservedMinor w" by (rule held_le_reserved [OF inv r w])
  have row: "wallet_row_ok s w" using inv w(1) by (rule wallet_invD(5))
  have "wallet_ids (s\<lparr>uuid_next := Suc (uuid_next s)\<rparr>)"
    using wallet_inv_frame [OF inv, of "s\<lparr>uuid_next := Suc (uuid_next s)\<rparr>"] by (simp add: wallet_inv_def)
  then have ids: "wallet_ids ?t"
    by (auto simp: wallet_ids_def uuids_distinct_def used_ids_def after_settle_def)
  show ?thesis
    by (rule wallet_inv_move [OF inv w(1), where da = da and dr = "- wr_amountMinor r" and e = e and
          g = "\<lambda>v. v\<lparr>w_availableMinor := w_availableMinor v + da,
                w_reservedMinor := w_reservedMinor v - wr_amountMinor r, w_updatedAt := now s\<rparr>"])
       (use ids inv w le row da e st r wallet_invD(3) [OF inv] in
         \<open>auto simp: after_settle_def held_of_settle is_movement_def wallet_row_ok_def in_set_update_rows
            dest: wallet_invD(6)\<close>)
qed

text \<open>The exact effect of the two commands on a held reservation.\<close>

lemma releaseReservation_held:
  assumes inv: "wallet_inv s" and r: "r \<in> set (walletReservations s)" "wr_status r = HELD"
  shows "\<exists>e. is_movement e (wr_walletId r) RELEASE (wr_amountMinor r) (- wr_amountMinor r) \<and>
     releaseReservation (wr_id r) s = (Inr (), after_settle r RELEASED (wr_amountMinor r) e s)"
proof -
  let ?i = "\<lparr> lei_tenantId = wr_tenantId r, lei_walletId = wr_walletId r, lei_entryType = RELEASE,
     lei_refType = Some ''payment'', lei_refId = Some (wr_paymentId r), lei_amountMinor = wr_amountMinor r,
     lei_deltaAvailableMinor = wr_amountMinor r, lei_deltaReservedMinor = - wr_amountMinor r,
     lei_note = Some (''reservation '' @ wr_id r) \<rparr>"
  have find: "find (\<lambda>q. wr_id q = wr_id r) (walletReservations s) = Some r"
    using find_key [OF wallet_invD(3) [OF inv] r(1)] .
  have "0 \<le> wr_amountMinor r" using wallet_invD(6) [OF inv r(1)] by simp
  with settle_run [OF inv r, of "\<lambda>w. w\<lparr>w_availableMinor := w_availableMinor w + wr_amountMinor r,
        w_reservedMinor := w_reservedMinor w - wr_amountMinor r\<rparr>" "wr_amountMinor r" ?i RELEASED]
  show ?thesis
    unfolding releaseReservation_def transaction_def bind_def gets_def find by (auto simp: r(2))
qed

lemma applyReservation_held:
  assumes inv: "wallet_inv s" and r: "r \<in> set (walletReservations s)" "wr_status r = HELD"
  shows "\<exists>e. is_movement e (wr_walletId r) APPLY 0 (- wr_amountMinor r) \<and>
     applyReservation (wr_id r) s = (Inr (), after_settle r APPLIED 0 e s)"
proof -
  let ?i = "\<lparr> lei_tenantId = wr_tenantId r, lei_walletId = wr_walletId r, lei_entryType = APPLY,
     lei_refType = Some ''payment'', lei_refId = Some (wr_paymentId r), lei_amountMinor = wr_amountMinor r,
     lei_deltaAvailableMinor = 0, lei_deltaReservedMinor = - wr_amountMinor r,
     lei_note = Some (''reservation '' @ wr_id r) \<rparr>"
  have find: "find (\<lambda>q. wr_id q = wr_id r) (walletReservations s) = Some r"
    using find_key [OF wallet_invD(3) [OF inv] r(1)] .
  from settle_run [OF inv r, of "\<lambda>w. w\<lparr>w_reservedMinor := w_reservedMinor w - wr_amountMinor r\<rparr>" 0 ?i APPLIED]
  show ?thesis
    unfolding applyReservation_def transaction_def bind_def gets_def find by (auto simp: r(2))
qed

lemma settle_other:
  assumes "\<not> (\<exists>r \<in> set (walletReservations s). wr_id r = rid \<and> wr_status r = HELD)"
  shows "releaseReservation rid s = (Inr (), s)" and "applyReservation rid s = (Inr (), s)"
  using assms
  by (auto simp: releaseReservation_def applyReservation_def tx_run split: option.splits dest!: find_SomeD)

lemma wallet_releaseReservation [preserved]: "preserves wallet_inv (releaseReservation rid)"
proof (rule preservesI)
  fix s r t
  assume inv: "wallet_inv s" and run: "releaseReservation rid s = (r, t)"
  show "wallet_inv t"
  proof (cases "\<exists>r \<in> set (walletReservations s). wr_id r = rid \<and> wr_status r = HELD")
    case True
    then obtain q where "q \<in> set (walletReservations s)" "wr_status q = HELD" "rid = wr_id q" by auto
    with run releaseReservation_held [OF inv, of q] wallet_invD(6) [OF inv, of q] show ?thesis
      by (auto intro: wallet_inv_after_settle [OF inv])
  qed (use inv run settle_other in auto)
qed

lemma wallet_applyReservation [preserved]: "preserves wallet_inv (applyReservation rid)"
proof (rule preservesI)
  fix s r t
  assume inv: "wallet_inv s" and run: "applyReservation rid s = (r, t)"
  show "wallet_inv t"
  proof (cases "\<exists>r \<in> set (walletReservations s). wr_id r = rid \<and> wr_status r = HELD")
    case True
    then obtain q where "q \<in> set (walletReservations s)" "wr_status q = HELD" "rid = wr_id q" by auto
    with run applyReservation_held [OF inv, of q] show ?thesis
      by (auto intro: wallet_inv_after_settle [OF inv])
  qed (use inv run settle_other in auto)
qed

section \<open>Crediting a wallet\<close>

text \<open>\<open>fundWallet\<close> and \<open>settleCollection\<close> credit the available balance and then log the movement with
  \<open>recordWalletFunding\<close>, inside one transaction.\<close>

lemma wallet_credit:
  assumes inv: "wallet_inv s" and P: "\<And>w. P w \<Longrightarrow> w_id w = wid"
    and upd: "updateWallets P (\<lambda>w. w\<lparr>w_availableMinor := w_availableMinor w + amt\<rparr>) s = (Inr rows, u)"
    and ne: "rows \<noteq> []"
    and log: "recordWalletFunding tid wid rt ri amt note u = (Inr x, t)"
  shows "wallet_inv t"
proof -
  from updateWallets_one [OF wallet_invD(2) [OF inv] P upd] ne
  obtain w where w: "w \<in> set (wallets s)" "w_id w = wid" "0 \<le> w_availableMinor w + amt"
    and u: "u = s\<lparr>wallets := update_rows (\<lambda>v. w_id v = wid) (\<lambda>v. v\<lparr>w_availableMinor := w_availableMinor v + amt,
       w_updatedAt := now s\<rparr>) (wallets s)\<rparr>" by auto
  from log obtain v i where t: "t = u\<lparr>uuid_next := Suc (uuid_next u),
      walletLedgerEntries := walletLedgerEntries u @ [movement_row i v u]\<rparr>"
    and i: "lei_walletId i = wid" "lei_deltaAvailableMinor i = amt" "lei_deltaReservedMinor i = 0"
    by (auto simp: recordWalletFunding_def appendWalletLedgerEntry_ok)
  have "wallet_ids (s\<lparr>uuid_next := Suc (uuid_next s)\<rparr>)"
    using wallet_inv_frame [OF inv, of "s\<lparr>uuid_next := Suc (uuid_next s)\<rparr>"] by (simp add: wallet_inv_def)
  then have ids: "wallet_ids t" by (auto simp: wallet_ids_def uuids_distinct_def used_ids_def t u)
  show ?thesis
    by (rule wallet_inv_move [OF inv w(1), where da = amt and dr = 0 and e = "movement_row i v u" and
          g = "\<lambda>v. v\<lparr>w_availableMinor := w_availableMinor v + amt, w_updatedAt := now s\<rparr>"])
       (use ids inv w wallet_invD(5) [OF inv w(1)] in
         \<open>auto simp: t u i movement_row_def wallet_row_ok_def dest: wallet_invD(6)\<close>)
qed

section \<open>Ledger commands and wallets\<close>

text \<open>The journal side never touches the wallet tables.\<close>

lemma wallet_insertJournalEntry [preserved]: "preserves wallet_inv (insertJournalEntry jid aid d c m)"
  unfolding insertJournalEntry_def by (intro preserved) (simp_all add: Let_def)

lemma wallet_postJournal [preserved]: "preserves wallet_inv (postJournal input)"
  unfolding postJournal_def postJournalEntry_def insertSnapshot_def by (intro preserved) simp_all

lemma wallet_ensureSystemChart [preserved]: "preserves wallet_inv (ensureSystemChart tid)"
  unfolding ensureSystemChart_def insertChartAccount_def insertSystemAccount_def
  by (intro preserved) auto

lemma wallet_getSystemAccount [preserved]: "preserves wallet_inv (getSystemAccount tid code)"
  unfolding getSystemAccount_def by (intro preserved)

lemma wallet_getWalletLedgerAccount_fuel:
  "preserves wallet_inv (getWalletLedgerAccount_fuel n wid tid)"
  by (induction n) (auto intro!: preserved simp: Let_def)

lemma wallet_getWalletLedgerAccount [preserved]: "preserves wallet_inv (getWalletLedgerAccount wid tid)"
  unfolding getWalletLedgerAccount_def by (rule wallet_getWalletLedgerAccount_fuel)

lemma wallet_postPaymentSuccessJournal [preserved]:
  "preserves wallet_inv (postPaymentSuccessJournal tid pid wid amt fee actor)"
  unfolding postPaymentSuccessJournal_def by (intro preserved)

lemma wallet_postReversalJournal [preserved]:
  "preserves wallet_inv (postReversalJournal tid pid wid amt actor)"
  unfolding postReversalJournal_def by (intro preserved)

lemma wallet_postFundingJournal [preserved]:
  "preserves wallet_inv (postFundingJournal tid wid amt actor)"
  unfolding postFundingJournal_def by (intro preserved)

end
