(* ===== verification/Approval_Invariants.thy ===== *)
theory Approval_Invariants
  imports Approvals Ledger_Invariants
begin

text \<open>
  What packages/approvals guarantees.  The main result is that a request becomes \<open>APPROVED\<close>
  only when each of its steps has the approvals it asks for, given by different users none of
  whom created the request.
\<close>

section \<open>Policies\<close>

lemma first_match_find:
  "first_match rules ctx = (case find (\<lambda>r. ruleMatches r ctx) rules of None \<Rightarrow> [] | Some r \<Rightarrow> ruleSteps r)"
  by (induction rules) auto

lemma ruleSteps_levels:
  "map rq_level (ruleSteps rule) = [1..int (length (ruleSteps rule))]"
proof (cases "rl_mode rule = SEQUENTIAL \<and> length (rl_requiredRoles rule) > 1")
  case True
  have "map (\<lambda>x. int (fst x) + 1) (enumerate 0 roles) = [1..int (length roles)]" for roles :: "string list"
    by (rule nth_equalityI) (auto simp: nth_enumerate_eq nth_upto)
  with True show ?thesis by (simp add: ruleSteps_def comp_def split_def)
qed (auto simp: ruleSteps_def)

lemma ruleSteps_neq_Nil: "ruleSteps rule \<noteq> []"
  by (auto simp: ruleSteps_def) (metis length_0_conv length_enumerate not_less_zero)

lemma evaluatePolicy_levels:
  "map rq_level (evaluatePolicy rules ctx) = [1..int (length (evaluatePolicy rules ctx))]"
  by (auto simp: evaluatePolicy_def first_match_find ruleSteps_levels split: option.splits)

section \<open>The invariant of approval requests\<close>

definition steps_of :: "string \<Rightarrow> approvalStep list \<Rightarrow> approvalStep list" where
  "steps_of rid ss = filter (\<lambda>st. as_requestId st = rid) ss"

definition approvals_on :: "string \<Rightarrow> approvalAction list \<Rightarrow> approvalAction list" where
  "approvals_on sid as = filter (\<lambda>a. aa_stepId a = sid \<and> aa_decision a = APPROVE) as"

definition step_done :: "approvalAction list \<Rightarrow> approvalStep \<Rightarrow> bool" where
  "step_done as st \<longleftrightarrow> as_status st = ST_APPROVED \<and> as_minApprovers st \<le> int (length (approvals_on (as_id st) as))"

text \<open>An open request at level \<open>cur\<close>: the steps before are done, the one at \<open>cur\<close> is in progress, the
  ones after are pending.\<close>

definition in_progress :: "approvalAction list \<Rightarrow> approvalStep list \<Rightarrow> int \<Rightarrow> bool" where
  "in_progress as ss cur \<longleftrightarrow> 1 \<le> cur \<and> cur \<le> int (length ss) \<and>
     (\<forall>st \<in> set ss. (as_level st < cur \<longrightarrow> step_done as st) \<and>
        (as_level st = cur \<longrightarrow> as_status st = ST_IN_PROGRESS) \<and>
        (as_level st > cur \<longrightarrow> as_status st = ST_PENDING))"

definition request_ok :: "approvalAction list \<Rightarrow> approvalStep list \<Rightarrow> approvalRequest \<Rightarrow> bool" where
  "request_ok as ss r \<longleftrightarrow>
     ss \<noteq> [] \<and> map as_level ss = [1..int (length ss)] \<and>
     (ar_status r = AR_APPROVED \<longrightarrow> (\<forall>st \<in> set ss. step_done as st)) \<and>
     (\<not> resolved (ar_status r) \<longrightarrow> in_progress as ss (ar_currentLevel r))"

definition approval_ids :: "db \<Rightarrow> bool" where
  "approval_ids s \<longleftrightarrow> uuids_distinct s \<and>
     distinct (map ar_id (approvalRequests s)) \<and> ar_id ` set (approvalRequests s) \<subseteq> used_ids s \<and>
     distinct (map as_id (approvalSteps s)) \<and> as_id ` set (approvalSteps s) \<subseteq> used_ids s \<and>
     as_requestId ` set (approvalSteps s) \<subseteq> ar_id ` set (approvalRequests s)"

text \<open>Actions are by users other than the creator, at most one per user and request, on a step of
  the request.\<close>

definition actions_ok :: "db \<Rightarrow> bool" where
  "actions_ok s \<longleftrightarrow>
     distinct (map (\<lambda>a. (aa_requestId a, aa_actorId a)) (approvalActions s)) \<and>
     (\<forall>a \<in> set (approvalActions s).
        (\<exists>st \<in> set (approvalSteps s). as_id st = aa_stepId a \<and> as_requestId st = aa_requestId a) \<and>
        (\<forall>r \<in> set (approvalRequests s). ar_id r = aa_requestId a \<longrightarrow> ar_createdById r \<noteq> aa_actorId a))"

definition approval_inv :: "db \<Rightarrow> bool" where
  "approval_inv s \<longleftrightarrow> approval_ids s \<and> actions_ok s \<and>
     (\<forall>r \<in> set (approvalRequests s). request_ok (approvalActions s) (steps_of (ar_id r) (approvalSteps s)) r)"

lemma approval_inv_frame:
  assumes "approval_inv s" and "uuid_gen t = uuid_gen s" and "uuid_next s \<le> uuid_next t"
    and "approvalRequests t = approvalRequests s" and "approvalSteps t = approvalSteps s"
    and "approvalActions t = approvalActions s"
  shows "approval_inv t"
proof -
  have "used_ids s \<subseteq> used_ids t" by (rule used_ids_mono) (use assms in simp_all)
  with assms(1) show ?thesis
    unfolding approval_inv_def approval_ids_def actions_ok_def uuids_distinct_def assms(2-)
    by (blast intro: subset_trans)
qed

lemma approval_modify [preserved]:
  assumes "\<And>s. uuid_gen (f s) = uuid_gen s" and "\<And>s. uuid_next (f s) = uuid_next s"
    and "\<And>s. approvalRequests (f s) = approvalRequests s" and "\<And>s. approvalSteps (f s) = approvalSteps s"
    and "\<And>s. approvalActions (f s) = approvalActions s"
  shows "preserves approval_inv (modify f)"
  by (rule preserves_modify, erule approval_inv_frame) (simp_all add: assms)

lemma approval_fresh_id [preserved]: "preserves approval_inv fresh_id"
  by (rule preservesI) (auto simp: fresh_id_def elim!: approval_inv_frame)

section \<open>Creating a request\<close>

definition step_row :: "string \<Rightarrow> string \<Rightarrow> stepRequirement \<Rightarrow> approvalStep" where
  "step_row rid sid q = \<lparr> as_id = sid, as_requestId = rid, as_level = rq_level q, as_mode = rq_mode q,
     as_roles = rq_roles q, as_minApprovers = rq_minApprovers q,
     as_status = (if rq_level q = 1 then ST_IN_PROGRESS else ST_PENDING) \<rparr>"

primrec step_rows :: "string \<Rightarrow> (nat \<Rightarrow> string) \<Rightarrow> nat \<Rightarrow> stepRequirement list \<Rightarrow> approvalStep list" where
  "step_rows rid gen n [] = []"
| "step_rows rid gen n (q # qs) = step_row rid (gen n) q # step_rows rid gen (Suc n) qs"

lemma insertSteps_run:
  "forEachM qs (insertStep rid) s = (Inr (), s\<lparr>uuid_next := uuid_next s + length qs,
     approvalSteps := approvalSteps s @ step_rows rid (uuid_gen s) (uuid_next s) qs\<rparr>)"
proof (induction qs arbitrary: s)
  case Nil
  then show ?case by (simp add: return_def)
next
  case (Cons q qs)
  have "insertStep rid q s = (Inr (), s\<lparr>uuid_next := Suc (uuid_next s),
      approvalSteps := approvalSteps s @ [step_row rid (uuid_gen s (uuid_next s)) q]\<rparr>)"
    by (simp add: insertStep_def step_row_def tx_run fresh_id_def)
  with Cons show ?case by (simp add: seq_step)
qed

lemma step_rows_props:
  "map as_level (step_rows rid gen n qs) = map rq_level qs"
  "map as_id (step_rows rid gen n qs) = map gen [n..<n + length qs]"
  "length (step_rows rid gen n qs) = length qs"
  "st \<in> set (step_rows rid gen n qs) \<Longrightarrow> as_requestId st = rid \<and>
     as_status st = (if as_level st = 1 then ST_IN_PROGRESS else ST_PENDING)"
  by (induction qs arbitrary: n) (auto simp: step_row_def upt_rec)

definition after_create :: "approvalRequest \<Rightarrow> stepRequirement list \<Rightarrow> db \<Rightarrow> db" where
  "after_create r qs s = s\<lparr>uuid_next := Suc (uuid_next s) + length qs,
     approvalRequests := approvalRequests s @ [r],
     approvalSteps := approvalSteps s @ step_rows (ar_id r) (uuid_gen s) (Suc (uuid_next s)) qs\<rparr>"

lemma createApprovalRequest_run:
  assumes "createApprovalRequest input s = (Inr rid, t)"
  obtains r where "rid = uuid_gen s (uuid_next s)" "ar_id r = rid" "ar_status r = AR_PENDING"
    "ar_currentLevel r = 1" "ar_createdById r = ca_createdById input" "ar_paymentId r = ca_paymentId input"
    "evaluatePolicy (ca_rules input) (ca_context input) \<noteq> []" "validateRules (ca_rules input) = None"
    "t = after_create r (evaluatePolicy (ca_rules input) (ca_context input)) s"
proof -
  obtain q qs where qs: "evaluatePolicy (ca_rules input) (ca_context input) = q # qs"
    using assms by (cases "evaluatePolicy (ca_rules input) (ca_context input)")
      (auto simp: createApprovalRequest_def Let_def tx_ok split: option.splits)
  define r where "r = \<lparr> ar_id = uuid_gen s (uuid_next s), ar_tenantId = ca_tenantId input,
     ar_paymentId = ca_paymentId input, ar_batchId = ca_batchId input,
     ar_resourceType = ca_resourceType input, ar_resourceId = ca_resourceId input,
     ar_policyId = ca_policyId input, ar_policySnapshot = \<lparr> sn_rules = ca_rules input,
       sn_context = ca_context input, sn_metadata = to_jsonb (ca_metadata input) \<rparr>,
     ar_status = AR_PENDING, ar_mode = rq_mode q,
     ar_requiredApprovals = sum_list (map rq_minApprovers (q # qs)), ar_currentLevel = 1,
     ar_dueAt = ca_dueAt input, ar_createdById = ca_createdById input, ar_createdAt = now s,
     ar_executedAt = None, ar_executionError = None \<rparr>"
  have "rid = uuid_gen s (uuid_next s)" "t = after_create r (q # qs) s" "validateRules (ca_rules input) = None"
    using assms by (auto simp: createApprovalRequest_def Let_def tx_ok qs insertSteps_run after_create_def
        r_def simp del: forEachM.simps split: option.splits)
  with qs show thesis by (intro that [of r]) (auto simp: r_def)
qed

lemma approval_ids_after_create:
  assumes ids: "approval_ids s" and r: "ar_id r = uuid_gen s (uuid_next s)"
  shows "approval_ids (after_create r qs s)" (is "approval_ids ?t")
proof -
  let ?new = "step_rows (ar_id r) (uuid_gen s) (Suc (uuid_next s)) qs"
  have inj: "inj (uuid_gen s)" using ids by (simp add: approval_ids_def uuids_distinct_def)
  have fresh: "uuid_gen s m \<notin> used_ids s" if "uuid_next s \<le> m" for m
    using inj that by (auto simp: used_ids_def dest: injD)
  have sub: "used_ids s \<subseteq> used_ids ?t" by (rule used_ids_mono) (simp_all add: after_create_def)
  have new_ids: "as_id ` set ?new = uuid_gen s ` {Suc (uuid_next s)..<Suc (uuid_next s) + length qs}"
    by (metis atLeastLessThan_upt list.set_map step_rows_props(2))
  then have new_used: "as_id ` set ?new \<subseteq> used_ids ?t" "ar_id r \<in> used_ids ?t"
    by (auto simp: used_ids_def after_create_def r)
  have dist_new: "distinct (map as_id ?new)"
    unfolding step_rows_props(2) distinct_map using inj by (simp add: inj_on_subset)
  have disj: "as_id ` set (approvalSteps s) \<inter> as_id ` set ?new = {}"
  proof -
    have "x \<notin> used_ids s" if "x \<in> as_id ` set ?new" for x
    proof -
      from that obtain m where "x = uuid_gen s m" "uuid_next s \<le> m" unfolding new_ids by auto
      with fresh show ?thesis by simp
    qed
    then show ?thesis using ids unfolding approval_ids_def by blast
  qed
  have new_req: "ar_id r \<notin> ar_id ` set (approvalRequests s)"
    using fresh [of "uuid_next s"] ids r by (auto simp: approval_ids_def)
  have t: "approvalRequests ?t = approvalRequests s @ [r]" "approvalSteps ?t = approvalSteps s @ ?new"
    "uuid_gen ?t = uuid_gen s" by (simp_all add: after_create_def)
  show ?thesis
    unfolding approval_ids_def uuids_distinct_def t
  proof (intro conjI)
    show "as_requestId ` set (approvalSteps s @ ?new) \<subseteq> ar_id ` set (approvalRequests s @ [r])"
      using ids step_rows_props(4) by (auto simp: approval_ids_def)
  qed (use ids inj new_req new_used sub dist_new disj in \<open>auto simp: approval_ids_def\<close>)
qed

lemma steps_of_append: "steps_of rid (xs @ ys) = steps_of rid xs @ steps_of rid ys"
  by (simp add: steps_of_def)

lemma approval_inv_after_create:
  assumes inv: "approval_inv s" and r: "ar_id r = uuid_gen s (uuid_next s)" "ar_status r = AR_PENDING" "ar_currentLevel r = 1"
    and qs: "qs \<noteq> []" "map rq_level qs = [1..int (length qs)]"
  shows "approval_inv (after_create r qs s)" (is "approval_inv ?t")
proof -
  let ?new = "step_rows (ar_id r) (uuid_gen s) (Suc (uuid_next s)) qs"
  have ids: "approval_ids s" and acts: "actions_ok s" using inv by (simp_all add: approval_inv_def)
  have new_req: "ar_id r \<notin> ar_id ` set (approvalRequests s)"
    using fresh_not_used [of s] ids r by (auto simp: approval_ids_def)
  have t: "approvalRequests ?t = approvalRequests s @ [r]" "approvalSteps ?t = approvalSteps s @ ?new"
    "approvalActions ?t = approvalActions s" by (simp_all add: after_create_def)
  have "as_requestId st \<noteq> ar_id r" if "st \<in> set (approvalSteps s)" for st
    using imageI [OF that, of as_requestId] new_req ids unfolding approval_ids_def by (metis subsetD)
  then have "steps_of (ar_id r) (approvalSteps s) = []" by (simp add: steps_of_def filter_empty_conv)
  moreover have "steps_of (ar_id r) ?new = ?new"
    using step_rows_props(4) by (auto simp: steps_of_def filter_id_conv)
  ultimately have mine: "steps_of (ar_id r) (approvalSteps ?t) = ?new" by (simp add: t steps_of_append)
  have other: "steps_of (ar_id q) (approvalSteps ?t) = steps_of (ar_id q) (approvalSteps s)"
    if "q \<in> set (approvalRequests s)" for q
    using that new_req step_rows_props(4) by (auto simp: t steps_of_append steps_of_def filter_empty_conv)
  have lv: "map as_level ?new = [1..int (length ?new)]" by (simp add: step_rows_props(1,3) qs(2))
  have "1 \<le> as_level st" if "st \<in> set ?new" for st
  proof -
    from that have "as_level st \<in> set (map as_level ?new)" by simp
    then show ?thesis unfolding lv by simp
  qed
  moreover have ne: "?new \<noteq> []" using qs(1) by (cases qs) simp_all
  moreover from ne have "1 \<le> int (length ?new)" by (cases ?new) simp_all
  ultimately have "in_progress (approvalActions s) ?new 1"
    using step_rows_props(4) [of _ "ar_id r" "uuid_gen s" "Suc (uuid_next s)" qs]
    unfolding in_progress_def by force
  then have "request_ok (approvalActions s) ?new r"
    using lv r ne by (simp add: request_ok_def resolved_def)
  then have "\<forall>q \<in> set (approvalRequests ?t). request_ok (approvalActions ?t) (steps_of (ar_id q) (approvalSteps ?t)) q"
    using inv other mine by (auto simp: approval_inv_def t)
  moreover have "actions_ok ?t"
  proof -
    have "aa_requestId a \<noteq> ar_id r" if "a \<in> set (approvalActions s)" for a
      using that acts ids new_req unfolding actions_ok_def approval_ids_def by (metis image_eqI subsetD)
    then have "\<forall>a \<in> set (approvalActions s). aa_requestId a \<noteq> ar_id r" by blast
    with acts show ?thesis unfolding actions_ok_def t by fastforce
  qed
  ultimately show ?thesis using approval_ids_after_create [OF ids r(1)] by (simp add: approval_inv_def)
qed

lemma approval_createApprovalRequest [preserved]: "preserves approval_inv (createApprovalRequest input)"
proof (rule preservesI)
  fix s r t
  assume inv: "approval_inv s" and run: "createApprovalRequest input s = (r, t)"
  show "approval_inv t"
  proof (cases r)
    case (Inl e)
    with run inv show ?thesis
      by (auto simp: createApprovalRequest_def Let_def throw_def split: option.splits list.splits dest: transaction_rollback)
  next
    case (Inr rid)
    with run obtain q where "ar_id q = uuid_gen s (uuid_next s)" "ar_status q = AR_PENDING" "ar_currentLevel q = 1"
      "evaluatePolicy (ca_rules input) (ca_context input) \<noteq> []"
      "t = after_create q (evaluatePolicy (ca_rules input) (ca_context input)) s"
      by (auto elim: createApprovalRequest_run)
    with inv evaluatePolicy_levels show ?thesis by (simp add: approval_inv_after_create)
  qed
qed

section \<open>Acting on a request\<close>

lemma recordApprovalAction_run:
  assumes "recordApprovalAction input s = (Inr out, t)"
  obtains r target rest a where
    "r \<in> set (approvalRequests s)" "ar_id r = ai_requestId input" "\<not> resolved (ar_status r)"
    "ar_createdById r \<noteq> ai_actorId input"
    "\<forall>b \<in> set (approvalActions s). \<not> (aa_requestId b = ar_id r \<and> aa_actorId b = ai_actorId input)"
    "filter (step_eligible r) (sort_key as_level (steps_of (ar_id r) (approvalSteps s))) = target # rest"
    "list_ex (\<lambda>x. x \<in> set (ai_actorRoles input)) (as_roles target)"
    "aa_requestId a = ar_id r" "aa_stepId a = as_id target" "aa_actorId a = ai_actorId input"
    "aa_decision a = ai_decision input"
    "(case ai_decision input of REJECT \<Rightarrow> rejectRequest r target
      | APPROVE \<Rightarrow> approveStep r (sort_key as_level (steps_of (ar_id r) (approvalSteps s))) target)
      (s\<lparr>uuid_next := Suc (uuid_next s), approvalActions := approvalActions s @ [a]\<rparr>) = (Inr out, t)"
proof -
  from assms obtain r where r: "find (\<lambda>r. ar_id r = ai_requestId input) (approvalRequests s) = Some r"
    by (auto simp: recordApprovalAction_def tx_ok)
  let ?steps = "sort_key as_level (filter (\<lambda>st. as_requestId st = ar_id r) (approvalSteps s))"
  have no_prior: "find (\<lambda>a. aa_requestId a = ar_id r \<and> aa_actorId a = ai_actorId input) (approvalActions s) = None"
    using assms r by (auto simp: recordApprovalAction_def tx_ok)
  obtain target rest where target: "filter (step_eligible r) ?steps = target # rest"
    using assms r by (cases "filter (step_eligible r) ?steps") (auto simp: recordApprovalAction_def tx_ok)
  define a where "a = \<lparr> aa_id = uuid_gen s (uuid_next s), aa_requestId = ar_id r, aa_stepId = as_id target,
     aa_actorId = ai_actorId input, aa_decision = ai_decision input, aa_comment = ai_comment input \<rparr>"
  show thesis
    using assms r no_prior target find_SomeD [OF r] find_NoneD [OF no_prior]
    by (intro that [of r target rest a])
       (auto simp: recordApprovalAction_def tx_ok insertAction_def a_def steps_of_def split: decision.splits)
qed

text \<open>The target is always the step at the current level.\<close>

lemma target_at_level:
  assumes ok: "request_ok as ss r" and res: "\<not> resolved (ar_status r)"
    and elig: "filter (step_eligible r) (sort_key as_level ss) = target # rest"
  shows "sort_key as_level ss = ss" and "target \<in> set ss" and "as_level target = ar_currentLevel r"
proof -
  have lv: "map as_level ss = [1..int (length ss)]" and ip: "in_progress as ss (ar_currentLevel r)"
    using ok res by (auto simp: request_ok_def)
  then have sorted: "sorted (map as_level ss)" by simp
  then show eq: "sort_key as_level ss = ss" by (rule sort_key_id_if_sorted)
  from elig have "target \<in> set (filter (step_eligible r) ss)" unfolding eq by simp
  then have el: "step_eligible r target" and t: "target \<in> set ss" by auto
  from t show "target \<in> set ss" .
  have "ar_currentLevel r \<in> set (map as_level ss)" unfolding lv using ip by (simp add: in_progress_def)
  then obtain st where st: "st \<in> set ss" "as_level st = ar_currentLevel r" by auto
  with ip have "step_eligible r st" by (auto simp: in_progress_def step_eligible_def)
  with st have "st \<in> set (filter (step_eligible r) ss)" by simp
  then have "st \<in> set (target # rest)" using elig unfolding eq by simp
  moreover have "sorted (map as_level (target # rest))"
    using sorted_filter [OF sorted, of "step_eligible r"] elig unfolding eq by simp
  ultimately have "as_level target \<le> ar_currentLevel r" using st(2) by auto
  moreover have "as_level target < ar_currentLevel r \<longrightarrow> step_done as target"
    using ip t by (simp add: in_progress_def)
  moreover have "as_status target \<noteq> ST_APPROVED" using el by (auto simp: step_eligible_def)
  ultimately show "as_level target = ar_currentLevel r" by (auto simp: step_done_def)
qed

lemma approvals_on_append: "approvals_on sid (as @ bs) = approvals_on sid as @ approvals_on sid bs"
  by (simp add: approvals_on_def)

lemma step_done_mono: "step_done as st \<Longrightarrow> step_done (as @ bs) st"
  by (simp add: step_done_def approvals_on_append)

lemma request_ok_mono: "request_ok as ss r \<Longrightarrow> request_ok (as @ bs) ss r"
  by (auto simp: request_ok_def in_progress_def intro: step_done_mono)

lemma as_level_set_status [simp]:
  "map as_level (update_rows (\<lambda>q. as_id q = sid) (\<lambda>q. q\<lparr>as_status := x\<rparr>) ss) = map as_level ss"
  by simp

lemma steps_of_update [simp]:
  "steps_of rid (update_rows (\<lambda>q. as_id q = sid) (\<lambda>q. q\<lparr>as_status := x\<rparr>) ss) =
     update_rows (\<lambda>q. as_id q = sid) (\<lambda>q. q\<lparr>as_status := x\<rparr>) (steps_of rid ss)"
  by (simp add: steps_of_def filter_update_rows_keep)

text \<open>An action changes one request and steps of that request, and adds one action.\<close>

lemma approval_inv_act:
  assumes inv: "approval_inv s" and r: "r \<in> set (approvalRequests s)"
    and st: "st \<in> set (approvalSteps s)" "as_requestId st = ar_id r"
    and a: "aa_requestId a = ar_id r" "aa_stepId a = as_id st" "aa_actorId a \<noteq> ar_createdById r"
      "\<forall>b \<in> set (approvalActions s). \<not> (aa_requestId b = ar_id r \<and> aa_actorId b = aa_actorId a)"
    and t: "uuid_gen t = uuid_gen s" "uuid_next s \<le> uuid_next t" "approvalActions t = approvalActions s @ [a]"
      "approvalRequests t = update_rows (\<lambda>q. ar_id q = ar_id r) f (approvalRequests s)"
    and f: "\<And>q. ar_id (f q) = ar_id q" "\<And>q. ar_createdById (f q) = ar_createdById q"
    and steps: "map as_id (approvalSteps t) = map as_id (approvalSteps s)"
      "map (\<lambda>q. (as_id q, as_requestId q)) (approvalSteps t) = map (\<lambda>q. (as_id q, as_requestId q)) (approvalSteps s)"
      "\<And>q. q \<noteq> ar_id r \<Longrightarrow> steps_of q (approvalSteps t) = steps_of q (approvalSteps s)"
    and ok: "request_ok (approvalActions t) (steps_of (ar_id r) (approvalSteps t)) (f r)"
  shows "approval_inv t"
proof -
  have ids: "approval_ids s" and acts: "actions_ok s" using inv by (simp_all add: approval_inv_def)
  have reqs: "map ar_id (approvalRequests t) = map ar_id (approvalRequests s)" by (simp add: t(4) f(1))
  then have rids: "ar_id ` set (approvalRequests t) = ar_id ` set (approvalRequests s)" by (metis list.set_map)
  have pairs: "(\<lambda>q. (as_id q, as_requestId q)) ` set (approvalSteps t) = (\<lambda>q. (as_id q, as_requestId q)) ` set (approvalSteps s)"
    using steps(2) by (metis list.set_map)
  then have sids: "as_id ` set (approvalSteps t) = as_id ` set (approvalSteps s)"
    "as_requestId ` set (approvalSteps t) = as_requestId ` set (approvalSteps s)"
    by (metis (no_types, lifting) image_image image_cong fst_conv, metis (no_types, lifting) image_image image_cong snd_conv)
  have "used_ids s \<subseteq> used_ids t" by (rule used_ids_mono) (use t in simp_all)
  then have ids': "approval_ids t"
    using ids unfolding approval_ids_def reqs rids sids steps(1) uuids_distinct_def t(1) by blast
  have step_ex: "(\<exists>st \<in> set (approvalSteps t). as_id st = x \<and> as_requestId st = y) \<longleftrightarrow>
      (\<exists>st \<in> set (approvalSteps s). as_id st = x \<and> as_requestId st = y)" for x y
  proof -
    have mem: "(\<exists>st \<in> set ss. as_id st = x \<and> as_requestId st = y) \<longleftrightarrow>
        (x, y) \<in> (\<lambda>q. (as_id q, as_requestId q)) ` set ss" for ss by auto
    show ?thesis unfolding mem pairs by (rule refl)
  qed
  have same: "\<exists>q' \<in> set (approvalRequests s). ar_id q = ar_id q' \<and> ar_createdById q = ar_createdById q'"
    if "q \<in> set (approvalRequests t)" for q
  proof -
    from that obtain q' where "q' \<in> set (approvalRequests s)" "q = (if ar_id q' = ar_id r then f q' else q')"
      by (auto simp: t(4) in_set_update_rows)
    then show ?thesis by (intro bexI [of _ q']) (auto simp: f)
  qed
  have creator: "ar_createdById q \<noteq> aa_actorId b"
    if "q \<in> set (approvalRequests t)" "b \<in> set (approvalActions t)" "ar_id q = aa_requestId b" for q b
  proof -
    from same [OF that(1)] obtain q' where q': "q' \<in> set (approvalRequests s)" "ar_id q = ar_id q'"
      "ar_createdById q = ar_createdById q'" by blast
    show ?thesis
    proof (cases "b = a")
      case True
      have "distinct (map ar_id (approvalRequests s))" using ids by (simp add: approval_ids_def)
      with True q' r a(1) that(3) have "q' = r" by (metis distinct_key_eq)
      with True q'(3) a(3) show ?thesis by simp
    next
      case False
      with that t(3) have "b \<in> set (approvalActions s)" by simp
      with acts q' that(3) show ?thesis by (auto simp: actions_ok_def)
    qed
  qed
  have "distinct (map (\<lambda>a. (aa_requestId a, aa_actorId a)) (approvalActions t))"
    using acts a(1,4) by (auto simp: actions_ok_def t(3))
  moreover have "\<exists>st \<in> set (approvalSteps t). as_id st = aa_stepId b \<and> as_requestId st = aa_requestId b"
    if "b \<in> set (approvalActions t)" for b
    unfolding step_ex using that acts st a(1,2) by (auto simp: actions_ok_def t(3))
  ultimately have "actions_ok t" using creator by (auto simp: actions_ok_def)
  moreover have "request_ok (approvalActions t) (steps_of (ar_id q) (approvalSteps t)) q"
    if "q \<in> set (approvalRequests t)" for q
  proof -
    obtain q' where q': "q' \<in> set (approvalRequests s)" "q = (if ar_id q' = ar_id r then f q' else q')"
      using \<open>q \<in> set (approvalRequests t)\<close> by (auto simp: t(4) in_set_update_rows)
    show ?thesis
    proof (cases "ar_id q' = ar_id r")
      case True
      then have "q' = r" using q'(1) r ids unfolding approval_ids_def by (metis distinct_key_eq)
      with q' True ok show ?thesis by (simp add: f(1))
    next
      case False
      with q' inv have "request_ok (approvalActions s) (steps_of (ar_id q) (approvalSteps s)) q"
        by (simp add: approval_inv_def)
      with q'(2) False steps(3) show ?thesis by (simp add: t(3) request_ok_mono)
    qed
  qed
  ultimately show ?thesis using ids' by (simp add: approval_inv_def)
qed

lemma setStatus_other:
  assumes "distinct (map as_id ss)" and "st \<in> set ss" and "as_requestId st \<noteq> q"
  shows "update_rows (\<lambda>x. as_id x = as_id st) f (steps_of q ss) = steps_of q ss"
proof (rule update_rows_none)
  fix x
  assume "x \<in> set (steps_of q ss)"
  then have "x \<in> set ss" "as_requestId x = q" by (auto simp: steps_of_def)
  with assms show "as_id x \<noteq> as_id st" by (metis distinct_key_eq)
qed

text \<open>The step that was approved, with the approvals it has now.\<close>

lemma step_done_target:
  assumes "aa_stepId a = as_id target" and "as_minApprovers target \<le> int (length (approvals_on (as_id target) (as @ [a])))"
  shows "step_done (as @ [a]) (target\<lparr>as_status := ST_APPROVED\<rparr>)"
  using assms by (simp add: step_done_def)

lemma request_ok_approved:
  assumes ok: "request_ok as ss r" and res: "\<not> resolved (ar_status r)"
    and target: "target \<in> set ss" "as_level target = ar_currentLevel r" and dist: "distinct (map as_id ss)"
    and fin: "step_done (as @ [a]) (target\<lparr>as_status := ST_APPROVED\<rparr>)"
    and last: "\<forall>st \<in> set ss. \<not> as_level st > as_level target"
  shows "request_ok (as @ [a]) (update_rows (\<lambda>x. as_id x = as_id target) (\<lambda>x. x\<lparr>as_status := ST_APPROVED\<rparr>) ss)
    (r\<lparr>ar_status := AR_APPROVED\<rparr>)"
proof -
  have ip: "in_progress as ss (ar_currentLevel r)" using ok res by (simp add: request_ok_def)
  have lv: "distinct (map as_level ss)" using ok by (simp add: request_ok_def)
  have "step_done (as @ [a]) st'"
    if "st' \<in> set (update_rows (\<lambda>x. as_id x = as_id target) (\<lambda>x. x\<lparr>as_status := ST_APPROVED\<rparr>) ss)" for st'
  proof -
    from that obtain st where st: "st \<in> set ss"
      "st' = (if as_id st = as_id target then st\<lparr>as_status := ST_APPROVED\<rparr> else st)"
      by (auto simp: in_set_update_rows)
    show ?thesis
    proof (cases "as_id st = as_id target")
      case True
      with st target dist have "st = target" by (metis distinct_key_eq)
      with st fin show ?thesis by simp
    next
      case False
      with st target lv have "as_level st \<noteq> as_level target" by (metis distinct_key_eq)
      with last st have "as_level st < ar_currentLevel r" using target(2) by force
      with ip st False show ?thesis by (auto simp: in_progress_def intro: step_done_mono)
    qed
  qed
  with ok show ?thesis by (simp add: request_ok_def resolved_def)
qed

lemma find_sorted_min:
  fixes k :: "'a \<Rightarrow> int"
  shows "find P xs = Some x \<Longrightarrow> sorted (map k xs) \<Longrightarrow> y \<in> set xs \<Longrightarrow> P y \<Longrightarrow> k x \<le> k y"
  by (induction xs) (auto split: if_splits)

lemma request_ok_advance:
  assumes ok: "request_ok as ss r" and res: "\<not> resolved (ar_status r)"
    and target: "target \<in> set ss" "as_level target = ar_currentLevel r" and dist: "distinct (map as_id ss)"
    and fin: "step_done (as @ [a]) (target\<lparr>as_status := ST_APPROVED\<rparr>)"
    and nxt: "find (\<lambda>st. as_level st > as_level target \<and> as_status st = ST_PENDING) ss = Some nxt"
  shows "request_ok (as @ [a]) (update_rows (\<lambda>x. as_id x = as_id nxt) (\<lambda>x. x\<lparr>as_status := ST_IN_PROGRESS\<rparr>)
      (update_rows (\<lambda>x. as_id x = as_id target) (\<lambda>x. x\<lparr>as_status := ST_APPROVED\<rparr>) ss))
    (r\<lparr>ar_status := AR_PARTIALLY_APPROVED, ar_currentLevel := as_level nxt\<rparr>)"
proof -
  let ?cur = "ar_currentLevel r"
  have ip: "in_progress as ss ?cur" and lv: "map as_level ss = [1..int (length ss)]"
    using ok res by (auto simp: request_ok_def)
  have n: "nxt \<in> set ss" "?cur < as_level nxt" using find_SomeD [OF nxt] target(2) by auto
  have nl: "as_level nxt = ?cur + 1"
  proof -
    have "as_level nxt \<in> set (map as_level ss)" using n(1) by simp
    then have "?cur + 1 \<in> set (map as_level ss)" unfolding lv using n(2) ip by (simp add: in_progress_def)
    then obtain st where st: "st \<in> set ss" "as_level st = ?cur + 1" by auto
    with ip have "as_status st = ST_PENDING" by (simp add: in_progress_def)
    with st target(2) find_sorted_min [OF nxt, of as_level st] lv have "as_level nxt \<le> ?cur + 1" by simp
    with n(2) show ?thesis by simp
  qed
  let ?ss = "update_rows (\<lambda>x. as_id x = as_id nxt) (\<lambda>x. x\<lparr>as_status := ST_IN_PROGRESS\<rparr>)
      (update_rows (\<lambda>x. as_id x = as_id target) (\<lambda>x. x\<lparr>as_status := ST_APPROVED\<rparr>) ss)"
  have "in_progress (as @ [a]) ?ss (as_level nxt)"
    unfolding in_progress_def
  proof (intro conjI ballI)
    show "1 \<le> as_level nxt" "as_level nxt \<le> int (length ?ss)"
      using n(1) lv by (auto dest!: arg_cong [where f = set])
    fix st'
    assume "st' \<in> set ?ss"
    then obtain st where st: "st \<in> set ss" "as_id st' = as_id st" "as_level st' = as_level st"
      "st' = (if as_id st = as_id nxt then st\<lparr>as_status := ST_IN_PROGRESS\<rparr>
              else if as_id st = as_id target then st\<lparr>as_status := ST_APPROVED\<rparr> else st)"
      using n target dist by (auto simp: in_set_update_rows split: if_splits)
    have eqs: "as_id st = as_id nxt \<longleftrightarrow> as_level st = ?cur + 1" "as_id st = as_id target \<longleftrightarrow> as_level st = ?cur"
      "as_id st = as_id target \<Longrightarrow> st = target"
      using st(1) n target dist lv nl by (metis distinct_key_eq distinct_upto)+
    have ipst: "(as_level st < ?cur \<longrightarrow> step_done as st) \<and> (as_level st > ?cur \<longrightarrow> as_status st = ST_PENDING)"
      using ip st(1) by (simp add: in_progress_def)
    show "as_level st' < as_level nxt \<longrightarrow> step_done (as @ [a]) st'"
      using st(3,4) eqs ipst nl fin step_done_mono [of as st "[a]"] by (auto split: if_splits)
    show "as_level st' = as_level nxt \<longrightarrow> as_status st' = ST_IN_PROGRESS"
      "as_level nxt < as_level st' \<longrightarrow> as_status st' = ST_PENDING"
      using st(3,4) eqs ipst nl by (auto split: if_splits)
  qed
  with ok show ?thesis
    by (simp add: request_ok_def)
qed

text \<open>The two branches of \<open>recordApprovalAction\<close> after the action was stored.\<close>

definition with_action :: "approvalAction \<Rightarrow> db \<Rightarrow> db" where
  "with_action a s = s\<lparr>uuid_next := Suc (uuid_next s), approvalActions := approvalActions s @ [a]\<rparr>"

definition acts_on :: "approvalAction \<Rightarrow> approvalRequest \<Rightarrow> approvalStep \<Rightarrow> db \<Rightarrow> bool" where
  "acts_on a r target s \<longleftrightarrow> r \<in> set (approvalRequests s) \<and> \<not> resolved (ar_status r) \<and>
     target \<in> set (steps_of (ar_id r) (approvalSteps s)) \<and> as_level target = ar_currentLevel r \<and>
     aa_requestId a = ar_id r \<and> aa_stepId a = as_id target \<and> aa_actorId a \<noteq> ar_createdById r \<and>
     (\<forall>b \<in> set (approvalActions s). \<not> (aa_requestId b = ar_id r \<and> aa_actorId b = aa_actorId a))"

lemma acts_onD:
  assumes "approval_inv s" and "acts_on a r target s"
  shows "request_ok (approvalActions s) (steps_of (ar_id r) (approvalSteps s)) r"
    and "target \<in> set (approvalSteps s)" "as_requestId target = ar_id r"
    and "distinct (map as_id (steps_of (ar_id r) (approvalSteps s)))" "distinct (map as_id (approvalSteps s))"
proof -
  show "distinct (map as_id (approvalSteps s))" using assms(1) by (simp add: approval_inv_def approval_ids_def)
  then show "distinct (map as_id (steps_of (ar_id r) (approvalSteps s)))"
    by (simp add: steps_of_def distinct_map_filter)
qed (use assms in \<open>auto simp: approval_inv_def acts_on_def steps_of_def\<close>)

lemma approval_inv_update:
  assumes inv: "approval_inv s" and a: "acts_on a r target s"
    and t: "t = (with_action a s)\<lparr>approvalRequests := update_rows (\<lambda>q. ar_id q = ar_id r) f (approvalRequests s),
        approvalSteps := ss\<rparr>"
    and f: "\<And>q. ar_id (f q) = ar_id q" "\<And>q. ar_createdById (f q) = ar_createdById q"
    and ss: "map as_id ss = map as_id (approvalSteps s)"
      "map (\<lambda>q. (as_id q, as_requestId q)) ss = map (\<lambda>q. (as_id q, as_requestId q)) (approvalSteps s)"
      "\<And>q. q \<noteq> ar_id r \<Longrightarrow> steps_of q ss = steps_of q (approvalSteps s)"
    and ok: "request_ok (approvalActions s @ [a]) (steps_of (ar_id r) ss) (f r)"
  shows "approval_inv t"
proof -
  have "r \<in> set (approvalRequests s)" using a by (simp add: acts_on_def)
  then show ?thesis
    by (rule approval_inv_act [OF inv _ acts_onD(2,3) [OF inv a], where f = f and a = a])
       (use a f ss ok in \<open>auto simp: t with_action_def acts_on_def\<close>)
qed

lemma approval_inv_reject:
  assumes inv: "approval_inv s" and a: "acts_on a r target s"
    and run: "rejectRequest r target (with_action a s) = (Inr out, t)"
  shows "approval_inv t"
proof (rule approval_inv_update [OF inv a])
  show "t = (with_action a s)\<lparr>approvalRequests := update_rows (\<lambda>q. ar_id q = ar_id r)
        (\<lambda>q. q\<lparr>ar_status := AR_REJECTED, ar_currentLevel := as_level target\<rparr>) (approvalRequests s),
        approvalSteps := update_rows (\<lambda>q. as_id q = as_id target) (\<lambda>q. q\<lparr>as_status := ST_REJECTED\<rparr>) (approvalSteps s)\<rparr>"
    using run by (auto simp: rejectRequest_def setRequest_def setStepStatus_def with_action_def tx_ok)
  show "request_ok (approvalActions s @ [a]) (steps_of (ar_id r)
      (update_rows (\<lambda>q. as_id q = as_id target) (\<lambda>q. q\<lparr>as_status := ST_REJECTED\<rparr>) (approvalSteps s)))
      (r\<lparr>ar_status := AR_REJECTED, ar_currentLevel := as_level target\<rparr>)"
    using acts_onD(1) [OF inv a] by (simp add: request_ok_def resolved_def)
qed (use acts_onD [OF inv a] setStatus_other in simp_all)

lemma approval_inv_approve:
  assumes inv: "approval_inv s" and a: "acts_on a r target s" and dec: "aa_decision a = APPROVE"
    and run: "approveStep r (steps_of (ar_id r) (approvalSteps s)) target (with_action a s) = (Inr out, t)"
  shows "approval_inv t"
proof -
  let ?ss = "steps_of (ar_id r) (approvalSteps s)" and ?as = "approvalActions s"
  let ?S = "update_rows (\<lambda>q. as_id q = as_id target) (\<lambda>q. q\<lparr>as_status := ST_APPROVED\<rparr>) (approvalSteps s)"
  note D = acts_onD [OF inv a]
  have ok: "\<not> resolved (ar_status r)" "target \<in> set ?ss" "as_level target = ar_currentLevel r"
    using a by (auto simp: acts_on_def)
  have other: "update_rows (\<lambda>x. as_id x = as_id target) g (steps_of q (approvalSteps s)) = steps_of q (approvalSteps s)"
    if "q \<noteq> ar_id r" for g q
    using setStatus_other [OF D(5,2)] D(3) that by simp
  show ?thesis
  proof (cases "as_minApprovers target \<le> int (length (approvals_on (as_id target) (?as @ [a])))")
    case False
    then have "t = with_action a s"
      using run by (auto simp: approveStep_def tx_ok approvals_on_def with_action_def)
    then show ?thesis using D(1)
      by (intro approval_inv_update [OF inv a, where f = "\<lambda>q. q" and ss = "approvalSteps s"])
         (auto simp: with_action_def update_rows_def request_ok_mono)
  next
    case True
    then have fin: "step_done (?as @ [a]) (target\<lparr>as_status := ST_APPROVED\<rparr>)" by (simp add: step_done_def)
    show ?thesis
    proof (cases "find (\<lambda>st. as_level st > as_level target \<and> as_status st = ST_PENDING) ?ss")
      case None
      then have t: "t = (with_action a s)\<lparr>approvalRequests := update_rows (\<lambda>q. ar_id q = ar_id r)
          (\<lambda>q. q\<lparr>ar_status := AR_APPROVED\<rparr>) (approvalRequests s), approvalSteps := ?S\<rparr>"
        using run True by (auto simp: approveStep_def tx_ok approvals_on_def with_action_def
            setStepStatus_def setRequest_def)
      have "\<forall>st \<in> set ?ss. \<not> as_level st > as_level target"
        using find_NoneD [OF None] D(1) ok(1,3) by (auto simp: request_ok_def in_progress_def)
      with D ok fin show ?thesis
        by (intro approval_inv_update [OF inv a t]) (auto simp: other intro: request_ok_approved)
    next
      case (Some nxt)
      let ?S' = "update_rows (\<lambda>q. as_id q = as_id nxt) (\<lambda>q. q\<lparr>as_status := ST_IN_PROGRESS\<rparr>) ?S"
      have t: "t = (with_action a s)\<lparr>approvalRequests := update_rows (\<lambda>q. ar_id q = ar_id r)
          (\<lambda>q. q\<lparr>ar_status := AR_PARTIALLY_APPROVED, ar_currentLevel := as_level nxt\<rparr>) (approvalRequests s),
          approvalSteps := ?S'\<rparr>"
        using run True Some by (auto simp: approveStep_def tx_ok approvals_on_def with_action_def
            setStepStatus_def setRequest_def)
      have "nxt \<in> set (approvalSteps s)" "as_requestId nxt = ar_id r"
        using find_SomeD [OF Some] by (auto simp: steps_of_def)
      then have "steps_of q ?S' = steps_of q (approvalSteps s)" if "q \<noteq> ar_id r" for q
        using that setStatus_other [OF D(5), of nxt q] by (simp add: other)
      with D ok fin Some show ?thesis
        by (intro approval_inv_update [OF inv a t]) (auto intro: request_ok_advance)
    qed
  qed
qed

lemma approval_recordApprovalAction [preserved]: "preserves approval_inv (recordApprovalAction input)"
proof (rule preservesI)
  fix s res t
  assume inv: "approval_inv s" and run: "recordApprovalAction input s = (res, t)"
  show "approval_inv t"
  proof (cases res)
    case (Inl e)
    with run inv show ?thesis by (auto simp: recordApprovalAction_def dest: transaction_rollback)
  next
    case (Inr out)
    from run [unfolded Inr] show ?thesis
    proof (rule recordApprovalAction_run)
      fix r :: approvalRequest and target rest a
      let ?ss = "steps_of (ar_id r) (approvalSteps s)"
      assume r: "r \<in> set (approvalRequests s)" "\<not> resolved (ar_status r)"
        and actor: "ar_createdById r \<noteq> ai_actorId input"
          "\<forall>b \<in> set (approvalActions s). \<not> (aa_requestId b = ar_id r \<and> aa_actorId b = ai_actorId input)"
        and elig: "filter (step_eligible r) (sort_key as_level ?ss) = target # rest"
        and a: "aa_requestId a = ar_id r" "aa_stepId a = as_id target" "aa_actorId a = ai_actorId input"
          "aa_decision a = ai_decision input"
        and run: "(case ai_decision input of REJECT \<Rightarrow> rejectRequest r target
          | APPROVE \<Rightarrow> approveStep r (sort_key as_level ?ss) target)
            (s\<lparr>uuid_next := Suc (uuid_next s), approvalActions := approvalActions s @ [a]\<rparr>) = (Inr out, t)"
      have "request_ok (approvalActions s) ?ss r" using inv r(1) by (simp add: approval_inv_def)
      note T = target_at_level [OF this r(2) elig]
      have "acts_on a r target s" using r actor a T by (auto simp: acts_on_def)
      with inv run T(1) a(4) show "approval_inv t"
        by (cases "ai_decision input")
           (auto simp flip: with_action_def intro: approval_inv_approve approval_inv_reject)
    qed
  qed
qed

lemma approval_expireDueApprovals [preserved]: "preserves approval_inv (expireDueApprovals now')"
proof -
  have "approval_inv (s\<lparr>approvalRequests := update_rows (approval_due now') (\<lambda>r. r\<lparr>ar_status := AR_EXPIRED\<rparr>)
      (approvalRequests s)\<rparr>)" if inv: "approval_inv s" for s
  proof -
    let ?R = "update_rows (approval_due now') (\<lambda>r. r\<lparr>ar_status := AR_EXPIRED\<rparr>) (approvalRequests s)"
    have ids: "approval_ids (s\<lparr>approvalRequests := ?R\<rparr>)"
      using inv by (simp add: approval_inv_def approval_ids_def uuids_distinct_def used_ids_def)
    have same: "\<exists>q' \<in> set (approvalRequests s). ar_id q = ar_id q' \<and> ar_createdById q = ar_createdById q' \<and>
        (q = q' \<or> ar_status q = AR_EXPIRED)" if "q \<in> set ?R" for q
      using that unfolding in_set_update_rows by (force split: if_splits)
    have "actions_ok (s\<lparr>approvalRequests := ?R\<rparr>)"
      unfolding actions_ok_def using inv same by (auto simp: approval_inv_def actions_ok_def) metis
    moreover have "request_ok (approvalActions s) (steps_of (ar_id q) (approvalSteps s)) q" if "q \<in> set ?R" for q
      using same [OF that] inv by (fastforce simp: approval_inv_def request_ok_def resolved_def)
    ultimately show ?thesis using ids by (simp add: approval_inv_def)
  qed
  then show ?thesis unfolding expireDueApprovals_def by (intro preserved preserves_modify) auto
qed

section \<open>Histories of approval commands\<close>

datatype approval_command =
    CreateRequest createApprovalInput
  | ActOnRequest approvalActionInput
  | ExpireDue int

definition approval_exec :: "approval_command \<Rightarrow> unit cmd" where
  "approval_exec c = (case c of
     CreateRequest i \<Rightarrow> seq (createApprovalRequest i) (return ())
   | ActOnRequest i \<Rightarrow> seq (recordApprovalAction i) (return ())
   | ExpireDue t \<Rightarrow> seq (expireDueApprovals t) (return ()))"

lemma approval_exec_preserves: "preserves approval_inv (approval_exec c)"
  by (cases c) (auto simp: approval_exec_def intro!: preserved)

interpretation approvals: command_system approval_exec approval_inv
  by unfold_locales (rule approval_exec_preserves)

lemma approval_inv_empty: "inj gen \<Longrightarrow> approval_inv (empty_db gen t)"
  by (simp add: approval_inv_def approval_ids_def actions_ok_def empty_db_def uuids_distinct_def)

lemma approvers_distinct:
  assumes "approval_inv s" and "st \<in> set (approvalSteps s)"
  shows "distinct (map aa_actorId (approvals_on (as_id st) (approvalActions s)))"
proof -
  let ?as = "approvals_on (as_id st) (approvalActions s)"
  have acts: "actions_ok s" and ids: "distinct (map as_id (approvalSteps s))"
    using assms(1) by (auto simp: approval_inv_def approval_ids_def)
  have rid: "aa_requestId a = as_requestId st" if "a \<in> set ?as" for a
  proof -
    from that have "a \<in> set (approvalActions s)" "aa_stepId a = as_id st" by (auto simp: approvals_on_def)
    with acts obtain st' where "st' \<in> set (approvalSteps s)" "as_id st' = as_id st" "as_requestId st' = aa_requestId a"
      by (auto simp: actions_ok_def)
    with assms(2) ids show ?thesis by (metis distinct_key_eq)
  qed
  have "distinct (map (\<lambda>a. (aa_requestId a, aa_actorId a)) ?as)"
    using acts by (simp add: actions_ok_def approvals_on_def distinct_map_filter)
  then show ?thesis using rid unfolding distinct_map inj_on_def by auto
qed

lemma approved_request:
  assumes inv: "approval_inv s" and r: "r \<in> set (approvalRequests s)" "ar_status r = AR_APPROVED"
    and st: "st \<in> set (steps_of (ar_id r) (approvalSteps s))"
  shows "as_minApprovers st \<le> int (card (aa_actorId ` set (approvals_on (as_id st) (approvalActions s)))) \<and>
    ar_createdById r \<notin> aa_actorId ` set (approvals_on (as_id st) (approvalActions s))"
proof -
  have mem: "st \<in> set (approvalSteps s)" "as_requestId st = ar_id r" using st by (auto simp: steps_of_def)
  have "step_done (approvalActions s) st" using inv r st by (auto simp: approval_inv_def request_ok_def)
  moreover have "card (aa_actorId ` set (approvals_on (as_id st) (approvalActions s))) =
      length (approvals_on (as_id st) (approvalActions s))"
    using distinct_card [OF approvers_distinct [OF inv mem(1)]] by simp
  moreover have "ar_createdById r \<noteq> aa_actorId a" if "a \<in> set (approvals_on (as_id st) (approvalActions s))" for a
  proof -
    from that have a: "a \<in> set (approvalActions s)" "aa_stepId a = as_id st" by (auto simp: approvals_on_def)
    with inv obtain st' where "st' \<in> set (approvalSteps s)" "as_id st' = as_id st" "as_requestId st' = aa_requestId a"
      by (auto simp: approval_inv_def actions_ok_def)
    with mem inv have "aa_requestId a = ar_id r"
      unfolding approval_inv_def approval_ids_def by (metis distinct_key_eq)
    with a(1) r inv show ?thesis by (auto simp: approval_inv_def actions_ok_def)
  qed
  ultimately show ?thesis by (auto simp: step_done_def)
qed

section \<open>Properties\<close>

text \<open>C5.  Four eyes: in whatever order requests are created, acted on and expired, a request is
  \<open>APPROVED\<close> only if it has steps and every one of them was approved by at least \<open>minApprovers\<close>
  different users, none of whom is the user who created the request.\<close>

theorem approved_only_by_independent_checkers:
  assumes "approval_inv s"
    and "r \<in> set (approvalRequests (run_all approval_exec cs s))" and "ar_status r = AR_APPROVED"
  shows "let t = run_all approval_exec cs s; steps = steps_of (ar_id r) (approvalSteps t) in
    steps \<noteq> [] \<and> (\<forall>st \<in> set steps.
      let approvers = aa_actorId ` set (approvals_on (as_id st) (approvalActions t))
      in as_minApprovers st \<le> int (card approvers) \<and> ar_createdById r \<notin> approvers)"
proof -
  let ?t = "run_all approval_exec cs s"
  have inv: "approval_inv ?t" using assms(1) by (rule approvals.run_all_inv)
  then have "steps_of (ar_id r) (approvalSteps ?t) \<noteq> []"
    using assms(2) by (auto simp: approval_inv_def request_ok_def)
  with approved_request [OF inv assms(2,3)] show ?thesis by (simp add: Let_def)
qed

definition demo_rule :: approvalRule where
  "demo_rule = \<lparr> rl_minAmountMinor = Some 1000, rl_maxAmountMinor = None, rl_products = None,
     rl_channels = None, rl_branchIds = None, rl_departmentIds = None, rl_riskFlags = None,
     rl_mode = ANY, rl_requiredRoles = [''APPROVER''], rl_minApprovers = 1, rl_order = 0 \<rparr>"

definition demo_request :: createApprovalInput where
  "demo_request = \<lparr> ca_tenantId = ''t'', ca_paymentId = None, ca_batchId = None,
     ca_resourceType = Some ''beneficiary'', ca_resourceId = Some ''b'', ca_policyId = None,
     ca_rules = [demo_rule], ca_context = \<lparr> ctx_amountMinor = 5000, ctx_product = ''p'',
       ctx_channel = ''mpesa'', ctx_branchId = None, ctx_departmentId = None, ctx_riskFlags = None,
       ctx_accumulatedTodayMinor = None \<rparr>,
     ca_metadata = JUndefined, ca_createdById = ''maker'', ca_dueAt = None \<rparr>"

definition demo_action :: "string \<Rightarrow> decision \<Rightarrow> approvalActionInput" where
  "demo_action who d = \<lparr> ai_requestId = unary_id 0, ai_actorId = who, ai_actorRoles = [''APPROVER''],
     ai_decision = d, ai_comment = None, ai_delegatedForId = None \<rparr>"

definition demo_approvals :: db where
  "demo_approvals = run_all approval_exec [CreateRequest demo_request,
     ActOnRequest (demo_action ''maker'' APPROVE), ActOnRequest (demo_action ''checker'' APPROVE)]
     (empty_db unary_id 0)"

theorem approved_only_by_independent_checkers_witness:
  "let r = hd (approvalRequests demo_approvals); steps = steps_of (ar_id r) (approvalSteps demo_approvals) in
    ar_status r = AR_APPROVED \<and> steps \<noteq> [] \<and> (\<forall>st \<in> set steps.
      let approvers = aa_actorId ` set (approvals_on (as_id st) (approvalActions demo_approvals))
      in as_minApprovers st \<le> int (card approvers) \<and> ar_createdById r \<notin> approvers)"
proof -
  have "length (approvalRequests demo_approvals) = 1" "ar_status (hd (approvalRequests demo_approvals)) = AR_APPROVED"
    by code_simp+
  then have r: "hd (approvalRequests demo_approvals) \<in> set (approvalRequests demo_approvals)"
    "ar_status (hd (approvalRequests demo_approvals)) = AR_APPROVED" by (auto intro: hd_in_set)
  show ?thesis
    using approved_only_by_independent_checkers [OF approval_inv_empty [OF inj_unary_id] r(1) [unfolded demo_approvals_def]] r(2)
    by (simp add: demo_approvals_def Let_def)
qed

text \<open>\<open>evaluatePolicy\<close> asks for no approval exactly when no rule matches the context; otherwise
  the steps are those of a matching rule of least \<open>order\<close>, numbered from level 1 without gaps.\<close>

theorem evaluatePolicy_first_match:
  "(evaluatePolicy rules ctx = [] \<longleftrightarrow> (\<forall>r \<in> set rules. \<not> ruleMatches r ctx)) \<and>
   (evaluatePolicy rules ctx \<noteq> [] \<longrightarrow>
     (\<exists>r \<in> set rules. ruleMatches r ctx \<and> evaluatePolicy rules ctx = ruleSteps r \<and>
        (\<forall>q \<in> set rules. ruleMatches q ctx \<longrightarrow> rl_order r \<le> rl_order q))) \<and>
   map rq_level (evaluatePolicy rules ctx) = [1..int (length (evaluatePolicy rules ctx))]"
proof (intro conjI impI)
  show "map rq_level (evaluatePolicy rules ctx) = [1..int (length (evaluatePolicy rules ctx))]"
    by (rule evaluatePolicy_levels)
  show "evaluatePolicy rules ctx = [] \<longleftrightarrow> (\<forall>r \<in> set rules. \<not> ruleMatches r ctx)"
    by (auto simp: evaluatePolicy_def first_match_find ruleSteps_neq_Nil find_None_iff split: option.splits)
       (metis find_SomeD set_sort)
  assume "evaluatePolicy rules ctx \<noteq> []"
  then obtain r where r: "find (\<lambda>r. ruleMatches r ctx) (sort_key rl_order rules) = Some r"
    by (auto simp: evaluatePolicy_def first_match_find split: option.splits)
  have "rl_order r \<le> rl_order q" if "q \<in> set rules" "ruleMatches q ctx" for q
    using find_sorted_min [OF r, of rl_order q] that by simp
  with r find_SomeD [OF r]
  show "\<exists>r \<in> set rules. ruleMatches r ctx \<and> evaluatePolicy rules ctx = ruleSteps r \<and>
      (\<forall>q \<in> set rules. ruleMatches q ctx \<longrightarrow> rl_order r \<le> rl_order q)"
    by (auto simp: evaluatePolicy_def first_match_find)
qed

theorem evaluatePolicy_first_match_witness:
  "\<exists>r \<in> {demo_rule}. ruleMatches r (ca_context demo_request) \<and>
     evaluatePolicy [demo_rule] (ca_context demo_request) = ruleSteps r"
proof -
  have "evaluatePolicy [demo_rule] (ca_context demo_request) \<noteq> []" by code_simp
  with evaluatePolicy_first_match [of "[demo_rule]" "ca_context demo_request"] show ?thesis by simp
qed

text \<open>Maker-checker: an action that is accepted was made on an open request by a user who did not
  create it, had not acted on it before and has one of the roles of the step at the current
  level; it is recorded once.  A request of the user's own is refused and nothing changes.\<close>

theorem recordApprovalAction_maker_checker:
  assumes inv: "approval_inv s" and r: "r \<in> set (approvalRequests s)" "ar_id r = ai_requestId input"
  shows "case recordApprovalAction input s of
      (Inl e, t) \<Rightarrow> t = s \<and>
        (\<not> resolved (ar_status r) \<and> ar_createdById r = ai_actorId input \<longrightarrow>
          e = ApprovalError ''A payment creator cannot approve their own request'' ''MAKER_CHECKER_VIOLATION'')
    | (Inr out, t) \<Rightarrow> \<not> resolved (ar_status r) \<and> ar_createdById r \<noteq> ai_actorId input \<and>
        (\<forall>b \<in> set (approvalActions s). aa_requestId b = ar_id r \<longrightarrow> aa_actorId b \<noteq> ai_actorId input) \<and>
        (\<exists>st \<in> set (steps_of (ar_id r) (approvalSteps s)). as_level st = ar_currentLevel r \<and>
           set (as_roles st) \<inter> set (ai_actorRoles input) \<noteq> {}) \<and>
        length (filter (\<lambda>b. aa_requestId b = ar_id r \<and> aa_actorId b = ai_actorId input) (approvalActions t)) = 1"
proof (cases "recordApprovalAction input s")
  case (Pair res t)
  have dist: "distinct (map ar_id (approvalRequests s))" using inv by (simp add: approval_inv_def approval_ids_def)
  have found: "find (\<lambda>q. ar_id q = ai_requestId input) (approvalRequests s) = Some r"
    using find_key [OF dist r(1)] r(2) by simp
  show ?thesis
  proof (cases res)
    case (Inl e)
    have "t = s" using Pair Inl by (auto simp: recordApprovalAction_def dest: transaction_rollback)
    moreover have "e = ApprovalError ''A payment creator cannot approve their own request'' ''MAKER_CHECKER_VIOLATION''"
      if "\<not> resolved (ar_status r)" "ar_createdById r = ai_actorId input"
      using Pair Inl that found by (auto simp: recordApprovalAction_def tx_run)
    ultimately show ?thesis using Pair Inl by simp
  next
    case (Inr out)
    from Pair [unfolded Inr] show ?thesis
    proof (rule recordApprovalAction_run)
      fix q :: approvalRequest and target rest a
      assume q: "q \<in> set (approvalRequests s)" "ar_id q = ai_requestId input" "\<not> resolved (ar_status q)"
        "ar_createdById q \<noteq> ai_actorId input"
        and fresh: "\<forall>b \<in> set (approvalActions s). \<not> (aa_requestId b = ar_id q \<and> aa_actorId b = ai_actorId input)"
        and elig: "filter (step_eligible q) (sort_key as_level (steps_of (ar_id q) (approvalSteps s))) = target # rest"
        and role: "list_ex (\<lambda>x. x \<in> set (ai_actorRoles input)) (as_roles target)"
        and a: "aa_requestId a = ar_id q" "aa_actorId a = ai_actorId input"
        and run: "(case ai_decision input of REJECT \<Rightarrow> rejectRequest q target
          | APPROVE \<Rightarrow> approveStep q (sort_key as_level (steps_of (ar_id q) (approvalSteps s))) target)
          (s\<lparr>uuid_next := Suc (uuid_next s), approvalActions := approvalActions s @ [a]\<rparr>) = (Inr out, t)"
      have "q = r" using q r dist by (metis distinct_key_eq)
      have "request_ok (approvalActions s) (steps_of (ar_id q) (approvalSteps s)) q"
        using inv q(1) by (simp add: approval_inv_def)
      note T = target_at_level [OF this q(3) elig]
      have "approvalActions t = approvalActions s @ [a]"
        using run by (auto simp: rejectRequest_def approveStep_def setRequest_def setStepStatus_def tx_ok
            split: decision.splits if_splits option.splits)
      moreover have "filter (\<lambda>b. aa_requestId b = ar_id q \<and> aa_actorId b = ai_actorId input) (approvalActions s) = []"
        using fresh by (auto simp: filter_empty_conv)
      moreover have "set (as_roles target) \<inter> set (ai_actorRoles input) \<noteq> {}"
        using role by (auto simp: list_ex_iff)
      ultimately show ?thesis using Pair Inr q fresh T a \<open>q = r\<close> by auto
    qed
  qed
qed

theorem recordApprovalAction_maker_checker_witness:
  "let s = run_all approval_exec [CreateRequest demo_request] (empty_db unary_id 0)
   in recordApprovalAction (demo_action ''maker'' APPROVE) s =
      (Inl (ApprovalError ''A payment creator cannot approve their own request'' ''MAKER_CHECKER_VIOLATION''), s)"
proof -
  let ?s = "run_all approval_exec [CreateRequest demo_request] (empty_db unary_id 0)"
  have inv: "approval_inv ?s" by (intro approvals.run_all_inv approval_inv_empty inj_unary_id)
  have facts: "length (approvalRequests ?s) = 1" "ar_id (hd (approvalRequests ?s)) = unary_id 0"
    "ar_status (hd (approvalRequests ?s)) = AR_PENDING" "ar_createdById (hd (approvalRequests ?s)) = ''maker''"
    by code_simp+
  then have r: "hd (approvalRequests ?s) \<in> set (approvalRequests ?s)" by (auto intro: hd_in_set)
  show ?thesis
    using recordApprovalAction_maker_checker [OF inv r, of "demo_action ''maker'' APPROVE"] facts
    by (auto simp: demo_action_def resolved_def Let_def split: prod.splits sum.splits)
qed

end
