(* ===== verification/Core_Invariants.thy ===== *)
theory Core_Invariants
  imports Webhooks Payment_Links Outbox_Relay Reconciliation Wallet_Invariants Approval_Invariants
begin

text \<open>
  The interface between the commands of payments-core and the three packages that own invariants
  (ledger, wallets, approvals).  A client command touches the tables of these packages only
  through their commands; the locale \<open>core_invariant\<close> states what an invariant of those tables
  promises, and derives that every command of the payment, collection, webhook, batch and
  reconciliation components keeps it.  It is interpreted for the invariants of all three packages.
\<close>

named_theorems committed \<open>invariants of the committed outcome\<close>

section \<open>Committed outcomes\<close>

text \<open>Inside a transaction an invariant may be broken for a while: \<open>commits P m\<close> only constrains the
  states in which \<open>m\<close> returns.\<close>

definition commits :: "('s \<Rightarrow> bool) \<Rightarrow> ('s, 'a) tx \<Rightarrow> bool" where
  "commits P m \<longleftrightarrow> (\<forall>s x t. P s \<longrightarrow> m s = (Inr x, t) \<longrightarrow> P t)"

lemma commitsI: "(\<And>s x t. P s \<Longrightarrow> m s = (Inr x, t) \<Longrightarrow> P t) \<Longrightarrow> commits P m"
  by (simp add: commits_def)

lemma preserves_commits: "preserves P m \<Longrightarrow> commits P m"
  by (blast intro: commitsI dest: preservesD)

lemma commits_bind [committed]: "commits P m \<Longrightarrow> (\<And>x. commits P (f x)) \<Longrightarrow> commits P (bind m f)"
  unfolding commits_def bind_ok by blast

lemma commits_seq [committed]: "commits P m \<Longrightarrow> commits P n \<Longrightarrow> commits P (seq m n)"
  unfolding commits_def seq_ok by blast

lemma commits_if [committed]: "(b \<Longrightarrow> commits P m) \<Longrightarrow> (\<not> b \<Longrightarrow> commits P n) \<Longrightarrow> commits P (if b then m else n)"
  by simp

lemma commits_let [committed]: "commits P (f v) \<Longrightarrow> commits P (let x = v in f x)"
  by simp

lemma preserves_transaction_commits: "commits P m \<Longrightarrow> preserves P (transaction m)"
  unfolding commits_def by (rule preserves_transactionI) blast

lemma commits_whenM [committed]: "(b \<Longrightarrow> commits P m) \<Longrightarrow> commits P (whenM b m)"
  by (simp add: whenM_def preserves_commits preserves_return)

lemma commits_case_option [committed]:
  "(v = None \<Longrightarrow> commits P m) \<Longrightarrow> (\<And>x. v = Some x \<Longrightarrow> commits P (f x)) \<Longrightarrow>
     commits P (case v of None \<Rightarrow> m | Some x \<Rightarrow> f x)"
  by (cases v) simp_all

lemma commits_case_sum [committed]:
  "(\<And>x. v = Inl x \<Longrightarrow> commits P (f x)) \<Longrightarrow> (\<And>x. v = Inr x \<Longrightarrow> commits P (g x)) \<Longrightarrow>
     commits P (case v of Inl x \<Rightarrow> f x | Inr x \<Rightarrow> g x)"
  by (cases v) simp_all

section \<open>The tables that carry invariants\<close>

definition core :: "db \<Rightarrow> (nat \<Rightarrow> string) \<times> nat \<times> wallet list \<times> walletReservation list \<times> walletLedgerEntry list \<times>
    ledgerAccount list \<times> journal list \<times> journalEntry list \<times> approvalRequest list \<times> approvalStep list \<times>
    approvalAction list" where
  "core s = (uuid_gen s, uuid_next s, wallets s, walletReservations s, walletLedgerEntries s, ledgerAccounts s,
     journals s, journalEntries s, approvalRequests s, approvalSteps s, approvalActions s)"

text \<open>The handler of \<open>queuePayment\<close>: a shortage is handled, any other error is thrown again.\<close>

lemma preserves_case_insufficient [preserved]:
  "(\<And>w. preserves P (m w)) \<Longrightarrow>
     preserves P (case err of InsufficientFundsError w \<Rightarrow> m w | _ \<Rightarrow> throw err)"
  by (cases err) (simp_all add: preserves_throw)

lemma preserves_case_decision:
  "preserves P m \<Longrightarrow> preserves P n \<Longrightarrow> preserves P (case d of APPROVE \<Rightarrow> m | REJECT \<Rightarrow> n)"
  by (cases d) simp_all

text \<open>The columns of a payment the invariants look at, the states a payment may enter without its
  reservation changing, and the payments that are inserted.\<close>

definition payment_key :: "payment \<Rightarrow> string \<times> string option \<times> payment_state \<times> int \<times> int \<times> int \<times> string option" where
  "payment_key p = (p_id p, p_batchId p, p_status p, p_amountMinor p, p_feeMinor p, p_totalMinor p, p_sourceWalletId p)"

definition plain_state :: "payment_state \<Rightarrow> bool" where
  "plain_state st \<longleftrightarrow> st \<notin> {QUEUED, SUCCESS, FAILED}"

definition new_payment :: "payment \<Rightarrow> bool" where
  "new_payment p \<longleftrightarrow> p_totalMinor p = p_amountMinor p + p_feeMinor p \<and>
     (case p_batchId p of None \<Rightarrow> p_status p = DRAFT \<and> p_sourceWalletId p \<noteq> None
      | Some b \<Rightarrow> p_status p = QUEUED \<and> p_sourceWalletId p = None)"

section \<open>What an invariant of the whole system promises\<close>

locale system_invariant =
  fixes I :: "db \<Rightarrow> bool"
  assumes frame: "I s \<Longrightarrow> core t = core s \<Longrightarrow> payments t = payments s \<Longrightarrow>
      paymentStatusHistories t = paymentStatusHistories s \<Longrightarrow> I t"
    and fresh_id [preserved]: "preserves I fresh_id"
    and postJournal [preserved]: "preserves I (postJournal j)"
    and getWalletLedgerAccount [preserved]: "preserves I (getWalletLedgerAccount wid tid)"
    and ensureSystemChart [preserved]: "preserves I (ensureSystemChart tid)"
    and createApprovalRequest [preserved]: "preserves I (createApprovalRequest ca)"
    and recordApprovalAction [preserved]: "preserves I (recordApprovalAction ai)"
    and expireDueApprovals [preserved]: "preserves I (expireDueApprovals t0)"
    and credit: "I s \<Longrightarrow>
       updateWallets (\<lambda>w. w_id w = wid) (\<lambda>w. w\<lparr>w_availableMinor := w_availableMinor w + amt\<rparr>) s = (Inr rows, u) \<Longrightarrow>
       recordWalletFunding tid wid rt ri amt note u = (Inr x, t) \<Longrightarrow> I t"
    and updatePayment [preserved]: "(\<And>p. payment_key (f p) = payment_key p) \<Longrightarrow> preserves I (updatePayment pid f)"
    and reversedPayment: "(\<And>p. payment_key (f p) = payment_key (p\<lparr>p_status := REVERSED\<rparr>)) \<Longrightarrow>
       preserves I (updatePayment pid f)"
    and transitionPayment [preserved]: "plain_state st \<Longrightarrow> preserves I (transitionPayment pid st by_actor reason v)"
    and insertPayment [preserved]: "(\<And>pid s. new_payment (mk pid s)) \<Longrightarrow> preserves I (insertPayment mk)"
    and insertStatusHistory [preserved]: "preserves I (insertStatusHistory pid None DRAFT r by_actor)"
    and submitPayment [preserved]: "preserves I (submitPayment tid pid actor rules)"
    and approveQueuedPayment [preserved]: "preserves I (approveQueuedPayment tid pid actor)"
    and applyProviderSuccess: "commits I (applyProviderSuccess pid ref ev)"
    and applyProviderFailure: "commits I (applyProviderFailure pid code msg ev)"
begin

lemma modify [preserved]:
  "(\<And>s. core (f s) = core s \<and> payments (f s) = payments s \<and> paymentStatusHistories (f s) = paymentStatusHistories s) \<Longrightarrow>
     preserves I (modify f)"
  by (rule preserves_modify) (blast intro: frame)

text \<open>Crediting a wallet breaks an invariant until the movement is logged.\<close>

lemma commits_credit [committed]:
  assumes k: "commits I k"
  shows "commits I (seq (updateWallets (\<lambda>w. w_id w = wid) (\<lambda>w. w\<lparr>w_availableMinor := w_availableMinor w + amt\<rparr>))
     (seq (recordWalletFunding tid wid rt ri amt note) k))"
proof (rule commitsI)
  fix s y t
  assume "I s" and "seq (updateWallets (\<lambda>w. w_id w = wid) (\<lambda>w. w\<lparr>w_availableMinor := w_availableMinor w + amt\<rparr>))
     (seq (recordWalletFunding tid wid rt ri amt note) k) s = (Inr y, t)"
  then obtain rows u x v where
    "updateWallets (\<lambda>w. w_id w = wid) (\<lambda>w. w\<lparr>w_availableMinor := w_availableMinor w + amt\<rparr>) s = (Inr rows, u)"
    "recordWalletFunding tid wid rt ri amt note u = (Inr x, v)" and kv: "k v = (Inr y, t)"
    unfolding seq_ok by blast
  with \<open>I s\<close> have "I v" by - (rule credit)
  with k kv show "I t" by (simp add: commits_def)
qed

lemma getSystemAccount [preserved]: "preserves I (getSystemAccount tid code)"
  unfolding getSystemAccount_def by (intro preserved)

lemma postPaymentSuccessJournal [preserved]: "preserves I (postPaymentSuccessJournal tid pid wid amt fee actor)"
  unfolding postPaymentSuccessJournal_def by (intro preserved)

lemma postReversalJournal [preserved]: "preserves I (postReversalJournal tid pid wid amt actor)"
  unfolding postReversalJournal_def by (intro preserved)

lemma postFundingJournal [preserved]: "preserves I (postFundingJournal tid wid amt actor)"
  unfolding postFundingJournal_def by (intro preserved)

lemma enqueueOutbox [preserved]: "preserves I (enqueueOutbox ty at ai tid payload)"
  unfolding enqueueOutbox_def by (intro preserved) (simp add: core_def)

lemma markPublished [preserved]: "preserves I (markPublished e)"
  unfolding markPublished_def updateOutbox_def by (intro preserved) (simp add: core_def)

lemma markFailed [preserved]: "preserves I (markFailed e err)"
  unfolding markFailed_def updateOutbox_def by (intro preserved) (simp add: core_def)

lemma computeFee [preserved]: "preserves I (computeFee amt ctx)"
  unfolding computeFee_def findFeeRule_def by (intro preserved)

lemma recordFeeCalculation [preserved]: "preserves I (recordFeeCalculation tid pid amt fee)"
  unfolding recordFeeCalculation_def by (intro preserved) (simp add: core_def)

lemma withIdempotency [preserved]: "preserves I m \<Longrightarrow> preserves I (withIdempotency tid scope key m)"
  unfolding withIdempotency_def by (intro preserved) (simp_all add: core_def)

lemma gcIdempotencyRecords [preserved]: "preserves I (gcIdempotencyRecords a b)"
  unfolding gcIdempotencyRecords_def by (intro preserved) (simp_all add: core_def)

lemma payment_event [preserved]: "preserves I (payment_event ty pid tid extra)"
  unfolding payment_event_def by (intro preserved)

lemma getPayment [preserved]: "preserves I (getPayment tid pid e)"
  unfolding getPayment_def by (intro preserved)

subsection \<open>Payees, screening and payments\<close>

lemma registerBeneficiary [preserved]: "preserves I (registerBeneficiary rb)"
  unfolding registerBeneficiary_def by (intro preserved) (simp add: core_def)

lemma activateBeneficiary [preserved]: "preserves I (activateBeneficiary tid b actor)"
  unfolding activateBeneficiary_def setBeneficiaryStatus_def beneficiary_event_def
  by (intro preserved) (simp add: core_def)

lemma rejectBeneficiary [preserved]: "preserves I (rejectBeneficiary tid b actor)"
  unfolding rejectBeneficiary_def setBeneficiaryStatus_def beneficiary_event_def
  by (intro preserved) (simp add: core_def)

lemma assertPayeeApproved [preserved]: "preserves I (assertPayeeApproved tid b)"
  unfolding assertPayeeApproved_def by (intro preserved)

lemma screenRecipientForPayment [preserved]: "preserves I (screenRecipientForPayment tid pid name phone actor)"
  unfolding screenRecipientForPayment_def screenRecipient_def screenName_def openCaseForHit_def
  by (intro preserved) (simp_all add: core_def)

lemma decideCase [preserved]: "preserves I (decideCase c d note actor)"
  unfolding decideCase_def by (intro preserved) (simp add: core_def)

lemma generatePaymentNumber [preserved]: "preserves I (generatePaymentNumber tid)"
  unfolding generatePaymentNumber_def by (intro preserved)

lemma createPayment [preserved]: "preserves I (createPayment cp)"
  unfolding createPayment_def createPayment_run_def loadWallet_def
  by (intro preserved) (simp_all add: new_payment_def blank_payment_def)

lemma cancelPayment [preserved]: "preserves I (cancelPayment tid pid actor reason)"
  unfolding cancelPayment_def by (intro preserved) (simp add: plain_state_def)

lemma fundWallet [preserved]: "preserves I (fundWallet tid wid amount method reference actor)"
  unfolding fundWallet_def
  by (rule preserves_case_sum, rule preserves_throw, rule preserves_transaction_commits)
     (rule commits_credit commits_bind commits_seq preserves_commits | intro preserved | simp add: core_def)+

subsection \<open>Execution, reversal and monitoring\<close>

lemma recordAttempt [preserved]: "preserves I (recordAttempt pid n st ec em l ref)"
  unfolding recordAttempt_def by (intro preserved) (simp add: core_def)

lemma applyProviderResult: "commits I (applyProviderResult p ref res)"
  unfolding applyProviderResult_def
  by (cases "prr_status res")
     (auto intro!: applyProviderSuccess applyProviderFailure preserves_commits [OF transitionPayment]
       simp: plain_state_def)

lemma executePayment [preserved]: "preserves I (executePayment tid pid prov n l)"
  unfolding executePayment_def
  by (rule preserves_transaction_commits)
     (rule applyProviderResult commits_bind commits_seq commits_if commits_let commits_case_sum preserves_commits
       | intro preserved | simp add: plain_state_def)+

lemma loadReversiblePayment [preserved]: "preserves I (loadReversiblePayment tid pid)"
  unfolding loadReversiblePayment_def by (intro preserved)

lemma requestReversalApproval [preserved]: "preserves I (requestReversalApproval tid pid actor reason)"
  unfolding requestReversalApproval_def by (intro preserved)

lemma insertReversal [preserved]: "preserves I (insertReversal tid p reason st actor)"
  unfolding insertReversal_def by (intro preserved) (simp add: core_def)

lemma requestReversal [preserved]: "preserves I (requestReversal tid pid actor reason prov)"
  unfolding requestReversal_def by (intro preserved) (simp_all add: plain_state_def payment_key_def)

lemma executeApprovedReversal [preserved]: "preserves I (executeApprovedReversal tid pid actor reason prov)"
  unfolding executeApprovedReversal_def by (intro preserved)

lemma applyPolledStatus: "commits I (applyPolledStatus p ref res)"
proof -
  have "preserves I (seq (Payment_State.transitionPayment (p_id p) REVERSED None (Some ''provider status poll: reversed'') None)
            (Payment_State.updatePayment (p_id p) (\<lambda>p. p\<lparr>p_providerStatus := Some ''REVERSED''\<rparr>)))"
    by (intro preserves_seq transitionPayment updatePayment) (simp_all add: plain_state_def payment_key_def)
  then show ?thesis
    unfolding applyPolledStatus_def
    by (cases "prr_status res") (auto intro: applyProviderSuccess applyProviderFailure preserves_commits preserves_return)
qed

lemma monitorStuckPayments [preserved]: "preserves I (monitorStuckPayments prov older limit)"
  unfolding monitorStuckPayments_def monitorOne_def
  by (intro preserves_transaction_commits [OF applyPolledStatus] preserved)

subsection \<open>Batches\<close>

lemma insertBatchRow [preserved]: "preserves I (insertBatchRow b r ph st em)"
  unfolding insertBatchRow_def by (intro preserved) (simp add: core_def)

lemma updateBatch [preserved]: "preserves I (updateBatch b f)"
  unfolding updateBatch_def by (intro preserved) (simp add: core_def)

lemma updateBatchRow [preserved]: "preserves I (updateBatchRow r g)"
  unfolding updateBatchRow_def by (intro preserved) (simp add: core_def)

lemma batch_event [preserved]: "preserves I (batch_event ty b tid extra)"
  unfolding batch_event_def by (intro preserved)

lemma createBatch [preserved]: "preserves I (createBatch cb)"
  unfolding createBatch_def createBatch_row_def by (intro preserved) (simp add: core_def)

lemma submitBatch [preserved]: "preserves I (submitBatch tid b actor rules)"
  unfolding submitBatch_def getBatch_def by (intro preserved)

lemma approveBatch [preserved]: "preserves I (approveBatch tid b actor)"
  unfolding approveBatch_def getBatch_def by (intro preserved)

lemma materializeBatchRow [preserved]: "preserves I (materializeBatchRow tid b r actor prov)"
  unfolding materializeBatchRow_def
  by (intro preserved) (simp add: new_payment_def batch_payment_def blank_payment_def)

lemma markBatchRowOutcome [preserved]: "preserves I (markBatchRowOutcome r st em)"
  unfolding markBatchRowOutcome_def by (intro preserved)

lemma refreshBatchStatus [preserved]: "preserves I (refreshBatchStatus b)"
  unfolding refreshBatchStatus_def by (intro preserved)

subsection \<open>Collections and webhooks\<close>

lemma updateCollection [preserved]: "preserves I (updateCollection c f)"
  unfolding updateCollection_def by (intro preserved) (simp add: core_def)

lemma insertCollection [preserved]: "preserves I (insertCollection mk)"
  unfolding insertCollection_def generateCollectionNumber_def by (intro preserved) (simp add: core_def)

lemma applyInvoicePayment [preserved]: "preserves I (applyInvoicePayment tid doc amt)"
  unfolding applyInvoicePayment_def by (intro preserved) (simp add: core_def)

lemma collection_event [preserved]: "preserves I (collection_event ty c extra)"
  unfolding collection_event_def by (intro preserved)

lemma commits_creditCollection: "commits I (creditCollection si amt col)"
  unfolding creditCollection_def by (intro commits_credit preserves_commits preserved)

lemma settleCollection [preserved]: "preserves I (settleCollection si)"
  unfolding settleCollection_def
  by (rule preserves_transaction_commits)
     (rule commits_creditCollection commits_bind commits_seq commits_if commits_let preserves_commits
       | intro preserved)+

lemma failCollection [preserved]: "preserves I (failCollection c reason raw)"
  unfolding failCollection_def by (intro preserved)

lemma expireStaleCollections [preserved]: "preserves I (expireStaleCollections older)"
  unfolding expireStaleCollections_def by (intro preserved) (simp add: core_def)

lemma resolveWallet [preserved]: "preserves I (resolveWallet tid wid)"
  unfolding resolveWallet_def by (intro preserved)

lemma payerFromCustomer [preserved]: "preserves I (payerFromCustomer tid c)"
  unfolding payerFromCustomer_def by (intro preserved)

lemma loadInvoice [preserved]: "preserves I (loadInvoice tid doc)"
  unfolding loadInvoice_def by (intro preserved)

lemma pushPrompt [preserved]: "preserves I (pushPrompt prov col ph amt ref)"
  unfolding pushPrompt_def by (intro preserved)

lemma requestStkCollection [preserved]: "preserves I (requestStkCollection rq prov)"
  unfolding requestStkCollection_def find_by_key_def by (intro preserved)

lemma resolveC2BAccount [preserved]: "preserves I (resolveC2BAccount ref)"
  unfolding resolveC2BAccount_def by (intro preserved)

lemma insertOrphan [preserved]: "preserves I (insertOrphan tid src ref amt notes)"
  unfolding insertOrphan_def by (intro preserved) (simp add: core_def)

lemma recordC2BPayment [preserved]: "preserves I (recordC2BPayment c2b)"
  unfolding recordC2BPayment_def settleC2B_def find_c2b_def by (intro preserved)

lemma recordBankCollection [preserved]: "preserves I (recordBankCollection bc)"
  unfolding recordBankCollection_def by (intro preserved)

lemma ingestWebhook [preserved]: "preserves I (ingestWebhook v h)"
  unfolding ingestWebhook_def insertWebhookEvent_def by (intro preserved) (simp add: core_def)

lemma setWebhook [preserved]: "preserves I (setWebhook e f)"
  unfolding setWebhook_def by (intro preserved) (simp add: core_def)

lemma orphan_amount [preserved]: "preserves I (orphan_amount v)"
  by (cases v) (auto simp: orphan_amount_def intro: preserved)

lemma applyCallback [preserved]: "preserves I (applyCallback w a ref payload)"
proof -
  have reversed: "preserves I (Payment_State.updatePayment pid (\<lambda>p. p\<lparr>p_status := REVERSED,
      p_providerStatus := Some ''REVERSED'', p_reversalReason := Some ''provider reversed''\<rparr>))" for pid
    by (rule reversedPayment) (simp add: payment_key_def)
  have unknown: "preserves I (Payment_State.updatePayment pid (\<lambda>p. p\<lparr>p_providerStatus := Some ''UNKNOWN''\<rparr>))" for pid
    by (rule updatePayment) (simp add: payment_key_def)
  show ?thesis
    unfolding applyCallback_def markProcessed_def
    by (rule preserves_let, rule preserves_transaction_commits)
       (intro commits_seq commits_if applyProviderSuccess applyProviderFailure
         preserves_commits [OF reversed] preserves_commits [OF unknown] preserves_commits [OF setWebhook])
qed

lemma processWebhookEvent [preserved]: "preserves I (processWebhookEvent e)"
  unfolding processWebhookEvent_def find_attempt_def findCollectionByProviderReference_def
    processCollectionCallback_def recordOrphan_def markProcessed_def
  by (intro preserved)

subsection \<open>Payment links and the outbox relay\<close>

lemma createPaymentLink [preserved]: "preserves I (createPaymentLink pl)"
  unfolding createPaymentLink_def generateLinkToken_def by (intro preserved) (simp add: core_def)

lemma claimUse [preserved]: "preserves I (claimUse l)"
  unfolding claimUse_def by (intro preserved) (simp add: core_def)

lemma collectViaPaymentLink [preserved]: "preserves I (collectViaPaymentLink tok payer nm ph)"
  unfolding collectViaPaymentLink_def link_result_def getWalletBalance_def find_by_key_def by (intro preserved)

lemma syncBatchRow [preserved]: "preserves I (syncBatchRow ty payload)"
  unfolding syncBatchRow_def by (intro preserved)

lemma dispatchOutboxTick [preserved]:
  "(\<And>e. preserves I (handle e)) \<Longrightarrow> preserves I (dispatchOutboxTick acq handle limit)"
  unfolding dispatchOutboxTick_def processOutboxBatch_def dispatchOne_def pullUnpublished_def by (intro preserved)

subsection \<open>Reconciliation\<close>

lemma settleItem [preserved]: "preserves I (settleItem tid i amt p)"
  unfolding settleItem_def insertMatch_def setItem_def insertException_def
  by (intro preserved) (simp_all add: core_def)

lemma runReconciliation [preserved]: "preserves I (runReconciliation run limit)"
  unfolding runReconciliation_def reconcileItem_def by (intro preserved)

lemma reconcileStatement [preserved]: "preserves I (reconcileStatement tid a b rows actor)"
  unfolding reconcileStatement_def importRow_def by (intro preserved) (simp_all add: core_def)

lemma recordActivity [preserved]: "preserves I (recordActivity x actor action note a b)"
  unfolding recordActivity_def by (intro preserved) (simp add: core_def)

lemma exception_audit [preserved]: "preserves I (exception_audit x actor action a b)"
  unfolding exception_audit_def writeAuditEvent_def writeAuditEventFrom_def by (intro preserved) (simp add: core_def)

lemma updateException [preserved]: "preserves I (updateException e f)"
  unfolding updateException_def by (intro preserved) (simp add: core_def)

lemma loadScoped [preserved]: "preserves I (loadScoped e tid)"
  unfolding loadScoped_def by (intro preserved)

lemma resolveReconException [preserved]: "preserves I (resolveReconException e tid actor note)"
  unfolding resolveReconException_def by (intro preserved)

lemma reopenReconException [preserved]: "preserves I (reopenReconException e tid actor note')"
  unfolding reopenReconException_def by (intro preserved)

lemma commentOnReconException [preserved]: "preserves I (commentOnReconException e tid actor note)"
  unfolding commentOnReconException_def by (intro preserved)

end

section \<open>Invariants of the packages below\<close>

locale core_invariant =
  fixes I :: "db \<Rightarrow> bool"
  assumes frame: "I s \<Longrightarrow> core t = core s \<Longrightarrow> I t"
    and fresh_id [preserved]: "preserves I fresh_id"
    and postJournal [preserved]: "preserves I (postJournal j)"
    and getWalletLedgerAccount [preserved]: "preserves I (getWalletLedgerAccount wid tid)"
    and reserveFunds [preserved]: "preserves I (reserveFunds tid pid wid amt)"
    and releaseReservation [preserved]: "preserves I (releaseReservation rid)"
    and applyReservation [preserved]: "preserves I (applyReservation rid)"
    and createApprovalRequest [preserved]: "preserves I (createApprovalRequest ca)"
    and recordApprovalAction [preserved]: "preserves I (recordApprovalAction ai)"
    and expireDueApprovals [preserved]: "preserves I (expireDueApprovals t0)"
    and ensureSystemChart [preserved]: "preserves I (ensureSystemChart tid)"
    and credit: "I s \<Longrightarrow>
       updateWallets (\<lambda>w. w_id w = wid) (\<lambda>w. w\<lparr>w_availableMinor := w_availableMinor w + amt\<rparr>) s = (Inr rows, u) \<Longrightarrow>
       recordWalletFunding tid wid rt ri amt note u = (Inr x, t) \<Longrightarrow> I t"
begin

lemma modify [preserved]: "(\<And>s. core (f s) = core s) \<Longrightarrow> preserves I (modify f)"
  by (rule preserves_modify) (blast intro: frame)

lemma getSystemAccount [preserved]: "preserves I (getSystemAccount tid code)"
  unfolding getSystemAccount_def by (intro preserved)

lemma postPaymentSuccessJournal [preserved]: "preserves I (postPaymentSuccessJournal tid pid wid amt fee actor)"
  unfolding postPaymentSuccessJournal_def by (intro preserved)

lemma postReversalJournal [preserved]: "preserves I (postReversalJournal tid pid wid amt actor)"
  unfolding postReversalJournal_def by (intro preserved)

lemma postFundingJournal [preserved]: "preserves I (postFundingJournal tid wid amt actor)"
  unfolding postFundingJournal_def by (intro preserved)

lemma enqueueOutbox [preserved]: "preserves I (enqueueOutbox ty at ai tid payload)"
  unfolding enqueueOutbox_def by (intro preserved) (simp add: core_def)

lemma updatePayment [preserved]: "preserves I (updatePayment pid f)"
  unfolding updatePayment_def by (intro preserved) (simp add: core_def)

lemma insertStatusHistory [preserved]: "preserves I (insertStatusHistory pid a b r actor)"
  unfolding insertStatusHistory_def by (intro preserved) (simp add: core_def)

lemma transitionPayment [preserved]: "preserves I (transitionPayment pid st actor reason v)"
  unfolding transitionPayment_def by (intro preserved)

lemma payment_event [preserved]: "preserves I (payment_event ty pid tid extra)"
  unfolding payment_event_def by (intro preserved)

lemma getPayment [preserved]: "preserves I (getPayment tid pid e)"
  unfolding getPayment_def by (intro preserved)

lemma assertPayeeApproved [preserved]: "preserves I (assertPayeeApproved tid b)"
  unfolding assertPayeeApproved_def by (intro preserved)

lemma screenRecipientForPayment [preserved]: "preserves I (screenRecipientForPayment tid pid name phone actor)"
  unfolding screenRecipientForPayment_def screenRecipient_def screenName_def openCaseForHit_def
  by (intro preserved) (simp_all add: core_def)

lemma insertPayment [preserved]: "preserves I (insertPayment mk)"
  unfolding insertPayment_def by (intro preserved) (simp add: core_def)

lemma queuePayment [preserved]: "preserves I (queuePayment pid actor tid)"
  unfolding queuePayment_def by (intro preserved)

lemma screenPayment [preserved]: "preserves I (screenPayment p tid actor)"
  unfolding screenPayment_def by (intro preserved)

lemma requestPaymentApproval [preserved]: "preserves I (requestPaymentApproval p tid actor rules ctx)"
  unfolding requestPaymentApproval_def by (intro preserved)

lemma submitPayment [preserved]: "preserves I (submitPayment tid pid actor rules)"
  unfolding submitPayment_def by (intro preserved)

lemma approveQueuedPayment [preserved]: "preserves I (approveQueuedPayment tid pid actor)"
  unfolding approveQueuedPayment_def by (intro preserved)

lemma applyProviderSuccess [preserved]: "preserves I (applyProviderSuccess pid ref ev)"
  unfolding applyProviderSuccess_def settleReservation_def by (intro preserved)

lemma applyProviderFailure [preserved]: "preserves I (applyProviderFailure pid code msg ev)"
  unfolding applyProviderFailure_def settleReservation_def by (intro preserved)

end

sublocale core_invariant \<subseteq> sys: system_invariant I
  by unfold_locales (auto intro: frame preserved credit preserves_commits)

section \<open>The invariants of the three packages\<close>

text \<open>The commands of one package leave the tables of the others alone.\<close>

lemma ledger_approval_commands [preserved]:
  "preserves ledger_inv (createApprovalRequest ca)" "preserves ledger_inv (recordApprovalAction ai)"
  "preserves ledger_inv (expireDueApprovals t0)"
  unfolding createApprovalRequest_def insertStep_def recordApprovalAction_def insertAction_def rejectRequest_def
    approveStep_def setRequest_def setStepStatus_def expireDueApprovals_def
  by (intro preserved preserves_case_decision; simp)+

lemma wallet_approval_commands [preserved]:
  "preserves wallet_inv (createApprovalRequest ca)" "preserves wallet_inv (recordApprovalAction ai)"
  "preserves wallet_inv (expireDueApprovals t0)"
  unfolding createApprovalRequest_def insertStep_def recordApprovalAction_def insertAction_def rejectRequest_def
    approveStep_def setRequest_def setStepStatus_def expireDueApprovals_def
  by (intro preserved preserves_case_decision; simp)+

lemma approval_updateWallets [preserved]: "preserves approval_inv (updateWallets P f)"
  by (rule preservesI) (auto simp: updateWallets_def Let_def elim!: approval_inv_frame split: if_splits)

lemma approval_recordWalletFunding [preserved]:
  "preserves approval_inv (recordWalletFunding tid wid rt ri amt nt)"
  unfolding recordWalletFunding_def appendWalletLedgerEntry_def by (intro preserved; simp)

lemma approval_ledger_commands [preserved]:
  "preserves approval_inv (postJournal j)" "preserves approval_inv (ensureSystemChart tid)"
  unfolding postJournal_def postJournalEntry_def insertJournalEntry_def insertSnapshot_def
    ensureSystemChart_def insertChartAccount_def insertSystemAccount_def
  by (intro preserved; simp add: Let_def)+

lemma approval_getWalletLedgerAccount [preserved]: "preserves approval_inv (getWalletLedgerAccount wid tid)"
proof -
  have "preserves approval_inv (getWalletLedgerAccount_fuel n wid tid)" for n
    by (induction n) (auto intro!: preserved simp: Let_def)
  then show ?thesis by (simp add: getWalletLedgerAccount_def)
qed

lemma approval_wallet_commands [preserved]:
  "preserves approval_inv (reserveFunds tid pid wid amt)" "preserves approval_inv (releaseReservation rid)"
  "preserves approval_inv (applyReservation rid)"
  unfolding reserveFunds_def reserveFunds_attempt_def insertReservation_def releaseReservation_def
    applyReservation_def setReservationStatus_def appendWalletLedgerEntry_def
  by (intro preserved; simp)+

lemma credited_rows:
  assumes "updateWallets (\<lambda>w. w_id w = wid) (\<lambda>w. w\<lparr>w_availableMinor := w_availableMinor w + amt\<rparr>) s = (Inr rows, u)"
    and "recordWalletFunding tid wid rt ri amt note u = (Inr x, t)"
  shows "rows \<noteq> []"
proof
  assume "rows = []"
  with assms(1) have "filter (\<lambda>w. w_id w = wid) (wallets s) = []" and "u = s\<lparr>wallets := wallets u\<rparr>"
    and "map w_id (wallets u) = map w_id (wallets s)"
    by (auto simp: updateWallets_def Let_def split: if_splits)
  then have "wid \<notin> w_id ` set (wallets u)" by (metis (mono_tags) filter_empty_conv imageE list.set_map)
  with assms(2) show False
    by (auto simp: recordWalletFunding_def appendWalletLedgerEntry_ok dest!: find_SomeD)
qed

interpretation ledger_core: core_invariant ledger_inv
proof (unfold_locales, goal_cases)
  case (1 s t)
  then show ?case by (elim ledger_inv_frame) (simp_all add: core_def)
next
  case (12 s wid amt rows u tid rt ri nt x t)
  show ?case by (rule preservesD [OF ledger_recordWalletFunding preservesD [OF ledger_updateWallets 12(1,2)] 12(3)])
qed (intro preserved)+

interpretation wallet_core: core_invariant wallet_inv
proof (unfold_locales, goal_cases)
  case (1 s t)
  then show ?case by (elim wallet_inv_frame) (simp_all add: core_def)
next
  case (12 s wid amt rows u tid rt ri nt x t)
  from wallet_credit [OF 12(1) _ 12(2) credited_rows [OF 12(2,3)] 12(3)] show ?case by simp
qed (intro preserved)+

interpretation approval_core: core_invariant approval_inv
proof (unfold_locales, goal_cases)
  case (1 s t)
  then show ?case by (elim approval_inv_frame) (simp_all add: core_def)
next
  case (12 s wid amt rows u tid rt ri nt x t)
  show ?case by (rule preservesD [OF approval_recordWalletFunding preservesD [OF approval_updateWallets 12(1,2)] 12(3)])
qed (intro preserved)+

end
