(* ===== verification/Payment_Invariants.thy ===== *)
theory Payment_Invariants
  imports Core_Invariants
begin

text \<open>
  What payments-core guarantees about the money behind a payment: \<open>pay_inv\<close> ties the state of every
  payment to its wallet reservation, \<open>hist_inv\<close> says that the status history holds only legal
  transitions.  Together with the wallet invariant they are kept by every command of the system.
\<close>

section \<open>The invariant\<close>

definition reservation_of :: "walletReservation list \<Rightarrow> string \<Rightarrow> walletReservation option" where
  "reservation_of rs pid = find (\<lambda>r. wr_paymentId r = pid) rs"

text \<open>What backs a single payment in each state: nothing before it is queued, the held reservation
  while it is in flight, the applied one after success.\<close>

fun backed :: "payment_state \<Rightarrow> reservation_status option \<Rightarrow> bool" where
  "backed DRAFT r \<longleftrightarrow> r = None"
| "backed VALIDATING r \<longleftrightarrow> r = None"
| "backed PENDING_APPROVAL r \<longleftrightarrow> r = None"
| "backed APPROVED r \<longleftrightarrow> r = None"
| "backed REJECTED r \<longleftrightarrow> r = None"
| "backed QUEUED r \<longleftrightarrow> r = Some HELD"
| "backed PROCESSING r \<longleftrightarrow> r = Some HELD"
| "backed PROVIDER_PENDING r \<longleftrightarrow> r = Some HELD"
| "backed SUCCESS r \<longleftrightarrow> r = Some APPLIED"
| "backed FAILED r \<longleftrightarrow> r = None \<or> r = Some RELEASED"
| "backed CANCELLED r \<longleftrightarrow> r \<noteq> Some APPLIED"
| "backed REVERSED r \<longleftrightarrow> True"

definition batch_state :: "payment_state \<Rightarrow> bool" where
  "batch_state st \<longleftrightarrow> st \<in> {QUEUED, PROCESSING, PROVIDER_PENDING, SUCCESS, FAILED, REVERSED, CANCELLED}"

definition pay_ok :: "walletReservation list \<Rightarrow> payment \<Rightarrow> bool" where
  "pay_ok rs p \<longleftrightarrow> p_totalMinor p = p_amountMinor p + p_feeMinor p \<and>
     (case p_batchId p of
        None \<Rightarrow> p_sourceWalletId p \<noteq> None \<and> backed (p_status p) (map_option wr_status (reservation_of rs (p_id p))) \<and>
          (\<forall>r. reservation_of rs (p_id p) = Some r \<longrightarrow>
             wr_amountMinor r = p_totalMinor p \<and> Some (wr_walletId r) = p_sourceWalletId p)
      | Some b \<Rightarrow> p_sourceWalletId p = None \<and> batch_state (p_status p) \<and> reservation_of rs (p_id p) = None)"

definition pay_ids :: "db \<Rightarrow> bool" where
  "pay_ids s \<longleftrightarrow> uuids_distinct s \<and> distinct (map p_id (payments s)) \<and> p_id ` set (payments s) \<subseteq> used_ids s \<and>
     wr_paymentId ` set (walletReservations s) \<subseteq> p_id ` set (payments s)"

definition pay_except :: "string \<Rightarrow> db \<Rightarrow> bool" where
  "pay_except pid s \<longleftrightarrow> pay_ids s \<and>
     (\<forall>p \<in> set (payments s). p_id p \<noteq> pid \<longrightarrow> pay_ok (walletReservations s) p)"

definition pay_inv :: "db \<Rightarrow> bool" where
  "pay_inv s \<longleftrightarrow> pay_ids s \<and> (\<forall>p \<in> set (payments s). pay_ok (walletReservations s) p)"

definition legal_step :: "paymentStatusHistory \<Rightarrow> bool" where
  "legal_step h \<longleftrightarrow> (case psh_fromStatus h of None \<Rightarrow> psh_toStatus h = DRAFT
     | Some st \<Rightarrow> st \<noteq> psh_toStatus h \<and> canTransition st (psh_toStatus h))"

definition hist_inv :: "db \<Rightarrow> bool" where
  "hist_inv s \<longleftrightarrow> list_all legal_step (paymentStatusHistories s)"

lemma pay_ok_key: "payment_key p = payment_key q \<Longrightarrow> pay_ok rs p \<longleftrightarrow> pay_ok rs q"
  by (auto simp: pay_ok_def payment_key_def split: option.splits)

lemma pay_inv_except: "pay_inv s \<Longrightarrow> pay_except pid s"
  by (simp add: pay_inv_def pay_except_def)

lemma pay_ids_frame:
  assumes "pay_ids s" and "uuid_gen t = uuid_gen s" and "uuid_next s \<le> uuid_next t"
    and "map p_id (payments t) = map p_id (payments s)"
    and "wr_paymentId ` set (walletReservations t) \<subseteq> p_id ` set (payments s)"
  shows "pay_ids t"
proof -
  have "used_ids s \<subseteq> used_ids t" by (rule used_ids_mono) (use assms in simp_all)
  moreover have "p_id ` set (payments t) = p_id ` set (payments s)" by (metis assms(4) list.set_map)
  ultimately show ?thesis using assms unfolding pay_ids_def uuids_distinct_def by auto
qed

lemma pay_inv_frame:
  assumes "pay_inv s" and "uuid_gen t = uuid_gen s" and "uuid_next s \<le> uuid_next t"
    and "payments t = payments s" and "walletReservations t = walletReservations s"
  shows "pay_inv t"
  using assms pay_ids_frame [of s t] by (simp add: pay_inv_def) (simp add: pay_ids_def)

lemma pay_modify [preserved]:
  assumes "\<And>s. uuid_gen (f s) = uuid_gen s" and "\<And>s. uuid_next (f s) = uuid_next s"
    and "\<And>s. payments (f s) = payments s" and "\<And>s. walletReservations (f s) = walletReservations s"
  shows "preserves pay_inv (modify f)"
  by (rule preserves_modify, erule pay_inv_frame) (simp_all add: assms)

lemma pay_fresh_id [preserved]: "preserves pay_inv fresh_id"
  by (rule preservesI) (auto simp: fresh_id_def elim!: pay_inv_frame)

lemma pay_updateWallets [preserved]: "preserves pay_inv (updateWallets P f)"
  by (rule preservesI) (auto simp: updateWallets_def Let_def elim!: pay_inv_frame split: if_splits)

text \<open>Restoring the invariant of the one payment that was left out.\<close>

lemma pay_inv_set:
  assumes ex: "pay_except pid s" and t: "uuid_gen t = uuid_gen s" "uuid_next s \<le> uuid_next t"
    "payments t = update_rows (\<lambda>p. p_id p = pid) f (payments s)" "walletReservations t = walletReservations s"
    and f: "\<And>p. p_id (f p) = p_id p"
    and ok: "\<And>p. p \<in> set (payments s) \<Longrightarrow> p_id p = pid \<Longrightarrow> pay_ok (walletReservations s) (f p)"
  shows "pay_inv t"
proof -
  have "pay_ids t"
    using ex t by (intro pay_ids_frame [of s t]) (simp_all add: pay_except_def f, simp add: pay_ids_def)
  moreover have "pay_ok (walletReservations t) q" if "q \<in> set (payments t)" for q
    using that ex ok by (auto simp: t in_set_update_rows pay_except_def)
  ultimately show ?thesis by (simp add: pay_inv_def)
qed

section \<open>State transitions\<close>

lemma transitionPayment_ok:
  assumes "transitionPayment pid tgt actor reason v s = (Inr x, t)"
  obtains p where "find (\<lambda>p. p_id p = pid) (payments s) = Some p" "p \<in> set (payments s)" "p_id p = pid"
    "canTransition (p_status p) tgt" "p_status p = tgt" "t = s"
  | p h where "find (\<lambda>p. p_id p = pid) (payments s) = Some p" "p \<in> set (payments s)" "p_id p = pid"
    "canTransition (p_status p) tgt" "p_status p \<noteq> tgt" "psh_fromStatus h = Some (p_status p)" "psh_toStatus h = tgt"
    "t = s\<lparr>uuid_next := Suc (uuid_next s), paymentStatusHistories := paymentStatusHistories s @ [h],
       payments := update_rows (\<lambda>q. p_id q = pid) (\<lambda>q. q\<lparr>p_status := tgt, p_version := p_version p + 1,
         p_updatedAt := now s\<rparr>) (payments s)\<rparr>"
proof -
  from assms obtain p where p: "find (\<lambda>p. p_id p = pid) (payments s) = Some p" "canTransition (p_status p) tgt"
    and rest: "whenM (p_status p \<noteq> tgt) (seq (insertStatusHistory (p_id p) (Some (p_status p)) tgt reason actor)
        (updatePayment (p_id p) (\<lambda>q. q\<lparr>p_status := tgt, p_version := p_version p + 1\<rparr>))) s = (Inr x, t)"
    by (auto simp: transitionPayment_def tx_ok Let_def)
  from p(1) have pin: "p \<in> set (payments s)" "p_id p = pid" by (auto dest: find_SomeD)
  show ?thesis
  proof (cases "p_status p = tgt")
    case True
    with rest have "t = s" by (simp add: tx_ok)
    with that(1) p pin True show ?thesis by blast
  next
    case False
    let ?h = "\<lparr> psh_id = uuid_gen s (uuid_next s), psh_paymentId = pid, psh_fromStatus = Some (p_status p),
      psh_toStatus = tgt, psh_reason = reason, psh_actorId = actor \<rparr>"
    have "t = s\<lparr>uuid_next := Suc (uuid_next s), paymentStatusHistories := paymentStatusHistories s @ [?h],
       payments := update_rows (\<lambda>q. p_id q = pid) (\<lambda>q. q\<lparr>p_status := tgt, p_version := p_version p + 1,
         p_updatedAt := now s\<rparr>) (payments s)\<rparr>"
      using rest False pin(2) by (simp add: whenM_def tx_run insertStatusHistory_def updatePayment_def fresh_id_def)
    with that(2) [OF p(1) pin p(2) False, of ?h] show ?thesis by simp
  qed
qed

lemma hist_inv_frame: "hist_inv s \<Longrightarrow> paymentStatusHistories t = paymentStatusHistories s \<Longrightarrow> hist_inv t"
  by (simp add: hist_inv_def)

lemma hist_modify [preserved]:
  "(\<And>s. paymentStatusHistories (f s) = paymentStatusHistories s) \<Longrightarrow> preserves hist_inv (modify f)"
  by (rule preserves_modify) (simp add: hist_inv_def)

lemma hist_fresh_id [preserved]: "preserves hist_inv fresh_id"
  by (rule preservesI) (auto simp: fresh_id_def hist_inv_def)

lemma hist_updateWallets [preserved]: "preserves hist_inv (updateWallets P f)"
  by (rule preservesI) (auto simp: updateWallets_def Let_def hist_inv_def split: if_splits)

lemma hist_transitionPayment [preserved]: "preserves hist_inv (transitionPayment pid tgt actor reason v)"
proof (rule preservesI)
  fix s r t
  assume inv: "hist_inv s" and run: "transitionPayment pid tgt actor reason v s = (r, t)"
  show "hist_inv t"
  proof (cases r)
    case (Inl e)
    with run have "t = s" by (auto simp: transitionPayment_def tx_err Let_def insertStatusHistory_def updatePayment_def tx_ok)
    with inv show ?thesis by simp
  next
    case (Inr x)
    with run have "transitionPayment pid tgt actor reason v s = (Inr x, t)" by simp
    then show ?thesis
      by (cases rule: transitionPayment_ok) (use inv in \<open>auto simp: hist_inv_def legal_step_def\<close>)
  qed
qed

text \<open>A transition to a plain state needs no change of the reservation.\<close>

lemma backed_plain:
  "backed st r \<Longrightarrow> canTransition st tgt \<Longrightarrow> plain_state tgt \<Longrightarrow> backed tgt r"
  by (cases st; cases tgt) (auto simp: canTransition_def plain_state_def)

lemma batch_state_closed: "batch_state st \<Longrightarrow> canTransition st tgt \<Longrightarrow> batch_state tgt"
  by (cases st; cases tgt) (auto simp: canTransition_def batch_state_def)

lemma pay_ok_plain:
  "pay_ok rs p \<Longrightarrow> canTransition (p_status p) tgt \<Longrightarrow> plain_state tgt \<Longrightarrow>
     payment_key q = payment_key (p\<lparr>p_status := tgt\<rparr>) \<Longrightarrow> pay_ok rs q"
  by (auto simp: pay_ok_def payment_key_def split: option.splits dest: backed_plain batch_state_closed)

lemma transitionPayment_err: "transitionPayment pid tgt actor reason v s = (Inl e, t) \<Longrightarrow> t = s"
  by (auto simp: transitionPayment_def tx_err Let_def insertStatusHistory_def updatePayment_def tx_ok)

lemma pay_transitionPayment [preserved]:
  assumes "plain_state tgt"
  shows "preserves pay_inv (transitionPayment pid tgt actor reason v)"
proof (rule preservesI)
  fix s r t
  assume inv: "pay_inv s" and run: "transitionPayment pid tgt actor reason v s = (r, t)"
  show "pay_inv t"
  proof (cases r)
    case (Inl e)
    with inv run show ?thesis by (auto dest: transitionPayment_err)
  next
    case (Inr x)
    with run have "transitionPayment pid tgt actor reason v s = (Inr x, t)" by simp
    then show ?thesis
    proof (cases rule: transitionPayment_ok)
      case (2 p h)
      let ?f = "\<lambda>q. q\<lparr>p_status := tgt, p_version := p_version p + 1, p_updatedAt := now s\<rparr>"
      have "distinct (map p_id (payments s))" and p: "pay_ok (walletReservations s) p"
        using inv 2(2) by (simp_all add: pay_inv_def pay_ids_def)
      have ok: "pay_ok (walletReservations s) (?f q)" if q: "q \<in> set (payments s)" "p_id q = pid" for q
      proof -
        have "q = p" by (rule distinct_key_eq [OF \<open>distinct _\<close> q(1) 2(2)]) (simp add: q 2)
        then show ?thesis by (intro pay_ok_plain [OF p 2(4) assms]) (simp add: payment_key_def)
      qed
      show ?thesis
        by (rule pay_inv_set [OF pay_inv_except [OF inv], of t pid ?f]) (simp_all add: 2(8) ok)
    qed (use inv in simp)
  qed
qed

section \<open>Rows of payments\<close>

lemma pay_updatePayment:
  assumes "\<And>rs p. pay_ok rs p \<Longrightarrow> pay_ok rs (f p)" and "\<And>p. p_id (f p) = p_id p"
  shows "preserves pay_inv (updatePayment pid f)"
proof (rule preservesI)
  fix s r t
  assume inv: "pay_inv s" and run: "updatePayment pid f s = (r, t)"
  have "pay_ok rs (q\<lparr>p_updatedAt := u\<rparr>) \<longleftrightarrow> pay_ok rs q" for rs q u
    by (rule pay_ok_key) (simp add: payment_key_def)
  with inv assms(1) have ok: "pay_ok (walletReservations s) ((f q)\<lparr>p_updatedAt := now s\<rparr>)" if "q \<in> set (payments s)" for q
    using that by (simp add: pay_inv_def)
  have t: "t = s\<lparr>payments := update_rows (\<lambda>p. p_id p = pid) (\<lambda>q. (f q)\<lparr>p_updatedAt := now s\<rparr>) (payments s)\<rparr>"
    using run by (simp add: updatePayment_def modify_def)
  show "pay_inv t"
    by (rule pay_inv_set [OF pay_inv_except [OF inv], of t pid "\<lambda>q. (f q)\<lparr>p_updatedAt := now s\<rparr>"])
       (simp_all add: t ok assms(2))
qed

lemma pay_updatePayment_key [preserved]:
  assumes "\<And>p. payment_key (f p) = payment_key p"
  shows "preserves pay_inv (updatePayment pid f)"
proof (rule pay_updatePayment)
  fix rs p
  show "pay_ok rs p \<Longrightarrow> pay_ok rs (f p)" using pay_ok_key [OF assms [of p], of rs] by blast
  show "p_id (f p) = p_id p" using assms [of p] by (simp add: payment_key_def)
qed

lemma pay_ok_reversed: "pay_ok rs p \<Longrightarrow> pay_ok rs (p\<lparr>p_status := REVERSED\<rparr>)"
  by (auto simp: pay_ok_def batch_state_def split: option.splits)

lemma pay_reversedPayment:
  assumes "\<And>p. payment_key (f p) = payment_key (p\<lparr>p_status := REVERSED\<rparr>)"
  shows "preserves pay_inv (updatePayment pid f)"
proof (rule pay_updatePayment)
  fix rs p
  show "pay_ok rs p \<Longrightarrow> pay_ok rs (f p)" using pay_ok_key [OF assms [of p], of rs] pay_ok_reversed by blast
  show "p_id (f p) = p_id p" using assms [of p] by (simp add: payment_key_def)
qed

lemma reservation_of_fresh:
  "pay_ids s \<Longrightarrow> pid \<notin> p_id ` set (payments s) \<Longrightarrow> reservation_of (walletReservations s) pid = None"
  unfolding reservation_of_def find_None_iff pay_ids_def by (auto simp: image_subset_iff)

lemma pay_insertPayment [preserved]:
  assumes new: "\<And>pid s. new_payment (mk pid s)"
  shows "preserves pay_inv (insertPayment mk)"
proof (rule preservesI)
  fix s r t
  assume inv: "pay_inv s" and run: "insertPayment mk s = (r, t)"
  let ?s = "s\<lparr>uuid_next := Suc (uuid_next s)\<rparr>"
  let ?id = "uuid_gen s (uuid_next s)"
  let ?p = "(mk ?id ?s)\<lparr>p_id := ?id, p_createdAt := now s, p_updatedAt := now s\<rparr>"
  have s': "pay_inv ?s" by (rule pay_inv_frame [OF inv]) simp_all
  from run have "t = ?s \<or> t = ?s\<lparr>payments := payments s @ [?p]\<rparr>"
    by (auto simp: insertPayment_def tx_run fresh_id_def split: if_splits)
  moreover have "pay_inv (?s\<lparr>payments := payments s @ [?p]\<rparr>)"
  proof -
    have "?id \<notin> used_ids s" using inv by (intro fresh_not_used) (simp add: pay_inv_def pay_ids_def)
    then have fresh: "?id \<notin> p_id ` set (payments s)" using inv by (auto simp: pay_inv_def pay_ids_def)
    then have none: "reservation_of (walletReservations s) ?id = None"
      using inv by (intro reservation_of_fresh) (simp_all add: pay_inv_def)
    have "new_payment ?p" using new [of ?id ?s] by (simp add: new_payment_def split: option.splits)
    then have "pay_ok (walletReservations s) ?p"
      using none by (auto simp: pay_ok_def new_payment_def batch_state_def split: option.splits)
    moreover have "pay_ids (?s\<lparr>payments := payments s @ [?p]\<rparr>)"
      using inv fresh by (auto simp: pay_inv_def pay_ids_def uuids_distinct_def used_ids_def)
    ultimately show ?thesis using inv by (auto simp: pay_inv_def)
  qed
  ultimately show "pay_inv t" using s' by blast
qed

lemma hist_updatePayment [preserved]: "preserves hist_inv (updatePayment pid f)"
  unfolding updatePayment_def by (intro preserved) simp

lemma hist_insertPayment [preserved]: "preserves hist_inv (insertPayment mk)"
  unfolding insertPayment_def by (intro preserved) simp

lemma hist_initial: "preserves hist_inv (insertStatusHistory pid None DRAFT r actor)"
  unfolding insertStatusHistory_def
  by (intro preserved preserves_modify) (simp add: hist_inv_def legal_step_def)

lemma pay_insertStatusHistory [preserved]: "preserves pay_inv (insertStatusHistory pid a b r actor)"
  unfolding insertStatusHistory_def by (intro preserved) simp_all

section \<open>Commands of the other packages\<close>

lemma pay_approval_commands [preserved]:
  "preserves pay_inv (createApprovalRequest ca)" "preserves pay_inv (recordApprovalAction ai)"
  "preserves pay_inv (expireDueApprovals t0)"
  unfolding createApprovalRequest_def insertStep_def recordApprovalAction_def insertAction_def rejectRequest_def
    approveStep_def setRequest_def setStepStatus_def expireDueApprovals_def
  by (intro preserved preserves_case_decision; simp)+

lemma hist_approval_commands [preserved]:
  "preserves hist_inv (createApprovalRequest ca)" "preserves hist_inv (recordApprovalAction ai)"
  "preserves hist_inv (expireDueApprovals t0)"
  unfolding createApprovalRequest_def insertStep_def recordApprovalAction_def insertAction_def rejectRequest_def
    approveStep_def setRequest_def setStepStatus_def expireDueApprovals_def
  by (intro preserved preserves_case_decision; simp)+

lemma pay_ledger_commands [preserved]:
  "preserves pay_inv (postJournal j)" "preserves pay_inv (ensureSystemChart tid)"
  "preserves pay_inv (recordWalletFunding tid wid rt ri amt nt)"
  unfolding postJournal_def postJournalEntry_def insertJournalEntry_def insertSnapshot_def
    ensureSystemChart_def insertChartAccount_def insertSystemAccount_def recordWalletFunding_def appendWalletLedgerEntry_def
  by (intro preserved; simp add: Let_def)+

lemma hist_ledger_commands [preserved]:
  "preserves hist_inv (postJournal j)" "preserves hist_inv (ensureSystemChart tid)"
  "preserves hist_inv (recordWalletFunding tid wid rt ri amt nt)"
  unfolding postJournal_def postJournalEntry_def insertJournalEntry_def insertSnapshot_def
    ensureSystemChart_def insertChartAccount_def insertSystemAccount_def recordWalletFunding_def appendWalletLedgerEntry_def
  by (intro preserved; simp add: Let_def)+

lemma hist_wallet_commands [preserved]:
  "preserves hist_inv (reserveFunds tid pid wid amt)" "preserves hist_inv (releaseReservation rid)"
  "preserves hist_inv (applyReservation rid)"
  unfolding reserveFunds_def reserveFunds_attempt_def insertReservation_def releaseReservation_def
    applyReservation_def setReservationStatus_def appendWalletLedgerEntry_def
  by (intro preserved; simp)+

lemma pay_getWalletLedgerAccount [preserved]: "preserves pay_inv (getWalletLedgerAccount wid tid)"
proof -
  have "preserves pay_inv (getWalletLedgerAccount_fuel n wid tid)" for n
    by (induction n) (auto intro!: preserved simp: Let_def)
  then show ?thesis by (simp add: getWalletLedgerAccount_def)
qed

lemma hist_getWalletLedgerAccount [preserved]: "preserves hist_inv (getWalletLedgerAccount wid tid)"
proof -
  have "preserves hist_inv (getWalletLedgerAccount_fuel n wid tid)" for n
    by (induction n) (auto intro!: preserved simp: Let_def)
  then show ?thesis by (simp add: getWalletLedgerAccount_def)
qed

lemma pay_payment_event [preserved]: "preserves pay_inv (payment_event ty pid tid extra)"
  unfolding payment_event_def enqueueOutbox_def by (intro preserved; simp)

lemma hist_payment_event [preserved]: "preserves hist_inv (payment_event ty pid tid extra)"
  unfolding payment_event_def enqueueOutbox_def by (intro preserved; simp)

lemma pay_postPaymentSuccessJournal [preserved]:
  "preserves pay_inv (postPaymentSuccessJournal tid pid wid amt fee actor)"
  unfolding postPaymentSuccessJournal_def getSystemAccount_def by (intro preserved)

lemma hist_postPaymentSuccessJournal [preserved]:
  "preserves hist_inv (postPaymentSuccessJournal tid pid wid amt fee actor)"
  unfolding postPaymentSuccessJournal_def getSystemAccount_def by (intro preserved)

section \<open>Reservations and payments\<close>

lemma reservation_of_append:
  "reservation_of (rs @ [r]) pid =
     (case reservation_of rs pid of Some x \<Rightarrow> Some x | None \<Rightarrow> if wr_paymentId r = pid then Some r else None)"
  by (induction rs) (simp_all add: reservation_of_def)

lemma reservation_of_update_other:
  "(\<And>x. x \<in> set rs \<Longrightarrow> Q x \<Longrightarrow> wr_paymentId x \<noteq> pid \<and> wr_paymentId (f x) \<noteq> pid) \<Longrightarrow>
     reservation_of (update_rows Q f rs) pid = reservation_of rs pid"
  by (induction rs) (auto simp: reservation_of_def)

lemma reservation_of_settle:
  "distinct (map wr_id rs) \<Longrightarrow> reservation_of rs pid = Some r \<Longrightarrow>
     reservation_of (update_rows (\<lambda>q. wr_id q = wr_id r) (\<lambda>q. q\<lparr>wr_status := st\<rparr>) rs) pid = Some (r\<lparr>wr_status := st\<rparr>)"
proof (induction rs)
  case (Cons x rs)
  show ?case
  proof (cases "wr_paymentId x = pid")
    case True
    with Cons.prems show ?thesis by (auto simp: reservation_of_def)
  next
    case False
    with Cons.prems have "r \<in> set rs" by (auto simp: reservation_of_def dest: find_SomeD)
    with Cons.prems have "wr_id x \<noteq> wr_id r" by (auto simp: image_iff)
    with False Cons show ?thesis by (simp add: reservation_of_def)
  qed
qed (simp add: reservation_of_def)

lemma pay_ok_other:
  "reservation_of rs' (p_id p) = reservation_of rs (p_id p) \<Longrightarrow> pay_ok rs p \<Longrightarrow> pay_ok rs' p"
  by (simp add: pay_ok_def split: option.splits)

lemma pay_except_reserve:
  assumes inv: "pay_inv s" and t: "uuid_gen t = uuid_gen s" "uuid_next s \<le> uuid_next t" "payments t = payments s"
    "walletReservations t = walletReservations s @ [r]" and r: "wr_paymentId r \<in> p_id ` set (payments s)"
  shows "pay_except (wr_paymentId r) t"
proof -
  have "pay_ids t" using inv t r by (intro pay_ids_frame [of s t]) (auto simp: pay_inv_def pay_ids_def)
  moreover have "pay_ok (walletReservations t) p" if p: "p \<in> set (payments t)" "p_id p \<noteq> wr_paymentId r" for p
  proof (rule pay_ok_other)
    show "pay_ok (walletReservations s) p" using inv p t by (simp add: pay_inv_def)
    show "reservation_of (walletReservations t) (p_id p) = reservation_of (walletReservations s) (p_id p)"
      using p by (simp add: t reservation_of_append split: option.splits)
  qed
  ultimately show ?thesis by (simp add: pay_except_def)
qed

lemma pay_except_settle:
  assumes inv: "pay_inv s" and dist: "distinct (map wr_id (walletReservations s))" and r: "r \<in> set (walletReservations s)"
    and t: "uuid_gen t = uuid_gen s" "uuid_next s \<le> uuid_next t" "payments t = payments s"
    "walletReservations t = update_rows (\<lambda>q. wr_id q = wr_id r) (\<lambda>q. q\<lparr>wr_status := st\<rparr>) (walletReservations s)"
  shows "pay_except (wr_paymentId r) t"
proof -
  have "pay_ids t" using inv t by (intro pay_ids_frame [of s t]) (auto simp: pay_inv_def pay_ids_def)
  moreover have "pay_ok (walletReservations t) p" if p: "p \<in> set (payments t)" "p_id p \<noteq> wr_paymentId r" for p
  proof (rule pay_ok_other)
    show "pay_ok (walletReservations s) p" using inv p t by (simp add: pay_inv_def)
    show "reservation_of (walletReservations t) (p_id p) = reservation_of (walletReservations s) (p_id p)"
      unfolding t(4)
    proof (rule reservation_of_update_other)
      fix x
      assume "x \<in> set (walletReservations s)" "wr_id x = wr_id r"
      then have "x = r" using distinct_key_eq [OF dist _ r] by blast
      with p(2) show "wr_paymentId x \<noteq> p_id p \<and> wr_paymentId (x\<lparr>wr_status := st\<rparr>) \<noteq> p_id p" by auto
    qed
  qed
  ultimately show ?thesis by (simp add: pay_except_def)
qed

lemma transition_restores:
  assumes ex: "pay_except pid s" and run: "transitionPayment pid tgt actor reason v s = (Inr x, t)"
    and ok: "\<And>p. p \<in> set (payments s) \<Longrightarrow> p_id p = pid \<Longrightarrow> canTransition (p_status p) tgt \<Longrightarrow>
       pay_ok (walletReservations s) (p\<lparr>p_status := tgt\<rparr>)"
  shows "pay_inv t"
proof -
  have dist: "distinct (map p_id (payments s))" using ex by (simp add: pay_except_def pay_ids_def)
  from run show ?thesis
proof (cases rule: transitionPayment_ok)
  case (1 p)
  have "pay_ok (walletReservations s) q" if "q \<in> set (payments s)" "p_id q = pid" for q
  proof -
    have "q = p" by (rule distinct_key_eq [OF dist that(1) 1(2)]) (simp add: that(2) 1(3))
    with ok [OF 1(2,3,4)] show ?thesis
      using pay_ok_key [of "p\<lparr>p_status := tgt\<rparr>" p] 1(5) by (simp add: payment_key_def)
  qed
  with ex 1 show ?thesis by (auto simp: pay_except_def pay_inv_def)
next
  case (2 p h)
  let ?f = "\<lambda>q. q\<lparr>p_status := tgt, p_version := p_version p + 1, p_updatedAt := now s\<rparr>"
  have ok': "pay_ok (walletReservations s) (?f q)" if "q \<in> set (payments s)" "p_id q = pid" for q
  proof -
    have "q = p" by (rule distinct_key_eq [OF dist that(1) 2(2)]) (simp add: that(2) 2(3))
    with ok [OF 2(2,3,4)] show ?thesis
      using pay_ok_key [of "?f p" "p\<lparr>p_status := tgt\<rparr>"] by (simp add: payment_key_def)
  qed
  show ?thesis by (rule pay_inv_set [OF ex, of t ?f]) (simp_all add: 2(8) ok')
qed
qed

section \<open>Queueing a payment\<close>

definition status_in :: "string \<Rightarrow> payment_state set \<Rightarrow> db \<Rightarrow> bool" where
  "status_in pid S s \<longleftrightarrow> (\<forall>p \<in> set (payments s). p_id p = pid \<longrightarrow> p_status p \<in> S)"

lemma status_in_modify [preserved]:
  "(\<And>s. payments (f s) = payments s) \<Longrightarrow> preserves (status_in pid S) (modify f)"
  by (rule preserves_modify) (simp add: status_in_def)

lemma status_in_fresh_id [preserved]: "preserves (status_in pid S) fresh_id"
  by (rule preservesI) (auto simp: fresh_id_def status_in_def)

lemma status_in_updatePayment [preserved]:
  assumes "\<And>p. payment_key (f p) = payment_key p"
  shows "preserves (status_in pid S) (updatePayment q f)"
proof -
  have f: "p_id (f p) = p_id p \<and> p_status (f p) = p_status p" for p
    using assms [of p] by (simp add: payment_key_def)
  show ?thesis
    unfolding updatePayment_def by (rule preserves_modify) (auto simp: status_in_def in_set_update_rows f)
qed

lemma transition_status:
  assumes "distinct (map p_id (payments s))" and "transitionPayment pid tgt actor reason v s = (Inr x, t)"
  shows "status_in pid {tgt} t"
  using assms(2)
proof (cases rule: transitionPayment_ok)
  case (1 p)
  have "q = p" if "q \<in> set (payments s)" "p_id q = pid" for q
    by (rule distinct_key_eq [OF assms(1) that(1) 1(2)]) (simp add: that(2) 1(3))
  with 1(5,6) show ?thesis by (auto simp: status_in_def)
next
  case (2 p h)
  then show ?thesis by (auto simp: status_in_def in_set_update_rows)
qed

lemma reserveFunds_denied:
  assumes inv: "wallet_inv s" and run: "reserveFunds tid pid wid amt s = (Inl e, t)"
  shows "t = s \<or> (\<exists>i. appendWalletLedgerEntry i s = (Inr (), t) \<and> lei_entryType i = RESERVE_DENIED)"
proof -
  obtain r u where att: "reserveFunds_attempt tid pid wid amt s = (r, u)" by fastforce
  show ?thesis
  proof (cases r)
    case (Inl e')
    with att have "u = s" by (simp add: reserveFunds_attempt_def transaction_err)
    with run att Inl show ?thesis by (simp add: reserveFunds_def bind_def)
  next
    case (Inr x)
    with att have ok: "reserveFunds_attempt tid pid wid amt s = (Inr x, u)" by simp
    show ?thesis
    proof (cases x)
      case None
      have "u = s" by (rule reserveFunds_attempt_cases [OF inv ok]) (simp_all add: None)
      with run ok None show ?thesis
        by (auto simp: reserveFunds_def bind_step [of _ s None s] seq_err transaction_err transaction_ok throw_err)
    next
      case (Some y)
      with run ok show ?thesis by (simp add: reserveFunds_def bind_def return_def)
    qed
  qed
qed

lemma reserveFunds_err:
  assumes "wallet_inv s" and "reserveFunds tid pid wid amt s = (Inl e, t)"
  shows "uuid_gen t = uuid_gen s" and "uuid_next s \<le> uuid_next t" and "payments t = payments s"
    and "walletReservations t = walletReservations s"
  using reserveFunds_denied [OF assms] by (auto simp: appendWalletLedgerEntry_ok)

lemma reserveFunds_full:
  assumes inv: "wallet_inv s" and run: "reserveFunds tid pid wid amt s = (Inr x, t)"
  obtains w e where "w \<in> set (wallets s)" "w_id w = wid" "0 \<le> amt" "amt \<le> w_availableMinor w"
    "is_movement e wid RESERVE (- amt) amt" "t = after_reserve tid pid wid amt e s"
    "pid \<in> p_id ` set (payments s)" "pid \<notin> wr_paymentId ` set (walletReservations s)"
proof -
  from run obtain r u where att: "reserveFunds_attempt tid pid wid amt s = (Inr r, u)"
    and rest: "(case r of Some y \<Rightarrow> return y | None \<Rightarrow> seq (transaction (appendWalletLedgerEntry
             \<lparr> lei_tenantId = tid, lei_walletId = wid, lei_entryType = RESERVE_DENIED,
               lei_refType = Some ''payment'', lei_refId = Some pid,
               lei_amountMinor = amt, lei_deltaAvailableMinor = 0, lei_deltaReservedMinor = 0,
               lei_note = Some ''denied: available balance insufficient'' \<rparr>))
           (throw (InsufficientFundsError wid))) u = (Inr x, t)"
    unfolding reserveFunds_def bind_ok by blast
  from inv att show thesis
  proof (cases rule: reserveFunds_attempt_cases)
    case 1
    with rest show thesis by (simp add: seq_ok throw_ok)
  next
    case (2 w e)
    with rest that show thesis by (simp add: return_ok)
  qed
qed

lemma reserveFunds_ok:
  assumes "wallet_inv s" and "reserveFunds tid pid wid amt s = (Inr x, t)"
  obtains e where "t = after_reserve tid pid wid amt e s" "pid \<in> p_id ` set (payments s)"
    "pid \<notin> wr_paymentId ` set (walletReservations s)"
  by (rule reserveFunds_full [OF assms]) (rule that)

lemma pay_ok_unreserved:
  assumes "pay_ok rs p" and "p_status p \<in> {VALIDATING, APPROVED}"
  shows "p_batchId p = None" and "reservation_of rs (p_id p) = None" and "p_sourceWalletId p \<noteq> None"
    and "p_totalMinor p = p_amountMinor p + p_feeMinor p"
  using assms by (auto simp: pay_ok_def batch_state_def split: option.splits)

lemma queuePayment_ok:
  assumes run: "queuePayment pid actor tid s = (Inr x, t)" and p: "find (\<lambda>p. p_id p = pid) (payments s) = Some p"
  shows "(\<exists>y u v. reserveFunds tid pid (nullish (p_sourceWalletId p) []) (p_totalMinor p) s = (Inr y, u) \<and>
       transitionPayment pid QUEUED (Some actor) (Some ''queued for execution'') None u = (Inr (), v) \<and>
       payment_event ''payment.queued'' pid tid [] v = (Inr (), t) \<and> x = QUEUED) \<or>
     (\<exists>w u v. reserveFunds tid pid (nullish (p_sourceWalletId p) []) (p_totalMinor p) s = (Inl (InsufficientFundsError w), u) \<and>
       transitionPayment pid FAILED (Some actor) (Some ''insufficient balance'') None u = (Inr (), v) \<and>
       payment_event ''payment.failed'' pid tid [(''reason'', JString ''insufficient balance'')] v = (Inr (), t) \<and> x = FAILED)"
proof -
  from p have pid: "p_id p = pid" by (auto dest: find_SomeD)
  obtain r u where res: "reserveFunds tid pid (nullish (p_sourceWalletId p) []) (p_totalMinor p) s = (r, u)" by fastforce
  show ?thesis
  proof (cases r)
    case (Inl e)
    with run res p pid show ?thesis
      by (cases e) (auto simp: queuePayment_def tx_ok tx_err bind_def [of "reserveFunds _ _ _ _"] throw_def)
  next
    case (Inr y)
    with run res p pid show ?thesis
      by (auto simp: queuePayment_def tx_ok bind_def [of "reserveFunds _ _ _ _"] return_def)
  qed
qed

lemma pay_queuePayment:
  assumes w: "wallet_inv s" and inv: "pay_inv s" and st: "status_in pid {VALIDATING, APPROVED} s"
    and run: "queuePayment pid actor tid s = (Inr x, t)"
  shows "pay_inv t"
proof -
  obtain p where p: "find (\<lambda>p. p_id p = pid) (payments s) = Some p"
    using run by (auto simp: queuePayment_def tx_ok)
  then have pin: "p \<in> set (payments s)" "p_id p = pid" by (auto dest: find_SomeD)
  have ok: "pay_ok (walletReservations s) p" using inv pin by (simp add: pay_inv_def)
  note un = pay_ok_unreserved [OF ok]
  have stp: "p_status p \<in> {VALIDATING, APPROVED}" using st pin unfolding status_in_def by blast
  have dist: "distinct (map p_id (payments s))" using inv by (simp add: pay_inv_def pay_ids_def)
  have only: "q = p" if "q \<in> set (payments s)" "p_id q = pid" for q
    by (rule distinct_key_eq [OF dist that(1) pin(1)]) (simp add: that(2) pin(2))
  let ?wid = "nullish (p_sourceWalletId p) []"
  let ?res = "reserveFunds tid pid ?wid (p_totalMinor p) s"
  consider (queued) y u v1 where "?res = (Inr y, u)" "transitionPayment pid QUEUED (Some actor) (Some ''queued for execution'') None u = (Inr (), v1)"
      "payment_event ''payment.queued'' pid tid [] v1 = (Inr (), t)"
    | (failed) wid u v1 where "?res = (Inl (InsufficientFundsError wid), u)"
      "transitionPayment pid FAILED (Some actor) (Some ''insufficient balance'') None u = (Inr (), v1)"
      "payment_event ''payment.failed'' pid tid [(''reason'', JString ''insufficient balance'')] v1 = (Inr (), t)"
    using queuePayment_ok [OF run p] by blast
  then show ?thesis
  proof cases
    case queued
    obtain e where u: "u = after_reserve tid pid ?wid (p_totalMinor p) e s" and pid: "pid \<in> p_id ` set (payments s)"
      using reserveFunds_ok [OF w queued(1)] .
    let ?r = "\<lparr> wr_id = uuid_gen s (uuid_next s), wr_tenantId = tid, wr_paymentId = pid, wr_walletId = ?wid,
          wr_amountMinor = p_totalMinor p, wr_status = HELD \<rparr>"
    have ex: "pay_except pid u"
      using pay_except_reserve [OF inv, of u ?r] pid by (simp add: u after_reserve_def)
    have "pay_inv v1"
    proof (rule transition_restores [OF ex queued(2)])
      fix q
      assume "q \<in> set (payments u)" "p_id q = pid"
      then have "q = p" by (intro only) (simp_all add: u after_reserve_def)
      with un [OF stp] pin show "pay_ok (walletReservations u) (q\<lparr>p_status := QUEUED\<rparr>)"
        by (auto simp: u after_reserve_def pay_ok_def reservation_of_append)
    qed
    with queued(3) show ?thesis by (rule preservesD [OF pay_payment_event, rotated])
  next
    case failed
    note fr = reserveFunds_err [OF w failed(1)]
    have "pay_inv u" by (rule pay_inv_frame [OF inv fr])
    then have "pay_except pid u" by (rule pay_inv_except)
    then have "pay_inv v1"
    proof (rule transition_restores [OF _ failed(2)])
      fix q
      assume "q \<in> set (payments u)" "p_id q = pid"
      then have "q = p" by (intro only) (simp_all add: fr)
      with un [OF stp] pin show "pay_ok (walletReservations u) (q\<lparr>p_status := FAILED\<rparr>)"
        by (auto simp: fr pay_ok_def)
    qed
    with failed(3) show ?thesis by (rule preservesD [OF pay_payment_event, rotated])
  qed
qed

lemma pay_screenPayment [preserved]: "preserves pay_inv (screenPayment p tid actor)"
  unfolding screenPayment_def screenRecipientForPayment_def screenRecipient_def screenName_def openCaseForHit_def
  by (intro preserved; simp add: payment_key_def)

lemma status_in_screenPayment [preserved]: "preserves (status_in pid S) (screenPayment p tid actor)"
  unfolding screenPayment_def screenRecipientForPayment_def screenRecipient_def screenName_def openCaseForHit_def
  by (intro preserved; simp add: payment_key_def)

lemma hist_screenPayment [preserved]: "preserves hist_inv (screenPayment p tid actor)"
  unfolding screenPayment_def screenRecipientForPayment_def screenRecipient_def screenName_def openCaseForHit_def
  by (intro preserved; simp add: payment_key_def)

lemma pay_requestPaymentApproval [preserved]: "preserves pay_inv (requestPaymentApproval p tid actor rules ctx)"
  unfolding requestPaymentApproval_def by (intro preserved; simp add: payment_key_def plain_state_def)

text \<open>What follows the move to \<open>VALIDATING\<close> or \<open>APPROVED\<close>: further commands, then \<open>queuePayment\<close>.\<close>

lemma pay_then_queue:
  assumes w: "wallet_inv s" and inv: "pay_inv s" and pl: "plain_state st" "st \<in> {VALIDATING, APPROVED}"
    and tr: "transitionPayment pid st by_actor reason v s = (Inr x, s1)"
    and mid: "m s1 = (Inr y, s2)" and m: "preserves wallet_inv m" "preserves pay_inv m" "preserves (status_in pid {st}) m"
    and q: "queuePayment pid actor tid s2 = (Inr z, t)"
  shows "pay_inv t"
proof (rule pay_queuePayment [OF _ _ _ q])
  have "wallet_inv s1" by (rule preservesD [OF wallet_core.transitionPayment w tr])
  then show "wallet_inv s2" by (rule preservesD [OF m(1) _ mid])
  have "pay_inv s1" by (rule preservesD [OF pay_transitionPayment [OF pl(1)] inv tr])
  then show "pay_inv s2" by (rule preservesD [OF m(2) _ mid])
  have "status_in pid {st} s1" using inv by (intro transition_status [OF _ tr]) (simp add: pay_inv_def pay_ids_def)
  then have "status_in pid {st} s2" by (rule preservesD [OF m(3) _ mid])
  with pl(2) show "status_in pid {VALIDATING, APPROVED} s2" by (auto simp: status_in_def)
qed

lemma getPayment_ok: "getPayment tid pid e s = (Inr p, t) \<Longrightarrow> t = s \<and> p \<in> set (payments s) \<and> p_id p = pid \<and> p_tenantId p = tid"
  by (auto simp: getPayment_def tx_ok dest: find_SomeD)

lemma assertPayeeApproved_ok: "assertPayeeApproved tid b s = (Inr x, t) \<Longrightarrow> t = s"
  by (auto simp: assertPayeeApproved_def tx_ok split: if_splits)

lemma pay_submitPayment:
  assumes w: "wallet_inv s" and inv: "pay_inv s" and run: "submitPayment tid pid actor rules s = (r, t)"
  shows "pay_inv t"
proof (cases r)
  case (Inl e)
  with run inv show ?thesis by (simp add: submitPayment_def transaction_err)
next
  case (Inr x)
  from run obtain p u0 u1 amlHit flags u2 where p: "getPayment tid pid (PaymentError ''Payment not found'' ''PAYMENT_NOT_FOUND'') s = (Inr p, u0)"
    and tr0: "transitionPayment (p_id p) VALIDATING (Some actor) (Some ''submit'') None u0 = (Inr (), u1)"
    and scr: "screenPayment p tid actor u1 = (Inr (amlHit, flags), u2)"
    and rest: "(let ctx = submit_context p flags; rules = submit_rules (nullish rules []) ctx amlHit
      in if evaluatePolicy rules ctx \<noteq> [] then requestPaymentApproval p tid actor rules ctx
         else bind (queuePayment (p_id p) actor tid) (\<lambda>st. return (st, None))) u2 = (Inr x, t)"
    unfolding submitPayment_def transaction_ok bind_ok seq_ok guard_ok Inr
    by (fastforce dest!: assertPayeeApproved_ok)
  have tr: "transitionPayment (p_id p) VALIDATING (Some actor) (Some ''submit'') None s = (Inr (), u1)"
    using tr0 getPayment_ok [OF p] by simp
  let ?ctx = "submit_context p flags"
  let ?rules = "submit_rules (nullish rules []) ?ctx amlHit"
  show ?thesis
  proof (cases "evaluatePolicy ?rules ?ctx = []")
    case True
    with rest obtain st where q: "queuePayment (p_id p) actor tid u2 = (Inr st, t)" by (auto simp: Let_def tx_ok)
    show ?thesis
      by (rule pay_then_queue [OF w inv _ _ tr scr wallet_core.screenPayment _ _ q])
         (simp_all add: plain_state_def pay_screenPayment status_in_screenPayment)
  next
    case False
    with rest have "requestPaymentApproval p tid actor ?rules ?ctx u2 = (Inr x, t)" by (simp add: Let_def)
    moreover have "pay_inv u1" by (rule preservesD [OF pay_transitionPayment inv tr]) (simp add: plain_state_def)
    then have "pay_inv u2" by (rule preservesD [OF pay_screenPayment _ scr])
    ultimately show ?thesis by (rule preservesD [OF pay_requestPaymentApproval, rotated])
  qed
qed

lemma pay_approveQueuedPayment:
  assumes w: "wallet_inv s" and inv: "pay_inv s" and run: "approveQueuedPayment tid pid actor s = (r, t)"
  shows "pay_inv t"
proof (cases r)
  case (Inl e)
  with run inv show ?thesis by (simp add: approveQueuedPayment_def transaction_err)
next
  case (Inr x)
  from run obtain p u0 u1 u2 where p: "getPayment tid pid (PaymentError ''Payment not found'' ''PAYMENT_NOT_FOUND'') s = (Inr p, u0)"
    and tr0: "transitionPayment (p_id p) APPROVED (Some actor) (Some ''approval complete'') None u0 = (Inr (), u1)"
    and upd: "updatePayment (p_id p) (\<lambda>q. q\<lparr>p_approvedById := Some actor, p_approvedAt := Some (now u1)\<rparr>) u1 = (Inr (), u2)"
    and q: "queuePayment (p_id p) actor tid u2 = (Inr x, t)"
    unfolding approveQueuedPayment_def transaction_ok bind_ok seq_ok guard_ok gets_ok Inr by fastforce
  have tr: "transitionPayment (p_id p) APPROVED (Some actor) (Some ''approval complete'') None s = (Inr (), u1)"
    using tr0 getPayment_ok [OF p] by simp
  show ?thesis
    by (rule pay_then_queue [OF w inv _ _ tr upd wallet_core.updatePayment _ _ q])
       (auto simp: plain_state_def payment_key_def intro!: pay_updatePayment_key status_in_updatePayment)
qed

section \<open>Provider outcomes\<close>

lemma backed_settled:
  "backed a r \<Longrightarrow> canTransition a SUCCESS \<Longrightarrow> a \<noteq> SUCCESS \<Longrightarrow> r = Some HELD"
  "backed a r \<Longrightarrow> canTransition a FAILED \<Longrightarrow> a \<noteq> FAILED \<Longrightarrow> r = None \<or> r = Some HELD"
  by (cases a; simp add: canTransition_def)+

lemma settleReservation_cases:
  assumes run: "settleReservation pid settle s = (Inr x, u)"
    and settle: "\<And>r. r \<in> set (walletReservations s) \<Longrightarrow> wr_status r = HELD \<Longrightarrow>
       \<exists>da e. settle (wr_id r) s = (Inr (), after_settle r st da e s)"
  obtains (held) r da e where "reservation_of (walletReservations s) pid = Some r" "r \<in> set (walletReservations s)"
      "wr_paymentId r = pid" "wr_status r = HELD" "u = after_settle r st da e s"
  | (other) "u = s" "\<And>r. reservation_of (walletReservations s) pid = Some r \<Longrightarrow> wr_status r \<noteq> HELD"
proof (cases "reservation_of (walletReservations s) pid")
  case None
  with run that(2) show thesis by (simp add: settleReservation_def tx_ok reservation_of_def)
next
  case (Some r)
  then have r: "r \<in> set (walletReservations s)" "wr_paymentId r = pid" by (auto simp: reservation_of_def dest: find_SomeD)
  show thesis
  proof (cases "wr_status r = HELD")
    case True
    obtain da e where "settle (wr_id r) s = (Inr (), after_settle r st da e s)" using settle [OF r(1) True] by blast
    with run Some True have "u = after_settle r st da e s" by (simp add: settleReservation_def tx_ok reservation_of_def)
    with that(1) [OF Some r True] show thesis by blast
  next
    case False
    with run Some that(2) show thesis by (simp add: settleReservation_def tx_ok reservation_of_def)
  qed
qed

text \<open>The block both outcomes share: settle the reservation, then move the payment.\<close>

lemma pay_settle_transition:
  assumes w: "wallet_inv s" and inv: "pay_inv s" and tgt: "tgt = SUCCESS \<and> st = APPLIED \<or> tgt = FAILED \<and> st = RELEASED"
    and notyet: "\<not> status_in pid {tgt} s"
    and settle: "\<And>r. r \<in> set (walletReservations s) \<Longrightarrow> wr_status r = HELD \<Longrightarrow>
       \<exists>da e. settle (wr_id r) s = (Inr (), after_settle r st da e s)"
    and run: "settleReservation pid settle s = (Inr x, u)" and tr: "transitionPayment pid tgt actor reason v u = (Inr y, t)"
  shows "pay_inv t"
proof -
  have dist: "distinct (map p_id (payments s))" using inv by (simp add: pay_inv_def pay_ids_def)
  obtain p where p: "p \<in> set (payments s)" "p_id p = pid" "p_status p \<noteq> tgt" using notyet by (auto simp: status_in_def)
  have only: "q = p" if "q \<in> set (payments s)" "p_id q = pid" for q
    by (rule distinct_key_eq [OF dist that(1) p(1)]) (simp add: that(2) p(2))
  have ok: "pay_ok (walletReservations s) p" using inv p by (simp add: pay_inv_def)
  show ?thesis
  proof (rule settleReservation_cases [OF run settle], goal_cases)
    case held: (3 r da e)
    have wd: "distinct (map wr_id (walletReservations s))" using wallet_invD(3) [OF w] .
    have ex: "pay_except pid u"
      using pay_except_settle [OF inv wd held(2), of u st] held(3) by (simp add: held(5) after_settle_def)
    have res: "reservation_of (walletReservations u) pid = Some (r\<lparr>wr_status := st\<rparr>)"
      by (simp add: held(5) after_settle_def reservation_of_settle [OF wd held(1)])
    show ?thesis
    proof (rule transition_restores [OF ex tr])
      fix q
      assume "q \<in> set (payments u)" "p_id q = pid" and can: "canTransition (p_status q) tgt"
      then have q: "q = p" by (intro only) (simp_all add: held(5) after_settle_def)
      show "pay_ok (walletReservations u) (q\<lparr>p_status := tgt\<rparr>)"
        using ok res held(1) p(2) tgt by (auto simp: pay_ok_def q split: option.splits)
    qed
  next
    case other: 4
    show ?thesis
    proof (rule transition_restores [OF _ tr])
      show "pay_except pid u" using inv by (simp add: other(1) pay_inv_except)
      fix q
      assume "q \<in> set (payments u)" "p_id q = pid" and can: "canTransition (p_status q) tgt"
      then have q: "q = p" by (intro only) (simp_all add: other(1))
      have "reservation_of (walletReservations s) pid = None" if "p_batchId p = None"
        using ok other(2) p(2,3) can tgt that backed_settled [of "p_status p"]
        by (fastforce simp: pay_ok_def q)
      moreover have "tgt = FAILED" if "p_batchId p = None"
        using ok calculation that p(2,3) can tgt backed_settled [of "p_status p"] by (fastforce simp: pay_ok_def q)
      ultimately show "pay_ok (walletReservations u) (q\<lparr>p_status := tgt\<rparr>)"
        using ok p(2) tgt can batch_state_closed by (auto simp: pay_ok_def q other(1) split: option.splits)
    qed
  qed
qed

lemma found_status:
  assumes "distinct (map p_id (payments s))" and "find (\<lambda>p. p_id p = pid) (payments s) = Some p"
  shows "p \<in> set (payments s)" and "p_id p = pid" and "status_in pid S s \<longleftrightarrow> p_status p \<in> S"
proof -
  show p: "p \<in> set (payments s)" "p_id p = pid" using assms(2) by (auto dest: find_SomeD)
  have "q = p" if "q \<in> set (payments s)" "p_id q = pid" for q
    by (rule distinct_key_eq [OF assms(1) that(1) p(1)]) (simp add: that(2) p(2))
  then show "status_in pid S s \<longleftrightarrow> p_status p \<in> S" using p unfolding status_in_def by blast
qed

lemma pay_applyProviderSuccess:
  assumes w: "wallet_inv s" and inv: "pay_inv s" and run: "applyProviderSuccess pid ref ev s = (Inr x, t)"
  shows "pay_inv t"
proof -
  from run obtain p where p: "find (\<lambda>p. p_id p = pid) (payments s) = Some p" 
    by (cases "find (\<lambda>p. p_id p = pid) (payments s)")
       (auto simp: applyProviderSuccess_def bind_def gets_def require_def throw_def)
  have dist: "distinct (map p_id (payments s))" using inv by (simp add: pay_inv_def pay_ids_def)
  note pf = found_status [OF dist p]
  show ?thesis
  proof (cases "p_status p = SUCCESS")
    case True
    with run p inv show ?thesis by (simp add: applyProviderSuccess_def bind_def gets_def require_def return_def)
  next
    case False
    with run p pf(2) obtain reason u v where set: "settleReservation pid applyReservation s = (Inr (), u)"
      and tr: "transitionPayment pid SUCCESS None reason None u = (Inr (), v)"
      and rest: "seq (updatePayment pid (\<lambda>q. q\<lparr>p_providerReference := Some ref,
               p_providerStatus := Some ''SUCCESS'', p_successAt := Some (now v)\<rparr>))
       (seq (postPaymentSuccessJournal (p_tenantId p) pid (p_sourceWalletId p) (p_amountMinor p) (p_feeMinor p) None)
            (payment_event ''payment.succeeded'' pid (p_tenantId p) [(''providerReference'', JString ref)])) v = (Inr x, t)"
      unfolding applyProviderSuccess_def by (auto simp: bind_ok seq_ok [of "guard _ _"] seq_ok [of "settleReservation _ _"]
          seq_ok [of "transitionPayment _ _ _ _ _"] gets_ok require_ok guard_ok)
    have held: "\<exists>da e. applyReservation (wr_id r) s = (Inr (), after_settle r APPLIED da e s)"
      if "r \<in> set (walletReservations s)" "wr_status r = HELD" for r
      using applyReservation_held [OF w that] by blast
    have "\<not> status_in pid {SUCCESS} s" using False pf(3) by simp
    then have "pay_inv v" by (intro pay_settle_transition [OF w inv _ _ held set tr]) simp_all
    moreover have "preserves pay_inv (seq (updatePayment pid (\<lambda>q. q\<lparr>p_providerReference := Some ref,
               p_providerStatus := Some ''SUCCESS'', p_successAt := Some (now v)\<rparr>))
       (seq (postPaymentSuccessJournal (p_tenantId p) pid (p_sourceWalletId p) (p_amountMinor p) (p_feeMinor p) None)
            (payment_event ''payment.succeeded'' pid (p_tenantId p) [(''providerReference'', JString ref)])))"
      by (intro preserved; simp add: payment_key_def)
    ultimately show ?thesis using rest by (meson preservesD)
  qed
qed

lemma pay_applyProviderFailure:
  assumes w: "wallet_inv s" and inv: "pay_inv s" and run: "applyProviderFailure pid code msg ev s = (Inr x, t)"
  shows "pay_inv t"
proof -
  from run obtain p where p: "find (\<lambda>p. p_id p = pid) (payments s) = Some p" 
    by (cases "find (\<lambda>p. p_id p = pid) (payments s)")
       (auto simp: applyProviderFailure_def bind_def gets_def require_def throw_def)
  have dist: "distinct (map p_id (payments s))" using inv by (simp add: pay_inv_def pay_ids_def)
  note pf = found_status [OF dist p]
  show ?thesis
  proof (cases "p_status p \<in> {FAILED, CANCELLED, REVERSED}")
    case True
    with run p inv show ?thesis by (simp add: applyProviderFailure_def bind_def gets_def require_def return_def)
  next
    case False
    with run p pf(2) obtain reason u v where set: "settleReservation pid releaseReservation s = (Inr (), u)"
      and tr: "transitionPayment pid FAILED None reason None u = (Inr (), v)"
      and rest: "seq (updatePayment pid (\<lambda>q. q\<lparr>p_providerStatus := Some ''FAILED'', p_failureReason := Some (take 500 msg)\<rparr>))
            (payment_event ''payment.failed'' pid (p_tenantId p)
               [(''errorCode'', JString code), (''errorMessage'', JString msg)]) v = (Inr x, t)"
      unfolding applyProviderFailure_def by (auto simp: bind_ok seq_ok [of "settleReservation _ _"]
          seq_ok [of "transitionPayment _ _ _ _ _"] gets_ok require_ok)
    have held: "\<exists>da e. releaseReservation (wr_id r) s = (Inr (), after_settle r RELEASED da e s)"
      if "r \<in> set (walletReservations s)" "wr_status r = HELD" for r
      using releaseReservation_held [OF w that] by blast
    have "\<not> status_in pid {FAILED} s" using False pf(3) by simp
    then have "pay_inv v" by (intro pay_settle_transition [OF w inv _ _ held set tr]) simp_all
    moreover have "preserves pay_inv (seq (updatePayment pid (\<lambda>q. q\<lparr>p_providerStatus := Some ''FAILED'', p_failureReason := Some (take 500 msg)\<rparr>))
            (payment_event ''payment.failed'' pid (p_tenantId p)
               [(''errorCode'', JString code), (''errorMessage'', JString msg)]))"
      by (intro preserved; simp add: payment_key_def)
    ultimately show ?thesis using rest by (meson preservesD)
  qed
qed

section \<open>The invariant of the payment commands\<close>

definition payment_inv :: "db \<Rightarrow> bool" where
  "payment_inv s \<longleftrightarrow> wallet_inv s \<and> pay_inv s \<and> hist_inv s"

lemma payment_invI:
  "preserves wallet_inv m \<Longrightarrow> preserves pay_inv m \<Longrightarrow> preserves hist_inv m \<Longrightarrow> preserves payment_inv m"
  unfolding payment_inv_def by (rule preservesI) (meson preservesD)

lemma hist_submitPayment: "preserves hist_inv (submitPayment tid pid actor rules)"
  unfolding submitPayment_def queuePayment_def requestPaymentApproval_def assertPayeeApproved_def getPayment_def
  by (intro preserved)

lemma hist_approveQueuedPayment: "preserves hist_inv (approveQueuedPayment tid pid actor)"
  unfolding approveQueuedPayment_def queuePayment_def getPayment_def by (intro preserved)

lemma hist_applyProvider:
  "preserves hist_inv (applyProviderSuccess pid ref ev)" "preserves hist_inv (applyProviderFailure pid code msg ev)"
  unfolding applyProviderSuccess_def applyProviderFailure_def settleReservation_def by (intro preserved)+

interpretation payment_core: system_invariant payment_inv
proof (unfold_locales, goal_cases)
  case (1 s t)
  then show ?case
    unfolding payment_inv_def
    by (auto intro!: wallet_inv_frame [of s t] pay_inv_frame [of s t] hist_inv_frame [of s t] simp: core_def)
next
  case (9 s wid amt rows u tid rt ri nt x t)
  then show ?case
    unfolding payment_inv_def
    by (auto intro: wallet_core.credit
        preservesD [OF pay_ledger_commands(3) preservesD [OF pay_updateWallets]]
        preservesD [OF hist_ledger_commands(3) preservesD [OF hist_updateWallets]])
next
  case (11 f pid)
  have "preserves pay_inv (updatePayment pid f)" by (rule pay_reversedPayment) (rule 11)
  then show ?case by (rule payment_invI [OF wallet_core.updatePayment _ hist_updatePayment])
next
  case (14 pid r actor)
  show ?case by (rule payment_invI [OF wallet_core.insertStatusHistory pay_insertStatusHistory hist_initial])
next
  case (15 tid pid actor rules)
  show ?case
    unfolding payment_inv_def
    by (rule preservesI) (meson pay_submitPayment preservesD wallet_core.submitPayment hist_submitPayment)
next
  case (16 tid pid actor)
  show ?case
    unfolding payment_inv_def
    by (rule preservesI) (meson pay_approveQueuedPayment preservesD wallet_core.approveQueuedPayment hist_approveQueuedPayment)
next
  case (17 pid ref ev)
  show ?case
    unfolding payment_inv_def
    by (rule commitsI) (meson pay_applyProviderSuccess preservesD wallet_core.applyProviderSuccess hist_applyProvider(1))
next
  case (18 pid code msg ev)
  show ?case
    unfolding payment_inv_def
    by (rule commitsI) (meson pay_applyProviderFailure preservesD wallet_core.applyProviderFailure hist_applyProvider(2))
qed (rule payment_invI; intro preserved; assumption?)+

end
