(* ===== verification/System.thy ===== *)
theory System
  imports Payment_Invariants
begin

text \<open>
  The commands of the platform as one transition system.  A history is any sequence of commands, by any
  actors and with any provider behaviour, with time passing between them; the results below hold in
  every state a history reaches from a fresh installation.
\<close>

section \<open>Commands\<close>

datatype payment_command =
    CreatePayment createPaymentInput
  | SubmitPayment string string string "approvalRule list option"
  | ApproveQueuedPayment string string string
  | CancelPayment string string string "string option"
  | FundWallet string string string string "string option" "string option"
  | RegisterBeneficiary registerBeneficiaryInput
  | ActivateBeneficiary string string string
  | RejectBeneficiary string string string
  | ExecutePayment string string paymentProvider int int
  | RequestReversalApproval string string string string
  | ExecuteApprovedReversal string string string string paymentProvider
  | MonitorStuckPayments paymentProvider "int option" "nat option"

datatype batch_command =
    CreateBatch createBatchInput
  | SubmitBatch string string string "approvalRule list option"
  | ApproveBatch string string string
  | MaterializeBatchRow string string string string "string option"
  | MarkBatchRowOutcome string row_outcome "string option"
  | RefreshBatchStatus string

datatype collection_command =
    RequestStkCollection requestCollectionInput collectionProvider
  | SettleCollection settleInput
  | FailCollection string string "jsval option"
  | ExpireStaleCollections "int option"
  | RecordC2BPayment c2bConfirmation
  | RecordBankCollection bankCollectionInput
  | CreatePaymentLink paymentLinkInput
  | CollectViaPaymentLink string string "string option" "string option"
  | IngestWebhook verifiedWebhook string
  | ProcessWebhookEvent string

datatype recon_command =
    RunReconciliation "string option" "nat option"
  | ReconcileStatement string int int "statementRow list" "string option"
  | ResolveReconException string "string option" "string option" string
  | ReopenReconException string "string option" "string option" "string option"
  | CommentOnReconException string "string option" "string option" string

datatype control_command =
    RecordApprovalAction approvalActionInput
  | ExpireDueApprovals int
  | DecideCase string case_decision string string
  | EnsureSystemChart string
  | DispatchOutboxTick bool "nat option"
  | GcIdempotencyRecords "int option" "int option"
  | AdvanceClock nat

datatype command =
    Pay payment_command
  | Batch batch_command
  | Collect collection_command
  | Recon recon_command
  | Control control_command

definition void :: "'a cmd \<Rightarrow> unit cmd" where
  "void m = seq m (return ())"

text \<open>The relay takes the handler of an event as an argument.  Of \<open>handleOutboxEvent\<close> this is the part that writes
  tables of the model, the batch row of a finished payment; the job queue, the notifications, the tax
  receipts and the webhook fan-out are outside it.\<close>

definition relay_handler :: "outboxEvent \<Rightarrow> unit cmd" where
  "relay_handler e = whenM (ob_eventType e \<in> {''payment.succeeded'', ''payment.failed'', ''payment.reversed''})
     (syncBatchRow (ob_eventType e) (ob_payload e))"

primrec exec_payment :: "payment_command \<Rightarrow> unit cmd" where
  "exec_payment (CreatePayment i) = void (createPayment i)"
| "exec_payment (SubmitPayment t p a r) = void (submitPayment t p a r)"
| "exec_payment (ApproveQueuedPayment t p a) = void (approveQueuedPayment t p a)"
| "exec_payment (CancelPayment t p a r) = cancelPayment t p a r"
| "exec_payment (FundWallet t w amt m r a) = void (fundWallet t w amt m r a)"
| "exec_payment (RegisterBeneficiary i) = void (registerBeneficiary i)"
| "exec_payment (ActivateBeneficiary t b a) = activateBeneficiary t b a"
| "exec_payment (RejectBeneficiary t b a) = rejectBeneficiary t b a"
| "exec_payment (ExecutePayment t p prov n l) = executePayment t p prov n l"
| "exec_payment (RequestReversalApproval t p a r) = void (requestReversalApproval t p a r)"
| "exec_payment (ExecuteApprovedReversal t p a r prov) = void (executeApprovedReversal t p a r prov)"
| "exec_payment (MonitorStuckPayments prov old l) = void (monitorStuckPayments prov old l)"

primrec exec_batch :: "batch_command \<Rightarrow> unit cmd" where
  "exec_batch (CreateBatch i) = void (createBatch i)"
| "exec_batch (SubmitBatch t b a r) = void (submitBatch t b a r)"
| "exec_batch (ApproveBatch t b a) = approveBatch t b a"
| "exec_batch (MaterializeBatchRow t b r a prov) = void (materializeBatchRow t b r a prov)"
| "exec_batch (MarkBatchRowOutcome r st m) = markBatchRowOutcome r st m"
| "exec_batch (RefreshBatchStatus b) = refreshBatchStatus b"

primrec exec_collection :: "collection_command \<Rightarrow> unit cmd" where
  "exec_collection (RequestStkCollection i prov) = void (requestStkCollection i prov)"
| "exec_collection (SettleCollection i) = void (settleCollection i)"
| "exec_collection (FailCollection c r raw) = void (failCollection c r raw)"
| "exec_collection (ExpireStaleCollections old) = void (expireStaleCollections old)"
| "exec_collection (RecordC2BPayment c) = void (recordC2BPayment c)"
| "exec_collection (RecordBankCollection i) = void (recordBankCollection i)"
| "exec_collection (CreatePaymentLink i) = void (createPaymentLink i)"
| "exec_collection (CollectViaPaymentLink tok r n ph) = void (collectViaPaymentLink tok r n ph)"
| "exec_collection (IngestWebhook v h) = void (ingestWebhook v h)"
| "exec_collection (ProcessWebhookEvent e) = processWebhookEvent e"

primrec exec_recon :: "recon_command \<Rightarrow> unit cmd" where
  "exec_recon (RunReconciliation r l) = void (runReconciliation r l)"
| "exec_recon (ReconcileStatement t a b rows actor) = void (reconcileStatement t a b rows actor)"
| "exec_recon (ResolveReconException x t a n) = resolveReconException x t a n"
| "exec_recon (ReopenReconException x t a n) = reopenReconException x t a n"
| "exec_recon (CommentOnReconException x t a n) = commentOnReconException x t a n"

primrec exec_control :: "control_command \<Rightarrow> unit cmd" where
  "exec_control (RecordApprovalAction i) = void (recordApprovalAction i)"
| "exec_control (ExpireDueApprovals t) = void (expireDueApprovals t)"
| "exec_control (DecideCase c d n a) = decideCase c d n a"
| "exec_control (EnsureSystemChart t) = ensureSystemChart t"
| "exec_control (DispatchOutboxTick acq l) = void (dispatchOutboxTick acq relay_handler l)"
| "exec_control (GcIdempotencyRecords a b) = void (gcIdempotencyRecords a b)"
| "exec_control (AdvanceClock d) = modify (\<lambda>s. s\<lparr>now := now s + int d\<rparr>)"

primrec exec :: "command \<Rightarrow> unit cmd" where
  "exec (Pay c) = exec_payment c"
| "exec (Batch c) = exec_batch c"
| "exec (Collect c) = exec_collection c"
| "exec (Recon c) = exec_recon c"
| "exec (Control c) = exec_control c"

lemma preserves_void [preserved]: "preserves P m \<Longrightarrow> preserves P (void m)"
  unfolding void_def by (intro preserved)

section \<open>Histories\<close>

context system_invariant
begin

lemma exec_payment [preserved]: "preserves I (exec_payment c)"
  by (cases c) (simp_all add: preserved)

lemma exec_batch [preserved]: "preserves I (exec_batch c)"
  by (cases c) (simp_all add: preserved)

lemma exec_collection [preserved]: "preserves I (exec_collection c)"
  by (cases c) (simp_all add: preserved)

lemma exec_recon [preserved]: "preserves I (exec_recon c)"
  by (cases c) (simp_all add: preserved)

lemma exec_control [preserved]: "preserves I (exec_control c)"
  by (cases c) (simp_all add: relay_handler_def preserved, simp add: modify core_def)

lemma exec_preserves: "preserves I (exec c)"
  by (cases c) (simp_all add: preserved)

end

sublocale system_invariant \<subseteq> history: command_system exec I
  by unfold_locales (rule exec_preserves)

text \<open>A fresh installation: the tables of money, payments and approvals are empty and the wallets hold
  nothing; configuration tables (tenants, customers, fee rules, watch lists) are arbitrary.\<close>

definition fresh_install :: "db \<Rightarrow> bool" where
  "fresh_install s \<longleftrightarrow> uuids_distinct s \<and> uuid_next s = 0 \<and> distinct (map w_id (wallets s)) \<and>
     list_all (\<lambda>w. w_availableMinor w = 0 \<and> w_reservedMinor w = 0) (wallets s) \<and>
     walletReservations s = [] \<and> walletLedgerEntries s = [] \<and> ledgerAccounts s = [] \<and> journals s = [] \<and>
     journalEntries s = [] \<and> payments s = [] \<and> paymentStatusHistories s = [] \<and>
     approvalRequests s = [] \<and> approvalSteps s = [] \<and> approvalActions s = []"

lemma fresh_ledger_inv: "fresh_install s \<Longrightarrow> ledger_inv s"
  by (simp add: fresh_install_def ledger_inv_def ledger_ids_def journals_balanced_def balances_synced_def entries_wf_def)

lemma fresh_approval_inv: "fresh_install s \<Longrightarrow> approval_inv s"
  by (simp add: fresh_install_def approval_inv_def approval_ids_def actions_ok_def)

lemma fresh_payment_inv: "fresh_install s \<Longrightarrow> payment_inv s"
  by (auto simp: fresh_install_def payment_inv_def wallet_inv_def wallet_ids_def movements_wf_def wallet_row_ok_def
      held_of_def log_available_def log_reserved_def pay_inv_def pay_ids_def hist_inv_def list_all_iff)

section \<open>A small installation\<close>

text \<open>One tenant with one wallet, and ids that count up.\<close>

definition demo_wallet :: wallet where
  "demo_wallet = \<lparr> w_id = ''wallet'', w_tenantId = ''acme'', w_name = ''Main'', w_currency = ''KES'',
     w_availableMinor = 0, w_reservedMinor = 0, w_status = W_ACTIVE, w_createdAt = 0, w_updatedAt = 0 \<rparr>"

definition demo_db :: db where
  "demo_db = (empty_db show_nat 0)\<lparr>wallets := [demo_wallet]\<rparr>"

definition demo_recipient :: recipient where
  "demo_recipient = \<lparr> rc_name = ''Jane'', rc_phone = None, rc_email = None, rc_bankAccountName = None,
     rc_bankAccountNumber = None, rc_bankCode = None, rc_tillNumber = None, rc_paybillNumber = None,
     rc_paybillAccount = None, rc_type = None \<rparr>"

definition demo_payment :: "string \<Rightarrow> string \<Rightarrow> createPaymentInput" where
  "demo_payment key amount = \<lparr> cp_tenantId = ''acme'', cp_actorId = ''maker'', cp_amount = amount, cp_channel = ''mpesa'',
     cp_product = None, cp_sourceWalletId = ''wallet'', cp_branchId = None, cp_departmentId = None,
     cp_category = None, cp_remark = None, cp_recipient = demo_recipient, cp_idempotencyKey = key,
     cp_providerCode = None \<rparr>"

definition demo_provider :: "providerResultStatus \<Rightarrow> paymentProvider" where
  "demo_provider st = (let res = \<lparr> prr_status = st, prr_providerReference = None, prr_errorCode = None, prr_errorMessage = None \<rparr>
     in \<lparr> provider_createPayment = (\<lambda>_. Inr res), provider_getPaymentStatus = (\<lambda>_ _. Inr res),
          provider_reversePayment = (\<lambda>_. Inr res) \<rparr>)"

text \<open>A history at which results are instantiated: the chart of the tenant is created, the wallet is funded, a
  payment is created, submitted and executed, and a second one is drafted.\<close>

definition demo_history :: "command list" where
  "demo_history = [Control (EnsureSystemChart ''acme''),
     Pay (FundWallet ''acme'' ''wallet'' ''1000.00'' ''bank'' None None),
     Pay (CreatePayment (demo_payment ''k1'' ''250.50'')), Pay (SubmitPayment ''acme'' ''21'' ''maker'' None),
     Pay (ExecutePayment ''acme'' ''21'' (demo_provider PR_SUCCESS) 1 0),
     Pay (CreatePayment (demo_payment ''k2'' ''100.00'')), Control (AdvanceClock 60000)]"

lemma demo_fresh: "fresh_install demo_db"
  by (simp add: fresh_install_def demo_db_def demo_wallet_def empty_db_def uuids_distinct_def)

lemma demo_reachable: "reachable exec fresh_install (run_all exec cs demo_db)"
  by (intro reachable_run_all reachable_init demo_fresh)

end
