(* ===== verification/Wallet_Account.thy ===== *)
theory Wallet_Account
  imports System
begin

text \<open>
  What a wallet promises to the rest of the system, as an abstract account with an available and a held
  amount, and the proof that the wallet rows, the reservations and the movement log of packages/ledger
  implement it; then the behaviour of the single wallet commands and the termination of
  \<open>getWalletLedgerAccount\<close>.
\<close>

section \<open>The abstract account\<close>

datatype account_op = Credit int | Hold int | Free int | Capture int | Refuse

fun account_step :: "account_op \<Rightarrow> int \<times> int \<Rightarrow> (int \<times> int) option" where
  "account_step (Credit m) (a, h) = (if 0 \<le> m then Some (a + m, h) else None)"
| "account_step (Hold m) (a, h) = (if 0 \<le> m \<and> m \<le> a then Some (a - m, h + m) else None)"
| "account_step (Free m) (a, h) = (if 0 \<le> m \<and> m \<le> h then Some (a + m, h - m) else None)"
| "account_step (Capture m) (a, h) = (if 0 \<le> m \<and> m \<le> h then Some (a, h - m) else None)"
| "account_step Refuse (a, h) = Some (a, h)"

fun account_run :: "account_op list \<Rightarrow> int \<times> int \<Rightarrow> (int \<times> int) option" where
  "account_run [] b = Some b"
| "account_run (x # xs) b = (case account_step x b of None \<Rightarrow> None | Some b' \<Rightarrow> account_run xs b')"

text \<open>The operation a row of the movement log records.\<close>

definition op_of :: "walletLedgerEntry \<Rightarrow> account_op" where
  "op_of e = (case wle_entryType e of
     FUND \<Rightarrow> Credit (wle_deltaAvailableMinor e) | RESERVE \<Rightarrow> Hold (wle_deltaReservedMinor e)
   | RELEASE \<Rightarrow> Free (wle_deltaAvailableMinor e) | APPLY \<Rightarrow> Capture (- wle_deltaReservedMinor e)
   | RESERVE_DENIED \<Rightarrow> Refuse)"

definition account_log :: "string \<Rightarrow> db \<Rightarrow> account_op list" where
  "account_log wid s = map op_of (filter (\<lambda>e. wle_walletId e = wid) (walletLedgerEntries s))"

definition account_of :: "wallet \<Rightarrow> int \<times> int" where
  "account_of w = (w_availableMinor w, w_reservedMinor w)"

text \<open>The simulation relation: running the log of a wallet on an empty account is possible, step by step,
  and ends in the balances of its row.\<close>

definition implements_account :: "db \<Rightarrow> bool" where
  "implements_account s \<longleftrightarrow> (\<forall>w \<in> set (wallets s). account_run (account_log (w_id w) s) (0, 0) = Some (account_of w))"

definition account_inv :: "db \<Rightarrow> bool" where
  "account_inv s \<longleftrightarrow> wallet_inv s \<and> implements_account s"

lemma account_step_nonneg:
  "account_step x b = Some c \<Longrightarrow> 0 \<le> fst b \<Longrightarrow> 0 \<le> snd b \<Longrightarrow> 0 \<le> fst c \<and> 0 \<le> snd c"
  by (cases "(x, b)" rule: account_step.cases) (auto split: if_splits)

lemma account_run_append:
  "account_run (xs @ ys) b = (case account_run xs b of None \<Rightarrow> None | Some c \<Rightarrow> account_run ys c)"
  by (induction xs arbitrary: b) (auto split: option.splits)

lemma implements_frame:
  "implements_account s \<Longrightarrow> wallets t = wallets s \<Longrightarrow> walletLedgerEntries t = walletLedgerEntries s \<Longrightarrow> implements_account t"
  by (simp add: implements_account_def account_log_def)

text \<open>One movement of a wallet with its log entry is one step of its account.\<close>

lemma implements_move:
  assumes inv: "account_inv s" and w: "w \<in> set (wallets s)"
    and t: "wallets t = update_rows (\<lambda>v. w_id v = w_id w) g (wallets s)" "walletLedgerEntries t = walletLedgerEntries s @ [e]"
    and g: "w_id (g w) = w_id w" and e: "wle_walletId e = w_id w"
    and step: "account_step (op_of e) (account_of w) = Some (account_of (g w))"
  shows "implements_account t"
  unfolding implements_account_def
proof
  fix v'
  assume "v' \<in> set (wallets t)"
  then obtain v where v: "v \<in> set (wallets s)" "v' = (if w_id v = w_id w then g v else v)"
    by (auto simp: t(1) in_set_update_rows)
  have dist: "distinct (map w_id (wallets s))" using inv by (auto simp: account_inv_def dest: wallet_invD(2))
  have run: "account_run (account_log (w_id v) s) (0, 0) = Some (account_of v)"
    using inv v(1) by (simp add: account_inv_def implements_account_def)
  show "account_run (account_log (w_id v') t) (0, 0) = Some (account_of v')"
  proof (cases "w_id v = w_id w")
    case True
    have "v = w" by (rule distinct_key_eq [OF dist v(1) w True])
    with v run step g e show ?thesis by (simp add: account_log_def t(2) account_run_append)
  next
    case False
    with v run e show ?thesis by (simp add: account_log_def t(2))
  qed
qed

section \<open>The wallet commands implement it\<close>

text \<open>What a command that moves no money leaves alone.\<close>

definition log_frame :: "wallet list \<Rightarrow> walletReservation list \<Rightarrow> walletLedgerEntry list \<Rightarrow> db \<Rightarrow> bool" where
  "log_frame ws rs es s \<longleftrightarrow> wallets s = ws \<and> walletReservations s = rs \<and> walletLedgerEntries s = es"

lemma log_frame_modify [preserved]:
  "(\<And>s. wallets (f s) = wallets s) \<Longrightarrow> (\<And>s. walletReservations (f s) = walletReservations s) \<Longrightarrow>
     (\<And>s. walletLedgerEntries (f s) = walletLedgerEntries s) \<Longrightarrow>
     preserves (log_frame ws rs es) (modify f)"
  by (rule preserves_modify) (simp add: log_frame_def)

lemma log_frame_fresh_id [preserved]: "preserves (log_frame ws rs es) fresh_id"
  by (rule preservesI) (auto simp: fresh_id_def log_frame_def)

lemma account_framed:
  assumes "preserves wallet_inv m" and "\<And>ws rs es. preserves (log_frame ws rs es) m"
  shows "preserves account_inv m"
proof (rule preservesI)
  fix s r t
  assume inv: "account_inv s" and run: "m s = (r, t)"
  have "log_frame (wallets s) (walletReservations s) (walletLedgerEntries s) t"
    by (rule preservesD [OF assms(2) _ run]) (simp add: log_frame_def)
  moreover have "wallet_inv t" using inv by (intro preservesD [OF assms(1) _ run]) (simp add: account_inv_def)
  ultimately show "account_inv t" using inv implements_frame [of s t] by (simp add: account_inv_def log_frame_def)
qed

lemma account_refuse:
  assumes "account_inv s" and "appendWalletLedgerEntry i s = (Inr x, t)" and "lei_entryType i = RESERVE_DENIED"
  shows "implements_account t"
proof -
  from assms(2) obtain w where w: "find (\<lambda>w. w_id w = lei_walletId i) (wallets s) = Some w"
    and t: "t = s\<lparr>uuid_next := Suc (uuid_next s), walletLedgerEntries := walletLedgerEntries s @ [movement_row i w s]\<rparr>"
    by (auto simp: appendWalletLedgerEntry_ok)
  from w have "w \<in> set (wallets s)" "w_id w = lei_walletId i" by (auto dest: find_SomeD)
  then show ?thesis
    by (intro implements_move [OF assms(1), of w t "\<lambda>v. v" "movement_row i w s"])
       (simp_all add: t update_rows_def op_of_def movement_row_def assms(3) account_of_def)
qed

lemma account_reserve:
  assumes inv: "account_inv s" and w: "w \<in> set (wallets s)" "w_id w = wid" and amt: "0 \<le> amt" "amt \<le> w_availableMinor w"
    and e: "is_movement e wid RESERVE (- amt) amt"
  shows "implements_account (after_reserve tid pid wid amt e s)"
  by (rule implements_move [OF inv w(1), where e = e and g = "\<lambda>v. v\<lparr>w_availableMinor := w_availableMinor v - amt,
       w_reservedMinor := w_reservedMinor v + amt, w_updatedAt := now s\<rparr>"])
     (use w amt e in \<open>simp_all add: after_reserve_def is_movement_def op_of_def account_of_def\<close>)

lemma account_settle:
  assumes inv: "account_inv s" and r: "r \<in> set (walletReservations s)" "wr_status r = HELD"
    and e: "is_movement e (wr_walletId r) RELEASE (wr_amountMinor r) (- wr_amountMinor r) \<and> da = wr_amountMinor r \<or>
       is_movement e (wr_walletId r) APPLY 0 (- wr_amountMinor r) \<and> da = 0"
  shows "implements_account (after_settle r st da e s)"
proof -
  have wi: "wallet_inv s" using inv by (simp add: account_inv_def)
  obtain w where w: "w \<in> set (wallets s)" "w_id w = wr_walletId r" using wallet_of_reservation [OF wi r(1)] .
  have "wr_amountMinor r \<le> w_reservedMinor w" by (rule held_le_reserved [OF wi r w])
  moreover have "0 \<le> wr_amountMinor r" using wallet_invD(6) [OF wi r(1)] by simp
  ultimately show ?thesis
    by (intro implements_move [OF inv w(1), where e = e and g = "\<lambda>v. v\<lparr>w_availableMinor := w_availableMinor v + da,
          w_reservedMinor := w_reservedMinor v - wr_amountMinor r, w_updatedAt := now s\<rparr>"])
       (use w e in \<open>auto simp: after_settle_def is_movement_def op_of_def account_of_def\<close>)
qed

lemma account_credit:
  assumes inv: "account_inv s"
    and upd: "updateWallets (\<lambda>w. w_id w = wid) (\<lambda>w. w\<lparr>w_availableMinor := w_availableMinor w + amt\<rparr>) s = (Inr rows, u)"
    and log: "recordWalletFunding tid wid rt ri amt note u = (Inr x, t)"
  shows "account_inv t"
proof -
  have wi: "wallet_inv s" using inv by (simp add: account_inv_def)
  from updateWallets_one [OF wallet_invD(2) [OF wi] _ upd, of wid] credited_rows [OF upd log]
  obtain w where w: "w \<in> set (wallets s)" "w_id w = wid"
    and u: "u = s\<lparr>wallets := update_rows (\<lambda>v. w_id v = wid) (\<lambda>v. v\<lparr>w_availableMinor := w_availableMinor v + amt,
       w_updatedAt := now s\<rparr>) (wallets s)\<rparr>" by auto
  from log obtain v i where "0 \<le> amt" and t: "t = u\<lparr>uuid_next := Suc (uuid_next u),
      walletLedgerEntries := walletLedgerEntries u @ [movement_row i v u]\<rparr>"
    and i: "lei_walletId i = wid" "lei_deltaAvailableMinor i = amt" "lei_entryType i = FUND"
    by (auto simp: recordWalletFunding_def appendWalletLedgerEntry_ok)
  then have "implements_account t"
    by (intro implements_move [OF inv w(1), where e = "movement_row i v u" and
          g = "\<lambda>v. v\<lparr>w_availableMinor := w_availableMinor v + amt, w_updatedAt := now s\<rparr>"])
       (simp_all add: t u i w movement_row_def op_of_def account_of_def)
  with wallet_core.credit [OF wi upd log] show ?thesis by (simp add: account_inv_def)
qed

lemma account_reserveFunds: "preserves account_inv (reserveFunds tid pid wid amt)"
proof (rule preservesI)
  fix s r t
  assume inv: "account_inv s" and run: "reserveFunds tid pid wid amt s = (r, t)"
  have wi: "wallet_inv s" using inv by (simp add: account_inv_def)
  have "implements_account t"
  proof (cases r)
    case (Inr x)
    with run have "reserveFunds tid pid wid amt s = (Inr x, t)" by simp
    from reserveFunds_full [OF wi this] obtain w e where "w \<in> set (wallets s)" "w_id w = wid" "0 \<le> amt"
      "amt \<le> w_availableMinor w" "is_movement e wid RESERVE (- amt) amt" "t = after_reserve tid pid wid amt e s" by blast
    with account_reserve [OF inv] show ?thesis by blast
  next
    case (Inl e)
    with run have "reserveFunds tid pid wid amt s = (Inl e, t)" by simp
    from reserveFunds_denied [OF wi this] show ?thesis
      using inv account_refuse [OF inv] by (auto simp: account_inv_def)
  qed
  with preservesD [OF wallet_reserveFunds wi run] show "account_inv t" by (simp add: account_inv_def)
qed

lemma account_releaseReservation: "preserves account_inv (releaseReservation rid)"
proof (rule preservesI)
  fix s r t
  assume inv: "account_inv s" and run: "releaseReservation rid s = (r, t)"
  have wi: "wallet_inv s" using inv by (simp add: account_inv_def)
  have "implements_account t"
  proof (cases "\<exists>r \<in> set (walletReservations s). wr_id r = rid \<and> wr_status r = HELD")
    case True
    then obtain q where q: "q \<in> set (walletReservations s)" "wr_status q = HELD" "rid = wr_id q" by auto
    with run releaseReservation_held [OF wi q(1,2)] show ?thesis by (auto intro: account_settle [OF inv])
  qed (use inv run settle_other in \<open>auto simp: account_inv_def\<close>)
  with preservesD [OF wallet_releaseReservation wi run] show "account_inv t" by (simp add: account_inv_def)
qed

lemma account_applyReservation: "preserves account_inv (applyReservation rid)"
proof (rule preservesI)
  fix s r t
  assume inv: "account_inv s" and run: "applyReservation rid s = (r, t)"
  have wi: "wallet_inv s" using inv by (simp add: account_inv_def)
  have "implements_account t"
  proof (cases "\<exists>r \<in> set (walletReservations s). wr_id r = rid \<and> wr_status r = HELD")
    case True
    then obtain q where q: "q \<in> set (walletReservations s)" "wr_status q = HELD" "rid = wr_id q" by auto
    with run applyReservation_held [OF wi q(1,2)] show ?thesis by (auto intro: account_settle [OF inv])
  qed (use inv run settle_other in \<open>auto simp: account_inv_def\<close>)
  with preservesD [OF wallet_applyReservation wi run] show "account_inv t" by (simp add: account_inv_def)
qed

section \<open>Every history implements the account\<close>

lemma log_frame_getWalletLedgerAccount [preserved]: "preserves (log_frame ws rs es) (getWalletLedgerAccount wid tid)"
proof -
  have "preserves (log_frame ws rs es) (getWalletLedgerAccount_fuel n wid tid)" for n
    by (induction n) (auto intro!: preserved simp: Let_def)
  then show ?thesis by (simp add: getWalletLedgerAccount_def)
qed

lemma log_frame_ledger_commands [preserved]:
  "preserves (log_frame ws rs es) (postJournal j)" "preserves (log_frame ws rs es) (ensureSystemChart tid)"
  unfolding postJournal_def postJournalEntry_def insertJournalEntry_def insertSnapshot_def
    ensureSystemChart_def insertChartAccount_def insertSystemAccount_def
  by (intro preserved; simp add: Let_def)+

lemma log_frame_approval_commands [preserved]:
  "preserves (log_frame ws rs es) (createApprovalRequest ca)" "preserves (log_frame ws rs es) (recordApprovalAction ai)"
  "preserves (log_frame ws rs es) (expireDueApprovals t0)"
  unfolding createApprovalRequest_def insertStep_def recordApprovalAction_def insertAction_def rejectRequest_def
    approveStep_def setRequest_def setStepStatus_def expireDueApprovals_def
  by (intro preserved preserves_case_decision; simp)+

interpretation account_core: core_invariant account_inv
proof (unfold_locales, goal_cases)
  case (1 s t)
  moreover from 1 have "wallet_inv t" by (auto simp: account_inv_def core_def elim: wallet_inv_frame)
  ultimately show ?case using implements_frame [of s t] by (simp add: account_inv_def core_def)
next
  case (12 s wid amt rows u tid rt ri nt x t)
  show ?case by (rule account_credit [OF 12])
qed (intro account_framed preserved account_reserveFunds account_releaseReservation account_applyReservation)+

lemma fresh_account_inv: "fresh_install s \<Longrightarrow> account_inv s"
  using fresh_payment_inv [of s]
  by (auto simp: account_inv_def payment_inv_def implements_account_def account_log_def account_of_def
      fresh_install_def list_all_iff)

section \<open>The wallets of the installation\<close>

text \<open>No command adds, removes or renames a wallet.\<close>

definition wallet_names :: "string list \<Rightarrow> db \<Rightarrow> bool" where
  "wallet_names ids s \<longleftrightarrow> map w_id (wallets s) = ids"

lemma wallet_names_modify [preserved]:
  "(\<And>s. map w_id (wallets (f s)) = map w_id (wallets s)) \<Longrightarrow> preserves (wallet_names ids) (modify f)"
  by (rule preserves_modify) (simp add: wallet_names_def)

lemma wallet_names_fresh_id [preserved]: "preserves (wallet_names ids) fresh_id"
  by (rule preservesI) (auto simp: fresh_id_def wallet_names_def)

lemma wallet_names_updateWallets:
  "(\<And>w. w_id (f w) = w_id w) \<Longrightarrow> preserves (wallet_names ids) (updateWallets P f)"
  by (rule preservesI) (auto simp: updateWallets_def Let_def wallet_names_def split: if_splits)

lemma wallet_names_log_frame:
  assumes "\<And>ws rs es. preserves (log_frame ws rs es) m"
  shows "preserves (wallet_names ids) m"
proof (rule preservesI)
  fix s r t
  assume names: "wallet_names ids s" and run: "m s = (r, t)"
  have "log_frame (wallets s) (walletReservations s) (walletLedgerEntries s) t"
    by (rule preservesD [OF assms _ run]) (simp add: log_frame_def)
  with names show "wallet_names ids t" by (simp add: wallet_names_def log_frame_def)
qed

lemma wallet_names_wallet_commands:
  "preserves (wallet_names ids) (reserveFunds tid pid wid amt)" "preserves (wallet_names ids) (releaseReservation rid)"
  "preserves (wallet_names ids) (applyReservation rid)" "preserves (wallet_names ids) (recordWalletFunding tid wid rt ri amt nt)"
  unfolding reserveFunds_def reserveFunds_attempt_def insertReservation_def releaseReservation_def
    applyReservation_def setReservationStatus_def recordWalletFunding_def appendWalletLedgerEntry_def
  by (intro preserved wallet_names_updateWallets; simp)+

interpretation names_core: core_invariant "wallet_names ids" for ids
proof (unfold_locales, goal_cases)
  case (1 s t)
  then show ?case by (simp add: wallet_names_def core_def)
next
  case (12 s wid amt rows u tid rt ri nt x t)
  have "wallet_names ids u" by (rule preservesD [OF wallet_names_updateWallets 12(1,2)]) simp
  then show ?case by (rule preservesD [OF wallet_names_wallet_commands(4) _ 12(3)])
qed (intro wallet_names_fresh_id wallet_names_wallet_commands wallet_names_log_frame log_frame_ledger_commands
      log_frame_getWalletLedgerAccount log_frame_approval_commands)+

lemma demo_wallet_stays: "\<exists>w \<in> set (wallets (run_all exec cs demo_db)). w_id w = ''wallet''"
proof -
  have "wallet_names [''wallet''] (run_all exec cs demo_db)"
    by (rule names_core.sys.history.run_all_inv) (simp add: wallet_names_def demo_db_def demo_wallet_def)
  then show ?thesis by (cases "wallets (run_all exec cs demo_db)") (auto simp: wallet_names_def)
qed

section \<open>The account of a wallet in the ledger\<close>

text \<open>The codes of wallet accounts name their wallet, so the insert of \<open>getWalletLedgerAccount\<close> cannot meet
  a row its lookup has missed: the retry is never taken.\<close>

definition wallet_codes :: "db \<Rightarrow> bool" where
  "wallet_codes s \<longleftrightarrow> (\<forall>a \<in> set (ledgerAccounts s). \<forall>w. la_code a = ''wallet:'' @ w \<longrightarrow> la_walletId a = Some w)"

lemma wallet_codes_modify [preserved]:
  assumes "\<And>s. map (\<lambda>a. (la_code a, la_walletId a)) (ledgerAccounts (f s)) = map (\<lambda>a. (la_code a, la_walletId a)) (ledgerAccounts s)"
  shows "preserves wallet_codes (modify f)"
proof (rule preserves_modify)
  fix s
  assume codes: "wallet_codes s"
  have "(la_code a, la_walletId a) \<in> (\<lambda>a. (la_code a, la_walletId a)) ` set (ledgerAccounts s)"
    if "a \<in> set (ledgerAccounts (f s))" for a
    using that assms [of s] by (metis (no_types, lifting) image_eqI list.set_map)
  with codes show "wallet_codes (f s)" unfolding wallet_codes_def by fastforce
qed

lemma wallet_codes_append: "wallet_codes s \<Longrightarrow> (\<And>w. la_code a = ''wallet:'' @ w \<Longrightarrow> la_walletId a = Some w) \<Longrightarrow>
    wallet_codes (s\<lparr>ledgerAccounts := ledgerAccounts s @ [a]\<rparr>)"
  by (auto simp: wallet_codes_def)

lemma wallet_codes_fresh_id [preserved]: "preserves wallet_codes fresh_id"
  by (rule preservesI) (auto simp: fresh_id_def wallet_codes_def)

lemma wallet_codes_updateWallets [preserved]: "preserves wallet_codes (updateWallets P f)"
  by (rule preservesI) (auto simp: updateWallets_def Let_def wallet_codes_def split: if_splits)

lemma wallet_codes_insertJournalEntry [preserved]: "preserves wallet_codes (insertJournalEntry jid aid d c m)"
  unfolding insertJournalEntry_def
  by (intro preserved) (simp add: Let_def sync_ledger_account_balance_def update_rows_def)

lemma wallet_codes_postJournal [preserved]: "preserves wallet_codes (postJournal input)"
  unfolding postJournal_def postJournalEntry_def insertSnapshot_def by (intro preserved) simp_all

lemma wallet_codes_insertSystemAccount:
  "d \<in> set chartDefs \<Longrightarrow> preserves wallet_codes (insertSystemAccount tid d)"
  unfolding insertSystemAccount_def
  by (cases d) (auto intro!: preserved preserves_modify simp: wallet_codes_def chartDefs_def SYSTEM_CHART)

lemma wallet_codes_ensureSystemChart [preserved]: "preserves wallet_codes (ensureSystemChart tid)"
  unfolding ensureSystemChart_def insertChartAccount_def
  by (intro preserved preserves_forEachM wallet_codes_insertSystemAccount) auto

lemma wallet_codes_getWalletLedgerAccount [preserved]: "preserves wallet_codes (getWalletLedgerAccount wid tid)"
proof -
  have "preserves wallet_codes (getWalletLedgerAccount_fuel n wid tid)" for n
  proof (induction n)
    case (Suc n)
    have app: "preserves wallet_codes (modify (\<lambda>s. s\<lparr>ledgerAccounts := ledgerAccounts s @ [a]\<rparr>))"
      if "la_code a = ''wallet:'' @ wid" "la_walletId a = Some wid" for a
      by (rule preserves_modify, erule wallet_codes_append) (use that in simp)
    show ?case unfolding getWalletLedgerAccount_fuel.simps Let_def by (intro preserved Suc app) simp_all
  qed (simp add: preserves_throw)
  then show ?thesis by (simp add: getWalletLedgerAccount_def)
qed

lemma wallet_codes_approval_commands [preserved]:
  "preserves wallet_codes (createApprovalRequest ca)" "preserves wallet_codes (recordApprovalAction ai)"
  "preserves wallet_codes (expireDueApprovals t0)"
  unfolding createApprovalRequest_def insertStep_def recordApprovalAction_def insertAction_def rejectRequest_def
    approveStep_def setRequest_def setStepStatus_def expireDueApprovals_def
  by (intro preserved preserves_case_decision; simp)+

lemma wallet_codes_wallet_commands [preserved]:
  "preserves wallet_codes (reserveFunds tid pid wid amt)" "preserves wallet_codes (releaseReservation rid)"
  "preserves wallet_codes (applyReservation rid)" "preserves wallet_codes (recordWalletFunding tid wid rt ri amt nt)"
  unfolding reserveFunds_def reserveFunds_attempt_def insertReservation_def releaseReservation_def
    applyReservation_def setReservationStatus_def recordWalletFunding_def appendWalletLedgerEntry_def
  by (intro preserved; simp)+

interpretation codes_core: core_invariant wallet_codes
proof (unfold_locales, goal_cases)
  case (1 s t)
  then show ?case by (simp add: wallet_codes_def core_def)
next
  case (12 s wid amt rows u tid rt ri nt x t)
  show ?case by (rule preservesD [OF wallet_codes_wallet_commands(4) preservesD [OF wallet_codes_updateWallets 12(1,2)] 12(3)])
qed (intro preserved)+

lemma wallet_code_free:
  assumes "wallet_codes s" and "find (\<lambda>a. la_walletId a = Some wid) (ledgerAccounts s) = None"
  shows "\<not> (\<exists>a \<in> set (ledgerAccounts s). (la_tenantId a = tid \<and> la_code a = ''wallet:'' @ wid) \<or> la_walletId a = Some wid)"
  using assms by (auto simp: wallet_codes_def find_None_iff)

lemma getWalletLedgerAccount_no_retry:
  assumes "wallet_codes s"
  shows "getWalletLedgerAccount_fuel (Suc n) wid tid s = getWalletLedgerAccount_fuel (Suc m) wid tid s"
  using wallet_code_free [OF assms, of wid tid]
  by (auto simp: bind_def gets_def seq_def require_def guard_def fresh_id_def Let_def return_def throw_def
      split: option.splits)

lemma getWalletLedgerAccount_in_time:
  assumes "wallet_codes s"
  shows "fst (getWalletLedgerAccount wid tid s) \<noteq> Inl OutOfFuel"
  unfolding getWalletLedgerAccount_def numeral_2_eq_2 getWalletLedgerAccount_no_retry [OF assms, of 1 _ _ 0, simplified]
  using wallet_code_free [OF assms, of wid tid]
  by (auto simp: bind_def gets_def seq_def require_def guard_def fresh_id_def Let_def return_def throw_def modify_def
      split: option.splits)

end
