(* ===== verification/Wallet_Commands.thy ===== *)
theory Wallet_Commands
  imports Wallet_Account
begin

text \<open>
  The exact behaviour of the wallet commands of packages/ledger in the states the platform reaches: when a
  reservation is made and what it changes, and that settling it happens once.
\<close>

section \<open>Reserving\<close>

definition reserve_possible :: "string \<Rightarrow> string \<Rightarrow> string \<Rightarrow> int \<Rightarrow> db \<Rightarrow> bool" where
  "reserve_possible tid pid wid amt s \<longleftrightarrow> 0 \<le> amt \<and>
     (\<exists>w \<in> set (wallets s). w_id w = wid \<and> w_tenantId w = tid \<and> amt \<le> w_availableMinor w) \<and>
     pid \<in> p_id ` set (payments s) \<and> pid \<notin> wr_paymentId ` set (walletReservations s)"

lemma updateWallets_runs:
  assumes "distinct (map w_id (wallets s))" and "w \<in> set (wallets s)" and "P w" and "\<And>v. P v \<Longrightarrow> w_id v = w_id w"
    and "0 \<le> w_availableMinor (f w)" and "0 \<le> w_reservedMinor (f w)"
  shows "\<exists>t. updateWallets P f s = (Inr [(f w)\<lparr>w_updatedAt := now s\<rparr>], t) \<and>
     t = s\<lparr>wallets := update_rows P (\<lambda>v. (f v)\<lparr>w_updatedAt := now s\<rparr>) (wallets s)\<rparr>"
proof -
  have "P v \<longleftrightarrow> w_id v = w_id w" if v: "v \<in> set (wallets s)" for v
  proof
    assume "w_id v = w_id w"
    with distinct_key_eq [OF assms(1) v assms(2)] have "v = w" .
    with assms(3) show "P v" by simp
  qed (rule assms(4))
  then have "filter P (wallets s) = filter (\<lambda>v. w_id v = w_id w) (wallets s)" by (auto intro: filter_cong)
  also have "\<dots> = [w]" using filter_key [OF assms(1,2)] .
  finally show ?thesis using assms(5,6) by (simp add: updateWallets_def Let_def)
qed

lemma reserveFunds_attempt_runs:
  assumes inv: "wallet_inv s" and pos: "reserve_possible tid pid wid amt s"
  shows "\<exists>r t. reserveFunds_attempt tid pid wid amt s = (Inr (Some r), t)"
proof -
  from pos obtain w where w: "w \<in> set (wallets s)" "w_id w = wid" "w_tenantId w = tid" "amt \<le> w_availableMinor w"
    and amt: "0 \<le> amt" and pid: "pid \<in> p_id ` set (payments s)" "pid \<notin> wr_paymentId ` set (walletReservations s)"
    by (auto simp: reserve_possible_def)
  let ?P = "\<lambda>w. w_id w = wid \<and> w_tenantId w = tid \<and> amt \<le> w_availableMinor w"
  let ?f = "\<lambda>w. w\<lparr>w_availableMinor := w_availableMinor w - amt, w_reservedMinor := w_reservedMinor w + amt\<rparr>"
  have "0 \<le> w_reservedMinor w" using wallet_invD(5) [OF inv w(1)] by (simp add: wallet_row_ok_def)
  with updateWallets_runs [OF wallet_invD(2) [OF inv] w(1), of ?P ?f] w amt
  obtain u where u: "updateWallets ?P ?f s = (Inr [(?f w)\<lparr>w_updatedAt := now s\<rparr>], u)"
    "u = s\<lparr>wallets := update_rows ?P (\<lambda>v. (?f v)\<lparr>w_updatedAt := now s\<rparr>) (wallets s)\<rparr>" by auto
  define u1 where "u1 = u\<lparr>uuid_next := Suc (uuid_next u), walletReservations := walletReservations u @
       [\<lparr> wr_id = uuid_gen u (uuid_next u), wr_tenantId = tid, wr_paymentId = pid, wr_walletId = wid,
          wr_amountMinor = amt, wr_status = HELD \<rparr>]\<rparr>"
  have ins: "insertReservation tid pid wid amt u = (Inr (uuid_gen u (uuid_next u)), u1)"
    using pid by (simp add: insertReservation_ok u(2) u1_def)
  have "wid \<in> w_id ` set (wallets u1)"
    using w by (auto simp: u1_def u(2) in_set_update_rows image_iff)
  then obtain v where "find (\<lambda>w. w_id w = wid) (wallets u1) = Some v"
    by (cases "find (\<lambda>w. w_id w = wid) (wallets u1)") (auto simp: find_None_iff)
  then have app: "\<exists>t. appendWalletLedgerEntry
             \<lparr> lei_tenantId = tid, lei_walletId = wid, lei_entryType = RESERVE,
               lei_refType = Some ''payment'', lei_refId = Some pid,
               lei_amountMinor = amt, lei_deltaAvailableMinor = - amt,
               lei_deltaReservedMinor = amt, lei_note = Some n \<rparr> u1 = (Inr (), t)" for n
    using amt by (auto simp: appendWalletLedgerEntry_ok)
  from app [of "''reservation '' @ uuid_gen u (uuid_next u)"] show ?thesis
    by (auto simp: reserveFunds_attempt_def transaction_def bind_def seq_def u(1) ins return_def)
qed

lemma reserveFunds_result:
  assumes inv: "wallet_inv s" and run: "reserveFunds tid pid wid amt s = (Inr (rid, b), t)"
  shows "reserve_possible tid pid wid amt s \<and> rid = uuid_gen s (uuid_next s) \<and>
    (\<exists>w \<in> set (wallets s). w_id w = wid \<and> b = \<lparr> wb_walletId = wid, wb_availableMinor = w_availableMinor w - amt,
       wb_reservedMinor = w_reservedMinor w + amt, wb_totalMinor = w_availableMinor w + w_reservedMinor w \<rparr>) \<and>
    (\<exists>e. t = after_reserve tid pid wid amt e s)"
proof -
  obtain x u where att: "reserveFunds_attempt tid pid wid amt s = (x, u)" by fastforce
  with run obtain r where r: "reserveFunds_attempt tid pid wid amt s = (Inr r, u)" by (cases x) (auto simp: reserveFunds_def bind_def)
  from inv r show ?thesis
  proof (cases rule: reserveFunds_attempt_cases)
    case 1
    with r run show ?thesis by (simp add: reserveFunds_def bind_def seq_ok throw_ok)
  next
    case (2 w e)
    have "t = u" "(rid, b) = the r" using run r 2(8) by (simp_all add: reserveFunds_def bind_def return_def)
    with 2 show ?thesis unfolding reserve_possible_def by auto
  qed
qed

text \<open>C14.  \<open>reserveFunds\<close> succeeds exactly when the wallet belongs to the tenant and has the amount
  available, the amount is not negative, and the payment exists and has no reservation yet.  A success
  moves the amount from available to reserved on that wallet alone, adds one held reservation, logs the
  movement and reports the new balances; a refusal changes no balance, no reservation and no payment.\<close>

theorem reserveFunds_exact:
  assumes "reachable exec fresh_install s"
  shows "case reserveFunds tid pid wid amt s of
      (Inr (rid, b), t) \<Rightarrow> reserve_possible tid pid wid amt s \<and> rid = uuid_gen s (uuid_next s) \<and>
        (\<exists>w \<in> set (wallets s). w_id w = wid \<and> b = \<lparr> wb_walletId = wid, wb_availableMinor = w_availableMinor w - amt,
           wb_reservedMinor = w_reservedMinor w + amt, wb_totalMinor = w_availableMinor w + w_reservedMinor w \<rparr>) \<and>
        wallets t = update_rows (\<lambda>v. w_id v = wid) (\<lambda>v. v\<lparr>w_availableMinor := w_availableMinor v - amt,
          w_reservedMinor := w_reservedMinor v + amt, w_updatedAt := now s\<rparr>) (wallets s) \<and>
        walletReservations t = walletReservations s @ [\<lparr> wr_id = rid, wr_tenantId = tid, wr_paymentId = pid,
          wr_walletId = wid, wr_amountMinor = amt, wr_status = HELD \<rparr>] \<and> payments t = payments s
    | (Inl e, t) \<Rightarrow> \<not> reserve_possible tid pid wid amt s \<and> wallets t = wallets s \<and>
        walletReservations t = walletReservations s \<and> payments t = payments s"
proof -
  have inv: "wallet_inv s" using payment_core.history.reachable_inv [OF fresh_payment_inv assms] by (simp add: payment_inv_def)
  obtain r t where run: "reserveFunds tid pid wid amt s = (r, t)" by fastforce
  show ?thesis
  proof (cases r)
    case (Inr y)
    obtain rid b where y: "y = (rid, b)" by fastforce
    with run Inr have "reserveFunds tid pid wid amt s = (Inr (rid, b), t)" by simp
    note res = reserveFunds_result [OF inv this]
    then obtain e where t: "t = after_reserve tid pid wid amt e s" by blast
    show ?thesis unfolding run Inr y using res by (simp add: t after_reserve_def)
  next
    case (Inl e)
    with run have err: "reserveFunds tid pid wid amt s = (Inl e, t)" by simp
    have "\<not> reserve_possible tid pid wid amt s"
    proof
      assume "reserve_possible tid pid wid amt s"
      from reserveFunds_attempt_runs [OF inv this] err show False by (auto simp: reserveFunds_def bind_def return_def)
    qed
    moreover have "wallets t = wallets s" using reserveFunds_denied [OF inv err] by (auto simp: appendWalletLedgerEntry_ok)
    ultimately show ?thesis using reserveFunds_err [OF inv err] run Inl by simp
  qed
qed

theorem reserveFunds_exact_witness:
  "reachable exec fresh_install demo_db \<and> reserve_possible ''acme'' ''p'' ''wallet'' 5 demo_db = False \<and>
   wallets (snd (reserveFunds ''acme'' ''p'' ''wallet'' 5 demo_db)) = wallets demo_db"
proof -
  have no: "\<not> reserve_possible ''acme'' ''p'' ''wallet'' 5 demo_db"
    by (simp add: reserve_possible_def demo_db_def demo_wallet_def empty_db_def)
  from reserveFunds_exact [OF demo_reachable [of "[]", simplified], of "''acme''" "''p''" "''wallet''" 5] no
  show ?thesis
    by (cases "fst (reserveFunds ''acme'' ''p'' ''wallet'' 5 demo_db)")
       (auto simp: no split: sum.splits prod.splits intro: demo_reachable [of "[]", simplified])
qed

section \<open>Settling\<close>

lemma settled_reservation:
  assumes "wallet_inv s" and "r \<in> set (walletReservations s)" and "st \<noteq> HELD"
  shows "\<not> (\<exists>q \<in> set (walletReservations (after_settle r st da e s)). wr_id q = wr_id r \<and> wr_status q = HELD)"
proof -
  have "wr_status (if wr_id q = wr_id r then q\<lparr>wr_status := st\<rparr> else q) \<noteq> HELD"
    if "wr_id (if wr_id q = wr_id r then q\<lparr>wr_status := st\<rparr> else q) = wr_id r" for q :: walletReservation
    using that assms(3) by (simp split: if_splits)
  then show ?thesis by (auto simp: after_settle_def in_set_update_rows)
qed

text \<open>C21.  A reservation is settled once.  Releasing a held reservation returns exactly its amount to the
  available balance of its wallet and marks it released, applying it removes the amount from the reserved
  balance and marks it applied; after either, and for an unknown or already settled reservation, both
  commands change nothing.\<close>

theorem reservation_settled_once:
  assumes "reachable exec fresh_install s"
  shows "case find (\<lambda>r. wr_id r = rid \<and> wr_status r = HELD) (walletReservations s) of
      None \<Rightarrow> releaseReservation rid s = (Inr (), s) \<and> applyReservation rid s = (Inr (), s)
    | Some r \<Rightarrow>
        (\<exists>t. releaseReservation rid s = (Inr (), t) \<and>
           wallets t = update_rows (\<lambda>w. w_id w = wr_walletId r) (\<lambda>w. w\<lparr>w_availableMinor := w_availableMinor w + wr_amountMinor r,
             w_reservedMinor := w_reservedMinor w - wr_amountMinor r, w_updatedAt := now s\<rparr>) (wallets s) \<and>
           walletReservations t = update_rows (\<lambda>q. wr_id q = rid) (\<lambda>q. q\<lparr>wr_status := RELEASED\<rparr>) (walletReservations s) \<and>
           releaseReservation rid t = (Inr (), t) \<and> applyReservation rid t = (Inr (), t)) \<and>
        (\<exists>t. applyReservation rid s = (Inr (), t) \<and>
           wallets t = update_rows (\<lambda>w. w_id w = wr_walletId r) (\<lambda>w. w\<lparr>w_availableMinor := w_availableMinor w + 0,
             w_reservedMinor := w_reservedMinor w - wr_amountMinor r, w_updatedAt := now s\<rparr>) (wallets s) \<and>
           walletReservations t = update_rows (\<lambda>q. wr_id q = rid) (\<lambda>q. q\<lparr>wr_status := APPLIED\<rparr>) (walletReservations s) \<and>
           releaseReservation rid t = (Inr (), t) \<and> applyReservation rid t = (Inr (), t))"
proof (cases "find (\<lambda>r. wr_id r = rid \<and> wr_status r = HELD) (walletReservations s)")
  case None
  then have "\<not> (\<exists>r \<in> set (walletReservations s). wr_id r = rid \<and> wr_status r = HELD)" by (auto simp: find_None_iff)
  then show ?thesis unfolding None by (simp add: settle_other)
next
  case (Some r)
  have inv: "wallet_inv s" using payment_core.history.reachable_inv [OF fresh_payment_inv assms] by (simp add: payment_inv_def)
  from Some have r: "r \<in> set (walletReservations s)" "wr_status r = HELD" "wr_id r = rid" by (auto dest: find_SomeD)
  from releaseReservation_held [OF inv r(1,2)] applyReservation_held [OF inv r(1,2)]
  obtain e1 e2 where rel: "releaseReservation rid s = (Inr (), after_settle r RELEASED (wr_amountMinor r) e1 s)"
    and app: "applyReservation rid s = (Inr (), after_settle r APPLIED 0 e2 s)" unfolding r(3) by blast
  note once = settle_other [OF settled_reservation [OF inv r(1)], unfolded r(3)]
  show ?thesis unfolding Some option.case rel app
    using once [of RELEASED "wr_amountMinor r" e1] once [of APPLIED 0 e2] by (simp add: after_settle_def r(3))
qed

theorem reservation_settled_once_witness:
  "reachable exec fresh_install demo_db \<and> releaseReservation ''r'' demo_db = (Inr (), demo_db)"
  using reservation_settled_once [OF demo_reachable [of "[]", simplified], of "''r''"] demo_reachable [of "[]"]
  by (simp add: demo_db_def empty_db_def)

end
