(* ===== verification/Payment_Commands.thy ===== *)
theory Payment_Commands
  imports Wallet_Account
begin

text \<open>
  The behaviour of the single payment commands of packages/payments-core: state transitions and their
  errors, idempotent creation, execution through a provider, cancellation and reversal, fees.
\<close>

section \<open>Transitions\<close>

text \<open>C25.  \<open>transitionPayment\<close>: an unknown payment, a version that differs from the expected one and a
  pair of states outside the transition table are each refused with their own error and change nothing; a
  payment already in the target state is left as it is; otherwise the status is set, the version is
  increased and one history row with the two states is appended.\<close>

theorem transitionPayment_exact:
  "case find (\<lambda>p. p_id p = pid) (payments s) of
     None \<Rightarrow> transitionPayment pid tgt actor reason v s = (Inl (PlainError (''Payment not found: '' @ pid)), s)
   | Some p \<Rightarrow>
       if v \<noteq> None \<and> v \<noteq> Some (p_version p)
       then transitionPayment pid tgt actor reason v s =
         (Inl (PlainError (''Payment '' @ pid @ '' was modified concurrently (version '' @
            show_int (p_version p) @ '' != '' @ show_int (the v) @ '')'')), s)
       else if p_status p = tgt then transitionPayment pid tgt actor reason v s = (Inr (), s)
       else if tgt \<notin> set (TRANSITIONS (p_status p))
       then transitionPayment pid tgt actor reason v s =
         (Inl (IllegalTransitionError (state_name (p_status p)) (state_name tgt)), s)
       else transitionPayment pid tgt actor reason v s = (Inr (), s\<lparr>uuid_next := Suc (uuid_next s),
         paymentStatusHistories := paymentStatusHistories s @ [\<lparr> psh_id = uuid_gen s (uuid_next s), psh_paymentId = pid,
           psh_fromStatus = Some (p_status p), psh_toStatus = tgt, psh_reason = reason, psh_actorId = actor \<rparr>],
         payments := update_rows (\<lambda>q. p_id q = pid) (\<lambda>q. q\<lparr>p_status := tgt, p_version := p_version p + 1,
           p_updatedAt := now s\<rparr>) (payments s)\<rparr>)"
proof (cases "find (\<lambda>p. p_id p = pid) (payments s)")
  case None
  then show ?thesis by (simp add: transitionPayment_def tx_run)
next
  case (Some p)
  then have "p_id p = pid" by (auto dest: find_SomeD)
  with Some show ?thesis
    by (auto simp: transitionPayment_def tx_run canTransition_def insertStatusHistory_def updatePayment_def fresh_id_def Let_def)
qed

section \<open>Idempotent creation\<close>

lemma withIdempotency_completed:
  assumes "find (idempotency_match tid scope key) (idempotencyRecords s) = Some r" and "ir_status r = IR_COMPLETED"
  shows "withIdempotency tid scope key m s = (Inr (True, ir_response r), s)"
  using assms by (simp add: withIdempotency_def tx_run)

text \<open>A guarded command that leaves the idempotency table alone is replayed by every later call with its key.\<close>

lemma withIdempotency_replays:
  assumes run: "withIdempotency tid scope key m s = (Inr (replayed, res), t)"
    and keeps: "\<And>u x u'. m u = (Inr x, u') \<Longrightarrow> idempotencyRecords u' = idempotencyRecords u \<and> to_jsonb x = x"
  shows "withIdempotency tid scope key n t = (Inr (True, res), t)"
proof (cases "\<exists>r. find (idempotency_match tid scope key) (idempotencyRecords s) = Some r \<and> ir_status r = IR_COMPLETED")
  case True
  then obtain r where r: "find (idempotency_match tid scope key) (idempotencyRecords s) = Some r" "ir_status r = IR_COMPLETED" by blast
  with run have "t = s" "res = ir_response r" by (simp_all add: withIdempotency_completed)
  with r show ?thesis by (simp add: withIdempotency_completed)
next
  case False
  let ?M = "idempotency_match tid scope key"
  let ?new = "\<lambda>s. \<lparr> ir_id = uuid_gen s (uuid_next s), ir_tenantId = tid, ir_scope = scope, ir_key = key,
     ir_status = IR_IN_PROGRESS, ir_response = JNull, ir_createdAt = now s, ir_completedAt = None \<rparr>"
  let ?s1 = "s\<lparr>uuid_next := Suc (uuid_next s)\<rparr>"
  let ?s2 = "if \<exists>r \<in> set (idempotencyRecords s). ?M r then ?s1 else ?s1\<lparr>idempotencyRecords := idempotencyRecords s @ [?new s]\<rparr>"
  from run False obtain u where m: "m ?s2 = (Inr res, u)"
    and t: "t = u\<lparr>idempotencyRecords := update_rows ?M (\<lambda>r. r\<lparr>ir_status := IR_COMPLETED, ir_response := to_jsonb res,
        ir_completedAt := Some (now u)\<rparr>) (idempotencyRecords u)\<rparr>"
    by (auto simp: withIdempotency_def tx_ok fresh_id_def split: if_splits)
  have "\<exists>r \<in> set (idempotencyRecords ?s2). ?M r" by (simp add: idempotency_match_def)
  then obtain r where r: "find ?M (idempotencyRecords u) = Some r"
    using keeps [OF m] by (cases "find ?M (idempotencyRecords u)") (auto simp: find_None_iff)
  have "find ?M (idempotencyRecords t) = Some (r\<lparr>ir_status := IR_COMPLETED, ir_response := res, ir_completedAt := Some (now u)\<rparr>)"
    unfolding t using find_update_rows [OF r, of "\<lambda>r. r\<lparr>ir_status := IR_COMPLETED, ir_response := to_jsonb res,
        ir_completedAt := Some (now u)\<rparr>"] keeps [OF m] by (simp add: idempotency_match_def)
  then show ?thesis by (simp add: withIdempotency_completed)
qed

lemma to_jsonb_created [simp]: "to_jsonb (created_payment p amt fee) = created_payment p amt fee"
  by (simp add: created_payment_def to_jsonb_def)

lemma loadWallet_ok: "loadWallet tid wid s = (Inr w, t) \<Longrightarrow> t = s"
  by (auto simp: loadWallet_def tx_ok)

lemma computeFee_ok: "computeFee amt ctx s = (Inr fee, t) \<Longrightarrow> t = s"
  by (auto simp: computeFee_def findFeeRule_def tx_ok Let_def split: option.splits sum.splits)

lemma generatePaymentNumber_ok: "generatePaymentNumber tid s = (Inr n, t) \<Longrightarrow> t = s\<lparr>uuid_next := Suc (uuid_next s)\<rparr>"
  by (auto simp: generatePaymentNumber_def tx_ok fresh_id_def)

lemma insertPayment_ok:
  assumes "insertPayment mk s = (Inr p, t)"
  shows "\<exists>u. p = (mk (uuid_gen s (uuid_next s)) u)\<lparr>p_id := uuid_gen s (uuid_next s), p_createdAt := now s, p_updatedAt := now s\<rparr> \<and>
    t = s\<lparr>uuid_next := Suc (uuid_next s), payments := payments s @ [p]\<rparr>"
  using assms by (auto simp: insertPayment_def tx_ok fresh_id_def)

lemma createPayment_run_ok:
  assumes "createPayment_run i amt s = (Inr res, t)"
  shows "idempotencyRecords t = idempotencyRecords s \<and> wallets t = wallets s \<and>
    walletReservations t = walletReservations s \<and>
    (\<exists>p fee. payments t = payments s @ [p] \<and> p_status p = DRAFT \<and> p_amountMinor p = amt \<and>
       p_totalMinor p = amt + p_feeMinor p \<and> p_idempotencyKey p = Some (cp_idempotencyKey i) \<and>
       res = created_payment p amt fee)"
proof -
  define blank where "blank = (\<lambda>number (w :: wallet) (fee :: feeResult). (blank_payment (cp_tenantId i) number)
             \<lparr> p_product := nullish (cp_product i) ''single_payment'', p_channel := cp_channel i,
               p_amountMinor := amt, p_feeMinor := fee_feeMinor fee,
               p_totalMinor := amt + fee_feeMinor fee, p_status := DRAFT,
               p_sourceWalletId := Some (w_id w), p_branchId := cp_branchId i,
               p_departmentId := cp_departmentId i, p_category := cp_category i,
               p_remark := cp_remark i,
               p_beneficiarySnapshot := stored (buildBeneficiarySnapshot i),
               p_idempotencyKey := Some (cp_idempotencyKey i),
               p_createdById := Some (cp_actorId i) \<rparr>)"
  from assms obtain w s1 fee s2 number s3 p s4 where wal: "loadWallet (cp_tenantId i) (cp_sourceWalletId i) s = (Inr w, s1)"
    and fee: "computeFee amt \<lparr> fx_tenantId = cp_tenantId i, fx_product = nullish (cp_product i) ''single_payment'',
               fx_channel = cp_channel i,
               fx_providerCode = nullish (cp_providerCode i) ''local-sandbox'' \<rparr> s1 = (Inr fee, s2)"
    and number: "generatePaymentNumber (cp_tenantId i) s2 = (Inr number, s3)"
    and ins: "insertPayment (\<lambda>pid s. blank number w fee) s3 = (Inr p, s4)"
    and rest: "seq (recordFeeCalculation (cp_tenantId i) (p_id p) amt fee)
      (seq (insertStatusHistory (p_id p) None DRAFT None (Some (cp_actorId i)))
          (return (created_payment p amt fee))) s4 = (Inr res, t)"
    unfolding createPayment_run_def bind_ok blank_def by blast
  have s3: "s3 = s\<lparr>uuid_next := Suc (uuid_next s)\<rparr>"
    using loadWallet_ok [OF wal] computeFee_ok [OF fee] generatePaymentNumber_ok [OF number] by simp
  from rest have "idempotencyRecords t = idempotencyRecords s4" "wallets t = wallets s4"
    "walletReservations t = walletReservations s4" "payments t = payments s4" "res = created_payment p amt fee"
    by (auto simp: recordFeeCalculation_def insertStatusHistory_def tx_ok fresh_id_def)
  with insertPayment_ok [OF ins] show ?thesis by (auto simp: s3 blank_def blank_payment_def)
qed


section \<open>Execution\<close>

text \<open>The state a payment is in after its execution, given the answer of the provider; none where the
  execution cannot commit.\<close>

fun execution_outcome :: "string option + providerResult \<Rightarrow> payment_state option" where
  "execution_outcome (Inl err) = Some PROVIDER_PENDING"
| "execution_outcome (Inr res) = (case prr_status res of
     PR_SUCCESS \<Rightarrow> Some SUCCESS | PR_FAILED \<Rightarrow> Some FAILED | PR_REVERSED \<Rightarrow> None
   | PR_PENDING \<Rightarrow> Some PROVIDER_PENDING | PR_UNKNOWN \<Rightarrow> Some PROVIDER_PENDING)"

definition payment_request :: "payment \<Rightarrow> providerPaymentInput" where
  "payment_request p = \<lparr> ppi_paymentId = p_id p, ppi_reference = p_paymentNumber p,
     ppi_amountMinor = p_amountMinor p, ppi_destination = destination_of p,
     ppi_providerReference = ''ZF-'' @ p_paymentNumber p \<rparr>"

lemma status_in_getWalletLedgerAccount [preserved]: "preserves (status_in pid S) (getWalletLedgerAccount wid tid)"
proof -
  have "preserves (status_in pid S) (getWalletLedgerAccount_fuel n wid tid)" for n
    by (induction n) (auto intro!: preserved simp: Let_def)
  then show ?thesis by (simp add: getWalletLedgerAccount_def)
qed

lemma status_in_postPaymentSuccessJournal [preserved]:
  "preserves (status_in pid S) (postPaymentSuccessJournal tid p wid amt fee actor)"
  unfolding postPaymentSuccessJournal_def getSystemAccount_def postJournal_def postJournalEntry_def insertJournalEntry_def insertSnapshot_def
  by (intro preserved; simp add: Let_def)

lemma status_in_payment_event [preserved]: "preserves (status_in pid S) (payment_event ty p tid extra)"
  unfolding payment_event_def enqueueOutbox_def by (intro preserved; simp)

lemma status_in_recordAttempt [preserved]: "preserves (status_in pid S) (recordAttempt p n st ec em l ref)"
  unfolding recordAttempt_def by (intro preserved; simp)

lemma status_in_settle [preserved]:
  "preserves (status_in pid S) (settleReservation p applyReservation)"
  "preserves (status_in pid S) (settleReservation p releaseReservation)"
proof -
  have "preserves (status_in pid S) (updateWallets P f)" for P f
    by (rule preservesI) (auto simp: updateWallets_def Let_def status_in_def split: if_splits)
  then show "preserves (status_in pid S) (settleReservation p applyReservation)"
    "preserves (status_in pid S) (settleReservation p releaseReservation)"
    unfolding settleReservation_def releaseReservation_def applyReservation_def setReservationStatus_def appendWalletLedgerEntry_def
    by (intro preserved; simp)+
qed

lemma transition_from:
  assumes st: "status_in pid {a} s" and run: "transitionPayment pid b actor reason v s = (Inr x, t)"
  shows "canTransition a b" and "status_in pid {b} t"
proof -
  from run have "canTransition a b \<and> status_in pid {b} t"
  proof (cases rule: transitionPayment_ok)
    case (1 p)
    with st have "p_status p = a" by (auto simp: status_in_def)
    with 1 st show ?thesis by simp
  next
    case (2 p h)
    with st have "p_status p = a" by (auto simp: status_in_def)
    with 2 show ?thesis by (auto simp: status_in_def in_set_update_rows)
  qed
  then show "canTransition a b" and "status_in pid {b} t" by simp_all
qed

lemma find_status:
  assumes "status_in pid {a} s" and "find (\<lambda>p. p_id p = pid) (payments s) = Some p"
  shows "p_id p = pid" and "p_status p = a"
  using assms by (auto simp: status_in_def dest: find_SomeD)

lemma applyProviderSuccess_status:
  assumes st: "status_in pid {PROCESSING} s" and run: "applyProviderSuccess pid ref ev s = (Inr x, t)"
  shows "status_in pid {SUCCESS} t"
proof -
  from run obtain p where p: "find (\<lambda>p. p_id p = pid) (payments s) = Some p"
    by (auto simp: applyProviderSuccess_def tx_ok)
  note pid = find_status [OF st p]
  from run obtain s1 s2 u1 u2 rs where set: "settleReservation pid applyReservation s = (Inr u1, s1)"
    and tr: "transitionPayment pid SUCCESS None rs None s1 = (Inr u2, s2)"
    and rest: "seq (updatePayment pid (\<lambda>p. p\<lparr>p_providerReference := Some ref,
               p_providerStatus := Some ''SUCCESS'', p_successAt := Some (now s2)\<rparr>))
       (seq (postPaymentSuccessJournal (p_tenantId p) pid (p_sourceWalletId p) (p_amountMinor p) (p_feeMinor p) None)
            (payment_event ''payment.succeeded'' pid (p_tenantId p) [(''providerReference'', JString ref)])) s2 = (Inr x, t)"
    unfolding applyProviderSuccess_def by (simp add: p pid bind_ok [of "gets _"] bind_ok [of "require _ _"] seq_ok [of "guard _ _"]
        gets_ok require_ok guard_ok) (auto simp: bind_ok [of "gets _"] gets_ok seq_ok [of "settleReservation _ _"] seq_ok [of "transitionPayment _ _ _ _ _"])
  have "status_in pid {SUCCESS} s2"
    by (rule transition_from(2) [OF preservesD [OF status_in_settle(1) st set] tr])
  moreover have "preserves (status_in pid {SUCCESS}) (seq (updatePayment pid (\<lambda>p. p\<lparr>p_providerReference := Some ref,
               p_providerStatus := Some ''SUCCESS'', p_successAt := Some (now s2)\<rparr>))
       (seq (postPaymentSuccessJournal (p_tenantId p) pid (p_sourceWalletId p) (p_amountMinor p) (p_feeMinor p) None)
            (payment_event ''payment.succeeded'' pid (p_tenantId p) [(''providerReference'', JString ref)])))"
    by (intro preserved) (simp add: payment_key_def)
  ultimately show ?thesis using rest by (meson preservesD)
qed

lemma applyProviderFailure_status:
  assumes st: "status_in pid {PROCESSING} s" and run: "applyProviderFailure pid code msg ev s = (Inr x, t)"
  shows "status_in pid {FAILED} t"
proof -
  from run obtain p where p: "find (\<lambda>p. p_id p = pid) (payments s) = Some p"
    by (auto simp: applyProviderFailure_def tx_ok)
  note pid = find_status [OF st p]
  from run obtain s1 s2 u1 u2 rs where set: "settleReservation pid releaseReservation s = (Inr u1, s1)"
    and tr: "transitionPayment pid FAILED None rs None s1 = (Inr u2, s2)"
    and rest: "seq (updatePayment pid (\<lambda>p. p\<lparr>p_providerStatus := Some ''FAILED'',
               p_failureReason := Some (take 500 msg)\<rparr>))
            (payment_event ''payment.failed'' pid (p_tenantId p)
               [(''errorCode'', JString code), (''errorMessage'', JString msg)]) s2 = (Inr x, t)"
    unfolding applyProviderFailure_def by (simp add: p pid bind_ok [of "gets _"] bind_ok [of "require _ _"]
        gets_ok require_ok) (auto simp: seq_ok [of "settleReservation _ _"] seq_ok [of "transitionPayment _ _ _ _ _"])
  have "status_in pid {FAILED} s2"
    by (rule transition_from(2) [OF preservesD [OF status_in_settle(2) st set] tr])
  moreover have "preserves (status_in pid {FAILED}) (seq (updatePayment pid (\<lambda>p. p\<lparr>p_providerStatus := Some ''FAILED'',
               p_failureReason := Some (take 500 msg)\<rparr>))
            (payment_event ''payment.failed'' pid (p_tenantId p)
               [(''errorCode'', JString code), (''errorMessage'', JString msg)]))"
    by (intro preserved) (simp add: payment_key_def)
  ultimately show ?thesis using rest by (meson preservesD)
qed

lemma applyProviderResult_status:
  assumes st: "status_in (p_id p) {PROCESSING} s" and run: "applyProviderResult p ref res s = (Inr x, t)"
  shows "\<exists>b. execution_outcome (Inr res) = Some b \<and> status_in (p_id p) {b} t"
proof (cases "prr_status res")
  case PR_REVERSED
  with run obtain rs where "transitionPayment (p_id p) REVERSED None rs None s = (Inr x, t)"
    by (auto simp: applyProviderResult_def)
  from transition_from(1) [OF st this] show ?thesis by (simp add: canTransition_def)
qed (use run in \<open>auto simp: applyProviderResult_def intro: applyProviderSuccess_status [OF st]
      applyProviderFailure_status [OF st] transition_from(2) [OF st]\<close>)

lemma execute_queued:
  assumes inv: "pay_inv s" and p: "find (\<lambda>p. p_id p = pid \<and> p_tenantId p = tid) (payments s) = Some p"
    and q: "p_status p = QUEUED" and run: "executePayment tid pid prov n l s = (Inr u, t)"
  shows "\<exists>st. execution_outcome (provider_createPayment prov (payment_request p)) = Some st \<and> status_in pid {st} t"
proof -
  from p have pin: "p \<in> set (payments s)" "p_id p = pid" by (auto dest: find_SomeD)
  from run obtain s1 rs x where tr0: "transitionPayment (p_id p) PROCESSING None rs None s = (Inr x, s1)"
    and rest0: "(case provider_createPayment prov (payment_request p) of
        Inl err \<Rightarrow> (let message = nullish err ''unknown provider error'' in
             seq (recordAttempt (p_id p) n ''UNKNOWN'' (Some ''PROVIDER_ERROR'')
                    (Some (take 500 message)) l (Some (''ZF-'' @ p_paymentNumber p)))
                 (transitionPayment (p_id p) PROVIDER_PENDING None
                    (Some (''provider error: '' @ take 200 message @ '' '' @ em_dash @ '' monitoring'')) None))
      | Inr result \<Rightarrow> seq (recordAttempt (p_id p) n (provider_status_name (prr_status result))
                   (prr_errorCode result) (prr_errorMessage result) l
                   (Some (nullish (prr_providerReference result) (''ZF-'' @ p_paymentNumber p))))
                (applyProviderResult p (''ZF-'' @ p_paymentNumber p) result)) s1 = (Inr u, t)"
    unfolding executePayment_def getPayment_def payment_request_def Let_def
    by (auto simp: transaction_ok bind_ok gets_ok require_ok p q seq_ok [of "transitionPayment _ _ _ _ _"])
  note tr = tr0 [unfolded pin(2)] and rest = rest0 [unfolded pin(2)]
  have "distinct (map p_id (payments s))" using inv by (simp add: pay_inv_def pay_ids_def)
  then have s1: "status_in pid {PROCESSING} s1" by (rule transition_status [OF _ tr])
  show ?thesis
  proof (cases "provider_createPayment prov (payment_request p)")
    case (Inl err)
    with rest obtain s2 y rs' where "recordAttempt pid n ''UNKNOWN'' (Some ''PROVIDER_ERROR'')
        (Some (take 500 (nullish err ''unknown provider error''))) l (Some (''ZF-'' @ p_paymentNumber p)) s1 = (Inr y, s2)"
      and tr2: "transitionPayment pid PROVIDER_PENDING None rs' None s2 = (Inr u, t)" by (auto simp: seq_ok Let_def)
    then have "status_in pid {PROCESSING} s2" using s1 by (blast intro: preservesD [OF status_in_recordAttempt])
    from transition_from(2) [OF this tr2] Inl show ?thesis by simp
  next
    case (Inr result)
    with rest obtain s2 y where "recordAttempt pid n (provider_status_name (prr_status result))
        (prr_errorCode result) (prr_errorMessage result) l
        (Some (nullish (prr_providerReference result) (''ZF-'' @ p_paymentNumber p))) s1 = (Inr y, s2)"
      and res: "applyProviderResult p (''ZF-'' @ p_paymentNumber p) result s2 = (Inr u, t)" by (auto simp: seq_ok)
    then have "status_in pid {PROCESSING} s2" using s1 by (blast intro: preservesD [OF status_in_recordAttempt])
    with applyProviderResult_status [OF _ res] pin(2) Inr show ?thesis by simp
  qed
qed



section \<open>Cancelling and reversing\<close>

lemma log_frame_payment_steps [preserved]:
  "preserves (log_frame ws rs es) (transitionPayment pid st actor reason v)"
  "preserves (log_frame ws rs es) (updatePayment pid f)"
  "preserves (log_frame ws rs es) (payment_event ty pid tid extra)"
  unfolding transitionPayment_def insertStatusHistory_def updatePayment_def payment_event_def enqueueOutbox_def Let_def
  by (intro preserved; simp)+

lemma log_frame_preserved:
  assumes "\<And>ws rs es. preserves (log_frame ws rs es) m"
  shows "wallets (snd (m s)) = wallets s \<and> walletReservations (snd (m s)) = walletReservations s \<and>
    walletLedgerEntries (snd (m s)) = walletLedgerEntries s"
  using assms [of "wallets s" "walletReservations s" "walletLedgerEntries s"] by (auto simp: preserves_def log_frame_def)

lemma transition_runs:
  assumes "find (\<lambda>p. p_id p = pid) (payments s) = Some p"
  shows "if canTransition (p_status p) tgt then \<exists>t. transitionPayment pid tgt actor reason None s = (Inr (), t)
    else transitionPayment pid tgt actor reason None s =
      (Inl (IllegalTransitionError (state_name (p_status p)) (state_name tgt)), s)"
  using assms by (auto simp: transitionPayment_def tx_run Let_def insertStatusHistory_def updatePayment_def fresh_id_def)

text \<open>\<open>cancelPayment\<close> cancels exactly the draft, failed and queued payments of the tenant (a rejected one
  passes its guard but has no transition); every refusal changes nothing.  It moves no money: the wallets
  and the reservations are untouched, so the reservation of a queued payment is still held afterwards.\<close>

theorem cancelPayment_keeps_reservation:
  assumes "reachable exec fresh_install s"
  shows "case find (\<lambda>p. p_id p = pid \<and> p_tenantId p = tid) (payments s) of
      None \<Rightarrow> cancelPayment tid pid actor reason s = (Inl (PaymentError ''Payment not found'' ''PAYMENT_NOT_FOUND''), s)
    | Some p \<Rightarrow> if p_status p \<in> {DRAFT, FAILED, QUEUED}
        then \<exists>t. cancelPayment tid pid actor reason s = (Inr (), t) \<and> status_in pid {CANCELLED} t \<and>
          wallets t = wallets s \<and> walletReservations t = walletReservations s
        else \<exists>e. cancelPayment tid pid actor reason s = (Inl e, s)"
proof (cases "find (\<lambda>p. p_id p = pid \<and> p_tenantId p = tid) (payments s)")
  case None
  then show ?thesis by (simp add: cancelPayment_def getPayment_def tx_run)
next
  case (Some p)
  have dist: "distinct (map p_id (payments s))"
    using payment_core.history.reachable_inv [OF fresh_payment_inv assms] by (simp add: payment_inv_def pay_inv_def pay_ids_def)
  have p: "p \<in> set (payments s)" "p_id p = pid" using Some by (auto dest: find_SomeD)
  have fp: "find (\<lambda>q. p_id q = pid) (payments s) = Some p" using find_key [OF dist p(1)] p(2) by simp
  have frame: "preserves (log_frame ws rs es) (cancelPayment tid pid actor reason)" for ws rs es
    unfolding cancelPayment_def getPayment_def by (intro preserved)
  note tr = transition_runs [OF fp, of CANCELLED "Some actor" reason]
  show ?thesis
  proof (cases "p_status p \<in> {DRAFT, FAILED, QUEUED}")
    case True
    then have "canTransition (p_status p) CANCELLED" by (auto simp: canTransition_def)
    with tr obtain u where u: "transitionPayment pid CANCELLED (Some actor) reason None s = (Inr (), u)" by auto
    have ev: "\<exists>t. payment_event ty pid tid ex u = (Inr (), t) \<and> payments t = payments u" for ty ex
      by (auto simp: payment_event_def enqueueOutbox_def tx_run fresh_id_def)
    have "\<exists>t. cancelPayment tid pid actor reason s = (Inr (), t) \<and> payments t = payments u"
      using True p u Some ev [of "''payment.cancelled''" "[]"] by (auto simp: cancelPayment_def getPayment_def tx_run)
    then obtain t where t: "cancelPayment tid pid actor reason s = (Inr (), t)" "payments t = payments u" by blast
    have "status_in pid {CANCELLED} t" using transition_status [OF dist u] t(2) by (simp add: status_in_def)
    with log_frame_preserved [OF frame, of s] t True Some show ?thesis by auto
  next
    case False
    have "\<exists>e. cancelPayment tid pid actor reason s = (Inl e, s)"
    proof (cases "p_status p = REJECTED")
      case True
      with tr Some p show ?thesis by (simp add: cancelPayment_def getPayment_def tx_run canTransition_def)
    next
      case False2: False
      with False Some p show ?thesis by (simp add: cancelPayment_def getPayment_def tx_run)
    qed
    with False Some show ?thesis by simp
  qed
qed

theorem cancelPayment_keeps_reservation_witness:
  "reachable exec fresh_install demo_db \<and> cancelPayment ''acme'' ''p'' ''maker'' None demo_db =
     (Inl (PaymentError ''Payment not found'' ''PAYMENT_NOT_FOUND''), demo_db)"
  using cancelPayment_keeps_reservation [OF demo_reachable [of "[]"], of "''acme''" "''p''" "''maker''" None]
    demo_reachable [of "[]"] by (simp add: demo_db_def empty_db_def)

lemma log_frame_requestReversal: "preserves (log_frame ws rs es) (requestReversal tid pid actor reason prov)"
  unfolding requestReversal_def loadReversiblePayment_def getPayment_def insertReversal_def postReversalJournal_def
    getSystemAccount_def
  by (intro preserved; simp)


section \<open>Fees and the idempotency garbage collector\<close>

lemma findFeeRule_run:
  "findFeeRule ctx s = (Inr (case sort_key fr_createdAt (filter (fee_rule_applies ctx (now s)) (feeRules s)) of
     [] \<Rightarrow> None | r # _ \<Rightarrow> Some r), s)"
  by (simp add: findFeeRule_def gets_def)

lemma computeFee_run:
  "computeFee amt ctx s = (Inr (case sort_key fr_createdAt (filter (fee_rule_applies ctx (now s)) (feeRules s)) of
     [] \<Rightarrow> \<lparr> fee_feeMinor = 0, fee_ruleId = None, fee_ruleSnapshot = JObject [(''source'', JString ''no-rule'')], fee_currency = ''KES'' \<rparr>
   | r # _ \<Rightarrow> \<lparr> fee_feeMinor = m_minor (clamp_fee r (Money_fromMinor (fr_flatFeeMinor r + bigint_div (amt * fr_percentBps r) 10000) ''KES'')),
       fee_ruleId = Some (fr_id r), fee_ruleSnapshot = fee_snapshot r, fee_currency = ''KES'' \<rparr>), s)"
  by (simp add: computeFee_def bind_def findFeeRule_run return_def Money_add_def assertSameCurrency_def percentFloor_def
      Money_fromMinor_def split: list.splits)

lemma clamp_fee_bounds:
  "(fr_maxFeeMinor r \<le> 0 \<or> m_minor (clamp_fee r f) \<le> fr_maxFeeMinor r) \<and>
   (fr_minFeeMinor r \<le> 0 \<or> (0 < fr_maxFeeMinor r \<and> fr_maxFeeMinor r < fr_minFeeMinor r) \<or> fr_minFeeMinor r \<le> m_minor (clamp_fee r f)) \<and>
   (m_minor f < 0 \<or> 0 \<le> m_minor (clamp_fee r f))"
  by (auto simp: clamp_fee_def Let_def Money_fromMinor_def)

text \<open>C31.  \<open>computeFee\<close> never throws and reads only.  Without an applicable rule the fee is zero.  Otherwise the
  rule applies to the context now, no applicable rule is older, and the fee is the flat part plus the
  percentage, raised to the minimum and then cut to the maximum of the rule: it never exceeds a positive
  maximum, is never below a positive minimum that the maximum allows, and is never negative for
  non-negative rules and amounts.\<close>

theorem computeFee_bounds:
  "\<exists>fee. computeFee amt ctx s = (Inr fee, s) \<and>
     (if filter (fee_rule_applies ctx (now s)) (feeRules s) = [] then fee_feeMinor fee = 0 \<and> fee_ruleId fee = None
      else \<exists>r \<in> set (feeRules s). fee_rule_applies ctx (now s) r \<and> fee_ruleId fee = Some (fr_id r) \<and>
        list_all (\<lambda>q. fr_createdAt r \<le> fr_createdAt q) (filter (fee_rule_applies ctx (now s)) (feeRules s)) \<and>
        (fr_maxFeeMinor r \<le> 0 \<or> fee_feeMinor fee \<le> fr_maxFeeMinor r) \<and>
        (fr_minFeeMinor r \<le> 0 \<or> (0 < fr_maxFeeMinor r \<and> fr_maxFeeMinor r < fr_minFeeMinor r) \<or> fr_minFeeMinor r \<le> fee_feeMinor fee) \<and>
        (amt < 0 \<or> fr_flatFeeMinor r < 0 \<or> fr_percentBps r < 0 \<or> 0 \<le> fee_feeMinor fee))"
proof -
  let ?rs = "filter (fee_rule_applies ctx (now s)) (feeRules s)"
  let ?fee = "\<lambda>r. m_minor (clamp_fee r (Money_fromMinor (fr_flatFeeMinor r + bigint_div (amt * fr_percentBps r) 10000) ''KES''))"
  show ?thesis
  proof (cases "sort_key fr_createdAt ?rs")
    case Nil
    then have "?rs = []" by (metis length_0_conv length_sort)
    with Nil show ?thesis by (simp add: computeFee_run)
  next
    case (Cons r rs)
    have "set (r # rs) = set ?rs" by (simp only: Cons [symmetric] set_sort)
    moreover have "sorted (map fr_createdAt (r # rs))" by (simp only: Cons [symmetric] sorted_sort_key)
    ultimately have r: "r \<in> set ?rs" "list_all (\<lambda>q. fr_createdAt r \<le> fr_createdAt q) ?rs"
      unfolding list_all_iff by (auto simp del: set_filter)
    from r(1) have "?rs \<noteq> []" by (cases ?rs) simp_all
    have "0 \<le> bigint_div (amt * fr_percentBps r) 10000" if "0 \<le> amt" "0 \<le> fr_percentBps r"
      using that by (simp add: pos_imp_zdiv_nonneg_iff)
    then have "amt < 0 \<or> fr_flatFeeMinor r < 0 \<or> fr_percentBps r < 0 \<or>
       0 \<le> fr_flatFeeMinor r + bigint_div (amt * fr_percentBps r) 10000" by linarith
    with clamp_fee_bounds [of r "Money_fromMinor (fr_flatFeeMinor r + bigint_div (amt * fr_percentBps r) 10000) ''KES''"] r
    have "\<exists>q \<in> set (feeRules s). fee_rule_applies ctx (now s) q \<and> Some (fr_id r) = Some (fr_id q) \<and>
        list_all (\<lambda>p. fr_createdAt q \<le> fr_createdAt p) ?rs \<and> (fr_maxFeeMinor q \<le> 0 \<or> ?fee r \<le> fr_maxFeeMinor q) \<and>
        (fr_minFeeMinor q \<le> 0 \<or> (0 < fr_maxFeeMinor q \<and> fr_maxFeeMinor q < fr_minFeeMinor q) \<or> fr_minFeeMinor q \<le> ?fee r) \<and>
        (amt < 0 \<or> fr_flatFeeMinor q < 0 \<or> fr_percentBps q < 0 \<or> 0 \<le> ?fee r)"
      by (intro bexI [of _ r]) (auto simp: Money_fromMinor_def)
    with \<open>?rs \<noteq> []\<close> show ?thesis by (simp add: computeFee_run Cons)
  qed
qed

text \<open>The garbage collector removes exactly the stale and the finished idempotency records, keeps the order
  of the others, and reports how many it removed.\<close>

theorem gcIdempotencyRecords_exact:
  "case gcIdempotencyRecords staleHours completedDays s of
     (Inl e, t) \<Rightarrow> False
   | (Inr (freed, purged), t) \<Rightarrow>
       t = s\<lparr>idempotencyRecords := filter (\<lambda>r. \<not> gc_stale (now s - nullish staleHours gc_staleHours * 3600000) r \<and>
         \<not> gc_finished (now s - nullish completedDays gc_completedDays * 86400000) r) (idempotencyRecords s)\<rparr> \<and>
       freed + purged + length (idempotencyRecords t) = length (idempotencyRecords s)"
proof -
  let ?P = "gc_stale (now s - nullish staleHours gc_staleHours * 3600000)"
  let ?Q = "gc_finished (now s - nullish completedDays gc_completedDays * 86400000)"
  let ?xs = "idempotencyRecords s"
  have split: "length (filter P xs) + length (filter Q (filter (\<lambda>x. \<not> P x) xs)) +
      length (filter (\<lambda>x. \<not> P x \<and> \<not> Q x) xs) = length xs" for P Q and xs :: "idempotencyRecord list"
    by (induction xs) auto
  have "gcIdempotencyRecords staleHours completedDays s =
     (Inr (length (filter ?P ?xs), length (filter ?Q (filter (\<lambda>x. \<not> ?P x) ?xs))),
      s\<lparr>idempotencyRecords := filter (\<lambda>r. \<not> ?Q r) (filter (\<lambda>r. \<not> ?P r) ?xs)\<rparr>)"
    by (simp add: gcIdempotencyRecords_def tx_run)
  moreover have "filter (\<lambda>r. \<not> ?Q r) (filter (\<lambda>r. \<not> ?P r) ?xs) = filter (\<lambda>r. \<not> ?P r \<and> \<not> ?Q r) ?xs"
    by (simp add: conj_commute)
  ultimately show ?thesis using split [of ?P ?xs ?Q] by simp
qed

end
