(* ===== verification/Collection_Commands.thy ===== *)
theory Collection_Commands
  imports Wallet_Account
begin

text \<open>
  The behaviour of the collection side of packages/payments-core: settlement, provider callbacks and payment
  links.  The first section states once which commands leave a table alone.
\<close>

section \<open>Tables the ledger does not write\<close>

text \<open>A view of the database that does not depend on the tables of the ledger, the wallets and the outbox.\<close>

locale outside_ledger =
  fixes view :: "db \<Rightarrow> 'v"
  assumes ids: "view (s\<lparr>uuid_next := n\<rparr>) = view s"
    and wallets: "view (s\<lparr>wallets := ws\<rparr>) = view s"
    and movements: "view (s\<lparr>walletLedgerEntries := es\<rparr>) = view s"
    and accounts: "view (s\<lparr>ledgerAccounts := as\<rparr>) = view s"
    and journals: "view (s\<lparr>journals := js\<rparr>) = view s"
    and entries: "view (s\<lparr>journalEntries := jes\<rparr>) = view s"
    and snapshots: "view (s\<lparr>balanceSnapshots := bs\<rparr>) = view s"
    and outbox: "view (s\<lparr>outboxEvents := os\<rparr>) = view s"
begin

lemmas views = ids wallets movements accounts journals entries snapshots outbox

lemma kept_modify [preserved]: "(\<And>s. view (f s) = view s) \<Longrightarrow> preserves (\<lambda>s. view s = v) (modify f)"
  by (rule preserves_modify) simp

lemma kept_fresh_id [preserved]: "preserves (\<lambda>s. view s = v) fresh_id"
  by (rule preservesI) (auto simp: fresh_id_def views)

lemma kept_updateWallets [preserved]: "preserves (\<lambda>s. view s = v) (updateWallets P f)"
  by (rule preservesI) (auto simp: updateWallets_def Let_def views split: if_splits)

lemma kept_recordWalletFunding [preserved]: "preserves (\<lambda>s. view s = v) (recordWalletFunding tid wid rt ri amt nt)"
  unfolding recordWalletFunding_def appendWalletLedgerEntry_def by (intro preserved; simp add: views)

lemma kept_postJournal [preserved]: "preserves (\<lambda>s. view s = v) (postJournal j)"
  unfolding postJournal_def postJournalEntry_def insertJournalEntry_def insertSnapshot_def
  by (intro preserved; simp add: Let_def views)

lemma kept_getWalletLedgerAccount [preserved]: "preserves (\<lambda>s. view s = v) (getWalletLedgerAccount wid tid)"
proof -
  have "preserves (\<lambda>s. view s = v) (getWalletLedgerAccount_fuel n wid tid)" for n
    by (induction n) (auto intro!: preserved simp: Let_def views)
  then show ?thesis by (simp add: getWalletLedgerAccount_def)
qed

lemma kept_postFundingJournal [preserved]: "preserves (\<lambda>s. view s = v) (postFundingJournal tid wid amt actor)"
  unfolding postFundingJournal_def getSystemAccount_def by (intro preserved)

lemma kept_creditCollection [preserved]: "preserves (\<lambda>s. view s = v) (creditCollection i amt col)"
  unfolding creditCollection_def by (intro preserved)

lemma kept_collection_event [preserved]: "preserves (\<lambda>s. view s = v) (collection_event ty col extra)"
  unfolding collection_event_def enqueueOutbox_def by (intro preserved; simp add: views)

end

interpretation collections_view: outside_ledger collections
  by unfold_locales simp_all

section \<open>Settlement\<close>

lemma creditCollection_wallets:
  assumes "creditCollection i amt col s = (Inr x, t)"
  shows "wallets t = update_rows (\<lambda>w. w_id w = co_walletId col)
      (\<lambda>w. w\<lparr>w_availableMinor := w_availableMinor w + amt, w_updatedAt := now s\<rparr>) (wallets s) \<and>
    walletReservations t = walletReservations s"
proof -
  let ?P = "\<lambda>w. w_id w = co_walletId col" and ?f = "\<lambda>w. w\<lparr>w_availableMinor := w_availableMinor w + amt\<rparr>"
  from assms obtain rows u v y rt ri nt where upd: "updateWallets ?P ?f s = (Inr rows, u)"
    and rec: "recordWalletFunding (co_tenantId col) (co_walletId col) rt ri amt nt u = (Inr y, v)"
    and post: "postFundingJournal (co_tenantId col) (co_walletId col) amt (orelse (si_actorId i) (co_requestedById col)) v = (Inr x, t)"
    unfolding creditCollection_def by (auto simp: seq_ok)
  have "preserves (log_frame ws rs es) (postFundingJournal a b c d)" for ws rs es a b c d
    unfolding postFundingJournal_def getSystemAccount_def by (intro preserved)
  from preservesD [OF this _ post, of "wallets v" "walletReservations v" "walletLedgerEntries v"]
  have "wallets t = wallets v" "walletReservations t = walletReservations v" by (simp_all add: log_frame_def)
  moreover have "wallets v = wallets u" "walletReservations v = walletReservations u"
    using rec by (auto simp: recordWalletFunding_def appendWalletLedgerEntry_ok)
  ultimately show ?thesis using upd by (auto simp: updateWallets_def Let_def split: if_splits)
qed

lemma settleCollection_steps:
  assumes run: "settleCollection i s = (Inr (c, again), t)"
  obtains "find (\<lambda>c. co_id c = si_collectionId i) (collections s) = Some c" "co_status c = CO_SUCCESS" "again" "t = s"
  | col where "find (\<lambda>c. co_id c = si_collectionId i) (collections s) = Some col"
      "co_status col \<noteq> CO_SUCCESS" "co_status col \<noteq> CO_CANCELLED" "\<not> again"
      "wallets t = update_rows (\<lambda>w. w_id w = co_walletId col)
        (\<lambda>w. w\<lparr>w_availableMinor := w_availableMinor w + settle_amount i col, w_updatedAt := now s\<rparr>) (wallets s)"
      "walletReservations t = walletReservations s"
      "\<exists>t0. collections t = update_rows (\<lambda>c. co_id c = co_id col) (settled_collection i (settle_amount i col) t0 col) (collections s)"
proof -
  from run obtain col where col: "find (\<lambda>c. co_id c = si_collectionId i) (collections s) = Some col"
    by (auto simp: settleCollection_def tx_ok)
  show thesis
  proof (cases "co_status col = CO_SUCCESS")
    case True
    with run col have "c = col" "again" "t = s" by (auto simp: settleCollection_def tx_ok)
    with that(1) col True show thesis by blast
  next
    case False
    let ?amt = "settle_amount i col"
    from run False col obtain u v x upd y z ev where nc: "co_status col \<noteq> CO_CANCELLED" "\<not> again"
      and cr: "creditCollection i ?amt col s = (Inr x, u)"
      and up: "updateCollection (co_id col) (settled_collection i ?amt (now u) col) u = (Inr upd, v)"
      and inv: "whenM (truthy (co_invoiceId col)) (applyInvoicePayment (co_tenantId col) (the (co_invoiceId col)) ?amt) v = (Inr y, z)"
      and ev: "collection_event ''collection.received'' col ev z = (Inr (), t)"
      unfolding settleCollection_def Let_def
      by (auto simp: transaction_ok bind_ok seq_ok gets_ok require_ok guard_ok return_ok)
    have "wallets z = wallets v" "walletReservations z = walletReservations v" "collections z = collections v"
      using inv by (auto simp: whenM_ok applyInvoicePayment_def tx_ok Let_def split: if_splits option.splits)
    moreover have "wallets t = wallets z" "walletReservations t = walletReservations z" "collections t = collections z"
      using ev by (auto simp: collection_event_def enqueueOutbox_def tx_ok fresh_id_def)
    moreover have "wallets v = wallets u" "walletReservations v = walletReservations u"
      "collections v = update_rows (\<lambda>c. co_id c = co_id col) (settled_collection i ?amt (now u) col) (collections u)"
      using up by (auto simp: updateCollection_def tx_ok)
    moreover have "collections u = collections s"
      by (rule preservesD [OF collections_view.kept_creditCollection _ cr]) simp
    ultimately show thesis using that(2) [OF col False nc] creditCollection_wallets [OF cr] by auto
  qed
qed

text \<open>C19.  \<open>settleCollection\<close> credits exactly once.  A call that throws changes nothing.  A collection that is
  already settled is reported as such without any change.  Otherwise the available balance of the wallet of
  the collection grows by exactly the settled amount, no other wallet and no reservation changes, and a
  second settlement of the collection, whatever it reports, changes nothing.\<close>

theorem settleCollection_credits_once:
  "case settleCollection i s of
     (Inl e, t) \<Rightarrow> t = s
   | (Inr (c, already), t) \<Rightarrow>
       if already then t = s
       else (\<exists>col \<in> set (collections s). co_id col = si_collectionId i \<and> co_status col \<noteq> CO_SUCCESS \<and> co_status col \<noteq> CO_CANCELLED \<and>
         wallets t = update_rows (\<lambda>w. w_id w = co_walletId col)
           (\<lambda>w. w\<lparr>w_availableMinor := w_availableMinor w + settle_amount i col, w_updatedAt := now s\<rparr>) (wallets s)) \<and>
         walletReservations t = walletReservations s \<and>
         (\<exists>c'. \<forall>amt. settleCollection (i\<lparr>si_amountMinor := amt\<rparr>) t = (Inr (c', True), t))"
proof -
  obtain r t where run: "settleCollection i s = (r, t)" by fastforce
  show ?thesis
  proof (cases r)
    case (Inl e)
    with run show ?thesis by (auto simp: settleCollection_def dest: transaction_rollback)
  next
    case (Inr y)
    obtain c already where y: "y = (c, already)" by fastforce
    from run Inr y have "settleCollection i s = (Inr (c, already), t)" by simp
    then show ?thesis
    proof (cases rule: settleCollection_steps)
      case 1
      with run Inr y show ?thesis by simp
    next
      case (2 col)
      then obtain t0 where cs: "collections t = update_rows (\<lambda>c. co_id c = co_id col)
        (settled_collection i (settle_amount i col) t0 col) (collections s)" by blast
      have id: "co_id col = si_collectionId i" and mem: "col \<in> set (collections s)" using 2(1) by (auto dest: find_SomeD)
      have "find (\<lambda>c. co_id c = si_collectionId i) (collections t) = Some (settled_collection i (settle_amount i col) t0 col col)"
        unfolding cs id by (rule find_update_rows [OF 2(1)]) (simp add: settled_collection_def)
      then have "settleCollection (i\<lparr>si_amountMinor := amt\<rparr>) t = (Inr (settled_collection i (settle_amount i col) t0 col col, True), t)" for amt
        by (simp add: settleCollection_def tx_run settled_collection_def)
      with run Inr y 2 id mem show ?thesis by auto
    qed
  qed
qed

section \<open>Provider callbacks\<close>

text \<open>\<open>ingestWebhook\<close> stores a callback at most once.  An unverified callback is an error and stores
  nothing; an accepted one adds exactly one event in state received, with an id no stored event has; a
  duplicate adds nothing; and ingesting an accepted callback that carries an event id again reports a duplicate.\<close>

theorem ingestWebhook_deduplicates:
  "case ingestWebhook v h s of
     (Inl e, t) \<Rightarrow> \<not> vw_valid v \<and> t = s
   | (Inr (accepted, reason), t) \<Rightarrow> vw_valid v \<and>
       (if accepted
        then (\<exists>w. webhookEvents t = webhookEvents s @ [w] \<and> we_status w = WH_RECEIVED \<and>
                we_providerEventId w \<notin> we_providerEventId ` set (webhookEvents s) \<and>
                (case vw_providerEventId v of None \<Rightarrow> True | Some e \<Rightarrow> we_providerEventId w = Some e \<and>
                   ingestWebhook v h t = (Inr (False, Some ''duplicate event''), t)))
        else webhookEvents t = webhookEvents s \<and> reason = Some ''duplicate event'')"
proof -
  have other: "we_providerEventId x \<noteq> Some e" if "find (\<lambda>w. we_providerEventId w = Some e) (webhookEvents s) = None"
    "x \<in> set (webhookEvents s)" for e x using that by (auto simp: find_None_iff)
  have again [simp]: "find (\<lambda>w. we_providerEventId w = Some e) (xs @ [x]) \<noteq> None" if "we_providerEventId x = Some e" for e xs
    and x :: webhookEvent using that by (auto simp: find_None_iff)
  show ?thesis
  proof (cases "vw_valid v")
    case False
    then show ?thesis by (simp add: ingestWebhook_def tx_run)
  next
    case True
    show ?thesis
    proof (cases "vw_providerEventId v")
      case None
      with True other show ?thesis
        by (auto simp: ingestWebhook_def insertWebhookEvent_def is_unique_violation_def tx_run fresh_id_def image_iff split: if_splits)
    next
      case (Some e)
      with True other show ?thesis
        by (auto simp: ingestWebhook_def insertWebhookEvent_def is_unique_violation_def tx_run fresh_id_def image_iff split: if_splits)
    qed
  qed
qed

lemma processed_is_final:
  assumes "find (\<lambda>w. we_id w = eid) (webhookEvents t) = Some w" and "we_status w = WH_PROCESSED"
  shows "processWebhookEvent eid t = (Inr (), t)"
  using assms by (simp add: processWebhookEvent_def tx_run)

interpretation webhooks_view: outside_ledger webhookEvents
  by unfold_locales simp_all

lemma webhooks_settleCollection: "preserves (\<lambda>s. webhookEvents s = v) (settleCollection i)"
  unfolding settleCollection_def updateCollection_def applyInvoicePayment_def Let_def
  by (intro preserved; simp)

lemma webhooks_failCollection: "preserves (\<lambda>s. webhookEvents s = v) (failCollection c reason raw)"
  unfolding failCollection_def updateCollection_def by (intro preserved; simp)

lemma webhooks_transitionPayment [preserved]: "preserves (\<lambda>s. webhookEvents s = v) (transitionPayment pid st actor reason ver)"
  unfolding transitionPayment_def insertStatusHistory_def updatePayment_def Let_def by (intro preserved; simp)

lemma webhooks_payment_event [preserved]: "preserves (\<lambda>s. webhookEvents s = v) (payment_event ty pid tid extra)"
  unfolding payment_event_def enqueueOutbox_def by (intro preserved; simp)

lemma webhooks_applyProvider [preserved]:
  "preserves (\<lambda>s. webhookEvents s = v) (applyProviderSuccess pid ref ev)"
  "preserves (\<lambda>s. webhookEvents s = v) (applyProviderFailure pid code msg ev)"
  unfolding applyProviderSuccess_def applyProviderFailure_def settleReservation_def releaseReservation_def applyReservation_def
    setReservationStatus_def appendWalletLedgerEntry_def updatePayment_def postPaymentSuccessJournal_def getSystemAccount_def
  by (intro preserved; simp)+

text \<open>A command that leaves the events alone and then marks the event as processed.\<close>

lemma mark_final:
  assumes run: "seq m (markProcessed eid) s = (Inr x, t)" and m: "preserves (\<lambda>s. webhookEvents s = webhookEvents s0) m"
    and s: "webhookEvents s = webhookEvents s0" and w: "find (\<lambda>w. we_id w = eid) (webhookEvents s0) = Some w"
  shows "processWebhookEvent eid t = (Inr (), t)"
proof -
  from run obtain y u where "m s = (Inr y, u)" and t: "markProcessed eid u = (Inr x, t)" by (auto simp: seq_ok)
  with m s have u: "webhookEvents u = webhookEvents s0" by (blast dest: preservesD)
  have "find (\<lambda>w. we_id w = eid) (webhookEvents t) = Some (w\<lparr>we_status := WH_PROCESSED, we_processedAt := Some (now u)\<rparr>)"
    using t find_update_rows [OF w, of "\<lambda>w. w\<lparr>we_status := WH_PROCESSED, we_processedAt := Some (now u)\<rparr>"]
    by (auto simp: markProcessed_def setWebhook_def modify_ok u)
  then show ?thesis by (rule processed_is_final) simp
qed

lemma update_rows_idem: "(\<And>x. P x \<Longrightarrow> P (f x) \<and> f (f x) = f x) \<Longrightarrow> update_rows P f (update_rows P f xs) = update_rows P f xs"
  by (simp add: update_rows_def)

text \<open>Setting the status of an event again changes nothing.\<close>

lemma setWebhook_again:
  assumes "webhookEvents t = update_rows (\<lambda>w. we_id w = eid) (\<lambda>w. w\<lparr>we_status := st\<rparr>) ws"
  shows "setWebhook eid (\<lambda>s w. w\<lparr>we_status := st\<rparr>) t = (Inr (), t)"
proof -
  have "update_rows (\<lambda>w. we_id w = eid) (\<lambda>w. w\<lparr>we_status := st\<rparr>) (webhookEvents t) = webhookEvents t"
    unfolding assms by (rule update_rows_idem) simp
  then show ?thesis by (simp add: setWebhook_def modify_def)
qed

definition webhook_reference :: "webhookEvent \<Rightarrow> string" where
  "webhook_reference event = js_string_or (js_nullish (js_lookup ''providerReference'' (we_payload event))
     (js_lookup ''transactionId'' (we_payload event))) []"

lemma processWebhookEvent_step:
  assumes "find (\<lambda>w. we_id w = eid) (webhookEvents s) = Some w" and "we_status w \<notin> {WH_PROCESSED, WH_DUPLICATE}"
  shows "processWebhookEvent eid s = (if webhook_reference w = [] then setWebhook eid (\<lambda>s w. w\<lparr>we_status := WH_FAILED\<rparr>) s
     else case fst (find_attempt (webhook_reference w) s) of
       Inr (Some a) \<Rightarrow> applyCallback w a (webhook_reference w) (we_payload w) s
     | _ \<Rightarrow> (case fst (findCollectionByProviderReference (webhook_reference w) s) of
         Inr (Some col) \<Rightarrow> processCollectionCallback eid col (we_payload w) s
       | _ \<Rightarrow> recordOrphan w (webhook_reference w) (we_payload w) s))"
proof -
  from assms(1) have "we_id w = eid" by (auto dest: find_SomeD)
  with assms show ?thesis
    unfolding processWebhookEvent_def Let_def webhook_reference_def
    by (simp add: bind_def gets_def require_def return_def find_attempt_def findCollectionByProviderReference_def
        split: option.splits)
qed

lemma applyCallback_final:
  assumes w: "find (\<lambda>w. we_id w = eid) (webhookEvents s) = Some w" and run: "applyCallback w a ref payload s = (Inr x, t)"
  shows "processWebhookEvent eid t = (Inr (), t)"
proof -
  from w have id: "we_id w = eid" by (auto dest: find_SomeD)
  show ?thesis
    by (rule mark_final [OF run [unfolded applyCallback_def Let_def transaction_ok id] _ refl w])
       (unfold updatePayment_def, intro preserved; simp)
qed

lemma processCollectionCallback_final:
  assumes w: "find (\<lambda>w. we_id w = eid) (webhookEvents s) = Some w" and run: "processCollectionCallback eid col payload s = (Inr x, t)"
  shows "processWebhookEvent eid t = (Inr (), t)"
  by (rule mark_final [OF run [unfolded processCollectionCallback_def Let_def] _ refl w])
     (intro preserved webhooks_settleCollection webhooks_failCollection)

lemma recordOrphan_again:
  assumes w: "find (\<lambda>w. we_id w = eid) (webhookEvents s) = Some w" and run: "recordOrphan w ref payload s = (Inr x, t)"
  shows "webhookEvents t = update_rows (\<lambda>w. we_id w = eid) (\<lambda>w. w\<lparr>we_status := WH_UNMATCHED\<rparr>) (webhookEvents s)"
    and "paymentAttempts t = paymentAttempts s" and "collections t = collections s"
    and "recordOrphan (w\<lparr>we_status := WH_UNMATCHED\<rparr>) ref payload t = (Inr (), t)"
proof -
  let ?K = "\<lambda>i. ri_source i = ''WEBHOOK'' \<and> ri_providerReference i = ref \<and> ri_status i = RI_UNKNOWN"
  from w have id: "we_id w = eid" by (auto dest: find_SomeD)
  have eff: "webhookEvents t = update_rows (\<lambda>w. we_id w = eid) (\<lambda>w. w\<lparr>we_status := WH_UNMATCHED\<rparr>) (webhookEvents s) \<and>
      paymentAttempts t = paymentAttempts s \<and> collections t = collections s \<and> (\<exists>i \<in> set (reconItems t). ?K i)"
  proof (cases "find ?K (reconItems s)")
    case None
    with run show ?thesis
      by (auto simp: recordOrphan_def setWebhook_def tx_ok id insertOrphan_def orphan_amount_def fresh_id_def split: jsval.splits)
  next
    case (Some i)
    with run show ?thesis by (auto simp: recordOrphan_def setWebhook_def tx_ok id dest: find_SomeD)
  qed
  then show "webhookEvents t = update_rows (\<lambda>w. we_id w = eid) (\<lambda>w. w\<lparr>we_status := WH_UNMATCHED\<rparr>) (webhookEvents s)"
    "paymentAttempts t = paymentAttempts s" "collections t = collections s" by simp_all
  from eff obtain i where "find ?K (reconItems t) = Some i"
    by (cases "find ?K (reconItems t)") (auto simp: find_None_iff)
  with eff show "recordOrphan (w\<lparr>we_status := WH_UNMATCHED\<rparr>) ref payload t = (Inr (), t)"
    by (simp add: recordOrphan_def seq_step [OF setWebhook_again] id bind_def gets_def whenM_def return_def)
qed

text \<open>C22.  \<open>processWebhookEvent\<close> is idempotent: once it has returned, on whichever of its paths (already processed,
  no reference, payment callback, collection callback, orphan), processing the same event again returns and
  changes nothing at all.\<close>

theorem processWebhookEvent_idempotent:
  "case processWebhookEvent eid s of
     (Inl e, t) \<Rightarrow> True
   | (Inr u, t) \<Rightarrow> processWebhookEvent eid t = (Inr (), t)"
proof -
  obtain r t where run: "processWebhookEvent eid s = (r, t)" by fastforce
  have "processWebhookEvent eid t = (Inr (), t)" if "r = Inr ()"
  proof -
    from run that obtain w where w: "find (\<lambda>w. we_id w = eid) (webhookEvents s) = Some w"
      by (auto simp: processWebhookEvent_def tx_ok)
    show ?thesis
    proof (cases "we_status w \<in> {WH_PROCESSED, WH_DUPLICATE}")
      case True
      then have "processWebhookEvent eid s = (Inr (), s)" using w by (auto simp: processWebhookEvent_def tx_run)
      with run show ?thesis by simp
    next
      case False
      note step = processWebhookEvent_step [OF w False]
      have found: "find (\<lambda>w. we_id w = eid) (webhookEvents t) = Some (w\<lparr>we_status := st\<rparr>)"
        if "webhookEvents t = update_rows (\<lambda>w. we_id w = eid) (\<lambda>w. w\<lparr>we_status := st\<rparr>) (webhookEvents s)" for st
        unfolding that by (rule find_update_rows [OF w]) simp
      have ref: "webhook_reference (w\<lparr>we_status := st\<rparr>) = webhook_reference w" for st by (simp add: webhook_reference_def)
      show ?thesis
      proof (cases "webhook_reference w = []")
        case True
        with run that step have "webhookEvents t = update_rows (\<lambda>w. we_id w = eid) (\<lambda>w. w\<lparr>we_status := WH_FAILED\<rparr>) (webhookEvents s)"
          by (auto simp: setWebhook_def modify_def)
        with processWebhookEvent_step [OF found [OF this]] True ref setWebhook_again [OF this] show ?thesis by simp
      next
        case nonempty: False
        consider a where "fst (find_attempt (webhook_reference w) s) = Inr (Some a)"
          | col where "fst (find_attempt (webhook_reference w) s) = Inr None"
              "fst (findCollectionByProviderReference (webhook_reference w) s) = Inr (Some col)"
          | "fst (find_attempt (webhook_reference w) s) = Inr None"
              "fst (findCollectionByProviderReference (webhook_reference w) s) = Inr None"
          by (auto simp: find_attempt_def findCollectionByProviderReference_def gets_def)
        then show ?thesis
        proof cases
          case (1 a)
          with step nonempty run that have "applyCallback w a (webhook_reference w) (we_payload w) s = (Inr (), t)" by simp
          then show ?thesis by (rule applyCallback_final [OF w])
        next
          case (2 col)
          with step nonempty run that have "processCollectionCallback eid col (we_payload w) s = (Inr (), t)" by simp
          then show ?thesis by (rule processCollectionCallback_final [OF w])
        next
          case 3
          with step nonempty run that have "recordOrphan w (webhook_reference w) (we_payload w) s = (Inr (), t)" by simp
          note orphan = recordOrphan_again [OF w this]
          with processWebhookEvent_step [OF found [OF orphan(1)]] 3 nonempty ref show ?thesis
            by (simp add: find_attempt_def findCollectionByProviderReference_def gets_def)
        qed
      qed
    qed
  qed
  with run show ?thesis by (auto split: sum.splits)
qed

section \<open>Payment links\<close>

interpretation links_view: outside_ledger paymentLinks
  by unfold_locales simp_all

lemma links_settleCollection: "preserves (\<lambda>s. paymentLinks s = v) (settleCollection i)"
  unfolding settleCollection_def updateCollection_def applyInvoicePayment_def Let_def
  by (intro preserved; simp)

lemma links_insertCollection [preserved]: "preserves (\<lambda>s. paymentLinks s = v) (insertCollection mk)"
  unfolding insertCollection_def generateCollectionNumber_def by (intro preserved; simp)

lemma links_link_result [preserved]: "preserves (\<lambda>s. paymentLinks s = v) (link_result l n c w)"
  unfolding link_result_def getWalletBalance_def by (intro preserved)

definition claimed_use :: "paymentLink \<Rightarrow> paymentLink \<Rightarrow> bool" where
  "claimed_use l l' \<longleftrightarrow> l' = l \<or> (may_use l \<and> l' = l\<lparr>pl_useCount := pl_useCount l + 1\<rparr>)"

lemma claim_then:
  assumes "\<And>n v. preserves (\<lambda>s. paymentLinks s = v) (k n)"
  shows "list_all2 claimed_use (paymentLinks s) (paymentLinks (snd (bind (claimUse lid) k s)))"
proof -
  let ?u = "s\<lparr>paymentLinks := update_rows (\<lambda>l. pl_id l = lid \<and> may_use l) (\<lambda>l. l\<lparr>pl_useCount := pl_useCount l + 1\<rparr>) (paymentLinks s)\<rparr>"
  let ?n = "length (filter (\<lambda>l. pl_id l = lid \<and> may_use l) (paymentLinks s))"
  have "paymentLinks (snd (k ?n ?u)) = paymentLinks ?u" using assms [of "paymentLinks ?u" ?n] by (simp add: preserves_def)
  moreover have "list_all2 claimed_use ls (update_rows (\<lambda>l. pl_id l = lid \<and> may_use l) (\<lambda>l. l\<lparr>pl_useCount := pl_useCount l + 1\<rparr>) ls)" for ls
    by (induction ls) (auto simp: claimed_use_def)
  ultimately show ?thesis by (simp add: claimUse_def tx_run)
qed

lemma collect_links:
  "list_all2 claimed_use (paymentLinks s) (paymentLinks (snd (collectViaPaymentLink token payerRef payerName payerPhone s))) \<and>
   (case find (\<lambda>l. pl_token l = token) (paymentLinks s) of None \<Rightarrow> True
    | Some l \<Rightarrow> if find (\<lambda>c. co_tenantId c = pl_tenantId l \<and> co_idempotencyKey c = Some (link_key token payerRef)) (collections s) = None
        then True else paymentLinks (snd (collectViaPaymentLink token payerRef payerName payerPhone s)) = paymentLinks s)"
proof -
  have refl: "list_all2 claimed_use (paymentLinks s) (paymentLinks s)" by (simp add: list_all2_refl claimed_use_def)
  have same: "paymentLinks (snd (link_result l n c w s)) = paymentLinks s" for l n c w
    using links_link_result [of "paymentLinks s" l n c w] by (simp add: preserves_def)
  show ?thesis
  proof (cases "find (\<lambda>l. pl_token l = token) (paymentLinks s)")
    case None
    with refl show ?thesis by (simp add: collectViaPaymentLink_def tx_run)
  next
    case (Some l)
    have "list_all2 claimed_use (paymentLinks s) (paymentLinks (snd (bind (claimUse (pl_id l)) (\<lambda>claimed.
        seq (guard (claimed \<noteq> 0) (PlainError ''This payment link has reached its usage limit''))
        (bind (insertCollection (\<lambda>number s. link_collection l wallet token payerRef payerName payerPhone)) (\<lambda>c.
         seq (settleCollection ((settle_defaults (co_id c))\<lparr>si_refType := Some ''payment_link'', si_actorId := pl_createdById l\<rparr>))
             (link_result l (pl_amountMinor l) c (w_id wallet))))) s)))" for wallet
      by (rule claim_then) (intro preserved links_settleCollection)
    with Some refl same show ?thesis
      unfolding collectViaPaymentLink_def
      by (auto simp: find_by_key_def tx_run split: option.splits)
  qed
qed


end
