(* ===== verification/Back_Office.thy ===== *)
theory Back_Office
  imports Wallet_Account
begin

text \<open>
  The behaviour of the operations around payments: bulk files (bulk.ts), statement reconciliation
  (reconciliation.ts), name screening (packages/kyc) and the outbox relay (outbox-relay.ts).
\<close>

section \<open>Bulk files\<close>

definition batch_row :: "string \<Rightarrow> parsedBulkRow \<Rightarrow> string \<Rightarrow> row_status \<Rightarrow> string option \<Rightarrow> db \<Rightarrow> paymentBatchRow" where
  "batch_row bid row ph st em s = \<lparr> br_id = uuid_gen s (uuid_next s), br_batchId = bid, br_rowNumber = bk_rowNumber row,
     br_recipientName = bk_recipientName row, br_phone = ph, br_amountMinor = bk_amountMinor row,
     br_reference = bk_reference row, br_category = bk_category row, br_status = st, br_errorMessage = em,
     br_paymentId = None \<rparr>"

lemma insertBatchRow_ok:
  "insertBatchRow bid row ph st em s = (Inr u, t) \<Longrightarrow>
     t = s\<lparr>uuid_next := Suc (uuid_next s), paymentBatchRows := paymentBatchRows s @ [batch_row bid row ph st em s]\<rparr>"
  by (auto simp: insertBatchRow_def tx_ok fresh_id_def batch_row_def)

definition valid_row :: "paymentBatchRow \<Rightarrow> bool" where
  "valid_row r \<longleftrightarrow> br_status r = RW_VALID"

definition row_stored :: "string \<Rightarrow> parsedBulkRow \<Rightarrow> paymentBatchRow \<Rightarrow> bool" where
  "row_stored bid p r \<longleftrightarrow> br_batchId r = bid \<and> br_rowNumber r = bk_rowNumber p \<and> br_amountMinor r = bk_amountMinor p \<and>
     (if valid_row r then 0 < br_amountMinor r \<and> br_amountMinor r \<le> 500000000 \<and> normalizeKenyanPhone (bk_phone p) = Some (br_phone r)
      else br_status r = RW_ERROR)"

definition loop_stored :: "string \<Rightarrow> db \<Rightarrow> db \<Rightarrow> int \<times> nat \<times> nat \<times> string list \<Rightarrow> int \<times> nat \<times> nat \<times> string list \<Rightarrow>
    parsedBulkRow list \<Rightarrow> paymentBatchRow list \<Rightarrow> bool" where
  "loop_stored bid s t acc acc' rows rs \<longleftrightarrow> (case (acc, acc') of ((tot, valid, errors, seen), (tot', valid', errors', seen')) \<Rightarrow>
     paymentBatchRows t = paymentBatchRows s @ rs \<and> list_all2 (row_stored bid) rows rs \<and>
     tot' = tot + sum_list (map br_amountMinor (filter valid_row rs)) \<and> valid' = valid + length (filter valid_row rs) \<and>
     errors' = errors + length (filter (\<lambda>r. \<not> valid_row r) rs) \<and>
     seen' = seen @ map (\<lambda>r. seen_key (br_phone r) (br_amountMinor r)) (filter valid_row rs) \<and>
     (distinct seen \<longrightarrow> distinct seen') \<and> paymentBatches t = paymentBatches s)"

lemma createBatch_loop:
  assumes "foldM rows acc (createBatch_row bid) s = (Inr acc', t)"
  shows "\<exists>rs. loop_stored bid s t acc acc' rows rs"
  using assms
proof (induction rows arbitrary: acc s)
  case Nil
  then show ?case by (auto simp: tx_ok loop_stored_def split: prod.splits)
next
  case (Cons row rows)
  obtain tot valid errors seen where acc: "acc = (tot, valid, errors, seen)" by (cases acc)
  from Cons.prems obtain a u where step: "createBatch_row bid (tot, valid, errors, seen) row s = (Inr a, u)"
    and rest: "foldM rows a (createBatch_row bid) u = (Inr acc', t)"
    by (auto simp: bind_ok acc)
  show ?case
  proof (cases "row_error seen row")
    case (Some msg)
    with step obtain x where ins: "insertBatchRow bid row (bk_phone row) RW_ERROR (Some msg) s = (Inr x, u)"
      and a: "a = (tot, valid, errors + 1, seen)" by (auto simp: createBatch_row_def tx_ok)
    let ?r = "batch_row bid row (bk_phone row) RW_ERROR (Some msg) s"
    have "row_stored bid row ?r" "\<not> valid_row ?r" by (simp_all add: row_stored_def valid_row_def batch_row_def)
    moreover from Cons.IH [OF rest [unfolded a]] obtain rs where "loop_stored bid u t (tot, valid, errors + 1, seen) acc' rows rs" by blast
    ultimately show ?thesis using insertBatchRow_ok [OF ins]
      by (intro exI [of _ "?r # rs"]) (auto simp: loop_stored_def acc split_beta simp del: distinct_append)
  next
    case None
    let ?ph = "the (normalizeKenyanPhone (bk_phone row))"
    from None have ok: "normalizeKenyanPhone (bk_phone row) = Some ?ph" "0 < bk_amountMinor row" "bk_amountMinor row \<le> 500000000"
      "seen_key ?ph (bk_amountMinor row) \<notin> set seen"
      by (auto simp: row_error_def Let_def split: if_splits)
    from step None obtain x where ins: "insertBatchRow bid row ?ph RW_VALID None s = (Inr x, u)"
      and a: "a = (tot + bk_amountMinor row, valid + 1, errors, seen @ [seen_key ?ph (bk_amountMinor row)])"
      by (auto simp: createBatch_row_def tx_ok Let_def)
    let ?r = "batch_row bid row ?ph RW_VALID None s"
    have "row_stored bid row ?r" "valid_row ?r" "br_phone ?r = ?ph" "br_amountMinor ?r = bk_amountMinor row"
      using ok by (simp_all add: row_stored_def valid_row_def batch_row_def)
    moreover from Cons.IH [OF rest [unfolded a]] obtain rs where "loop_stored bid u t
        (tot + bk_amountMinor row, valid + 1, errors, seen @ [seen_key ?ph (bk_amountMinor row)]) acc' rows rs" by blast
    moreover have "distinct (seen @ [seen_key ?ph (bk_amountMinor row)]) \<longleftrightarrow> distinct seen" using ok(4) by simp
    ultimately show ?thesis using insertBatchRow_ok [OF ins]
      by (intro exI [of _ "?r # rs"]) (auto simp: loop_stored_def acc split_beta simp del: distinct_append)
  qed
qed

text \<open>\<open>createBatch\<close> accounts for every row of the file.  A refused file stores nothing.  Otherwise each row
  is stored in order under the new batch, either valid, with an amount within the limit and its normalised
  phone number, or in error; no two valid rows share recipient and amount; and the totals reported and stored
  are the number of valid rows, the number of errors and the sum of the valid amounts.\<close>

theorem createBatch_totals:
  "case createBatch i s of
     (Inl e, t) \<Rightarrow> t = s
   | (Inr vb, t) \<Rightarrow> \<exists>rs. paymentBatchRows t = paymentBatchRows s @ rs \<and>
       list_all2 (row_stored (vb_batchId vb)) (cb_rows i) rs \<and>
       distinct (map (\<lambda>r. seen_key (br_phone r) (br_amountMinor r)) (filter valid_row rs)) \<and>
       vb_validRowCount vb = length (filter valid_row rs) \<and>
       vb_validRowCount vb + vb_errorRowCount vb = length (cb_rows i) \<and>
       vb_totalAmountMinor vb = show_int (sum_list (map br_amountMinor (filter valid_row rs))) \<and>
       (\<exists>b \<in> set (paymentBatches t). pb_id b = vb_batchId vb \<and> pb_validRowCount b = vb_validRowCount vb \<and>
          pb_errorRowCount b = vb_errorRowCount vb \<and> pb_totalAmountMinor b = sum_list (map br_amountMinor (filter valid_row rs)))"
proof -
  obtain r t where run: "createBatch i s = (r, t)" by fastforce
  show ?thesis
  proof (cases r)
    case (Inl e)
    with run have "t = s" by (auto simp: createBatch_def tx_err tx_ok)
    with run Inl show ?thesis by simp
  next
    case (Inr vb)
    let ?bid = "uuid_gen s (uuid_next s)"
    let ?b = "\<lparr> pb_id = ?bid, pb_tenantId = cb_tenantId i, pb_name = cb_batchName i, pb_channel = cb_channel i,
       pb_product = nullish (cb_product i) ''bulk_payment'', pb_currency = ''KES'', pb_totalAmountMinor = 0,
       pb_rowCount = length (cb_rows i), pb_validRowCount = 0, pb_errorRowCount = 0, pb_status = BT_VALIDATED,
       pb_fileRef = cb_fileRef i, pb_createdById = Some (cb_actorId i) \<rparr>"
    let ?u = "s\<lparr>uuid_next := Suc (uuid_next s), paymentBatches := paymentBatches s @ [?b]\<rparr>"
    from run Inr obtain v tot valid errors seen where
      loop: "foldM (cb_rows i) (0, 0, 0, []) (createBatch_row ?bid) ?u = (Inr (tot, valid, errors, seen), v)"
      and t: "paymentBatchRows t = paymentBatchRows v"
        "paymentBatches t = update_rows (\<lambda>b. pb_id b = ?bid) (\<lambda>b. b\<lparr>pb_totalAmountMinor := tot, pb_validRowCount := valid,
           pb_errorRowCount := errors\<rparr>) (paymentBatches v)"
      and vb: "vb = \<lparr> vb_batchId = ?bid, vb_totalAmountMinor = show_int tot, vb_validRowCount = valid, vb_errorRowCount = errors \<rparr>"
      by (auto simp: createBatch_def tx_ok fresh_id_def updateBatch_def batch_event_def enqueueOutbox_def split: prod.splits)
    from createBatch_loop [OF loop] obtain rs where rs: "paymentBatchRows v = paymentBatchRows s @ rs"
      "list_all2 (row_stored ?bid) (cb_rows i) rs" "tot = sum_list (map br_amountMinor (filter valid_row rs))"
      "valid = length (filter valid_row rs)" "errors = length (filter (\<lambda>r. \<not> valid_row r) rs)"
      "distinct (map (\<lambda>r. seen_key (br_phone r) (br_amountMinor r)) (filter valid_row rs))" "paymentBatches v = paymentBatches s @ [?b]"
      by (auto simp: loop_stored_def)
    have "\<exists>b \<in> set (paymentBatches t). pb_id b = ?bid \<and> pb_validRowCount b = valid \<and>
          pb_errorRowCount b = errors \<and> pb_totalAmountMinor b = tot"
      unfolding t(2) rs(7) by (intro bexI [of _ "?b\<lparr>pb_totalAmountMinor := tot, pb_validRowCount := valid,
           pb_errorRowCount := errors\<rparr>"]) (auto simp: in_set_update_rows)
    moreover have "length (filter valid_row rs) + length (filter (\<lambda>r. \<not> valid_row r) rs) = length (cb_rows i)"
      using list_all2_lengthD [OF rs(2)] sum_length_filter_compl [of valid_row rs] by simp
    ultimately show ?thesis using run Inr t(1) rs(1-6) by (auto simp: vb)
  qed
qed

text \<open>The status of a batch after \<open>refreshBatchStatus\<close> is determined by its rows: processing while any row is
  pending or not yet executed, completed when the others all succeeded or were skipped, failed when some row
  failed and none succeeded, partially failed when some failed and some succeeded; only the batch itself changes.\<close>

theorem refreshBatchStatus_exact:
  "case map br_status (filter (\<lambda>r. br_batchId r = bid) (paymentBatchRows s)) of rows \<Rightarrow>
     refreshBatchStatus bid s = (Inr (), s\<lparr>paymentBatches := update_rows (\<lambda>b. pb_id b = bid)
       (\<lambda>b. b\<lparr>pb_status := (if RW_PENDING \<in> set rows \<or> RW_VALID \<in> set rows then BT_PROCESSING
          else if RW_FAILED \<notin> set rows \<and> RW_ERROR \<notin> set rows then BT_COMPLETED
          else if RW_SUCCESS \<in> set rows then BT_PARTIALLY_FAILED else BT_FAILED)\<rparr>) (paymentBatches s)\<rparr>)"
proof -
  have "outcome_status rows = (if RW_PENDING \<in> set rows \<or> RW_VALID \<in> set rows then BT_PROCESSING
          else if RW_FAILED \<notin> set rows \<and> RW_ERROR \<notin> set rows then BT_COMPLETED
          else if RW_SUCCESS \<in> set rows then BT_PARTIALLY_FAILED else BT_FAILED)" for rows
    by (auto simp: outcome_status_def Let_def filter_empty_conv)
  then show ?thesis by (simp add: refreshBatchStatus_def updateBatch_def tx_run)
qed

section \<open>Statement reconciliation\<close>

lemma settleItem_run:
  "\<exists>t. settleItem tid iid amt p s = (Inr (case p of None \<Rightarrow> M_UNMATCHED | Some q \<Rightarrow> if p_amountMinor q = amt then M_MATCHED else M_PARTIAL), t) \<and>
     payments t = payments s \<and> length (reconItems t) = length (reconItems s) \<and>
     length (reconMatches t) = length (reconMatches s) + (case p of None \<Rightarrow> 0 | Some q \<Rightarrow> if p_amountMinor q = amt then 1 else 0) \<and>
     length (reconExceptions t) = length (reconExceptions s) + (case p of None \<Rightarrow> 1 | Some q \<Rightarrow> if p_amountMinor q = amt then 0 else 1)"
  by (auto simp: settleItem_def insertMatch_def setItem_def insertException_def tx_run fresh_id_def split: option.splits)

definition recon_counts :: "nat \<Rightarrow> nat \<Rightarrow> nat \<Rightarrow> nat \<Rightarrow> db \<Rightarrow> db \<Rightarrow> bool" where
  "recon_counts n matched unmatched part s t \<longleftrightarrow> matched + unmatched + part = n \<and> payments t = payments s \<and>
     length (reconItems t) = length (reconItems s) + n \<and> length (reconMatches t) = length (reconMatches s) + matched \<and>
     length (reconExceptions t) = length (reconExceptions s) + unmatched + part"

lemma importRow_run:
  "\<exists>a b c t. importRow tid rid (m, u, p) row s = (Inr (m + a, u + b, p + c), t) \<and> recon_counts 1 a b c s t"
proof -
  let ?i = "\<lparr> ri_id = uuid_gen s (uuid_next s), ri_tenantId = tid, ri_runId = Some rid, ri_source = ''PROVIDER_STATEMENT'',
               ri_providerReference = sr_providerReference row, ri_amountMinor = sr_amountMinor row,
               ri_currency = nullish (sr_currency row) ''KES'', ri_occurredAt = sr_occurredAt row,
               ri_status = RI_PENDING, ri_paymentId = None, ri_notes = None, ri_createdAt = now s \<rparr>"
  let ?s = "s\<lparr>uuid_next := Suc (uuid_next s), reconItems := reconItems s @ [?i]\<rparr>"
  let ?p = "find (\<lambda>p. p_tenantId p = tid \<and> p_providerReference p = Some (sr_providerReference row)) (payments s)"
  from settleItem_run [of tid "uuid_gen s (uuid_next s)" "sr_amountMinor row" ?p ?s]
  obtain t where set: "settleItem tid (uuid_gen s (uuid_next s)) (sr_amountMinor row) ?p ?s = (Inr (case ?p of None \<Rightarrow> M_UNMATCHED
      | Some q \<Rightarrow> if p_amountMinor q = sr_amountMinor row then M_MATCHED else M_PARTIAL), t)"
    and t: "payments t = payments s" "length (reconItems t) = length (reconItems s) + 1"
      "length (reconMatches t) = length (reconMatches s) + (case ?p of None \<Rightarrow> 0 | Some q \<Rightarrow> if p_amountMinor q = sr_amountMinor row then 1 else 0)"
      "length (reconExceptions t) = length (reconExceptions s) + (case ?p of None \<Rightarrow> 1 | Some q \<Rightarrow> if p_amountMinor q = sr_amountMinor row then 0 else 1)"
    by auto
  have run: "importRow tid rid (m, u, p) row s = (Inr (case (case ?p of None \<Rightarrow> M_UNMATCHED
      | Some q \<Rightarrow> if p_amountMinor q = sr_amountMinor row then M_MATCHED else M_PARTIAL) of
          M_MATCHED \<Rightarrow> (m + 1, u, p) | M_PARTIAL \<Rightarrow> (m, u, p + 1) | M_UNMATCHED \<Rightarrow> (m, u + 1, p)), t)"
    using set by (simp add: importRow_def bind_def seq_def fresh_id_def modify_def gets_def return_def)
  show ?thesis
  proof (cases ?p)
    case None
    with run t show ?thesis by (intro exI [of _ 0] exI [of _ 1] exI [of _ t]) (simp add: recon_counts_def)
  next
    case (Some q)
    with run t show ?thesis
      by (cases "p_amountMinor q = sr_amountMinor row")
         (rule exI [of _ 1] exI [of _ 0], rule exI [of _ 0], (rule exI [of _ 0] exI [of _ 1]), rule exI [of _ t], simp add: recon_counts_def)+
  qed
qed

lemma importRows_run:
  "\<exists>a b c t. foldM rows (m, u, p) (importRow tid rid) s = (Inr (m + a, u + b, p + c), t) \<and> recon_counts (length rows) a b c s t"
proof (induction rows arbitrary: m u p s)
  case Nil
  show ?case by (intro exI [of _ 0] exI [of _ s]) (simp add: return_def recon_counts_def)
next
  case (Cons row rows)
  from importRow_run [of tid rid m u p row s] obtain a b c v where
    one: "importRow tid rid (m, u, p) row s = (Inr (m + a, u + b, p + c), v)" "recon_counts 1 a b c s v" by blast
  from Cons.IH [of "m + a" "u + b" "p + c" v] obtain a' b' c' t where
    rest: "foldM rows (m + a, u + b, p + c) (importRow tid rid) v = (Inr (m + a + a', u + b + b', p + c + c'), t)"
      "recon_counts (length rows) a' b' c' v t" by blast
  show ?case
    by (intro exI [of _ "a + a'"] exI [of _ "b + b'"] exI [of _ "c + c'"] exI [of _ t])
       (use one rest in \<open>simp add: bind_def recon_counts_def add.assoc\<close>)
qed


section \<open>Name screening\<close>

lemma percentage_le: "percentage (tokenSimilarity a b) \<le> 100"
proof (cases "a = [] \<or> b = []")
  case False
  let ?i = "filter (\<lambda>t. t \<in> set b) (remdups a)" and ?u = "remdups (a @ b)"
  have "length ?i = card (set ?i)" "length ?u = card (set ?u)" by (simp_all only: distinct_card [symmetric] distinct_filter distinct_remdups)
  moreover have "card (set ?i) \<le> card (set ?u)" by (rule card_mono) auto
  ultimately have le: "length ?i \<le> length ?u" by simp
  have "0 < length ?u" using False by (metis append_is_Nil_conv length_greater_0_conv remdups_eq_nil_iff)
  moreover have "200 * length ?i + length ?u < (2 * length ?u) * 101" using le \<open>0 < length ?u\<close> by linarith
  ultimately have "(200 * length ?i + length ?u) div (2 * length ?u) < 101" by (simp add: div_less_iff_less_mult mult.commute)
  with False show ?thesis by (simp add: percentage_def tokenSimilarity_def)
qed (simp add: percentage_def tokenSimilarity_def)

lemma score_loop_le: "best \<le> 100 \<Longrightarrow> score_loop name best cands \<le> 100"
  by (induction name best cands rule: score_loop.induct) (auto simp: Let_def percentage_le)

lemma score_loop_exact:
  "c \<in> set cands \<Longrightarrow> normalizeName c = normalizeName name \<Longrightarrow> significantTokens c \<noteq> [] \<Longrightarrow> score_loop name best cands = 100"
  by (induction cands arbitrary: best) (auto simp: Let_def)

definition listed :: "string \<Rightarrow> amlWatchlist \<Rightarrow> bool" where
  "listed name e \<longleftrightarrow> aw_active e \<and> list_ex (\<lambda>c. normalizeName c = normalizeName name \<and> significantTokens c \<noteq> []) (aw_name e # aw_aliases e)"

lemma listed_score: "listed name e \<Longrightarrow> aw_active e \<and> scoreName name e = 100"
  by (auto simp: listed_def list_ex_iff scoreName_def intro: score_loop_exact simp del: score_loop.simps)

text \<open>C36.  \<open>screenName\<close> only reads.  It reports a hit exactly when some active entry scores at least 66; scores never
  exceed 100; and a name that equals the name or an alias of an active entry up to case, punctuation and
  spacing, and has a significant word, is always a hit with score 100.\<close>

theorem screenName_complete:
  "case screenName name s of
     (Inl e, t) \<Rightarrow> False
   | (Inr out, t) \<Rightarrow> t = s \<and> so_score out \<le> 100 \<and>
       (so_result out = HIT \<longleftrightarrow> list_ex (\<lambda>e. aw_active e \<and> 66 \<le> scoreName name e) (amlWatchlists s)) \<and>
       (if list_ex (listed name) (amlWatchlists s) then so_result out = HIT \<and> so_score out = 100 else True)"
proof -
  let ?ms = "screen_matches name (filter aw_active (amlWatchlists s))"
  let ?sorted = "sort_key (\<lambda>m. - int (sm_score m)) ?ms"
  have set: "set ?sorted = set ?ms" by simp
  have le: "sm_score m \<le> 100" if "m \<in> set ?ms" for m
    using that by (auto simp: screen_matches_def scoreName_def intro: score_loop_le simp del: score_loop.simps)
  have some: "?ms = [] \<longleftrightarrow> \<not> list_ex (\<lambda>e. aw_active e \<and> 66 \<le> scoreName name e) (amlWatchlists s)"
    by (auto simp: screen_matches_def filter_empty_conv list_ex_iff)
  show ?thesis
  proof (cases ?sorted)
    case Nil
    then have none: "?ms = []" using set by simp
    with some have "\<not> list_ex (listed name) (amlWatchlists s)" by (auto simp: list_ex_iff dest!: listed_score)
    with none some show ?thesis by (simp add: screenName_def gets_def)
  next
    case (Cons m ms)
    then have m: "m \<in> set ?ms" using set by auto
    then have "?ms \<noteq> []" by (cases ?ms) simp_all
    moreover have "sm_score m = 100" if "list_ex (listed name) (amlWatchlists s)"
    proof -
      from that obtain e where e: "e \<in> set (amlWatchlists s)" "listed name e" by (auto simp: list_ex_iff)
      let ?m = "\<lparr> sm_entryId = aw_id e, sm_kind = aw_kind e, sm_matchedName = aw_name e, sm_score = scoreName name e \<rparr>"
      have "?m \<in> set ?ms" "sm_score ?m = 100" using e listed_score [OF e(2)] by (auto simp: screen_matches_def)
      moreover have "sorted (map (\<lambda>m. - int (sm_score m)) (m # ms))" unfolding Cons [symmetric] by simp
      then have "sm_score x \<le> sm_score m" if "x \<in> set (m # ms)" for x using that by auto
      moreover have "set (m # ms) = set ?ms" unfolding Cons [symmetric] by (rule set)
      ultimately have "100 \<le> sm_score m" by metis
      with le [OF m] show ?thesis by simp
    qed
    ultimately show ?thesis using some le [OF m] Cons by (simp add: screenName_def gets_def)
  qed
qed

text \<open>The risk level of a case forgets everything before the last adverse match: after an adverse match the level
  restarts at medium, so a sanctions match followed by an adverse one is rated medium.\<close>

theorem worst_risk_after_adverse:
  assumes "sm_kind m = ADVERSE"
  shows "worst_risk (ms @ m # ns) = worst_risk ns"
  using assms by (simp add: worst_risk_def worst_step_def)

theorem worst_risk_after_adverse_witness:
  "worst_risk [\<lparr> sm_entryId = ''a'', sm_kind = SANCTIONS, sm_matchedName = ''x'', sm_score = 100 \<rparr>,
     \<lparr> sm_entryId = ''b'', sm_kind = ADVERSE, sm_matchedName = ''x'', sm_score = 70 \<rparr>] = MEDIUM"
  using worst_risk_after_adverse [of "\<lparr> sm_entryId = ''b'', sm_kind = ADVERSE, sm_matchedName = ''x'', sm_score = 70 \<rparr>"
      "[\<lparr> sm_entryId = ''a'', sm_kind = SANCTIONS, sm_matchedName = ''x'', sm_score = 100 \<rparr>]" "[]"]
  by (simp add: worst_risk_def)

section \<open>The outbox relay\<close>

text \<open>The relay is given the handler of an event.  What the loop relies on: a handler, whether it returns or throws,
  leaves the outbox to the relay.\<close>

definition outbox_pending :: "db \<Rightarrow> outboxEvent list" where
  "outbox_pending s = filter (\<lambda>e. ob_publishedAt e = None \<and> ob_attempts e < 10) (outboxEvents s)"

text \<open>The number of failures an event can still have before the relay gives up on it.\<close>

definition tries_left :: "outboxEvent \<Rightarrow> nat" where
  "tries_left e = (if ob_publishedAt e = None \<and> ob_attempts e < 10 then nat (10 - ob_attempts e) else 0)"

definition outbox_work :: "db \<Rightarrow> nat" where
  "outbox_work s = sum_list (map tries_left (outboxEvents s))"

definition progressed :: "string set \<Rightarrow> outboxEvent \<Rightarrow> outboxEvent \<Rightarrow> bool" where
  "progressed I x y \<longleftrightarrow> ob_id y = ob_id x \<and> tries_left y \<le> tries_left x \<and>
     (ob_id x \<in> I \<longrightarrow> tries_left x = 0 \<or> tries_left y < tries_left x)"

lemma progressed_trans: "progressed I x y \<Longrightarrow> progressed J y z \<Longrightarrow> progressed (I \<union> J) x z"
  by (auto simp: progressed_def)

lemma progressed_all_trans:
  "list_all2 (progressed I) xs ys \<Longrightarrow> list_all2 (progressed J) ys zs \<Longrightarrow> list_all2 (progressed (I \<union> J)) xs zs"
  by (rule list_all2_trans [OF progressed_trans])

lemma progressed_update:
  assumes "\<And>x. ob_id (f x) = ob_id x" and "\<And>x. tries_left x = 0 \<and> tries_left (f x) = 0 \<or> tries_left (f x) < tries_left x"
  shows "list_all2 (progressed {i}) xs (update_rows (\<lambda>x. ob_id x = i) f xs)"
proof -
  have "progressed {i} x (if ob_id x = i then f x else x)" for x
    using assms [of x] by (auto simp: progressed_def)
  then show ?thesis by (simp add: update_rows_def list_all2_map2 list_all2_same)
qed

lemma tries_left_published: "tries_left (x\<lparr>ob_publishedAt := Some t\<rparr>) = 0"
  by (simp add: tries_left_def)

lemma tries_left_failed:
  "tries_left x = 0 \<and> tries_left (x\<lparr>ob_attempts := ob_attempts x + 1, ob_lastError := m\<rparr>) = 0 \<or>
   tries_left (x\<lparr>ob_attempts := ob_attempts x + 1, ob_lastError := m\<rparr>) < tries_left x"
  by (auto simp: tries_left_def)

lemma tries_left_pos: "e \<in> set (outbox_pending s) \<Longrightarrow> 0 < tries_left e"
  by (auto simp: outbox_pending_def tries_left_def)

lemma progressed_sum:
  "list_all2 (progressed I) xs ys \<Longrightarrow> sum_list (map tries_left ys) \<le> sum_list (map tries_left xs)"
  by (induction rule: list_all2_induct) (auto simp: progressed_def)

lemma progressed_sum_less:
  "list_all2 (progressed I) xs ys \<Longrightarrow> x \<in> set xs \<Longrightarrow> ob_id x \<in> I \<Longrightarrow> 0 < tries_left x \<Longrightarrow>
     sum_list (map tries_left ys) < sum_list (map tries_left xs)"
proof (induction rule: list_all2_induct)
  case (Cons a as b bs)
  have le: "sum_list (map tries_left bs) \<le> sum_list (map tries_left as)" by (rule progressed_sum [OF Cons(2)])
  show ?case
  proof (cases "x = a")
    case True
    with Cons le show ?thesis by (auto simp: progressed_def)
  next
    case False
    with Cons show ?thesis by (auto simp: progressed_def)
  qed
qed simp

definition outbox_tick :: "(outboxEvent \<Rightarrow> unit cmd) \<Rightarrow> nat \<Rightarrow> db \<Rightarrow> db" where
  "outbox_tick h limit s = snd (dispatchOutboxTick True h (Some limit) s)"

locale outbox_handler =
  fixes h :: "outboxEvent \<Rightarrow> unit cmd"
  assumes leaves_outbox: "outboxEvents (snd (h e s)) = outboxEvents s"
begin

lemma dispatchOne_progress:
  "\<exists>c t. dispatchOne h counts e s = (Inr c, t) \<and> fst c + snd c = fst counts + snd counts + 1 \<and>
     list_all2 (progressed {ob_id e}) (outboxEvents s) (outboxEvents t)"
proof -
  obtain r u where run: "h e s = (r, u)" by fastforce
  have u: "outboxEvents u = outboxEvents s" using leaves_outbox [of e s] run by simp
  show ?thesis
  proof (cases r)
    case (Inr x)
    have "list_all2 (progressed {ob_id e}) (outboxEvents s) (update_rows (\<lambda>x. ob_id x = ob_id e) (\<lambda>x. x\<lparr>ob_publishedAt := Some (now u)\<rparr>) (outboxEvents s))"
      by (rule progressed_update) (auto simp: tries_left_published)
    with Inr run u show ?thesis
      by (simp add: dispatchOne_def catch_def seq_def bind_def return_def markPublished_def updateOutbox_def modify_def)
  next
    case (Inl err)
    have "list_all2 (progressed {ob_id e}) (outboxEvents s) (update_rows (\<lambda>x. ob_id x = ob_id e)
        (\<lambda>x. x\<lparr>ob_attempts := ob_attempts x + 1, ob_lastError := Some (take 500 (error_message err))\<rparr>) (outboxEvents s))"
      by (rule progressed_update) (simp, rule tries_left_failed)
    with Inl run u show ?thesis
      by (simp add: dispatchOne_def catch_def seq_def bind_def return_def markFailed_def updateOutbox_def modify_def)
  qed
qed

lemma dispatch_progress:
  "\<exists>c t. foldM es counts (dispatchOne h) s = (Inr c, t) \<and> fst c + snd c = fst counts + snd counts + length es \<and>
     list_all2 (progressed (ob_id ` set es)) (outboxEvents s) (outboxEvents t)"
proof (induction es arbitrary: counts s)
  case Nil
  show ?case by (simp add: return_def list_all2_same progressed_def)
next
  case (Cons e es)
  from dispatchOne_progress [of counts e s] obtain c u where one: "dispatchOne h counts e s = (Inr c, u)"
    "fst c + snd c = fst counts + snd counts + 1" "list_all2 (progressed {ob_id e}) (outboxEvents s) (outboxEvents u)" by blast
  from Cons.IH [of c u] obtain c' t where rest: "foldM es c (dispatchOne h) u = (Inr c', t)"
    "fst c' + snd c' = fst c + snd c + length es" "list_all2 (progressed (ob_id ` set es)) (outboxEvents u) (outboxEvents t)" by blast
  from progressed_all_trans [OF one(3) rest(3)] one rest show ?case by (simp add: bind_def)
qed

lemma tick_progress:
  "\<exists>d f t. dispatchOutboxTick True h (Some limit) s = (Inr (d, f, False), t) \<and> d + f = min limit (length (outbox_pending s)) \<and>
     (outbox_pending s = [] \<or> limit = 0 \<or> outbox_work t < outbox_work s)"
proof -
  let ?es = "take limit (sort_key ob_createdAt (outbox_pending s))"
  from dispatch_progress [of ?es "(0, 0)" s] obtain c t where run: "foldM ?es (0, 0) (dispatchOne h) s = (Inr c, t)"
    and c: "fst c + snd c = length ?es" and pr: "list_all2 (progressed (ob_id ` set ?es)) (outboxEvents s) (outboxEvents t)" by auto
  have "dispatchOutboxTick True h (Some limit) s = (Inr (fst c, snd c, False), t)"
    using run by (simp add: dispatchOutboxTick_def transaction_def processOutboxBatch_def pullUnpublished_def bind_def gets_def
        return_def outbox_pending_def nullish_def)
  moreover have "outbox_work t < outbox_work s" if "outbox_pending s \<noteq> []" "limit \<noteq> 0"
  proof -
    from that have "?es \<noteq> []" by (metis length_0_conv length_sort take_eq_Nil)
    then obtain e where "e \<in> set ?es" by (cases ?es) auto
    moreover from this have "e \<in> set (outbox_pending s)" by (auto dest: in_set_takeD)
    ultimately show ?thesis
      unfolding outbox_work_def by (intro progressed_sum_less [OF pr, of e]) (auto simp: outbox_pending_def intro: tries_left_pos)
  qed
  ultimately show ?thesis using c by (auto simp: min.commute)
qed

lemma tick_idle: "outbox_pending s = [] \<Longrightarrow> outbox_tick h limit s = s"
  by (simp add: outbox_tick_def dispatchOutboxTick_def transaction_def processOutboxBatch_def pullUnpublished_def bind_def gets_def
      return_def outbox_pending_def)

lemma ticks_idle: "outbox_pending s = [] \<Longrightarrow> (outbox_tick h limit ^^ k) s = s"
  by (induction k) (simp_all add: tick_idle)

lemma drained: "0 < limit \<Longrightarrow> outbox_work s \<le> k \<Longrightarrow> outbox_pending ((outbox_tick h limit ^^ k) s) = []"
proof (induction k arbitrary: s)
  case 0
  then have "outbox_pending s = []" using tick_progress [of limit s] by auto
  then show ?case by simp
next
  case (Suc k)
  show ?case
  proof (cases "outbox_pending s = []")
    case True
    then show ?thesis by (simp add: ticks_idle tick_idle)
  next
    case False
    with tick_progress [of limit s] Suc.prems have "outbox_work (outbox_tick h limit s) \<le> k" by (auto simp: outbox_tick_def)
    with Suc show ?thesis by (simp add: funpow_swap1)
  qed
qed

end

lemma relay_leaves_outbox: "outboxEvents (snd (relay_handler e s)) = outboxEvents s"
  by (auto simp: relay_handler_def syncBatchRow_def markBatchRowOutcome_def updateBatchRow_def refreshBatchStatus_def
      updateBatch_def tx_run Let_def split: option.splits)

interpretation relay: outbox_handler relay_handler
  by unfold_locales (rule relay_leaves_outbox)



end
