(* ===== verification/Tax.thy ===== *)
theory Tax
  imports Interfaces
begin

text \<open>
  packages/etims/src/tax.ts: the tax engine of fiscal documents, on integer cents.  Where the source
  stores an amount as the decimal string of a bigint (the fields of a computed line, the buckets of the
  summary) the model keeps the integer itself.  \<open>minorToKes\<close> and \<open>milliToQty\<close> end in a conversion to
  a floating-point number for the wire format; of the second the decimal string it converts is modelled.
\<close>

section \<open>The tax engine\<close>

definition TAX_TYPES :: "string list" where
  "TAX_TYPES = [''A'', ''B'', ''C'', ''D'', ''E'']"

definition TAX_RATES :: "string \<Rightarrow> int" where
  "TAX_RATES t = (if t = ''B'' then 16 else if t = ''E'' then 8 else 0)"

definition isTaxType :: "string \<Rightarrow> bool" where
  "isTaxType v \<longleftrightarrow> v \<in> set TAX_TYPES"

definition divRound :: "int \<Rightarrow> int \<Rightarrow> error + int" where
  "divRound n d =
     (if d = 0 then Inl (PlainError ''division by zero'')
      else let neg = n < 0;
               a = (if neg then - n else n);
               q = bigint_div (a * 2 + d) (2 * d)
           in Inr (if neg then - q else q))"

record lineInput =
  li_description :: "string option"
  li_qtyMilli :: int
  li_unitPriceMinor :: int
  li_discountMinor :: "int option"
  li_taxType :: string
  li_itemCode :: "string option"
  li_itemClassCode :: "string option"
  li_unitCode :: "string option"

record computedLine =
  cl_seq :: nat
  cl_description :: string
  cl_qtyMilli :: int
  cl_unitPriceMinor :: int
  cl_discountMinor :: int
  cl_taxType :: string
  cl_taxRate :: int
  cl_supplyMinor :: int
  cl_taxableMinor :: int
  cl_taxMinor :: int
  cl_totalMinor :: int
  cl_netMinor :: int
  cl_itemCode :: string
  cl_itemClassCode :: string
  cl_unitCode :: string

record taxBucket =
  tb_rate :: int
  tb_taxableMinor :: int
  tb_taxMinor :: int

record computedDocument =
  cd_lines :: "computedLine list"
  cd_taxSummary :: "(string \<times> taxBucket) list"
  cd_subtotalMinor :: int
  cd_taxMinor :: int
  cd_totalMinor :: int

definition DEFAULT_ITEM_CLASS_CODE :: string where
  "DEFAULT_ITEM_CLASS_CODE = ''99000000''"

definition line_error :: "nat \<Rightarrow> string \<Rightarrow> error" where
  "line_error i msg = TaxComputationError (''Line '' @ show_nat (i + 1) @ '': '' @ msg)"

text \<open>Continue with the value of a computation that did not throw.\<close>

definition andThen :: "error + 'a \<Rightarrow> ('a \<Rightarrow> error + 'b) \<Rightarrow> error + 'b" where
  "andThen v f = (case v of Inl e \<Rightarrow> Inl e | Inr x \<Rightarrow> f x)"

text \<open>Tax and total of a line, from its net amount in the pricing basis of the document.\<close>

definition line_tax :: "bool \<Rightarrow> int \<Rightarrow> int \<Rightarrow> error + (int \<times> int)" where
  "line_tax pricesIncludeTax net rate =
     (if pricesIncludeTax
      then andThen (if rate = 0 then Inr 0 else divRound (net * rate) (100 + rate)) (\<lambda>lineTax. Inr (lineTax, net))
      else andThen (if rate = 0 then Inr 0 else divRound (net * rate) 100) (\<lambda>lineTax. Inr (lineTax, net + lineTax)))"

definition compute_line :: "bool \<Rightarrow> nat \<Rightarrow> lineInput \<Rightarrow> error + computedLine" where
  "compute_line pricesIncludeTax i l =
     (if li_description l = None \<or> trim (the (li_description l)) = [] then Inl (line_error i ''description is required'')
      else if li_qtyMilli l \<le> 0 then Inl (line_error i ''quantity must be positive'')
      else if li_unitPriceMinor l < 0 then Inl (line_error i ''price cannot be negative'')
      else if \<not> isTaxType (li_taxType l) then Inl (line_error i ''unknown tax type'')
      else andThen (divRound (li_unitPriceMinor l * li_qtyMilli l) 1000) (\<lambda>supply.
        let discount = nullish (li_discountMinor l) 0 in
        if discount < 0 \<or> discount > supply then Inl (line_error i ''invalid discount'')
        else andThen (line_tax pricesIncludeTax (supply - discount) (TAX_RATES (li_taxType l))) (\<lambda>(lineTax, lineTotal).
          Inr \<lparr> cl_seq = i + 1, cl_description = take 200 (trim (the (li_description l))),
                cl_qtyMilli = li_qtyMilli l, cl_unitPriceMinor = li_unitPriceMinor l, cl_discountMinor = discount,
                cl_taxType = li_taxType l, cl_taxRate = TAX_RATES (li_taxType l), cl_supplyMinor = supply,
                cl_taxableMinor = lineTotal, cl_taxMinor = lineTax, cl_totalMinor = lineTotal,
                cl_netMinor = lineTotal - lineTax,
                cl_itemCode = nullish (li_itemCode l) (''KE2NTU'' @ padStart 7 CHR ''0'' (show_nat (i + 1))),
                cl_itemClassCode = nullish (li_itemClassCode l) DEFAULT_ITEM_CLASS_CODE,
                cl_unitCode = nullish (li_unitCode l) ''U'' \<rparr>)))"

text \<open>What a computed line adds to the document.\<close>

definition add_bucket :: "computedLine \<Rightarrow> string \<times> taxBucket \<Rightarrow> string \<times> taxBucket" where
  "add_bucket c = (\<lambda>(t, b). if t = cl_taxType c
     then (t, b\<lparr>tb_taxableMinor := tb_taxableMinor b + cl_totalMinor c, tb_taxMinor := tb_taxMinor b + cl_taxMinor c\<rparr>)
     else (t, b))"

definition add_line :: "computedDocument \<Rightarrow> computedLine \<Rightarrow> computedDocument" where
  "add_line d c = d\<lparr> cd_lines := cd_lines d @ [c], cd_taxSummary := map (add_bucket c) (cd_taxSummary d),
     cd_subtotalMinor := cd_subtotalMinor d + cl_netMinor c, cd_taxMinor := cd_taxMinor d + cl_taxMinor c,
     cd_totalMinor := cd_totalMinor d + cl_totalMinor c \<rparr>"

fun compute_lines :: "bool \<Rightarrow> nat \<Rightarrow> computedDocument \<Rightarrow> lineInput list \<Rightarrow> error + computedDocument" where
  "compute_lines incl i d [] = Inr d"
| "compute_lines incl i d (l # ls) =
     andThen (compute_line incl i l) (\<lambda>c. compute_lines incl (i + 1) (add_line d c) ls)"

definition empty_document :: computedDocument where
  "empty_document = \<lparr> cd_lines = [],
     cd_taxSummary = map (\<lambda>t. (t, \<lparr> tb_rate = TAX_RATES t, tb_taxableMinor = 0, tb_taxMinor = 0 \<rparr>)) TAX_TYPES,
     cd_subtotalMinor = 0, cd_taxMinor = 0, cd_totalMinor = 0 \<rparr>"

definition computeDocument :: "lineInput list \<Rightarrow> bool \<Rightarrow> error + computedDocument" where
  "computeDocument inputs pricesIncludeTax =
     (if inputs = [] then Inl (TaxComputationError ''A document needs at least one line'')
      else if length inputs > 200 then Inl (TaxComputationError ''A document may have at most 200 lines'')
      else andThen (compute_lines pricesIncludeTax 0 empty_document inputs) (\<lambda>d.
        if cd_totalMinor d \<le> 0 then Inl (TaxComputationError ''Document total must be greater than zero'') else Inr d))"

text \<open>\<open>/^\d{1,9}(\.\d{1,3})?$/\<close> and the split at the dot.\<close>

definition qty_parts :: "string \<Rightarrow> (string \<times> string) option" where
  "qty_parts s =
     (let whole = takeWhile is_digit s; rest = dropWhile is_digit s in
      if whole = [] \<or> length whole > 9 then None
      else case rest of
        [] \<Rightarrow> Some (whole, [])
      | c # frac \<Rightarrow> if c = CHR ''.'' \<and> frac \<noteq> [] \<and> length frac \<le> 3 \<and> list_all is_digit frac
                   then Some (whole, frac) else None)"

definition parseQtyMilli :: "string \<Rightarrow> error + int" where
  "parseQtyMilli raw = (let s = trim raw in
     case qty_parts s of
       None \<Rightarrow> Inl (TaxComputationError (''Invalid quantity \"'' @ s @ ''\"''))
     | Some (whole, frac) \<Rightarrow> Inr (int (digits_val whole) * 1000 + int (digits_val (take 3 (frac @ ''000'')))))"

definition milliToQty_string :: "int \<Rightarrow> string" where
  "milliToQty_string m = show_int (bigint_div m 1000) @ ''.'' @ padStart 3 CHR ''0'' (show_int (m - 1000 * bigint_div m 1000))"

section \<open>Quantities\<close>

lemma trim_no_space:
  "s \<noteq> [] \<Longrightarrow> \<not> is_space (hd s) \<Longrightarrow> \<not> is_space (last s) \<Longrightarrow> trim s = s"
  by (simp add: trim_def dropWhile_eq_self_iff [THEN iffD2] hd_rev)

interpretation quantity: codec milliToQty_string parseQtyMilli "\<lambda>m. 0 \<le> m \<and> m < 10 ^ 12"
proof
  fix m :: int
  assume m: "0 \<le> m \<and> m < 10 ^ 12"
  define w where "w = nat m div 1000"
  define f where "f = nat m mod 1000"
  have mf: "m = int w * 1000 + int f" using m by (simp add: w_def f_def zdiv_int zmod_int)
  have "nat m < 10 ^ 12" using m by (simp add: nat_less_iff)
  then have "w < 10 ^ 9" and "f < 10 ^ 3" by (simp_all add: w_def f_def less_mult_imp_div_less)
  then have W: "length (show_nat w) \<le> 9" and F: "length (show_nat f) \<le> 3" by (simp_all add: length_show_nat)
  let ?F = "padStart 3 CHR ''0'' (show_nat f)"
  note pF = padStart_digits [OF F show_nat_digits]
  have str: "milliToQty_string m = show_nat w @ ''.'' @ ?F"
  proof -
    have "m div 1000 = int w" "m - 1000 * int w = int f" using m mf \<open>f < 10 ^ 3\<close> by auto
    then show ?thesis using m by (simp add: milliToQty_string_def)
  qed
  have ends: "is_digit (hd (show_nat w @ ''.'' @ ?F))" "is_digit (last (show_nat w @ ''.'' @ ?F))"
    using show_nat_digits [of w] pF(1,2) by (auto simp: list_all_iff hd_append last_append hd_in_set dest!: bspec)
  then have tr: "trim (show_nat w @ ''.'' @ ?F) = show_nat w @ ''.'' @ ?F"
    by (intro trim_no_space) simp_all
  have "takeWhile is_digit (show_nat w @ ''.'' @ ?F) = show_nat w" "dropWhile is_digit (show_nat w @ ''.'' @ ?F) = ''.'' @ ?F"
    using show_nat_digits [of w] by (auto simp: list_all_iff takeWhile_append dropWhile_append)
  then have "qty_parts (show_nat w @ ''.'' @ ?F) = Some (show_nat w, ?F)"
    using W pF(1,2) by (auto simp: qty_parts_def Let_def)
  then show "parseQtyMilli (milliToQty_string m) = Inr m"
    unfolding parseQtyMilli_def Let_def str tr using pF by (simp flip: mf)
qed

section \<open>Rounding\<close>

lemma andThen_ok: "andThen v f = Inr y \<longleftrightarrow> (\<exists>x. v = Inr x \<and> f x = Inr y)"
  by (cases v) (simp_all add: andThen_def)

lemma divRound_nonneg: "0 \<le> n \<Longrightarrow> 0 < d \<Longrightarrow> divRound n d = Inr ((n * 2 + d) div (2 * d))"
  by (simp add: divRound_def)

text \<open>The quotient is the nearest integer.\<close>

lemma divRound_nearest:
  assumes "0 \<le> n" "0 < d" "divRound n d = Inr q"
  shows "2 * \<bar>n - q * d\<bar> \<le> d" and "0 \<le> q" and "m * d \<le> n \<Longrightarrow> m \<le> q" and "n \<le> m * d \<Longrightarrow> q \<le> m"
proof -
  have q: "q = (n * 2 + d) div (2 * d)" using assms divRound_nonneg by simp
  define r where "r = (n * 2 + d) mod (2 * d)"
  have "n * 2 + d = 2 * d * q + r" unfolding q r_def by (rule mult_div_mod_eq [symmetric])
  moreover have "0 \<le> r" "r < 2 * d" using assms(2) by (simp_all add: r_def)
  ultimately have eq: "2 * (n - q * d) = r - d" by (simp add: algebra_simps)
  with \<open>0 \<le> r\<close> \<open>r < 2 * d\<close> show near: "2 * \<bar>n - q * d\<bar> \<le> d" by linarith
  show "0 \<le> q" unfolding q using assms by (simp add: pos_imp_zdiv_nonneg_iff)
  show "m \<le> q" if "m * d \<le> n"
  proof (rule ccontr)
    assume "\<not> m \<le> q"
    then have "(q + 1) * d \<le> m * d" using assms(2) by (intro mult_right_mono) simp_all
    with that have "d \<le> n - q * d" by (simp add: algebra_simps)
    then have "2 * d \<le> r - d" by (simp flip: eq)
    with \<open>r < 2 * d\<close> assms(2) show False by linarith
  qed
  show "q \<le> m" if "n \<le> m * d"
  proof (rule ccontr)
    assume "\<not> q \<le> m"
    then have "(m + 1) * d \<le> q * d" using assms(2) by (intro mult_right_mono) simp_all
    with that have "d \<le> q * d - n" by (simp add: algebra_simps)
    then have "r - d \<le> - 2 * d" by (simp flip: eq)
    with \<open>0 \<le> r\<close> assms(2) show False by linarith
  qed
qed

lemma TAX_RATES_bounds: "0 \<le> TAX_RATES t" "TAX_RATES t \<le> 16"
  by (simp_all add: TAX_RATES_def)

text \<open>The tax of a line is its share of the taxable amount, rounded to the nearest cent.\<close>

definition tax_rounded :: "bool \<Rightarrow> computedLine \<Rightarrow> bool" where
  "tax_rounded incl c \<longleftrightarrow>
     (if incl then 2 * \<bar>cl_totalMinor c * cl_taxRate c - cl_taxMinor c * (100 + cl_taxRate c)\<bar> \<le> 100 + cl_taxRate c
      else 2 * \<bar>cl_netMinor c * cl_taxRate c - cl_taxMinor c * 100\<bar> \<le> 100)"

definition line_ok :: "bool \<Rightarrow> computedLine \<Rightarrow> bool" where
  "line_ok incl c \<longleftrightarrow> cl_taxType c \<in> set TAX_TYPES \<and> cl_taxRate c = TAX_RATES (cl_taxType c) \<and>
     cl_taxableMinor c = cl_totalMinor c \<and> cl_totalMinor c = cl_netMinor c + cl_taxMinor c \<and>
     0 \<le> cl_taxMinor c \<and> 0 \<le> cl_netMinor c \<and> 0 \<le> cl_discountMinor c \<and> cl_discountMinor c \<le> cl_supplyMinor c \<and>
     (if incl then cl_totalMinor c else cl_netMinor c) = cl_supplyMinor c - cl_discountMinor c \<and> tax_rounded incl c"

lemma line_tax_ok:
  assumes "line_tax incl net rate = Inr (tax, tot)" "0 \<le> net" "0 \<le> rate"
  shows "0 \<le> tax \<and> 0 \<le> tot - tax \<and> (if incl then tot = net \<and> 2 * \<bar>tot * rate - tax * (100 + rate)\<bar> \<le> 100 + rate
     else tot - tax = net \<and> 2 * \<bar>net * rate - tax * 100\<bar> \<le> 100)"
proof (cases "rate = 0")
  case True
  with assms show ?thesis by (auto simp: line_tax_def andThen_def split: if_splits)
next
  case False
  have nr: "0 \<le> net * rate" using assms by simp
  show ?thesis
  proof (cases incl)
    case True
    with False assms(1) have d: "divRound (net * rate) (100 + rate) = Inr tax" and t: "tot = net"
      by (auto simp: line_tax_def andThen_ok)
    have "net * rate \<le> net * (100 + rate)" using assms by (intro mult_left_mono) simp_all
    with divRound_nearest [OF nr _ d] assms(3) True t show ?thesis by auto
  next
    case inc: False
    with False assms(1) have "divRound (net * rate) 100 = Inr tax" "tot = net + tax"
      by (auto simp: line_tax_def andThen_ok)
    with divRound_nearest [OF nr, of 100 tax] inc assms show ?thesis by auto
  qed
qed

lemma compute_line_ok:
  assumes "compute_line incl i l = Inr c"
  shows "line_ok incl c"
proof -
  let ?rate = "TAX_RATES (li_taxType l)"
  from assms obtain sup tax tot where
    sup: "divRound (li_unitPriceMinor l * li_qtyMilli l) 1000 = Inr sup"
    and disc: "0 \<le> nullish (li_discountMinor l) 0" "nullish (li_discountMinor l) 0 \<le> sup"
    and tx: "line_tax incl (sup - nullish (li_discountMinor l) 0) ?rate = Inr (tax, tot)"
    and ty: "isTaxType (li_taxType l)"
    and c: "cl_taxType c = li_taxType l" "cl_taxRate c = ?rate" "cl_supplyMinor c = sup"
      "cl_discountMinor c = nullish (li_discountMinor l) 0" "cl_taxableMinor c = tot" "cl_taxMinor c = tax"
      "cl_totalMinor c = tot" "cl_netMinor c = tot - tax"
    by (auto simp: compute_line_def andThen_ok Let_def split: if_splits)
  from line_tax_ok [OF tx] disc TAX_RATES_bounds(1) [of "li_taxType l"] ty show ?thesis
    by (auto simp: line_ok_def tax_rounded_def c isTaxType_def split: if_splits)
qed

section \<open>Totals of a document\<close>

definition doc_ok :: "computedDocument \<Rightarrow> bool" where
  "doc_ok d \<longleftrightarrow> cd_subtotalMinor d = sum_list (map cl_netMinor (cd_lines d)) \<and>
     cd_taxMinor d = sum_list (map cl_taxMinor (cd_lines d)) \<and>
     cd_totalMinor d = sum_list (map cl_totalMinor (cd_lines d)) \<and>
     cd_taxSummary d = map (\<lambda>t. (t, \<lparr> tb_rate = TAX_RATES t,
        tb_taxableMinor = sum_list (map cl_totalMinor (filter (\<lambda>c. cl_taxType c = t) (cd_lines d))),
        tb_taxMinor = sum_list (map cl_taxMinor (filter (\<lambda>c. cl_taxType c = t) (cd_lines d))) \<rparr>)) TAX_TYPES"

lemma doc_ok_add_line: "doc_ok d \<Longrightarrow> doc_ok (add_line d c)"
  by (auto simp: doc_ok_def add_line_def add_bucket_def)

lemma compute_lines_ok:
  "compute_lines incl i d ls = Inr d' \<Longrightarrow> doc_ok d \<Longrightarrow> list_all (line_ok incl) (cd_lines d) \<Longrightarrow>
     doc_ok d' \<and> list_all (line_ok incl) (cd_lines d') \<and> length (cd_lines d') = length (cd_lines d) + length ls"
proof (induction ls arbitrary: i d)
  case (Cons l ls)
  then obtain c where c: "compute_line incl i l = Inr c" "compute_lines incl (i + 1) (add_line d c) ls = Inr d'"
    by (auto simp: andThen_ok)
  with Cons.IH [OF c(2) doc_ok_add_line [OF Cons.prems(2)]] Cons.prems(3) compute_line_ok [OF c(1)] show ?case
    by (simp add: add_line_def)
qed simp

lemma doc_ok_empty: "doc_ok empty_document" "cd_lines empty_document = []"
  by (simp_all add: doc_ok_def empty_document_def)

text \<open>The buckets cover all lines: every line has one of the five types.\<close>

lemma sum_by_type:
  "list_all (\<lambda>c. cl_taxType c \<in> set TAX_TYPES) cs \<Longrightarrow>
     (\<Sum>t\<leftarrow>TAX_TYPES. sum_list (map f (filter (\<lambda>c. cl_taxType c = t) cs))) = sum_list (map (f :: _ \<Rightarrow> int) cs)"
  by (induction cs) (auto simp: TAX_TYPES_def)


definition demo_line :: "string \<Rightarrow> int \<Rightarrow> int \<Rightarrow> string \<Rightarrow> lineInput" where
  "demo_line d q p t = \<lparr> li_description = Some d, li_qtyMilli = q, li_unitPriceMinor = p, li_discountMinor = None,
     li_taxType = t, li_itemCode = None, li_itemClassCode = None, li_unitCode = None \<rparr>"

definition demo_lines :: "lineInput list" where
  "demo_lines = [demo_line ''rent'' 1500 3333 ''B'', demo_line ''fuel'' 2000 1099 ''E'', demo_line ''tea'' 1000 500 ''A'']"


text \<open>Round trip of quantities: the decimal string of a quantity in thousandths, below a billion units,
  parses back to it.\<close>

theorem parseQtyMilli_round_trip:
  "0 \<le> m \<Longrightarrow> m < 10 ^ 12 \<Longrightarrow> parseQtyMilli (milliToQty_string m) = Inr m"
  by (rule quantity.parse_print) simp

theorem parseQtyMilli_round_trip_witness: "milliToQty_string 2250 = ''2.250'' \<and> parseQtyMilli ''2.250'' = Inr 2250"
proof -
  have "milliToQty_string 2250 = ''2.250''" by code_simp
  with parseQtyMilli_round_trip [of 2250] show ?thesis by simp
qed

end
