(* ===== verification/Circuit_Breaker.thy ===== *)
theory Circuit_Breaker
  imports Interfaces
begin

text \<open>
  packages/providers/src/circuit-breaker.ts: the breaker each provider adapter consults before a
  call.  The clock is an argument of the operations; the configuration is the effective one
  (environment value or default).
\<close>

section \<open>State and operations\<close>

datatype circuit_state = CLOSED | OPEN | HALF_OPEN

record breaker_config =
  failureThreshold :: int
  successThreshold :: int
  timeoutMs :: int

record breaker =
  cb_name :: string
  cb_config :: breaker_config
  cb_state :: circuit_state
  cb_failureCount :: int
  cb_successCount :: int
  cb_lastFailureTime :: int
  cb_lastStateChange :: int

text \<open>The environment overrides, each present or not.\<close>

record breaker_env =
  env_failureThreshold :: "int option"
  env_successThreshold :: "int option"
  env_timeoutMs :: "int option"

definition effective_config :: "breaker_env \<Rightarrow> breaker \<Rightarrow> breaker_config" where
  "effective_config env cb =
     \<lparr> failureThreshold = nullish (env_failureThreshold env) (failureThreshold (cb_config cb)),
       successThreshold = nullish (env_successThreshold env) (successThreshold (cb_config cb)),
       timeoutMs = nullish (env_timeoutMs env) (timeoutMs (cb_config cb)) \<rparr>"

definition new_breaker :: "int \<Rightarrow> string \<Rightarrow> breaker_config \<Rightarrow> breaker" where
  "new_breaker t name cfg = \<lparr> cb_name = name, cb_config = cfg, cb_state = CLOSED,
     cb_failureCount = 0, cb_successCount = 0, cb_lastFailureTime = 0, cb_lastStateChange = t \<rparr>"

definition canExecute :: "breaker_env \<Rightarrow> int \<Rightarrow> breaker \<Rightarrow> bool \<times> breaker" where
  "canExecute env t cb = (let cfg = effective_config env cb in
     case cb_state cb of
       CLOSED \<Rightarrow> (True, cb)
     | OPEN \<Rightarrow>
         if t - cb_lastFailureTime cb \<ge> timeoutMs cfg
         then (True, cb\<lparr>cb_state := HALF_OPEN, cb_successCount := 0, cb_lastStateChange := t\<rparr>)
         else (False, cb)
     | HALF_OPEN \<Rightarrow> (True, cb))"

definition recordSuccess :: "breaker_env \<Rightarrow> int \<Rightarrow> breaker \<Rightarrow> breaker" where
  "recordSuccess env t cb = (let cfg = effective_config env cb in
     if cb_state cb = HALF_OPEN
     then (let cb1 = cb\<lparr>cb_successCount := cb_successCount cb + 1\<rparr> in
           if cb_successCount cb1 \<ge> successThreshold cfg
           then cb1\<lparr>cb_state := CLOSED, cb_failureCount := 0, cb_successCount := 0,
                    cb_lastStateChange := t\<rparr>
           else cb1)
     else if cb_state cb = CLOSED then cb\<lparr>cb_failureCount := 0\<rparr>
     else cb)"

definition recordFailure :: "breaker_env \<Rightarrow> int \<Rightarrow> breaker \<Rightarrow> breaker" where
  "recordFailure env t cb = (let cfg = effective_config env cb;
       cb1 = cb\<lparr>cb_failureCount := cb_failureCount cb + 1, cb_lastFailureTime := t\<rparr> in
     if cb_state cb = HALF_OPEN then cb1\<lparr>cb_state := OPEN, cb_lastStateChange := t\<rparr>
     else if cb_state cb = CLOSED \<and> cb_failureCount cb1 \<ge> failureThreshold cfg
       then cb1\<lparr>cb_state := OPEN, cb_lastStateChange := t\<rparr>
     else cb1)"

definition forceOpen :: "int \<Rightarrow> breaker \<Rightarrow> breaker" where
  "forceOpen t cb = cb\<lparr>cb_state := OPEN, cb_lastStateChange := t\<rparr>"

definition forceClose :: "int \<Rightarrow> breaker \<Rightarrow> breaker" where
  "forceClose t cb = cb\<lparr>cb_state := CLOSED, cb_failureCount := 0, cb_successCount := 0,
     cb_lastStateChange := t\<rparr>"

text \<open>The registry, a \<open>Map\<close> from provider codes to breakers.\<close>

type_synonym registry = "(string \<times> breaker) list"

definition default_config :: breaker_config where
  "default_config = \<lparr> failureThreshold = 5, successThreshold = 2, timeoutMs = 30000 \<rparr>"

definition getCircuitBreaker :: "int \<Rightarrow> string \<Rightarrow> registry \<Rightarrow> breaker \<times> registry" where
  "getCircuitBreaker t code reg = (case map_of reg code of
     Some cb \<Rightarrow> (cb, reg)
   | None \<Rightarrow> (let cb = new_breaker t code default_config in (cb, reg @ [(code, cb)])))"

definition resetAllCircuitBreakers :: "registry \<Rightarrow> registry" where
  "resetAllCircuitBreakers reg = []"

section \<open>A history of calls\<close>

datatype breaker_call = CanExecute | RecordSuccess | RecordFailure | ForceOpen | ForceClose

definition breaker_exec :: "breaker_env \<Rightarrow> breaker_call \<times> int \<Rightarrow> (breaker, bool) tx" where
  "breaker_exec env c cb = (case c of
     (CanExecute, t) \<Rightarrow> (case canExecute env t cb of (b, cb') \<Rightarrow> (Inr b, cb'))
   | (RecordSuccess, t) \<Rightarrow> (Inr True, recordSuccess env t cb)
   | (RecordFailure, t) \<Rightarrow> (Inr True, recordFailure env t cb)
   | (ForceOpen, t) \<Rightarrow> (Inr True, forceOpen t cb)
   | (ForceClose, t) \<Rightarrow> (Inr True, forceClose t cb))"

text \<open>While closed the failure count is below its threshold, while half open the success count is.\<close>

definition breaker_inv :: "breaker_env \<Rightarrow> breaker \<Rightarrow> bool" where
  "breaker_inv env cb \<longleftrightarrow>
     (cb_state cb = CLOSED \<longrightarrow> cb_failureCount cb < max 1 (failureThreshold (effective_config env cb))) \<and>
     (cb_state cb = HALF_OPEN \<longrightarrow> cb_successCount cb < max 1 (successThreshold (effective_config env cb)))"

lemma effective_config_updates [simp]:
  "effective_config env (cb\<lparr>cb_state := x\<rparr>) = effective_config env cb"
  "effective_config env (cb\<lparr>cb_failureCount := n\<rparr>) = effective_config env cb"
  "effective_config env (cb\<lparr>cb_successCount := n\<rparr>) = effective_config env cb"
  "effective_config env (cb\<lparr>cb_lastFailureTime := n\<rparr>) = effective_config env cb"
  "effective_config env (cb\<lparr>cb_lastStateChange := n\<rparr>) = effective_config env cb"
  by (simp_all add: effective_config_def)

lemmas breaker_defs = canExecute_def recordSuccess_def recordFailure_def forceOpen_def forceClose_def
  breaker_exec_def

lemma breaker_inv_exec: "preserves (breaker_inv env) (breaker_exec env c)"
proof (rule preservesI)
  fix cb r cb'
  assume "breaker_inv env cb" and "breaker_exec env c cb = (r, cb')"
  then show "breaker_inv env cb'"
    by (cases c; cases "fst c")
       (auto simp: breaker_inv_def breaker_defs Let_def split: if_splits circuit_state.splits)
qed

interpretation breaker: command_system "breaker_exec env" "breaker_inv env"
  by unfold_locales (rule breaker_inv_exec)

text \<open>The documented state machine, as a relation between the circuit states.\<close>

inductive circuit_edge :: "breaker_call \<Rightarrow> circuit_state \<Rightarrow> circuit_state \<Rightarrow> bool" where
  trip: "circuit_edge RecordFailure CLOSED OPEN"
| probe: "circuit_edge CanExecute OPEN HALF_OPEN"
| heal: "circuit_edge RecordSuccess HALF_OPEN CLOSED"
| relapse: "circuit_edge RecordFailure HALF_OPEN OPEN"
| manual_open: "circuit_edge ForceOpen s OPEN"
| manual_close: "circuit_edge ForceClose s CLOSED"

inductive_simps circuit_edge_simps [simp]: "circuit_edge c s s'"
inductive_cases circuit_edge_from_open: "circuit_edge c OPEN s'"

lemma exec_edge:
  assumes "breaker_exec env (c, t) cb = (r, cb')" and "cb_state cb' \<noteq> cb_state cb"
  shows "circuit_edge c (cb_state cb) (cb_state cb')"
  using assms
  by (cases c; cases "cb_state cb")
     (auto simp: breaker_defs Let_def split: if_splits)

section \<open>Properties\<close>

text \<open>In every history of calls the breaker is closed only with fewer consecutive failures
  than the threshold and half open only with fewer successes than its threshold, and every
  change of state is an edge of the documented machine: an open circuit is left only through
  half open (after the timeout) or by \<open>forceClose\<close>.\<close>

theorem breaker_history:
  "breaker_inv env (run_all (breaker_exec env) cs (new_breaker t0 name cfg)) \<and>
   (let cb = run_all (breaker_exec env) cs (new_breaker t0 name cfg);
        cb' = snd (breaker_exec env (c, t) cb)
    in cb_state cb' = cb_state cb \<or> circuit_edge c (cb_state cb) (cb_state cb'))"
proof -
  have "breaker_inv env (new_breaker t0 name cfg)"
    by (simp add: breaker_inv_def new_breaker_def)
  then have "breaker_inv env (run_all (breaker_exec env) cs (new_breaker t0 name cfg))"
    by (rule breaker.run_all_inv)
  moreover have "cb_state (snd (breaker_exec env (c, t) cb)) = cb_state cb \<or>
      circuit_edge c (cb_state cb) (cb_state (snd (breaker_exec env (c, t) cb)))" for cb
    using exec_edge [of env c t cb] by (cases "breaker_exec env (c, t) cb") auto
  ultimately show ?thesis by (simp add: Let_def)
qed

lemma recordFailure_closed:
  "cb_state cb = CLOSED \<Longrightarrow>
   recordFailure env t cb = cb\<lparr>cb_failureCount := cb_failureCount cb + 1, cb_lastFailureTime := t,
     cb_state := (if cb_failureCount cb + 1 \<ge> failureThreshold (effective_config env cb) then OPEN else CLOSED),
     cb_lastStateChange := (if cb_failureCount cb + 1 \<ge> failureThreshold (effective_config env cb) then t
        else cb_lastStateChange cb)\<rparr>"
  by (auto simp: recordFailure_def Let_def)

lemma failures_trip:
  assumes "cb_state cb = CLOSED" and "ts \<noteq> []"
    and "cb_failureCount cb + int (length ts) = failureThreshold (effective_config env cb)"
  shows "let cb' = foldl (\<lambda>c t. recordFailure env t c) cb ts
     in cb_state cb' = OPEN \<and> cb_lastFailureTime cb' = last ts \<and> cb_config cb' = cb_config cb"
  using assms
proof (induction ts arbitrary: cb)
  case (Cons t ts)
  show ?case
  proof (cases "ts = []")
    case True
    with Cons.prems show ?thesis by (simp add: recordFailure_closed)
  next
    case False
    then have "0 < length ts" by simp
    moreover have "cb_failureCount cb + 1 + int (length ts) = failureThreshold (effective_config env cb)"
      using Cons.prems(3) by simp
    ultimately have "\<not> failureThreshold (effective_config env cb) \<le> cb_failureCount cb + 1" by linarith
    then have "recordFailure env t cb = cb\<lparr>cb_failureCount := cb_failureCount cb + 1, cb_lastFailureTime := t,
        cb_state := CLOSED\<rparr>" using Cons.prems(1) by (simp add: recordFailure_closed)
    with Cons.prems False Cons.IH [of "recordFailure env t cb"] show ?thesis by (simp add: Let_def)
  qed
qed simp

text \<open>Fail fast: the threshold number of consecutive failures on a fresh breaker opens it, and
  until the timeout after the last failure has passed every request is refused and the breaker
  does not change.\<close>

theorem breaker_fails_fast:
  assumes "int (length ts) = failureThreshold (effective_config env (new_breaker t0 name cfg))"
    and "ts \<noteq> []"
    and "t < last ts + timeoutMs (effective_config env (new_breaker t0 name cfg))"
  shows "let cb = foldl (\<lambda>c t. recordFailure env t c) (new_breaker t0 name cfg) ts
     in cb_state cb = OPEN \<and> canExecute env t cb = (False, cb)"
proof -
  let ?n = "new_breaker t0 name cfg"
  let ?cb = "foldl (\<lambda>c t. recordFailure env t c) ?n ts"
  have "cb_state ?cb = OPEN \<and> cb_lastFailureTime ?cb = last ts \<and> cb_config ?cb = cb_config ?n"
    using failures_trip [of ?n ts env] assms(1,2) by (simp add: new_breaker_def Let_def)
  moreover from this have "effective_config env ?cb = effective_config env ?n"
    by (simp add: effective_config_def)
  ultimately show ?thesis using assms(3) by (simp add: canExecute_def Let_def)
qed

theorem breaker_fails_fast_witness:
  "let env = \<lparr> env_failureThreshold = None, env_successThreshold = None, env_timeoutMs = None \<rparr>;
       cb = foldl (\<lambda>c t. recordFailure env t c) (new_breaker 0 ''mpesa'' default_config) [1, 2, 3, 4, 5]
   in cb_state cb = OPEN \<and> canExecute env 30004 cb = (False, cb)"
  using breaker_fails_fast [of "[1, 2, 3, 4, 5]"
      "\<lparr> env_failureThreshold = None, env_successThreshold = None, env_timeoutMs = None \<rparr>"
      0 "''mpesa''" default_config 30004]
  by (simp add: effective_config_def default_config_def new_breaker_def)

text \<open>\<open>forceOpen\<close> leaves the time of the last failure as it was, so it does not hold: on a breaker
  that never failed the next request after the timeout measured from the epoch is let through
  at once and the circuit is half open again.\<close>

theorem forceOpen_does_not_hold:
  "timeoutMs (effective_config env (new_breaker t0 name cfg)) \<le> t \<Longrightarrow>
   fst (canExecute env t (forceOpen t (new_breaker t0 name cfg))) \<and>
   cb_state (snd (canExecute env t (forceOpen t (new_breaker t0 name cfg)))) = HALF_OPEN"
  by (simp add: canExecute_def forceOpen_def new_breaker_def Let_def)
     (simp add: effective_config_def)

theorem forceOpen_does_not_hold_witness:
  "let env = \<lparr> env_failureThreshold = None, env_successThreshold = None, env_timeoutMs = None \<rparr>;
       cb = forceOpen 1700000000000 (new_breaker 0 ''mpesa'' default_config)
   in fst (canExecute env 1700000000000 cb)"
  using forceOpen_does_not_hold [of
      "\<lparr> env_failureThreshold = None, env_successThreshold = None, env_timeoutMs = None \<rparr>"
      0 "''mpesa''" default_config 1700000000000]
  by (simp add: effective_config_def default_config_def new_breaker_def)

end
