(* ===== verification/Js_Number.thy ===== *)
theory Js_Number
  imports Complex_Main Json
begin

text \<open>
  \<open>Number(v)\<close> of JavaScript and the arithmetic the packages do on its result: IEEE 754 binary64 as
  rational numbers with rounding to nearest, ties to even, and the grammar of numeric strings.
  Numbers inside a \<open>jsval\<close> are integers, numeric strings are arbitrary.
\<close>

section \<open>Binary64\<close>

datatype js_num = NaN | PosInf | NegInf | Fin rat

function log2_int :: "int \<Rightarrow> int" where
  "log2_int n = (if n < 2 then 0 else 1 + log2_int (n div 2))"
  by pat_completeness auto
termination by (relation "measure nat") auto

declare log2_int.simps [simp del]

definition pow2 :: "int \<Rightarrow> rat" where
  "pow2 e = (if 0 \<le> e then 2 ^ nat e else 1 / 2 ^ nat (- e))"

text \<open>The binary exponent of a positive rational: \<open>2\<^sup>e \<le> q < 2\<^sup>e\<^sup>+\<^sup>1\<close>.\<close>

definition exponent :: "rat \<Rightarrow> int" where
  "exponent q = (case quotient_of q of (n, d) \<Rightarrow>
     let k = log2_int n - log2_int d in if pow2 k \<le> q then k else k - 1)"

definition round_even :: "rat \<Rightarrow> int" where
  "round_even q = (let f = \<lfloor>q\<rfloor>; r = q - of_int f
     in if r < 1 / 2 then f else if r > 1 / 2 then f + 1 else if even f then f else f + 1)"

definition dbl :: "rat \<Rightarrow> js_num" where
  "dbl q = (if q = 0 then Fin 0 else
     let a = \<bar>q\<bar>; e = max (- 1074) (exponent a - 52); v = of_int (round_even (a / pow2 e)) * pow2 e
     in if v \<ge> pow2 1024 then (if q < 0 then NegInf else PosInf)
        else Fin (if q < 0 then - v else v))"

text \<open>\<open>Math.round\<close> and \<open>Math.floor\<close> on a finite number.\<close>

definition math_round :: "rat \<Rightarrow> int" where
  "math_round q = \<lfloor>q + 1 / 2\<rfloor>"

section \<open>Numeric strings\<close>

text \<open>An optional sign, \<open>Infinity\<close>, or digits with an optional fraction and exponent.\<close>

definition split_sign :: "string \<Rightarrow> bool \<times> string" where
  "split_sign s = (if starts_with ''-'' s then (True, drop 1 s)
     else if starts_with ''+'' s then (False, drop 1 s) else (False, s))"

definition exponent_part :: "string \<Rightarrow> int option" where
  "exponent_part s = (case s of [] \<Rightarrow> Some 0
     | c # r \<Rightarrow> if c \<noteq> CHR ''e'' \<and> c \<noteq> CHR ''E'' then None
         else case split_sign r of (neg, ds) \<Rightarrow>
           if ds = [] \<or> \<not> list_all is_digit ds then None
           else Some (if neg then - int (digits_val ds) else int (digits_val ds)))"

definition pow10 :: "int \<Rightarrow> rat" where
  "pow10 e = (if 0 \<le> e then 10 ^ nat e else 1 / 10 ^ nat (- e))"

definition decimal_literal :: "string \<Rightarrow> js_num" where
  "decimal_literal s = (case split_sign s of (neg, r) \<Rightarrow>
     if r = ''Infinity'' then (if neg then NegInf else PosInf)
     else let w = takeWhile is_digit r; r1 = dropWhile is_digit r;
              f = (if starts_with ''.'' r1 then takeWhile is_digit (drop 1 r1) else []);
              r2 = (if starts_with ''.'' r1 then dropWhile is_digit (drop 1 r1) else r1)
          in if w @ f = [] then NaN
             else case exponent_part r2 of None \<Rightarrow> NaN
               | Some e \<Rightarrow> dbl ((if neg then - 1 else 1) * of_nat (digits_val (w @ f)) * pow10 (e - int (length f))))"

definition number_of_string :: "string \<Rightarrow> js_num" where
  "number_of_string raw = (let s = trim raw; radix = (\<lambda>b. case base_literal b (drop 2 s) of
         None \<Rightarrow> NaN | Some n \<Rightarrow> dbl (of_int n))
     in if s = [] then Fin 0
        else if starts_with ''0x'' s \<or> starts_with ''0X'' s then radix 16
        else if starts_with ''0o'' s \<or> starts_with ''0O'' s then radix 8
        else if starts_with ''0b'' s \<or> starts_with ''0B'' s then radix 2
        else decimal_literal s)"

definition js_number :: "jsval \<Rightarrow> js_num" where
  "js_number v = (case v of
      JUndefined \<Rightarrow> NaN
    | JNull \<Rightarrow> Fin 0
    | JBool b \<Rightarrow> Fin (if b then 1 else 0)
    | JNumber n \<Rightarrow> Fin (of_int n)
    | JBigInt n \<Rightarrow> dbl (of_int n)
    | JString s \<Rightarrow> number_of_string s
    | JDate t \<Rightarrow> Fin (of_int t)
    | JArray vs \<Rightarrow> number_of_string (js_string (JArray vs))
    | JObject kvs \<Rightarrow> NaN)"

end
