(* ===== verification/Tenant_Policy.thy ===== *)
theory Tenant_Policy
  imports Js_Number Approvals
begin

text \<open>
  packages/approvals/src/tenant-policy.ts and apps/web/lib/approval-gate.ts: which approval rules apply
  when a tenant submits money movement.  Stored rules are JSON; they are normalised and validated on
  every load, and a tenant without a usable policy is refused.
\<close>

section \<open>Stored rules\<close>

definition DEMO_APPROVAL_THRESHOLD_MINOR :: int where
  "DEMO_APPROVAL_THRESHOLD_MINOR = 1000000"

text \<open>A rule without conditions on product, channel, branch, department or risk.\<close>

definition amount_rule :: "int option \<Rightarrow> int option \<Rightarrow> approval_mode \<Rightarrow> string list \<Rightarrow> int \<Rightarrow> int \<Rightarrow> approvalRule" where
  "amount_rule lo hi mode requiredRoles minApprovers order =
     \<lparr> rl_minAmountMinor = lo, rl_maxAmountMinor = hi, rl_products = None, rl_channels = None,
       rl_branchIds = None, rl_departmentIds = None, rl_riskFlags = None, rl_mode = mode,
       rl_requiredRoles = requiredRoles, rl_minApprovers = minApprovers, rl_order = order \<rparr>"

definition demoDefaultRules :: "approvalRule list" where
  "demoDefaultRules = [amount_rule (Some DEMO_APPROVAL_THRESHOLD_MINOR) None ANY [''APPROVER''] 1 0]"

definition toMinorAmount :: "jsval \<Rightarrow> int option" where
  "toMinorAmount raw =
     (if is_nullish raw \<or> raw = JString [] then None
      else case raw of
        JBigInt n \<Rightarrow> Some n
      | JNumber n \<Rightarrow> Some n
      | _ \<Rightarrow> (let s = trim (js_string raw) in if s = [] then None else bigint_of_string s))"

definition rule_mode :: "jsval \<Rightarrow> approval_mode" where
  "rule_mode v = (if v = JString ''SEQUENTIAL'' then SEQUENTIAL
     else if v = JString ''PARALLEL'' then PARALLEL else ANY)"

definition rule_roles :: "jsval \<Rightarrow> string list" where
  "rule_roles v = (case v of JArray vs \<Rightarrow> filter (\<lambda>s. s \<noteq> []) (map js_string vs) | _ \<Rightarrow> [])"

text \<open>\<open>Math.max(1, Math.floor(Number(v ?? 1)) || 1)\<close>.  The count \<open>Infinity\<close>, which no number of
  approvals reaches, is the integer \<open>2\<^sup>1\<^sup>0\<^sup>2\<^sup>4\<close>, larger than every finite number.\<close>

definition min_approvers :: "jsval \<Rightarrow> int" where
  "min_approvers v = (case js_number (js_nullish v (JNumber 1)) of
      NaN \<Rightarrow> 1
    | PosInf \<Rightarrow> 2 ^ 1024
    | NegInf \<Rightarrow> 1
    | Fin q \<Rightarrow> max 1 (if \<lfloor>q\<rfloor> = 0 then 1 else \<lfloor>q\<rfloor>))"

definition normalizeStoredRule :: "jsval \<Rightarrow> nat \<Rightarrow> approvalRule" where
  "normalizeStoredRule r index =
     amount_rule (toMinorAmount (js_nullish (js_lookup ''minAmountMinor'' r) (js_lookup ''minAmount'' r)))
       (toMinorAmount (js_nullish (js_lookup ''maxAmountMinor'' r) (js_lookup ''maxAmount'' r)))
       (rule_mode (js_lookup ''mode'' r)) (rule_roles (js_lookup ''requiredRoles'' r))
       (min_approvers (js_lookup ''minApprovers'' r)) (int index)"

definition js_elements :: "jsval \<Rightarrow> jsval list" where
  "js_elements v = (case v of JArray vs \<Rightarrow> vs | _ \<Rightarrow> [])"

definition activePolicies :: "string \<Rightarrow> db \<Rightarrow> approvalPolicy list" where
  "activePolicies tenantId s =
     sort_key (\<lambda>p. - ap_version p) (filter (\<lambda>p. ap_tenantId p = Some tenantId \<and> ap_active p) (approvalPolicies s))"

definition loadTenantActivePolicyRules :: "string \<Rightarrow> approvalRule list option cmd" where
  "loadTenantActivePolicyRules tenantId = gets (\<lambda>s.
     case activePolicies tenantId s of
       [] \<Rightarrow> None
     | policy # _ \<Rightarrow>
        (let arr = js_elements (ap_rules policy) in
         if arr = [] then None
         else let rules = map (\<lambda>(i, r). normalizeStoredRule r i) (enumerate 0 arr)
              in if validateRules rules = None then Some rules else None))"

section \<open>The gate in front of every submission\<close>

datatype policy_source = DEMO_DEFAULT | TENANT_POLICY

definition policy_required_message :: string where
  "policy_required_message =
     ''No active approval policy is published for this workspace '' @ em_dash @ '' money movement is blocked until an owner publishes one in the Approval policies console.''"

definition resolveApprovalRulesForSubmit ::
  "bool \<Rightarrow> string \<Rightarrow> ((string \<times> string) + (approvalRule list \<times> policy_source)) cmd" where
  "resolveApprovalRulesForSubmit demoMode tenantId =
     (if demoMode then return (Inr (demoDefaultRules, DEMO_DEFAULT))
      else bind (loadTenantActivePolicyRules tenantId) (\<lambda>rules.
        return (case rules of
            None \<Rightarrow> Inl (''APPROVAL_POLICY_REQUIRED'', policy_required_message)
          | Some rs \<Rightarrow> if rs = [] then Inl (''APPROVAL_POLICY_REQUIRED'', policy_required_message)
                      else Inr (rs, TENANT_POLICY))))"

section \<open>Facts\<close>

lemma amount_rule_sel [simp]:
  "rl_minAmountMinor (amount_rule lo hi m rs n i) = lo" "rl_maxAmountMinor (amount_rule lo hi m rs n i) = hi"
  "rl_mode (amount_rule lo hi m rs n i) = m" "rl_requiredRoles (amount_rule lo hi m rs n i) = rs"
  "rl_minApprovers (amount_rule lo hi m rs n i) = n" "rl_order (amount_rule lo hi m rs n i) = i"
  by (simp_all add: amount_rule_def)

lemma amount_rule_matches:
  "ruleMatches (amount_rule lo hi m rs n i) ctx \<longleftrightarrow>
     (\<forall>l. lo = Some l \<longrightarrow> l \<le> ctx_amountMinor ctx) \<and>
     (\<forall>h. hi = Some h \<longrightarrow> 0 < h \<longrightarrow> ctx_amountMinor ctx \<le> h)"
  by (cases lo; cases hi) (auto simp: ruleMatches_def amount_rule_def restricts_def)

text \<open>The gate only reads, and what it lets through is a valid, non-empty list of rules.\<close>

lemma loadTenantActivePolicyRules_valid:
  assumes "loadTenantActivePolicyRules tid s = (Inr (Some rules), t)"
  shows "t = s \<and> rules \<noteq> [] \<and> validateRules rules = None"
  using assms
  by (auto simp: loadTenantActivePolicyRules_def gets_def enumerate_eq_zip Let_def split: list.splits if_splits)

lemma resolveApprovalRules_valid:
  assumes "resolveApprovalRulesForSubmit demo tid s = (Inr (Inr (rules, src)), t)"
  shows "t = s \<and> rules \<noteq> [] \<and> validateRules rules = None"
proof (cases demo)
  case True
  with assms show ?thesis
    by (auto simp: resolveApprovalRulesForSubmit_def return_def demoDefaultRules_def)
next
  case False
  with assms obtain v where v: "loadTenantActivePolicyRules tid s = (Inr v, t)"
    and res: "(case v of None \<Rightarrow> Inl (''APPROVAL_POLICY_REQUIRED'', policy_required_message)
        | Some rs \<Rightarrow> if rs = [] then Inl (''APPROVAL_POLICY_REQUIRED'', policy_required_message)
                    else Inr (rs, TENANT_POLICY)) = Inr (rules, src)"
    by (auto simp: resolveApprovalRulesForSubmit_def tx_ok)
  from res have "v = Some rules" by (auto split: option.splits if_splits)
  with v show ?thesis using loadTenantActivePolicyRules_valid by blast
qed

end
