(* ===== verification/Config_Validation.thy ===== *)
theory Config_Validation
  imports Tenant_Policy Money
begin

text \<open>
  The validators of packages/approvals/src/platform-config.ts: what a staged change of a biller, an
  airtime product, a fee rule, an approval policy or a feature flag may contain.  A payload is a JSON
  object; a validator returns the fields of the row to create or the fields an update sets, or throws.
\<close>

section \<open>Shared helpers\<close>

datatype config_kind = BILLER | AIRTIME | FEE_RULE | APPROVAL_POLICY | FEATURE_FLAG

datatype config_op = OP_CREATE | OP_UPDATE | OP_DELETE

type_synonym fields = "(string \<times> jsval) list"

definition config_error :: "string \<Rightarrow> string \<Rightarrow> error" where
  "config_error code message = PlatformConfigError message code"

definition lower_digit_dash :: "char \<Rightarrow> bool" where
  "lower_digit_dash c \<longleftrightarrow> is_lower c \<or> is_digit c \<or> c = CHR ''_'' \<or> c = CHR ''-''"

definition code_re :: "string \<Rightarrow> bool" where
  "code_re s \<longleftrightarrow> 2 \<le> length s \<and> length s \<le> 60 \<and> list_all lower_digit_dash s"

text \<open>\<open>norm\<close>, \<open>FEE_TXT\<close> and \<open>bool\<close>.\<close>

definition norm_or :: "jsval \<Rightarrow> string \<Rightarrow> string" where
  "norm_or v fallback = (if is_nullish v then fallback else trim (js_string v))"

definition norm_text :: "jsval \<Rightarrow> string" where
  "norm_text v = norm_or v []"

definition bool_or :: "jsval \<Rightarrow> bool \<Rightarrow> bool" where
  "bool_or v fallback = (if v = JUndefined then fallback else js_truthy v)"

text \<open>\<open>s || null\<close> on a string.\<close>

definition text_or_null :: "string \<Rightarrow> jsval" where
  "text_or_null s = (if s = [] then JNull else JString s)"

text \<open>The field of an update: absent when the payload does not have it.\<close>

definition change :: "string \<Rightarrow> jsval \<Rightarrow> (jsval \<Rightarrow> jsval cmd) \<Rightarrow> fields cmd" where
  "change k raw f = (let v = js_lookup k raw in
     if v = JUndefined then return [] else bind (f v) (\<lambda>x. return [(k, x)]))"

definition required_text :: "error \<Rightarrow> jsval \<Rightarrow> jsval cmd" where
  "required_text e v = seq (guard (norm_text v \<noteq> []) e) (return (JString (norm_text v)))"

primrec collect :: "fields cmd list \<Rightarrow> fields cmd" where
  "collect [] = return []"
| "collect (m # ms) = bind m (\<lambda>a. bind (collect ms) (\<lambda>b. return (a @ b)))"

definition changes_of :: "fields cmd list \<Rightarrow> fields cmd" where
  "changes_of ms = bind (collect ms) (\<lambda>changes.
     seq (guard (changes \<noteq> []) (config_error ''EMPTY_CHANGE'' ''Nothing to change'')) (return changes))"

section \<open>Billers\<close>

definition en_dash :: string where
  "en_dash = [CHR 0xE2, CHR 0x80, CHR 0x93]"

definition biller_channel :: "jsval \<Rightarrow> jsval" where
  "biller_channel v = JString (if v = JString ''till'' then ''till'' else ''paybill'')"

definition validateBiller :: "config_op \<Rightarrow> jsval \<Rightarrow> fields cmd" where
  "validateBiller op raw = (case op of
      OP_DELETE \<Rightarrow> return []
    | OP_CREATE \<Rightarrow>
       (let code = toLowerCase (norm_text (js_lookup ''code'' raw));
            name = norm_text (js_lookup ''name'' raw);
            accountNumber = norm_text (js_lookup ''accountNumber'' raw)
        in seq (guard (code_re code)
                 (config_error ''INVALID_CODE'' (''Code must be 2'' @ en_dash @ ''60 chars of a-z 0-9 _ -'')))
           (seq (guard (name \<noteq> []) (config_error ''INVALID_NAME'' ''Name is required''))
           (seq (guard (accountNumber \<noteq> []) (config_error ''INVALID_ACCOUNT'' ''Account number is required''))
             (return [(''code'', JString code), (''name'', JString name),
                (''category'', text_or_null (norm_text (js_lookup ''category'' raw))),
                (''channel'', biller_channel (js_lookup ''channel'' raw)),
                (''accountNumber'', JString accountNumber),
                (''enabled'', JBool (bool_or (js_lookup ''enabled'' raw) True))]))))
    | OP_UPDATE \<Rightarrow>
       seq (guard (js_lookup ''code'' raw = JUndefined)
              (config_error ''CODE_IMMUTABLE'' ''Biller code cannot be changed''))
         (changes_of
           [change ''name'' raw (required_text (config_error ''INVALID_NAME'' ''Name cannot be empty'')),
            change ''category'' raw (\<lambda>v. return (text_or_null (norm_text v))),
            change ''channel'' raw (\<lambda>v. return (biller_channel v)),
            change ''accountNumber'' raw
              (required_text (config_error ''INVALID_ACCOUNT'' ''Account number cannot be empty'')),
            change ''enabled'' raw (\<lambda>v. return (JBool (js_truthy v)))]))"

section \<open>Airtime products\<close>

definition airtime_amount :: "jsval \<Rightarrow> jsval cmd" where
  "airtime_amount v =
     (let e = config_error ''INVALID_AMOUNT'' ''Amount must be a positive number in KES''
      in case (if is_nullish v then NaN else js_number v) of
           Fin n \<Rightarrow> (if n \<le> 0 then throw e
             else case dbl (n * 100) of
                 Fin c \<Rightarrow> return (JBigInt (math_round c))
               | _ \<Rightarrow> throw (PlainError ''The number Infinity cannot be converted to a BigInt because it is not an integer''))
         | _ \<Rightarrow> throw e)"

definition airtime_type :: "jsval \<Rightarrow> jsval" where
  "airtime_type v = JString (if v = JString ''DATA'' then ''DATA'' else ''AIRTIME'')"

definition catalog_amount :: "jsval \<Rightarrow> jsval" where
  "catalog_amount raw = js_nullish (js_lookup ''amount'' raw) (js_lookup ''denominationMinor'' raw)"

definition validateAirtime :: "config_op \<Rightarrow> jsval \<Rightarrow> fields cmd" where
  "validateAirtime op raw = (case op of
      OP_DELETE \<Rightarrow> return []
    | OP_CREATE \<Rightarrow>
       (let providerCode = norm_text (js_lookup ''providerCode'' raw);
            network = toUpperCase (norm_text (js_lookup ''network'' raw));
            productCode = norm_text (js_lookup ''productCode'' raw);
            name = norm_text (js_lookup ''name'' raw)
        in seq (guard (providerCode \<noteq> [] \<and> network \<noteq> [] \<and> productCode \<noteq> [] \<and> name \<noteq> [])
                 (config_error ''MISSING_FIELDS'' ''providerCode, network, productCode and name are required''))
           (bind (airtime_amount (catalog_amount raw)) (\<lambda>amount.
             return [(''providerCode'', JString providerCode), (''network'', JString network),
               (''productCode'', JString productCode), (''name'', JString name),
               (''type'', airtime_type (js_lookup ''type'' raw)), (''denominationMinor'', amount),
               (''currency'', JString ''KES''), (''enabled'', JBool (bool_or (js_lookup ''enabled'' raw) True))])))
    | OP_UPDATE \<Rightarrow>
       changes_of
         [change ''name'' raw (required_text (config_error ''INVALID_NAME'' ''Name cannot be empty'')),
          change ''type'' raw (\<lambda>v. return (airtime_type v)),
          (if js_lookup ''amount'' raw \<noteq> JUndefined \<or> js_lookup ''denominationMinor'' raw \<noteq> JUndefined
           then bind (airtime_amount (catalog_amount raw)) (\<lambda>a. return [(''denominationMinor'', a)])
           else return []),
          change ''enabled'' raw (\<lambda>v. return (JBool (js_truthy v)))])"

section \<open>Fee rules\<close>

definition int_minor_re :: "string \<Rightarrow> bool" where
  "int_minor_re s \<longleftrightarrow> s = ''0'' \<or>
     (s \<noteq> [] \<and> list_all is_digit s \<and> hd s \<noteq> CHR ''0'')"

definition FEE_STATUS :: "string list" where
  "FEE_STATUS = [''ACTIVE'', ''DRAFT'', ''DISABLED'']"

definition minorOr :: "jsval \<Rightarrow> int \<Rightarrow> int cmd" where
  "minorOr v fallback =
     (if is_nullish v \<or> v = JString [] then return fallback
      else let t = trim (js_string v)
           in seq (guard (int_minor_re t)
                (config_error ''INVALID_AMOUNT'' ''Fee amounts must be whole minor units (e.g. 500 = KES 5.00)''))
              (return (int (digits_val t))))"

definition fee_amount :: "jsval \<Rightarrow> jsval cmd" where
  "fee_amount v = bind (minorOr v 0) (\<lambda>n. return (JString (show_int n)))"

text \<open>The status of a new rule: the fallback is tested, the raw value is stored.\<close>

definition new_fee_status :: "jsval \<Rightarrow> string" where
  "new_fee_status v = (if js_string (js_nullish v (JString ''ACTIVE'')) \<in> set FEE_STATUS then js_string v else ''ACTIVE'')"

definition text_or :: "string \<Rightarrow> string \<Rightarrow> string" where
  "text_or s fallback = (if s = [] then fallback else s)"

definition validateFeeRule :: "config_op \<Rightarrow> jsval \<Rightarrow> fields cmd" where
  "validateFeeRule op raw = (case op of
      OP_DELETE \<Rightarrow> throw (config_error ''UNSUPPORTED_OP'' ''Fee rules cannot be deleted through maker-checker'')
    | OP_CREATE \<Rightarrow>
       (let product = norm_text (js_lookup ''product'' raw);
            channel = norm_text (js_lookup ''channel'' raw);
            provider = norm_or (js_lookup ''provider'' raw) ''local-sandbox''
        in seq (guard (product \<noteq> []) (config_error ''INVALID_PRODUCT'' ''Product is required''))
           (seq (guard (channel \<noteq> []) (config_error ''INVALID_CHANNEL'' ''Channel is required''))
           (bind (fee_amount (js_lookup ''flatFeeMinor'' raw)) (\<lambda>flat.
            bind (fee_amount (js_lookup ''percentBps'' raw)) (\<lambda>bps.
            bind (fee_amount (js_lookup ''minFeeMinor'' raw)) (\<lambda>lo.
            bind (fee_amount (js_lookup ''maxFeeMinor'' raw)) (\<lambda>hi.
            return [(''product'', JString product), (''channel'', JString channel), (''provider'', JString provider),
              (''flatFeeMinor'', flat), (''percentBps'', bps), (''minFeeMinor'', lo), (''maxFeeMinor'', hi),
              (''status'', JString (new_fee_status (js_lookup ''status'' raw))),
              (''changeComment'', JString (text_or
                 (norm_or (js_lookup ''changeComment'' raw) ''Created via admin console'') ''Created via admin console''))])))))))
    | OP_UPDATE \<Rightarrow>
       changes_of
         ([change ''product'' raw (required_text (config_error ''INVALID_PRODUCT'' ''Product cannot be empty'')),
           change ''channel'' raw (required_text (config_error ''INVALID_CHANNEL'' ''Channel cannot be empty'')),
           change ''provider'' raw (required_text (config_error ''INVALID_PROVIDER'' ''Provider cannot be empty''))] @
          map (\<lambda>k. change k raw fee_amount) [''flatFeeMinor'', ''percentBps'', ''minFeeMinor'', ''maxFeeMinor''] @
          [change ''status'' raw (\<lambda>v. seq (guard (js_string v \<in> set FEE_STATUS)
              (config_error ''INVALID_STATUS'' ''Status must be one of ACTIVE, DRAFT, DISABLED'')) (return (JString (js_string v)))),
           change ''changeComment'' raw (\<lambda>v. return (JString (text_or (norm_or v ''Admin change'') ''Admin change'')))]))"

section \<open>Approval policies\<close>

definition parseRuleAmount :: "jsval \<Rightarrow> int option cmd" where
  "parseRuleAmount v =
     (if is_nullish v \<or> v = JString [] then return None
      else case parseMinor (RawString (js_string v)) of
          Inl e \<Rightarrow> throw e
        | Inr minor \<Rightarrow> return (Some minor))"

definition canonicalRule :: "nat \<times> jsval \<Rightarrow> approvalRule cmd" where
  "canonicalRule = (\<lambda>(index, rr).
     bind (parseRuleAmount (js_nullish (js_lookup ''minAmount'' rr) (js_lookup ''minAmountMinor'' rr))) (\<lambda>lo.
     bind (parseRuleAmount (js_nullish (js_lookup ''maxAmount'' rr) (js_lookup ''maxAmountMinor'' rr))) (\<lambda>hi.
     return (amount_rule lo hi (rule_mode (js_lookup ''mode'' rr)) (rule_roles (js_lookup ''requiredRoles'' rr))
       (min_approvers (js_lookup ''minApprovers'' rr)) (int index)))))"

primrec canonicalRules :: "(nat \<times> jsval) list \<Rightarrow> approvalRule list cmd" where
  "canonicalRules [] = return []"
| "canonicalRules (r # rs) = bind (canonicalRule r) (\<lambda>x. bind (canonicalRules rs) (\<lambda>xs. return (x # xs)))"

definition canonicalizeRules :: "jsval \<Rightarrow> approvalRule list cmd" where
  "canonicalizeRules raw =
     bind (canonicalRules (enumerate 0 (js_elements raw))) (\<lambda>rules.
     case validateRules rules of Some e \<Rightarrow> throw e | None \<Rightarrow> return rules)"

definition minor_or_null :: "int option \<Rightarrow> jsval" where
  "minor_or_null v = (case v of None \<Rightarrow> JNull | Some n \<Rightarrow> JString (show_int n))"

fun mode_name :: "approval_mode \<Rightarrow> string" where
  "mode_name SEQUENTIAL = ''SEQUENTIAL''"
| "mode_name PARALLEL = ''PARALLEL''"
| "mode_name ANY = ''ANY''"

text \<open>\<open>JSON.stringify\<close> writes an infinite count as \<open>null\<close>.\<close>

definition count_json :: "int \<Rightarrow> jsval" where
  "count_json n = (if n \<ge> 2 ^ 1024 then JNull else JNumber n)"

definition minorStringRule :: "approvalRule \<Rightarrow> jsval" where
  "minorStringRule r = JObject
     [(''minAmountMinor'', minor_or_null (rl_minAmountMinor r)), (''maxAmountMinor'', minor_or_null (rl_maxAmountMinor r)),
      (''mode'', JString (mode_name (rl_mode r))), (''requiredRoles'', JArray (map JString (rl_requiredRoles r))),
      (''minApprovers'', count_json (rl_minApprovers r)), (''order'', JNumber (rl_order r))]"

definition rulesToMinorStrings :: "approvalRule list \<Rightarrow> jsval" where
  "rulesToMinorStrings rules = JArray (map minorStringRule rules)"

definition validateApprovalPolicy :: "config_op \<Rightarrow> jsval \<Rightarrow> fields cmd" where
  "validateApprovalPolicy op raw = (case op of
      OP_DELETE \<Rightarrow> throw (config_error ''UNSUPPORTED_OP'' ''Approval policies cannot be deleted through maker-checker'')
    | OP_CREATE \<Rightarrow>
       (let tenantId = norm_text (js_lookup ''tenantId'' raw); name = norm_text (js_lookup ''name'' raw)
        in seq (guard (tenantId \<noteq> []) (config_error ''MISSING_TENANT'' ''tenantId is required''))
           (seq (guard (name \<noteq> []) (config_error ''INVALID_NAME'' ''Policy name is required''))
           (bind (canonicalizeRules (js_lookup ''rules'' raw)) (\<lambda>rules.
             return [(''tenantId'', JString tenantId), (''name'', JString name),
               (''description'', text_or_null (norm_text (js_lookup ''description'' raw))),
               (''rules'', rulesToMinorStrings rules)]))))
    | OP_UPDATE \<Rightarrow>
       changes_of
         [change ''name'' raw (required_text (config_error ''INVALID_NAME'' ''Policy name cannot be empty'')),
          change ''description'' raw (\<lambda>v. return (text_or_null (norm_text v))),
          change ''rules'' raw (\<lambda>v. bind (canonicalizeRules v) (\<lambda>rules. return (rulesToMinorStrings rules))),
          change ''active'' raw (\<lambda>v. return (JBool (js_truthy v))),
          change ''comment'' raw (\<lambda>v. return (JString (norm_text v)))])"

section \<open>Feature flags\<close>

definition validateFeatureFlag :: "config_op \<Rightarrow> jsval \<Rightarrow> fields cmd" where
  "validateFeatureFlag op raw =
     (if op = OP_CREATE \<or> op = OP_DELETE then throw (config_error ''UNSUPPORTED_OP'' ''Only flag toggles are staged'')
      else case js_lookup ''enabled'' raw of
          JBool b \<Rightarrow> return [(''enabled'', JBool b)]
        | _ \<Rightarrow> throw (config_error ''INVALID_ENABLED'' ''enabled must be true or false''))"

fun VALIDATORS :: "config_kind \<Rightarrow> config_op \<Rightarrow> jsval \<Rightarrow> fields cmd" where
  "VALIDATORS BILLER = validateBiller"
| "VALIDATORS AIRTIME = validateAirtime"
| "VALIDATORS FEE_RULE = validateFeeRule"
| "VALIDATORS APPROVAL_POLICY = validateApprovalPolicy"
| "VALIDATORS FEATURE_FLAG = validateFeatureFlag"

end
