(* ===== verification/Platform_Config.thy ===== *)
theory Platform_Config
  imports "HOL-Library.List_Lexorder" "HOL-Library.Char_ord" Config_Validation Audit_Log Payment_State
begin

text \<open>
  packages/approvals/src/platform-config.ts: maker-checker for the configuration of the platform.  A
  change is staged as an approval request of the sentinel tenant (\<open>createPlatformConfigChange\<close>) and
  applied, by the approver's authority, when a second administrator has approved it
  (\<open>decidePlatformConfigChange\<close>).  The time stamps of the configuration tables carry no behaviour and
  are left out of the rows.
\<close>

section \<open>Constants\<close>

definition PLATFORM_TENANT_ID :: string where
  "PLATFORM_TENANT_ID = ''00000000-0000-0000-0000-000000000000''"

definition PLATFORM_CONFIG_APPROVER_ROLE :: string where
  "PLATFORM_CONFIG_APPROVER_ROLE = ''SUPER_ADMIN''"

fun config_kind_name :: "config_kind \<Rightarrow> string" where
  "config_kind_name BILLER = ''biller''"
| "config_kind_name AIRTIME = ''airtime''"
| "config_kind_name FEE_RULE = ''fee_rule''"
| "config_kind_name APPROVAL_POLICY = ''approval_policy''"
| "config_kind_name FEATURE_FLAG = ''feature_flag''"

fun op_name :: "config_op \<Rightarrow> string" where
  "op_name OP_CREATE = ''create''"
| "op_name OP_UPDATE = ''update''"
| "op_name OP_DELETE = ''delete''"

definition kind_of_name :: "string \<Rightarrow> config_kind option" where
  "kind_of_name k = find (\<lambda>x. config_kind_name x = k) [BILLER, AIRTIME, FEE_RULE, APPROVAL_POLICY, FEATURE_FLAG]"

definition op_of_name :: "string \<Rightarrow> config_op option" where
  "op_of_name k = find (\<lambda>x. op_name x = k) [OP_CREATE, OP_UPDATE, OP_DELETE]"

fun KIND_OPS :: "config_kind \<Rightarrow> config_op list" where
  "KIND_OPS BILLER = [OP_CREATE, OP_UPDATE, OP_DELETE]"
| "KIND_OPS AIRTIME = [OP_CREATE, OP_UPDATE, OP_DELETE]"
| "KIND_OPS FEE_RULE = [OP_CREATE, OP_UPDATE]"
| "KIND_OPS APPROVAL_POLICY = [OP_CREATE, OP_UPDATE]"
| "KIND_OPS FEATURE_FLAG = [OP_UPDATE]"

fun KIND_NOUN :: "config_kind \<Rightarrow> string" where
  "KIND_NOUN BILLER = ''biller''"
| "KIND_NOUN AIRTIME = ''airtime product''"
| "KIND_NOUN FEE_RULE = ''fee rule''"
| "KIND_NOUN APPROVAL_POLICY = ''approval policy''"
| "KIND_NOUN FEATURE_FLAG = ''feature flag''"

fun biller_action :: "config_op \<Rightarrow> string" where
  "biller_action OP_CREATE = ''catalog.biller.create''"
| "biller_action OP_UPDATE = ''catalog.biller.update''"
| "biller_action OP_DELETE = ''catalog.biller.delete''"

fun airtime_action :: "config_op \<Rightarrow> string" where
  "airtime_action OP_CREATE = ''catalog.airtime.create''"
| "airtime_action OP_UPDATE = ''catalog.airtime.update''"
| "airtime_action OP_DELETE = ''catalog.airtime.delete''"

section \<open>Rows as JSON\<close>

definition js_text :: "string option \<Rightarrow> jsval" where
  "js_text v = (case v of None \<Rightarrow> JNull | Some x \<Rightarrow> JString x)"

definition js_time :: "int option \<Rightarrow> jsval" where
  "js_time v = (case v of None \<Rightarrow> JNull | Some t \<Rightarrow> JDate t)"

definition biller_json :: "biller \<Rightarrow> jsval" where
  "biller_json b = JObject [(''id'', JString (bl_id b)), (''code'', JString (bl_code b)), (''name'', JString (bl_name b)),
     (''category'', js_text (bl_category b)), (''channel'', JString (bl_channel b)),
     (''accountNumber'', JString (bl_accountNumber b)), (''enabled'', JBool (bl_enabled b))]"

definition airtime_json :: "airtimeProduct \<Rightarrow> jsval" where
  "airtime_json a = JObject [(''id'', JString (at_id a)), (''providerCode'', JString (at_providerCode a)),
     (''network'', JString (at_network a)), (''productCode'', JString (at_productCode a)), (''name'', JString (at_name a)),
     (''type'', JString (at_type a)), (''denominationMinor'', JBigInt (at_denominationMinor a)),
     (''currency'', JString (at_currency a)), (''enabled'', JBool (at_enabled a))]"

definition fee_rule_json :: "feeRule \<Rightarrow> jsval" where
  "fee_rule_json r = JObject [(''id'', JString (fr_id r)), (''tenantId'', js_text (fr_tenantId r)),
     (''product'', JString (fr_product r)), (''channel'', JString (fr_channel r)), (''provider'', JString (fr_provider r)),
     (''flatFeeMinor'', JBigInt (fr_flatFeeMinor r)), (''percentBps'', JBigInt (fr_percentBps r)),
     (''minFeeMinor'', JBigInt (fr_minFeeMinor r)), (''maxFeeMinor'', JBigInt (fr_maxFeeMinor r)),
     (''currency'', JString (fr_currency r)), (''effectiveFrom'', js_time (fr_effectiveFrom r)),
     (''effectiveTo'', js_time (fr_effectiveTo r)), (''status'', JString (fr_status r)),
     (''version'', JNumber (fr_version r)), (''changeComment'', js_text (fr_changeComment r)),
     (''createdById'', js_text (fr_createdById r)), (''createdAt'', JDate (fr_createdAt r))]"

definition policy_json :: "approvalPolicy \<Rightarrow> jsval" where
  "policy_json p = JObject [(''id'', JString (ap_id p)), (''tenantId'', js_text (ap_tenantId p)),
     (''name'', JString (ap_name p)), (''description'', js_text (ap_description p)), (''rules'', ap_rules p),
     (''version'', JNumber (ap_version p)), (''active'', JBool (ap_active p)), (''createdById'', js_text (ap_createdById p))]"

definition flag_json :: "featureFlag \<Rightarrow> jsval" where
  "flag_json f = JObject [(''id'', JString (ff_id f)), (''key'', JString (ff_key f)), (''enabled'', JBool (ff_enabled f)),
     (''tenantId'', js_text (ff_tenantId f))]"

text \<open>Columns written from a payload.  The payload has been through the \<open>jsonb\<close> snapshot, so amounts
  are decimal strings.\<close>

definition text_column :: "jsval \<Rightarrow> string option" where
  "text_column v = (if is_nullish v then None else Some (js_string v))"

definition minor_column :: "jsval \<Rightarrow> int" where
  "minor_column v = (case v of JBigInt n \<Rightarrow> n | JNumber n \<Rightarrow> n | _ \<Rightarrow> nullish (bigint_of_string (js_string v)) 0)"

section \<open>Billers and airtime products\<close>

definition platform_audit ::
  "string \<Rightarrow> string \<Rightarrow> string \<Rightarrow> string \<Rightarrow> string \<Rightarrow> jsval \<Rightarrow> jsval \<Rightarrow> string cmd" where
  "platform_audit actorId actorRole action resourceType rid before after =
     writeAuditEvent (Some PLATFORM_TENANT_ID) (Some actorId) (Some actorRole) action resourceType (Some rid) before after"

text \<open>What an apply returns: the id and, for approval policies, version and activity.\<close>

record appliedChange =
  ac_id :: string
  ac_version :: "int option"
  ac_active :: "bool option"

definition applied_id :: "string \<Rightarrow> appliedChange" where
  "applied_id i = \<lparr> ac_id = i, ac_version = None, ac_active = None \<rparr>"

definition require_target :: "string option \<Rightarrow> string cmd" where
  "require_target targetId =
     (if truthy targetId then return (the targetId) else throw (config_error ''TARGET_REQUIRED'' ''Missing target id''))"

definition stale_target :: error where
  "stale_target = config_error ''APPLY_STALE'' ''Target row no longer exists (deleted after approval)''"

definition biller_of :: "string \<Rightarrow> jsval \<Rightarrow> biller" where
  "biller_of bid p = \<lparr> bl_id = bid, bl_code = js_string (js_lookup ''code'' p), bl_name = js_string (js_lookup ''name'' p),
     bl_category = text_column (js_lookup ''category'' p), bl_channel = js_string (js_lookup ''channel'' p),
     bl_accountNumber = js_string (js_lookup ''accountNumber'' p), bl_enabled = bool_or (js_lookup ''enabled'' p) True \<rparr>"

definition update_text :: "jsval \<Rightarrow> string \<Rightarrow> string" where
  "update_text v old = (if v = JUndefined then old else js_string v)"

definition merge_biller :: "jsval \<Rightarrow> biller \<Rightarrow> biller" where
  "merge_biller p b = b\<lparr> bl_name := update_text (js_lookup ''name'' p) (bl_name b),
     bl_category := (if js_lookup ''category'' p = JUndefined then bl_category b else text_column (js_lookup ''category'' p)),
     bl_channel := update_text (js_lookup ''channel'' p) (bl_channel b),
     bl_accountNumber := update_text (js_lookup ''accountNumber'' p) (bl_accountNumber b),
     bl_enabled := bool_or (js_lookup ''enabled'' p) (bl_enabled b) \<rparr>"

definition biller_before :: "biller \<Rightarrow> jsval" where
  "biller_before b = JObject [(''name'', JString (bl_name b)), (''category'', js_text (bl_category b)),
     (''channel'', JString (bl_channel b)), (''accountNumber'', JString (bl_accountNumber b)),
     (''enabled'', JBool (bl_enabled b))]"

definition biller_after :: "biller \<Rightarrow> jsval" where
  "biller_after b = JObject [(''code'', JString (bl_code b)), (''name'', JString (bl_name b)),
     (''category'', js_text (bl_category b)), (''channel'', JString (bl_channel b)),
     (''accountNumber'', JString (bl_accountNumber b)), (''enabled'', JBool (bl_enabled b))]"

definition applyBiller :: "string \<Rightarrow> string \<Rightarrow> config_op \<Rightarrow> jsval \<Rightarrow> string option \<Rightarrow> appliedChange cmd" where
  "applyBiller actorId actorRole op payload targetId = (case op of
      OP_CREATE \<Rightarrow>
        bind fresh_id (\<lambda>bid.
        bind (gets (\<lambda>s. js_string (js_lookup ''code'' payload) \<in> bl_code ` set (billers s))) (\<lambda>dup.
        seq (guard (\<not> dup) (DbUnique ''billers_code_uidx''))
        (seq (modify (\<lambda>s. s\<lparr>billers := billers s @ [biller_of bid payload]\<rparr>))
        (seq (platform_audit actorId actorRole (biller_action op) ''biller'' bid JUndefined (biller_after (biller_of bid payload)))
             (return (applied_id bid))))))
    | OP_DELETE \<Rightarrow>
        bind (require_target targetId) (\<lambda>tid.
        bind (gets (\<lambda>s. find (\<lambda>b. bl_id b = tid) (billers s))) (\<lambda>row.
        bind (require row stale_target) (\<lambda>existing.
        seq (modify (\<lambda>s. s\<lparr>billers := filter (\<lambda>b. bl_id b \<noteq> bl_id existing) (billers s)\<rparr>))
        (seq (platform_audit actorId actorRole (biller_action op) ''biller'' (bl_id existing)
               (JObject [(''code'', JString (bl_code existing)), (''name'', JString (bl_name existing))]) JUndefined)
             (return (applied_id (bl_id existing)))))))
    | OP_UPDATE \<Rightarrow>
        bind (require_target targetId) (\<lambda>tid.
        bind (gets (\<lambda>s. find (\<lambda>b. bl_id b = tid) (billers s))) (\<lambda>row.
        bind (require row stale_target) (\<lambda>existing.
        seq (modify (\<lambda>s. s\<lparr>billers := update_rows (\<lambda>b. bl_id b = bl_id existing) (\<lambda>_. merge_biller payload existing) (billers s)\<rparr>))
        (seq (platform_audit actorId actorRole (biller_action op) ''biller'' (bl_id existing)
               (biller_before existing) (biller_before (merge_biller payload existing)))
             (return (applied_id (bl_id existing))))))))"

definition airtime_of :: "string \<Rightarrow> jsval \<Rightarrow> airtimeProduct" where
  "airtime_of aid p = \<lparr> at_id = aid, at_providerCode = js_string (js_lookup ''providerCode'' p),
     at_network = js_string (js_lookup ''network'' p), at_productCode = js_string (js_lookup ''productCode'' p),
     at_name = js_string (js_lookup ''name'' p), at_type = js_string (js_lookup ''type'' p),
     at_denominationMinor = minor_column (js_lookup ''denominationMinor'' p),
     at_currency = js_string (js_lookup ''currency'' p), at_enabled = bool_or (js_lookup ''enabled'' p) True \<rparr>"

definition merge_airtime :: "jsval \<Rightarrow> airtimeProduct \<Rightarrow> airtimeProduct" where
  "merge_airtime p a = a\<lparr> at_name := update_text (js_lookup ''name'' p) (at_name a),
     at_type := update_text (js_lookup ''type'' p) (at_type a),
     at_denominationMinor := (if js_lookup ''denominationMinor'' p = JUndefined then at_denominationMinor a
                              else minor_column (js_lookup ''denominationMinor'' p)),
     at_enabled := bool_or (js_lookup ''enabled'' p) (at_enabled a) \<rparr>"

definition airtime_before :: "airtimeProduct \<Rightarrow> jsval" where
  "airtime_before a = JObject [(''name'', JString (at_name a)), (''type'', JString (at_type a)),
     (''denominationMinor'', JString (show_int (at_denominationMinor a))), (''enabled'', JBool (at_enabled a))]"

definition airtime_after :: "airtimeProduct \<Rightarrow> jsval" where
  "airtime_after a = JObject [(''providerCode'', JString (at_providerCode a)), (''network'', JString (at_network a)),
     (''productCode'', JString (at_productCode a)), (''name'', JString (at_name a)), (''type'', JString (at_type a)),
     (''denominationMinor'', JString (show_int (at_denominationMinor a))), (''enabled'', JBool (at_enabled a))]"

definition applyAirtime :: "string \<Rightarrow> string \<Rightarrow> config_op \<Rightarrow> jsval \<Rightarrow> string option \<Rightarrow> appliedChange cmd" where
  "applyAirtime actorId actorRole op payload targetId = (case op of
      OP_CREATE \<Rightarrow>
        bind fresh_id (\<lambda>aid.
        seq (modify (\<lambda>s. s\<lparr>airtimeCatalog := airtimeCatalog s @ [airtime_of aid payload]\<rparr>))
        (seq (platform_audit actorId actorRole (airtime_action op) ''airtime_product'' aid JUndefined
               (airtime_after (airtime_of aid payload)))
             (return (applied_id aid))))
    | OP_DELETE \<Rightarrow>
        bind (require_target targetId) (\<lambda>tid.
        bind (gets (\<lambda>s. find (\<lambda>a. at_id a = tid) (airtimeCatalog s))) (\<lambda>row.
        bind (require row stale_target) (\<lambda>existing.
        seq (modify (\<lambda>s. s\<lparr>airtimeCatalog := filter (\<lambda>a. at_id a \<noteq> at_id existing) (airtimeCatalog s)\<rparr>))
        (seq (platform_audit actorId actorRole (airtime_action op) ''airtime_product'' (at_id existing)
               (JObject [(''providerCode'', JString (at_providerCode existing)), (''name'', JString (at_name existing))]) JUndefined)
             (return (applied_id (at_id existing)))))))
    | OP_UPDATE \<Rightarrow>
        bind (require_target targetId) (\<lambda>tid.
        bind (gets (\<lambda>s. find (\<lambda>a. at_id a = tid) (airtimeCatalog s))) (\<lambda>row.
        bind (require row stale_target) (\<lambda>existing.
        seq (modify (\<lambda>s. s\<lparr>airtimeCatalog :=
               update_rows (\<lambda>a. at_id a = at_id existing) (\<lambda>_. merge_airtime payload existing) (airtimeCatalog s)\<rparr>))
        (seq (platform_audit actorId actorRole (airtime_action op) ''airtime_product'' (at_id existing)
               (airtime_before existing) (airtime_before (merge_airtime payload existing)))
             (return (applied_id (at_id existing))))))))"

section \<open>Fee rules\<close>

definition toMinorText :: "jsval \<Rightarrow> int cmd" where
  "toMinorText v = (let t = norm_or v ''0''
     in seq (guard (int_minor_re t) (config_error ''INVALID_AMOUNT'' (''Invalid minor amount: '' @ t)))
          (return (int (digits_val t))))"

definition text_of :: "jsval \<Rightarrow> string \<Rightarrow> string" where
  "text_of v fallback = js_string (js_nullish v (JString fallback))"

definition insertFeeVersion :: "string \<Rightarrow> int \<Rightarrow> feeRule \<Rightarrow> string \<Rightarrow> string \<Rightarrow> unit cmd" where
  "insertFeeVersion ruleId version row comment actorId = bind fresh_id (\<lambda>vid.
     modify (\<lambda>s. s\<lparr>feeVersions := feeVersions s @
       [\<lparr> fv_id = vid, fv_feeRuleId = ruleId, fv_version = version, fv_snapshot = to_jsonb (fee_rule_json row),
          fv_changeComment = Some comment, fv_createdById = Some actorId \<rparr>]\<rparr>))"

definition fee_before :: "feeRule \<Rightarrow> jsval" where
  "fee_before r = JObject [(''product'', JString (fr_product r)), (''channel'', JString (fr_channel r)),
     (''provider'', JString (fr_provider r)), (''flatFeeMinor'', JString (show_int (fr_flatFeeMinor r))),
     (''percentBps'', JString (show_int (fr_percentBps r))), (''minFeeMinor'', JString (show_int (fr_minFeeMinor r))),
     (''maxFeeMinor'', JString (show_int (fr_maxFeeMinor r))), (''status'', JString (fr_status r)),
     (''version'', JNumber (fr_version r))]"

definition createFeeRule :: "string \<Rightarrow> string \<Rightarrow> jsval \<Rightarrow> string \<Rightarrow> appliedChange cmd" where
  "createFeeRule actorId actorRole payload comment =
     bind (toMinorText (js_lookup ''flatFeeMinor'' payload)) (\<lambda>flat.
     bind (toMinorText (js_lookup ''percentBps'' payload)) (\<lambda>bps.
     bind (toMinorText (js_lookup ''minFeeMinor'' payload)) (\<lambda>lo.
     bind (toMinorText (js_lookup ''maxFeeMinor'' payload)) (\<lambda>hi.
     bind fresh_id (\<lambda>rid.
     bind (gets now) (\<lambda>t.
     let row = \<lparr> fr_id = rid, fr_tenantId = None, fr_product = text_of (js_lookup ''product'' payload) [],
           fr_channel = text_of (js_lookup ''channel'' payload) [],
           fr_provider = text_of (js_lookup ''provider'' payload) ''local-sandbox'',
           fr_flatFeeMinor = flat, fr_percentBps = bps, fr_minFeeMinor = lo, fr_maxFeeMinor = hi,
           fr_currency = ''KES'', fr_effectiveFrom = None, fr_effectiveTo = None,
           fr_status = text_of (js_lookup ''status'' payload) ''ACTIVE'', fr_version = 1,
           fr_changeComment = Some comment, fr_createdById = Some actorId, fr_createdAt = t \<rparr>
     in seq (modify (\<lambda>s. s\<lparr>feeRules := feeRules s @ [row]\<rparr>))
       (seq (insertFeeVersion rid 1 row comment actorId)
       (seq (platform_audit actorId actorRole ''pricing.rule.updated'' ''fee_rule'' rid JUndefined payload)
            (return (applied_id rid))))))))))"

definition fee_column :: "string \<Rightarrow> jsval \<Rightarrow> int \<Rightarrow> int cmd" where
  "fee_column k payload old = toMinorText (js_nullish (js_lookup k payload) (JString (show_int old)))"

definition updateFeeRule :: "string \<Rightarrow> string \<Rightarrow> jsval \<Rightarrow> string \<Rightarrow> feeRule \<Rightarrow> appliedChange cmd" where
  "updateFeeRule actorId actorRole payload comment existing =
     bind (fee_column ''flatFeeMinor'' payload (fr_flatFeeMinor existing)) (\<lambda>flat.
     bind (fee_column ''percentBps'' payload (fr_percentBps existing)) (\<lambda>bps.
     bind (fee_column ''minFeeMinor'' payload (fr_minFeeMinor existing)) (\<lambda>lo.
     bind (fee_column ''maxFeeMinor'' payload (fr_maxFeeMinor existing)) (\<lambda>hi.
     let row = existing\<lparr> fr_product := text_of (js_lookup ''product'' payload) (fr_product existing),
           fr_channel := text_of (js_lookup ''channel'' payload) (fr_channel existing),
           fr_provider := text_of (js_lookup ''provider'' payload) (fr_provider existing),
           fr_flatFeeMinor := flat, fr_percentBps := bps, fr_minFeeMinor := lo, fr_maxFeeMinor := hi,
           fr_status := text_of (js_lookup ''status'' payload) (fr_status existing),
           fr_version := fr_version existing + 1, fr_changeComment := Some comment,
           fr_createdById := Some actorId \<rparr>
     in seq (modify (\<lambda>s. s\<lparr>feeRules := update_rows (\<lambda>r. fr_id r = fr_id existing) (\<lambda>_. row) (feeRules s)\<rparr>))
       (seq (insertFeeVersion (fr_id existing) (fr_version existing + 1) row comment actorId)
       (seq (platform_audit actorId actorRole ''pricing.rule.updated'' ''fee_rule'' (fr_id existing) (fee_before existing) (fee_before row))
            (return (applied_id (fr_id existing)))))))))"

definition applyFeeRule :: "string \<Rightarrow> string \<Rightarrow> config_op \<Rightarrow> jsval \<Rightarrow> string option \<Rightarrow> appliedChange cmd" where
  "applyFeeRule actorId actorRole op payload targetId =
     (let comment = text_of (js_lookup ''changeComment'' payload) ''Admin change''
      in if op = OP_CREATE then createFeeRule actorId actorRole payload comment
      else bind (require_target targetId) (\<lambda>tid.
           bind (gets (\<lambda>s. find (\<lambda>r. fr_id r = tid) (feeRules s))) (\<lambda>found.
           bind (require found (config_error ''APPLY_STALE'' ''Fee rule no longer exists (deleted after approval)''))
             (updateFeeRule actorId actorRole payload comment))))"

section \<open>Approval policies\<close>

definition sig_amount :: "jsval \<Rightarrow> jsval" where
  "sig_amount v = (if is_nullish v \<or> v = JString [] then JNull
     else case (case v of JBigInt n \<Rightarrow> Some n | JNumber n \<Rightarrow> Some n | _ \<Rightarrow> bigint_of_string (js_string v)) of
         Some n \<Rightarrow> JString (show_int n)
       | None \<Rightarrow> JString (js_string v))"

text \<open>The signature of a stored rule; \<open>JSON.stringify\<close> of the components is a code for the tuple.\<close>

definition storedRuleSig :: "jsval \<Rightarrow> jsval" where
  "storedRuleSig r = JObject
     [(''minAmountMinor'', sig_amount (js_lookup ''minAmountMinor'' r)),
      (''maxAmountMinor'', sig_amount (js_lookup ''maxAmountMinor'' r)),
      (''mode'', js_nullish (js_lookup ''mode'' r) (JString ''ANY'')),
      (''requiredRoles'', JArray (map JString (sort (map js_string (js_elements (js_lookup ''requiredRoles'' r)))))),
      (''minApprovers'', count_json (min_approvers (js_lookup ''minApprovers'' r)))]"

definition payloadRulesChanged :: "jsval \<Rightarrow> jsval \<Rightarrow> bool" where
  "payloadRulesChanged dbRules nextRules \<longleftrightarrow>
     map storedRuleSig (js_elements dbRules) \<noteq> map storedRuleSig (js_elements nextRules)"

definition policy_audit :: "approvalPolicy \<Rightarrow> jsval" where
  "policy_audit p = JObject [(''name'', JString (ap_name p)), (''version'', JNumber (ap_version p)),
     (''ruleCount'', JNumber (int (length (js_elements (ap_rules p))))), (''active'', JBool (ap_active p))]"

definition policy_action :: "bool \<Rightarrow> jsval \<Rightarrow> string" where
  "policy_action rulesChanged active =
     (if rulesChanged then ''approval.policy.update''
      else if active \<noteq> JUndefined then (if js_truthy active then ''approval.policy.activate'' else ''approval.policy.pause'')
      else ''approval.policy.update'')"

definition insertPolicyVersion :: "approvalPolicy \<Rightarrow> string \<Rightarrow> string \<Rightarrow> unit cmd" where
  "insertPolicyVersion policy comment actorId = bind fresh_id (\<lambda>vid.
     modify (\<lambda>s. s\<lparr>approvalPolicyVersions := approvalPolicyVersions s @
       [\<lparr> pv_id = vid, pv_policyId = ap_id policy, pv_version = ap_version policy,
          pv_rulesSnapshot = to_jsonb (ap_rules policy),
          pv_changeComment = Some (text_or comment ''Edited by platform admin''),
          pv_createdById = Some actorId \<rparr>]\<rparr>))"

definition merge_policy :: "jsval \<Rightarrow> int \<Rightarrow> approvalPolicy \<Rightarrow> approvalPolicy" where
  "merge_policy p version policy = policy\<lparr>
     ap_name := (if js_lookup ''name'' p = JUndefined then ap_name policy else trim (js_string (js_lookup ''name'' p))),
     ap_description := (if js_lookup ''description'' p = JUndefined then ap_description policy
                        else text_column (js_lookup ''description'' p)),
     ap_rules := (if js_lookup ''rules'' p = JUndefined then ap_rules policy else js_lookup ''rules'' p),
     ap_active := bool_or (js_lookup ''active'' p) (ap_active policy),
     ap_version := version \<rparr>"

definition createApprovalPolicy :: "string \<Rightarrow> string \<Rightarrow> jsval \<Rightarrow> appliedChange cmd" where
  "createApprovalPolicy actorId actorRole payload =
     bind fresh_id (\<lambda>pid.
     let rules = js_lookup ''rules'' payload;
         row = \<lparr> ap_id = pid, ap_tenantId = Some (text_of (js_lookup ''tenantId'' payload) []),
           ap_name = text_of (js_lookup ''name'' payload) [],
           ap_description = text_column (js_lookup ''description'' payload),
           ap_rules = js_nullish rules (JArray []), ap_version = 1, ap_active = True,
           ap_createdById = Some actorId \<rparr>
     in seq (modify (\<lambda>s. s\<lparr>approvalPolicies := approvalPolicies s @ [row]\<rparr>))
       (seq (platform_audit actorId actorRole ''approval.policy.create'' ''approval_policy'' pid JUndefined
              (JObject [(''tenantId'', js_text (ap_tenantId row)), (''name'', JString (ap_name row)),
                 (''version'', JNumber 1), (''ruleCount'', JNumber (int (length (js_elements rules))))]))
            (return \<lparr> ac_id = pid, ac_version = Some 1, ac_active = Some True \<rparr>)))"

definition updateApprovalPolicy :: "string \<Rightarrow> string \<Rightarrow> jsval \<Rightarrow> approvalPolicy \<Rightarrow> appliedChange cmd" where
  "updateApprovalPolicy actorId actorRole payload policy =
     (let comment = text_of (js_lookup ''comment'' payload) []; rules = js_lookup ''rules'' payload;
          rulesChanged = (rules \<noteq> JUndefined \<and> payloadRulesChanged (ap_rules policy) rules);
          version = (if rulesChanged then ap_version policy + 1 else ap_version policy);
          row = merge_policy payload version policy
      in seq (whenM rulesChanged (insertPolicyVersion policy comment actorId))
        (seq (modify (\<lambda>s. s\<lparr>approvalPolicies := update_rows (\<lambda>p. ap_id p = ap_id policy) (\<lambda>_. row) (approvalPolicies s)\<rparr>))
        (seq (platform_audit actorId actorRole (policy_action rulesChanged (js_lookup ''active'' payload)) ''approval_policy''
               (ap_id policy) (policy_audit policy) (policy_audit row))
             (return \<lparr> ac_id = ap_id policy, ac_version = Some version, ac_active = Some (ap_active row) \<rparr>))))"

definition applyApprovalPolicy :: "string \<Rightarrow> string \<Rightarrow> config_op \<Rightarrow> jsval \<Rightarrow> string option \<Rightarrow> appliedChange cmd" where
  "applyApprovalPolicy actorId actorRole op payload targetId =
     (if op = OP_CREATE then createApprovalPolicy actorId actorRole payload
      else bind (require_target targetId) (\<lambda>tid.
           bind (gets (\<lambda>s. find (\<lambda>p. ap_id p = tid) (approvalPolicies s))) (\<lambda>found.
           bind (require found (config_error ''APPLY_STALE'' ''Approval policy no longer exists (deleted after approval)''))
             (updateApprovalPolicy actorId actorRole payload))))"

section \<open>Feature flags\<close>

definition applyFeatureFlag :: "string \<Rightarrow> string \<Rightarrow> config_op \<Rightarrow> jsval \<Rightarrow> string option \<Rightarrow> appliedChange cmd" where
  "applyFeatureFlag actorId actorRole op payload targetId =
     (if op \<noteq> OP_UPDATE \<or> \<not> truthy targetId then throw (config_error ''TARGET_REQUIRED'' ''Missing target id'')
      else
        bind (gets (\<lambda>s. find (\<lambda>f. Some (ff_id f) = targetId) (featureFlags s))) (\<lambda>found.
        bind (require found (config_error ''APPLY_STALE'' ''Feature flag no longer exists'')) (\<lambda>flag.
        let enabled = (js_lookup ''enabled'' payload = JBool True)
        in seq (modify (\<lambda>s. s\<lparr>featureFlags := update_rows (\<lambda>f. ff_id f = ff_id flag) (\<lambda>f. f\<lparr>ff_enabled := enabled\<rparr>) (featureFlags s)\<rparr>))
          (seq (platform_audit actorId actorRole ''feature_flag.updated'' ''feature_flag'' (ff_id flag)
                 (JObject [(''key'', JString (ff_key flag)), (''enabled'', JBool (ff_enabled flag))])
                 (JObject [(''key'', JString (ff_key flag)), (''enabled'', JBool enabled)]))
               (return (applied_id (ff_id flag)))))))"

fun APPLY :: "config_kind \<Rightarrow> string \<Rightarrow> string \<Rightarrow> config_op \<Rightarrow> jsval \<Rightarrow> string option \<Rightarrow> appliedChange cmd" where
  "APPLY BILLER = applyBiller"
| "APPLY AIRTIME = applyAirtime"
| "APPLY FEE_RULE = applyFeeRule"
| "APPLY APPROVAL_POLICY = applyApprovalPolicy"
| "APPLY FEATURE_FLAG = applyFeatureFlag"

end
