(* ===== verification/Config_Requests.thy ===== *)
theory Config_Requests
  imports Platform_Config
begin

text \<open>
  The public functions of packages/approvals/src/platform-config.ts: staging a change
  (\<open>createPlatformConfigChange\<close>), reading it back (\<open>parseConfigMeta\<close>, \<open>listPlatformConfigRequests\<close>) and
  deciding it (\<open>decidePlatformConfigChange\<close>).
\<close>

section \<open>Labels\<close>

definition row_text :: "string \<Rightarrow> jsval \<Rightarrow> string" where
  "row_text k row = js_string (js_nullish (js_lookup k row) (JString []))"

definition some_text :: "string \<Rightarrow> string option" where
  "some_text s = (if s = [] then None else Some s)"

text \<open>The payload field when it is a non-empty string.\<close>

definition text_field :: "string \<Rightarrow> jsval \<Rightarrow> string option" where
  "text_field k v = (case js_lookup k v of JString s \<Rightarrow> some_text s | _ \<Rightarrow> None)"

definition or_else :: "'a option \<Rightarrow> 'a option \<Rightarrow> 'a option" where
  "or_else a b = (case a of None \<Rightarrow> b | Some x \<Rightarrow> Some x)"

definition rowTitleFor :: "config_kind \<Rightarrow> jsval \<Rightarrow> string option" where
  "rowTitleFor kind row = (case kind of
      FEE_RULE \<Rightarrow> (let p = row_text ''product'' row; c = row_text ''channel'' row
         in if p \<noteq> [] \<or> c \<noteq> [] then Some (p @ (if c \<noteq> [] then '' '' @ middle_dot @ '' '' @ c else [])) else None)
    | FEATURE_FLAG \<Rightarrow> some_text (row_text ''key'' row)
    | _ \<Rightarrow> text_field ''name'' row)"

definition quote :: "string option \<Rightarrow> string" where
  "quote v = (case v of None \<Rightarrow> []
     | Some s \<Rightarrow> if trim s = [] then []
         else [CHR 0xE2, CHR 0x80, CHR 0x9C] @ trim s @ [CHR 0xE2, CHR 0x80, CHR 0x9D])"

text \<open>\<open>`${verb} ${noun} ${quote(base)}`.replace(/\s+$/, "")\<close>\<close>

definition label_text :: "string \<Rightarrow> string option \<Rightarrow> string" where
  "label_text prefix base = rev (dropWhile is_space (rev (prefix @ '' '' @ quote base)))"

definition policy_verb :: "jsval \<Rightarrow> string" where
  "policy_verb payload =
     (if js_lookup ''active'' payload = JBool False then ''pause''
      else if js_lookup ''active'' payload = JBool True then ''activate''
      else if js_lookup ''rules'' payload \<noteq> JUndefined then ''edit rules of'' else ''update'')"

text \<open>\<open>typeof payload.name === "string" ? payload.name : undefined\<close>\<close>

definition string_field :: "string \<Rightarrow> jsval \<Rightarrow> string option" where
  "string_field k v = (case js_lookup k v of JString s \<Rightarrow> Some s | _ \<Rightarrow> None)"

definition describeChange :: "config_kind \<Rightarrow> config_op \<Rightarrow> jsval \<Rightarrow> string option \<Rightarrow> string" where
  "describeChange kind op payload rowTitle = (case kind of
      FEE_RULE \<Rightarrow>
        (let p = text_field ''product'' payload; c = text_field ''channel'' payload;
             base = (if p \<noteq> None \<and> c \<noteq> None then Some (the p @ '' '' @ middle_dot @ '' '' @ the c) else rowTitle)
         in label_text ((if op = OP_CREATE then ''create'' else ''update'') @ '' fee rule'') base)
    | APPROVAL_POLICY \<Rightarrow>
        (if op = OP_CREATE then label_text ''create approval policy'' (string_field ''name'' payload)
         else label_text (policy_verb payload @ '' approval policy'') (or_else rowTitle (string_field ''name'' payload)))
    | FEATURE_FLAG \<Rightarrow>
        label_text ((if js_truthy (js_lookup ''enabled'' payload) then ''enable'' else ''disable'') @ '' feature flag'') rowTitle
    | _ \<Rightarrow>
        label_text (op_name op @ '' '' @ KIND_NOUN kind)
          (or_else (text_field ''name'' payload)
             (or_else (if kind = BILLER then text_field ''code'' payload else None) rowTitle)))"

section \<open>Staging a change\<close>

record configChangeInput =
  cc_actorId :: string
  cc_kind :: config_kind
  cc_op :: config_op
  cc_targetId :: "string option"
  cc_payload :: jsval
  cc_label :: "string option"
  cc_summary :: "string option"

definition fetchConfigTarget :: "config_kind \<Rightarrow> string \<Rightarrow> jsval option cmd" where
  "fetchConfigTarget kind targetId = gets (\<lambda>s. map_option toJsonSafe (case kind of
      BILLER \<Rightarrow> map_option biller_json (find (\<lambda>b. bl_id b = targetId) (billers s))
    | AIRTIME \<Rightarrow> map_option airtime_json (find (\<lambda>a. at_id a = targetId) (airtimeCatalog s))
    | FEE_RULE \<Rightarrow> map_option fee_rule_json (find (\<lambda>r. fr_id r = targetId) (feeRules s))
    | APPROVAL_POLICY \<Rightarrow> map_option policy_json (find (\<lambda>p. ap_id p = targetId) (approvalPolicies s))
    | FEATURE_FLAG \<Rightarrow> map_option flag_json (find (\<lambda>f. ff_id f = targetId) (featureFlags s))))"

text \<open>Full-form saves echo the immutable code of a biller: an identical echo is dropped, a different one
  refused, and without a live row it is left to the validator.\<close>

definition drop_key :: "string \<Rightarrow> jsval \<Rightarrow> jsval" where
  "drop_key k v = (case v of JObject kvs \<Rightarrow> JObject (filter (\<lambda>kv. fst kv \<noteq> k) kvs) | _ \<Rightarrow> v)"

definition echo_payload :: "configChangeInput \<Rightarrow> jsval cmd" where
  "echo_payload input =
     (case (if cc_kind input = BILLER \<and> cc_op input = OP_UPDATE then string_field ''code'' (cc_payload input) else None) of
        None \<Rightarrow> return (cc_payload input)
      | Some code \<Rightarrow>
        bind (gets (\<lambda>s. find (\<lambda>b. bl_id b = nullish (cc_targetId input) []) (billers s))) (\<lambda>existing.
        case existing of
          None \<Rightarrow> return (cc_payload input)
        | Some b \<Rightarrow> seq (guard (bl_code b = toLowerCase (trim code))
              (config_error ''CODE_IMMUTABLE'' ''Biller code cannot be changed''))
            (return (drop_key ''code'' (cc_payload input)))))"

definition create_precheck :: "configChangeInput \<Rightarrow> jsval \<Rightarrow> unit cmd" where
  "create_precheck input changes =
     (if cc_op input \<noteq> OP_CREATE then return ()
      else if cc_kind input = BILLER then
        (let code = row_text ''code'' changes
         in bind (gets (\<lambda>s. code \<in> bl_code ` set (billers s))) (\<lambda>dup.
            guard (\<not> dup) (config_error ''CODE_EXISTS'' (''Biller code \"'' @ code @ ''\" already exists''))))
      else if cc_kind input = APPROVAL_POLICY then
        bind (gets (\<lambda>s. row_text ''tenantId'' changes \<in> tn_id ` set (tenants s))) (\<lambda>known.
          guard known (config_error ''TENANT_NOT_FOUND'' ''Tenant not found''))
      else return ())"

definition config_rules :: "approvalRule list" where
  "config_rules = [amount_rule (Some 0) None ANY [PLATFORM_CONFIG_APPROVER_ROLE] 1 0]"

definition config_context :: approvalContext where
  "config_context = \<lparr> ctx_amountMinor = 0, ctx_product = ''platform.config'', ctx_channel = ''admin'',
     ctx_branchId = None, ctx_departmentId = None, ctx_riskFlags = None, ctx_accumulatedTodayMinor = None \<rparr>"

definition config_metadata ::
  "configChangeInput \<Rightarrow> fields \<Rightarrow> jsval option \<Rightarrow> string \<Rightarrow> string \<Rightarrow> jsval" where
  "config_metadata input changes beforeSnapshot label summary = JObject
     [(''kind'', JString (config_kind_name (cc_kind input))), (''op'', JString (op_name (cc_op input))),
      (''targetId'', js_opt (cc_targetId input)), (''payload'', JObject changes),
      (''beforeSnapshot'', nullish beforeSnapshot JNull), (''label'', JString label), (''summary'', JString summary)]"

definition stage_request :: "configChangeInput \<Rightarrow> fields \<Rightarrow> jsval option \<Rightarrow> (string \<times> string) cmd" where
  "stage_request input changes snapshot =
     (let rowTitle = (case snapshot of None \<Rightarrow> None | Some row \<Rightarrow> rowTitleFor (cc_kind input) row);
          label = nullish (cc_label input) (describeChange (cc_kind input) (cc_op input) (JObject changes) rowTitle);
          summary = nullish (cc_summary input) (label @ '' '' @ em_dash @ '' requires second platform-admin approval'')
      in bind (createApprovalRequest \<lparr> ca_tenantId = PLATFORM_TENANT_ID, ca_paymentId = None, ca_batchId = None,
                 ca_resourceType = Some ''platform_config'', ca_resourceId = cc_targetId input, ca_policyId = None,
                 ca_rules = config_rules, ca_context = config_context,
                 ca_metadata = config_metadata input changes snapshot label summary,
                 ca_createdById = cc_actorId input, ca_dueAt = None \<rparr>)
           (\<lambda>requestId. return (requestId, label)))"

definition createPlatformConfigChange :: "configChangeInput \<Rightarrow> (string \<times> string) cmd" where
  "createPlatformConfigChange input =
     seq (guard (cc_op input \<in> set (KIND_OPS (cc_kind input)))
            (config_error ''UNSUPPORTED_OP'' (op_name (cc_op input) @ '' is not supported for '' @
               KIND_NOUN (cc_kind input) @ '' changes'')))
     (bind (echo_payload input) (\<lambda>payload.
      bind (VALIDATORS (cc_kind input) (cc_op input) payload) (\<lambda>changes.
      seq (guard (cc_op input = OP_CREATE \<or> truthy (cc_targetId input))
             (config_error ''TARGET_REQUIRED'' ''Target id is required for update/delete''))
      (seq (create_precheck input (JObject changes))
      (if truthy (cc_targetId input)
       then bind (fetchConfigTarget (cc_kind input) (the (cc_targetId input))) (\<lambda>row.
            bind (require row (config_error ''NOT_FOUND'' ''Target not found'')) (\<lambda>snapshot.
            stage_request input changes (Some snapshot)))
       else stage_request input changes None)))))"

section \<open>Reading a change back\<close>

record configMeta =
  cm_kind :: string
  cm_op :: string
  cm_targetId :: "string option"
  cm_payload :: jsval

text \<open>Absent unless the snapshot carries metadata with a kind and an operation.\<close>

definition parseConfigMeta :: "policySnapshot \<Rightarrow> configMeta option" where
  "parseConfigMeta snapshot = (case sn_metadata snapshot of
      JObject kvs \<Rightarrow>
        (let m = JObject kvs in
         if \<not> js_truthy (js_lookup ''kind'' m) \<or> \<not> js_truthy (js_lookup ''op'' m) then None
         else Some \<lparr> cm_kind = js_string (js_lookup ''kind'' m), cm_op = js_string (js_lookup ''op'' m),
                cm_targetId = string_field ''targetId'' m, cm_payload = js_lookup ''payload'' m \<rparr>)
    | _ \<Rightarrow> None)"

definition listPlatformConfigRequests ::
  "request_status option \<Rightarrow> int option \<Rightarrow> (approvalRequest \<times> configMeta option) list cmd" where
  "listPlatformConfigRequests status limit =
     bind (listApprovalRequests PLATFORM_TENANT_ID status (Some (nullish limit 100))) (\<lambda>rows.
     return (map (\<lambda>r. (r, parseConfigMeta (ar_policySnapshot r)))
       (filter (\<lambda>r. ar_resourceType r = Some ''platform_config'') rows)))"

section \<open>Deciding a change\<close>

record configDecision =
  cd_decision :: decision
  cd_comment :: "string option"
  cd_requestId :: string
  cd_actorId :: string
  cd_actorRoles :: "string list"

datatype configOutcome =
    NotApproved request_status string
  | Applied string appliedChange
  | ApplyFailed string string string

definition apply_error_code :: "error \<Rightarrow> string" where
  "apply_error_code e = (case e of PlatformConfigError m c \<Rightarrow> c | _ \<Rightarrow> ''APPLY_FAILED'')"

definition applyConfigChange :: "string \<Rightarrow> configMeta \<Rightarrow> appliedChange cmd" where
  "applyConfigChange actorId meta = (case kind_of_name (cm_kind meta) of
      None \<Rightarrow> throw (config_error ''UNSUPPORTED_KIND'' (''Unsupported platform config kind: '' @ cm_kind meta))
    | Some kind \<Rightarrow>
        (case op_of_name (cm_op meta) of
           None \<Rightarrow> throw (PlainError ''unknown operation'')
         | Some op \<Rightarrow> APPLY kind actorId ''platform_admin'' op (cm_payload meta) (cm_targetId meta)))"

definition apply_failed :: "string \<Rightarrow> string \<Rightarrow> configMeta \<Rightarrow> error \<Rightarrow> configOutcome cmd" where
  "apply_failed requestId actorId meta err =
     (let code = apply_error_code err; message = error_message err
      in seq (setRequest requestId (\<lambda>r. r\<lparr>ar_executionError := Some message\<rparr>))
        (seq (writeAuditEvent (Some PLATFORM_TENANT_ID) (Some actorId) (Some ''platform_admin'')
               ''platform.config.apply_failed'' ''platform_config_request'' (Some requestId) JUndefined
               (JObject [(''kind'', JString (cm_kind meta)), (''op'', JString (cm_op meta)), (''code'', JString code),
                  (''error'', JString message)]))
             (return (ApplyFailed requestId code message))))"

definition decidePlatformConfigChange :: "configDecision \<Rightarrow> configOutcome cmd" where
  "decidePlatformConfigChange input =
     bind (recordApprovalAction \<lparr> ai_requestId = cd_requestId input, ai_actorId = cd_actorId input,
             ai_actorRoles = cd_actorRoles input, ai_decision = cd_decision input,
             ai_comment = cd_comment input, ai_delegatedForId = None \<rparr>) (\<lambda>(status, rid).
     if status \<noteq> AR_APPROVED then return (NotApproved status rid)
     else
       bind (gets (\<lambda>s. find (\<lambda>r. ar_id r = cd_requestId input) (approvalRequests s))) (\<lambda>row.
       case (case row of None \<Rightarrow> None | Some r \<Rightarrow> parseConfigMeta (ar_policySnapshot r)) of
         None \<Rightarrow> throw (ApprovalError ''Platform config request payload is missing'' ''SNAPSHOT_MISSING'')
       | Some meta \<Rightarrow>
           catch
             (bind (applyConfigChange (cd_actorId input) meta) (\<lambda>result.
              bind (gets now) (\<lambda>t.
              seq (setRequest (cd_requestId input) (\<lambda>r. r\<lparr>ar_executedAt := Some t\<rparr>))
                  (return (Applied (cd_requestId input) result)))))
             (apply_failed (cd_requestId input) (cd_actorId input) meta)))"

end
