(* ===== verification/Config_Safety.thy ===== *)
theory Config_Safety
  imports Config_Requests Core_Invariants
begin

text \<open>
  The four eyes on the configuration of the platform: in every history of staged, decided and expired changes a
  configuration table changes only when a platform administrator other than the maker approves the request,
  and then by exactly the change that was staged.
\<close>

section \<open>Histories of configuration changes\<close>

definition config_tables where
  "config_tables s = (billers s, airtimeCatalog s, feeRules s, feeVersions s, approvalPolicies s,
     approvalPolicyVersions s, featureFlags s)"

datatype config_command =
    StageChange configChangeInput
  | DecideChange configDecision
  | ListChanges "request_status option" "int option"
  | ExpireRequests int

primrec exec_config :: "config_command \<Rightarrow> unit cmd" where
  "exec_config (StageChange i) = seq (createPlatformConfigChange i) (return ())"
| "exec_config (DecideChange i) = seq (decidePlatformConfigChange i) (return ())"
| "exec_config (ListChanges st l) = seq (listPlatformConfigRequests st l) (return ())"
| "exec_config (ExpireRequests t) = seq (expireDueApprovals t) (return ())"

text \<open>Every step asks for the approver role of the platform.\<close>

definition checker_steps :: "db \<Rightarrow> bool" where
  "checker_steps s \<longleftrightarrow> list_all (\<lambda>roles. roles = [PLATFORM_CONFIG_APPROVER_ROLE]) (map as_roles (approvalSteps s))"

definition config_inv :: "db \<Rightarrow> bool" where
  "config_inv s \<longleftrightarrow> approval_inv s \<and> checker_steps s"

definition config_start :: "db \<Rightarrow> bool" where
  "config_start s \<longleftrightarrow> uuids_distinct s \<and> approvalRequests s = [] \<and> approvalSteps s = [] \<and> approvalActions s = []"

lemma config_start_inv: "config_start s \<Longrightarrow> config_inv s"
  by (simp add: config_start_def config_inv_def approval_inv_def approval_ids_def actions_ok_def checker_steps_def)

section \<open>What commands keep\<close>

lemma config_modify [preserved]:
  assumes "\<And>s. config_tables (f s) = config_tables s"
  shows "preserves (\<lambda>s. config_tables s = v) (modify f)"
  by (rule preserves_modify) (simp add: assms)

lemma config_fresh_id [preserved]: "preserves (\<lambda>s. config_tables s = v) fresh_id" "preserves checker_steps fresh_id"
  by (rule preservesI, auto simp: fresh_id_def config_tables_def checker_steps_def)+

lemma checker_modify [preserved]:
  assumes "\<And>s. map as_roles (approvalSteps (f s)) = map as_roles (approvalSteps s)"
  shows "preserves checker_steps (modify f)"
  by (rule preserves_modify) (simp add: assms checker_steps_def)

lemmas approval_command_defs = createApprovalRequest_def insertStep_def recordApprovalAction_def insertAction_def
  rejectRequest_def approveStep_def setRequest_def setStepStatus_def expireDueApprovals_def

lemma config_approval_commands [preserved]:
  "preserves (\<lambda>s. config_tables s = v) (createApprovalRequest ca)"
  "preserves (\<lambda>s. config_tables s = v) (recordApprovalAction ai)"
  "preserves (\<lambda>s. config_tables s = v) (expireDueApprovals t0)"
  unfolding approval_command_defs by (intro preserved preserves_case_decision; simp add: config_tables_def)+

lemma checker_approval_commands [preserved]:
  "preserves checker_steps (recordApprovalAction ai)" "preserves checker_steps (expireDueApprovals t0)"
  unfolding approval_command_defs by (intro preserved preserves_case_decision; simp)+

lemma config_writeAuditEvent [preserved]:
  "preserves (\<lambda>s. config_tables s = v) (writeAuditEvent a b c d e f g h)"
  "preserves checker_steps (writeAuditEvent a b c d e f g h)" "preserves approval_inv (writeAuditEvent a b c d e f g h)"
  unfolding writeAuditEvent_def writeAuditEventFrom_def by (intro preserved; simp add: config_tables_def)+

section \<open>Staging\<close>

text \<open>The validators touch no table.\<close>

lemma preserves_case_op:
  "preserves P a \<Longrightarrow> preserves P b \<Longrightarrow> preserves P c \<Longrightarrow>
     preserves P (case op of OP_CREATE \<Rightarrow> a | OP_UPDATE \<Rightarrow> b | OP_DELETE \<Rightarrow> c)"
  by (cases op) simp_all

lemma preserves_collect: "list_all (preserves P) ms \<Longrightarrow> preserves P (collect ms)"
  by (induction ms) (auto intro: preserved)

lemma preserves_changes_of: "list_all (preserves P) ms \<Longrightarrow> preserves P (changes_of ms)"
  unfolding changes_of_def by (intro preserved preserves_collect)

lemma preserves_change: "(\<And>v. preserves P (f v)) \<Longrightarrow> preserves P (change k raw f)"
  unfolding change_def Let_def by (intro preserved)

lemma preserves_canonicalRules: "preserves P (canonicalRules es)"
  by (induction es) (auto simp: canonicalRule_def parseRuleAmount_def Let_def split: prod.splits sum.splits intro!: preserved)

lemma preserves_airtime_amount: "preserves P (airtime_amount v)"
  unfolding airtime_amount_def Let_def by (auto split: js_num.splits intro!: preserved)

lemma preserves_VALIDATORS [preserved]: "preserves P (VALIDATORS k op raw)"
  by (cases k; cases op)
    (auto simp: validateBiller_def validateAirtime_def validateFeeRule_def validateApprovalPolicy_def validateFeatureFlag_def
      Let_def required_text_def fee_amount_def minorOr_def canonicalizeRules_def
      intro!: preserved preserves_airtime_amount preserves_changes_of preserves_change preserves_canonicalRules split: jsval.splits option.splits)

lemma stage_command [preserved]:
  "preserves (\<lambda>s. config_tables s = v) (createPlatformConfigChange i)"
  unfolding createPlatformConfigChange_def stage_request_def create_precheck_def echo_payload_def fetchConfigTarget_def Let_def
  by (intro preserved)

lemma evaluate_config_rules: "map rq_roles (evaluatePolicy config_rules config_context) = [[PLATFORM_CONFIG_APPROVER_ROLE]]"
  by code_simp

lemma roles_step_rows: "map as_roles (step_rows rid gen n qs) = map rq_roles qs"
  by (induction qs arbitrary: n) (simp_all add: step_row_def)

lemma createApprovalRequest_err: "createApprovalRequest input s = (Inl e, t) \<Longrightarrow> t = s"
  by (auto simp: createApprovalRequest_def Let_def throw_def dest: transaction_rollback split: option.splits list.splits)

text \<open>A staged change asks for one administrator.\<close>

lemma checker_stage [preserved]: "preserves checker_steps (stage_request input changes snapshot)"
proof (rule preservesI)
  fix s r t
  assume inv: "checker_steps s" and run: "stage_request input changes snapshot s = (r, t)"
  show "checker_steps t"
  proof (cases r)
    case (Inl e)
    with run have "t = s"
      by (auto simp: stage_request_def Let_def tx_err tx_ok dest: createApprovalRequest_err)
    with inv show ?thesis by simp
  next
    case (Inr x)
    with run obtain rid input' where "createApprovalRequest input' s = (Inr rid, t)"
      and "ca_rules input' = config_rules" "ca_context input' = config_context"
      by (auto simp: stage_request_def Let_def tx_ok)
    then obtain q where "t = after_create q (evaluatePolicy config_rules config_context) s"
      by (elim createApprovalRequest_run) simp
    with inv show ?thesis
      by (simp add: checker_steps_def after_create_def roles_step_rows evaluate_config_rules)
  qed
qed

lemma approval_stage [preserved]: "preserves approval_inv (createPlatformConfigChange i)" "preserves checker_steps (createPlatformConfigChange i)"
  unfolding createPlatformConfigChange_def create_precheck_def echo_payload_def fetchConfigTarget_def Let_def
  by (intro preserved; simp add: stage_request_def Let_def; intro preserved)+

section \<open>Deciding\<close>

text \<open>Applying a change, to whatever table, leaves the approval tables alone.\<close>

lemmas apply_defs = applyBiller_def applyAirtime_def applyFeeRule_def applyApprovalPolicy_def applyFeatureFlag_def
  createFeeRule_def updateFeeRule_def createApprovalPolicy_def updateApprovalPolicy_def insertPolicyVersion_def
  insertFeeVersion_def require_target_def platform_audit_def fee_column_def toMinorText_def

lemma approval_apply:
  "preserves approval_inv (applyBiller actor role op payload target)" "preserves approval_inv (applyAirtime actor role op payload target)"
  "preserves approval_inv (applyFeeRule actor role op payload target)" "preserves approval_inv (applyApprovalPolicy actor role op payload target)"
  "preserves approval_inv (applyFeatureFlag actor role op payload target)"
  unfolding apply_defs Let_def by (intro preserved preserves_case_op; simp)+

lemma checker_apply:
  "preserves checker_steps (applyBiller actor role op payload target)" "preserves checker_steps (applyAirtime actor role op payload target)"
  "preserves checker_steps (applyFeeRule actor role op payload target)" "preserves checker_steps (applyApprovalPolicy actor role op payload target)"
  "preserves checker_steps (applyFeatureFlag actor role op payload target)"
  unfolding apply_defs Let_def by (intro preserved preserves_case_op; simp)+

lemma preserves_APPLY [preserved]:
  "preserves approval_inv (APPLY k actor role op payload target)" "preserves checker_steps (APPLY k actor role op payload target)"
  by (cases k; simp add: approval_apply checker_apply)+

text \<open>The execution columns of a request are no part of its progress.\<close>

definition request_key where
  "request_key r = (ar_id r, ar_status r, ar_currentLevel r, ar_createdById r)"

lemma approval_inv_keys:
  assumes inv: "approval_inv s" and keys: "map request_key (approvalRequests t) = map request_key (approvalRequests s)"
    and same: "approvalSteps t = approvalSteps s" "approvalActions t = approvalActions s"
      "uuid_gen t = uuid_gen s" "uuid_next t = uuid_next s"
  shows "approval_inv t"
proof -
  have ids: "map ar_id (approvalRequests t) = map ar_id (approvalRequests s)"
    using arg_cong [OF keys, of "map fst"] by (simp add: request_key_def o_def)
  have ids_set: "ar_id ` set (approvalRequests t) = ar_id ` set (approvalRequests s)"
    using arg_cong [OF ids, of set] by simp
  have row: "\<exists>q \<in> set (approvalRequests s). request_key q = request_key r" if "r \<in> set (approvalRequests t)" for r
    using that arg_cong [OF keys, of set] by (auto simp: image_iff) (metis imageE image_eqI)
  have "approval_ids t"
    using inv ids ids_set same by (simp add: approval_inv_def approval_ids_def uuids_distinct_def used_ids_def)
  moreover have "actions_ok t"
  proof -
    have "ar_createdById r \<noteq> aa_actorId a"
      if "a \<in> set (approvalActions s)" "r \<in> set (approvalRequests t)" "ar_id r = aa_requestId a" for a r
      using row [OF that(2)] inv that(1,3) by (auto simp: approval_inv_def actions_ok_def request_key_def)
    with inv same show ?thesis by (auto simp: approval_inv_def actions_ok_def)
  qed
  moreover have "request_ok (approvalActions t) (steps_of (ar_id r) (approvalSteps t)) r" if "r \<in> set (approvalRequests t)" for r
  proof -
    from row [OF that] obtain q where "q \<in> set (approvalRequests s)" and key: "request_key q = request_key r" by blast
    with inv have "request_ok (approvalActions s) (steps_of (ar_id q) (approvalSteps s)) q" by (simp add: approval_inv_def)
    with key show ?thesis by (simp add: request_ok_def request_key_def same)
  qed
  ultimately show ?thesis by (simp add: approval_inv_def)
qed

lemma approval_setRequest:
  assumes "\<And>r. request_key (f r) = request_key r"
  shows "preserves approval_inv (setRequest rid f)"
  unfolding setRequest_def by (rule preserves_modify, erule approval_inv_keys) (simp_all add: assms)

lemma config_setRequest [preserved]:
  "preserves (\<lambda>s. config_tables s = v) (setRequest rid f)" "preserves checker_steps (setRequest rid f)"
  unfolding setRequest_def by (intro preserved; simp add: config_tables_def)+

lemma config_decide [preserved]:
  "preserves approval_inv (decidePlatformConfigChange i)" "preserves checker_steps (decidePlatformConfigChange i)"
  unfolding decidePlatformConfigChange_def applyConfigChange_def apply_failed_def Let_def
  by (intro preserved approval_setRequest; simp add: request_key_def)+

lemma exec_config_keeps: "preserves config_inv (exec_config c)"
proof -
  have "preserves approval_inv (exec_config c)" "preserves checker_steps (exec_config c)"
    by (cases c; simp add: listPlatformConfigRequests_def listApprovalRequests_def; intro preserved)+
  then show ?thesis by (auto simp: config_inv_def preserves_def)
qed

interpretation config: command_system exec_config config_inv
  by unfold_locales (rule exec_config_keeps)

section \<open>Four eyes\<close>

lemma config_same: "preserves (\<lambda>t. config_tables t = v) m \<Longrightarrow> config_tables s = v \<Longrightarrow> m s = (r, t) \<Longrightarrow> config_tables t = v"
  by (auto dest: preservesD)

text \<open>The action that makes a request approved is an approval of a step by another user than the creator.\<close>

lemma approving_row:
  assumes inv: "approval_inv s" and run: "recordApprovalAction i s = (Inr (AR_APPROVED, rid), u)"
  obtains q target where "q \<in> set (approvalRequests s)" "ar_id q = ai_requestId i" "\<not> resolved (ar_status q)"
    "ar_createdById q \<noteq> ai_actorId i" "ai_decision i = APPROVE" "target \<in> set (approvalSteps s)"
    "list_ex (\<lambda>x. x \<in> set (ai_actorRoles i)) (as_roles target)"
    "find (\<lambda>r. ar_id r = ai_requestId i) (approvalRequests u) = Some (q\<lparr>ar_status := AR_APPROVED\<rparr>)"
  using run
proof (rule recordApprovalAction_run)
  fix q :: approvalRequest and target rest a
  let ?steps = "sort_key as_level (steps_of (ar_id q) (approvalSteps s))"
  let ?s = "s\<lparr>uuid_next := Suc (uuid_next s), approvalActions := approvalActions s @ [a]\<rparr>"
  assume q: "q \<in> set (approvalRequests s)" "ar_id q = ai_requestId i" "\<not> resolved (ar_status q)" "ar_createdById q \<noteq> ai_actorId i"
    and elig: "filter (step_eligible q) ?steps = target # rest"
    and role: "list_ex (\<lambda>x. x \<in> set (ai_actorRoles i)) (as_roles target)"
    and act: "(case ai_decision i of REJECT \<Rightarrow> rejectRequest q target | APPROVE \<Rightarrow> approveStep q ?steps target) ?s =
      (Inr (AR_APPROVED, rid), u)"
  have "target \<in> set (filter (step_eligible q) ?steps)" unfolding elig by simp
  then have target: "target \<in> set (approvalSteps s)" by (auto simp: steps_of_def)
  have dec: "ai_decision i = APPROVE"
    using act by (cases "ai_decision i") (auto simp: rejectRequest_def tx_ok)
  then have u: "approvalRequests u = update_rows (\<lambda>r. ar_id r = ar_id q) (\<lambda>r. r\<lparr>ar_status := AR_APPROVED\<rparr>) (approvalRequests s)"
    using act by (auto simp: approveStep_def tx_ok setRequest_def setStepStatus_def split: if_splits option.splits)
  have "distinct (map ar_id (approvalRequests s))" using inv by (simp add: approval_inv_def approval_ids_def)
  from find_update_rows [OF find_key [OF this q(1)], of "\<lambda>r. r\<lparr>ar_status := AR_APPROVED\<rparr>"]
  have "find (\<lambda>r. ar_id r = ai_requestId i) (approvalRequests u) = Some (q\<lparr>ar_status := AR_APPROVED\<rparr>)"
    using u q(2) by simp
  with q target role dec show thesis by (intro that)
qed

lemma approving_action:
  assumes inv: "config_inv s" and run: "recordApprovalAction i s = (Inr (AR_APPROVED, rid), u)"
  obtains q where "q \<in> set (approvalRequests s)" "ar_id q = ai_requestId i" "\<not> resolved (ar_status q)"
    "ar_createdById q \<noteq> ai_actorId i" "ai_decision i = APPROVE" "PLATFORM_CONFIG_APPROVER_ROLE \<in> set (ai_actorRoles i)"
    "find (\<lambda>r. ar_id r = ai_requestId i) (approvalRequests u) = Some (q\<lparr>ar_status := AR_APPROVED\<rparr>)"
proof -
  have "approval_inv s" using inv by (simp add: config_inv_def)
  from this run obtain q target where q: "q \<in> set (approvalRequests s)" "ar_id q = ai_requestId i" "\<not> resolved (ar_status q)"
    "ar_createdById q \<noteq> ai_actorId i" "ai_decision i = APPROVE"
    and target: "target \<in> set (approvalSteps s)" "list_ex (\<lambda>x. x \<in> set (ai_actorRoles i)) (as_roles target)"
    and row: "find (\<lambda>r. ar_id r = ai_requestId i) (approvalRequests u) = Some (q\<lparr>ar_status := AR_APPROVED\<rparr>)"
    by (rule approving_row)
  from inv target(1) have "as_roles target = [PLATFORM_CONFIG_APPROVER_ROLE]" by (auto simp: config_inv_def checker_steps_def list_all_iff)
  with target(2) have "PLATFORM_CONFIG_APPROVER_ROLE \<in> set (ai_actorRoles i)" by simp
  with q row show thesis by (intro that)
qed

definition decision_action :: "configDecision \<Rightarrow> approvalActionInput" where
  "decision_action i = \<lparr> ai_requestId = cd_requestId i, ai_actorId = cd_actorId i, ai_actorRoles = cd_actorRoles i,
     ai_decision = cd_decision i, ai_comment = cd_comment i, ai_delegatedForId = None \<rparr>"

text \<open>A decision that changes the configuration approved the request and applied the change of its snapshot.\<close>

lemma deciding_change:
  assumes decide: "decidePlatformConfigChange i s = (r, t)" and changed: "config_tables t \<noteq> config_tables s"
  obtains rid u row meta where "recordApprovalAction (decision_action i) s = (Inr (AR_APPROVED, rid), u)"
    "config_tables u = config_tables s" "find (\<lambda>r. ar_id r = cd_requestId i) (approvalRequests u) = Some row"
    "parseConfigMeta (ar_policySnapshot row) = Some meta"
    "config_tables t = config_tables (snd (applyConfigChange (cd_actorId i) meta u))"
proof -
  obtain out u where act: "recordApprovalAction (decision_action i) s = (out, u)" by fastforce
  have u: "config_tables u = config_tables s" by (rule config_same [OF config_approval_commands(2) refl act])
  note decide_simps = decidePlatformConfigChange_def decision_action_def [symmetric] bind_def gets_def return_def throw_def
  have "\<exists>rid. out = Inr (AR_APPROVED, rid)"
    using decide act u changed by (cases out) (auto simp: decide_simps split: if_splits)
  then obtain rid where out: "out = Inr (AR_APPROVED, rid)" ..
  let ?apply = "\<lambda>meta. catch (bind (applyConfigChange (cd_actorId i) meta) (\<lambda>result. bind (gets now) (\<lambda>t.
       seq (setRequest (cd_requestId i) (\<lambda>r. r\<lparr>ar_executedAt := Some t\<rparr>)) (return (Applied (cd_requestId i) result)))))
     (apply_failed (cd_requestId i) (cd_actorId i) meta)"
  obtain row meta where row: "find (\<lambda>r. ar_id r = cd_requestId i) (approvalRequests u) = Some row"
    and meta: "parseConfigMeta (ar_policySnapshot row) = Some meta" and app: "?apply meta u = (r, t)"
    using decide act out u changed by (auto simp: decide_simps split: option.splits)
  obtain res w where w: "applyConfigChange (cd_actorId i) meta u = (res, w)" by fastforce
  have failed: "preserves (\<lambda>t. config_tables t = config_tables w) (apply_failed (cd_requestId i) (cd_actorId i) meta err)" for err
    unfolding apply_failed_def Let_def by (intro preserved)
  have "config_tables t = config_tables w"
  proof (cases res)
    case (Inl err)
    with app w have "apply_failed (cd_requestId i) (cd_actorId i) meta err w = (r, t)" by (simp add: catch_def bind_def)
    then show ?thesis by (rule config_same [OF failed refl])
  next
    case (Inr x)
    with app w have "t = w\<lparr>approvalRequests := update_rows (\<lambda>r. ar_id r = cd_requestId i) (\<lambda>r. r\<lparr>ar_executedAt := Some (now w)\<rparr>) (approvalRequests w)\<rparr>"
      by (auto simp: catch_def tx_run setRequest_def)
    then show ?thesis by (simp add: config_tables_def)
  qed
  then have "config_tables t = config_tables (snd (applyConfigChange (cd_actorId i) meta u))" by (simp add: w)
  with act out u row meta show thesis by (intro that) simp_all
qed

text \<open>C6.  Four eyes on the configuration: in every history of staged, decided and expired changes, a command that
  changes the tables of billers, airtime products, fee rules, approval policies or feature flags is the
  approval of an open request by a platform administrator who did not make it; the request is approved, and
  the change made is the one it carries.\<close>

theorem config_changes_need_a_checker:
  assumes "reachable exec_config config_start s" and run: "exec_config c s = (r, t)"
    and changed: "config_tables t \<noteq> config_tables s"
  shows "\<exists>i q meta u. c = DecideChange i \<and> cd_decision i = APPROVE \<and> q \<in> set (approvalRequests s) \<and> ar_id q = cd_requestId i \<and>
    \<not> resolved (ar_status q) \<and> ar_createdById q \<noteq> cd_actorId i \<and> ''SUPER_ADMIN'' \<in> set (cd_actorRoles i) \<and>
    find (\<lambda>r. ar_id r = cd_requestId i) (approvalRequests u) = Some (q\<lparr>ar_status := AR_APPROVED\<rparr>) \<and>
    config_tables u = config_tables s \<and> parseConfigMeta (ar_policySnapshot q) = Some meta \<and>
    config_tables t = config_tables (snd (applyConfigChange (cd_actorId i) meta u))"
proof -
  have inv: "config_inv s" by (rule config.reachable_inv [OF config_start_inv assms(1)])
  have keeps: "preserves (\<lambda>t. config_tables t = config_tables s) (exec_config c)" if "\<forall>i. c \<noteq> DecideChange i"
    using that by (cases c) (simp_all add: listPlatformConfigRequests_def listApprovalRequests_def, (intro preserved)+)
  have "\<exists>i. c = DecideChange i" using config_same [OF keeps refl run] changed by blast
  then obtain i where c: "c = DecideChange i" by blast
  obtain rd where "decidePlatformConfigChange i s = (rd, t)"
    using run c by (cases "decidePlatformConfigChange i s") (auto simp: seq_def bind_def return_def split: sum.splits)
  from deciding_change [OF this changed] obtain rid u row meta
    where act: "recordApprovalAction (decision_action i) s = (Inr (AR_APPROVED, rid), u)"
    and u: "config_tables u = config_tables s" and row: "find (\<lambda>r. ar_id r = cd_requestId i) (approvalRequests u) = Some row"
    and meta: "parseConfigMeta (ar_policySnapshot row) = Some meta"
    and t: "config_tables t = config_tables (snd (applyConfigChange (cd_actorId i) meta u))" .
  from approving_action [OF inv act] obtain q where q: "q \<in> set (approvalRequests s)" "ar_id q = cd_requestId i"
    "\<not> resolved (ar_status q)" "ar_createdById q \<noteq> cd_actorId i" "cd_decision i = APPROVE"
    "PLATFORM_CONFIG_APPROVER_ROLE \<in> set (cd_actorRoles i)"
    and found: "find (\<lambda>r. ar_id r = cd_requestId i) (approvalRequests u) = Some (q\<lparr>ar_status := AR_APPROVED\<rparr>)"
    by (auto simp: decision_action_def)
  have "parseConfigMeta (ar_policySnapshot q) = Some meta" using meta row found by auto
  with c q found u t show ?thesis
    by (intro exI [of _ i] exI [of _ q] exI [of _ meta] exI [of _ u]) (simp add: PLATFORM_CONFIG_APPROVER_ROLE_def)
qed

text \<open>A flag is switched on: one administrator stages the change, another approves it.\<close>

definition demo_flag :: featureFlag where
  "demo_flag = \<lparr> ff_id = ''f'', ff_key = ''links'', ff_enabled = False, ff_tenantId = None \<rparr>"

definition demo_platform :: db where
  "demo_platform = (empty_db show_nat 0)\<lparr>featureFlags := [demo_flag]\<rparr>"

definition demo_toggle :: config_command where
  "demo_toggle = StageChange \<lparr> cc_actorId = ''maker'', cc_kind = FEATURE_FLAG, cc_op = OP_UPDATE, cc_targetId = Some ''f'',
     cc_payload = JObject [(''enabled'', JBool True)], cc_label = Some ''on'', cc_summary = Some ''on'' \<rparr>"

definition demo_decision :: config_command where
  "demo_decision = DecideChange \<lparr> cd_decision = APPROVE, cd_comment = None, cd_requestId = ''0'', cd_actorId = ''checker'',
     cd_actorRoles = [''SUPER_ADMIN''] \<rparr>"

lemma demo_flag_on: "map ff_enabled (featureFlags (run_all exec_config [demo_toggle, demo_decision] demo_platform)) = [True]"
  "map ff_enabled (featureFlags (run_all exec_config [demo_toggle] demo_platform)) = [False]"
  by code_simp+

theorem config_changes_need_a_checker_witness:
  "\<exists>q \<in> set (approvalRequests (run_all exec_config [demo_toggle] demo_platform)).
     ar_id q = ''0'' \<and> \<not> resolved (ar_status q) \<and> ar_createdById q \<noteq> ''checker'' \<and>
     map ff_enabled (featureFlags (run_all exec_config [demo_toggle, demo_decision] demo_platform)) = [True]"
proof -
  let ?s = "run_all exec_config [demo_toggle] demo_platform" and ?t = "run_all exec_config [demo_toggle, demo_decision] demo_platform"
  have "config_start demo_platform" by (simp add: config_start_def demo_platform_def empty_db_def uuids_distinct_def)
  then have s: "reachable exec_config config_start ?s" by (intro reachable_run_all reachable_init)
  have run: "exec_config demo_decision ?s = (fst (exec_config demo_decision ?s), ?t)" by (simp add: prod_eq_iff)
  have "config_tables ?t \<noteq> config_tables ?s" using demo_flag_on by (auto simp: config_tables_def)
  from config_changes_need_a_checker [OF s run this] demo_flag_on(1) show ?thesis
    by (auto simp: demo_decision_def)
qed

end
