(* ===== verification/Identity.thy ===== *)
theory Identity
  imports Audit_Log Payment_State
begin

text \<open>
  packages/auth: roles and permissions (rbac.ts), opaque session tokens (sessions.ts), developer API
  keys (api-keys.ts) and the checks of password.ts and crypto.ts that do not compute a cipher.  The
  hash function, the random generator and the key derivation are library code: \<open>hash\<close>, the token and
  \<open>scrypt\<close> are arguments of the functions that use them.
\<close>

section \<open>rbac.ts\<close>

definition PERMISSIONS :: "string list" where
  "PERMISSIONS = [''payment.create'', ''payment.approve'', ''payment.reverse'', ''payment.read'', ''batch.create'',
     ''batch.approve'', ''recipient.manage'', ''wallet.fund'', ''wallet.read'', ''ledger.read'', ''reports.read'',
     ''reports.export'', ''reconciliation.manage'', ''team.manage'', ''settings.manage'', ''approvals.manage'',
     ''payroll.manage'', ''expenses.manage'', ''bills.manage'', ''airtime.manage'', ''collections.manage'',
     ''invoices.manage'', ''admin.tenants'', ''admin.providers'', ''admin.pricing'', ''admin.limits'', ''admin.routing'',
     ''admin.flags'', ''admin.audit'', ''admin.kyc'', ''admin.cms'', ''admin.support'', ''admin.health'', ''admin.users'',
     ''admin.recon'', ''admin.settlement'']"

definition BUSINESS_ROLE_PERMISSIONS :: "(string \<times> string list) list" where
  "BUSINESS_ROLE_PERMISSIONS = [
     (''OWNER'', PERMISSIONS),
     (''ADMIN'', PERMISSIONS),
     (''FINANCE_MANAGER'', [''payment.create'', ''payment.approve'', ''payment.read'', ''payment.reverse'', ''batch.create'',
        ''batch.approve'', ''recipient.manage'', ''wallet.read'', ''wallet.fund'', ''ledger.read'', ''reports.read'',
        ''reports.export'', ''reconciliation.manage'', ''approvals.manage'', ''payroll.manage'', ''expenses.manage'',
        ''bills.manage'', ''airtime.manage'', ''collections.manage'', ''invoices.manage'']),
     (''MAKER'', [''payment.create'', ''payment.read'', ''batch.create'', ''recipient.manage'', ''bills.manage'',
        ''airtime.manage'', ''expenses.manage'', ''collections.manage'']),
     (''APPROVER'', [''payment.read'', ''payment.approve'', ''batch.approve'', ''reports.read'']),
     (''PAYROLL_OFFICER'', [''payment.read'', ''payroll.manage'', ''batch.create'', ''recipient.manage'']),
     (''PROCUREMENT_OFFICER'', [''payment.read'', ''payment.create'', ''recipient.manage'', ''bills.manage'', ''expenses.manage'']),
     (''ACCOUNTANT'', [''payment.read'', ''ledger.read'', ''reports.read'', ''reports.export'', ''reconciliation.manage'',
        ''invoices.manage'']),
     (''BRANCH_MANAGER'', [''payment.read'', ''payment.create'', ''payment.approve'', ''reports.read'', ''wallet.read'',
        ''collections.manage'', ''invoices.manage'']),
     (''VIEWER'', [''payment.read'', ''reports.read'', ''wallet.read''])]"

definition PLATFORM_ROLE_PERMISSIONS :: "(string \<times> string list) list" where
  "PLATFORM_ROLE_PERMISSIONS = [
     (''SUPER_ADMIN'', PERMISSIONS),
     (''OPS_ADMIN'', [''admin.tenants'', ''admin.providers'', ''admin.routing'', ''admin.health'', ''admin.recon'',
        ''admin.settlement'', ''admin.support'']),
     (''COMPLIANCE_ADMIN'', [''admin.kyc'', ''admin.audit'', ''admin.tenants'', ''admin.limits'', ''admin.recon'']),
     (''FINANCE_ADMIN'', [''admin.pricing'', ''admin.limits'', ''admin.settlement'', ''admin.audit'', ''admin.recon'']),
     (''SUPPORT_ADMIN'', [''admin.support'', ''admin.tenants'', ''admin.health'']),
     (''DEV_ADMIN'', [''admin.providers'', ''admin.routing'', ''admin.flags'', ''admin.health'', ''admin.audit'']),
     (''AUDITOR'', [''admin.audit'', ''admin.health'', ''reports.read'', ''admin.recon''])]"

definition userRoleIds :: "string \<Rightarrow> db \<Rightarrow> string list" where
  "userRoleIds userId s = map ur_roleId (filter (\<lambda>r. ur_userId r = userId) (userRoles s))"

text \<open>The codes of the permissions joined to one of the roles.\<close>

definition roleCodes :: "string list \<Rightarrow> db \<Rightarrow> string list" where
  "roleCodes roleIds s = concat (map (\<lambda>p. map (\<lambda>_. pm_code p)
     (filter (\<lambda>rp. rp_permissionId rp = pm_id p \<and> rp_roleId rp \<in> set roleIds) (rolePermissions s))) (permissions s))"

definition loadUserPermissions :: "string \<Rightarrow> string list cmd" where
  "loadUserPermissions userId = gets (\<lambda>s.
     let roleIds = userRoleIds userId s in if roleIds = [] then [] else remdups (roleCodes roleIds s))"

definition can :: "string \<Rightarrow> string \<Rightarrow> bool cmd" where
  "can userId perm = bind (loadUserPermissions userId) (\<lambda>perms. return (perm \<in> set perms))"

text \<open>\<open>loadActorRoles\<close> (apps/web/lib/platform-config.ts): the names of the roles.\<close>

definition loadActorRoles :: "string \<Rightarrow> string list cmd" where
  "loadActorRoles userId = gets (\<lambda>s. concat (map (\<lambda>rid. map ro_name (filter (\<lambda>r. ro_id r = rid) (roles s)))
     (userRoleIds userId s)))"

section \<open>sessions.ts\<close>

definition SESSION_TTL_MS :: int where
  "SESSION_TTL_MS = 1000 * 60 * 60 * 12"

record createSessionInput =
  cs_userId :: string
  cs_tenantId :: "string option"
  cs_ip :: "string option"
  cs_userAgent :: "string option"
  cs_deviceName :: "string option"
  cs_ttlMs :: "int option"

definition createSession :: "(string \<Rightarrow> string) \<Rightarrow> string \<Rightarrow> createSessionInput \<Rightarrow> (string \<times> int) cmd" where
  "createSession hash token input =
     bind (gets now) (\<lambda>t.
     let expiresAt = t + nullish (cs_ttlMs input) SESSION_TTL_MS in
     bind fresh_id (\<lambda>sid.
     bind (gets (\<lambda>s. hash token \<in> se_tokenHash ` set (sessions s))) (\<lambda>dup.
     seq (guard (\<not> dup) (DbUnique ''sessions_token_hash_uidx''))
     (seq (modify (\<lambda>s. s\<lparr>sessions := sessions s @
            [\<lparr> se_id = sid, se_userId = cs_userId input, se_tenantId = cs_tenantId input, se_tokenHash = hash token,
               se_ip = cs_ip input, se_userAgent = cs_userAgent input, se_deviceName = cs_deviceName input,
               se_expiresAt = expiresAt, se_lastSeenAt = t, se_revokedAt = None, se_createdAt = t \<rparr>]\<rparr>))
          (return (token, expiresAt))))))"

record sessionUser =
  su_sessionId :: string
  su_userId :: string
  su_tenantId :: "string option"
  su_email :: string
  su_fullName :: string
  su_mfaEnabled :: bool
  su_expiresAt :: int

definition validateSession :: "(string \<Rightarrow> string) \<Rightarrow> string \<Rightarrow> sessionUser option cmd" where
  "validateSession hash token =
     bind (gets (\<lambda>s. find (\<lambda>x. se_tokenHash x = hash token \<and> se_expiresAt x > now s) (sessions s))) (\<lambda>row.
     case row of
       None \<Rightarrow> return None
     | Some sess \<Rightarrow>
        if se_revokedAt sess \<noteq> None then return None
        else bind (gets (\<lambda>s. find (\<lambda>u. us_id u = se_userId sess) (users s))) (\<lambda>urow.
          case urow of
            None \<Rightarrow> return None
          | Some u \<Rightarrow>
             if us_status u \<noteq> ''ACTIVE'' then return None
             else seq (modify (\<lambda>s. s\<lparr>sessions := update_rows (\<lambda>x. se_id x = se_id sess) (\<lambda>x. x\<lparr>se_lastSeenAt := now s\<rparr>) (sessions s)\<rparr>))
               (return (Some \<lparr> su_sessionId = se_id sess, su_userId = us_id u,
                  su_tenantId = (case se_tenantId sess of None \<Rightarrow> us_tenantId u | Some t \<Rightarrow> Some t),
                  su_email = us_email u, su_fullName = us_fullName u, su_mfaEnabled = us_mfaEnabled u,
                  su_expiresAt = se_expiresAt sess \<rparr>))))"

definition revokeSession :: "(string \<Rightarrow> string) \<Rightarrow> string \<Rightarrow> unit cmd" where
  "revokeSession hash token = modify (\<lambda>s. s\<lparr>sessions :=
     update_rows (\<lambda>x. se_tokenHash x = hash token) (\<lambda>x. x\<lparr>se_revokedAt := Some (now s)\<rparr>) (sessions s)\<rparr>)"

definition revokeAllUserSessions :: "string \<Rightarrow> unit cmd" where
  "revokeAllUserSessions userId = modify (\<lambda>s. s\<lparr>sessions :=
     update_rows (\<lambda>x. se_userId x = userId \<and> se_revokedAt x = None) (\<lambda>x. x\<lparr>se_revokedAt := Some (now s)\<rparr>) (sessions s)\<rparr>)"

definition listUserSessions :: "string \<Rightarrow> session list cmd" where
  "listUserSessions userId = gets (\<lambda>s. sort_key se_createdAt (filter (\<lambda>x. se_userId x = userId) (sessions s)))"

section \<open>api-keys.ts\<close>

definition API_KEY_PREFIX :: string where
  "API_KEY_PREFIX = ''zf_live''"

text \<open>The raw key is \<open>zf_live_<prefix>_<secret>\<close>, with six random characters and the random secret.\<close>

definition generateApiKeyPair :: "(string \<Rightarrow> string) \<Rightarrow> string \<Rightarrow> string \<Rightarrow> string \<times> string \<times> string" where
  "generateApiKeyPair hash random3hex secret =
     (let raw = API_KEY_PREFIX @ ''_'' @ take 6 random3hex @ ''_'' @ secret
      in (raw, API_KEY_PREFIX @ ''_'' @ take 6 random3hex, hash raw))"

record createApiKeyInput =
  ck_tenantId :: string
  ck_name :: string
  ck_createdById :: "string option"
  ck_expiresAt :: "int option"

definition createApiKey ::
  "(string \<Rightarrow> string) \<Rightarrow> string \<Rightarrow> string \<Rightarrow> createApiKeyInput \<Rightarrow> (apiKey \<times> string) cmd" where
  "createApiKey hash random3hex secret input =
     seq (guard (trim (ck_name input) \<noteq> []) (ApiKeyError ''API key name is required'' ''BAD_INPUT''))
     (case generateApiKeyPair hash random3hex secret of (raw, prefix, keyHash) \<Rightarrow>
       bind fresh_id (\<lambda>kid.
       bind (gets now) (\<lambda>t.
       let row = \<lparr> ak_id = kid, ak_tenantId = ck_tenantId input, ak_name = take 120 (ck_name input),
             ak_keyPrefix = prefix, ak_keyHash = keyHash, ak_status = ''ACTIVE'', ak_lastUsedAt = None,
             ak_createdById = ck_createdById input, ak_expiresAt = ck_expiresAt input, ak_createdAt = t \<rparr>
       in seq (modify (\<lambda>s. s\<lparr>apiKeys := apiKeys s @ [row]\<rparr>)) (return (row, raw)))))"

definition listApiKeys :: "string \<Rightarrow> apiKey list cmd" where
  "listApiKeys tenantId = gets (\<lambda>s. sort_key ak_createdAt (filter (\<lambda>k. ak_tenantId k = tenantId) (apiKeys s)))"

definition revokeApiKey :: "string \<Rightarrow> string \<Rightarrow> bool cmd" where
  "revokeApiKey keyId tenantId =
     bind (gets (\<lambda>s. \<exists>k \<in> set (apiKeys s). ak_id k = keyId \<and> ak_tenantId k = tenantId)) (\<lambda>found.
     seq (modify (\<lambda>s. s\<lparr>apiKeys := update_rows (\<lambda>k. ak_id k = keyId \<and> ak_tenantId k = tenantId)
            (\<lambda>k. k\<lparr>ak_status := ''REVOKED''\<rparr>) (apiKeys s)\<rparr>))
         (return found))"

record authenticatedKey =
  ah_keyId :: string
  ah_tenantId :: string
  ah_name :: string

definition authenticateApiKey :: "(string \<Rightarrow> string) \<Rightarrow> string \<Rightarrow> authenticatedKey option cmd" where
  "authenticateApiKey hash credential =
     (if \<not> starts_with (API_KEY_PREFIX @ ''_'') credential then return None
      else bind (gets (\<lambda>s. (find (\<lambda>k. ak_keyHash k = hash credential) (apiKeys s), now s))) (\<lambda>(row, t).
        case row of
          None \<Rightarrow> return None
        | Some k \<Rightarrow>
           if ak_status k \<noteq> ''ACTIVE'' then return None
           else if (case ak_expiresAt k of None \<Rightarrow> False | Some e \<Rightarrow> e < t) then return None
           else seq (modify (\<lambda>s. s\<lparr>apiKeys := update_rows (\<lambda>x. ak_id x = ak_id k) (\<lambda>x. x\<lparr>ak_lastUsedAt := Some t\<rparr>) (apiKeys s)\<rparr>))
             (return (Some \<lparr> ah_keyId = ak_id k, ah_tenantId = ak_tenantId k, ah_name = ak_name k \<rparr>))))"

text \<open>\<open>/^Bearer\s+(.+)$/i\<close> on the authorization header, which holds no line break; then \<open>x-api-key\<close>.\<close>

definition bearer_credential :: "string \<Rightarrow> string option" where
  "bearer_credential auth =
     (if toLowerCase (take 6 auth) = ''bearer'' \<and> drop 6 auth \<noteq> [] \<and> is_space (hd (drop 6 auth)) \<and> 2 \<le> length (drop 6 auth)
      then Some (trim (drop 6 auth)) else None)"

definition extractApiCredential :: "string option \<Rightarrow> string option \<Rightarrow> string option" where
  "extractApiCredential authorization xApiKey =
     (case (case authorization of None \<Rightarrow> None | Some a \<Rightarrow> bearer_credential a) of
        Some c \<Rightarrow> Some c
      | None \<Rightarrow> (case xApiKey of None \<Rightarrow> None | Some a \<Rightarrow> if trim a = [] then None else Some (trim a)))"

definition apiKeyAuditSafe :: "apiKey \<Rightarrow> jsval" where
  "apiKeyAuditSafe k = toJsonSafe (JObject [(''keyId'', JString (ak_id k)), (''keyPrefix'', JString (ak_keyPrefix k)),
     (''tenantId'', JString (ak_tenantId k))])"

section \<open>password.ts and crypto.ts\<close>

definition passwordIssues :: "string \<Rightarrow> string list" where
  "passwordIssues password =
     (if length password < 12 then [''At least 12 characters''] else []) @
     (if \<not> list_ex is_lower password then [''A lowercase letter''] else []) @
     (if \<not> list_ex is_upper password then [''An uppercase letter''] else []) @
     (if \<not> list_ex is_digit password then [''A number''] else []) @
     (if \<not> list_ex (\<lambda>c. \<not> is_lower c \<and> \<not> is_upper c \<and> \<not> is_digit c) password then [''A symbol''] else [])"

definition maskSecret :: "string option \<Rightarrow> nat \<Rightarrow> string" where
  "maskSecret value keep = (case value of None \<Rightarrow> []
     | Some v \<Rightarrow> if v = [] then []
         else if length v \<le> keep then replicate (length v) CHR ''*''
         else replicate (max 4 (length v - keep)) CHR ''*'' @ (if keep = 0 then v else drop (length v - keep) v))"

end
