(* ===== verification/Totp.thy ===== *)
theory Totp
  imports "HOL-Library.Word" Prelude
begin

text \<open>
  packages/auth/src/totp.ts: base32 and time-based one-time passwords.  The running value of both base32
  loops is a JavaScript number under bitwise operators, so a 32-bit word that is never masked: bits
  are shifted out at the top.  The codec is specified on bit streams and the loops are shown to
  implement it.  HMAC-SHA1 is library code, an argument here.
\<close>

unbundle bit_operations_syntax

section \<open>base32\<close>

type_synonym byte = "8 word"

definition alphabet :: string where
  "alphabet = ''ABCDEFGHIJKLMNOPQRSTUVWXYZ234567''"

definition alphabet_char :: "32 word \<Rightarrow> char" where
  "alphabet_char v = alphabet ! unat v"

text \<open>\<open>while (bits >= 5)\<close>: the characters it appends and the bits that stay.\<close>

fun emit5 :: "nat \<Rightarrow> 32 word \<Rightarrow> string \<times> nat" where
  "emit5 bits v =
     (if 5 \<le> bits
      then (case emit5 (bits - 5) v of (out, rest) \<Rightarrow> (alphabet_char (drop_bit (bits - 5) v AND 31) # out, rest))
      else ([], bits))"

declare emit5.simps [simp del]

fun encode_loop :: "nat \<Rightarrow> 32 word \<Rightarrow> byte list \<Rightarrow> string" where
  "encode_loop bits v [] = (if 0 < bits then [alphabet_char (push_bit (5 - bits) v AND 31)] else [])"
| "encode_loop bits v (b # bs) =
     (let v' = push_bit 8 v OR ucast b
      in case emit5 (bits + 8) v' of (out, bits') \<Rightarrow> out @ encode_loop bits' v' bs)"

definition base32Encode :: "byte list \<Rightarrow> string" where
  "base32Encode buffer = encode_loop 0 0 buffer"

definition index_of :: "char \<Rightarrow> nat" where
  "index_of c = length (takeWhile (\<lambda>x. x \<noteq> c) alphabet)"

fun decode_loop :: "nat \<Rightarrow> 32 word \<Rightarrow> string \<Rightarrow> byte list" where
  "decode_loop bits v [] = []"
| "decode_loop bits v (c # cs) =
     (let v' = push_bit 5 v OR of_nat (index_of c)
      in if 8 \<le> bits + 5 then ucast (drop_bit (bits + 5 - 8) v' AND 0xff) # decode_loop (bits + 5 - 8) v' cs
         else decode_loop (bits + 5) v' cs)"

definition base32Decode :: "string \<Rightarrow> byte list" where
  "base32Decode input = decode_loop 0 0 (filter (\<lambda>c. c \<in> set alphabet) (toUpperCase input))"

section \<open>One-time passwords\<close>

definition PERIOD :: int where "PERIOD = 30"

definition DIGITS :: nat where "DIGITS = 6"

definition counter_at :: "int \<Rightarrow> int" where
  "counter_at t = t div (1000 * PERIOD)"

text \<open>\<open>writeBigUInt64BE\<close>.\<close>

definition counter_bytes :: "int \<Rightarrow> byte list" where
  "counter_bytes n = map (\<lambda>i. word_of_int (n div 256 ^ i)) [7, 6, 5, 4, 3, 2, 1, 0]"

text \<open>A byte of a buffer under a bitwise operator: \<open>undefined\<close> reads as zero.\<close>

definition byte_at :: "byte list \<Rightarrow> nat \<Rightarrow> 32 word" where
  "byte_at bs i = (if i < length bs then ucast (bs ! i) else 0)"

definition truncate_hmac :: "byte list \<Rightarrow> 32 word" where
  "truncate_hmac h =
     (let offset = unat (byte_at h (length h - 1) AND 0x0f)
      in push_bit 24 (byte_at h offset AND 0x7f) OR push_bit 16 (byte_at h (offset + 1) AND 0xff) OR
         push_bit 8 (byte_at h (offset + 2) AND 0xff) OR (byte_at h (offset + 3) AND 0xff))"

definition totpCode :: "(byte list \<Rightarrow> byte list \<Rightarrow> byte list) \<Rightarrow> string \<Rightarrow> int \<Rightarrow> string" where
  "totpCode hmac secret t =
     (let h = hmac (base32Decode secret) (counter_bytes (counter_at t))
      in padStart DIGITS CHR ''0'' (show_nat (unat (truncate_hmac h) mod 10 ^ DIGITS)))"

definition six_digits :: "string \<Rightarrow> bool" where
  "six_digits code \<longleftrightarrow> length code = 6 \<and> list_all is_digit code"

definition verifyTOTP :: "(byte list \<Rightarrow> byte list \<Rightarrow> byte list) \<Rightarrow> string \<Rightarrow> string \<Rightarrow> int \<Rightarrow> bool" where
  "verifyTOTP hmac secret code t \<longleftrightarrow>
     six_digits code \<and> list_ex (\<lambda>w. totpCode hmac secret (t + w * PERIOD * 1000) = code) [- 1, 0, 1]"

definition generateTOTPSecret :: "byte list \<Rightarrow> string" where
  "generateTOTPSecret random20 = base32Encode random20"

section \<open>The codec on bit streams\<close>

text \<open>The low \<open>n\<close> bits of a word, the most significant one first.\<close>

definition bits_of :: "nat \<Rightarrow> 'a::len word \<Rightarrow> bool list" where
  "bits_of n w = map (bit w) (rev [0..<n])"

definition value_of :: "bool list \<Rightarrow> nat" where
  "value_of = foldl (\<lambda>n b. 2 * n + of_bool b) 0"

text \<open>The stream in groups of five, the last one filled up with zeros, and in groups of eight, an
  incomplete one dropped.\<close>

fun groups5 :: "bool list \<Rightarrow> bool list list" where
  "groups5 xs = (if xs = [] then [] else take 5 (xs @ replicate 4 False) # groups5 (drop 5 xs))"

declare groups5.simps [simp del]

fun groups8 :: "bool list \<Rightarrow> bool list list" where
  "groups8 xs = (if length xs < 8 then [] else take 8 xs # groups8 (drop 8 xs))"

declare groups8.simps [simp del]

lemma length_bits_of [simp]: "length (bits_of n w) = n"
  by (simp add: bits_of_def)

lemma bits_of_0 [simp]: "bits_of 0 w = []"
  by (simp add: bits_of_def)

lemma nth_bits_of: "i < n \<Longrightarrow> bits_of n w ! i = bit w (n - Suc i)"
  by (simp add: bits_of_def rev_nth)

lemma bits_of_drop_bit: "k \<le> n \<Longrightarrow> bits_of (n - k) (drop_bit k w) = take (n - k) (bits_of n w)"
  by (rule nth_equalityI) (auto simp: nth_bits_of bit_drop_bit_eq add.commute)

lemma drop_bits_of: "drop k (bits_of n w) = bits_of (n - k) w"
  by (rule nth_equalityI) (auto simp: nth_bits_of)

lemma bits_of_push_or:
  fixes v :: "32 word"
  assumes "n + k \<le> 32" "\<And>i. k \<le> i \<Longrightarrow> i < 32 \<Longrightarrow> \<not> bit u i"
  shows "bits_of (n + k) (push_bit k v OR u) = bits_of n v @ bits_of k u"
proof (rule nth_equalityI)
  fix i assume "i < length (bits_of (n + k) (push_bit k v OR u))"
  then have i: "i < n + k" by simp
  show "bits_of (n + k) (push_bit k v OR u) ! i = (bits_of n v @ bits_of k u) ! i"
  proof (cases "i < n")
    case True
    then have "\<not> bit u (n + k - Suc i)" using assms by (intro assms(2)) auto
    then show ?thesis using True i assms(1)
      by (auto simp: nth_append nth_bits_of bit_or_iff bit_push_bit_iff)
  next
    case False
    then have "n + k - Suc i < k" "k - Suc (i - n) = n + k - Suc i" using i by auto
    then show ?thesis using False i
      by (simp add: nth_append nth_bits_of bit_or_iff bit_push_bit_iff)
  qed
qed simp

lemma value_of_foldl:
  "foldl (\<lambda>n b. 2 * n + of_bool b) k xs = k * 2 ^ length xs + foldl (\<lambda>n b. 2 * n + of_bool b) (0::nat) xs"
proof (induction xs arbitrary: k)
  case (Cons b xs)
  show ?case using Cons [of "2 * k + of_bool b"] Cons [of "of_bool b"] by (simp add: algebra_simps)
qed simp

lemma value_of_Cons: "value_of (b # xs) = of_bool b * 2 ^ length xs + value_of xs"
  using value_of_foldl [of "of_bool b" xs] by (simp add: value_of_def)

lemma bits_of_Suc: "bits_of (Suc n) w = bit w n # bits_of n w"
  by (simp add: bits_of_def)

lemma value_of_bits: "value_of (bits_of n w) = take_bit n (unat w)"
proof (induction n)
  case (Suc n)
  have "bit (unat w) n = bit w n"
    by (auto simp: bit_unsigned_iff dest: bit_imp_le_length)
  with Suc show ?case
    by (simp add: bits_of_Suc value_of_Cons take_bit_Suc_from_most algebra_simps)
qed (simp add: value_of_def)

lemma value_of_bits_all: "value_of (bits_of LENGTH('a) (w :: 'a::len word)) = unat w"
  by (simp add: value_of_bits flip: unsigned_take_bit_eq)

definition char5 :: "bool list \<Rightarrow> char" where
  "char5 g = alphabet ! value_of g"

lemma and_31: "w AND 31 = take_bit 5 (w :: 32 word)"
  by (simp add: take_bit_eq_mask mask_eq_exp_minus_1)

lemma alphabet_char_bits: "alphabet_char (w AND 31) = char5 (bits_of 5 w)"
  by (simp add: alphabet_char_def char5_def value_of_bits and_31 unsigned_take_bit_eq)

lemma groups5_append:
  "5 \<le> length xs \<Longrightarrow> groups5 (xs @ ys) = take 5 xs # groups5 (drop 5 xs @ ys)"
  by (subst groups5.simps) auto

lemma emit5_groups:
  "emit5 n v = (out, r) \<Longrightarrow>
     r < 5 \<and> map char5 (groups5 (bits_of n v @ ys)) = out @ map char5 (groups5 (bits_of r v @ ys))"
proof (induction n arbitrary: out rule: less_induct)
  case (less n)
  show ?case
  proof (cases "5 \<le> n")
    case False
    with less.prems show ?thesis by (simp add: emit5.simps [of n v])
  next
    case True
    obtain out' r' where e: "emit5 (n - 5) v = (out', r')" by (metis surj_pair)
    with less.prems True have out: "out = alphabet_char (drop_bit (n - 5) v AND 31) # out'" and r: "r = r'"
      by (simp_all add: emit5.simps [of n v])
    have "bits_of 5 (drop_bit (n - 5) v) = take 5 (bits_of n v)"
      using bits_of_drop_bit [of "n - 5" n v] True by simp
    with less.IH [of "n - 5" out'] True e show ?thesis
      by (simp add: out r groups5_append drop_bits_of alphabet_char_bits)
  qed
qed

abbreviation stream :: "byte list \<Rightarrow> bool list" where
  "stream bs \<equiv> concat (map (bits_of 8) bs)"

lemma bits_of_zero: "bits_of n 0 = replicate n False"
  by (rule nth_equalityI) (auto simp: nth_bits_of)

lemma encode_loop_groups:
  "n < 5 \<Longrightarrow> encode_loop n v bs = map char5 (groups5 (bits_of n v @ stream bs))"
proof (induction bs arbitrary: n v)
  case Nil
  show ?case
  proof (cases "n = 0")
    case True
    then show ?thesis by (simp add: groups5.simps [of "[]"])
  next
    case False
    have "bits_of 5 (push_bit (5 - n) v) = bits_of n v @ replicate (5 - n) False"
      using bits_of_push_or [of n "5 - n" 0 v] Nil by (simp add: bits_of_zero)
    moreover have "take (5 - n) (replicate 4 False) = replicate (5 - n) False" using False by simp
    moreover have "bits_of n v \<noteq> []" using False by (metis length_bits_of list.size(3))
    ultimately show ?thesis using False Nil
      by (subst groups5.simps) (simp add: alphabet_char_bits groups5.simps [of "[]"])
  qed
next
  case (Cons b bs)
  let ?v = "push_bit 8 v OR ucast b"
  obtain out r where e: "emit5 (n + 8) ?v = (out, r)" by (metis surj_pair)
  have "bits_of (n + 8) ?v = bits_of n v @ bits_of 8 (ucast b :: 32 word)"
    using Cons.prems by (intro bits_of_push_or) (auto simp: bit_ucast_iff dest: bit_imp_le_length)
  also have "bits_of 8 (ucast b :: 32 word) = bits_of 8 b"
    by (rule nth_equalityI) (auto simp: nth_bits_of bit_ucast_iff)
  finally show ?case
    using emit5_groups [OF e, of "stream bs"] e Cons.IH [of r ?v] by (simp add: Let_def)
qed

definition byte8 :: "bool list \<Rightarrow> byte" where
  "byte8 g = of_nat (value_of g)"

definition bits5 :: "char \<Rightarrow> bool list" where
  "bits5 c = bits_of 5 (of_nat (index_of c) :: 32 word)"

lemma length_bits5 [simp]: "length (bits5 c) = 5"
  by (simp add: bits5_def)

lemma index_of_char5: "k < 32 \<Longrightarrow> index_of (alphabet ! k) = k"
proof -
  have "list_all (\<lambda>k. index_of (alphabet ! k) = k) [0..<32]" by code_simp
  then show "k < 32 \<Longrightarrow> index_of (alphabet ! k) = k" by (simp add: list_all_iff)
qed

lemma alphabet_upper: "c \<in> set alphabet \<Longrightarrow> to_upper c = c"
proof -
  have "list_all (\<lambda>c. to_upper c = c) alphabet" by code_simp
  then show "c \<in> set alphabet \<Longrightarrow> to_upper c = c" by (simp add: list_all_iff)
qed

lemma length_alphabet: "length alphabet = 32"
  by code_simp

lemma index_of_less: "c \<in> set alphabet \<Longrightarrow> index_of c < 32"
  using length_alphabet index_of_char5 by (metis in_set_conv_nth)

lemma byte_and_mask: "ucast (w AND 0xff) = (byte8 (bits_of 8 w) :: byte)" for w :: "32 word"
proof -
  have "w AND 0xff = take_bit 8 w"
    by (simp add: take_bit_eq_mask mask_eq_exp_minus_1)
  then have "(ucast (w AND 0xff) :: byte) = of_nat (unat (take_bit 8 w))" by simp
  also have "unat (take_bit 8 w) = value_of (bits_of 8 w)"
    by (simp add: value_of_bits unsigned_take_bit_eq)
  finally show ?thesis by (simp add: byte8_def)
qed

lemma groups8_append: "8 \<le> length xs \<Longrightarrow> groups8 (xs @ ys) = take 8 xs # groups8 (drop 8 xs @ ys)"
  by (subst groups8.simps) simp

lemma decode_loop_groups:
  "n < 8 \<Longrightarrow> set cs \<subseteq> set alphabet \<Longrightarrow>
     decode_loop n v cs = map byte8 (groups8 (bits_of n v @ concat (map bits5 cs)))"
proof (induction cs arbitrary: n v)
  case Nil
  then show ?case by (simp add: groups8.simps [of "bits_of n v"])
next
  case (Cons c cs)
  let ?v = "push_bit 5 v OR of_nat (index_of c) :: 32 word"
  have small: "\<not> bit (of_nat (index_of c) :: 32 word) i" if "5 \<le> i" for i
  proof -
    have "index_of c < 2 ^ 5" using Cons.prems index_of_less by simp
    then have "(of_nat (index_of c) :: 32 word) = take_bit 5 (of_nat (index_of c))"
      by (simp add: take_bit_of_nat take_bit_nat_eq_self)
    then show ?thesis using that by (metis bit_take_bit_iff not_less)
  qed
  have bits: "bits_of (n + 5) ?v = bits_of n v @ bits5 c"
    using Cons.prems small unfolding bits5_def by (intro bits_of_push_or) auto
  show ?case
  proof (cases "8 \<le> n + 5")
    case True
    have k: "n + 5 - (n + 5 - 8) = 8" using True by simp
    then have "bits_of 8 (drop_bit (n + 5 - 8) ?v) = take 8 (bits_of (n + 5) ?v)"
      using bits_of_drop_bit [of "n + 5 - 8" "n + 5" ?v] by simp
    moreover have "bits_of (n + 5 - 8) ?v = drop 8 (bits_of (n + 5) ?v)"
      by (simp add: drop_bits_of)
    ultimately have "groups8 ((bits_of n v @ bits5 c) @ concat (map bits5 cs)) =
        bits_of 8 (drop_bit (n + 5 - 8) ?v) # groups8 (bits_of (n + 5 - 8) ?v @ concat (map bits5 cs))"
      unfolding bits [symmetric] using True by (subst groups8_append) simp_all
    then show ?thesis
      using True Cons.IH [of "n + 5 - 8" ?v] Cons.prems by (simp add: Let_def byte_and_mask)
  next
    case False
    with Cons.IH [of "n + 5" ?v] Cons.prems bits show ?thesis by (simp add: Let_def)
  qed
qed

lemma value_of_less: "value_of xs < 2 ^ length xs"
  by (induction xs) (auto simp: value_of_Cons, simp add: value_of_def)

lemma value_of_inject: "length xs = length ys \<Longrightarrow> value_of xs = value_of ys \<Longrightarrow> xs = ys"
proof (induction xs ys rule: list_induct2)
  case (Cons x xs y ys)
  have "value_of xs < 2 ^ length ys" "value_of ys < 2 ^ length ys"
    using value_of_less [of xs] value_of_less [of ys] Cons.hyps by simp_all
  with Cons show ?case by (cases x; cases y) (auto simp: value_of_Cons)
qed simp

lemma bits5_char5: "length g = 5 \<Longrightarrow> bits5 (char5 g) = g"
proof (rule value_of_inject)
  assume g: "length g = 5"
  then have less: "value_of g < 32" using value_of_less [of g] by simp
  then have "index_of (char5 g) = value_of g" by (simp add: char5_def index_of_char5)
  then show "value_of (bits5 (char5 g)) = value_of g"
    using less by (simp add: bits5_def value_of_bits take_bit_nat_eq_self unsigned_of_nat)
qed simp

lemma char5_alphabet: "length g = 5 \<Longrightarrow> char5 g \<in> set alphabet"
  using value_of_less [of g] by (simp add: char5_def length_alphabet)

lemma groups5_lengths: "g \<in> set (groups5 xs) \<Longrightarrow> length g = 5"
proof (induction xs rule: groups5.induct)
  case (1 xs)
  show ?case
  proof (cases "xs = []")
    case True
    with 1 show ?thesis by (simp add: groups5.simps [of "[]"])
  next
    case False
    then have "Suc 0 \<le> length xs" by (simp add: Suc_le_eq)
    with 1 False show ?thesis by (auto simp: groups5.simps [of xs] min_def)
  qed
qed

lemma concat_groups5: "\<exists>j < 5. concat (groups5 xs) = xs @ replicate j False"
proof (induction xs rule: groups5.induct)
  case (1 xs)
  show ?case
  proof (cases "5 \<le> length xs")
    case True
    with 1 obtain j where "j < 5" "concat (groups5 (drop 5 xs)) = drop 5 xs @ replicate j False" by fastforce
    with True show ?thesis by (subst groups5.simps) (auto simp flip: append_assoc)
  next
    case False
    then show ?thesis
      by (subst groups5.simps) (auto simp: groups5.simps [of "[]"] Suc_le_eq intro!: exI [of _ "5 - length xs"])
  qed
qed

lemma groups8_stream: "length zs < 8 \<Longrightarrow> map byte8 (groups8 (stream bs @ zs)) = bs"
proof (induction bs)
  case Nil
  then show ?case by (simp add: groups8.simps [of zs])
next
  case (Cons b bs)
  have "byte8 (bits_of 8 b) = b"
    using value_of_bits_all [of b] by (simp add: byte8_def)
  with Cons show ?case by (simp add: groups8_append)
qed

text \<open>Decoding an encoded secret gives the secret, of any length.\<close>

lemma base32_round_trip: "base32Decode (base32Encode bs) = bs"
proof -
  let ?gs = "groups5 (stream bs)"
  have enc: "base32Encode bs = map char5 ?gs"
    using encode_loop_groups [of 0 0 bs] by (simp add: base32Encode_def)
  have alpha: "set (map char5 ?gs) \<subseteq> set alphabet"
    using groups5_lengths char5_alphabet by auto
  then have "filter (\<lambda>c. c \<in> set alphabet) (toUpperCase (map char5 ?gs)) = map char5 ?gs"
    by (auto simp: toUpperCase_def alphabet_upper subset_iff intro!: filter_True map_idI)
  then have "base32Decode (base32Encode bs) = map byte8 (groups8 (concat (map bits5 (map char5 ?gs))))"
    using decode_loop_groups [of 0 "map char5 ?gs" 0] alpha by (simp add: base32Decode_def enc)
  also have "map bits5 (map char5 ?gs) = ?gs"
    using groups5_lengths by (auto simp: bits5_char5 intro!: map_idI)
  finally show ?thesis
    using concat_groups5 [of "stream bs"] groups8_stream by fastforce
qed

section \<open>Which codes are accepted\<close>

lemma totpCode_six_digits: "six_digits (totpCode hmac secret t)"
proof -
  let ?n = "unat (truncate_hmac (hmac (base32Decode secret) (counter_bytes (counter_at t)))) mod 10 ^ DIGITS"
  have "length (show_nat ?n) \<le> DIGITS" by (rule length_show_nat) (simp_all add: DIGITS_def)
  then show ?thesis
    unfolding six_digits_def totpCode_def Let_def using padStart_digits(1,2) by (simp add: DIGITS_def)
qed

lemma totpCode_counter: "counter_at t = counter_at u \<Longrightarrow> totpCode hmac secret t = totpCode hmac secret u"
  by (simp add: totpCode_def)

lemma counter_shift: "counter_at (t + w * PERIOD * 1000) = counter_at t + w"
proof -
  have "t + w * PERIOD * 1000 = t + w * (1000 * PERIOD)" by simp
  then show ?thesis unfolding counter_at_def by (simp add: PERIOD_def)
qed

text \<open>C33.  A generated secret decodes to the random bytes it was made of, and a code is accepted exactly when it
  is the code of the current period of thirty seconds, the one before or the one after.\<close>

theorem totp_window:
  "base32Decode (generateTOTPSecret random) = random \<and>
   (verifyTOTP hmac secret code t \<longleftrightarrow>
      (\<exists>k. (k = - 1 \<or> k = 0 \<or> k = 1) \<and> code = totpCode hmac secret ((counter_at t + k) * (1000 * PERIOD))))"
proof
  show "base32Decode (generateTOTPSecret random) = random"
    by (simp add: generateTOTPSecret_def base32_round_trip)
  have same: "totpCode hmac secret (t + w * PERIOD * 1000) = totpCode hmac secret ((counter_at t + w) * (1000 * PERIOD))" for w
    by (rule totpCode_counter) (simp only: counter_shift, simp add: counter_at_def PERIOD_def)
  show "verifyTOTP hmac secret code t \<longleftrightarrow>
      (\<exists>k. (k = - 1 \<or> k = 0 \<or> k = 1) \<and> code = totpCode hmac secret ((counter_at t + k) * (1000 * PERIOD)))"
    unfolding verifyTOTP_def using totpCode_six_digits by (simp only: same) auto
qed

text \<open>Clocks may differ by up to thirty seconds.\<close>

lemma totp_drift:
  assumes "\<bar>u - t\<bar> \<le> 30000"
  shows "verifyTOTP hmac secret (totpCode hmac secret u) t"
proof -
  have "counter_at u = counter_at t - 1 \<or> counter_at u = counter_at t \<or> counter_at u = counter_at t + 1"
  proof -
    have "u div 30000 \<le> (t + 30000) div 30000" "(t - 30000) div 30000 \<le> u div 30000"
      using assms by (auto intro: zdiv_mono1)
    moreover have "(t + 30000) div 30000 = t div 30000 + 1" "(t - 30000) div 30000 = t div 30000 - 1"
      using div_mult_self1 [of 30000 t 1] div_mult_self1 [of 30000 t "- 1"] by simp_all
    moreover have "x \<le> b + 1 \<Longrightarrow> b - 1 \<le> x \<Longrightarrow> x = b - 1 \<or> x = b \<or> x = b + 1" for x b :: int by linarith
    ultimately show ?thesis by (simp add: counter_at_def PERIOD_def)
  qed
  then obtain w where w: "w = - 1 \<or> w = 0 \<or> w = 1" "counter_at u = counter_at t + w" by force
  then have "totpCode hmac secret (t + w * PERIOD * 1000) = totpCode hmac secret u"
    by (intro totpCode_counter) (simp only: counter_shift)
  with w(1) show ?thesis unfolding verifyTOTP_def using totpCode_six_digits by auto
qed

end
