(* ===== verification/Passwords.thy ===== *)
theory Passwords
  imports Prelude
begin

text \<open>
  packages/auth/src/password.ts and crypto.ts: the stored forms of password hashes and encrypted
  secrets.  scrypt, AES-256-GCM, SHA-256 and HMAC-SHA1 are library code; they are the fields of the
  record \<open>crypto\<close>, an argument of the functions that use them.  Bytes are natural numbers below 256.
\<close>

section \<open>Library functions\<close>

text \<open>\<open>cr_seal iv plain\<close> is the pair of the authentication tag and the ciphertext under the configured
  key, \<open>cr_open iv tag data\<close> the plain text or nothing when the tag does not match.\<close>

record crypto =
  cr_sha256 :: "string \<Rightarrow> string"
  cr_scrypt :: "string \<Rightarrow> nat list \<Rightarrow> nat \<Rightarrow> nat list"
  cr_seal :: "nat list \<Rightarrow> string \<Rightarrow> nat list \<times> nat list"
  cr_open :: "nat list \<Rightarrow> nat list \<Rightarrow> nat list \<Rightarrow> string option"

section \<open>Hexadecimal text\<close>

definition hex_digit :: "nat \<Rightarrow> char" where
  "hex_digit n = ''0123456789abcdef'' ! n"

definition to_hex :: "nat list \<Rightarrow> string" where
  "to_hex bs = concat (map (\<lambda>b. [hex_digit (b div 16), hex_digit (b mod 16)]) bs)"

definition hex_value :: "char \<Rightarrow> nat option" where
  "hex_value c = (let k = length (takeWhile (\<lambda>x. x \<noteq> to_lower c) ''0123456789abcdef'')
     in if k < 16 then Some k else None)"

text \<open>\<open>Buffer.from(s, "hex")\<close> stops at the first pair that is not hexadecimal.\<close>

fun of_hex :: "string \<Rightarrow> nat list" where
  "of_hex (a # b # s) = (case hex_value a of None \<Rightarrow> []
     | Some x \<Rightarrow> (case hex_value b of None \<Rightarrow> [] | Some y \<Rightarrow> (16 * x + y) # of_hex s))"
| "of_hex s = []"

text \<open>\<open>s.split(sep)\<close> with a one-character separator.\<close>

fun split_on :: "char \<Rightarrow> string \<Rightarrow> string list" where
  "split_on sep [] = [[]]"
| "split_on sep (c # s) = (if c = sep then [] # split_on sep s
     else (case split_on sep s of [] \<Rightarrow> [[c]] | p # ps \<Rightarrow> (c # p) # ps))"

definition part :: "nat \<Rightarrow> string list \<Rightarrow> string" where
  "part i ps = (if i < length ps then ps ! i else [])"

section \<open>password.ts\<close>

definition KEYLEN :: nat where "KEYLEN = 64"

definition SCRYPT_PARAMS :: string where "SCRYPT_PARAMS = ''n=16384,r=8,p=1''"

definition hashPassword :: "crypto \<Rightarrow> nat list \<Rightarrow> string \<Rightarrow> string" where
  "hashPassword cr salt password =
     SCRYPT_PARAMS @ ''$'' @ to_hex salt @ ''$'' @ to_hex (cr_scrypt cr password salt KEYLEN)"

definition verifyPassword :: "crypto \<Rightarrow> string \<Rightarrow> string \<Rightarrow> bool" where
  "verifyPassword cr password stored =
     (let ps = split_on CHR ''$'' stored; params = part 0 ps; saltHex = part 1 ps; hashHex = part 2 ps
      in if params = [] \<or> saltHex = [] \<or> hashHex = [] then False
         else let expected = of_hex hashHex
              in cr_scrypt cr password (of_hex saltHex) (length expected) = expected)"

section \<open>crypto.ts\<close>

definition encryptSecret :: "crypto \<Rightarrow> nat list \<Rightarrow> string \<Rightarrow> string" where
  "encryptSecret cr iv plaintext = (case cr_seal cr iv plaintext of (tag, encrypted) \<Rightarrow>
     ''v1:'' @ to_hex iv @ '':'' @ to_hex tag @ '':'' @ to_hex encrypted)"

definition decryptSecret :: "crypto \<Rightarrow> string \<Rightarrow> error + string" where
  "decryptSecret cr stored =
     (let ps = split_on CHR '':'' stored; ivHex = part 1 ps; tagHex = part 2 ps; dataHex = part 3 ps
      in if part 0 ps \<noteq> ''v1'' \<or> ivHex = [] \<or> tagHex = [] \<or> dataHex = []
         then Inl (PlainError ''Unsupported or malformed encrypted value'')
         else case cr_open cr (of_hex ivHex) (of_hex tagHex) (of_hex dataHex) of
             None \<Rightarrow> Inl (PlainError ''Unsupported state or unable to authenticate data'')
           | Some s \<Rightarrow> Inr s)"

section \<open>Round trips\<close>

definition is_bytes :: "nat list \<Rightarrow> bool" where
  "is_bytes bs \<longleftrightarrow> list_all (\<lambda>b. b < 256) bs"

lemma hex_value_digit: "n < 16 \<Longrightarrow> hex_value (hex_digit n) = Some n"
proof -
  have "list_all (\<lambda>n. hex_value (hex_digit n) = Some n) [0..<16]" by code_simp
  then show "n < 16 \<Longrightarrow> hex_value (hex_digit n) = Some n" by (simp add: list_all_iff)
qed

lemma hex_round_trip: "is_bytes bs \<Longrightarrow> of_hex (to_hex bs) = bs"
  by (induction bs) (auto simp: is_bytes_def to_hex_def hex_value_digit)

lemma hex_digit_neq: "n < 16 \<Longrightarrow> hex_digit n \<noteq> CHR ''$'' \<and> hex_digit n \<noteq> CHR '':''"
proof -
  have "list_all (\<lambda>n. hex_digit n \<noteq> CHR ''$'' \<and> hex_digit n \<noteq> CHR '':'') [0..<16]" by code_simp
  then show "n < 16 \<Longrightarrow> hex_digit n \<noteq> CHR ''$'' \<and> hex_digit n \<noteq> CHR '':''" by (simp add: list_all_iff)
qed

lemma to_hex_chars: "is_bytes bs \<Longrightarrow> CHR ''$'' \<notin> set (to_hex bs) \<and> CHR '':'' \<notin> set (to_hex bs)"
proof (induction bs)
  case (Cons b bs)
  then have "b div 16 < 16" "b mod 16 < 16" by (auto simp: is_bytes_def)
  note d = hex_digit_neq [OF this(1)] hex_digit_neq [OF this(2)]
  have "is_bytes bs" using Cons.prems by (simp add: is_bytes_def)
  then have "CHR ''$'' \<notin> set (to_hex bs)" "CHR '':'' \<notin> set (to_hex bs)" using Cons.IH by blast+
  moreover have "set (to_hex (b # bs)) = insert (hex_digit (b div 16)) (insert (hex_digit (b mod 16)) (set (to_hex bs)))"
    by (simp add: to_hex_def insert_commute)
  ultimately show ?case using d by (metis insert_iff)
qed (simp add: to_hex_def)

lemma split_on_single: "sep \<notin> set s \<Longrightarrow> split_on sep s = [s]"
  by (induction s) auto

lemma split_on_append: "sep \<notin> set s \<Longrightarrow> split_on sep (s @ sep # rest) = s # split_on sep rest"
  by (induction s) auto

lemma to_hex_Nil [simp]: "to_hex bs = [] \<longleftrightarrow> bs = []"
  by (cases bs) (auto simp: to_hex_def)

text \<open>A stored hash verifies the password it was made from, and only passwords with the same key.\<close>

lemma verifyPassword_hashPassword:
  assumes "is_bytes salt" "salt \<noteq> []" "is_bytes (cr_scrypt cr p salt KEYLEN)" "length (cr_scrypt cr p salt KEYLEN) = KEYLEN"
  shows "verifyPassword cr q (hashPassword cr salt p) \<longleftrightarrow> cr_scrypt cr q salt KEYLEN = cr_scrypt cr p salt KEYLEN"
proof -
  let ?k = "cr_scrypt cr p salt KEYLEN"
  have "CHR ''$'' \<notin> set SCRYPT_PARAMS" by (simp add: SCRYPT_PARAMS_def)
  then have split: "split_on CHR ''$'' (hashPassword cr salt p) = [SCRYPT_PARAMS, to_hex salt, to_hex ?k]"
    using assms to_hex_chars [of salt] to_hex_chars [of ?k]
    by (simp add: hashPassword_def split_on_append split_on_single)
  have "?k \<noteq> []" using assms(4) by (auto simp: KEYLEN_def)
  then show ?thesis
    using assms by (simp add: verifyPassword_def split part_def hex_round_trip Let_def SCRYPT_PARAMS_def)
qed

lemma decryptSecret_encryptSecret:
  assumes "cr_seal cr iv plain = (tag, encrypted)" "cr_open cr iv tag encrypted = Some plain"
    and "is_bytes iv" "is_bytes tag" "is_bytes encrypted" "iv \<noteq> []" "tag \<noteq> []" "encrypted \<noteq> []"
  shows "decryptSecret cr (encryptSecret cr iv plain) = Inr plain"
proof -
  have "split_on CHR '':'' (encryptSecret cr iv plain) = [''v1'', to_hex iv, to_hex tag, to_hex encrypted]"
    using assms to_hex_chars [of iv] to_hex_chars [of tag] to_hex_chars [of encrypted]
      split_on_append [of "CHR '':''" "''v1''"]
    by (simp add: encryptSecret_def split_on_append split_on_single)
  then show ?thesis using assms by (simp add: decryptSecret_def part_def hex_round_trip)
qed

text \<open>The empty secret is encrypted to a value \<open>decryptSecret\<close> refuses, because its ciphertext is empty.\<close>

lemma decryptSecret_empty:
  assumes "cr_seal cr iv [] = (tag, [])" "is_bytes iv" "is_bytes tag"
  shows "decryptSecret cr (encryptSecret cr iv []) = Inl (PlainError ''Unsupported or malformed encrypted value'')"
proof -
  have "split_on CHR '':'' (encryptSecret cr iv []) = [''v1'', to_hex iv, to_hex tag, []]"
    using assms to_hex_chars [of iv] to_hex_chars [of tag] split_on_append [of "CHR '':''" "''v1''"]
    by (simp add: encryptSecret_def split_on_append to_hex_def)
  then show ?thesis by (simp add: decryptSecret_def part_def)
qed

text \<open>A transparent instance of the library, for concrete runs.\<close>

definition demo_crypto :: crypto where
  "demo_crypto = \<lparr> cr_sha256 = rev, cr_scrypt = (\<lambda>p salt n. replicate n 0),
     cr_seal = (\<lambda>iv p. ([1], map of_char p)), cr_open = (\<lambda>iv tag ds. Some (map char_of ds)) \<rparr>"

end
