(* ===== verification/Outbound.thy ===== *)
theory Outbound
  imports Json Schema Passwords
begin

text \<open>
  packages/payments-core/src/outbound.ts: webhooks to the tenants.  A domain event is fanned out to the
  matching subscriptions as delivery rows and jobs; a job posts the signed payload and either concludes the
  delivery or asks for another attempt; failed deliveries can be replayed and signing secrets rotated.

  Outside the repository's code are the HMAC, the HTTP request and the job queue: \<open>hmac secret body\<close> is the
  hexadecimal signature, \<open>post url headers body\<close> the status or the failure of a POST, \<open>queue job\<close> the
  error of a queue that does not take the job.  Commands return the jobs they enqueued.
\<close>

section \<open>JSON.stringify\<close>

definition hex4 :: "nat \<Rightarrow> string" where
  "hex4 n = ''00'' @ to_hex [n]"

definition json_char :: "char \<Rightarrow> string" where
  "json_char c = (let n = of_char c :: nat in
     if n = 34 then [CHR 92, CHR 34] else if n = 92 then [CHR 92, CHR 92]
     else if n = 8 then CHR 92 # ''b'' else if n = 9 then CHR 92 # ''t'' else if n = 10 then CHR 92 # ''n''
     else if n = 12 then CHR 92 # ''f'' else if n = 13 then CHR 92 # ''r''
     else if n < 32 then CHR 92 # CHR ''u'' # hex4 n else [c])"

definition json_quote :: "string \<Rightarrow> string" where
  "json_quote s = [CHR 34] @ concat (map json_char s) @ [CHR 34]"

text \<open>The text of a value.  Keys that are \<open>undefined\<close> have been dropped by \<open>to_jsonb\<close>, which also leaves no big
  integer, on which \<open>JSON.stringify\<close> would throw.\<close>

primrec json_text :: "jsval \<Rightarrow> string" where
  "json_text JUndefined = ''null''"
| "json_text JNull = ''null''"
| "json_text (JBool b) = (if b then ''true'' else ''false'')"
| "json_text (JNumber n) = show_int n"
| "json_text (JBigInt n) = show_int n"
| "json_text (JString s) = json_quote s"
| "json_text (JDate t) = json_quote (toISOString t)"
| "json_text (JArray vs) = ''['' @ join '','' (map json_text vs) @ '']''"
| "json_text (JObject kvs) = ''{'' @ join '','' (map (\<lambda>(k, t). json_quote k @ '':'' @ t) (map (map_prod id json_text) kvs)) @ ''}''"

section \<open>Events and signatures\<close>

definition OUTBOUND_EVENTS :: "string list" where
  "OUTBOUND_EVENTS = [''payment.completed'', ''payment.failed'', ''payment.reversed'', ''batch.completed'',
     ''wallet.funded'', ''collection.received'', ''collection.failed'', ''invoice.fiscalised'']"

definition normalizeOutboundEvent :: "string \<Rightarrow> string" where
  "normalizeOutboundEvent eventType =
     (if eventType = ''payment.succeeded'' \<or> eventType = ''payment.completed'' then ''payment.completed'' else eventType)"

type_synonym hmac = "string \<Rightarrow> string \<Rightarrow> string"

definition signPayload :: "hmac \<Rightarrow> string \<Rightarrow> jsval \<Rightarrow> string" where
  "signPayload hmac secret payload =
     hmac secret (case payload of JString body \<Rightarrow> body | _ \<Rightarrow> json_text (to_jsonb payload))"

definition verifyPayloadSignature :: "hmac \<Rightarrow> string \<Rightarrow> jsval \<Rightarrow> string \<Rightarrow> bool" where
  "verifyPayloadSignature hmac secret payload signature =
     (let expected = signPayload hmac secret payload
      in if length signature \<noteq> length expected then False else signature = expected)"

definition generateSigningSecret :: "nat list \<Rightarrow> string" where
  "generateSigningSecret random24 = to_hex random24"

text \<open>\<open>decryptSecret\<close> throws on a malformed or tampered value.\<close>

definition decrypted :: "crypto \<Rightarrow> string \<Rightarrow> string cmd" where
  "decrypted cr v = (case decryptSecret cr v of Inl e \<Rightarrow> throw e | Inr s \<Rightarrow> return s)"

record activeSubscription =
  sb_id :: string
  sb_url :: string
  sb_secret :: string
  sb_eventType :: string

definition active_subscriptions :: "string \<Rightarrow> db \<Rightarrow> webhookSubscription list" where
  "active_subscriptions tenantId s =
     filter (\<lambda>w. ws_tenantId w = tenantId \<and> ws_status w = ''ACTIVE'') (webhookSubscriptions s)"

definition subscribed :: "string \<Rightarrow> webhookSubscription list \<Rightarrow> webhookSubscription list" where
  "subscribed eventType subs = filter (\<lambda>w. eventType \<in> set (ws_events w)) subs"

definition listActiveSubscriptions :: "crypto \<Rightarrow> string \<Rightarrow> string \<Rightarrow> activeSubscription list cmd" where
  "listActiveSubscriptions cr tenantId eventType =
     bind (gets (active_subscriptions tenantId)) (\<lambda>subs.
     foldM (subscribed eventType subs) [] (\<lambda>acc w.
       bind (decrypted cr (ws_secretEncrypted w)) (\<lambda>secret.
       return (acc @ [\<lparr> sb_id = ws_id w, sb_url = ws_url w, sb_secret = secret, sb_eventType = eventType \<rparr>]))))"

section \<open>Fan-out\<close>

record deliverJob =
  dj_correlationId :: string
  dj_tenantId :: string
  dj_deliveryId :: string
  dj_attempt :: int
  dj_jobId :: "string option"
  dj_delayMs :: int

type_synonym queue = "deliverJob \<Rightarrow> error option"

definition enqueue :: "queue \<Rightarrow> deliverJob \<Rightarrow> unit cmd" where
  "enqueue queue job = (case queue job of None \<Rightarrow> return () | Some e \<Rightarrow> throw e)"

text \<open>\<open>{ ...payload, eventType, occurredAt }\<close>: later keys replace earlier ones in place.\<close>

definition set_key :: "string \<Rightarrow> jsval \<Rightarrow> (string \<times> jsval) list \<Rightarrow> (string \<times> jsval) list" where
  "set_key k v kvs = (if k \<in> fst ` set kvs then map (\<lambda>(x, w). (x, if x = k then v else w)) kvs else kvs @ [(k, v)])"

definition event_payload :: "(string \<times> jsval) list \<Rightarrow> string \<Rightarrow> int \<Rightarrow> jsval" where
  "event_payload payload eventType t =
     JObject (set_key ''occurredAt'' (JString (toISOString t)) (set_key ''eventType'' (JString eventType) payload))"

definition insertDelivery ::
  "string \<Rightarrow> string \<Rightarrow> string \<Rightarrow> jsval \<Rightarrow> string \<Rightarrow> string \<Rightarrow> string cmd" where
  "insertDelivery tenantId subId eventType payload payloadBody signature = bind fresh_id (\<lambda>did.
     seq (modify (\<lambda>s. s\<lparr>webhookDeliveries := webhookDeliveries s @
       [\<lparr> wd_id = did, wd_tenantId = tenantId, wd_subscriptionId = subId, wd_eventType = eventType,
          wd_payload = to_jsonb payload, wd_payloadBody = Some payloadBody, wd_signature = Some signature,
          wd_status = WD_PENDING, wd_attempts = 0, wd_responseStatus = None, wd_lastError = None,
          wd_nextRetryAt = None \<rparr>]\<rparr>))
     (return did))"

definition fanoutWebhookDeliveries ::
  "crypto \<Rightarrow> hmac \<Rightarrow> queue \<Rightarrow> string \<Rightarrow> string \<Rightarrow> (string \<times> jsval) list \<Rightarrow> (nat \<times> deliverJob list) cmd" where
  "fanoutWebhookDeliveries cr hmac queue tenantId rawEvent body =
     (let eventType = normalizeOutboundEvent rawEvent
      in if eventType \<notin> set OUTBOUND_EVENTS then return (0, []) else
        bind (gets (active_subscriptions tenantId)) (\<lambda>subs.
        foldM (subscribed eventType subs) (0, []) (\<lambda>acc sub.
          bind (decrypted cr (ws_secretEncrypted sub)) (\<lambda>secret.
          bind (gets (\<lambda>s. event_payload body eventType (now s))) (\<lambda>payload.
          let payloadBody = json_text (to_jsonb payload);
              signature = signPayload hmac secret (JString payloadBody)
          in bind (insertDelivery tenantId (ws_id sub) rawEvent payload payloadBody signature) (\<lambda>did.
             let job = \<lparr> dj_correlationId = ''whd-'' @ did, dj_tenantId = tenantId, dj_deliveryId = did,
                         dj_attempt = 1, dj_jobId = None, dj_delayMs = 0 \<rparr>
             in seq (enqueue queue job) (return (fst acc + 1, snd acc @ [job]))))))))"

section \<open>Delivery\<close>

record network_error =
  ne_cause :: "(string \<times> string option) option"   \<comment> \<open>\<open>err.cause.code\<close> with \<open>err.cause.message\<close>\<close>
  ne_message :: string

definition humanNetworkError :: "network_error \<Rightarrow> string" where
  "humanNetworkError err = (case ne_cause err of
      Some (code, msg) \<Rightarrow> code @ '': '' @ nullish msg ''connection error''
    | None \<Rightarrow> if ne_message err \<noteq> [] then ne_message err else ''network error'')"

type_synonym post = "string \<Rightarrow> (string \<times> string) list \<Rightarrow> string \<Rightarrow> network_error + int"

definition MAX_DELIVERY_ATTEMPTS :: int where "MAX_DELIVERY_ATTEMPTS = 5"

definition RETRY_DELAY_MS :: "int \<Rightarrow> int" where
  "RETRY_DELAY_MS attempt = min 30000 (2 ^ nat attempt * 2000)"

definition updateDelivery :: "string \<Rightarrow> (webhookDelivery \<Rightarrow> webhookDelivery) \<Rightarrow> unit cmd" where
  "updateDelivery did f =
     modify (\<lambda>s. s\<lparr>webhookDeliveries := update_rows (\<lambda>d. wd_id d = did) f (webhookDeliveries s)\<rparr>)"

definition find_delivery :: "string \<Rightarrow> db \<Rightarrow> webhookDelivery option" where
  "find_delivery did s = find (\<lambda>d. wd_id d = did) (webhookDeliveries s)"

definition find_subscription :: "string \<Rightarrow> db \<Rightarrow> webhookSubscription option" where
  "find_subscription sid s = find (\<lambda>w. ws_id w = sid) (webhookSubscriptions s)"

definition inactive_text :: string where
  "inactive_text = ''Subscription is not ACTIVE '' @ em_dash @ '' delivery cannot proceed''"

definition rejected_text :: "int \<Rightarrow> string" where
  "rejected_text st = ''Endpoint rejected the delivery with HTTP '' @ show_int st @ '' (4xx is permanent '' @ em_dash @
     '' check the receiver'' @ [CHR 39] @ ''s signature/event handling)''"

definition delivery_headers :: "webhookDelivery \<Rightarrow> string \<Rightarrow> (string \<times> string) list" where
  "delivery_headers d signature = [(''content-type'', ''application/json''), (''x-zfloat-event'', wd_eventType d),
     (''x-zfloat-delivery'', wd_id d), (''x-zfloat-signature'', signature)]"

text \<open>After a request that did not conclude the delivery: give up after the last attempt, else ask for another.\<close>

definition retryOrFail ::
  "queue \<Rightarrow> webhookDelivery \<Rightarrow> int \<Rightarrow> string \<Rightarrow> string \<Rightarrow> int option \<Rightarrow> string \<Rightarrow> deliverJob option cmd" where
  "retryOrFail queue d attempt payloadBody signature responseStatus errorText =
     (if MAX_DELIVERY_ATTEMPTS \<le> attempt then
        seq (updateDelivery (wd_id d) (\<lambda>d. d\<lparr>wd_status := WD_FAILED, wd_attempts := attempt,
               wd_responseStatus := responseStatus, wd_lastError := Some errorText,
               wd_payloadBody := Some payloadBody, wd_signature := Some signature\<rparr>)) (return None)
      else
        bind (gets now) (\<lambda>t.
        seq (updateDelivery (wd_id d) (\<lambda>d. d\<lparr>wd_attempts := attempt, wd_responseStatus := responseStatus,
               wd_lastError := Some errorText, wd_payloadBody := Some payloadBody,
               wd_nextRetryAt := Some (t + RETRY_DELAY_MS attempt)\<rparr>))
        (let job = \<lparr> dj_correlationId = ''whd-'' @ wd_id d, dj_tenantId = wd_tenantId d, dj_deliveryId = wd_id d,
                     dj_attempt = attempt + 1,
                     dj_jobId = Some (''whd-'' @ wd_id d @ ''-'' @ show_int (attempt + 1)),
                     dj_delayMs = RETRY_DELAY_MS attempt \<rparr>
         in seq (enqueue queue job) (return (Some job)))))"

definition concludeAttempt ::
  "queue \<Rightarrow> webhookDelivery \<Rightarrow> int \<Rightarrow> string \<Rightarrow> string \<Rightarrow> string \<Rightarrow> network_error + int \<Rightarrow> deliverJob option cmd" where
  "concludeAttempt queue d attempt url payloadBody signature answer = (case answer of
      Inr st \<Rightarrow>
        if 200 \<le> st \<and> st < 300 then
          seq (updateDelivery (wd_id d) (\<lambda>d. d\<lparr>wd_status := WD_DELIVERED, wd_attempts := attempt,
                 wd_responseStatus := Some st, wd_lastError := None, wd_payloadBody := Some payloadBody,
                 wd_signature := Some signature\<rparr>)) (return None)
        else if 400 \<le> st \<and> st < 500 then
          seq (updateDelivery (wd_id d) (\<lambda>d. d\<lparr>wd_status := WD_FAILED, wd_attempts := attempt,
                 wd_responseStatus := Some st, wd_lastError := Some (rejected_text st),
                 wd_payloadBody := Some payloadBody, wd_signature := Some signature\<rparr>)) (return None)
        else retryOrFail queue d attempt payloadBody signature (if st = 0 then None else Some st)
               (''Endpoint returned HTTP '' @ show_int st)
    | Inl err \<Rightarrow> retryOrFail queue d attempt payloadBody signature None
               (''POST '' @ url @ '' failed: '' @ humanNetworkError err))"

definition cannotProceed :: "string \<Rightarrow> int \<Rightarrow> deliverJob option cmd" where
  "cannotProceed deliveryId attempt =
     seq (updateDelivery deliveryId (\<lambda>d. d\<lparr>wd_status := WD_FAILED, wd_attempts := attempt,
            wd_lastError := Some inactive_text\<rparr>)) (return None)"

definition deliverWebhook ::
  "crypto \<Rightarrow> hmac \<Rightarrow> queue \<Rightarrow> post \<Rightarrow> string \<Rightarrow> int \<Rightarrow> deliverJob option cmd" where
  "deliverWebhook cr hmac queue post deliveryId attempt =
     bind (gets (find_delivery deliveryId)) (\<lambda>d0. case d0 of None \<Rightarrow> return None | Some d \<Rightarrow>
     if wd_status d = WD_DELIVERED then return None else
     bind (gets (find_subscription (wd_subscriptionId d))) (\<lambda>sub0.
     case sub0 of None \<Rightarrow> cannotProceed deliveryId attempt | Some sub \<Rightarrow>
       if ws_status sub \<noteq> ''ACTIVE'' then cannotProceed deliveryId attempt else
       bind (decrypted cr (ws_secretEncrypted sub)) (\<lambda>secret.
       let payloadBody = nullish (wd_payloadBody d) (json_text (wd_payload d));
           signature = signPayload hmac secret (JString payloadBody)
       in concludeAttempt queue d attempt (ws_url sub) payloadBody signature
            (post (ws_url sub) (delivery_headers d signature) payloadBody))))"

section \<open>Replay and rotation\<close>

fun delivery_status_name :: "delivery_status \<Rightarrow> string" where
  "delivery_status_name WD_PENDING = ''PENDING''"
| "delivery_status_name WD_DELIVERED = ''DELIVERED''"
| "delivery_status_name WD_FAILED = ''FAILED''"

definition replayDelivery :: "queue \<Rightarrow> string \<Rightarrow> deliverJob cmd" where
  "replayDelivery queue deliveryId =
     bind (gets (find_delivery deliveryId)) (\<lambda>d0.
     bind (require d0 (DeliveryReplayError ''Delivery not found'' ''NOT_FOUND'')) (\<lambda>d.
     seq (guard (wd_status d = WD_FAILED) (DeliveryReplayError
            (''Only FAILED deliveries can be replayed (current status: '' @ delivery_status_name (wd_status d) @ '')'')
            ''NOT_FAILED''))
     (bind (gets (find_subscription (wd_subscriptionId d))) (\<lambda>sub0.
      bind (require sub0 (DeliveryReplayError (''The subscription no longer exists '' @ em_dash @
              '' the delivery cannot be replayed'') ''SUB_MISSING'')) (\<lambda>sub.
      seq (guard (ws_status sub = ''ACTIVE'') (DeliveryReplayError (''The subscription is not ACTIVE '' @ em_dash @
              '' enable it before replaying'') ''SUB_INACTIVE''))
      (seq (updateDelivery deliveryId (\<lambda>d. d\<lparr>wd_status := WD_PENDING, wd_attempts := 0,
              wd_responseStatus := None, wd_nextRetryAt := None, wd_lastError := None\<rparr>))
      (let job = \<lparr> dj_correlationId = ''whd-'' @ deliveryId @ ''-replay'', dj_tenantId = wd_tenantId d,
                   dj_deliveryId = deliveryId, dj_attempt = 1, dj_jobId = None, dj_delayMs = 0 \<rparr>
       in seq (enqueue queue job) (return job))))))))"

text \<open>The fresh secret (24 random bytes) is returned once; \<open>iv\<close> is the random vector of its encryption.\<close>

definition rotateSubscriptionSecret ::
  "crypto \<Rightarrow> nat list \<Rightarrow> nat list \<Rightarrow> string \<Rightarrow> (string \<times> string \<times> int \<times> int) cmd" where
  "rotateSubscriptionSecret cr random24 iv subscriptionId =
     bind (gets (find_subscription subscriptionId)) (\<lambda>sub0.
     bind (require sub0 (SecretRotationError ''Webhook subscription not found'' ''NOT_FOUND'')) (\<lambda>sub.
     bind (gets now) (\<lambda>t.
     let secret = generateSigningSecret random24; version = ws_secretVersion sub + 1
     in seq (modify (\<lambda>s. s\<lparr>webhookSubscriptions := update_rows (\<lambda>w. ws_id w = subscriptionId)
              (\<lambda>w. w\<lparr>ws_secretEncrypted := encryptSecret cr iv secret, ws_secretVersion := version,
                     ws_secretRotatedAt := Some t\<rparr>) (webhookSubscriptions s)\<rparr>))
        (return (subscriptionId, secret, version, t)))))"

section \<open>A chain of attempts\<close>

text \<open>The jobs of one delivery: each attempt has its own answer, the next job carries the next attempt.\<close>

primrec deliver_run ::
  "crypto \<Rightarrow> hmac \<Rightarrow> queue \<Rightarrow> string \<Rightarrow> post list \<Rightarrow> int \<Rightarrow> deliverJob option \<Rightarrow> deliverJob option cmd" where
  "deliver_run cr hmac queue did [] attempt job0 = return job0"
| "deliver_run cr hmac queue did (p # ps) attempt job0 =
     bind (deliverWebhook cr hmac queue p did attempt) (\<lambda>j. case j of None \<Rightarrow> return None
       | Some job \<Rightarrow> deliver_run cr hmac queue did ps (dj_attempt job) j)"

text \<open>What the documentation promises: the first success delivers, the first refusal or the fifth failure ends
  in the dead-letter queue.\<close>

fun verdict :: "int \<Rightarrow> (network_error + int) list \<Rightarrow> delivery_status \<times> int" where
  "verdict a [] = (WD_PENDING, a)"
| "verdict a (Inl e # rs) = (if 5 \<le> a then (WD_FAILED, a) else verdict (a + 1) rs)"
| "verdict a (Inr st # rs) = (if st div 100 = 2 then (WD_DELIVERED, a)
     else if st div 100 = 4 \<or> 5 \<le> a then (WD_FAILED, a) else verdict (a + 1) rs)"

lemma find_delivery_update:
  assumes "find_delivery did s = Some d" and "\<And>x. wd_id (f x) = wd_id x"
  shows "find_delivery did (s\<lparr>webhookDeliveries := update_rows (\<lambda>d. wd_id d = did) f (webhookDeliveries s)\<rparr>) = Some (f d)"
proof -
  have "find (\<lambda>d. wd_id d = did) (update_rows (\<lambda>d. wd_id d = did) f ds) =
      map_option f (find (\<lambda>d. wd_id d = did) ds)" for ds
    by (induction ds) (simp_all add: assms(2))
  then show ?thesis using assms(1) by (simp add: find_delivery_def)
qed

lemma find_delivery_id: "find_delivery did s = Some d \<Longrightarrow> wd_id d = did"
  by (auto simp: find_delivery_def dest: find_SomeD)

text \<open>One attempt on an open delivery of an active subscription.\<close>

lemma concludeAttempt_run:
  assumes d: "find_delivery did s = Some d" and queue: "queue = (\<lambda>_. None)"
  shows "\<exists>r t d'. concludeAttempt queue d a url body sg answer s = (Inr r, t) \<and>
     find_delivery did t = Some d' \<and> webhookSubscriptions t = webhookSubscriptions s \<and>
     wd_payloadBody d' = Some body \<and> wd_attempts d' = a \<and> wd_subscriptionId d' = wd_subscriptionId d \<and>
     wd_eventType d' = wd_eventType d \<and>
     (case verdict a [answer] of (st, _) \<Rightarrow>
        if st = WD_PENDING then wd_status d' = wd_status d \<and> map_option dj_attempt r = Some (a + 1) \<and> a < 5
        else wd_status d' = st \<and> r = None \<and> (st = WD_DELIVERED \<longrightarrow> wd_signature d' = Some sg))"
proof -
  have two: "200 \<le> st \<and> st < 300 \<longleftrightarrow> st div 100 = 2" "400 \<le> st \<and> st < 500 \<longleftrightarrow> st div 100 = 4" for st :: int by linarith+
  note id = find_delivery_id [OF d]
  note upd = find_delivery_update [OF d]
  show ?thesis
    unfolding concludeAttempt_def retryOrFail_def MAX_DELIVERY_ATTEMPTS_def two
    by (cases answer)
      (auto simp: tx_run enqueue_def queue updateDelivery_def upd id Let_def)
qed

lemma deliverWebhook_open:
  assumes "find_delivery did s = Some d" and "wd_status d \<noteq> WD_DELIVERED"
    and "find_subscription (wd_subscriptionId d) s = Some sub" and "ws_status sub = ''ACTIVE''"
    and "decryptSecret cr (ws_secretEncrypted sub) = Inr secret"
    and "body = nullish (wd_payloadBody d) (json_text (wd_payload d))"
    and "sg = signPayload hmac secret (JString body)"
  shows "deliverWebhook cr hmac queue p did a s =
    concludeAttempt queue d a (ws_url sub) body sg (p (ws_url sub) (delivery_headers d sg) body) s"
  using assms by (simp add: deliverWebhook_def decrypted_def tx_run Let_def)

lemma verdict_step:
  "verdict a (r # rs) = (case verdict a [r] of (st, k) \<Rightarrow> if st = WD_PENDING then verdict (a + 1) rs else (st, k))"
  by (cases r) simp_all

lemma verdict_one: "verdict a [r] = (st, k) \<Longrightarrow> st \<noteq> WD_PENDING \<Longrightarrow> k = a"
  by (cases r) (auto split: if_splits)

lemma delivery_headers_cong:
  "wd_id d' = wd_id d \<Longrightarrow> wd_eventType d' = wd_eventType d \<Longrightarrow> delivery_headers d' sg = delivery_headers d sg"
  by (simp add: delivery_headers_def)

text \<open>C30.  A delivery always concludes.  Posting to an active subscription, with the queue taking the jobs, a
  delivery that is attempted from attempt \<open>a\<close> on is \<open>DELIVERED\<close> or \<open>FAILED\<close> after at most five attempts,
  exactly as the answers of the endpoint decide (first success, first refusal, fifth failure), no job is
  left, the number of attempts is recorded, and a delivered row carries a signature that verifies the very
  bytes that were posted under the current secret.\<close>

theorem delivery_concludes:
  assumes "find_delivery did s = Some d" and "wd_status d \<noteq> WD_DELIVERED"
    and "find_subscription (wd_subscriptionId d) s = Some sub" and "ws_status sub = ''ACTIVE''"
    and "decryptSecret cr (ws_secretEncrypted sub) = Inr secret" and "queue = (\<lambda>_. None)"
    and "a \<le> 5" and "5 < a + int (length ps)"
    and "body = nullish (wd_payloadBody d) (json_text (wd_payload d))"
    and "sg = signPayload hmac secret (JString body)"
  shows "\<exists>t d'. deliver_run cr hmac queue did ps a job0 s = (Inr None, t) \<and> find_delivery did t = Some d' \<and>
    wd_status d' \<noteq> WD_PENDING \<and> wd_attempts d' \<le> 5 \<and>
    (wd_status d', wd_attempts d') = verdict a (map (\<lambda>p. p (ws_url sub) (delivery_headers d sg) body) ps) \<and>
    (wd_status d' = WD_DELIVERED \<longrightarrow> (\<exists>sig. wd_signature d' = Some sig \<and> wd_payloadBody d' = Some body \<and>
       verifyPayloadSignature hmac secret (JString body) sig))"
  using assms
proof (induction ps arbitrary: a d s job0)
  case (Cons p ps)
  let ?ans = "p (ws_url sub) (delivery_headers d sg) body"
  note opened = deliverWebhook_open [OF Cons.prems(1-5) Cons.prems(9,10)]
  obtain r u d' where run: "concludeAttempt queue d a (ws_url sub) body sg ?ans s = (Inr r, u)"
    and d': "find_delivery did u = Some d'" and subs: "webhookSubscriptions u = webhookSubscriptions s"
    and keep: "wd_payloadBody d' = Some body" "wd_attempts d' = a" "wd_subscriptionId d' = wd_subscriptionId d"
      "wd_eventType d' = wd_eventType d"
    and out: "case verdict a [?ans] of (st, _) \<Rightarrow>
        if st = WD_PENDING then wd_status d' = wd_status d \<and> map_option dj_attempt r = Some (a + 1) \<and> a < 5
        else wd_status d' = st \<and> r = None \<and> (st = WD_DELIVERED \<longrightarrow> wd_signature d' = Some sg)"
    using concludeAttempt_run [OF Cons.prems(1,6), of a "ws_url sub" body sg ?ans] by (elim exE conjE) (rule that)
  have step: "deliverWebhook cr hmac queue p did a s = (Inr r, u)" using opened [of queue p a] run by simp
  obtain st k where v: "verdict a [?ans] = (st, k)" by fastforce
  have hd: "delivery_headers d' sg = delivery_headers d sg"
    by (rule delivery_headers_cong) (simp_all add: keep find_delivery_id [OF d'] find_delivery_id [OF Cons.prems(1)])
  show ?case
  proof (cases "st = WD_PENDING")
    case True
    with out v obtain job where job: "r = Some job" "dj_attempt job = a + 1" "wd_status d' = wd_status d" "a < 5" by auto
    have sub: "find_subscription (wd_subscriptionId d') u = Some sub"
      using Cons.prems(3) subs keep by (simp add: find_subscription_def)
    have "\<exists>t d''. deliver_run cr hmac queue did ps (a + 1) r u = (Inr None, t) \<and> find_delivery did t = Some d'' \<and>
        wd_status d'' \<noteq> WD_PENDING \<and> wd_attempts d'' \<le> 5 \<and>
        (wd_status d'', wd_attempts d'') = verdict (a + 1) (map (\<lambda>p. p (ws_url sub) (delivery_headers d' sg) body) ps) \<and>
        (wd_status d'' = WD_DELIVERED \<longrightarrow> (\<exists>sig. wd_signature d'' = Some sig \<and> wd_payloadBody d'' = Some body \<and>
           verifyPayloadSignature hmac secret (JString body) sig))"
      by (rule Cons.IH [OF d' _ sub]) (use Cons.prems job keep in simp_all)
    then show ?thesis
      by (simp add: bind_def step job v True hd verdict_step [of a _ "map _ _"])
  next
    case False
    with out v have "r = None" "wd_status d' = st" "st = WD_DELIVERED \<longrightarrow> wd_signature d' = Some sg" by auto
    with False v d' keep Cons.prems(7,10) verdict_one [OF v False] show ?thesis
      by (simp add: bind_def step return_def verdict_step [of a _ "map _ _"]
          verifyPayloadSignature_def)
  qed
qed simp

definition demo_subscription :: webhookSubscription where
  "demo_subscription = \<lparr> ws_id = ''sub'', ws_tenantId = ''acme'', ws_url = ''https://acme'',
     ws_secretEncrypted = ''v1:00:01:6b6579'', ws_secretVersion = 1, ws_secretRotatedAt = None,
     ws_events = [''payment.completed''], ws_status = ''ACTIVE'', ws_createdById = None, ws_createdAt = 0 \<rparr>"

definition demo_delivery :: webhookDelivery where
  "demo_delivery = \<lparr> wd_id = ''d'', wd_tenantId = ''acme'', wd_subscriptionId = ''sub'',
     wd_eventType = ''payment.succeeded'', wd_payload = JObject [], wd_payloadBody = Some ''{}'', wd_signature = None,
     wd_status = WD_PENDING, wd_attempts = 0, wd_responseStatus = None, wd_lastError = None, wd_nextRetryAt = None \<rparr>"

definition demo_webhooks :: db where
  "demo_webhooks = (empty_db show_nat 0)\<lparr>webhookSubscriptions := [demo_subscription], webhookDeliveries := [demo_delivery]\<rparr>"

lemma demo_secret: "decryptSecret demo_crypto ''v1:00:01:6b6579'' = Inr ''key''" by code_simp

theorem delivery_concludes_witness:
  "\<exists>t d'. deliver_run demo_crypto (@) (\<lambda>_. None) ''d''
      [\<lambda>_ _ _. Inr 503, \<lambda>_ _ _. Inr 200, \<lambda>_ _ _. Inr 200, \<lambda>_ _ _. Inr 200, \<lambda>_ _ _. Inr 200] 1 None demo_webhooks = (Inr None, t) \<and>
     find_delivery ''d'' t = Some d' \<and> wd_status d' = WD_DELIVERED \<and> wd_attempts d' = 2"
  using delivery_concludes [of "''d''" demo_webhooks demo_delivery demo_subscription demo_crypto "''key''" "\<lambda>_. None" 1
      "[\<lambda>_ _ _. Inr 503, \<lambda>_ _ _. Inr 200, \<lambda>_ _ _. Inr 200, \<lambda>_ _ _. Inr 200, \<lambda>_ _ _. Inr 200]" "''{}''" _ "(@)" None]
    demo_secret
  by (fastforce simp: demo_webhooks_def demo_delivery_def demo_subscription_def find_delivery_def find_subscription_def)

end
