(* ===== verification/Schedules.thy ===== *)
theory Schedules
  imports Js_Number Payments Passwords
begin

text \<open>
  packages/payments-core/src/schedules.ts and report-schedules.ts, and \<open>createScheduledPayments\<close> of
  services/worker/src/jobs.ts: recurring payments and recurring reports.  Dates are milliseconds since the
  epoch.  The cron parser, the job queue and the object store are arguments; the local time zone of the
  process is a fixed offset from UTC (a zone without daylight saving).
\<close>

section \<open>Calendar arithmetic\<close>

definition day_ms :: int where "day_ms = 86400000"

text \<open>\<open>Date.UTC(year, month, day)\<close> in days, with a month counted from 0 that may lie outside the year and a day
  that may lie outside the month.\<close>

definition make_day :: "int \<Rightarrow> int \<Rightarrow> int \<Rightarrow> int" where
  "make_day year month day = days_from_civil (year + month div 12) (month mod 12 + 1) 1 + day - 1"

definition add_days :: "int \<Rightarrow> int \<Rightarrow> int" where
  "add_days t n = t + n * day_ms"

text \<open>\<open>d.setUTCMonth(d.getUTCMonth() + 1)\<close>: the day of the month is kept, and overflows into the month after.\<close>

definition next_month :: "int \<Rightarrow> int" where
  "next_month t = (case civil_from_days (t div day_ms) of (y, m, d) \<Rightarrow> make_day y m d * day_ms + t mod day_ms)"

section \<open>schedules.ts\<close>

type_synonym cron = "string \<Rightarrow> int \<Rightarrow> int option"   \<comment> \<open>the next date of an expression, or a failure\<close>

definition nextRunFor :: "int \<Rightarrow> cron \<Rightarrow> string \<Rightarrow> int \<Rightarrow> string option \<Rightarrow> int" where
  "nextRunFor offset cron frequency from cronExpr =
     (if frequency = ''CUSTOM'' then
        (if truthy cronExpr then nullish (cron (the cronExpr) from) (add_days from 7) else add_days from 7)
      else if frequency = ''DAILY'' then add_days from 1
      else if frequency = ''WEEKLY'' then add_days from 7
      else if frequency = ''MONTHLY'' then next_month (from + offset) - offset
      else from)"

record createScheduleInput =
  sc_tenantId :: string
  sc_actorId :: string
  sc_name :: string
  sc_amountMinor :: int
  sc_frequency :: string
  sc_channel :: string
  sc_startDate :: int
  sc_endDate :: "int option"
  sc_cronExpr :: "string option"
  sc_beneficiaryId :: "string option"
  sc_beneficiarySnapshot :: jsval
  sc_category :: "string option"

definition paymentChannels :: "string list" where
  "paymentChannels = [''mpesa'', ''till'', ''paybill'', ''bank'']"

text \<open>\<open>x.toFixed(2)\<close> below \<open>10\<^sup>2\<^sup>1\<close>: the nearest multiple of a cent to the exact value, the larger one on a tie.
  Larger numbers and the infinities print in a form without the decimal point the pattern below asks for.\<close>

definition to_fixed2 :: "js_num \<Rightarrow> string option" where
  "to_fixed2 x = (case x of
      Fin q \<Rightarrow> if \<bar>q\<bar> < 10 ^ 21 then
          (let n = \<lfloor>\<bar>q\<bar> * 100 + 1 / 2\<rfloor>
           in Some ((if q < 0 then ''-'' else []) @ show_int (n div 100) @ ''.'' @ pad_int 2 (n mod 100)))
        else None
    | _ \<Rightarrow> None)"

text \<open>\<open>/^\d{1,12}(\.\d{1,2})?$/\<close> of the amount schema.\<close>

definition amount_decimal_re :: "string \<Rightarrow> bool" where
  "amount_decimal_re s = (let a = takeWhile is_digit s; r = dropWhile is_digit s
     in 1 \<le> length a \<and> length a \<le> 12 \<and>
        (r = [] \<or> (hd r = CHR ''.'' \<and> (length r = 2 \<or> length r = 3) \<and> list_all is_digit (drop 1 r))))"

definition kes_of_minor :: "int \<Rightarrow> js_num" where
  "kes_of_minor amountMinor = (case dbl (of_int amountMinor) of Fin q \<Rightarrow> dbl (q / 100) | x \<Rightarrow> x)"

definition schedule_amount_ok :: "int \<Rightarrow> bool" where
  "schedule_amount_ok amountMinor = (case to_fixed2 (kes_of_minor amountMinor) of
      None \<Rightarrow> False | Some s \<Rightarrow> amount_decimal_re s)"

definition createPaymentSchedule :: "int \<Rightarrow> cron \<Rightarrow> createScheduleInput \<Rightarrow> (string \<times> int) cmd" where
  "createPaymentSchedule offset cron input =
     seq (guard (schedule_amount_ok (sc_amountMinor input)) (PlainError ''Invalid amount''))
     (seq (guard (sc_channel input \<in> set paymentChannels) (PlainError (''Unsupported channel: '' @ sc_channel input)))
     (seq (guard (case sc_endDate input of None \<Rightarrow> True | Some e \<Rightarrow> sc_startDate input < e)
            (PlainError ''End date must be after start date''))
     (let nextRunAt = nextRunFor offset cron (sc_frequency input) (sc_startDate input) (sc_cronExpr input)
      in bind fresh_id (\<lambda>sid.
         seq (modify (\<lambda>s. s\<lparr>paymentSchedules := paymentSchedules s @
           [\<lparr> ps_id = sid, ps_tenantId = sc_tenantId input, ps_name = sc_name input,
              ps_beneficiaryId = sc_beneficiaryId input,
              ps_beneficiarySnapshot = stored (sc_beneficiarySnapshot input),
              ps_amountMinor = sc_amountMinor input, ps_currency = ''KES'', ps_frequency = sc_frequency input,
              ps_cronExpr = sc_cronExpr input, ps_startDate = sc_startDate input, ps_endDate = sc_endDate input,
              ps_nextRunAt = Some nextRunAt, ps_lastRunAt = None, ps_status = SC_ACTIVE,
              ps_channel = sc_channel input, ps_category = sc_category input,
              ps_createdById = Some (sc_actorId input) \<rparr>]\<rparr>))
         (return (sid, nextRunAt))))))"

definition setScheduleStatus :: "string \<Rightarrow> string \<Rightarrow> schedule_status \<Rightarrow> unit cmd" where
  "setScheduleStatus tenantId scheduleId st = modify (\<lambda>s. s\<lparr>paymentSchedules :=
     update_rows (\<lambda>p. ps_id p = scheduleId \<and> ps_tenantId p = tenantId) (\<lambda>p. p\<lparr>ps_status := st\<rparr>) (paymentSchedules s)\<rparr>)"

definition pausePaymentSchedule :: "string \<Rightarrow> string \<Rightarrow> unit cmd" where
  "pausePaymentSchedule tenantId scheduleId = setScheduleStatus tenantId scheduleId SC_PAUSED"

definition cancelPaymentSchedule :: "string \<Rightarrow> string \<Rightarrow> unit cmd" where
  "cancelPaymentSchedule tenantId scheduleId = setScheduleStatus tenantId scheduleId SC_CANCELLED"

definition schedule_due :: "int \<Rightarrow> paymentSchedule \<Rightarrow> bool" where
  "schedule_due t p \<longleftrightarrow> ps_status p = SC_ACTIVE \<and> (case ps_nextRunAt p of None \<Rightarrow> False | Some n \<Rightarrow> n \<le> t)"

definition listDueSchedules :: "nat option \<Rightarrow> (string \<times> int option) list cmd" where
  "listDueSchedules limit = gets (\<lambda>s. map (\<lambda>p. (ps_id p, ps_nextRunAt p))
     (take (nullish limit 50) (filter (schedule_due (now s)) (paymentSchedules s))))"

section \<open>createScheduledPayments\<close>

text \<open>The advance of the worker, which does not look at the cron expression.\<close>

definition advanceFrequency :: "int \<Rightarrow> string \<Rightarrow> int" where
  "advanceFrequency from frequency =
     (if frequency = ''DAILY'' then add_days from 1
      else if frequency = ''WEEKLY'' then add_days from 7
      else if frequency = ''MONTHLY'' then next_month from
      else add_days from 30)"

definition schedule_key :: "int \<Rightarrow> paymentSchedule \<Rightarrow> string" where
  "schedule_key t p = ''sched:'' @ ps_id p @ '':'' @ toISOString (nullish (ps_nextRunAt p) t)"

definition schedule_payee :: "paymentSchedule \<Rightarrow> jsval" where
  "schedule_payee p = js_nullish (ps_beneficiarySnapshot p) (JObject [(''name'', JString (ps_name p))])"

text \<open>The draft of one occurrence, with the number, wallet and maker.\<close>

definition scheduled_payment :: "paymentSchedule \<Rightarrow> string \<Rightarrow> string \<Rightarrow> string \<Rightarrow> payment" where
  "scheduled_payment p number walletId makerId = (blank_payment (ps_tenantId p) number)
     \<lparr> p_product := ''single_payment'', p_channel := ps_channel p, p_amountMinor := ps_amountMinor p, p_feeMinor := 0,
       p_totalMinor := ps_amountMinor p, p_status := DRAFT, p_sourceWalletId := Some walletId,
       p_beneficiarySnapshot := to_jsonb (schedule_payee p), p_category := ps_category p,
       p_remark := Some (''Scheduled: '' @ ps_name p), p_createdById := Some makerId,
       p_scheduledFor := ps_nextRunAt p \<rparr>"

definition draftOccurrence :: "int \<Rightarrow> paymentSchedule \<Rightarrow> string \<Rightarrow> string \<Rightarrow> (bool \<times> jsval) cmd" where
  "draftOccurrence t p walletId makerId = transaction
     (withIdempotency (ps_tenantId p) ''schedule.dispatch'' (schedule_key t p)
       (bind fresh_id (\<lambda>u.
        bind (insertPayment (\<lambda>pid s. scheduled_payment p (''ZF-SCH-'' @ toUpperCase (take 6 u)) walletId makerId))
          (\<lambda>_. return JUndefined))))"

definition advanceSchedule :: "int \<Rightarrow> paymentSchedule \<Rightarrow> unit cmd" where
  "advanceSchedule t p = (let nxt = advanceFrequency (nullish (ps_nextRunAt p) t) (ps_frequency p)
     in modify (\<lambda>s. s\<lparr>paymentSchedules := update_rows (\<lambda>q. ps_id q = ps_id p)
          (\<lambda>q. q\<lparr>ps_nextRunAt := Some nxt, ps_lastRunAt := Some t,
                 ps_status := (if t < nxt then SC_ACTIVE else SC_COMPLETED)\<rparr>) (paymentSchedules s)\<rparr>))"

text \<open>One schedule of the dispatch: skipped without a wallet or a maker, else drafted and advanced.  A draft that
  fails is swallowed; the schedule advances nevertheless.\<close>

definition dispatchSchedule :: "int \<Rightarrow> nat \<Rightarrow> paymentSchedule \<Rightarrow> nat cmd" where
  "dispatchSchedule t created p =
     bind (gets (\<lambda>s. find (\<lambda>w. w_tenantId w = ps_tenantId p) (wallets s))) (\<lambda>wallet.
     bind (gets (\<lambda>s. find (\<lambda>u. us_tenantId u = Some (ps_tenantId p)) (users s))) (\<lambda>maker.
     case (wallet, maker) of
       (Some w, Some u) \<Rightarrow>
         bind (catch (bind (draftOccurrence t p (w_id w) (us_id u)) (\<lambda>_. return (created + 1)))
                (\<lambda>_. return created)) (\<lambda>n.
         seq (advanceSchedule t p) (return n))
     | _ \<Rightarrow> return created))"

definition createScheduledPayments :: "nat option \<Rightarrow> nat cmd" where
  "createScheduledPayments limit =
     bind (gets now) (\<lambda>t.
     bind (gets (\<lambda>s. take (nullish limit 50) (filter (schedule_due t) (paymentSchedules s)))) (\<lambda>due.
     foldM due 0 (dispatchSchedule t)))"

section \<open>report-schedules.ts\<close>

text \<open>\<open>lastDay\<close> is the length of the current month: \<open>Date.UTC(year, month, 0)\<close> is the day before the first of the
  next one.\<close>

definition nextRun :: "string \<Rightarrow> int \<Rightarrow> int" where
  "nextRun frequency from =
     (if frequency = ''weekly'' then add_days from 7
      else case civil_from_days (from div day_ms) of (year, m, d) \<Rightarrow>
        let lastDay = (case civil_from_days (make_day year m 0) of (_, _, ld) \<Rightarrow> ld);
            day = min d lastDay
        in make_day year m day * day_ms + from mod day_ms div 1000 * 1000)"

record reportJob =
  rj_correlationId :: string
  rj_tenantId :: string
  rj_reportId :: string
  rj_reportType :: string
  rj_scheduleId :: string

text \<open>A queue that refuses the job is ignored.  The result counts the reports and lists the accepted jobs.\<close>

definition produceReport ::
  "(reportJob \<Rightarrow> bool) \<Rightarrow> nat \<times> reportJob list \<Rightarrow> reportSchedule \<Rightarrow> (nat \<times> reportJob list) cmd" where
  "produceReport accepts acc sched = bind fresh_id (\<lambda>rid.
     seq (modify (\<lambda>s. s\<lparr>reports := reports s @
       [\<lparr> rt_id = rid, rt_tenantId = rs_tenantId sched, rt_reportType = rs_reportType sched,
          rt_status = ''REQUESTED'', rt_payloadRef = None, rt_rowCount = 0, rt_requestedById = rs_createdById sched,
          rt_scheduleId = Some (rs_id sched), rt_completedAt = None \<rparr>]\<rparr>))
     (let job = \<lparr> rj_correlationId = ''sched-'' @ rs_id sched @ ''-'' @ rid, rj_tenantId = rs_tenantId sched,
                  rj_reportId = rid, rj_reportType = rs_reportType sched, rj_scheduleId = rs_id sched \<rparr>;
          nxt = nextRun (rs_frequency sched) (rs_nextRunAt sched)
      in seq (modify (\<lambda>s. s\<lparr>reportSchedules := update_rows (\<lambda>r. rs_id r = rs_id sched)
                (\<lambda>r. r\<lparr>rs_nextRunAt := nxt\<rparr>) (reportSchedules s)\<rparr>))
         (return (fst acc + 1, if accepts job then snd acc @ [job] else snd acc))))"

definition expired_reports :: "int \<Rightarrow> reportSchedule \<Rightarrow> report list \<Rightarrow> report list" where
  "expired_reports t sched rs = take 500 (filter (\<lambda>r. rt_scheduleId r = Some (rs_id sched) \<and>
     (case rt_completedAt r of None \<Rightarrow> False | Some c \<Rightarrow> c < t - rs_retentionDays sched * day_ms)) rs)"

text \<open>\<open>payloadRef.replace(/^[a-z]+:\/\//, "")\<close>: the key of the object to delete.\<close>

definition strip_scheme :: "string \<Rightarrow> string" where
  "strip_scheme r = (let a = takeWhile is_lower r; b = dropWhile is_lower r
     in if a \<noteq> [] \<and> starts_with ''://'' b then drop 3 b else r)"

definition purgeSchedule :: "nat \<times> string list \<Rightarrow> reportSchedule \<Rightarrow> (nat \<times> string list) cmd" where
  "purgeSchedule acc sched =
     bind (gets (\<lambda>s. expired_reports (now s) sched (reports s))) (\<lambda>expired.
     foldM expired acc (\<lambda>acc art.
       seq (modify (\<lambda>s. s\<lparr>reports := filter (\<lambda>r. rt_id r \<noteq> rt_id art) (reports s)\<rparr>))
       (return (fst acc + 1, if truthy (rt_payloadRef art) then snd acc @ [strip_scheme (the (rt_payloadRef art))]
          else snd acc))))"

definition runReportScheduleDispatch ::
  "(reportJob \<Rightarrow> bool) \<Rightarrow> (nat \<times> nat \<times> reportJob list \<times> string list) cmd" where
  "runReportScheduleDispatch accepts =
     bind (gets (\<lambda>s. take 50 (filter (\<lambda>r. rs_active r \<and> rs_nextRunAt r \<le> now s) (reportSchedules s)))) (\<lambda>due.
     bind (foldM due (0, []) (produceReport accepts)) (\<lambda>produced.
     bind (gets (\<lambda>s. take 200 (filter rs_active (reportSchedules s)))) (\<lambda>schedules.
     bind (foldM schedules (0, []) purgeSchedule) (\<lambda>purged.
     return (fst produced, fst purged, snd produced, snd purged)))))"

lemma monthly_report_overflows: "toISOString (nextRun ''monthly'' (make_day 2025 0 31 * day_ms)) = ''2025-03-03T00:00:00.000Z''"
  by code_simp

section \<open>What a dispatch does\<close>

text \<open>A schedule can be dispatched when its tenant has a wallet and a user.\<close>

definition dispatchable :: "db \<Rightarrow> paymentSchedule \<Rightarrow> bool" where
  "dispatchable s p \<longleftrightarrow> (\<exists>w \<in> set (wallets s). w_tenantId w = ps_tenantId p) \<and>
     (\<exists>u \<in> set (users s). us_tenantId u = Some (ps_tenantId p))"

text \<open>A payment that is a draft of an occurrence of the schedule: the amount, no fee, from a wallet of the tenant.\<close>

definition drafts_occurrence :: "db \<Rightarrow> paymentSchedule \<Rightarrow> payment \<Rightarrow> bool" where
  "drafts_occurrence s p q \<longleftrightarrow> p_tenantId q = ps_tenantId p \<and> p_status q = DRAFT \<and> p_amountMinor q = ps_amountMinor p \<and>
     p_feeMinor q = 0 \<and> p_totalMinor q = ps_amountMinor p \<and> p_scheduledFor q = ps_nextRunAt p \<and>
     (\<exists>w \<in> set (wallets s). p_sourceWalletId q = Some (w_id w) \<and> w_tenantId w = ps_tenantId p)"

definition same_office :: "db \<Rightarrow> db \<Rightarrow> bool" where
  "same_office s t \<longleftrightarrow> wallets t = wallets s \<and> users t = users s \<and> now t = now s"

lemma same_office_trans: "same_office s t \<Longrightarrow> same_office t u \<Longrightarrow> same_office s u"
  by (simp add: same_office_def)

lemma dispatchable_cong: "same_office s t \<Longrightarrow> dispatchable t p = dispatchable s p"
  by (simp add: dispatchable_def same_office_def)

lemma drafts_cong: "same_office s t \<Longrightarrow> drafts_occurrence t p q = drafts_occurrence s p q"
  by (simp add: drafts_occurrence_def same_office_def)

text \<open>Drafting returns at most one new payment, and leaves the state alone when it throws.\<close>

lemma draftOccurrence_err: "draftOccurrence t p wid uid s = (Inl e, u) \<Longrightarrow> u = s"
  by (auto simp: draftOccurrence_def dest: transaction_rollback)

lemma draftOccurrence_ok:
  assumes "draftOccurrence t p wid uid s = (Inr r, u)" and "w \<in> set (wallets s)" and "w_id w = wid"
    and "w_tenantId w = ps_tenantId p"
  shows "same_office s u \<and> paymentSchedules u = paymentSchedules s \<and>
    (\<exists>new. payments u = payments s @ new \<and> length new \<le> 1 \<and> list_all (drafts_occurrence s p) new)"
  using assms
  by (auto simp: draftOccurrence_def withIdempotency_def insertPayment_def tx_ok same_office_def
      scheduled_payment_def blank_payment_def drafts_occurrence_def split: if_splits)

definition advanced :: "int \<Rightarrow> paymentSchedule \<Rightarrow> paymentSchedule list \<Rightarrow> paymentSchedule list" where
  "advanced t p = (let nxt = advanceFrequency (nullish (ps_nextRunAt p) t) (ps_frequency p)
     in update_rows (\<lambda>q. ps_id q = ps_id p)
          (\<lambda>q. q\<lparr>ps_nextRunAt := Some nxt, ps_lastRunAt := Some t,
                 ps_status := (if t < nxt then SC_ACTIVE else SC_COMPLETED)\<rparr>))"

lemma advanceSchedule_run: "advanceSchedule t p s = (Inr (), s\<lparr>paymentSchedules := advanced t p (paymentSchedules s)\<rparr>)"
  by (simp add: advanceSchedule_def advanced_def modify_def Let_def)

lemma dispatchSchedule_run:
  "\<exists>n u new. dispatchSchedule t c p s = (Inr n, u) \<and> same_office s u \<and> payments u = payments s @ new \<and>
     c + length new \<le> n \<and> n \<le> Suc c \<and> list_all (drafts_occurrence s p) new \<and>
     (if dispatchable s p then paymentSchedules u = advanced t p (paymentSchedules s) else u = s \<and> n = c)"
proof (cases "dispatchable s p")
  case False
  then have "find (\<lambda>w. w_tenantId w = ps_tenantId p) (wallets s) = None \<or>
      find (\<lambda>u. us_tenantId u = Some (ps_tenantId p)) (users s) = None"
    by (auto simp: dispatchable_def find_None_iff)
  then have "dispatchSchedule t c p s = (Inr c, s)"
    by (auto simp: dispatchSchedule_def tx_run split: option.splits)
  with False show ?thesis by (simp add: same_office_def)
next
  case True
  then obtain w u where w: "find (\<lambda>w. w_tenantId w = ps_tenantId p) (wallets s) = Some w"
    and u: "find (\<lambda>u. us_tenantId u = Some (ps_tenantId p)) (users s) = Some u"
    by (fastforce simp: dispatchable_def find_None_iff dest: sym)
  from find_SomeD [OF w] have wt: "w \<in> set (wallets s)" "w_tenantId w = ps_tenantId p" by auto
  obtain r v where draft: "draftOccurrence t p (w_id w) (us_id u) s = (r, v)" by fastforce
  show ?thesis
  proof (cases r)
    case (Inl e)
    with draft have "v = s" by (simp add: draftOccurrence_err)
    with Inl draft w u have "dispatchSchedule t c p s = (Inr c, s\<lparr>paymentSchedules := advanced t p (paymentSchedules s)\<rparr>)"
      by (simp add: dispatchSchedule_def tx_run advanceSchedule_run)
    with True show ?thesis by (auto simp: same_office_def)
  next
    case (Inr x)
    with draft w u have run: "dispatchSchedule t c p s = (Inr (c + 1), v\<lparr>paymentSchedules := advanced t p (paymentSchedules v)\<rparr>)"
      by (simp add: dispatchSchedule_def tx_run advanceSchedule_run)
    from draftOccurrence_ok [OF draft [unfolded Inr] wt(1) refl wt(2)] obtain new where
      "same_office s v" "paymentSchedules v = paymentSchedules s" "payments v = payments s @ new" "length new \<le> 1"
      "list_all (drafts_occurrence s p) new" by auto
    with run True show ?thesis by (auto simp: same_office_def)
  qed
qed

text \<open>A row that is due after the loop was due before it and was not touched.\<close>

lemma advanced_due: "q \<in> set (advanced t p ps) \<Longrightarrow> schedule_due t q \<Longrightarrow> q \<in> set ps \<and> ps_id q \<noteq> ps_id p"
proof -
  let ?nxt = "advanceFrequency (nullish (ps_nextRunAt p) t) (ps_frequency p)"
  let ?f = "\<lambda>q. q\<lparr>ps_nextRunAt := Some ?nxt, ps_lastRunAt := Some t, ps_status := (if t < ?nxt then SC_ACTIVE else SC_COMPLETED)\<rparr>"
  have late: "\<not> schedule_due t (?f r)" for r by (simp add: schedule_due_def)
  assume "q \<in> set (advanced t p ps)" and due: "schedule_due t q"
  then obtain r where r: "r \<in> set ps" "q = (if ps_id r = ps_id p then ?f r else r)"
    by (auto simp: advanced_def in_set_update_rows Let_def)
  with due late have "ps_id r \<noteq> ps_id p" by metis
  with r show ?thesis by simp
qed

lemma dispatch_loop:
  "\<exists>n u new. foldM due c (dispatchSchedule t) s = (Inr n, u) \<and> same_office s u \<and> payments u = payments s @ new \<and>
     c + length new \<le> n \<and> n \<le> c + length due \<and>
     list_all (\<lambda>q. \<exists>p \<in> set due. dispatchable s p \<and> drafts_occurrence s p q) new \<and>
     (\<forall>q \<in> set (paymentSchedules u). schedule_due t q \<longrightarrow> q \<in> set (paymentSchedules s) \<and>
        (\<forall>p \<in> set due. dispatchable s p \<longrightarrow> ps_id q \<noteq> ps_id p)) \<and>
     (list_all (\<lambda>p. \<not> dispatchable s p) due \<longrightarrow> u = s \<and> n = c)"
proof (induction due arbitrary: c s)
  case Nil
  show ?case by (simp add: return_def same_office_def)
next
  case (Cons p due)
  from dispatchSchedule_run [of t c p s] obtain n u new where
    run: "dispatchSchedule t c p s = (Inr n, u)" and off: "same_office s u" and pay: "payments u = payments s @ new"
    and n: "c + length new \<le> n" "n \<le> Suc c" and new: "list_all (drafts_occurrence s p) new"
    and sch: "if dispatchable s p then paymentSchedules u = advanced t p (paymentSchedules s) else u = s \<and> n = c"
    by blast
  from Cons.IH [of n u] obtain n' u' new' where
    run': "foldM due n (dispatchSchedule t) u = (Inr n', u')" and off': "same_office u u'"
    and pay': "payments u' = payments u @ new'" and n': "n + length new' \<le> n'" "n' \<le> n + length due"
    and new': "list_all (\<lambda>q. \<exists>p \<in> set due. dispatchable u p \<and> drafts_occurrence u p q) new'"
    and due': "\<forall>q \<in> set (paymentSchedules u'). schedule_due t q \<longrightarrow> q \<in> set (paymentSchedules u) \<and>
        (\<forall>p \<in> set due. dispatchable u p \<longrightarrow> ps_id q \<noteq> ps_id p)"
    and idle: "list_all (\<lambda>p. \<not> dispatchable u p) due \<longrightarrow> u' = u \<and> n' = n"
    by blast
  note cong = dispatchable_cong [OF off] drafts_cong [OF off]
  have fold: "foldM (p # due) c (dispatchSchedule t) s = (Inr n', u')"
    using run run' by (simp add: bind_def)
  have "new = []" if "\<not> dispatchable s p" using that sch pay by simp
  then have all: "list_all (\<lambda>q. \<exists>p \<in> set (p # due). dispatchable s p \<and> drafts_occurrence s p q) (new @ new')"
    using new new' by (cases "dispatchable s p") (auto simp: list_all_iff cong)
  have rows: "q \<in> set (paymentSchedules s) \<and> (\<forall>p \<in> set (p # due). dispatchable s p \<longrightarrow> ps_id q \<noteq> ps_id p)"
    if "q \<in> set (paymentSchedules u')" "schedule_due t q" for q
    using that due' sch advanced_due by (cases "dispatchable s p") (auto simp: cong)
  show ?case
    by (rule exI [of _ n'], rule exI [of _ u'], rule exI [of _ "new @ new'"])
      (use fold same_office_trans [OF off off'] pay pay' n n' all rows idle sch in \<open>auto simp: cong\<close>)
qed


definition demo_schedule :: paymentSchedule where
  "demo_schedule = \<lparr> ps_id = ''s'', ps_tenantId = ''acme'', ps_name = ''Rent'', ps_beneficiaryId = None,
     ps_beneficiarySnapshot = JNull, ps_amountMinor = 500, ps_currency = ''KES'', ps_frequency = ''DAILY'',
     ps_cronExpr = None, ps_startDate = 0, ps_endDate = None, ps_nextRunAt = Some 0, ps_lastRunAt = None,
     ps_status = SC_ACTIVE, ps_channel = ''mpesa'', ps_category = None, ps_createdById = None \<rparr>"


end
