(* ===== verification/Worker_Jobs.thy ===== *)
theory Worker_Jobs
  imports "HOL-Library.Word" Ledger Audit_Log Payment_State Bulk Passwords
begin

text \<open>
  The remaining jobs of services/worker/src/jobs.ts and the virus scanner they use
  (packages/storage/src/clamd.ts): the rows of a batch, the recovery of interrupted batches, file scans,
  report exports and the ledger health check.  The object store, the digest, the connection to the
  scanner and the queue are arguments; log lines are not modelled.
\<close>

section \<open>Batches\<close>

definition getBatchRows :: "string \<Rightarrow> nat option \<Rightarrow> paymentBatchRow list cmd" where
  "getBatchRows batchId limit = gets (\<lambda>s. take (nullish limit 200) (sort_key br_rowNumber
     (filter (\<lambda>r. br_batchId r = batchId \<and> br_status r = RW_VALID) (paymentBatchRows s))))"

definition interrupted :: "db \<Rightarrow> (string \<times> string) list" where
  "interrupted s = take 25 (remdups (map (\<lambda>b. (pb_id b, pb_tenantId b))
     (filter (\<lambda>b. pb_status b = BT_PROCESSING \<and>
        (\<exists>r \<in> set (paymentBatchRows s). br_batchId r = pb_id b \<and> br_status r = RW_VALID)) (paymentBatches s))))"

text \<open>The queue takes a batch or throws, which is ignored; the result counts the ones it took.\<close>

definition resumeInterruptedBatches :: "(string \<Rightarrow> string \<Rightarrow> error option) \<Rightarrow> nat cmd" where
  "resumeInterruptedBatches enqueue = gets (\<lambda>s. length (filter (\<lambda>(b, t). enqueue b t = None) (interrupted s)))"

section \<open>clamd\<close>

type_synonym byte = "8 word"

datatype scan_verdict = CLEAN | INFECTED | SCAN_ERROR

definition word_char :: "char \<Rightarrow> bool" where
  "word_char c \<longleftrightarrow> is_digit c \<or> is_lower c \<or> is_upper c \<or> c = CHR ''_''"

text \<open>\<open>/\bFOUND$/\<close> on the line without NUL characters and surrounding white space.\<close>

definition ends_found :: "string \<Rightarrow> bool" where
  "ends_found line \<longleftrightarrow> drop (length line - 5) line = ''FOUND'' \<and>
     (length line = 5 \<or> \<not> word_char (line ! (length line - 6)))"

definition parseClamdReply :: "string \<Rightarrow> scan_verdict" where
  "parseClamdReply reply = (let line = trim (filter (\<lambda>c. c \<noteq> CHR 0x00) reply)
     in if ends_found line then INFECTED else if line = ''stream: OK'' then CLEAN else SCAN_ERROR)"

text \<open>\<open>writeUInt32BE\<close>.\<close>

definition be32 :: "nat \<Rightarrow> byte list" where
  "be32 n = [word_of_nat (n div 16777216), word_of_nat (n div 65536), word_of_nat (n div 256), word_of_nat n]"

definition command_bytes :: "byte list" where
  "command_bytes = map (\<lambda>c. word_of_nat (of_char c)) (''zINSTREAM'' @ [CHR 0x00])"

text \<open>The loop over the chunks.  With a chunk size of zero the loop of the source would not end; the callers use
  the default of 64 KiB.\<close>

function chunk_frames :: "nat \<Rightarrow> byte list \<Rightarrow> byte list" where
  "chunk_frames n bs = (if bs = [] \<or> n = 0 then []
     else be32 (length (take n bs)) @ take n bs @ chunk_frames n (drop n bs))"
  by pat_completeness auto
termination by (relation "measure (\<lambda>(n, bs). length bs)") auto

declare chunk_frames.simps [simp del]

definition encodeInstream :: "nat \<Rightarrow> byte list \<Rightarrow> byte list" where
  "encodeInstream chunkSize body = command_bytes @ chunk_frames chunkSize body @ be32 0"

text \<open>What the socket brought: a timeout, a connection error, or the text up to a NUL or the end.\<close>

datatype clamd_answer = Clamd_Timeout | Clamd_Refused string | Clamd_Reply string

definition clamdScan :: "(byte list \<Rightarrow> clamd_answer) \<Rightarrow> byte list \<Rightarrow> scan_verdict" where
  "clamdScan clamd body = (case clamd (encodeInstream 65536 body) of
      Clamd_Timeout \<Rightarrow> SCAN_ERROR
    | Clamd_Refused msg \<Rightarrow> SCAN_ERROR
    | Clamd_Reply reply \<Rightarrow> parseClamdReply reply)"

section \<open>files.scan\<close>

record scan_env =
  sn_driver :: string
  sn_get :: "string \<Rightarrow> byte list option"   \<comment> \<open>the object of a key, or a failure of the store\<close>
  sn_sha256 :: "byte list \<Rightarrow> string"
  sn_clamd :: "byte list \<Rightarrow> clamd_answer"

definition clamavScan :: "scan_env \<Rightarrow> string \<Rightarrow> string \<Rightarrow> scan_verdict" where
  "clamavScan env storageKey expectedSha256 = (case sn_get env storageKey of
      None \<Rightarrow> SCAN_ERROR
    | Some body \<Rightarrow>
        if expectedSha256 \<noteq> [] \<and> sn_sha256 env body \<noteq> expectedSha256 then SCAN_ERROR
        else clamdScan (sn_clamd env) body)"

definition mock_infected :: "string \<Rightarrow> bool" where
  "mock_infected filename \<longleftrightarrow> toLowerCase (last (split_on CHR ''.'' filename)) \<in>
     {''php'', ''sh'', ''exe'', ''bat'', ''cmd'', ''js''}"

fun verdict_name :: "scan_verdict \<Rightarrow> string" where
  "verdict_name CLEAN = ''CLEAN''"
| "verdict_name INFECTED = ''INFECTED''"
| "verdict_name SCAN_ERROR = ''ERROR''"

definition scanFile :: "scan_env \<Rightarrow> string \<Rightarrow> scan_verdict cmd" where
  "scanFile env fileId =
     bind (gets (\<lambda>s. find (\<lambda>f. fo_id f = fileId) (fileObjects s))) (\<lambda>file. case file of
       None \<Rightarrow> return SCAN_ERROR
     | Some f \<Rightarrow>
         let result = (if sn_driver env = ''clamav'' then clamavScan env (fo_storageKey f) (fo_checksumSha256 f)
                       else if mock_infected (fo_filename f) then INFECTED else CLEAN)
         in seq (modify (\<lambda>s. s\<lparr>fileObjects := update_rows (\<lambda>x. fo_id x = fo_id f)
                  (\<lambda>x. x\<lparr>fo_scanStatus := verdict_name result\<rparr>) (fileObjects s)\<rparr>))
            (return result))"

section \<open>reports.generate\<close>

definition csv_special :: "char \<Rightarrow> bool" where
  "csv_special c \<longleftrightarrow> c = CHR 34 \<or> c = CHR '','' \<or> c = CHR 10 \<or> c = CHR 13"

definition csvEscape :: "string \<Rightarrow> string" where
  "csvEscape v = (if \<exists>c \<in> set v. csv_special c
     then [CHR 34] @ concat (map (\<lambda>c. if c = CHR 34 then [CHR 34, CHR 34] else [c]) v) @ [CHR 34] else v)"

definition fees_header :: "string list" where
  "fees_header = [''payment_number'', ''beneficiary_name'', ''amount_minor'', ''fee_minor'', ''total_minor'',
     ''channel'', ''status'', ''created_at'']"

definition transactions_header :: "string list" where
  "transactions_header = [''payment_number'', ''beneficiary_name'', ''amount_minor'', ''fee_minor'', ''total_minor'',
     ''channel'', ''status'', ''provider_reference'', ''created_at'', ''updated_at'']"

definition payee_name :: "payment \<Rightarrow> string" where
  "payee_name r = js_string (js_nullish (js_lookup ''name'' (p_beneficiarySnapshot r)) (JString []))"

definition report_row :: "bool \<Rightarrow> payment \<Rightarrow> string" where
  "report_row fees r =
     (let base = [p_paymentNumber r, csvEscape (payee_name r), show_int (p_amountMinor r), show_int (p_feeMinor r),
                  show_int (p_totalMinor r), p_channel r, state_name (p_status r)]
      in join '','' (if fees then base @ [toISOString (p_createdAt r)]
           else base @ [nullish (p_providerReference r) [], toISOString (p_createdAt r), toISOString (p_updatedAt r)]))"

definition report_csv :: "bool \<Rightarrow> payment list \<Rightarrow> string" where
  "report_csv fees ps = join [CHR 10]
     (join '','' (if fees then fees_header else transactions_header) # map (report_row fees) ps)"

text \<open>\<open>put key text\<close> is an error of the store or the reference of the stored object.\<close>

definition updateReport :: "string \<Rightarrow> (report \<Rightarrow> report) \<Rightarrow> unit cmd" where
  "updateReport rid f = modify (\<lambda>s. s\<lparr>reports := update_rows (\<lambda>r. rt_id r = rid) f (reports s)\<rparr>)"

definition generateReport :: "(string \<Rightarrow> string \<Rightarrow> error + string) \<Rightarrow> string \<Rightarrow> jsval \<Rightarrow> unit cmd" where
  "generateReport put reportId payload =
     (let reportType = js_string (js_nullish (js_lookup ''reportType'' payload) (JString ''transactions'')) in
      catch
        (bind (gets (\<lambda>s. find (\<lambda>r. rt_id r = reportId) (reports s))) (\<lambda>row.
         bind (require row (PlainError (''report '' @ reportId @ '' not found''))) (\<lambda>rep.
         bind (gets (\<lambda>s. filter (\<lambda>p. p_tenantId p = rt_tenantId rep) (payments s))) (\<lambda>ps.
         case put (''reports/'' @ reportId @ ''.csv'') (report_csv (reportType = ''fees'') ps) of
           Inl e \<Rightarrow> throw e
         | Inr payloadRef \<Rightarrow>
             bind (gets now) (\<lambda>t. updateReport reportId (\<lambda>r. r\<lparr>rt_status := ''GENERATED'',
               rt_payloadRef := Some payloadRef, rt_rowCount := int (length ps), rt_completedAt := Some t\<rparr>))))))
        (\<lambda>err. bind (gets now) (\<lambda>t.
           seq (updateReport reportId (\<lambda>r. r\<lparr>rt_status := ''FAILED'', rt_completedAt := Some t\<rparr>)) (throw err))))"

section \<open>ledger.health\<close>

definition health_audit :: "tenantLedgerHealth \<Rightarrow> unit cmd" where
  "health_audit r = whenM (\<not> lh_healthy r) (bind fresh_id (\<lambda>aid.
     modify (\<lambda>s. s\<lparr>auditEvents := auditEvents s @
       [auditRow aid (now s) None (Some (lh_tenantId r)) None None ''ledger.health.imbalance'' ''ledger''
          (Some (lh_tenantId r)) JUndefined
          (JObject [(''journalsChecked'', JNumber (int (lh_journalsChecked r))),
                    (''unbalancedJournals'', JNumber (int (lh_unbalancedJournals r))),
                    (''totalDebitMinor'', JString (show_int (lh_totalDebitMinor r))),
                    (''totalCreditMinor'', JString (show_int (lh_totalCreditMinor r)))])]\<rparr>)))"

definition runLedgerHealthCheck :: "string option \<Rightarrow> tenantLedgerHealth list cmd" where
  "runLedgerHealthCheck tenantId =
     bind (checkLedgerHealth tenantId) (\<lambda>results. seq (forEachM results health_audit) (return results))"

section \<open>The scanner fails closed\<close>

text \<open>What a daemon that follows the protocol reads back: frames until an empty one.\<close>

definition be_value :: "byte \<Rightarrow> byte \<Rightarrow> byte \<Rightarrow> byte \<Rightarrow> nat" where
  "be_value a b c d = ((unat a * 256 + unat b) * 256 + unat c) * 256 + unat d"

function read_frames :: "byte list \<Rightarrow> byte list option" where
  "read_frames (a # b # c # d # rest) = (let n = be_value a b c d in
     if n = 0 then Some [] else if length rest < n then None
     else map_option ((@) (take n rest)) (read_frames (drop n rest)))"
| "read_frames [] = None"
| "read_frames [a] = None"
| "read_frames [a, b] = None"
| "read_frames [a, b, c] = None"
  by pat_completeness auto
termination by (relation "measure length") auto

definition decodeInstream :: "byte list \<Rightarrow> byte list option" where
  "decodeInstream bs = (if take 10 bs = command_bytes then read_frames (drop 10 bs) else None)"

lemma be_value_be32: "n < 4294967296 \<Longrightarrow> be32 n = [a, b, c, d] \<Longrightarrow> be_value a b c d = n"
proof -
  assume n: "n < 4294967296" and "be32 n = [a, b, c, d]"
  then have e: "be_value a b c d = ((n div 16777216 mod 256 * 256 + n div 65536 mod 256) * 256 + n div 256 mod 256) * 256 + n mod 256"
    by (auto simp: be32_def be_value_def unat_of_nat)
  have "n div 16777216 < 256" using n by (simp add: less_mult_imp_div_less)
  moreover have "n div 65536 div 256 = n div 16777216" "n div 256 div 256 = n div 65536"
    by (simp_all add: div_mult2_eq [symmetric])
  ultimately have "n div 16777216 mod 256 * 256 + n div 65536 mod 256 = n div 65536"
    using div_mult_mod_eq [of "n div 65536" 256] by simp
  moreover have "n div 65536 * 256 + n div 256 mod 256 = n div 256"
    using div_mult_mod_eq [of "n div 256" 256] \<open>n div 256 div 256 = n div 65536\<close> by simp
  ultimately show ?thesis using e div_mult_mod_eq [of n 256] by simp
qed

lemma be32_cases: "\<exists>a b c d. be32 n = [a, b, c, d]"
  by (simp add: be32_def)

lemma read_frame:
  assumes "length bs < 4294967296" and "bs \<noteq> []"
  shows "read_frames (be32 (length bs) @ bs @ rest) = map_option ((@) bs) (read_frames rest)"
proof -
  obtain a b c d where "be32 (length bs) = [a, b, c, d]" using be32_cases by blast
  with be_value_be32 [OF assms(1) this] assms(2) show ?thesis by (simp add: Let_def)
qed

lemma read_end: "read_frames (be32 0) = Some []"
  by (simp add: be32_def be_value_def)

lemma read_chunks: "0 < n \<Longrightarrow> n < 4294967296 \<Longrightarrow> read_frames (chunk_frames n bs @ be32 0) = Some bs"
proof (induction n bs rule: chunk_frames.induct)
  case (1 n bs)
  show ?case
  proof (cases "bs = []")
    case True
    then show ?thesis by (simp add: chunk_frames.simps [of n "[]"] read_end)
  next
    case False
    have "length (take n bs) < 4294967296" "take n bs \<noteq> []" using 1 False by auto
    moreover have "read_frames (chunk_frames n (drop n bs) @ be32 0) = Some (drop n bs)" using 1 False by blast
    ultimately show ?thesis
      using 1 False read_frame [of "take n bs" "chunk_frames n (drop n bs) @ be32 0"]
      by (simp add: chunk_frames.simps [of n bs])
  qed
qed

lemma length_command_bytes: "length command_bytes = 10"
  by (simp add: command_bytes_def)

lemma instream_round_trip: "0 < n \<Longrightarrow> n < 4294967296 \<Longrightarrow> decodeInstream (encodeInstream n body) = Some body"
  by (simp add: decodeInstream_def encodeInstream_def length_command_bytes read_chunks)

text \<open>C34.  The virus scan fails closed.  With the \<open>clamav\<close> driver a file is reported clean, and so marked, only if
  its object could be read, has the recorded checksum, and the daemon, given a stream that frames exactly
  these bytes, answered \<open>stream: OK\<close>; every other outcome, an unknown file included, is an infection or an
  error.\<close>

theorem scan_fails_closed:
  assumes "sn_driver env = ''clamav''"
  shows "fst (scanFile env fid s) = Inr CLEAN \<longleftrightarrow>
    (\<exists>f body reply. find (\<lambda>f. fo_id f = fid) (fileObjects s) = Some f \<and> sn_get env (fo_storageKey f) = Some body \<and>
       (fo_checksumSha256 f = [] \<or> sn_sha256 env body = fo_checksumSha256 f) \<and>
       (\<exists>sent. decodeInstream sent = Some body \<and> sent = encodeInstream 65536 body \<and>
          sn_clamd env sent = Clamd_Reply reply) \<and>
       trim (filter (\<lambda>c. c \<noteq> CHR 0x00) reply) = ''stream: OK'')"
proof -
  have ok: "parseClamdReply r = CLEAN \<longleftrightarrow> trim (filter (\<lambda>c. c \<noteq> CHR 0x00) r) = ''stream: OK''" for r
    by (auto simp: parseClamdReply_def Let_def ends_found_def)
  have clamd: "clamdScan c body = CLEAN \<longleftrightarrow> (\<exists>reply. c (encodeInstream 65536 body) = Clamd_Reply reply \<and>
      trim (filter (\<lambda>c. c \<noteq> CHR 0x00) reply) = ''stream: OK'')" for c body
    by (simp add: clamdScan_def ok split: clamd_answer.splits)
  have scan: "clamavScan env k e = CLEAN \<longleftrightarrow> (\<exists>body. sn_get env k = Some body \<and> (e = [] \<or> sn_sha256 env body = e) \<and>
      clamdScan (sn_clamd env) body = CLEAN)" for k e
    by (simp add: clamavScan_def split: option.splits)
  have trip: "decodeInstream (encodeInstream 65536 body) = Some body" for body by (simp add: instream_round_trip)
  show ?thesis
  proof (cases "find (\<lambda>f. fo_id f = fid) (fileObjects s)")
    case None
    then show ?thesis by (simp add: scanFile_def tx_run)
  next
    case (Some f)
    then have "fst (scanFile env fid s) = Inr CLEAN \<longleftrightarrow> clamavScan env (fo_storageKey f) (fo_checksumSha256 f) = CLEAN"
      using assms by (simp add: scanFile_def tx_run Let_def)
    with Some show ?thesis by (auto simp: scan clamd trip)
  qed
qed

definition demo_scanner :: scan_env where
  "demo_scanner = \<lparr> sn_driver = ''clamav'', sn_get = (\<lambda>k. Some [0x50, 0x4b]), sn_sha256 = (\<lambda>b. ''sum''),
     sn_clamd = (\<lambda>b. Clamd_Reply (''stream: OK'' @ [CHR 0x00])) \<rparr>"

definition demo_files :: db where
  "demo_files = (empty_db unary_id 0)\<lparr>fileObjects := [\<lparr> fo_id = ''f'', fo_filename = ''a.zip'', fo_storageKey = ''k'',
     fo_checksumSha256 = ''sum'', fo_scanStatus = ''PENDING'' \<rparr>]\<rparr>"

theorem scan_fails_closed_witness:
  "fst (scanFile demo_scanner ''f'' demo_files) = Inr CLEAN \<and> fst (scanFile demo_scanner ''g'' demo_files) \<noteq> Inr CLEAN"
proof -
  have d: "sn_driver demo_scanner = ''clamav''" by (simp add: demo_scanner_def)
  have t: "decodeInstream (encodeInstream 65536 b) = Some b" for b by (simp add: instream_round_trip)
  have "trim ''stream: OK'' = ''stream: OK''" by code_simp
  then have "fst (scanFile demo_scanner ''f'' demo_files) = Inr CLEAN"
    unfolding scan_fails_closed [OF d] by (simp add: demo_files_def demo_scanner_def t)
  moreover have "fst (scanFile demo_scanner ''g'' demo_files) \<noteq> Inr CLEAN"
    unfolding scan_fails_closed [OF d] by (simp add: demo_files_def)
  ultimately show ?thesis ..
qed

text \<open>A field of the export reads back as the value it was written from.\<close>

fun quoted_field :: "string \<Rightarrow> string \<times> string" where
  "quoted_field [] = ([], [])"
| "quoted_field (c # s) = (if c = CHR 34 then
     (case s of d # r \<Rightarrow> if d = CHR 34 then apfst ((#) c) (quoted_field r) else ([], s) | [] \<Rightarrow> ([], []))
     else apfst ((#) c) (quoted_field s))"

definition csv_field :: "string \<Rightarrow> string \<times> string" where
  "csv_field s = (case s of c # r \<Rightarrow> if c = CHR 34 then quoted_field r
       else (takeWhile (\<lambda>c. \<not> csv_special c) s, dropWhile (\<lambda>c. \<not> csv_special c) s)
     | [] \<Rightarrow> ([], []))"

lemma quoted_field_round_trip:
  "rest = [] \<or> hd rest \<noteq> CHR 34 \<Longrightarrow>
   quoted_field (concat (map (\<lambda>c. if c = CHR 34 then [CHR 34, CHR 34] else [c]) v) @ CHR 34 # rest) = (v, rest)"
  by (induction v) (auto split: list.splits)

lemma csv_round_trip:
  assumes "rest = [] \<or> hd rest = CHR '','' \<or> hd rest = CHR 10"
  shows "csv_field (csvEscape v @ rest) = (v, rest)"
proof (cases "\<exists>c \<in> set v. csv_special c")
  case True
  with assms quoted_field_round_trip [of rest v] show ?thesis by (auto simp: csvEscape_def csv_field_def)
next
  case False
  then have plain: "takeWhile (\<lambda>c. \<not> csv_special c) v = v" by simp
  from assms have "rest = [] \<or> csv_special (hd rest)" by (auto simp: csv_special_def)
  then have "takeWhile (\<lambda>c. \<not> csv_special c) (v @ rest) = v" "dropWhile (\<lambda>c. \<not> csv_special c) (v @ rest) = rest"
    using False by (cases rest; auto simp: takeWhile_append dropWhile_append)+
  moreover have "hd v \<noteq> CHR 34" if "v \<noteq> []" using that False by (cases v) (auto simp: csv_special_def)
  moreover have "hd rest \<noteq> CHR 34" if "rest \<noteq> []" using assms that by auto
  ultimately show ?thesis using False by (cases "v @ rest"; cases v) (auto simp: csvEscape_def csv_field_def)
qed

end
