(* ===== verification/Etims.thy ===== *)
theory Etims
  imports Tax Collections Passwords
begin

text \<open>
  packages/etims/src/service.ts and payload.ts: fiscal documents and their submission to the tax
  authority.  The client of the authority (client.ts, HTTP) is an argument, a record of functions from
  requests to answers; \<open>createEtimsClient\<close>, which may refuse, is the argument's error.  In the request
  payload an amount or quantity is the decimal text the source converts to a number.
\<close>

section \<open>Clients\<close>

record deviceIdentity =
  di_tin :: string
  di_bhfId :: string
  di_deviceSerial :: string
  di_cmcKey :: "string option"

record initResult =
  in_cmcKey :: string
  in_sdcId :: string
  in_mrcNo :: string
  in_taxpayerName :: "string option"

record saleSignature =
  sg_rcptNo :: int
  sg_totRcptNo :: int
  sg_intrlData :: string
  sg_rcptSign :: string
  sg_sdcId :: string
  sg_mrcNo :: string
  sg_raw :: jsval

record etimsClient =
  ec_driver :: string
  ec_environment :: string
  ec_initialise :: "deviceIdentity \<Rightarrow> error + initResult"
  ec_saveSale :: "deviceIdentity \<Rightarrow> jsval \<Rightarrow> error + saleSignature"

definition lift :: "error + 'a \<Rightarrow> 'a cmd" where
  "lift v = (case v of Inl e \<Rightarrow> throw e | Inr x \<Rightarrow> return x)"

section \<open>The request of the authority\<close>

definition PAYMENT_TYPE_CREDIT :: string where "PAYMENT_TYPE_CREDIT = ''02''"
definition PAYMENT_TYPE_MOBILE_MONEY :: string where "PAYMENT_TYPE_MOBILE_MONEY = ''06''"
definition PAYMENT_TYPE_OTHER :: string where "PAYMENT_TYPE_OTHER = ''07''"

definition kraDateTime :: "int \<Rightarrow> string" where
  "kraDateTime t = (let eat = t + 3 * 3600000; ms = eat mod 86400000
     in case civil_from_days (eat div 86400000) of (y, m, d) \<Rightarrow>
        show_int y @ pad_int 2 m @ pad_int 2 d @ pad_int 2 (ms div 3600000) @
        pad_int 2 (ms div 60000 mod 60) @ pad_int 2 (ms div 1000 mod 60))"

definition kraDate :: "int \<Rightarrow> string" where
  "kraDate t = take 8 (kraDateTime t)"

definition kes_text :: "int \<Rightarrow> string" where
  "kes_text m = (if m < 0 then ''-'' else []) @ show_int (\<bar>m\<bar> div 100) @ ''.'' @ pad_int 2 (\<bar>m\<bar> mod 100)"

text \<open>\<open>minorToKes(v)\<close> and \<open>milliToQty(v)\<close> on a stored text; \<open>BigInt\<close> throws on one that is not a number.\<close>

definition is_bigint :: "jsval \<Rightarrow> bool" where
  "is_bigint v \<longleftrightarrow> bigint_of_string (js_string v) \<noteq> None"

definition bigint_of :: "jsval \<Rightarrow> int" where
  "bigint_of v = (case bigint_of_string (js_string v) of None \<Rightarrow> 0 | Some m \<Rightarrow> m)"

definition minorToKes :: "jsval \<Rightarrow> jsval" where
  "minorToKes v = JString (kes_text (bigint_of v))"

definition milliToQty :: "jsval \<Rightarrow> jsval" where
  "milliToQty v = JString (milliToQty_string (bigint_of v))"

definition bucket_amount :: "string \<Rightarrow> jsval \<Rightarrow> string \<Rightarrow> jsval" where
  "bucket_amount field summary t = js_nullish (js_lookup field (js_lookup t summary)) (JString ''0'')"

definition tax_fields :: "jsval \<Rightarrow> (string \<times> jsval) list" where
  "tax_fields summary = concat (map (\<lambda>t.
     [(''taxblAmt'' @ t, minorToKes (bucket_amount ''taxableMinor'' summary t)),
      (''taxRt'' @ t, JNumber (TAX_RATES t)),
      (''taxAmt'' @ t, minorToKes (bucket_amount ''taxMinor'' summary t))]) TAX_TYPES)"

definition line_amounts :: "string list" where
  "line_amounts = [''qtyMilli'', ''supplyMinor'', ''unitPriceMinor'', ''discountMinor'', ''taxableMinor'', ''taxMinor'', ''totalMinor'']"

definition item_json :: "jsval \<Rightarrow> jsval" where
  "item_json l = JObject
     [(''itemSeq'', js_lookup ''seq'' l), (''itemCd'', js_lookup ''itemCode'' l),
      (''itemClsCd'', js_lookup ''itemClassCode'' l), (''itemNm'', js_lookup ''description'' l), (''bcd'', JNull),
      (''pkgUnitCd'', JString ''NT''), (''pkg'', milliToQty (js_lookup ''qtyMilli'' l)),
      (''qtyUnitCd'', js_lookup ''unitCode'' l), (''qty'', milliToQty (js_lookup ''qtyMilli'' l)),
      (''prc'', minorToKes (if bigint_of (js_lookup ''supplyMinor'' l) = 0 then JString ''0'' else js_lookup ''unitPriceMinor'' l)),
      (''splyAmt'', minorToKes (js_lookup ''supplyMinor'' l)), (''dcRt'', JNumber 0),
      (''dcAmt'', minorToKes (js_lookup ''discountMinor'' l)), (''isrccCd'', JNull), (''isrccNm'', JNull),
      (''isrcRt'', JNull), (''isrcAmt'', JNull), (''taxTyCd'', js_lookup ''taxType'' l),
      (''taxblAmt'', minorToKes (js_lookup ''taxableMinor'' l)), (''taxAmt'', minorToKes (js_lookup ''taxMinor'' l)),
      (''totAmt'', minorToKes (js_lookup ''totalMinor'' l))]"

definition js_or_null :: "string option \<Rightarrow> jsval" where
  "js_or_null v = (case v of None \<Rightarrow> JNull | Some x \<Rightarrow> JString x)"

definition lines_of :: "jsval \<Rightarrow> jsval list" where
  "lines_of v = (case v of JArray ls \<Rightarrow> ls | _ \<Rightarrow> [])"

text \<open>Every amount of the stored lines and buckets is a number.\<close>

definition payload_ok :: "etimsDocument \<Rightarrow> bool" where
  "payload_ok doc \<longleftrightarrow>
     list_all (\<lambda>l. list_all (\<lambda>k. is_bigint (js_lookup k l)) line_amounts) (lines_of (ed_lines doc)) \<and>
     list_all (\<lambda>t. is_bigint (bucket_amount ''taxableMinor'' (ed_taxSummary doc) t) \<and>
                   is_bigint (bucket_amount ''taxMinor'' (ed_taxSummary doc) t)) TAX_TYPES"

definition buildSalesPayload ::
  "string \<Rightarrow> string \<Rightarrow> etimsDocument \<Rightarrow> int \<Rightarrow> int option \<Rightarrow> int \<Rightarrow> string \<Rightarrow> string option \<Rightarrow> jsval" where
  "buildSalesPayload tin bhfId doc invoiceNo originalInvoiceNo issuedAt actorName tradeName =
     (let dt = kraDateTime issuedAt; credit = (ed_docType doc = ''CREDIT_NOTE'');
          regId = take 20 (nullish (ed_createdById doc) ''zfloat''); regName = take 60 actorName in JObject (
      [(''tin'', JString tin), (''bhfId'', JString bhfId), (''trdInvcNo'', JString (ed_number doc)),
       (''invcNo'', JNumber invoiceNo), (''orgInvcNo'', JNumber (nullish originalInvoiceNo 0)),
       (''custTin'', js_or_null (ed_customerKraPin doc)), (''custNm'', js_or_null (ed_customerName doc)),
       (''salesTyCd'', JString ''N''), (''rcptTyCd'', JString (if credit then ''R'' else ''S'')),
       (''pmtTyCd'', JString (nullish (ed_paymentMethod doc) PAYMENT_TYPE_MOBILE_MONEY)),
       (''salesSttsCd'', JString ''02''), (''cfmDt'', JString dt), (''salesDt'', JString (take 8 dt)),
       (''stockRlsDt'', JString dt), (''cnclReqDt'', JNull), (''cnclDt'', JNull),
       (''rfdDt'', if credit then JString dt else JNull), (''rfdRsnCd'', if credit then JString ''06'' else JNull),
       (''totItemCnt'', JNumber (int (length (lines_of (ed_lines doc)))))] @
      tax_fields (ed_taxSummary doc) @
      [(''totTaxblAmt'', JString (kes_text (ed_totalMinor doc))), (''totTaxAmt'', JString (kes_text (ed_taxMinor doc))),
       (''totAmt'', JString (kes_text (ed_totalMinor doc))), (''prchrAcptcYn'', JString ''N''),
       (''remark'', js_or_null (ed_notes doc)), (''regrId'', JString regId), (''regrNm'', JString regName),
       (''modrId'', JString regId), (''modrNm'', JString regName),
       (''receipt'', JObject
         [(''custTin'', js_or_null (ed_customerKraPin doc)), (''custMblNo'', js_or_null (ed_customerPhone doc)),
          (''rptNo'', JNull), (''rcptPbctDt'', JString dt), (''trdeNm'', js_or_null tradeName), (''adrs'', JNull),
          (''topMsg'', JNull), (''btmMsg'', JString ''Powered by Z-float''), (''prchrAcptcYn'', JString ''N'')]),
       (''itemList'', JArray (map item_json (lines_of (ed_lines doc))))]))"

text \<open>\<open>encodeURIComponent\<close> on one-byte characters.\<close>

definition uri_unreserved :: "char \<Rightarrow> bool" where
  "uri_unreserved c \<longleftrightarrow> is_digit c \<or> is_lower c \<or> is_upper c \<or> c \<in> set (''-_.!~*()'' @ [CHR 39])"

definition encodeURIComponent :: "string \<Rightarrow> string" where
  "encodeURIComponent s = concat (map (\<lambda>c. if uri_unreserved c then [c] else ''%'' @ toUpperCase (to_hex [of_char c])) s)"

definition buildVerificationUrl :: "string \<Rightarrow> string \<Rightarrow> string \<Rightarrow> string \<Rightarrow> string" where
  "buildVerificationUrl environment tin bhfId rcptSign =
     (if environment = ''production'' then ''https://etims.kra.go.ke'' else ''https://etims-sbx.kra.go.ke'') @
     ''/common/link/etims/receipt/indexEtimsReceiptData?Data='' @ encodeURIComponent (tin @ bhfId @ rcptSign)"

section \<open>Devices\<close>

record deviceView =
  vw_id :: string
  vw_kraPin :: string
  vw_branchId :: string
  vw_deviceSerial :: string
  vw_driver :: string
  vw_status :: string
  vw_sdcId :: "string option"
  vw_mrcNo :: "string option"
  vw_taxpayerName :: "string option"
  vw_lastInvoiceNo :: int
  vw_autoReceipt :: bool
  vw_defaultTaxType :: string
  vw_lastError :: "string option"
  vw_initialisedAt :: "int option"

definition toDeviceView :: "etimsDevice \<Rightarrow> deviceView" where
  "toDeviceView d = \<lparr> vw_id = dv_id d, vw_kraPin = dv_kraPin d, vw_branchId = dv_branchId d,
     vw_deviceSerial = dv_deviceSerial d, vw_driver = dv_driver d, vw_status = dv_status d, vw_sdcId = dv_sdcId d,
     vw_mrcNo = dv_mrcNo d, vw_taxpayerName = dv_taxpayerName d, vw_lastInvoiceNo = dv_lastInvoiceNo d,
     vw_autoReceipt = dv_autoReceipt d, vw_defaultTaxType = dv_defaultTaxType d, vw_lastError = dv_lastError d,
     vw_initialisedAt = dv_initialisedAt d \<rparr>"

definition find_device :: "string \<Rightarrow> string \<Rightarrow> db \<Rightarrow> etimsDevice option" where
  "find_device tenantId branchId s = find (\<lambda>d. dv_tenantId d = tenantId \<and> dv_branchId d = branchId) (etimsDevices s)"

definition getDevice :: "string \<Rightarrow> string \<Rightarrow> deviceView option cmd" where
  "getDevice tenantId branchId = gets (\<lambda>s. map_option toDeviceView (find_device tenantId branchId s))"

record configureDeviceInput =
  cf_tenantId :: string
  cf_kraPin :: string
  cf_branchId :: "string option"
  cf_deviceSerial :: string
  cf_autoReceipt :: "bool option"
  cf_defaultTaxType :: "string option"

definition updateDevice :: "string \<Rightarrow> (etimsDevice \<Rightarrow> etimsDevice) \<Rightarrow> unit cmd" where
  "updateDevice did f = modify (\<lambda>s. s\<lparr>etimsDevices := update_rows (\<lambda>d. dv_id d = did) f (etimsDevices s)\<rparr>)"

definition tax_type_ok :: "string option \<Rightarrow> bool" where
  "tax_type_ok v \<longleftrightarrow> \<not> truthy v \<or> isTaxType (the v)"

text \<open>The insert with its conflict clause on the tenant and branch: a pending device.\<close>

definition upsertDevice :: "configureDeviceInput \<Rightarrow> string \<Rightarrow> string \<Rightarrow> string cmd" where
  "upsertDevice input branchId driver =
     bind fresh_id (\<lambda>nid.
     bind (gets (find_device (cf_tenantId input) branchId)) (\<lambda>old. case old of
       Some d \<Rightarrow> seq (updateDevice (dv_id d) (\<lambda>d. d\<lparr>dv_kraPin := cf_kraPin input, dv_deviceSerial := cf_deviceSerial input,
           dv_driver := driver, dv_status := ''PENDING'', dv_autoReceipt := nullish (cf_autoReceipt input) (dv_autoReceipt d),
           dv_defaultTaxType := (if truthy (cf_defaultTaxType input) then the (cf_defaultTaxType input) else dv_defaultTaxType d)\<rparr>))
         (return (dv_id d))
     | None \<Rightarrow> seq (modify (\<lambda>s. s\<lparr>etimsDevices := etimsDevices s @
           [\<lparr> dv_id = nid, dv_tenantId = cf_tenantId input, dv_kraPin = cf_kraPin input, dv_branchId = branchId,
              dv_deviceSerial = cf_deviceSerial input, dv_driver = driver, dv_status = ''PENDING'',
              dv_cmcKeyEncrypted = None, dv_sdcId = None, dv_mrcNo = None, dv_taxpayerName = None, dv_lastInvoiceNo = 0,
              dv_autoReceipt = nullish (cf_autoReceipt input) True, dv_defaultTaxType = nullish (cf_defaultTaxType input) ''B'',
              dv_lastError = None, dv_initialisedAt = None \<rparr>]\<rparr>))
         (return nid)))"

definition some_nonempty :: "string \<Rightarrow> string option" where
  "some_nonempty s = (if s = [] then None else Some s)"

text \<open>The answer of the initialisation, with the initialisation vector of the encrypted key.\<close>

definition activateDevice :: "crypto \<Rightarrow> nat list \<Rightarrow> configureDeviceInput \<Rightarrow> string \<Rightarrow> initResult \<Rightarrow> deviceView cmd" where
  "activateDevice cr iv input did init =
     bind (gets now) (\<lambda>t.
     seq (updateDevice did (\<lambda>d. d\<lparr>dv_status := ''ACTIVE'', dv_cmcKeyEncrypted := Some (encryptSecret cr iv (in_cmcKey init)),
            dv_sdcId := some_nonempty (in_sdcId init), dv_mrcNo := some_nonempty (in_mrcNo init),
            dv_taxpayerName := in_taxpayerName init, dv_lastError := None, dv_initialisedAt := Some t\<rparr>))
     (bind (gets (\<lambda>s. find (\<lambda>d. dv_id d = did) (etimsDevices s))) (\<lambda>updated.
      seq (modify (\<lambda>s. s\<lparr>tenants := update_rows (\<lambda>x. tn_id x = cf_tenantId input \<and> tn_kraPin x = None)
             (\<lambda>x. x\<lparr>tn_kraPin := Some (cf_kraPin input)\<rparr>) (tenants s)\<rparr>))
      (bind (require updated (PlainError ''Cannot read properties of undefined'')) (\<lambda>d. return (toDeviceView d))))))"

definition configureDevice :: "crypto \<Rightarrow> nat list \<Rightarrow> error + etimsClient \<Rightarrow> configureDeviceInput \<Rightarrow> deviceView cmd" where
  "configureDevice cr iv client input =
     bind (lift client) (\<lambda>client.
     let branchId = take 2 (padStart 2 CHR ''0'' (nullish (cf_branchId input) ''00''))
     in seq (guard (tax_type_ok (cf_defaultTaxType input)) (EtimsServiceError ''Unknown tax type'' ''INVALID_TAX_TYPE''))
        (bind (upsertDevice input branchId (ec_driver client)) (\<lambda>did.
         catch (bind (lift (ec_initialise client \<lparr> di_tin = cf_kraPin input, di_bhfId = branchId,
                        di_deviceSerial = cf_deviceSerial input, di_cmcKey = None \<rparr>))
                  (activateDevice cr iv input did))
           (\<lambda>err. seq (updateDevice did (\<lambda>d. d\<lparr>dv_status := ''FAILED'', dv_lastError := Some (error_message err)\<rparr>))
                    (throw err)))))"

definition updateDeviceSettings :: "string \<Rightarrow> string option \<Rightarrow> bool option \<Rightarrow> string option \<Rightarrow> deviceView option cmd" where
  "updateDeviceSettings tenantId branchId autoReceipt defaultTaxType =
     seq (guard (tax_type_ok defaultTaxType) (EtimsServiceError ''Unknown tax type'' ''INVALID_TAX_TYPE''))
     (bind (gets (find_device tenantId (nullish branchId ''00''))) (\<lambda>row. case row of
        None \<Rightarrow> return None
      | Some d0 \<Rightarrow>
          let f = (\<lambda>d. d\<lparr>dv_autoReceipt := nullish autoReceipt (dv_autoReceipt d),
                 dv_defaultTaxType := (if truthy defaultTaxType then the defaultTaxType else dv_defaultTaxType d)\<rparr>)
          in seq (updateDevice (dv_id d0) f) (return (Some (toDeviceView (f d0))))))"

end
