(* ===== verification/Etims_Documents.thy ===== *)
theory Etims_Documents
  imports Etims
begin

text \<open>
  The documents of packages/etims/src/service.ts: creation, fiscalisation, credit notes, receipts of
  collections and the retry sweep, with the triggers and indexes of custom-migrations 019 on the table.
\<close>

section \<open>The table\<close>

text \<open>The columns a signed document must keep (trigger \<open>etims_documents_signed_immutable\<close>).  The unique index on
  device and invoice number is not checked: Etims_History shows that the numbers never collide.\<close>

definition fiscal_columns where
  "fiscal_columns d = (ed_status d, ed_lines d, ed_totalMinor d, ed_taxMinor d, ed_subtotalMinor d, ed_customerKraPin d,
     ed_customerName d, ed_receiptSignature d, ed_internalData d, ed_cuInvoiceNo d, ed_invoiceNo d, ed_number d)"

definition updateDocument :: "string \<Rightarrow> (etimsDocument \<Rightarrow> etimsDocument) \<Rightarrow> unit cmd" where
  "updateDocument did f = bind (gets (\<lambda>s. list_all (\<lambda>d. ed_id d = did \<and> ed_status d = ''SIGNED'' \<longrightarrow>
         fiscal_columns (f d) = fiscal_columns d) (etimsDocuments s))) (\<lambda>ok.
     seq (guard ok (DbTrigger ''etims_documents_signed_immutable''))
     (modify (\<lambda>s. s\<lparr>etimsDocuments := update_rows (\<lambda>d. ed_id d = did) (\<lambda>d. (f d)\<lparr>ed_updatedAt := now s\<rparr>)
        (etimsDocuments s)\<rparr>)))"

definition blank_document :: "string \<Rightarrow> string \<Rightarrow> string \<Rightarrow> etimsDocument" where
  "blank_document tenantId docType number =
     \<lparr> ed_id = [], ed_tenantId = tenantId, ed_deviceId = None, ed_docType = docType, ed_number = number,
       ed_invoiceNo = None, ed_originalDocumentId = None, ed_status = ''DRAFT'', ed_paymentStatus = ''UNPAID'',
       ed_customerId = None, ed_customerName = None, ed_customerPhone = None, ed_customerEmail = None,
       ed_customerKraPin = None, ed_customerIdType = None, ed_customerIdNumber = None, ed_lines = JNull,
       ed_taxSummary = JNull, ed_subtotalMinor = 0, ed_taxMinor = 0, ed_totalMinor = 0, ed_paidMinor = 0,
       ed_paymentMethod = None, ed_dueAt = None, ed_notes = None, ed_collectionId = None, ed_cuInvoiceNo = None,
       ed_receiptNo = None, ed_totalReceiptNo = None, ed_internalData = None, ed_receiptSignature = None,
       ed_sdcId = None, ed_mrcNo = None, ed_signedAt = None, ed_verificationUrl = None, ed_sandbox = True,
       ed_submissionAttempts = 0, ed_lastError = None, ed_requestPayload = JNull, ed_responsePayload = JNull,
       ed_publicToken = None, ed_createdById = None, ed_updatedAt = 0 \<rparr>"

definition generatePublicToken :: "string cmd" where
  "generatePublicToken = bind fresh_id (\<lambda>rand. return (''doc_'' @ take 16 rand))"

text \<open>An insert with a fresh id and public token, under the unique indexes on the tenant's number and on the
  token.\<close>

definition insertDocument :: "etimsDocument \<Rightarrow> etimsDocument cmd" where
  "insertDocument d =
     bind generatePublicToken (\<lambda>token.
     bind fresh_id (\<lambda>did.
     bind (gets now) (\<lambda>t.
     bind (gets (\<lambda>s. (ed_tenantId d, ed_number d) \<in> (\<lambda>x. (ed_tenantId x, ed_number x)) ` set (etimsDocuments s))) (\<lambda>dupNumber.
     seq (guard (\<not> dupNumber) (DbUnique ''etims_documents_tenant_number_uidx''))
     (bind (gets (\<lambda>s. Some token \<in> ed_publicToken ` set (etimsDocuments s))) (\<lambda>dupToken.
      seq (guard (\<not> dupToken) (DbUnique ''etims_documents_public_token_uidx''))
      (let row = d\<lparr>ed_id := did, ed_publicToken := Some token, ed_updatedAt := t\<rparr>
       in seq (modify (\<lambda>s. s\<lparr>etimsDocuments := etimsDocuments s @ [row]\<rparr>)) (return row))))))))"

section \<open>Numbers\<close>

definition PREFIX :: "string \<Rightarrow> string" where
  "PREFIX docType = (if docType = ''INVOICE'' then ''INV'' else if docType = ''RECEIPT'' then ''RCT''
     else if docType = ''CREDIT_NOTE'' then ''CRN'' else ''PRC'')"

text \<open>\<open>SUBSTRING(number FROM '[0-9]+$')\<close>.\<close>

definition trailing_digits :: "string \<Rightarrow> string" where
  "trailing_digits n = rev (takeWhile is_digit (rev n))"

definition max_number :: "string \<Rightarrow> string \<Rightarrow> db \<Rightarrow> nat" where
  "max_number tenantId docType s = foldl max 0 (map (\<lambda>d. digits_val (trailing_digits (ed_number d)))
     (filter (\<lambda>d. ed_tenantId d = tenantId \<and> ed_docType d = docType) (etimsDocuments s)))"

definition document_number :: "string \<Rightarrow> nat \<Rightarrow> string" where
  "document_number docType n = PREFIX docType @ ''-'' @ padStart 6 CHR ''0'' (show_nat n)"

definition nextNumber :: "string \<Rightarrow> string \<Rightarrow> string cmd" where
  "nextNumber tenantId docType = gets (\<lambda>s. document_number docType (max_number tenantId docType s + 1))"

section \<open>createDocument\<close>

record documentCustomer =
  dc_customerId :: "string option"
  dc_name :: "string option"
  dc_phone :: "string option"
  dc_email :: "string option"
  dc_kraPin :: "string option"
  dc_idType :: "string option"
  dc_idNumber :: "string option"

record createDocumentInput =
  cdi_tenantId :: string
  cdi_actorId :: "string option"
  cdi_docType :: string
  cdi_customer :: "documentCustomer option"
  cdi_lines :: "lineInput list"
  cdi_pricesIncludeTax :: bool
  cdi_paymentMethod :: "string option"
  cdi_dueAt :: "int option"
  cdi_notes :: "string option"
  cdi_collectionId :: "string option"

definition big :: "int \<Rightarrow> jsval" where
  "big n = JString (show_int n)"

definition line_json :: "computedLine \<Rightarrow> jsval" where
  "line_json l = JObject
     [(''seq'', JNumber (int (cl_seq l))), (''description'', JString (cl_description l)), (''qtyMilli'', big (cl_qtyMilli l)),
      (''unitPriceMinor'', big (cl_unitPriceMinor l)), (''discountMinor'', big (cl_discountMinor l)),
      (''taxType'', JString (cl_taxType l)), (''taxRate'', big (cl_taxRate l)), (''supplyMinor'', big (cl_supplyMinor l)),
      (''taxableMinor'', big (cl_taxableMinor l)), (''taxMinor'', big (cl_taxMinor l)), (''totalMinor'', big (cl_totalMinor l)),
      (''netMinor'', big (cl_netMinor l)), (''itemCode'', JString (cl_itemCode l)),
      (''itemClassCode'', JString (cl_itemClassCode l)), (''unitCode'', JString (cl_unitCode l))]"

definition summary_json :: "(string \<times> taxBucket) list \<Rightarrow> jsval" where
  "summary_json bs = JObject (map (\<lambda>(t, b). (t, JObject [(''rate'', big (tb_rate b)),
     (''taxableMinor'', big (tb_taxableMinor b)), (''taxMinor'', big (tb_taxMinor b))])) bs)"

definition with_computed :: "computedDocument \<Rightarrow> etimsDocument \<Rightarrow> etimsDocument" where
  "with_computed c d = d\<lparr> ed_lines := JArray (map line_json (cd_lines c)), ed_taxSummary := summary_json (cd_taxSummary c),
     ed_subtotalMinor := cd_subtotalMinor c, ed_taxMinor := cd_taxMinor c, ed_totalMinor := cd_totalMinor c \<rparr>"

definition new_document :: "createDocumentInput \<Rightarrow> computedDocument \<Rightarrow> string \<Rightarrow> etimsDocument" where
  "new_document input c number = (let receipt = (cdi_docType input = ''RECEIPT''); cust = cdi_customer input in
     (with_computed c (blank_document (cdi_tenantId input) (cdi_docType input) number))
       \<lparr> ed_paymentStatus := (if receipt then ''PAID'' else ''UNPAID''),
         ed_customerId := Option.bind cust dc_customerId, ed_customerName := Option.bind cust dc_name,
         ed_customerPhone := Option.bind cust dc_phone, ed_customerEmail := Option.bind cust dc_email,
         ed_customerKraPin := Option.bind cust dc_kraPin, ed_customerIdType := Option.bind cust dc_idType,
         ed_customerIdNumber := Option.bind cust dc_idNumber,
         ed_paidMinor := (if receipt then cd_totalMinor c else 0),
         ed_paymentMethod := Some (nullish (cdi_paymentMethod input)
            (if receipt then PAYMENT_TYPE_MOBILE_MONEY else PAYMENT_TYPE_CREDIT)),
         ed_dueAt := cdi_dueAt input, ed_notes := cdi_notes input, ed_collectionId := cdi_collectionId input,
         ed_createdById := cdi_actorId input \<rparr>)"

definition createDocument :: "createDocumentInput \<Rightarrow> etimsDocument cmd" where
  "createDocument input =
     bind (lift (computeDocument (cdi_lines input) (cdi_pricesIncludeTax input))) (\<lambda>computed.
     transaction (bind (nextNumber (cdi_tenantId input) (cdi_docType input)) (\<lambda>number.
       insertDocument (new_document input computed number))))"

definition loadDocForTenant :: "string \<Rightarrow> string \<Rightarrow> etimsDocument cmd" where
  "loadDocForTenant tenantId did =
     bind (gets (\<lambda>s. find (\<lambda>d. ed_id d = did \<and> ed_tenantId d = tenantId) (etimsDocuments s))) (\<lambda>row.
     require row (EtimsServiceError ''Document not found'' ''NOT_FOUND''))"

definition emitOutbox :: "string \<Rightarrow> string \<Rightarrow> string \<Rightarrow> jsval \<Rightarrow> unit cmd" where
  "emitOutbox eventType tenantId aggregateId payload =
     bind (enqueueOutbox eventType ''etims_document'' aggregateId (Some tenantId) payload) (\<lambda>_. return ())"

section \<open>fiscaliseDocument\<close>

datatype prepared = Done etimsDocument | Submit jsval deviceIdentity

definition not_initialised :: error where
  "not_initialised = EtimsError (''eTIMS is not set up for this business '' @ em_dash @
     '' configure your KRA PIN and device first'') ''DEVICE_NOT_INITIALISED'' False"

text \<open>The invoice number of the document: the one it has, or the next of the device.\<close>

definition allocateInvoiceNo :: "etimsDocument \<Rightarrow> etimsDevice \<Rightarrow> int cmd" where
  "allocateInvoiceNo doc device = (case ed_invoiceNo doc of
      Some n \<Rightarrow> return n
    | None \<Rightarrow> let n = dv_lastInvoiceNo device + 1
        in seq (updateDevice (dv_id device) (\<lambda>d. d\<lparr>dv_lastInvoiceNo := n\<rparr>)) (return n))"

definition original_no :: "etimsDocument \<Rightarrow> db \<Rightarrow> int option" where
  "original_no doc s = (if ed_docType doc = ''CREDIT_NOTE'' \<and> truthy (ed_originalDocumentId doc)
     then Option.bind (find (\<lambda>d. ed_id d = the (ed_originalDocumentId doc)) (etimsDocuments s)) ed_invoiceNo
     else None)"

definition bad_number :: error where "bad_number = PlainError ''Cannot convert value to a BigInt''"

definition prepareSubmission :: "crypto \<Rightarrow> string \<Rightarrow> string \<Rightarrow> string option \<Rightarrow> prepared cmd" where
  "prepareSubmission cr tenantId documentId actorName =
     bind (gets (\<lambda>s. find (\<lambda>d. ed_id d = documentId \<and> ed_tenantId d = tenantId) (etimsDocuments s))) (\<lambda>row.
     bind (require row (EtimsServiceError ''Document not found'' ''NOT_FOUND'')) (\<lambda>doc.
     if ed_status doc = ''SIGNED'' then return (Done doc) else
     seq (guard (ed_docType doc \<noteq> ''PAYMENT_RECEIPT'') (EtimsServiceError ''Payment receipts are not fiscal documents'' ''NOT_FISCAL''))
     (seq (guard (ed_status doc \<noteq> ''CANCELLED'') (EtimsServiceError ''Cancelled documents cannot be fiscalised'' ''CANCELLED''))
     (bind (gets (find_device tenantId ''00'')) (\<lambda>dev.
      bind (require dev not_initialised) (\<lambda>device.
      seq (guard (dv_status device = ''ACTIVE'' \<and> truthy (dv_cmcKeyEncrypted device)) not_initialised)
      (bind (allocateInvoiceNo doc device) (\<lambda>invoiceNo.
       bind (gets (original_no doc)) (\<lambda>originalInvoiceNo.
       bind (gets (\<lambda>s. map_option tn_name (find (\<lambda>x. tn_id x = tenantId) (tenants s)))) (\<lambda>tradeName.
       bind (gets now) (\<lambda>t.
       seq (guard (payload_ok doc) bad_number)
       (let payload = buildSalesPayload (dv_kraPin device) (dv_branchId device) doc invoiceNo originalInvoiceNo t
              (nullish actorName ''Z-float'') tradeName
        in seq (updateDocument (ed_id doc) (\<lambda>d. d\<lparr>ed_status := ''QUEUED'', ed_invoiceNo := Some invoiceNo,
                  ed_deviceId := Some (dv_id device), ed_requestPayload := to_jsonb payload,
                  ed_submissionAttempts := ed_submissionAttempts doc + 1\<rparr>))
           (bind (lift (decryptSecret cr (the (dv_cmcKeyEncrypted device)))) (\<lambda>key.
            return (Submit payload \<lparr> di_tin = dv_kraPin device, di_bhfId = dv_branchId device,
              di_deviceSerial = dv_deviceSerial device, di_cmcKey = Some key \<rparr>)))))))))))))))"

definition signed_by :: "etimsClient \<Rightarrow> deviceIdentity \<Rightarrow> saleSignature \<Rightarrow> int \<Rightarrow> etimsDocument \<Rightarrow> etimsDocument" where
  "signed_by client device sig t d = d\<lparr>ed_status := ''SIGNED'', ed_receiptNo := Some (sg_rcptNo sig),
     ed_totalReceiptNo := Some (sg_totRcptNo sig), ed_internalData := Some (sg_intrlData sig),
     ed_receiptSignature := Some (sg_rcptSign sig), ed_sdcId := some_nonempty (sg_sdcId sig),
     ed_mrcNo := some_nonempty (sg_mrcNo sig),
     ed_cuInvoiceNo := Some (sg_sdcId sig @ ''/'' @ show_int (sg_rcptNo sig)), ed_signedAt := Some t,
     ed_verificationUrl := Some (buildVerificationUrl (ec_environment client) (di_tin device) (di_bhfId device) (sg_rcptSign sig)),
     ed_sandbox := (ec_driver client = ''sandbox''), ed_lastError := None,
     ed_responsePayload := to_jsonb (sg_raw sig)\<rparr>"

text \<open>\<open>row!\<close>: reading a column of a missing row is a type error.\<close>

definition signDocument :: "etimsClient \<Rightarrow> string \<Rightarrow> string \<Rightarrow> deviceIdentity \<Rightarrow> saleSignature \<Rightarrow> etimsDocument cmd" where
  "signDocument client tenantId documentId device sig = transaction
     (bind (gets now) (\<lambda>t.
      seq (updateDocument documentId (signed_by client device sig t))
      (bind (gets (\<lambda>s. find (\<lambda>d. ed_id d = documentId) (etimsDocuments s))) (\<lambda>row.
       bind (require row (PlainError ''Cannot read properties of undefined'')) (\<lambda>d.
       seq (emitOutbox ''invoice.fiscalised'' tenantId documentId (JObject
              [(''documentId'', JString documentId), (''number'', JString (ed_number d)), (''docType'', JString (ed_docType d)),
               (''cuInvoiceNo'', js_or_null (ed_cuInvoiceNo d)), (''totalMinor'', big (ed_totalMinor d)),
               (''sandbox'', JBool (ed_sandbox d))]))
           (return d))))))"

definition retryable :: "error \<Rightarrow> bool" where
  "retryable err = (case err of EtimsError m c r \<Rightarrow> r | _ \<Rightarrow> True)"

definition recordFailure_of :: "string \<Rightarrow> error \<Rightarrow> unit cmd" where
  "recordFailure_of documentId err = updateDocument documentId (\<lambda>d.
     d\<lparr>ed_status := (if retryable err then ''QUEUED'' else ''FAILED''), ed_lastError := Some (error_message err)\<rparr>)"

definition fiscaliseDocument ::
  "crypto \<Rightarrow> error + etimsClient \<Rightarrow> string \<Rightarrow> string \<Rightarrow> string option \<Rightarrow> etimsDocument cmd" where
  "fiscaliseDocument cr client tenantId documentId actorName =
     bind (lift client) (\<lambda>client.
     bind (transaction (prepareSubmission cr tenantId documentId actorName)) (\<lambda>p. case p of
       Done doc \<Rightarrow> return doc
     | Submit payload device \<Rightarrow>
         catch (bind (lift (ec_saveSale client device payload)) (signDocument client tenantId documentId device))
           (\<lambda>err. seq (recordFailure_of documentId err) (throw err))))"

definition requestFiscalisation :: "string \<Rightarrow> string \<Rightarrow> unit cmd" where
  "requestFiscalisation tenantId documentId =
     emitOutbox ''etims.fiscalise_requested'' tenantId documentId (JObject [(''documentId'', JString documentId)])"

section \<open>Credit notes\<close>

definition credit_note :: "etimsDocument \<Rightarrow> string option \<Rightarrow> string \<Rightarrow> string \<Rightarrow> etimsDocument" where
  "credit_note o_doc actorId reason number = (blank_document (ed_tenantId o_doc) ''CREDIT_NOTE'' number)
     \<lparr> ed_originalDocumentId := Some (ed_id o_doc), ed_paymentStatus := ''N/A'', ed_customerId := ed_customerId o_doc,
       ed_customerName := ed_customerName o_doc, ed_customerPhone := ed_customerPhone o_doc,
       ed_customerEmail := ed_customerEmail o_doc, ed_customerKraPin := ed_customerKraPin o_doc,
       ed_customerIdType := ed_customerIdType o_doc, ed_customerIdNumber := ed_customerIdNumber o_doc,
       ed_lines := ed_lines o_doc, ed_taxSummary := ed_taxSummary o_doc, ed_subtotalMinor := ed_subtotalMinor o_doc,
       ed_taxMinor := ed_taxMinor o_doc, ed_totalMinor := ed_totalMinor o_doc, ed_paymentMethod := ed_paymentMethod o_doc,
       ed_notes := Some (take 500 (''Credit note for '' @ ed_number o_doc @ '': '' @ reason)), ed_createdById := actorId \<rparr>"

text \<open>\<open>limit(1)\<close> without an order: the check looks at one credit note of the original, the first row here.\<close>

definition createCreditNote :: "string \<Rightarrow> string option \<Rightarrow> string \<Rightarrow> string \<Rightarrow> etimsDocument cmd" where
  "createCreditNote tenantId actorId originalDocumentId reason =
     bind (loadDocForTenant tenantId originalDocumentId) (\<lambda>original.
     seq (guard (ed_status original = ''SIGNED'' \<and> ed_docType original \<in> {''INVOICE'', ''RECEIPT''})
            (EtimsServiceError ''Only signed invoices or receipts can be credited'' ''NOT_CREDITABLE''))
     (transaction
       (bind (gets (\<lambda>s. find (\<lambda>d. ed_originalDocumentId d = Some (ed_id original) \<and> ed_docType d = ''CREDIT_NOTE'')
                 (etimsDocuments s))) (\<lambda>existing.
        seq (guard (case existing of None \<Rightarrow> True | Some e \<Rightarrow> ed_status e \<in> {''FAILED'', ''CANCELLED''})
               (EtimsServiceError ''This document already has a credit note'' ''ALREADY_CREDITED''))
        (bind (nextNumber tenantId ''CREDIT_NOTE'') (\<lambda>number.
         insertDocument ((credit_note original actorId reason number)\<lparr>ed_tenantId := tenantId\<rparr>)))))))"

section \<open>Receipts of collections\<close>

definition CHANNEL_PAYMENT_TYPE :: "string \<Rightarrow> string" where
  "CHANNEL_PAYMENT_TYPE channel = (if channel \<in> {''MPESA_STK'', ''MPESA_C2B'', ''PAYMENT_LINK''}
     then PAYMENT_TYPE_MOBILE_MONEY else PAYMENT_TYPE_OTHER)"

text \<open>The columns both kinds of receipt take from the collection.\<close>

definition receipt_of :: "collection \<Rightarrow> string \<Rightarrow> string \<Rightarrow> etimsDocument" where
  "receipt_of col docType number = (blank_document (co_tenantId col) docType number)
     \<lparr> ed_customerId := co_customerId col, ed_customerName := co_payerName col, ed_customerPhone := co_payerPhone col,
       ed_customerKraPin := co_payerKraPin col, ed_customerIdType := co_payerIdType col,
       ed_customerIdNumber := co_payerIdNumber col, ed_paymentMethod := Some (CHANNEL_PAYMENT_TYPE (co_channel col)),
       ed_collectionId := Some (co_id col),
       ed_notes := (if truthy (co_receiptNumber col) then Some (''Provider receipt '' @ the (co_receiptNumber col)) else None) \<rparr>"

definition zero_summary :: jsval where
  "zero_summary = JObject (map (\<lambda>t. (t, JObject [(''rate'', big (TAX_RATES t)), (''taxableMinor'', JString ''0''),
     (''taxMinor'', JString ''0'')])) TAX_TYPES)"

definition payment_receipt :: "collection \<Rightarrow> etimsDocument option \<Rightarrow> etimsDevice \<Rightarrow> int \<Rightarrow> string \<Rightarrow> etimsDocument" where
  "payment_receipt col invoice device t number =
     (let text = ''Payment received for '' @ (case invoice of None \<Rightarrow> ''invoice'' | Some i \<Rightarrow> ed_number i) @
            (case Option.bind invoice ed_cuInvoiceNo of None \<Rightarrow> [] | Some cu \<Rightarrow> if cu = [] then [] else '' (CU '' @ cu @ '')'')
      in (receipt_of col ''PAYMENT_RECEIPT'' number)
       \<lparr> ed_originalDocumentId := co_invoiceId col, ed_status := ''ISSUED'', ed_paymentStatus := ''N/A'',
         ed_customerName := orelse (co_payerName col) (Option.bind invoice ed_customerName),
         ed_customerKraPin := orelse (co_payerKraPin col) (Option.bind invoice ed_customerKraPin),
         ed_lines := JArray [JObject [(''seq'', JNumber 1), (''description'', JString text), (''qtyMilli'', JString ''1000''),
            (''unitPriceMinor'', big (co_amountMinor col)), (''totalMinor'', big (co_amountMinor col))]],
         ed_taxSummary := zero_summary, ed_subtotalMinor := co_amountMinor col, ed_taxMinor := 0,
         ed_totalMinor := co_amountMinor col, ed_paidMinor := co_amountMinor col,
         ed_sandbox := (dv_driver device = ''sandbox''), ed_signedAt := Some t \<rparr>)"

definition sale_receipt :: "collection \<Rightarrow> computedDocument \<Rightarrow> string \<Rightarrow> etimsDocument" where
  "sale_receipt col c number = (with_computed c (receipt_of col ''RECEIPT'' number))
     \<lparr> ed_paymentStatus := ''PAID'', ed_paidMinor := cd_totalMinor c \<rparr>"

definition receipt_line :: "collection \<Rightarrow> string \<Rightarrow> lineInput" where
  "receipt_line col taxType = \<lparr>
     li_description = Some (take 200 (if truthy (co_description col) then the (co_description col)
        else ''Payment '' @ nullish (co_accountReference col) (co_collectionNumber col))),
     li_qtyMilli = 1000, li_unitPriceMinor = co_amountMinor col, li_discountMinor = None, li_taxType = taxType,
     li_itemCode = None, li_itemClassCode = None, li_unitCode = None \<rparr>"

definition linkReceipt :: "string \<Rightarrow> string \<Rightarrow> unit cmd" where
  "linkReceipt cid did = bind (updateCollection cid (\<lambda>c. c\<lparr>co_receiptId := Some did\<rparr>)) (\<lambda>_. return ())"

text \<open>The transaction: the document and whether it has to be fiscalised, or nothing.\<close>

definition createReceipt :: "string \<Rightarrow> (etimsDocument \<times> bool) option cmd" where
  "createReceipt collectionId =
     bind (gets (\<lambda>s. find (\<lambda>c. co_id c = collectionId) (collections s))) (\<lambda>row. case row of None \<Rightarrow> return None | Some col \<Rightarrow>
     if co_status col \<noteq> CO_SUCCESS then return None
     else if truthy (co_receiptId col) then
       gets (\<lambda>s. map_option (\<lambda>d. (d, False)) (find (\<lambda>d. ed_id d = the (co_receiptId col)) (etimsDocuments s)))
     else bind (gets (find_device (co_tenantId col) ''00'')) (\<lambda>dev. case dev of None \<Rightarrow> return None | Some device \<Rightarrow>
       if dv_status device \<noteq> ''ACTIVE'' \<or> \<not> dv_autoReceipt device then return None
       else if truthy (co_invoiceId col) then
         bind (gets (\<lambda>s. find (\<lambda>d. ed_id d = the (co_invoiceId col)) (etimsDocuments s))) (\<lambda>invoice.
         bind (nextNumber (co_tenantId col) ''PAYMENT_RECEIPT'') (\<lambda>number.
         bind (gets now) (\<lambda>t.
         bind (insertDocument (payment_receipt col invoice device t number)) (\<lambda>doc.
         seq (linkReceipt (co_id col) (ed_id doc)) (return (Some (doc, False)))))))
       else
         let taxType = (if isTaxType (dv_defaultTaxType device) then dv_defaultTaxType device else ''B'') in
         bind (lift (computeDocument [receipt_line col taxType] True)) (\<lambda>computed.
         bind (nextNumber (co_tenantId col) ''RECEIPT'') (\<lambda>number.
         bind (insertDocument (sale_receipt col computed number)) (\<lambda>doc.
         seq (linkReceipt (co_id col) (ed_id doc)) (return (Some (doc, True))))))))"

definition issueReceiptForCollection :: "crypto \<Rightarrow> error + etimsClient \<Rightarrow> string \<Rightarrow> etimsDocument option cmd" where
  "issueReceiptForCollection cr client collectionId =
     bind (transaction (createReceipt collectionId)) (\<lambda>created. case created of None \<Rightarrow> return None | Some (doc, fiscal) \<Rightarrow>
     if \<not> fiscal \<or> ed_status doc = ''SIGNED'' then return (Some doc)
     else catch (bind (fiscaliseDocument cr client (ed_tenantId doc) (ed_id doc) None) (\<lambda>d. return (Some d)))
       (\<lambda>err. seq (whenM (retryable err) (requestFiscalisation (ed_tenantId doc) (ed_id doc)))
          (bind (loadDocForTenant (ed_tenantId doc) (ed_id doc)) (\<lambda>d. return (Some d)))))"

definition getDocument :: "string \<Rightarrow> string \<Rightarrow> etimsDocument option cmd" where
  "getDocument tenantId did = catch (bind (loadDocForTenant tenantId did) (\<lambda>d. return (Some d))) (\<lambda>_. return None)"

definition getDocumentByToken :: "string \<Rightarrow> etimsDocument option cmd" where
  "getDocumentByToken token = gets (\<lambda>s. find (\<lambda>d. ed_publicToken d = Some token) (etimsDocuments s))"

section \<open>The retry sweep\<close>

definition retry_due :: "int option \<Rightarrow> int option \<Rightarrow> db \<Rightarrow> etimsDocument \<Rightarrow> bool" where
  "retry_due olderThanMs maxAttempts s d \<longleftrightarrow> ed_status d = ''QUEUED'' \<and>
     ed_updatedAt d < now s - nullish olderThanMs 60000 \<and> ed_submissionAttempts d < nullish maxAttempts 10"

text \<open>The triple \<open>{ scanned, signed, failed }\<close>.\<close>

definition retryQueuedDocuments ::
  "crypto \<Rightarrow> error + etimsClient \<Rightarrow> nat option \<Rightarrow> int option \<Rightarrow> int option \<Rightarrow> (nat \<times> nat \<times> nat) cmd" where
  "retryQueuedDocuments cr client limit olderThanMs maxAttempts =
     bind (gets (\<lambda>s. take (nullish limit 25) (filter (retry_due olderThanMs maxAttempts s) (etimsDocuments s)))) (\<lambda>rows.
     bind (foldM rows (0, 0) (\<lambda>acc r.
       catch (bind (fiscaliseDocument cr client (ed_tenantId r) (ed_id r) None) (\<lambda>_. return (fst acc + 1, snd acc)))
         (\<lambda>_. return (fst acc, snd acc + 1)))) (\<lambda>n.
     return (length rows, fst n, snd n)))"

end
