(* ===== verification/Etims_Invariants.thy ===== *)
theory Etims_Invariants
  imports Etims_Documents
begin

text \<open>
  What every command of the fiscal documents keeps: the invoice numbers of a device are used without gaps and
  without repetition, and a signed document keeps its fiscal columns.
\<close>

section \<open>The invariant\<close>

text \<open>The columns of documents and devices the numbering depends on.\<close>

definition num_key :: "etimsDocument \<Rightarrow> string \<times> string \<times> string option \<times> int option" where
  "num_key d = (ed_id d, ed_tenantId d, ed_deviceId d, ed_invoiceNo d)"

definition dev_key :: "etimsDevice \<Rightarrow> string \<times> string \<times> string \<times> int" where
  "dev_key v = (dv_id v, dv_tenantId v, dv_branchId v, dv_lastInvoiceNo v)"

text \<open>The counter of a device and its documents.\<close>

definition numbers_of :: "string \<Rightarrow> (string \<times> string \<times> string option \<times> int option) list \<Rightarrow> (string \<times> int) set" where
  "numbers_of v ds = {(i, n). \<exists>t. (i, t, Some v, Some n) \<in> set ds}"

definition numbered :: "(string \<times> string \<times> string option \<times> int option) list \<Rightarrow> (string \<times> string \<times> string \<times> int) list \<Rightarrow> bool" where
  "numbered ds vs \<longleftrightarrow>
     distinct (map fst ds) \<and> distinct (map fst vs) \<and> distinct (map (\<lambda>(i, t, b, l). (t, b)) vs) \<and>
     (\<forall>(i, t, v, n) \<in> set ds. \<forall>m. n = Some m \<longrightarrow> (\<exists>w l. v = Some w \<and> (w, t, ''00'', l) \<in> set vs)) \<and>
     (\<forall>(v, t, b, l) \<in> set vs. 0 \<le> l \<and> snd ` numbers_of v ds = {1..l} \<and> inj_on snd (numbers_of v ds))"

lemma numbered_device_range:
  assumes "numbered ds vs" and "(v, t, b, l) \<in> set vs"
  shows "0 \<le> l" and "snd ` numbers_of v ds = {1..l}" and "inj_on snd (numbers_of v ds)"
proof -
  have "case (v, t, b, l) of (v, t, b, l) \<Rightarrow> 0 \<le> l \<and> snd ` numbers_of v ds = {1..l} \<and> inj_on snd (numbers_of v ds)"
    using assms unfolding numbered_def by blast
  then show "0 \<le> l" and "snd ` numbers_of v ds = {1..l}" and "inj_on snd (numbers_of v ds)" by simp_all
qed

lemma numbered_home:
  assumes "numbered ds vs" and "(i, t, v, Some m) \<in> set ds"
  obtains w l where "v = Some w" and "(w, t, ''00'', l) \<in> set vs"
proof -
  have "case (i, t, v, Some m) of (i, t, v, n) \<Rightarrow> \<forall>m. n = Some m \<longrightarrow> (\<exists>w l. v = Some w \<and> (w, t, ''00'', l) \<in> set vs)"
    using assms unfolding numbered_def by blast
  with that show ?thesis by auto
qed

definition etims_inv :: "db \<Rightarrow> bool" where
  "etims_inv s \<longleftrightarrow> uuids_distinct s \<and> ed_id ` set (etimsDocuments s) \<subseteq> used_ids s \<and>
     dv_id ` set (etimsDevices s) \<subseteq> used_ids s \<and>
     numbered (map num_key (etimsDocuments s)) (map dev_key (etimsDevices s))"

lemma ids_of_keys: "ed_id ` set ds = fst ` set (map num_key ds)" "dv_id ` set vs = fst ` set (map dev_key vs)"
  by (simp_all add: num_key_def dev_key_def image_image)

lemma etims_inv_frame:
  assumes "etims_inv s" and "map num_key (etimsDocuments t) = map num_key (etimsDocuments s)"
    and "map dev_key (etimsDevices t) = map dev_key (etimsDevices s)"
    and "uuid_gen t = uuid_gen s" and "uuid_next s \<le> uuid_next t"
  shows "etims_inv t"
proof -
  have "used_ids s \<subseteq> used_ids t" using assms(4,5) by (auto simp: used_ids_def)
  moreover have "ed_id ` set (etimsDocuments t) = ed_id ` set (etimsDocuments s)"
    "dv_id ` set (etimsDevices t) = dv_id ` set (etimsDevices s)"
    unfolding ids_of_keys assms(2,3) by (rule refl)+
  ultimately show ?thesis using assms unfolding etims_inv_def by (auto simp: uuids_distinct_def)
qed

text \<open>One rule per change of the tables.\<close>

lemma etims_modify [preserved]:
  assumes "\<And>s. map num_key (etimsDocuments (f s)) = map num_key (etimsDocuments s) \<and>
    map dev_key (etimsDevices (f s)) = map dev_key (etimsDevices s) \<and>
    uuid_gen (f s) = uuid_gen s \<and> uuid_next (f s) = uuid_next s"
  shows "preserves etims_inv (modify f)"
  by (rule preserves_modify) (metis assms etims_inv_frame order_refl)

lemma etims_fresh_id [preserved]: "preserves etims_inv fresh_id"
  by (rule preservesI) (auto simp: fresh_id_def elim!: etims_inv_frame)

lemma etims_updateDocument [preserved]:
  assumes "\<And>d. ed_id d = did \<Longrightarrow> num_key (f d) = num_key d"
  shows "preserves etims_inv (updateDocument did f)"
proof -
  have "num_key ((f d)\<lparr>ed_updatedAt := x\<rparr>) = num_key (f d)" for d x by (simp add: num_key_def)
  with assms show ?thesis unfolding updateDocument_def by (intro preserved) (simp add: update_rows_def)
qed

lemma etims_updateDevice [preserved]:
  assumes "\<And>v. dev_key (f v) = dev_key v"
  shows "preserves etims_inv (updateDevice did f)"
  unfolding updateDevice_def by (intro preserved) (simp add: assms)

lemma numbered_add_document:
  assumes "numbered ds vs" and "i \<notin> fst ` set ds"
  shows "numbered (ds @ [(i, t, v, None)]) vs"
proof -
  have "numbers_of w (ds @ [(i, t, v, None)]) = numbers_of w ds" for w by (auto simp: numbers_of_def)
  with assms show ?thesis unfolding numbered_def by (auto simp: image_iff)
qed

lemma numbered_add_device:
  assumes "numbered ds vs" and "v \<notin> fst ` set vs" and "(t, b) \<notin> (\<lambda>(i, t, b, l). (t, b)) ` set vs"
  shows "numbered ds (vs @ [(v, t, b, 0)])"
proof -
  have "numbers_of v ds = {}"
    using assms(1,2) unfolding numbered_def numbers_of_def by (force simp: image_iff)
  with assms show ?thesis unfolding numbered_def by (fastforce simp: image_iff)
qed

lemma etims_insertDocument [preserved]:
  assumes "ed_invoiceNo d = None"
  shows "preserves etims_inv (insertDocument d)"
proof (rule preservesI)
  fix s r t
  assume inv: "etims_inv s" and run: "insertDocument d s = (r, t)"
  let ?u = "s\<lparr>uuid_next := Suc (uuid_next s)\<rparr>"
  let ?v = "s\<lparr>uuid_next := Suc (Suc (uuid_next s))\<rparr>"
  have v: "etims_inv ?v" by (rule etims_inv_frame [OF inv]) simp_all
  let ?id = "uuid_gen s (uuid_next ?u)"
  have "t = ?v \<or> (\<exists>tok n. t = ?v\<lparr>etimsDocuments := etimsDocuments s @ [d\<lparr>ed_id := ?id, ed_publicToken := tok, ed_updatedAt := n\<rparr>]\<rparr>)"
    using run by (cases r) (auto simp: insertDocument_def generatePublicToken_def tx_ok tx_err Let_def)
  then show "etims_inv t"
  proof (elim disjE exE)
    fix tok n
    assume t: "t = ?v\<lparr>etimsDocuments := etimsDocuments s @ [d\<lparr>ed_id := ?id, ed_publicToken := tok, ed_updatedAt := n\<rparr>]\<rparr>"
    have u: "etims_inv ?u" by (rule etims_inv_frame [OF inv]) simp_all
    then have new: "?id \<notin> ed_id ` set (etimsDocuments s)"
      using fresh_not_used [of ?u] by (auto simp: etims_inv_def)
    have "?id \<in> used_ids ?v" by (auto simp: used_ids_def)
    moreover have "numbered (map num_key (etimsDocuments s) @ [(?id, ed_tenantId d, ed_deviceId d, None)]) (map dev_key (etimsDevices s))"
      using inv new by (intro numbered_add_document) (auto simp: etims_inv_def num_key_def)
    ultimately show ?thesis using v assms unfolding t etims_inv_def
      by (simp add: num_key_def used_ids_def uuids_distinct_def)
  qed (use v in simp)
qed

lemma etims_upsertDevice [preserved]: "preserves etims_inv (upsertDevice input branchId driver)"
proof (rule preservesI)
  fix s r t
  assume inv: "etims_inv s" and run: "upsertDevice input branchId driver s = (r, t)"
  let ?u = "s\<lparr>uuid_next := Suc (uuid_next s)\<rparr>"
  let ?id = "uuid_gen s (uuid_next s)"
  have u: "etims_inv ?u" by (rule etims_inv_frame [OF inv]) simp_all
  show "etims_inv t"
  proof (cases "find_device (cf_tenantId input) branchId ?u")
    case (Some d)
    with run have "map dev_key (etimsDevices t) = map dev_key (etimsDevices ?u)" "etimsDocuments t = etimsDocuments ?u"
      "uuid_gen t = uuid_gen ?u" "uuid_next t = uuid_next ?u"
      by (auto simp: upsertDevice_def updateDevice_def tx_run fresh_id_def find_device_def dev_key_def)
    then show ?thesis by (intro etims_inv_frame [OF u]) simp_all
  next
    case None
    then have fresh: "(cf_tenantId input, branchId) \<notin> (\<lambda>(i, t, b, l). (t, b)) ` set (map dev_key (etimsDevices s))"
      by (auto simp: find_device_def find_None_iff dev_key_def)
    have new: "?id \<notin> dv_id ` set (etimsDevices s)"
      using inv fresh_not_used [of s] by (auto simp: etims_inv_def)
    from None run obtain v where t: "t = ?u\<lparr>etimsDevices := etimsDevices s @ [v]\<rparr>"
      and key: "dev_key v = (?id, cf_tenantId input, branchId, 0)" "dv_id v = ?id"
      by (auto simp: upsertDevice_def tx_run fresh_id_def find_device_def dev_key_def)
    have "numbered (map num_key (etimsDocuments s)) (map dev_key (etimsDevices s) @ [(?id, cf_tenantId input, branchId, 0)])"
      using inv new fresh by (intro numbered_add_device) (auto simp: etims_inv_def dev_key_def)
    with u key show ?thesis unfolding t etims_inv_def by (auto simp: used_ids_def uuids_distinct_def)
  qed
qed

section \<open>Submission\<close>

text \<open>Allocation and the update of the document together keep the numbering: the document has a number of this
  device already, or gets the next one.\<close>

lemma numbered_device:
  assumes "numbered ds vs" and "(i, t, v, Some n) \<in> set ds" and "(w, t, ''00'', l) \<in> set vs"
  shows "v = Some w"
proof -
  from numbered_home [OF assms(1,2)] obtain w' l' where w': "v = Some w'" "(w', t, ''00'', l') \<in> set vs" .
  have "distinct (map (\<lambda>(i, t, b, l). (t, b)) vs)" using assms(1) by (simp add: numbered_def)
  from distinct_key_eq [OF this w'(2) assms(3)] w'(1) show ?thesis by simp
qed

lemma numbered_allocate:
  assumes n: "numbered ds vs" and d: "(i, t, v, None) \<in> set ds" and w: "(w, t, ''00'', l) \<in> set vs"
  shows "numbered (map (\<lambda>x. if fst x = i then (i, t, Some w, Some (l + 1)) else x) ds)
     (map (\<lambda>x. if fst x = w then (w, t, ''00'', l + 1) else x) vs)"
    (is "numbered ?ds ?vs")
proof -
  have dist: "distinct (map fst ds)" "distinct (map fst vs)" "distinct (map (\<lambda>(i, t, b, l). (t, b)) vs)"
    using n by (simp_all add: numbered_def)
  have di: "x = (i, t, v, None)" if "x \<in> set ds" "fst x = i" for x
    using distinct_key_eq [OF dist(1) that(1) d] that(2) by simp
  have wi: "x = (w, t, ''00'', l)" if "x \<in> set vs" "fst x = w" for x
    using distinct_key_eq [OF dist(2) that(1) w] that(2) by simp
  have in_ds: "x \<in> set ?ds \<longleftrightarrow> x = (i, t, Some w, Some (l + 1)) \<or> (x \<in> set ds \<and> fst x \<noteq> i)" for x
    using d by force
  have in_vs: "x \<in> set ?vs \<longleftrightarrow> x = (w, t, ''00'', l + 1) \<or> (x \<in> set vs \<and> fst x \<noteq> w)" for x
    using w by force
  have fst_ds: "map fst ?ds = map fst ds" by simp
  have fst_vs: "map fst ?vs = map fst vs" by simp
  have tb: "map (\<lambda>(i, t, b, l). (t, b)) ?vs = map (\<lambda>(i, t, b, l). (t, b)) vs"
    using wi by (auto intro!: map_cong)
  have nd: "(i, x, y, Some m) \<notin> set ds" for x y m using di [of "(i, x, y, Some m)"] by auto
  have same: "numbers_of u ?ds = numbers_of u ds" if "u \<noteq> w" for u
    unfolding numbers_of_def in_ds using that nd by auto
  have more: "numbers_of w ?ds = insert (i, l + 1) (numbers_of w ds)"
    unfolding numbers_of_def in_ds using nd by auto
  have range: "0 \<le> l" "snd ` numbers_of w ds = {1..l}" "inj_on snd (numbers_of w ds)"
    by (rule numbered_device_range [OF n w])+
  have step: "snd ` numbers_of w ?ds = {1..l + 1}" "inj_on snd (numbers_of w ?ds)"
  proof -
    have "l + 1 \<notin> snd ` numbers_of w ds" unfolding range(2) by simp
    then have "snd (i, l + 1) \<notin> snd ` (numbers_of w ds - {(i, l + 1)})" by force
    with range show "inj_on snd (numbers_of w ?ds)" unfolding more by (simp only: inj_on_insert) simp
    show "snd ` numbers_of w ?ds = {1..l + 1}" unfolding more image_insert range(2) using range(1) by auto
  qed
  have home: "\<exists>w' l'. x = Some w' \<and> (w', t', ''00'', l') \<in> set ?vs" if x: "(i', t', x, Some m) \<in> set ?ds" for i' t' x m
  proof (cases "(i', t', x, Some m) = (i, t, Some w, Some (l + 1))")
    case True
    then show ?thesis unfolding in_vs by blast
  next
    case False
    with x [unfolded in_ds] have "(i', t', x, Some m) \<in> set ds" by blast
    from numbered_home [OF n this] obtain w' l' where w': "x = Some w'" "(w', t', ''00'', l') \<in> set vs" .
    show ?thesis
    proof (cases "w' = w")
      case True
      with wi [OF w'(2)] w'(1) show ?thesis unfolding in_vs by auto
    next
      case False
      with w' show ?thesis unfolding in_vs by auto
    qed
  qed
  have devs: "0 \<le> l' \<and> snd ` numbers_of v' ?ds = {1..l'} \<and> inj_on snd (numbers_of v' ?ds)"
    if "(v', t', b', l') \<in> set ?vs" for v' t' b' l'
  proof (cases "v' = w")
    case True
    with that [unfolded in_vs] have "l' = l + 1" by auto
    with True step range(1) show ?thesis by simp
  next
    case False
    with that [unfolded in_vs] have "(v', t', b', l') \<in> set vs" by auto
    from numbered_device_range [OF n this] same [OF False] show ?thesis by simp
  qed
  show ?thesis
    unfolding numbered_def fst_ds fst_vs tb using dist home devs by fast
qed

lemma lift_ok [tx_ok]: "lift v s = (Inr x, t) \<longleftrightarrow> v = Inr x \<and> t = s"
  by (cases v) (auto simp: lift_def return_def throw_def)

lemma lift_err [tx_err]: "lift v s = (Inl e, t) \<longleftrightarrow> v = Inl e \<and> t = s"
  by (cases v) (auto simp: lift_def return_def throw_def)

lemma preserves_lift [preserved]: "preserves P (lift v)"
  unfolding lift_def by (intro preserved)

lemma updateDocument_ok:
  "updateDocument did f s = (Inr x, t) \<longleftrightarrow>
     list_all (\<lambda>d. ed_id d = did \<and> ed_status d = ''SIGNED'' \<longrightarrow> fiscal_columns (f d) = fiscal_columns d) (etimsDocuments s) \<and>
     t = s\<lparr>etimsDocuments := update_rows (\<lambda>d. ed_id d = did) (\<lambda>d. (f d)\<lparr>ed_updatedAt := now s\<rparr>) (etimsDocuments s)\<rparr>"
  by (auto simp: updateDocument_def tx_ok)

lemma prepareSubmission_ok:
  assumes "prepareSubmission cr tid did actor s = (Inr p, t)"
  shows "(t = s \<and> (\<exists>d. p = Done d)) \<or> (\<exists>doc device n g. doc \<in> set (etimsDocuments s) \<and> ed_tenantId doc = tid \<and> ed_id doc = did \<and>
     device \<in> set (etimsDevices s) \<and> dv_tenantId device = tid \<and> dv_branchId device = ''00'' \<and>
     (ed_invoiceNo doc = Some n \<and> etimsDevices t = etimsDevices s \<or>
      ed_invoiceNo doc = None \<and> n = dv_lastInvoiceNo device + 1 \<and>
        etimsDevices t = update_rows (\<lambda>v. dv_id v = dv_id device) (\<lambda>v. v\<lparr>dv_lastInvoiceNo := n\<rparr>) (etimsDevices s)) \<and>
     etimsDocuments t = update_rows (\<lambda>d. ed_id d = did) g (etimsDocuments s) \<and>
     (\<forall>d. num_key (g d) = (ed_id d, ed_tenantId d, Some (dv_id device), Some n) \<and> ed_status (g d) = ''QUEUED'') \<and>
     uuid_gen t = uuid_gen s \<and> uuid_next t = uuid_next s)"
proof -
  from assms obtain doc where doc: "find (\<lambda>d. ed_id d = did \<and> ed_tenantId d = tid) (etimsDocuments s) = Some doc"
    by (auto simp: prepareSubmission_def tx_ok)
  show ?thesis
  proof (cases "ed_status doc = ''SIGNED''")
    case True
    with assms doc show ?thesis by (auto simp: prepareSubmission_def tx_ok)
  next
    case False
    with assms doc obtain device n u v w where dev: "find_device tid ''00'' s = Some device"
      and alloc: "allocateInvoiceNo doc device s = (Inr n, u)"
      and upd: "updateDocument (ed_id doc) (\<lambda>d. d\<lparr>ed_status := ''QUEUED'', ed_invoiceNo := Some n,
                  ed_deviceId := Some (dv_id device), ed_requestPayload := w,
                  ed_submissionAttempts := ed_submissionAttempts doc + 1\<rparr>) u = (Inr (), v)"
      and t: "t = v"
      by (auto simp: prepareSubmission_def tx_ok Let_def)
    from find_SomeD [OF doc] have d: "doc \<in> set (etimsDocuments s)" "ed_id doc = did" "ed_tenantId doc = tid" by auto
    from dev have v: "device \<in> set (etimsDevices s)" "dv_tenantId device = tid" "dv_branchId device = ''00''"
      by (auto simp: find_device_def dest: find_SomeD)
    let ?g = "\<lambda>d. d\<lparr>ed_status := ''QUEUED'', ed_invoiceNo := Some n, ed_deviceId := Some (dv_id device),
        ed_requestPayload := w, ed_submissionAttempts := ed_submissionAttempts doc + 1, ed_updatedAt := now u\<rparr>"
    have "etimsDocuments t = update_rows (\<lambda>d. ed_id d = did) ?g (etimsDocuments u)" "etimsDevices t = etimsDevices u"
      "uuid_gen t = uuid_gen u" "uuid_next t = uuid_next u"
      using upd by (auto simp: t updateDocument_ok d)
    moreover have "etimsDocuments u = etimsDocuments s" "uuid_gen u = uuid_gen s" "uuid_next u = uuid_next s"
      "ed_invoiceNo doc = Some n \<and> etimsDevices u = etimsDevices s \<or>
       ed_invoiceNo doc = None \<and> n = dv_lastInvoiceNo device + 1 \<and>
        etimsDevices u = update_rows (\<lambda>v. dv_id v = dv_id device) (\<lambda>v. v\<lparr>dv_lastInvoiceNo := n\<rparr>) (etimsDevices s)"
      using alloc by (auto simp: allocateInvoiceNo_def updateDevice_def tx_ok Let_def split: option.splits)
    ultimately show ?thesis using d v
      by (intro disjI2 exI [of _ doc] exI [of _ device] exI [of _ n] exI [of _ ?g]) (auto simp: num_key_def)
  qed
qed

lemma etims_prepareSubmission: "preserves etims_inv (transaction (prepareSubmission cr tid did actor))"
proof (rule preserves_transactionI)
  fix s p t
  assume inv: "etims_inv s" and run: "prepareSubmission cr tid did actor s = (Inr p, t)"
  let ?ds = "map num_key (etimsDocuments s)" and ?vs = "map dev_key (etimsDevices s)"
  have num: "numbered ?ds ?vs" using inv by (simp add: etims_inv_def)
  show "etims_inv t"
  proof (cases "t = s")
    case True
    with inv show ?thesis by simp
  next
    case False
    with prepareSubmission_ok [OF run] obtain doc device n g where
      doc: "doc \<in> set (etimsDocuments s)" "ed_tenantId doc = tid" "ed_id doc = did"
      and dev: "device \<in> set (etimsDevices s)" "dv_tenantId device = tid" "dv_branchId device = ''00''"
      and alt: "ed_invoiceNo doc = Some n \<and> etimsDevices t = etimsDevices s \<or>
        ed_invoiceNo doc = None \<and> n = dv_lastInvoiceNo device + 1 \<and>
        etimsDevices t = update_rows (\<lambda>v. dv_id v = dv_id device) (\<lambda>v. v\<lparr>dv_lastInvoiceNo := n\<rparr>) (etimsDevices s)"
      and docs: "etimsDocuments t = update_rows (\<lambda>d. ed_id d = did) g (etimsDocuments s)"
      and g: "\<forall>d. num_key (g d) = (ed_id d, ed_tenantId d, Some (dv_id device), Some n) \<and> ed_status (g d) = ''QUEUED''"
      and u: "uuid_gen t = uuid_gen s" "uuid_next t = uuid_next s"
      by (simp only: simp_thms) (elim exE conjE, rule that)
    have "distinct (map fst ?ds)" using num by (simp add: numbered_def)
    then have ids: "distinct (map ed_id (etimsDocuments s))" by (simp add: num_key_def o_def)
    have only: "d = doc" if "d \<in> set (etimsDocuments s)" "ed_id d = did" for d
      using distinct_key_eq [OF ids that(1) doc(1)] that(2) doc(3) by simp
    have keys: "map num_key (etimsDocuments t) = map (\<lambda>x. if fst x = did then (did, tid, Some (dv_id device), Some n) else x) ?ds"
      unfolding docs update_rows_def map_map
    proof (rule map_cong [OF refl])
      fix d assume "d \<in> set (etimsDocuments s)"
      with only [of d] g doc show "(num_key \<circ> (\<lambda>d. if ed_id d = did then g d else d)) d =
          ((\<lambda>x. if fst x = did then (did, tid, Some (dv_id device), Some n) else x) \<circ> num_key) d"
        by (cases "ed_id d = did") (simp_all add: num_key_def)
    qed
    have key: "num_key doc \<in> set ?ds" "dev_key device \<in> set ?vs" using doc dev by auto
    from alt show ?thesis
    proof (elim disjE conjE)
      assume n: "ed_invoiceNo doc = Some n" and devs: "etimsDevices t = etimsDevices s"
      have "ed_deviceId doc = Some (dv_id device)"
        using numbered_device [OF num, of did tid "ed_deviceId doc" n "dv_id device" "dv_lastInvoiceNo device"] key n doc dev
        by (simp add: num_key_def dev_key_def)
      with n doc have self: "num_key doc = (did, tid, Some (dv_id device), Some n)" by (simp add: num_key_def)
      have "map num_key (etimsDocuments t) = ?ds" unfolding keys map_map
      proof (rule map_cong [OF refl])
        fix d assume "d \<in> set (etimsDocuments s)"
        with only [of d] self show "((\<lambda>x. if fst x = did then (did, tid, Some (dv_id device), Some n) else x) \<circ> num_key) d = num_key d"
          by (cases "ed_id d = did") (simp_all add: num_key_def)
      qed
      with inv devs u show ?thesis by (intro etims_inv_frame [OF inv]) simp_all
    next
      assume n: "ed_invoiceNo doc = None" "n = dv_lastInvoiceNo device + 1"
        and devs: "etimsDevices t = update_rows (\<lambda>v. dv_id v = dv_id device) (\<lambda>v. v\<lparr>dv_lastInvoiceNo := n\<rparr>) (etimsDevices s)"
      have "distinct (map fst ?vs)" using num by (simp add: numbered_def)
      then have vids: "distinct (map dv_id (etimsDevices s))" by (simp add: dev_key_def o_def)
      have vonly: "v = device" if "v \<in> set (etimsDevices s)" "dv_id v = dv_id device" for v
        using distinct_key_eq [OF vids that(1) dev(1)] that(2) by simp
      have vkeys: "map dev_key (etimsDevices t) =
          map (\<lambda>x. if fst x = dv_id device then (dv_id device, tid, ''00'', dv_lastInvoiceNo device + 1) else x) ?vs"
        unfolding devs update_rows_def map_map
      proof (rule map_cong [OF refl])
        fix v assume "v \<in> set (etimsDevices s)"
        with vonly [of v] dev n show "(dev_key \<circ> (\<lambda>v. if dv_id v = dv_id device then v\<lparr>dv_lastInvoiceNo := n\<rparr> else v)) v =
            ((\<lambda>x. if fst x = dv_id device then (dv_id device, tid, ''00'', dv_lastInvoiceNo device + 1) else x) \<circ> dev_key) v"
          by (cases "dv_id v = dv_id device") (simp_all add: dev_key_def)
      qed
      have "numbered (map num_key (etimsDocuments t)) (map dev_key (etimsDevices t))"
        unfolding keys vkeys n(2)
        by (rule numbered_allocate [OF num, of did tid "ed_deviceId doc" "dv_id device" "dv_lastInvoiceNo device"])
          (use key n doc dev in \<open>simp_all add: num_key_def dev_key_def\<close>)
      moreover have "ed_id ` set (etimsDocuments t) = ed_id ` set (etimsDocuments s)"
        unfolding docs by (rule image_update_rows) (use g in \<open>simp add: num_key_def\<close>)
      moreover have "dv_id ` set (etimsDevices t) = dv_id ` set (etimsDevices s)"
        unfolding devs by simp
      ultimately show ?thesis using inv u by (simp add: etims_inv_def used_ids_def uuids_distinct_def)
    qed
  qed
qed

section \<open>The commands\<close>

lemma etims_reading [preserved]:
  "preserves etims_inv (nextNumber tid ty)" "preserves etims_inv (loadDocForTenant tid did)"
  unfolding nextNumber_def loadDocForTenant_def by (intro preserved)+

lemma etims_emitOutbox [preserved]: "preserves etims_inv (emitOutbox ev tid did payload)"
  unfolding emitOutbox_def enqueueOutbox_def by (intro preserved) simp

lemma etims_configureDevice [preserved]: "preserves etims_inv (configureDevice cr iv client input)"
  unfolding configureDevice_def activateDevice_def by (intro preserved; simp add: dev_key_def)

lemma etims_updateDeviceSettings [preserved]: "preserves etims_inv (updateDeviceSettings tid b a ty)"
  unfolding updateDeviceSettings_def by (intro preserved; simp add: dev_key_def Let_def; intro preserved; simp add: dev_key_def)

lemma etims_createDocument [preserved]: "preserves etims_inv (createDocument input)"
  unfolding createDocument_def
  by (intro preserved) (simp add: new_document_def with_computed_def blank_document_def Let_def)

lemma etims_fiscaliseDocument [preserved]: "preserves etims_inv (fiscaliseDocument cr client tid did actor)"
proof -
  have case_p: "preserves etims_inv (case p of Done doc \<Rightarrow> m doc | Submit x y \<Rightarrow> n x y)"
    if "\<And>doc. preserves etims_inv (m doc)" and "\<And>x y. preserves etims_inv (n x y)" for p m n
    using that by (cases p) simp_all
  show ?thesis unfolding fiscaliseDocument_def signDocument_def recordFailure_of_def
    by (intro case_p etims_prepareSubmission preserved; simp add: num_key_def signed_by_def)
qed

lemma etims_requestFiscalisation [preserved]: "preserves etims_inv (requestFiscalisation tid did)"
  unfolding requestFiscalisation_def by (intro preserved)

lemma etims_createCreditNote [preserved]: "preserves etims_inv (createCreditNote tid actor original reason)"
  unfolding createCreditNote_def by (intro preserved) (simp add: credit_note_def blank_document_def)

lemma etims_applyInvoicePayment [preserved]: "preserves etims_inv (applyInvoicePayment tid doc amt)"
  unfolding applyInvoicePayment_def by (intro preserved) (simp add: num_key_def Let_def; intro preserved; simp add: num_key_def)

lemma etims_linkReceipt [preserved]: "preserves etims_inv (linkReceipt cid did)"
  unfolding linkReceipt_def updateCollection_def by (intro preserved) simp

lemma etims_createReceipt [preserved]: "preserves etims_inv (createReceipt cid)"
  unfolding createReceipt_def Let_def
  by (intro preserved; simp add: payment_receipt_def sale_receipt_def receipt_of_def with_computed_def blank_document_def Let_def)

lemma etims_issueReceipt [preserved]: "preserves etims_inv (issueReceiptForCollection cr client cid)"
  unfolding issueReceiptForCollection_def by (intro preserved)

lemma etims_retryQueuedDocuments [preserved]: "preserves etims_inv (retryQueuedDocuments cr client l old m)"
  unfolding retryQueuedDocuments_def by (intro preserved)

section \<open>Signed documents\<close>

text \<open>A signed document has an invoice number and a signature.\<close>

definition signed_inv :: "db \<Rightarrow> bool" where
  "signed_inv s \<longleftrightarrow> (\<forall>d \<in> set (etimsDocuments s). ed_status d = ''SIGNED'' \<longrightarrow>
     ed_invoiceNo d \<noteq> None \<and> ed_receiptSignature d \<noteq> None)"

definition submitted :: "string \<Rightarrow> db \<Rightarrow> bool" where
  "submitted did s \<longleftrightarrow> signed_inv s \<and> (\<forall>d \<in> set (etimsDocuments s). ed_id d = did \<longrightarrow> ed_invoiceNo d \<noteq> None)"

text \<open>A document with the fiscal columns of a signed one is there.\<close>

definition signed_kept :: "etimsDocument \<Rightarrow> db \<Rightarrow> bool" where
  "signed_kept d0 s \<longleftrightarrow> (\<exists>d \<in> set (etimsDocuments s). ed_id d = ed_id d0 \<and> fiscal_columns d = fiscal_columns d0)"

lemma signed_modify [preserved]:
  assumes "\<And>s. etimsDocuments (f s) = etimsDocuments s"
  shows "preserves signed_inv (modify f)" "preserves (submitted did) (modify f)" "preserves (signed_kept d0) (modify f)"
  by (rule preserves_modify, simp add: signed_inv_def submitted_def signed_kept_def assms)+

lemma signed_fresh_id [preserved]:
  "preserves signed_inv fresh_id" "preserves (submitted did) fresh_id" "preserves (signed_kept d0) fresh_id"
  by (rule preservesI, auto simp: fresh_id_def signed_inv_def submitted_def signed_kept_def)+

lemma updateDocument_docs:
  assumes "updateDocument did f s = (r, t)"
  shows "etimsDocuments t = etimsDocuments s \<or>
    etimsDocuments t = map (\<lambda>d. if ed_id d = did then (f d)\<lparr>ed_updatedAt := now s\<rparr> else d) (etimsDocuments s)"
  using assms by (cases r) (auto simp: updateDocument_ok update_rows_def updateDocument_def tx_err tx_ok)

lemma signed_updateDocument [preserved]:
  assumes "\<And>d. ed_status (f d) \<noteq> ''SIGNED''"
  shows "preserves signed_inv (updateDocument did f)"
proof (rule preservesI)
  fix s r t
  assume inv: "signed_inv s" and "updateDocument did f s = (r, t)"
  from updateDocument_docs [OF this(2)] show "signed_inv t"
    unfolding signed_inv_def by (elim disjE) (use inv assms in \<open>auto simp: signed_inv_def ball_Un\<close>)
qed

lemma submitted_updateDocument [preserved]:
  assumes "\<And>d. ed_id (f d) = ed_id d" and "\<And>d. ed_invoiceNo (f d) = ed_invoiceNo d"
    and "\<And>d. ed_status (f d) = ''SIGNED'' \<Longrightarrow> ed_receiptSignature (f d) \<noteq> None"
  shows "preserves (submitted did) (updateDocument did f)"
proof (rule preservesI)
  fix s r t
  assume inv: "submitted did s" and "updateDocument did f s = (r, t)"
  from updateDocument_docs [OF this(2)] show "submitted did t"
    unfolding submitted_def signed_inv_def
    by (elim disjE) (use inv assms in \<open>auto simp: submitted_def signed_inv_def ball_Un\<close>)
qed

lemma kept_updateDocument [preserved]:
  assumes "ed_status d0 = ''SIGNED''" and "\<And>d. ed_id (f d) = ed_id d"
  shows "preserves (signed_kept d0) (updateDocument did f)"
proof (rule preservesI)
  fix s r t
  assume kept: "signed_kept d0 s" and run: "updateDocument did f s = (r, t)"
  then obtain d where d: "d \<in> set (etimsDocuments s)" "ed_id d = ed_id d0" "fiscal_columns d = fiscal_columns d0"
    by (auto simp: signed_kept_def)
  show "signed_kept d0 t"
  proof (cases r)
    case (Inl e)
    with run kept show ?thesis by (auto simp: updateDocument_def tx_err tx_ok)
  next
    case (Inr x)
    from d(3) assms(1) have "ed_status d = ''SIGNED''" by (simp add: fiscal_columns_def)
    with run Inr d(1) have f: "ed_id d = did \<longrightarrow> fiscal_columns (f d) = fiscal_columns d"
      and docs: "etimsDocuments t = update_rows (\<lambda>d. ed_id d = did) (\<lambda>d. (f d)\<lparr>ed_updatedAt := now s\<rparr>) (etimsDocuments s)"
      by (auto simp: updateDocument_ok list_all_iff)
    let ?d = "if ed_id d = did then (f d)\<lparr>ed_updatedAt := now s\<rparr> else d"
    have "?d \<in> set (etimsDocuments t)" unfolding docs in_set_update_rows using d(1) by blast
    moreover have "ed_id ?d = ed_id d0" "fiscal_columns ?d = fiscal_columns d0"
      using d f assms(2) by (auto simp: fiscal_columns_def)
    ultimately show ?thesis by (auto simp: signed_kept_def)
  qed
qed

lemma signed_insertDocument [preserved]:
  assumes "ed_status d \<noteq> ''SIGNED''"
  shows "preserves signed_inv (insertDocument d)" "preserves (signed_kept d0) (insertDocument d)"
proof -
  have run: "etimsDocuments t = etimsDocuments s \<or>
      (\<exists>i tok n. etimsDocuments t = etimsDocuments s @ [d\<lparr>ed_id := i, ed_publicToken := tok, ed_updatedAt := n\<rparr>])"
    if "insertDocument d s = (r, t)" for s r t
    using that by (cases r) (auto simp: insertDocument_def generatePublicToken_def tx_ok tx_err Let_def)
  show "preserves signed_inv (insertDocument d)"
    by (rule preservesI, drule run) (use assms in \<open>auto simp: signed_inv_def\<close>)
  show "preserves (signed_kept d0) (insertDocument d)"
    by (rule preservesI, drule run) (auto simp: signed_kept_def)
qed

lemma signed_transaction_prepare:
  "preserves signed_inv (transaction (prepareSubmission cr tid did actor))"
  "ed_status d0 = ''SIGNED'' \<Longrightarrow> preserves (signed_kept d0) (transaction (prepareSubmission cr tid did actor))"
  unfolding prepareSubmission_def allocateInvoiceNo_def updateDevice_def
  by (intro preserved; simp add: Let_def; intro preserved; simp)+

lemma prepare_submits:
  assumes "transaction (prepareSubmission cr tid did actor) s = (Inr (Submit x y), t)" and "signed_inv s"
  shows "submitted did t"
proof -
  have "signed_inv t" by (rule preservesD [OF signed_transaction_prepare(1) assms(2,1)])
  from assms(1) have run: "prepareSubmission cr tid did actor s = (Inr (Submit x y), t)" by (simp add: transaction_ok)
  from prepareSubmission_ok [OF run] obtain dev n g where
    "etimsDocuments t = update_rows (\<lambda>d. ed_id d = did) g (etimsDocuments s)"
    and key: "\<And>d. num_key (g d) = (ed_id d, ed_tenantId d, Some dev, Some n)" by blast
  moreover have "ed_invoiceNo (g d) \<noteq> None" for d using key [of d] by (simp add: num_key_def)
  ultimately have "\<forall>d \<in> set (etimsDocuments t). ed_id d = did \<longrightarrow> ed_invoiceNo d \<noteq> None"
    by (auto simp: update_rows_def ball_Un)
  with \<open>signed_inv t\<close> show ?thesis by (simp add: submitted_def)
qed

lemma signed_emitOutbox [preserved]:
  "preserves signed_inv (emitOutbox ev tid did payload)" "preserves (submitted did') (emitOutbox ev tid did payload)"
  "preserves (signed_kept d0) (emitOutbox ev tid did payload)"
  unfolding emitOutbox_def enqueueOutbox_def by (intro preserved; simp)+

lemma submitted_signs:
  "preserves (submitted did)
     (catch (bind (lift (ec_saveSale client device payload)) (signDocument client tid did device))
        (\<lambda>err. seq (recordFailure_of did err) (throw err)))"
  unfolding signDocument_def recordFailure_of_def by (intro preserved; simp add: signed_by_def split: if_splits)

lemma signed_fiscaliseDocument [preserved]: "preserves signed_inv (fiscaliseDocument cr client tid did actor)"
proof (rule preservesI)
  fix s r t
  assume inv: "signed_inv s" and run: "fiscaliseDocument cr client tid did actor s = (r, t)"
  show "signed_inv t"
  proof (cases client)
    case (Inl e)
    with run inv show ?thesis by (simp add: fiscaliseDocument_def lift_def tx_run)
  next
    case (Inr c)
    obtain p u where p: "transaction (prepareSubmission cr tid did actor) s = (p, u)" by fastforce
    have u: "signed_inv u" by (rule preservesD [OF signed_transaction_prepare(1) inv p])
    show ?thesis
    proof (cases "\<exists>x y. p = Inr (Submit x y)")
      case False
      with run p u Inr show ?thesis
        by (auto simp: fiscaliseDocument_def lift_def bind_def return_def split: sum.splits prepared.splits)
    next
      case True
      then obtain x y where xy: "p = Inr (Submit x y)" by blast
      with p inv have "submitted did u" by (simp add: prepare_submits)
      moreover from run p xy Inr have
        "catch (bind (lift (ec_saveSale c y x)) (signDocument c tid did y)) (\<lambda>err. seq (recordFailure_of did err) (throw err)) u = (r, t)"
        by (simp add: fiscaliseDocument_def lift_def bind_def return_def)
      ultimately have "submitted did t" by (rule preservesD [OF submitted_signs])
      then show ?thesis by (simp add: submitted_def)
    qed
  qed
qed

lemma kept_fiscaliseDocument [preserved]:
  assumes "ed_status d0 = ''SIGNED''"
  shows "preserves (signed_kept d0) (fiscaliseDocument cr client tid did actor)"
proof -
  have case_p: "preserves (signed_kept d0) (case p of Done doc \<Rightarrow> m doc | Submit x y \<Rightarrow> n x y)"
    if "\<And>doc. preserves (signed_kept d0) (m doc)" and "\<And>x y. preserves (signed_kept d0) (n x y)" for p m n
    using that by (cases p) simp_all
  show ?thesis unfolding fiscaliseDocument_def signDocument_def recordFailure_of_def
    by (intro case_p signed_transaction_prepare preserved assms; simp add: signed_by_def)
qed

lemma signed_applyInvoicePayment [preserved]:
  "preserves signed_inv (applyInvoicePayment tid doc amt)" "preserves (signed_kept d0) (applyInvoicePayment tid doc amt)"
proof -
  have run: "etimsDocuments u = etimsDocuments s \<or> (\<exists>i a b c. etimsDocuments u = update_rows (\<lambda>d. ed_id d = i)
      (\<lambda>d. d\<lparr>ed_paidMinor := a, ed_paymentStatus := b, ed_updatedAt := c\<rparr>) (etimsDocuments s))"
    if "applyInvoicePayment tid doc amt s = (r, u)" for s r u
    using that by (auto simp: applyInvoicePayment_def tx_run Let_def split: option.splits if_splits) blast+
  show "preserves signed_inv (applyInvoicePayment tid doc amt)"
    by (rule preservesI, drule run) (auto simp: signed_inv_def in_set_update_rows split: if_splits)
  show "preserves (signed_kept d0) (applyInvoicePayment tid doc amt)"
  proof (rule preservesI)
    fix s r u
    assume kept: "signed_kept d0 s" and "applyInvoicePayment tid doc amt s = (r, u)"
    from kept obtain d where d: "d \<in> set (etimsDocuments s)" "ed_id d = ed_id d0" "fiscal_columns d = fiscal_columns d0"
      by (auto simp: signed_kept_def)
    from run [OF \<open>applyInvoicePayment tid doc amt s = (r, u)\<close>] show "signed_kept d0 u"
    proof (elim disjE exE)
      fix i a b c
      assume docs: "etimsDocuments u = update_rows (\<lambda>d. ed_id d = i)
          (\<lambda>d. d\<lparr>ed_paidMinor := a, ed_paymentStatus := b, ed_updatedAt := c\<rparr>) (etimsDocuments s)"
      let ?d = "if ed_id d = i then d\<lparr>ed_paidMinor := a, ed_paymentStatus := b, ed_updatedAt := c\<rparr> else d"
      have "?d \<in> set (etimsDocuments u)" unfolding docs in_set_update_rows using d(1) by blast
      moreover have "ed_id ?d = ed_id d0" "fiscal_columns ?d = fiscal_columns d0" using d by (auto simp: fiscal_columns_def)
      ultimately show ?thesis by (auto simp: signed_kept_def)
    qed (use kept in \<open>simp add: signed_kept_def\<close>)
  qed
qed

lemma signed_configureDevice [preserved]:
  "preserves signed_inv (configureDevice cr iv client input)" "preserves (signed_kept d0) (configureDevice cr iv client input)"
  "preserves signed_inv (updateDeviceSettings tid b a ty)" "preserves (signed_kept d0) (updateDeviceSettings tid b a ty)"
  unfolding configureDevice_def activateDevice_def upsertDevice_def updateDevice_def updateDeviceSettings_def Let_def
  by (intro preserved; simp)+

lemma signed_reading [preserved]:
  "preserves signed_inv (nextNumber tid ty)" "preserves signed_inv (loadDocForTenant tid did)"
  "preserves (signed_kept d0) (nextNumber tid ty)" "preserves (signed_kept d0) (loadDocForTenant tid did)"
  unfolding nextNumber_def loadDocForTenant_def by (intro preserved)+

lemma signed_linkReceipt [preserved]:
  "preserves signed_inv (linkReceipt cid did)" "preserves (signed_kept d0) (linkReceipt cid did)"
  unfolding linkReceipt_def updateCollection_def by (intro preserved; simp)+

lemma signed_createDocument [preserved]:
  "preserves signed_inv (createDocument i)" "preserves (signed_kept d0) (createDocument i)"
  "preserves signed_inv (requestFiscalisation tid did)" "preserves (signed_kept d0) (requestFiscalisation tid did)"
  "preserves signed_inv (createCreditNote tid actor original reason)"
  "preserves (signed_kept d0) (createCreditNote tid actor original reason)"
  unfolding createDocument_def requestFiscalisation_def createCreditNote_def
  by (intro preserved; simp add: new_document_def with_computed_def blank_document_def credit_note_def Let_def)+

lemma signed_createReceipt [preserved]:
  "preserves signed_inv (createReceipt cid)" "preserves (signed_kept d0) (createReceipt cid)"
  unfolding createReceipt_def Let_def
  by (intro preserved; simp add: payment_receipt_def sale_receipt_def receipt_of_def with_computed_def blank_document_def Let_def)+

lemma signed_issueReceipt [preserved]: "preserves signed_inv (issueReceiptForCollection cr client cid)"
  unfolding issueReceiptForCollection_def by (intro preserved)

lemma kept_issueReceipt [preserved]:
  assumes "ed_status d0 = ''SIGNED''"
  shows "preserves (signed_kept d0) (issueReceiptForCollection cr client cid)"
  unfolding issueReceiptForCollection_def by (intro preserved assms)

lemma signed_retryQueuedDocuments [preserved]: "preserves signed_inv (retryQueuedDocuments cr client l old m)"
  unfolding retryQueuedDocuments_def by (intro preserved)

lemma kept_retryQueuedDocuments [preserved]:
  assumes "ed_status d0 = ''SIGNED''"
  shows "preserves (signed_kept d0) (retryQueuedDocuments cr client l old m)"
  unfolding retryQueuedDocuments_def by (intro preserved assms)

section \<open>Histories\<close>

text \<open>The entry points of the service, with the invoice payment the settlement of a collection makes.  The client
  is the driver of the device, or the failure to build it.\<close>

datatype etims_command =
    ConfigureDevice "nat list" "error + etimsClient" configureDeviceInput
  | UpdateDeviceSettings string "string option" "bool option" "string option"
  | CreateDocument createDocumentInput
  | FiscaliseDocument "error + etimsClient" string string "string option"
  | RequestFiscalisation string string
  | CreateCreditNote string "string option" string string
  | IssueReceipt "error + etimsClient" string
  | InvoicePayment string string int
  | RetryQueued "error + etimsClient" "nat option" "int option" "int option"

primrec exec_etims :: "crypto \<Rightarrow> etims_command \<Rightarrow> unit cmd" where
  "exec_etims cr (ConfigureDevice iv cl i) = seq (configureDevice cr iv cl i) (return ())"
| "exec_etims cr (UpdateDeviceSettings t b a ty) = seq (updateDeviceSettings t b a ty) (return ())"
| "exec_etims cr (CreateDocument i) = seq (createDocument i) (return ())"
| "exec_etims cr (FiscaliseDocument cl t d a) = seq (fiscaliseDocument cr cl t d a) (return ())"
| "exec_etims cr (RequestFiscalisation t d) = requestFiscalisation t d"
| "exec_etims cr (CreateCreditNote t a d r) = seq (createCreditNote t a d r) (return ())"
| "exec_etims cr (IssueReceipt cl c) = seq (issueReceiptForCollection cr cl c) (return ())"
| "exec_etims cr (InvoicePayment t d amt) = applyInvoicePayment t d amt"
| "exec_etims cr (RetryQueued cl l old m) = seq (retryQueuedDocuments cr cl l old m) (return ())"

definition fiscal_inv :: "db \<Rightarrow> bool" where
  "fiscal_inv s \<longleftrightarrow> etims_inv s \<and> signed_inv s"

lemma exec_etims_preserves: "preserves etims_inv (exec_etims cr c)" "preserves signed_inv (exec_etims cr c)"
  by (cases c; simp; intro preserved)+

lemma exec_etims_keeps: "ed_status d0 = ''SIGNED'' \<Longrightarrow> preserves (signed_kept d0) (exec_etims cr c)"
  by (cases c; simp; intro preserved; assumption)

interpretation fiscal: command_system "exec_etims cr" fiscal_inv
  by unfold_locales (use exec_etims_preserves in \<open>auto simp: fiscal_inv_def preserves_def\<close>)

lemma fiscal_inv_empty:
  assumes "etimsDocuments s = []" and "etimsDevices s = []" and "uuids_distinct s"
  shows "fiscal_inv s"
  using assms by (simp add: fiscal_inv_def etims_inv_def signed_inv_def numbered_def)

end
