(* ===== verification/Etims_History.thy ===== *)
theory Etims_History
  imports Etims_Invariants
begin

text \<open>
  What the histories of the fiscal service show: the numbers of a device and the fate of a signed document, and
  the outcome of one submission, with a concrete installation they are instantiated at.
\<close>

section \<open>A concrete service\<close>

definition demo_client :: etimsClient where
  "demo_client = \<lparr> ec_driver = ''sandbox'', ec_environment = ''sandbox'',
     ec_initialise = (\<lambda>_. Inr \<lparr> in_cmcKey = ''key'', in_sdcId = ''KRA1'', in_mrcNo = ''M1'', in_taxpayerName = None \<rparr>),
     ec_saveSale = (\<lambda>_ _. Inr \<lparr> sg_rcptNo = 7, sg_totRcptNo = 9, sg_intrlData = ''data'', sg_rcptSign = ''sign'',
        sg_sdcId = ''KRA1'', sg_mrcNo = ''M1'', sg_raw = JNull \<rparr>) \<rparr>"

definition demo_refusal :: etimsClient where
  "demo_refusal = demo_client\<lparr>ec_saveSale := (\<lambda>_ _. Inl (EtimsError ''timeout'' ''NETWORK'' True))\<rparr>"

section \<open>One submission\<close>

text \<open>What the service checks before it submits, and the number and the request it then uses.\<close>

definition submittable :: "crypto \<Rightarrow> string \<Rightarrow> string \<Rightarrow> etimsDocument \<Rightarrow> etimsDevice \<Rightarrow> string \<Rightarrow> db \<Rightarrow> bool" where
  "submittable cr tid did doc dev key s \<longleftrightarrow>
     find (\<lambda>d. ed_id d = did) (etimsDocuments s) = Some doc \<and> ed_tenantId doc = tid \<and>
     distinct (map ed_id (etimsDocuments s)) \<and> ed_status doc \<notin> {''SIGNED'', ''CANCELLED''} \<and>
     ed_docType doc \<noteq> ''PAYMENT_RECEIPT'' \<and> find_device tid ''00'' s = Some dev \<and> dv_status dev = ''ACTIVE'' \<and>
     truthy (dv_cmcKeyEncrypted dev) \<and> decryptSecret cr (the (dv_cmcKeyEncrypted dev)) = Inr key \<and> payload_ok doc"

definition submission_no :: "etimsDocument \<Rightarrow> etimsDevice \<Rightarrow> int" where
  "submission_no doc dev = nullish (ed_invoiceNo doc) (dv_lastInvoiceNo dev + 1)"

definition submission :: "string \<Rightarrow> string option \<Rightarrow> etimsDocument \<Rightarrow> etimsDevice \<Rightarrow> db \<Rightarrow> jsval" where
  "submission tid actor doc dev s = buildSalesPayload (dv_kraPin dev) (dv_branchId dev) doc (submission_no doc dev)
     (original_no doc s) (now s) (nullish actor ''Z-float'') (map_option tn_name (find (\<lambda>x. tn_id x = tid) (tenants s)))"

definition identity_of :: "etimsDevice \<Rightarrow> string \<Rightarrow> deviceIdentity" where
  "identity_of dev key = \<lparr> di_tin = dv_kraPin dev, di_bhfId = dv_branchId dev, di_deviceSerial = dv_deviceSerial dev,
     di_cmcKey = Some key \<rparr>"

definition queued_document :: "jsval \<Rightarrow> etimsDocument \<Rightarrow> etimsDevice \<Rightarrow> int \<Rightarrow> etimsDocument \<Rightarrow> etimsDocument" where
  "queued_document payload doc dev t d = d\<lparr>ed_status := ''QUEUED'', ed_invoiceNo := Some (submission_no doc dev),
     ed_deviceId := Some (dv_id dev), ed_requestPayload := to_jsonb payload,
     ed_submissionAttempts := ed_submissionAttempts doc + 1, ed_updatedAt := t\<rparr>"

lemma unsigned_ok:
  assumes "distinct (map ed_id ds)" and "find (\<lambda>d. ed_id d = did) ds = Some doc" and "ed_status doc \<noteq> ''SIGNED''"
  shows "list_all (\<lambda>d. ed_id d = did \<and> ed_status d = ''SIGNED'' \<longrightarrow> fiscal_columns (f d) = fiscal_columns d) ds"
  unfolding list_all_iff
proof (intro ballI impI, elim conjE)
  fix d assume d: "d \<in> set ds" "ed_id d = did" "ed_status d = ''SIGNED''"
  with find_SomeD [OF assms(2)] distinct_key_eq [OF assms(1)] have "d = doc" by metis
  with d assms(3) show "fiscal_columns (f d) = fiscal_columns d" by simp
qed

lemma find_tenant_row:
  assumes "find (\<lambda>d. ed_id d = did) ds = Some doc" and "ed_tenantId doc = tid"
  shows "find (\<lambda>d. ed_id d = did \<and> ed_tenantId d = tid) ds = Some doc \<or> \<not> distinct (map ed_id ds)"
  using assms by (induction ds) (auto split: if_splits)

lemma prepareSubmission_run:
  assumes "submittable cr tid did doc dev key s"
  obtains t where
    "transaction (prepareSubmission cr tid did actor) s = (Inr (Submit (submission tid actor doc dev s) (identity_of dev key)), t)"
    "etimsDocuments t = update_rows (\<lambda>d. ed_id d = did) (queued_document (submission tid actor doc dev s) doc dev (now s)) (etimsDocuments s)"
    "etimsDevices t = (case ed_invoiceNo doc of Some n \<Rightarrow> etimsDevices s
       | None \<Rightarrow> update_rows (\<lambda>v. dv_id v = dv_id dev) (\<lambda>v. v\<lparr>dv_lastInvoiceNo := submission_no doc dev\<rparr>) (etimsDevices s))"
    "now t = now s" "outboxEvents t = outboxEvents s" "uuid_gen t = uuid_gen s" "uuid_next t = uuid_next s"
proof -
  note ok = assms [unfolded submittable_def]
  have row: "find (\<lambda>d. ed_id d = did \<and> ed_tenantId d = tid) (etimsDocuments s) = Some doc"
    using ok find_tenant_row by blast
  have unsigned: "list_all (\<lambda>d. ed_id d = did \<and> ed_status d = ''SIGNED'' \<longrightarrow> fiscal_columns (f d) = fiscal_columns d) (etimsDocuments s)" for f
    using ok by (intro unsigned_ok) auto
  have did: "ed_id doc = did" using row by (auto dest: find_SomeD)
  obtain u where alloc: "allocateInvoiceNo doc dev s = (Inr (submission_no doc dev), u)"
    and u: "u = s\<lparr>etimsDevices := (case ed_invoiceNo doc of Some n \<Rightarrow> etimsDevices s
       | None \<Rightarrow> update_rows (\<lambda>v. dv_id v = dv_id dev) (\<lambda>v. v\<lparr>dv_lastInvoiceNo := submission_no doc dev\<rparr>) (etimsDevices s))\<rparr>"
    by (cases "ed_invoiceNo doc")
       (simp_all add: allocateInvoiceNo_def submission_no_def updateDevice_def tx_run Let_def)
  have same: "original_no doc u = original_no doc s" by (simp add: original_no_def u)
  let ?p = "submission tid actor doc dev s"
  let ?g = "queued_document ?p doc dev (now s)"
  let ?t = "u\<lparr>etimsDocuments := update_rows (\<lambda>d. ed_id d = did) ?g (etimsDocuments s)\<rparr>"
  have now: "now u = now s" "tenants u = tenants s" "etimsDocuments u = etimsDocuments s" by (simp_all add: u)
  have upd: "updateDocument did (\<lambda>d. d\<lparr>ed_status := ''QUEUED'', ed_invoiceNo := Some (submission_no doc dev),
      ed_deviceId := Some (dv_id dev), ed_requestPayload := to_jsonb ?p,
      ed_submissionAttempts := ed_submissionAttempts doc + 1\<rparr>) u = (Inr (), ?t)"
    unfolding updateDocument_ok now by (intro conjI unsigned) (simp add: queued_document_def [abs_def])
  have "prepareSubmission cr tid did actor s = (Inr (Submit ?p (identity_of dev key)), ?t)"
    using ok upd by (simp add: prepareSubmission_def tx_ok row alloc same did now submission_def identity_of_def Let_def)
  then show ?thesis by (intro that [of ?t]) (simp_all add: transaction_ok u)
qed

text \<open>The outcome of a submission: the document has the number whatever the authority answers.\<close>

lemma updateDocument_unsigned:
  assumes "find (\<lambda>d. ed_id d = did) (etimsDocuments s) = Some d" and "ed_status d \<noteq> ''SIGNED''"
    and "distinct (map ed_id (etimsDocuments s))" and "\<And>x. ed_id (f x) = ed_id x"
  obtains t where "updateDocument did f s = (Inr (), t)"
    and "find (\<lambda>d. ed_id d = did) (etimsDocuments t) = Some ((f d)\<lparr>ed_updatedAt := now s\<rparr>)"
    and "outboxEvents t = outboxEvents s" "now t = now s"
proof -
  let ?t = "s\<lparr>etimsDocuments := update_rows (\<lambda>d. ed_id d = did) (\<lambda>d. (f d)\<lparr>ed_updatedAt := now s\<rparr>) (etimsDocuments s)\<rparr>"
  have "updateDocument did f s = (Inr (), ?t)"
    unfolding updateDocument_ok using assms by (intro conjI unsigned_ok) auto
  moreover have "find (\<lambda>d. ed_id d = did) (etimsDocuments ?t) = Some ((f d)\<lparr>ed_updatedAt := now s\<rparr>)"
    using find_update_rows [OF assms(1)] assms(4) by simp
  ultimately show ?thesis by (intro that [of ?t]) simp_all
qed

definition events_of :: "db \<Rightarrow> (string \<times> string) list" where
  "events_of s = map (\<lambda>e. (ob_eventType e, ob_aggregateId e)) (outboxEvents s)"

definition concluded :: "string \<Rightarrow> db \<Rightarrow> error + saleSignature \<Rightarrow> error + etimsDocument \<Rightarrow> etimsDocument \<Rightarrow> db \<Rightarrow> bool" where
  "concluded did s answer r d t \<longleftrightarrow> (case answer of
      Inr sig \<Rightarrow> r = Inr d \<and> ed_status d = ''SIGNED'' \<and> ed_receiptSignature d = Some (sg_rcptSign sig) \<and>
        ed_cuInvoiceNo d = Some (sg_sdcId sig @ ''/'' @ show_int (sg_rcptNo sig)) \<and> ed_signedAt d = Some (now s) \<and>
        events_of t = events_of s @ [(''invoice.fiscalised'', did)]
    | Inl err \<Rightarrow> r = Inl err \<and> ed_status d = (if retryable err then ''QUEUED'' else ''FAILED'') \<and>
        ed_lastError d = Some (error_message err) \<and> events_of t = events_of s)"

definition same_submission :: "etimsDocument \<Rightarrow> etimsDocument \<Rightarrow> bool" where
  "same_submission d d' \<longleftrightarrow> ed_invoiceNo d' = ed_invoiceNo d \<and> ed_deviceId d' = ed_deviceId d \<and>
     ed_submissionAttempts d' = ed_submissionAttempts d"

lemma sign_concludes:
  assumes d: "find (\<lambda>d. ed_id d = did) (etimsDocuments s) = Some d" "ed_status d \<noteq> ''SIGNED''"
      "distinct (map ed_id (etimsDocuments s))"
    and run: "signDocument client tid did dev sig s = (r, t)"
  shows "\<exists>d'. concluded did s (Inr sig) r d' t \<and> same_submission d d' \<and> find (\<lambda>d. ed_id d = did) (etimsDocuments t) = Some d'"
proof -
  obtain u where "updateDocument did (signed_by client dev sig (now s)) s = (Inr (), u)"
    and "find (\<lambda>d. ed_id d = did) (etimsDocuments u) = Some ((signed_by client dev sig (now s) d)\<lparr>ed_updatedAt := now s\<rparr>)"
    and "outboxEvents u = outboxEvents s"
    by (rule updateDocument_unsigned [OF d, of "signed_by client dev sig (now s)"]) (simp_all add: signed_by_def)
  with run show ?thesis
    by (auto simp: signDocument_def transaction_def tx_run emitOutbox_def enqueueOutbox_def fresh_id_def
      concluded_def events_of_def signed_by_def same_submission_def)
qed

lemma failure_concludes:
  assumes d: "find (\<lambda>d. ed_id d = did) (etimsDocuments s) = Some d" "ed_status d \<noteq> ''SIGNED''"
      "distinct (map ed_id (etimsDocuments s))"
    and run: "seq (recordFailure_of did err) (throw err) s = (r, t)"
  shows "\<exists>d'. concluded did s (Inl err) r d' t \<and> same_submission d d' \<and> find (\<lambda>d. ed_id d = did) (etimsDocuments t) = Some d'"
proof -
  let ?f = "\<lambda>d. d\<lparr>ed_status := (if retryable err then ''QUEUED'' else ''FAILED''), ed_lastError := Some (error_message err)\<rparr>"
  obtain u where "recordFailure_of did err s = (Inr (), u)"
    and "find (\<lambda>d. ed_id d = did) (etimsDocuments u) = Some ((?f d)\<lparr>ed_updatedAt := now s\<rparr>)" "outboxEvents u = outboxEvents s"
    by (rule updateDocument_unsigned [OF d, of ?f]) (simp_all add: recordFailure_of_def)
  with run show ?thesis by (auto simp: seq_step throw_def concluded_def events_of_def same_submission_def)
qed

text \<open>C23. One submission: a document the service may submit gets its number and device and one more attempt; if the
  authority signs, it is signed, returned and announced once; if not, the error is returned and stored, and the
  document waits for the next attempt or has failed.\<close>

theorem fiscaliseDocument_concludes:
  assumes ok: "submittable cr tid did doc dev key s"
    and run: "fiscaliseDocument cr (Inr client) tid did actor s = (r, t)"
  shows "\<exists>d. find (\<lambda>d. ed_id d = did) (etimsDocuments t) = Some d \<and> ed_invoiceNo d = Some (submission_no doc dev) \<and>
     ed_deviceId d = Some (dv_id dev) \<and> ed_submissionAttempts d = ed_submissionAttempts doc + 1 \<and>
     concluded did s (ec_saveSale client (identity_of dev key) (submission tid actor doc dev s)) r d t"
proof -
  let ?p = "submission tid actor doc dev s" and ?i = "identity_of dev key"
  let ?q = "queued_document ?p doc dev (now s)"
  obtain u where prep: "transaction (prepareSubmission cr tid did actor) s = (Inr (Submit ?p ?i), u)"
    and docs: "etimsDocuments u = update_rows (\<lambda>d. ed_id d = did) ?q (etimsDocuments s)"
    and same: "now u = now s" "outboxEvents u = outboxEvents s"
    by (rule prepareSubmission_run [OF ok])
  have q: "find (\<lambda>d. ed_id d = did) (etimsDocuments u) = Some (?q doc)" "ed_status (?q doc) \<noteq> ''SIGNED''"
    "distinct (map ed_id (etimsDocuments u))"
    using ok find_update_rows [of "\<lambda>d. ed_id d = did" "etimsDocuments s" doc ?q]
    by (simp_all add: docs submittable_def queued_document_def)
  let ?sign = "catch (bind (lift (ec_saveSale client ?i ?p)) (signDocument client tid did ?i))
      (\<lambda>err. seq (recordFailure_of did err) (throw err))"
  have rt: "?sign u = (r, t)"
    using run by (simp add: fiscaliseDocument_def lift_def bind_def return_def prep)
  have "\<exists>d'. concluded did u (ec_saveSale client ?i ?p) r d' t \<and> same_submission (?q doc) d' \<and>
      find (\<lambda>d. ed_id d = did) (etimsDocuments t) = Some d'"
  proof (cases "ec_saveSale client ?i ?p")
    case (Inl err)
    with rt have "seq (recordFailure_of did err) (throw err) u = (r, t)"
      by (simp add: catch_def lift_def bind_def throw_def)
    from failure_concludes [OF q this] Inl show ?thesis by simp
  next
    case (Inr sig)
    obtain r' t' where sign: "signDocument client tid did ?i sig u = (r', t')" by fastforce
    from sign_concludes [OF q sign] have "\<exists>d. r' = Inr d" by (auto simp: concluded_def)
    with rt sign Inr have "signDocument client tid did ?i sig u = (r, t)"
      by (auto simp: catch_def lift_def bind_def return_def)
    from sign_concludes [OF q this] Inr show ?thesis by simp
  qed
  then show ?thesis
    by (auto simp: same_submission_def queued_document_def concluded_def events_of_def same split: sum.splits)
qed

text \<open>A device counts the first submissions of documents.\<close>

lemma fiscalise_counter:
  assumes ok: "submittable cr tid did doc dev key s" and "ed_invoiceNo doc = None"
    and run: "fiscaliseDocument cr (Inr client) tid did actor s = (r, t)"
  shows "etimsDevices t = update_rows (\<lambda>v. dv_id v = dv_id dev) (\<lambda>v. v\<lparr>dv_lastInvoiceNo := submission_no doc dev\<rparr>) (etimsDevices s)"
proof -
  let ?p = "submission tid actor doc dev s" and ?i = "identity_of dev key"
  let ?sign = "catch (bind (lift (ec_saveSale client ?i ?p)) (signDocument client tid did ?i))
      (\<lambda>err. seq (recordFailure_of did err) (throw err))"
  obtain u where prep: "transaction (prepareSubmission cr tid did actor) s = (Inr (Submit ?p ?i), u)"
    and u: "etimsDevices u = update_rows (\<lambda>v. dv_id v = dv_id dev) (\<lambda>v. v\<lparr>dv_lastInvoiceNo := submission_no doc dev\<rparr>) (etimsDevices s)"
    by (rule prepareSubmission_run [OF ok]) (use assms(2) in simp)
  have "?sign u = (r, t)"
    using run by (simp add: fiscaliseDocument_def lift_def bind_def return_def prep)
  moreover have "preserves (\<lambda>s. etimsDevices s = etimsDevices u) fresh_id"
    by (rule preservesI) (auto simp: fresh_id_def)
  then have "preserves (\<lambda>s. etimsDevices s = etimsDevices u) ?sign"
    unfolding signDocument_def recordFailure_of_def updateDocument_def emitOutbox_def enqueueOutbox_def
    by (intro preserved preserves_modify; simp)
  ultimately have "etimsDevices t = etimsDevices u" by (auto dest: preservesD)
  with u show ?thesis by simp
qed

section \<open>Histories\<close>

text \<open>An installation before its first device: documents are drafts.\<close>

definition fiscal_start :: "db \<Rightarrow> bool" where
  "fiscal_start s \<longleftrightarrow> uuids_distinct s \<and> etimsDevices s = [] \<and> distinct (map ed_id (etimsDocuments s)) \<and>
     ed_id ` set (etimsDocuments s) \<subseteq> used_ids s \<and>
     list_all (\<lambda>d. ed_invoiceNo d = None \<and> ed_status d \<noteq> ''SIGNED'') (etimsDocuments s)"

lemma fiscal_start_inv: "fiscal_start s \<Longrightarrow> fiscal_inv s"
  by (auto simp: fiscal_start_def fiscal_inv_def etims_inv_def signed_inv_def numbered_def num_key_def list_all_iff o_def)

lemma numbered_once:
  assumes "numbered (map num_key ds) vs" and "(v, t, b, l) \<in> set vs"
  shows "length (filter (\<lambda>d. ed_deviceId d = Some v \<and> ed_invoiceNo d = Some n) ds) = (if 1 \<le> n \<and> n \<le> l then 1 else 0)"
proof -
  let ?F = "filter (\<lambda>d. ed_deviceId d = Some v \<and> ed_invoiceNo d = Some n) ds"
  have ids: "distinct (map ed_id ds)" using assms(1) by (simp add: numbered_def num_key_def o_def)
  note range = numbered_device_range [OF assms]
  have mem: "(ed_id d, n) \<in> numbers_of v (map num_key ds)" if "d \<in> set ?F" for d
    using that by (force simp: numbers_of_def num_key_def)
  have F: "(\<exists>d. d \<in> set ?F) \<longleftrightarrow> n \<in> snd ` numbers_of v (map num_key ds)"
    by (force simp: numbers_of_def num_key_def)
  have "length ?F \<le> 1"
  proof (rule ccontr)
    assume "\<not> length ?F \<le> 1"
    then obtain d e rest where F2: "?F = d # e # rest" by (cases ?F; cases "List.tl ?F") auto
    then have de: "d \<in> set ?F" "e \<in> set ?F" by auto
    have "ed_id d = ed_id e" using inj_onD [OF range(3) _ mem [OF de(1)] mem [OF de(2)]] by simp
    moreover have "distinct (map ed_id ?F)" using ids by (rule distinct_map_filter)
    ultimately show False unfolding F2 by simp
  qed
  moreover have "?F \<noteq> [] \<longleftrightarrow> n \<in> {1..l}" using F range(2) by (metis list.set_intros(1) neq_Nil_conv empty_iff list.set(1))
  ultimately show ?thesis by (cases ?F) (auto split: if_splits)
qed

text \<open>C12. Fiscal numbering: in every history of the service, started before any device exists, each number from one
  to the counter of a device belongs to exactly one of its documents, and no other number is used.\<close>

theorem fiscal_numbers_sequential:
  assumes "reachable (exec_etims cr) fiscal_start t" and "v \<in> set (etimsDevices t)"
  shows "length (filter (\<lambda>d. ed_deviceId d = Some (dv_id v) \<and> ed_invoiceNo d = Some n) (etimsDocuments t)) =
    (if 1 \<le> n \<and> n \<le> dv_lastInvoiceNo v then 1 else 0)"
proof -
  have "fiscal_inv t" by (rule fiscal.reachable_inv [OF fiscal_start_inv assms(1)])
  moreover have "dev_key v \<in> set (map dev_key (etimsDevices t))" using assms(2) by simp
  ultimately show ?thesis
    by (intro numbered_once [where vs = "map dev_key (etimsDevices t)"]) (auto simp: fiscal_inv_def etims_inv_def dev_key_def)
qed

text \<open>The draft of a fresh installation, with ids that count up, and its first device.\<close>

definition demo_draft :: etimsDocument where
  "demo_draft = (blank_document ''acme'' ''INVOICE'' ''INV-000001'')\<lparr>ed_id := ''0'', ed_lines := JArray [], ed_totalMinor := 500\<rparr>"

definition demo_install :: db where
  "demo_install = (empty_db show_nat 0)\<lparr>uuid_next := 1, etimsDocuments := [demo_draft]\<rparr>"

definition demo_setup :: etims_command where
  "demo_setup = ConfigureDevice [0] (Inr demo_client) \<lparr> cf_tenantId = ''acme'', cf_kraPin = ''P051'', cf_branchId = None,
     cf_deviceSerial = ''S1'', cf_autoReceipt = None, cf_defaultTaxType = None \<rparr>"

definition demo_device :: etimsDevice where
  "demo_device = \<lparr> dv_id = ''1'', dv_tenantId = ''acme'', dv_kraPin = ''P051'', dv_branchId = ''00'', dv_deviceSerial = ''S1'',
     dv_driver = ''sandbox'', dv_status = ''ACTIVE'', dv_cmcKeyEncrypted = Some ''v1:00:01:6b6579'', dv_sdcId = Some ''KRA1'',
     dv_mrcNo = Some ''M1'', dv_taxpayerName = None, dv_lastInvoiceNo = 0, dv_autoReceipt = True, dv_defaultTaxType = ''B'',
     dv_lastError = None, dv_initialisedAt = Some 0 \<rparr>"

lemma demo_start: "fiscal_start demo_install"
proof -
  have "used_ids demo_install = {''0''}" by (simp add: used_ids_def demo_install_def empty_db_def lessThan_Suc) code_simp
  then show ?thesis
    by (simp add: fiscal_start_def demo_install_def demo_draft_def empty_db_def uuids_distinct_def blank_document_def)
qed

lemma demo_device_set: "etimsDevices (snd (exec_etims demo_crypto demo_setup demo_install)) = [demo_device] \<and>
    etimsDocuments (snd (exec_etims demo_crypto demo_setup demo_install)) = [demo_draft]"
  by code_simp

lemma demo_submittable: "submittable demo_crypto ''acme'' ''0'' demo_draft demo_device ''key'' (snd (exec_etims demo_crypto demo_setup demo_install))"
  unfolding submittable_def find_device_def by (simp add: demo_device_set) code_simp

text \<open>The first submission fails at the authority; the number is used, once.\<close>

theorem fiscal_numbers_sequential_witness:
  "\<exists>t. reachable (exec_etims demo_crypto) fiscal_start t \<and> map dv_lastInvoiceNo (etimsDevices t) = [1] \<and>
     length (filter (\<lambda>d. ed_deviceId d = Some ''1'' \<and> ed_invoiceNo d = Some 1) (etimsDocuments t)) = 1"
proof -
  let ?s = "snd (exec_etims demo_crypto demo_setup demo_install)"
  obtain r t where run: "fiscaliseDocument demo_crypto (Inr demo_refusal) ''acme'' ''0'' None ?s = (r, t)" by fastforce
  then have "run_all (exec_etims demo_crypto) [demo_setup, FiscaliseDocument (Inr demo_refusal) ''acme'' ''0'' None] demo_install = t"
    by (cases r) (simp_all add: run_all_def seq_def bind_def return_def)
  then have t: "reachable (exec_etims demo_crypto) fiscal_start t"
    using reachable_run_all [OF reachable_init [of fiscal_start, OF demo_start]] by metis
  have "ed_invoiceNo demo_draft = None" by (simp add: demo_draft_def blank_document_def)
  from fiscalise_counter [OF demo_submittable this run]
  have dev: "etimsDevices t = [demo_device\<lparr>dv_lastInvoiceNo := 1\<rparr>]"
    by (simp add: demo_device_set submission_no_def demo_draft_def blank_document_def) (simp add: demo_device_def)
  with fiscal_numbers_sequential [OF t, of "demo_device\<lparr>dv_lastInvoiceNo := 1\<rparr>" 1] t show ?thesis
    by (intro exI [of _ t]) (simp add: demo_device_def)
qed

lemma run_all_keeps: "(\<And>c. preserves P (exec c)) \<Longrightarrow> P s \<Longrightarrow> P (run_all exec cs s)"
  by (induction cs arbitrary: s) (simp_all add: preserves_def)

text \<open>C13. A signed document stays: after any history of the service, from any state, it is there with the same status,
  number, signature, customer, lines and amounts.\<close>

theorem signed_documents_immutable:
  assumes "d \<in> set (etimsDocuments s)" and "ed_status d = ''SIGNED''"
  shows "\<exists>d' \<in> set (etimsDocuments (run_all (exec_etims cr) cs s)). ed_id d' = ed_id d \<and> fiscal_columns d' = fiscal_columns d"
proof -
  have "signed_kept d s" using assms(1) by (auto simp: signed_kept_def)
  then have "signed_kept d (run_all (exec_etims cr) cs s)"
    by (rule run_all_keeps [where P = "signed_kept d", OF exec_etims_keeps [OF assms(2)]])
  then show ?thesis by (simp add: signed_kept_def)
qed

definition demo_signed :: etimsDocument where
  "demo_signed = demo_draft\<lparr>ed_status := ''SIGNED'', ed_invoiceNo := Some 1, ed_receiptSignature := Some ''sign''\<rparr>"

definition demo_books :: db where
  "demo_books = demo_install\<lparr>etimsDocuments := [demo_signed]\<rparr>"

text \<open>The invoice is paid and credited, and its submission repeated.\<close>

theorem signed_documents_immutable_witness:
  "\<exists>d' \<in> set (etimsDocuments (run_all (exec_etims demo_crypto)
       [InvoicePayment ''acme'' ''0'' 500, CreateCreditNote ''acme'' None ''0'' ''goods returned'',
        FiscaliseDocument (Inr demo_client) ''acme'' ''0'' None] demo_books)).
     ed_id d' = ''0'' \<and> fiscal_columns d' = fiscal_columns demo_signed"
proof -
  have "demo_signed \<in> set (etimsDocuments demo_books)" "ed_status demo_signed = ''SIGNED''" "ed_id demo_signed = ''0''"
    by (simp_all add: demo_books_def demo_signed_def demo_draft_def)
  with signed_documents_immutable [of demo_signed demo_books demo_crypto] show ?thesis by metis
qed

theorem fiscaliseDocument_concludes_witness:
  "\<exists>r t d. fiscaliseDocument demo_crypto (Inr demo_refusal) ''acme'' ''0'' None
       (snd (exec_etims demo_crypto demo_setup demo_install)) = (r, t) \<and>
     find (\<lambda>d. ed_id d = ''0'') (etimsDocuments t) = Some d \<and> ed_invoiceNo d = Some 1 \<and> ed_status d = ''QUEUED'' \<and>
     ed_lastError d = Some ''timeout''"
proof -
  let ?s = "snd (exec_etims demo_crypto demo_setup demo_install)"
  obtain r t where run: "fiscaliseDocument demo_crypto (Inr demo_refusal) ''acme'' ''0'' None ?s = (r, t)" by fastforce
  from fiscaliseDocument_concludes [OF demo_submittable run] run show ?thesis
    by (auto simp: concluded_def demo_refusal_def retryable_def submission_no_def demo_draft_def blank_document_def demo_device_def)
qed

end
