(* ===== verification/Web_Access.thy ===== *)
theory Web_Access
  imports Etims Identity Totp
begin

text \<open>
  The doors of apps/web: the guards of lib/api.ts and the routes under app/api/auth (login with its
  lockout and second factor, enrolment of the second factor, registration by invitation, logout).
  A handler is a command from the parts of the request it reads to a response; the status, the code and
  the message of a refusal are kept, of an answer the data and the session cookie.  The counter of the
  rate limiter, the random values, the pattern behind \<open>z.string().email()\<close> and the QR code are arguments;
  the start-up check of the secrets (\<open>secretsReady\<close>) is not part of the model.
\<close>

section \<open>Responses and requests\<close>

datatype 'a response = ApiError int string string | ApiOk 'a

text \<open>\<open>await request.json()\<close>: nothing when the body is no JSON.\<close>

definition withJson :: "jsval option \<Rightarrow> (jsval \<Rightarrow> 'a response cmd) \<Rightarrow> 'a response cmd" where
  "withJson body k = (case body of None \<Rightarrow> return (ApiError 400 ''BAD_REQUEST'' ''Invalid JSON body'') | Some b \<Rightarrow> k b)"

text \<open>\<open>(body as Record<string, unknown>).k\<close> throws on \<open>null\<close>.\<close>

definition property_of :: "string \<Rightarrow> jsval \<Rightarrow> jsval cmd" where
  "property_of k b = (if b = JNull then throw (PlainError (''Cannot read properties of null (reading '' @ [CHR 0x27] @ k @ [CHR 0x27] @ '')''))
     else return (js_lookup k b))"

text \<open>\<open>String(b.k ?? "")\<close>\<close>

definition body_field :: "string \<Rightarrow> jsval \<Rightarrow> string" where
  "body_field k b = js_string (js_nullish (js_lookup k b) (JString []))"

definition client_ip :: "string option \<Rightarrow> string option" where
  "client_ip forwardedFor = map_option (\<lambda>h. trim (takeWhile (\<lambda>c. c \<noteq> CHR '','') h)) forwardedFor"

section \<open>lib/api.ts\<close>

definition getSessionUser :: "crypto \<Rightarrow> string option \<Rightarrow> sessionUser option cmd" where
  "getSessionUser cr token = (if \<not> truthy token then return None else validateSession (cr_sha256 cr) (the token))"

definition requireUser :: "crypto \<Rightarrow> string option \<Rightarrow> (sessionUser \<Rightarrow> 'a response cmd) \<Rightarrow> 'a response cmd" where
  "requireUser cr token k = bind (getSessionUser cr token) (\<lambda>user. case user of
      None \<Rightarrow> return (ApiError 401 ''UNAUTHENTICATED'' ''Sign in to continue'')
    | Some u \<Rightarrow> k u)"

definition requirePlatformAdmin :: "crypto \<Rightarrow> string option \<Rightarrow> (sessionUser \<Rightarrow> 'a response cmd) \<Rightarrow> 'a response cmd" where
  "requirePlatformAdmin cr token k = requireUser cr token (\<lambda>u.
     bind (loadUserPermissions (su_userId u)) (\<lambda>perms.
     if list_ex (\<lambda>p. p \<in> set perms) [''admin.tenants'', ''admin.audit'', ''admin.health'', ''admin.pricing''] then k u
     else return (ApiError 403 ''FORBIDDEN'' ''Platform administrator access required'')))"

definition requirePermission ::
  "crypto \<Rightarrow> string \<Rightarrow> string option \<Rightarrow> (sessionUser \<Rightarrow> 'a response cmd) \<Rightarrow> 'a response cmd" where
  "requirePermission cr permission token k = requireUser cr token (\<lambda>u.
     bind (loadUserPermissions (su_userId u)) (\<lambda>perms.
     if permission \<in> set perms then k u
     else return (ApiError 403 ''FORBIDDEN'' (''You need the \"'' @ permission @ ''\" permission to do that.''))))"

text \<open>The counter of the window, nothing when the cache does not answer.\<close>

definition rateLimit :: "int option \<Rightarrow> int \<Rightarrow> bool" where
  "rateLimit count limit = (case count of None \<Rightarrow> True | Some c \<Rightarrow> c \<le> limit)"

section \<open>login/route.ts\<close>

record webEnv =
  we_crypto :: crypto
  we_hmac :: "byte list \<Rightarrow> byte list \<Rightarrow> byte list"
  we_emailFormat :: "string \<Rightarrow> bool"
  we_loginRateMax :: "int option"

record loginFields =
  lf_email :: string
  lf_password :: string
  lf_otpCode :: "string option"

definition loginSchema :: "(string \<Rightarrow> bool) \<Rightarrow> jsval \<Rightarrow> loginFields option" where
  "loginSchema emailFormat body = (case (js_lookup ''email'' body, js_lookup ''password'' body, js_lookup ''otpCode'' body) of
      (JString e, JString p, otp) \<Rightarrow>
        if \<not> emailFormat e \<or> p = [] then None
        else (case otp of JUndefined \<Rightarrow> Some \<lparr> lf_email = e, lf_password = p, lf_otpCode = None \<rparr>
          | JString c \<Rightarrow> if length c = 6 then Some \<lparr> lf_email = e, lf_password = p, lf_otpCode = Some c \<rparr> else None
          | _ \<Rightarrow> None)
    | _ \<Rightarrow> None)"

definition updateUser :: "string \<Rightarrow> (user \<Rightarrow> user) \<Rightarrow> unit cmd" where
  "updateUser uid f = modify (\<lambda>s. s\<lparr>users := update_rows (\<lambda>u. us_id u = uid) f (users s)\<rparr>)"

definition account_locked :: "int \<Rightarrow> user \<Rightarrow> bool" where
  "account_locked t u = (case us_lockedUntil u of None \<Rightarrow> False | Some until \<Rightarrow> t < until)"

definition LOCK_AFTER :: int where "LOCK_AFTER = 5"

definition LOCK_MS :: int where "LOCK_MS = 15 * 60000"

definition badPassword :: "string option \<Rightarrow> user \<Rightarrow> 'a response cmd" where
  "badPassword ip u = (let attempts = us_failedLoginAttempts u + 1; lock = (LOCK_AFTER \<le> attempts) in
     bind (gets now) (\<lambda>t.
     seq (updateUser (us_id u) (\<lambda>v. v\<lparr>us_failedLoginAttempts := attempts,
            us_lockedUntil := (if lock then Some (t + LOCK_MS) else None)\<rparr>))
     (seq (writeSecurityEvent (us_tenantId u) (Some (us_id u)) ''login.failed.bad_password''
             (Some (if lock then ''CRITICAL'' else ''WARN'')) (JObject [(''attempts'', JNumber attempts)]) ip)
          (return (ApiError 401 ''INVALID_CREDENTIALS'' ''Incorrect email or password'')))))"

text \<open>\<open>factors.some(...)\<close>: an undecryptable secret throws unless an earlier factor accepted the code.\<close>

primrec some_factor :: "webEnv \<Rightarrow> string \<Rightarrow> int \<Rightarrow> mfaFactor list \<Rightarrow> error + bool" where
  "some_factor env code t [] = Inr False"
| "some_factor env code t (f # fs) = (if mf_secretEncrypted f = [] then some_factor env code t fs
     else case decryptSecret (we_crypto env) (mf_secretEncrypted f) of
         Inl e \<Rightarrow> Inl e
       | Inr secret \<Rightarrow> if verifyTOTP (we_hmac env) secret code t then Inr True else some_factor env code t fs)"

definition enabled_factors :: "string \<Rightarrow> db \<Rightarrow> mfaFactor list" where
  "enabled_factors uid s = filter (\<lambda>f. mf_userId f = uid \<and> mf_enabled f) (mfaFactors s)"

definition unused_backup :: "crypto \<Rightarrow> string \<Rightarrow> string \<Rightarrow> mfaBackupCode \<Rightarrow> bool" where
  "unused_backup cr uid code b \<longleftrightarrow> bc_userId b = uid \<and> bc_codeHash b = cr_sha256 cr code \<and> bc_usedAt b = None"

definition useBackupCode :: "crypto \<Rightarrow> string \<Rightarrow> string \<Rightarrow> bool cmd" where
  "useBackupCode cr uid code = bind (gets (\<lambda>s. find (unused_backup cr uid code) (mfaBackupCodes s))) (\<lambda>backup. case backup of
      None \<Rightarrow> return False
    | Some b \<Rightarrow> seq (modify (\<lambda>s. s\<lparr>mfaBackupCodes := update_rows (\<lambda>x. bc_id x = bc_id b)
          (\<lambda>x. x\<lparr>bc_usedAt := Some (now s)\<rparr>) (mfaBackupCodes s)\<rparr>)) (return True))"

datatype loginAnswer = MfaRequired | SignedIn jsval string int

definition secondFactor ::
  "webEnv \<Rightarrow> string option \<Rightarrow> user \<Rightarrow> string option \<Rightarrow> loginAnswer response cmd \<Rightarrow> loginAnswer response cmd" where
  "secondFactor env ip u otpCode k =
     (if \<not> us_mfaEnabled u then k
      else if \<not> truthy otpCode then return (ApiOk MfaRequired)
      else bind (gets (\<lambda>s. (enabled_factors (us_id u) s, now s))) (\<lambda>(factors, t).
        bind (lift (some_factor env (the otpCode) t factors)) (\<lambda>valid.
        bind (if valid then return True else useBackupCode (we_crypto env) (us_id u) (the otpCode)) (\<lambda>accepted.
        if accepted then k
        else seq (writeSecurityEvent (us_tenantId u) (Some (us_id u)) ''login.failed.otp'' (Some ''WARN'') JUndefined ip)
               (return (ApiError 401 ''INVALID_OTP'' ''Incorrect verification code''))))))"

definition user_view :: "user \<Rightarrow> jsval" where
  "user_view u = JObject [(''id'', JString (us_id u)), (''email'', JString (us_email u)),
     (''fullName'', JString (us_fullName u)), (''mfaEnabled'', JBool (us_mfaEnabled u))]"

definition openSession :: "crypto \<Rightarrow> string \<Rightarrow> string option \<Rightarrow> string option \<Rightarrow> user \<Rightarrow> loginAnswer response cmd" where
  "openSession cr token ip userAgent u =
     bind (createSession (cr_sha256 cr) token \<lparr> cs_userId = us_id u, cs_tenantId = us_tenantId u, cs_ip = ip,
             cs_userAgent = userAgent, cs_deviceName = None, cs_ttlMs = None \<rparr>) (\<lambda>(token, expiresAt).
     bind (gets now) (\<lambda>t.
     seq (updateUser (us_id u) (\<lambda>v. v\<lparr>us_failedLoginAttempts := 0, us_lockedUntil := None, us_lastLoginAt := Some t\<rparr>))
     (seq (writeAuditEventFrom ip (us_tenantId u) (Some (us_id u)) None ''auth.login'' ''user'' (Some (us_id u)) JUndefined JUndefined)
     (seq (writeSecurityEvent (us_tenantId u) (Some (us_id u)) ''login.success'' None JUndefined ip)
          (return (ApiOk (SignedIn (user_view u) token expiresAt)))))))"

record loginRequest =
  lr_forwardedFor :: "string option"
  lr_userAgent :: "string option"
  lr_body :: "jsval option"

definition login_max :: "int option \<Rightarrow> int" where
  "login_max m = (case m of Some n \<Rightarrow> if 0 < n then n else 20 | None \<Rightarrow> 20)"

definition unknownUser :: "string option \<Rightarrow> user option \<Rightarrow> string \<Rightarrow> 'a response cmd" where
  "unknownUser ip row email =
     seq (writeSecurityEvent None (map_option us_id row) ''login.failed.unknown_user'' (Some ''WARN'')
            (JObject [(''email'', JString email)]) ip)
         (return (ApiError 401 ''INVALID_CREDENTIALS'' ''Incorrect email or password''))"

definition user_by_email :: "string \<Rightarrow> db \<Rightarrow> user option" where
  "user_by_email email s = find (\<lambda>u. us_email u = email) (users s)"

definition authenticate ::
  "webEnv \<Rightarrow> string \<Rightarrow> string option \<Rightarrow> string option \<Rightarrow> loginFields \<Rightarrow> loginAnswer response cmd" where
  "authenticate env token ip userAgent f =
     bind (gets (\<lambda>s. (user_by_email (toLowerCase (lf_email f)) s, now s))) (\<lambda>(row, t).
     case row of
       None \<Rightarrow> unknownUser ip None (lf_email f)
     | Some u \<Rightarrow>
        if \<not> truthy (us_passwordHash u) then unknownUser ip (Some u) (lf_email f)
        else if account_locked t u
        then return (ApiError 423 ''ACCOUNT_LOCKED'' ''Account temporarily locked after repeated failures'')
        else if \<not> verifyPassword (we_crypto env) (lf_password f) (the (us_passwordHash u)) then badPassword ip u
        else secondFactor env ip u (lf_otpCode f) (openSession (we_crypto env) token ip userAgent u))"

definition POST_login :: "webEnv \<Rightarrow> int option \<Rightarrow> string \<Rightarrow> loginRequest \<Rightarrow> loginAnswer response cmd" where
  "POST_login env count token r =
     (let ip = Some (nullish (client_ip (lr_forwardedFor r)) ''unknown'')
      in if \<not> rateLimit count (login_max (we_loginRateMax env))
         then return (ApiError 429 ''RATE_LIMITED'' (''Too many attempts '' @ em_dash @ '' try again shortly''))
         else withJson (lr_body r) (\<lambda>body.
           case loginSchema (we_emailFormat env) body of
             None \<Rightarrow> return (ApiError 400 ''VALIDATION'' ''Invalid email or password format'')
           | Some f \<Rightarrow> authenticate env token ip (lr_userAgent r) f))"

section \<open>logout/route.ts\<close>

definition POST_logout :: "crypto \<Rightarrow> string option \<Rightarrow> unit response cmd" where
  "POST_logout cr token =
     seq (whenM (truthy token) (revokeSession (cr_sha256 cr) (the token))) (return (ApiOk ()))"

section \<open>mfa/enroll, mfa/verify and mfa/disable\<close>

definition totpUri :: "string \<Rightarrow> string \<Rightarrow> string \<Rightarrow> string" where
  "totpUri secret account issuer =
     ''otpauth://totp/'' @ encodeURIComponent issuer @ '':'' @ encodeURIComponent account @ ''?secret='' @ secret @
     ''&issuer='' @ encodeURIComponent issuer @ ''&period='' @ show_int PERIOD @ ''&digits='' @ show_nat DIGITS"

text \<open>The answer of an enrolment: the secret, its URI and the QR code of the URI.\<close>

definition POST_enroll ::
  "webEnv \<Rightarrow> (string \<Rightarrow> string) \<Rightarrow> byte list \<Rightarrow> nat list \<Rightarrow> string option \<Rightarrow> (string \<times> string \<times> string) response cmd" where
  "POST_enroll env qr random20 iv token = requireUser (we_crypto env) token (\<lambda>user.
     bind (gets (enabled_factors (su_userId user))) (\<lambda>active.
     if active \<noteq> [] then return (ApiError 409 ''MFA_ALREADY_ENABLED'' ''Two-factor authentication is already enabled'')
     else let secret = generateTOTPSecret random20; stored = encryptSecret (we_crypto env) iv secret;
              url = totpUri secret (su_email user) ''Z-float'' in
       bind (gets (\<lambda>s. find (\<lambda>f. mf_userId f = su_userId user \<and> \<not> mf_enabled f) (mfaFactors s))) (\<lambda>existing.
       seq (case existing of
              Some f \<Rightarrow> modify (\<lambda>s. s\<lparr>mfaFactors := update_rows (\<lambda>g. mf_id g = mf_id f)
                (\<lambda>g. g\<lparr>mf_secretEncrypted := stored\<rparr>) (mfaFactors s)\<rparr>)
            | None \<Rightarrow> bind fresh_id (\<lambda>fid. modify (\<lambda>s. s\<lparr>mfaFactors := mfaFactors s @
                [\<lparr> mf_id = fid, mf_userId = su_userId user, mf_secretEncrypted = stored, mf_enabled = False,
                   mf_verifiedAt = None \<rparr>]\<rparr>)))
           (return (ApiOk (secret, url, qr url))))))"

text \<open>Eight codes of six digits, from the draws of the random generator.\<close>

definition generateBackupCodes :: "(nat \<Rightarrow> nat) \<Rightarrow> string list" where
  "generateBackupCodes draws = map (\<lambda>i. padStart 6 CHR ''0'' (show_nat (draws i))) [0..<8]"

definition insertBackupCode :: "crypto \<Rightarrow> string \<Rightarrow> string \<Rightarrow> unit cmd" where
  "insertBackupCode cr uid code = bind fresh_id (\<lambda>bid. modify (\<lambda>s. s\<lparr>mfaBackupCodes := mfaBackupCodes s @
     [\<lparr> bc_id = bid, bc_userId = uid, bc_codeHash = cr_sha256 cr code, bc_usedAt = None \<rparr>]\<rparr>))"

definition removeBackupCodes :: "string \<Rightarrow> unit cmd" where
  "removeBackupCodes uid = modify (\<lambda>s. s\<lparr>mfaBackupCodes := filter (\<lambda>b. bc_userId b \<noteq> uid) (mfaBackupCodes s)\<rparr>)"

definition enableFactor :: "webEnv \<Rightarrow> (nat \<Rightarrow> nat) \<Rightarrow> sessionUser \<Rightarrow> mfaFactor \<Rightarrow> string list response cmd" where
  "enableFactor env draws user factor =
     (let codes = generateBackupCodes draws in
      seq (modify (\<lambda>s. s\<lparr>mfaFactors := update_rows (\<lambda>g. mf_id g = mf_id factor)
             (\<lambda>g. g\<lparr>mf_enabled := True, mf_verifiedAt := Some (now s)\<rparr>) (mfaFactors s)\<rparr>))
      (seq (updateUser (su_userId user) (\<lambda>u. u\<lparr>us_mfaEnabled := True\<rparr>))
      (seq (removeBackupCodes (su_userId user))
      (seq (forEachM codes (insertBackupCode (we_crypto env) (su_userId user)))
      (seq (writeAuditEvent (su_tenantId user) (Some (su_userId user)) None ''mfa.enabled'' ''user'' (Some (su_userId user))
              JUndefined JUndefined)
           (return (ApiOk codes)))))))"

definition POST_mfa_verify ::
  "webEnv \<Rightarrow> (nat \<Rightarrow> nat) \<Rightarrow> string option \<Rightarrow> string option \<Rightarrow> jsval option \<Rightarrow> string list response cmd" where
  "POST_mfa_verify env draws token forwardedFor body = requireUser (we_crypto env) token (\<lambda>user.
     withJson body (\<lambda>b.
     bind (property_of ''code'' b) (\<lambda>raw.
     let code = trim (js_string (js_nullish raw (JString []))) in
     bind (gets (\<lambda>s. (find (\<lambda>f. mf_userId f = su_userId user \<and> \<not> mf_enabled f) (mfaFactors s), now s))) (\<lambda>(row, t).
     case row of
       None \<Rightarrow> return (ApiError 404 ''NO_PENDING_FACTOR'' ''Start enrollment first (POST /api/auth/mfa/enroll)'')
     | Some factor \<Rightarrow>
        bind (lift (decryptSecret (we_crypto env) (mf_secretEncrypted factor))) (\<lambda>secret.
        if \<not> verifyTOTP (we_hmac env) secret code t
        then seq (writeSecurityEvent (su_tenantId user) (Some (su_userId user)) ''mfa.enroll.failed_bad_code'' (Some ''WARN'')
                    JUndefined (client_ip forwardedFor))
                 (return (ApiError 400 ''INVALID_CODE'' (''That code did not match '' @ em_dash @ '' check your authenticator app'')))
        else enableFactor env draws user factor)))))"

text \<open>\<open>mfa/disable\<close>: only the first enabled factor is asked.\<close>

definition POST_mfa_disable :: "webEnv \<Rightarrow> string option \<Rightarrow> string option \<Rightarrow> jsval option \<Rightarrow> unit response cmd" where
  "POST_mfa_disable env token forwardedFor body = requireUser (we_crypto env) token (\<lambda>user.
     withJson body (\<lambda>b.
     bind (property_of ''code'' b) (\<lambda>raw.
     let code = trim (js_string (js_nullish raw (JString []))) in
     if code = [] then return (ApiError 400 ''CODE_REQUIRED'' ''Enter your current verification code'')
     else bind (gets (\<lambda>s. (enabled_factors (su_userId user) s, now s))) (\<lambda>(factors, t).
       bind (case factors of [] \<Rightarrow> return False
             | f # _ \<Rightarrow> bind (lift (decryptSecret (we_crypto env) (mf_secretEncrypted f))) (\<lambda>secret.
                 return (verifyTOTP (we_hmac env) secret code t))) (\<lambda>valid.
       bind (if valid then return True else useBackupCode (we_crypto env) (su_userId user) code) (\<lambda>accepted.
       if \<not> accepted
       then seq (writeSecurityEvent (su_tenantId user) (Some (su_userId user)) ''mfa.disable.failed_bad_code'' (Some ''WARN'')
                   JUndefined (client_ip forwardedFor))
                (return (ApiError 400 ''INVALID_CODE'' ''That code did not match''))
       else seq (modify (\<lambda>s. s\<lparr>mfaFactors := filter (\<lambda>f. mf_userId f \<noteq> su_userId user) (mfaFactors s)\<rparr>))
           (seq (removeBackupCodes (su_userId user))
           (seq (updateUser (su_userId user) (\<lambda>u. u\<lparr>us_mfaEnabled := False\<rparr>))
           (seq (writeAuditEvent (su_tenantId user) (Some (su_userId user)) None ''mfa.disabled'' ''user'' (Some (su_userId user))
                   JUndefined JUndefined)
                (return (ApiOk ())))))))))))"

section \<open>register/route.ts\<close>

text \<open>\<open>/^[^\s@]+@[^\s@]+\.[^\s@]+$/\<close>\<close>

definition email_shape :: "string \<Rightarrow> bool" where
  "email_shape s = (let l = takeWhile (\<lambda>c. c \<noteq> CHR ''@'') s; d = drop (Suc (length l)) s in
     l \<noteq> [] \<and> list_all (\<lambda>c. \<not> is_space c \<and> c \<noteq> CHR ''@'') (l @ d) \<and> CHR ''.'' \<in> set (tl (butlast d)))"

definition insertUser :: "string option \<Rightarrow> string \<Rightarrow> string \<Rightarrow> string \<Rightarrow> user cmd" where
  "insertUser tenantId email fullName passwordHash =
     bind fresh_id (\<lambda>uid.
     bind (gets (\<lambda>s. tenantId \<noteq> None \<and> (\<exists>u \<in> set (users s). us_tenantId u = tenantId \<and> us_email u = email))) (\<lambda>taken.
     seq (guard (\<not> taken) (DbUnique ''users_email_tenant_uidx''))
     (bind (gets now) (\<lambda>t.
      let u = \<lparr> us_id = uid, us_tenantId = tenantId, us_email = email, us_phone = None, us_fullName = fullName,
        us_passwordHash = Some passwordHash, us_status = ''ACTIVE'', us_mfaEnabled = False, us_mfaSecretEncrypted = None,
        us_failedLoginAttempts = 0, us_lockedUntil = None, us_lastLoginAt = None, us_createdAt = t \<rparr>
      in seq (modify (\<lambda>s. s\<lparr>users := users s @ [u]\<rparr>)) (return u)))))"

text \<open>The foreign key of the role; the primary key of the table cannot be taken by a new user.\<close>

definition insertUserRole :: "string \<Rightarrow> string \<Rightarrow> string \<Rightarrow> unit cmd" where
  "insertUserRole userId roleId tenantId =
     bind (gets (\<lambda>s. roleId \<in> ro_id ` set (roles s))) (\<lambda>known.
     seq (guard known (DbForeignKey ''user_roles_role_id_fk''))
         (modify (\<lambda>s. s\<lparr>userRoles := userRoles s @
            [\<lparr> ur_userId = userId, ur_roleId = roleId, ur_tenantId = tenantId \<rparr>]\<rparr>)))"

definition invitation_refusal :: "invitation \<Rightarrow> string \<Rightarrow> (jsval \<times> string \<times> int) response option" where
  "invitation_refusal invite email =
     (if iv_acceptedAt invite \<noteq> None then Some (ApiError 400 ''INVITE_USED'' ''This invitation has already been used'')
      else if toLowerCase (iv_email invite) \<noteq> email
      then Some (ApiError 400 ''EMAIL_MISMATCH'' ''Use the email address the invitation was sent to'')
      else if iv_roleApprovalStatus invite = RA_PENDING
      then Some (ApiError 403 ''ROLE_AWAITING_APPROVAL''
        (''This invitation is awaiting an approver'' @ [CHR 0x27] @ ''s sign-off. Once an independent checker approves '' @
         ''the role grant in the Approval center, you can complete registration with this link.''))
      else if iv_roleApprovalStatus invite = RA_REJECTED
      then Some (ApiError 403 ''ROLE_INVITE_REJECTED''
        (''This invitation'' @ [CHR 0x27] @ ''s role grant was rejected by an approver. Ask your workspace owner to send a new invitation.''))
      else None)"

definition joinWorkspace ::
  "crypto \<Rightarrow> nat list \<Rightarrow> string \<Rightarrow> invitation \<Rightarrow> string \<Rightarrow> string \<Rightarrow> string \<Rightarrow> (jsval \<times> string \<times> int) response cmd" where
  "joinWorkspace cr salt token invite email fullName password =
     bind (insertUser (Some (iv_tenantId invite)) email fullName (hashPassword cr salt password)) (\<lambda>u.
     seq (insertUserRole (us_id u) (iv_roleId invite) (iv_tenantId invite))
     (seq (modify (\<lambda>s. s\<lparr>invitations := update_rows (\<lambda>i. iv_id i = iv_id invite)
             (\<lambda>i. i\<lparr>iv_acceptedAt := Some (now s)\<rparr>) (invitations s)\<rparr>))
     (bind (createSession (cr_sha256 cr) token \<lparr> cs_userId = us_id u, cs_tenantId = us_tenantId u, cs_ip = None,
              cs_userAgent = None, cs_deviceName = None, cs_ttlMs = None \<rparr>) (\<lambda>(token, expiresAt).
      return (ApiOk (JObject [(''id'', JString (us_id u)), (''email'', JString (us_email u)),
        (''fullName'', JString (us_fullName u))], token, expiresAt))))))"

definition POST_register ::
  "crypto \<Rightarrow> int option \<Rightarrow> nat list \<Rightarrow> string \<Rightarrow> jsval option \<Rightarrow> (jsval \<times> string \<times> int) response cmd" where
  "POST_register cr count salt token body =
     (if \<not> rateLimit count 10
      then return (ApiError 429 ''RATE_LIMITED'' (''Too many attempts '' @ em_dash @ '' try again shortly''))
      else withJson body (\<lambda>b.
       let email = toLowerCase (trim (body_field ''email'' b)); password = body_field ''password'' b;
           fullName = trim (body_field ''fullName'' b); inviteToken = trim (body_field ''inviteToken'' b) in
       if \<not> email_shape email then return (ApiError 400 ''INVALID_EMAIL'' ''Enter a valid email address'')
       else if length password < 10 then return (ApiError 400 ''WEAK_PASSWORD'' ''Password must be at least 10 characters'')
       else if inviteToken = []
       then return (ApiError 400 ''INVITE_REQUIRED''
         ''Registration is invite-based. Ask your workspace owner for an invitation link.'')
       else bind (gets (\<lambda>s. find (\<lambda>i. iv_tokenHash i = cr_sha256 cr inviteToken \<and> now s < iv_expiresAt i) (invitations s))) (\<lambda>row.
        case row of
          None \<Rightarrow> return (ApiError 400 ''INVALID_INVITE'' ''This invitation is invalid or has expired'')
        | Some invite \<Rightarrow> (case invitation_refusal invite email of
            Some refusal \<Rightarrow> return refusal
          | None \<Rightarrow> bind (gets (user_by_email email)) (\<lambda>existing.
              if existing \<noteq> None then return (ApiError 409 ''EMAIL_TAKEN'' ''An account with this email already exists'')
              else joinWorkspace cr salt token invite email fullName password)))))"

end
