(* ===== verification/Web_Team.thy ===== *)
theory Web_Team
  imports Web_Access Webhooks Execution Bulk Tenant_Policy
begin

text \<open>
  The routes of apps/web behind which maker and checker meet: invitations to the workspace (app/api/team,
  lib/invite-controls.ts), the approval centre (app/api/approvals) and the payment routes (app/api/payments).
  A session without a tenant stands for a platform user; its tenant is the empty string, which no row has, as
  \<open>tenant_id = NULL\<close> matches none.  Answers are the \<open>data\<close> of the response.  The payment provider, the random
  identifiers and the local date format are arguments.
\<close>

definition session_tenant :: "sessionUser \<Rightarrow> string" where
  "session_tenant u = nullish (su_tenantId u) []"

section \<open>lib/invite-controls.ts\<close>

definition ROLE_APPROVAL_SENSITIVE_PERMISSIONS :: "string list" where
  "ROLE_APPROVAL_SENSITIVE_PERMISSIONS = [''payment.approve'', ''batch.approve'', ''payment.reverse'', ''team.manage'',
     ''settings.manage'', ''approvals.manage'']"

definition INVITE_APPROVER_ROLES :: "string list" where
  "INVITE_APPROVER_ROLES = [''APPROVER'', ''FINANCE_MANAGER'', ''OWNER'']"

definition role_sensitive :: "string \<Rightarrow> db \<Rightarrow> bool" where
  "role_sensitive roleId s \<longleftrightarrow> list_ex (\<lambda>rp. rp_roleId rp = roleId \<and>
     list_ex (\<lambda>p. pm_id p = rp_permissionId rp \<and> pm_code p \<in> set ROLE_APPROVAL_SENSITIVE_PERMISSIONS) (permissions s)) (rolePermissions s)"

definition roleGrantRequiresApproval :: "string \<Rightarrow> bool cmd" where
  "roleGrantRequiresApproval roleId = gets (role_sensitive roleId)"

definition createInviteRoleApprovalRequest :: "string \<Rightarrow> string \<Rightarrow> string \<Rightarrow> string cmd" where
  "createInviteRoleApprovalRequest tenantId inviteId createdById =
     createApprovalRequest
       \<lparr> ca_tenantId = tenantId, ca_paymentId = None, ca_batchId = None, ca_resourceType = Some ''invite'',
         ca_resourceId = Some inviteId, ca_policyId = None, ca_rules = [plain_rule ANY INVITE_APPROVER_ROLES 1 0],
         ca_context = control_context 0 ''control'' ''internal'', ca_metadata = JUndefined,
         ca_createdById = createdById, ca_dueAt = None \<rparr>"

definition applyInviteRoleDecision :: "string \<Rightarrow> role_approval \<Rightarrow> string \<Rightarrow> unit cmd" where
  "applyInviteRoleDecision inviteId decision actorId = modify (\<lambda>s. s\<lparr>invitations :=
     update_rows (\<lambda>i. iv_id i = inviteId) (\<lambda>i. i\<lparr>iv_roleApprovalStatus := decision, iv_roleApprovedById := Some actorId\<rparr>)
       (invitations s)\<rparr>)"

section \<open>queueNotification\<close>

text \<open>The row is stored; the delivery job of the other channels is best effort and touches no table.\<close>

definition queueNotification ::
  "string option \<Rightarrow> string option \<Rightarrow> string \<Rightarrow> string option \<Rightarrow> string option \<Rightarrow> string \<Rightarrow> jsval \<Rightarrow> string cmd" where
  "queueNotification tenantId userId channel templateCode title body data =
     bind fresh_id (\<lambda>nid.
     seq (modify (\<lambda>s. s\<lparr>notifications := notifications s @
            [\<lparr> nt_id = nid, nt_tenantId = tenantId, nt_userId = userId, nt_channel = channel, nt_templateCode = templateCode,
               nt_title = title, nt_body = Some body, nt_data = to_jsonb data, nt_sentAt = None, nt_status = ''QUEUED'',
               nt_createdAt = now s \<rparr>]\<rparr>))
         (return nid))"

section \<open>team/route.ts\<close>

record inviteEnv =
  ie_demoMode :: bool
  ie_baseUrl :: string
  ie_localeString :: "int \<Rightarrow> string"

definition INVITE_TTL_MS :: int where
  "INVITE_TTL_MS = 7 * 86400000"

definition uuid_shape :: "string \<Rightarrow> bool" where
  "uuid_shape s \<longleftrightarrow> (let ps = split_on CHR ''-'' s in map length ps = [8, 4, 4, 4, 12] \<and>
     list_all (list_all (\<lambda>c. hex_value c \<noteq> None)) ps)"

definition insertInvitation :: "crypto \<Rightarrow> inviteEnv \<Rightarrow> string \<Rightarrow> sessionUser \<Rightarrow> string \<Rightarrow> string \<Rightarrow> string cmd" where
  "insertInvitation cr ie rawToken user email roleId =
     bind (require (su_tenantId user) (PlainError ''null value in column tenant_id violates not-null constraint'')) (\<lambda>tenantId.
     bind fresh_id (\<lambda>iid.
     bind (gets (\<lambda>s. (cr_sha256 cr rawToken \<in> iv_tokenHash ` set (invitations s), now s))) (\<lambda>(dup, t).
     seq (guard (\<not> dup) (DbUnique ''invitations_token_hash_uidx''))
     (seq (modify (\<lambda>s. s\<lparr>invitations := invitations s @
            [\<lparr> iv_id = iid, iv_tenantId = tenantId, iv_email = email, iv_roleId = roleId, iv_tokenHash = cr_sha256 cr rawToken,
               iv_rawToken = (if ie_demoMode ie then Some rawToken else None), iv_invitedById = Some (su_userId user),
               iv_roleApprovalStatus = RA_NONE, iv_roleApprovedById = None, iv_expiresAt = t + INVITE_TTL_MS,
               iv_acceptedAt = None, iv_createdAt = t \<rparr>]\<rparr>))
          (return iid)))))"

text \<open>The gate of a privileged role: the approval request, and nothing for the other roles.\<close>

definition roleGate :: "sessionUser \<Rightarrow> string \<Rightarrow> string \<Rightarrow> string option cmd" where
  "roleGate user roleId inviteId = transaction (
     bind (roleGrantRequiresApproval roleId) (\<lambda>requiresApproval.
     if \<not> requiresApproval then return None
     else bind (createInviteRoleApprovalRequest (session_tenant user) inviteId (su_userId user)) (\<lambda>rid.
       seq (modify (\<lambda>s. s\<lparr>invitations := update_rows (\<lambda>i. iv_id i = inviteId)
              (\<lambda>i. i\<lparr>iv_roleApprovalStatus := RA_PENDING\<rparr>) (invitations s)\<rparr>))
           (return (Some rid)))))"

definition LF :: string where "LF = [CHR 0x0A]"

definition APOSTROPHE :: string where "APOSTROPHE = [CHR 0x27]"

definition invite_url :: "inviteEnv \<Rightarrow> string \<Rightarrow> string" where
  "invite_url ie rawToken = ie_baseUrl ie @ ''/register?invite='' @ rawToken"

definition invite_message :: "inviteEnv \<Rightarrow> string \<Rightarrow> role \<Rightarrow> string \<Rightarrow> int \<Rightarrow> string" where
  "invite_message ie email role rawToken expiresAt = (if ie_demoMode ie
     then ''Invitation created for '' @ email @ '' '' @ em_dash @ '' share this link with them (demo):'' @ LF @ LF @ invite_url ie rawToken @
       LF @ LF @ ''Valid until '' @ ie_localeString ie expiresAt @ ''.''
     else ''You'' @ APOSTROPHE @ ''ve been invited to '' @ ro_name role @ '' by your workspace owner.'' @ LF @ LF @
       ''Accept with this link (valid 7 days):'' @ LF @ invite_url ie rawToken @ LF @ LF @
       ''If you didn'' @ APOSTROPHE @ ''t expect this invite you can ignore this email.'')"

definition deliverInvite ::
  "inviteEnv \<Rightarrow> sessionUser \<Rightarrow> string \<Rightarrow> role \<Rightarrow> string \<Rightarrow> int \<Rightarrow> (string \<times> string option) cmd" where
  "deliverInvite ie user email role rawToken expiresAt =
     (let channel = (if ie_demoMode ie then ''IN_APP'' else ''EMAIL'') in
      catch (bind (queueNotification (su_tenantId user) (Some (su_userId user)) channel (Some ''team.invite'')
               (Some (if ie_demoMode ie then ''Team invitation created (demo)''
                      else ''You'' @ APOSTROPHE @ ''re invited to join '' @ ro_name role))
               (invite_message ie email role rawToken expiresAt)
               (JObject (if ie_demoMode ie
                  then [(''inviteEmail'', JString email), (''role'', JString (ro_name role)), (''expiresAt'', JString (toISOString expiresAt)),
                        (''inviteUrl'', JString (invite_url ie rawToken)), (''from'', JString (su_email user))]
                  else [(''inviteEmail'', JString email), (''role'', JString (ro_name role)), (''expiresAt'', JString (toISOString expiresAt)),
                        (''to'', JString email)])))
             (\<lambda>nid. return (channel, Some nid)))
        (\<lambda>e. return (''none'', None)))"

definition invite_answer :: "string \<Rightarrow> role \<Rightarrow> string \<times> string option \<Rightarrow> string \<Rightarrow> int \<Rightarrow> string option \<Rightarrow> jsval" where
  "invite_answer email role delivery inviteId expiresAt gate = JObject
     [(''invited'', JString email), (''role'', JString (ro_name role)), (''channel'', JString (fst delivery)),
      (''deliveryId'', js_null_opt (snd delivery)), (''invitationId'', JString inviteId),
      (''expiresAt'', JString (toISOString expiresAt)),
      (''roleApprovalStatus'', JString (if gate = None then ''NONE'' else ''PENDING'')),
      (''roleApprovalRequestId'', js_null_opt gate),
      (''roleApprovalNote'', if gate = None then JNull else JString (''Inviting a user into the '' @ ro_name role @
         '' role is pending approval '' @ em_dash @ '' an independent checker must sign off in the Approval center before this invite can be used.''))]"

definition inviteMember ::
  "crypto \<Rightarrow> inviteEnv \<Rightarrow> string \<Rightarrow> sessionUser \<Rightarrow> string \<Rightarrow> role \<Rightarrow> jsval response cmd" where
  "inviteMember cr ie uuid user email role =
     (let rawToken = ''inv-'' @ uuid in
      bind (insertInvitation cr ie rawToken user email (ro_id role)) (\<lambda>inviteId.
      bind (roleGate user (ro_id role) inviteId) (\<lambda>gate.
      bind (gets (\<lambda>s. now s + INVITE_TTL_MS)) (\<lambda>expiresAt.
      bind (deliverInvite ie user email role rawToken expiresAt) (\<lambda>delivery.
      return (ApiOk (invite_answer email role delivery inviteId expiresAt gate)))))))"

definition POST_team :: "crypto \<Rightarrow> inviteEnv \<Rightarrow> string \<Rightarrow> string option \<Rightarrow> jsval option \<Rightarrow> jsval response cmd" where
  "POST_team cr ie uuid token body = requireUser cr token (\<lambda>user.
     bind (loadUserPermissions (su_userId user)) (\<lambda>perms.
     if ''team.manage'' \<notin> set perms then return (ApiError 403 ''FORBIDDEN'' ''You need team.manage permission'')
     else withJson body (\<lambda>b.
       let email = toLowerCase (trim (body_field ''email'' b)); roleId = body_field ''roleId'' b in
       if CHR ''@'' \<notin> set email then return (ApiError 400 ''INVALID_EMAIL'' ''Enter a valid email'')
       else if \<not> uuid_shape roleId then return (ApiError 400 ''INVALID_ROLE'' ''Choose a role in your workspace'')
       else bind (gets (\<lambda>s. find (\<lambda>r. ro_id r = roleId) (roles s))) (\<lambda>row. case row of
           None \<Rightarrow> return (ApiError 400 ''INVALID_ROLE'' ''Choose a role in your workspace'')
         | Some role \<Rightarrow>
            if ro_tenantId role \<noteq> None \<and> ro_tenantId role \<noteq> su_tenantId user
            then return (ApiError 400 ''INVALID_ROLE'' ''Choose a role in your workspace'')
            else bind (gets (\<lambda>s. \<exists>i \<in> set (invitations s). iv_email i = email)) (\<lambda>existing.
              if existing then return (ApiError 409 ''ALREADY_INVITED'' ''This email already has a pending invitation'')
              else inviteMember cr ie uuid user email role)))))"

text \<open>The demo bridge that shows the link of an invitation to its maker.\<close>

definition POST_invite_notice :: "crypto \<Rightarrow> inviteEnv \<Rightarrow> string option \<Rightarrow> jsval option \<Rightarrow> jsval response cmd" where
  "POST_invite_notice cr ie token body =
     (if \<not> ie_demoMode ie then return (ApiError 404 ''NOT_FOUND'' ''Not available in production'')
      else requireUser cr token (\<lambda>user.
        bind (property_of ''inviteId'' (nullish body (JObject []))) (\<lambda>raw.
        let inviteId = js_string (js_nullish raw (JString [])) in
        if length inviteId \<noteq> 36 \<or> \<not> list_all (\<lambda>c. hex_value c \<noteq> None \<or> c = CHR ''-'') inviteId
        then return (ApiError 400 ''BAD_REQUEST'' ''Missing invite id'')
        else bind (gets (\<lambda>s. find (\<lambda>i. iv_id i = inviteId) (invitations s))) (\<lambda>row. case row of
            None \<Rightarrow> return (ApiError 404 ''NOT_FOUND'' ''No such invitation'')
          | Some i \<Rightarrow>
             if iv_invitedById i \<noteq> Some (su_userId user) then return (ApiError 404 ''NOT_FOUND'' ''No such invitation'')
             else if iv_acceptedAt i \<noteq> None then return (ApiError 409 ''ALREADY_ACCEPTED'' ''This invitation was already accepted'')
             else if \<not> truthy (iv_rawToken i) then return (ApiError 404 ''NOT_FOUND'' ''No demo token stored for this invitation'')
             else return (ApiOk (JObject [(''inviteUrl'', JString (invite_url ie (the (iv_rawToken i)))),
               (''email'', JString (iv_email i)), (''expiresAt'', JString (toISOString (iv_expiresAt i)))]))))))"

section \<open>approvals/route.ts\<close>

definition optional_text :: "string \<Rightarrow> jsval \<Rightarrow> string option" where
  "optional_text k b = (if js_truthy (js_lookup k b) then Some (js_string (js_lookup k b)) else None)"

definition approved_action :: "paymentProvider \<Rightarrow> sessionUser \<Rightarrow> approvalRequest \<Rightarrow> unit cmd" where
  "approved_action provider user req =
     (if truthy (ar_paymentId req)
      then seq (approveQueuedPayment (session_tenant user) (the (ar_paymentId req)) (su_userId user)) (return ())
      else if truthy (ar_batchId req) then approveBatch (session_tenant user) (the (ar_batchId req)) (su_userId user)
      else if ar_resourceType req = Some ''beneficiary'' \<and> truthy (ar_resourceId req)
      then activateBeneficiary (ar_tenantId req) (the (ar_resourceId req)) (su_userId user)
      else if ar_resourceType req = Some ''reversal'' \<and> truthy (ar_resourceId req)
      then seq (executeApprovedReversal (ar_tenantId req) (the (ar_resourceId req)) (su_userId user)
             (js_string (js_nullish (js_lookup ''reason'' (sn_metadata (ar_policySnapshot req))) (JString ''Approved reversal'')))
             provider) (return ())
      else if ar_resourceType req = Some ''invite'' \<and> truthy (ar_resourceId req)
      then applyInviteRoleDecision (the (ar_resourceId req)) RA_APPROVED (su_userId user)
      else return ())"

definition rejected_action :: "sessionUser \<Rightarrow> approvalRequest \<Rightarrow> unit cmd" where
  "rejected_action user req =
     (if ar_resourceType req = Some ''beneficiary'' \<and> truthy (ar_resourceId req)
      then rejectBeneficiary (ar_tenantId req) (the (ar_resourceId req)) (su_userId user)
      else if ar_resourceType req = Some ''invite'' \<and> truthy (ar_resourceId req)
      then applyInviteRoleDecision (the (ar_resourceId req)) RA_REJECTED (su_userId user)
      else return ())"

definition decideRequest ::
  "paymentProvider \<Rightarrow> sessionUser \<Rightarrow> string \<Rightarrow> decision \<Rightarrow> string option \<Rightarrow> (request_status \<times> string) response cmd" where
  "decideRequest provider user requestId decision note =
     bind (recordApprovalAction \<lparr> ai_requestId = requestId, ai_actorId = su_userId user,
             ai_actorRoles = [''APPROVER'', ''FINANCE_MANAGER'', ''OWNER''], ai_decision = decision, ai_comment = note,
             ai_delegatedForId = None \<rparr>) (\<lambda>outcome.
     seq (bind (gets (\<lambda>s. find (\<lambda>r. ar_id r = requestId) (approvalRequests s))) (\<lambda>row. case row of
            None \<Rightarrow> return ()
          | Some req \<Rightarrow>
             if fst outcome = AR_APPROVED then approved_action provider user req
             else if fst outcome = AR_REJECTED then rejected_action user req
             else return ()))
         (return (ApiOk outcome)))"

definition POST_approvals ::
  "crypto \<Rightarrow> paymentProvider \<Rightarrow> string option \<Rightarrow> jsval option \<Rightarrow> (request_status \<times> string) response cmd" where
  "POST_approvals cr provider token body = requireUser cr token (\<lambda>user. withJson body (\<lambda>b.
     let decision = (if js_lookup ''decision'' b = JString ''reject'' then REJECT else APPROVE) in
     bind (loadUserPermissions (su_userId user)) (\<lambda>perms.
     if ''payment.approve'' \<notin> set perms \<and> ''batch.approve'' \<notin> set perms
     then return (ApiError 403 ''FORBIDDEN'' ''You do not have approval rights'')
     else catch (decideRequest provider user (body_field ''requestId'' b) decision (optional_text ''comment'' b))
            (\<lambda>e. return (ApiError 400 ''APPROVAL_FAILED'' (error_message e))))))"

end
