(* ===== verification/Web_Payments.thy ===== *)
theory Web_Payments
  imports Web_Team
begin

text \<open>
  The payment routes of apps/web: app/api/payments/route.ts (create, and submit at once when asked) and
  app/api/payments/[id]/route.ts (submit, cancel, ask for a reversal, approve), over the commands of
  packages/payments-core and packages/approvals.
\<close>

section \<open>payments/[id]/route.ts\<close>

definition submitted_answer :: jsval where
  "submitted_answer = JObject [(''action'', JString ''submit''), (''ok'', JBool True)]"

definition submitAction :: "bool \<Rightarrow> sessionUser \<Rightarrow> string \<Rightarrow> jsval response cmd" where
  "submitAction demoMode user pid =
     bind (resolveApprovalRulesForSubmit demoMode (session_tenant user)) (\<lambda>policy. case policy of
       Inl (code, message) \<Rightarrow> return (ApiError 409 code message)
     | Inr (rules, source) \<Rightarrow>
        seq (submitPayment (session_tenant user) pid (su_userId user) (Some rules)) (return (ApiOk submitted_answer)))"

definition cancelAction :: "sessionUser \<Rightarrow> string \<Rightarrow> jsval \<Rightarrow> jsval response cmd" where
  "cancelAction user pid b =
     seq (cancelPayment (session_tenant user) pid (su_userId user)
            (Some (js_string (js_nullish (js_lookup ''reason'' b) (JString ''cancelled'')))))
         (return (ApiOk (JObject [(''action'', JString ''cancel''), (''ok'', JBool True)])))"

definition reverseAction :: "sessionUser \<Rightarrow> string \<Rightarrow> jsval \<Rightarrow> jsval response cmd" where
  "reverseAction user pid b = bind (loadUserPermissions (su_userId user)) (\<lambda>perms.
     if ''payment.reverse'' \<notin> set perms then return (ApiError 403 ''FORBIDDEN'' ''You do not have reversal rights'')
     else bind (requestReversalApproval (session_tenant user) pid (su_userId user)
            (js_string (js_nullish (js_lookup ''reason'' b) (JString ''Requested by customer'')))) (\<lambda>rid.
          return (ApiOk (JObject [(''action'', JString ''reverse''), (''ok'', JBool True), (''status'', JString ''APPROVAL_PENDING''),
            (''approvalRequestId'', JString rid),
            (''message'', JString (''Reversal request submitted '' @ em_dash @ '' an approver must sign off before funds move.''))]))))"

definition pending_request :: "string \<Rightarrow> db \<Rightarrow> approvalRequest option" where
  "pending_request pid s = find (\<lambda>r. ar_paymentId r = Some pid \<and> ar_status r = AR_PENDING) (approvalRequests s)"

definition approveAction :: "sessionUser \<Rightarrow> string \<Rightarrow> jsval \<Rightarrow> jsval response cmd" where
  "approveAction user pid b = bind (loadUserPermissions (su_userId user)) (\<lambda>perms.
     if ''payment.approve'' \<notin> set perms then return (ApiError 403 ''FORBIDDEN'' ''You do not have approval rights'')
     else bind (gets (pending_request pid)) (\<lambda>req. case req of
         None \<Rightarrow> seq (approveQueuedPayment (session_tenant user) pid (su_userId user))
           (return (ApiOk (JObject [(''action'', JString ''approve''), (''ok'', JBool True)])))
       | Some r \<Rightarrow>
          bind (recordApprovalAction \<lparr> ai_requestId = ar_id r, ai_actorId = su_userId user,
                  ai_actorRoles = map (\<lambda>_. ''APPROVER'') (filter (starts_with ''payment.'') perms),
                  ai_decision = (if js_string (js_nullish (js_lookup ''decision'' b) (JString ''approve'')) = ''approve''
                    then APPROVE else REJECT),
                  ai_comment = optional_text ''comment'' b, ai_delegatedForId = None \<rparr>) (\<lambda>(status, rid).
          seq (if status = AR_APPROVED
               then seq (approveQueuedPayment (session_tenant user) pid (su_userId user)) (return ()) else return ())
              (return (ApiOk (JObject [(''action'', JString ''approve''), (''ok'', JBool True),
                 (''outcome'', JString (request_status_name status))]))))))"

definition POST_payment_action ::
  "crypto \<Rightarrow> bool \<Rightarrow> string \<Rightarrow> string option \<Rightarrow> jsval option \<Rightarrow> jsval response cmd" where
  "POST_payment_action cr demoMode pid token body = requireUser cr token (\<lambda>user. withJson body (\<lambda>b.
     bind (property_of ''action'' b) (\<lambda>raw.
     let action = js_string (js_nullish raw (JString [])) in
     catch (if action = ''submit'' then submitAction demoMode user pid
            else if action = ''cancel'' then cancelAction user pid b
            else if action = ''reverse'' then reverseAction user pid b
            else if action = ''approve'' then approveAction user pid b
            else return (ApiError 400 ''UNKNOWN_ACTION'' (''Unknown action: '' @ action)))
       (\<lambda>e. return (ApiError 400 ''ACTION_FAILED'' (error_message e))))))"

section \<open>payments/route.ts\<close>

definition recipient_of :: "jsval \<Rightarrow> recipient" where
  "recipient_of r = \<lparr> rc_name = body_field ''name'' r, rc_phone = optional_text ''phone'' r, rc_email = optional_text ''email'' r,
     rc_bankAccountName = optional_text ''bankAccountName'' r, rc_bankAccountNumber = optional_text ''bankAccountNumber'' r,
     rc_bankCode = optional_text ''bankCode'' r, rc_tillNumber = optional_text ''tillNumber'' r,
     rc_paybillNumber = optional_text ''paybillNumber'' r, rc_paybillAccount = optional_text ''paybillAccount'' r, rc_type = None \<rparr>"

definition payment_input :: "sessionUser \<Rightarrow> string \<Rightarrow> jsval \<Rightarrow> createPaymentInput" where
  "payment_input user uuid b = \<lparr> cp_tenantId = session_tenant user, cp_actorId = su_userId user, cp_amount = body_field ''amount'' b,
     cp_channel = js_string (js_nullish (js_lookup ''channel'' b) (JString ''mpesa'')),
     cp_product = Some (js_string (js_nullish (js_lookup ''product'' b) (JString ''single_payment''))),
     cp_sourceWalletId = body_field ''walletId'' b, cp_branchId = optional_text ''branchId'' b,
     cp_departmentId = optional_text ''departmentId'' b, cp_category = optional_text ''category'' b,
     cp_remark = optional_text ''remark'' b, cp_recipient = recipient_of (js_lookup ''recipient'' b),
     cp_idempotencyKey = js_string (js_nullish (js_lookup ''idempotencyKey'' b) (JString (''web-'' @ uuid))),
     cp_providerCode = None \<rparr>"

definition with_status :: "string \<Rightarrow> jsval \<Rightarrow> jsval" where
  "with_status st v = JObject (js_set ''status'' (JString st) (js_fields v))"

definition submitCreated :: "bool \<Rightarrow> sessionUser \<Rightarrow> bool \<Rightarrow> jsval \<Rightarrow> jsval response cmd" where
  "submitCreated demoMode user replayed payment =
     (let pid = js_string (js_lookup ''paymentId'' payment) in
      if replayed
      then bind (gets (\<lambda>s. find (\<lambda>p. p_id p = pid) (payments s))) (\<lambda>current.
        return (ApiOk (case current of None \<Rightarrow> payment | Some p \<Rightarrow> with_status (state_name (p_status p)) payment)))
      else bind (resolveApprovalRulesForSubmit demoMode (session_tenant user)) (\<lambda>policy. case policy of
          Inl (code, message) \<Rightarrow> return (ApiError 409 code message)
        | Inr (rules, source) \<Rightarrow>
           bind (submitPayment (session_tenant user) pid (su_userId user) (Some rules)) (\<lambda>(st, rid).
           return (ApiOk (with_status (state_name st) payment)))))"

definition POST_payments ::
  "crypto \<Rightarrow> bool \<Rightarrow> string \<Rightarrow> string option \<Rightarrow> jsval option \<Rightarrow> jsval response cmd" where
  "POST_payments cr demoMode uuid token body = requireUser cr token (\<lambda>user. withJson body (\<lambda>b.
     catch (bind (createPayment (payment_input user uuid b)) (\<lambda>(replayed, payment).
            seq (writeAuditEvent (Some (session_tenant user)) (Some (su_userId user)) None ''payment.created'' ''payment''
                   (Some (js_string (js_lookup ''paymentId'' payment))) JUndefined JUndefined)
            (if js_lookup ''submit'' b = JBool True then submitCreated demoMode user replayed payment
             else return (ApiOk payment))))
       (\<lambda>e. return (ApiError 400 ''PAYMENT_FAILED'' (error_message e)))))"

section \<open>Approving\<close>

text \<open>The approve action of a signed-in user with the permission, in terms of the commands it calls: a pending request
  is decided first; without one - none was made, or it is rejected, expired or half-way through its levels - the
  payment is released directly.\<close>

lemma approve_action_exact:
  assumes user: "getSessionUser cr token s = (Inr (Some user), u)" and act: "js_lookup ''action'' b = JString ''approve''"
    and perms: "loadUserPermissions (su_userId user) u = (Inr perms, u)" "''payment.approve'' \<in> set perms"
  shows "let answer = (\<lambda>extra. Inr (ApiOk (JObject ([(''action'', JString ''approve''), (''ok'', JBool True)] @ extra))));
     failed = (\<lambda>e. Inr (ApiError 400 ''ACTION_FAILED'' (error_message e)));
     release = (\<lambda>extra v. case approveQueuedPayment (session_tenant user) pid (su_userId user) v of
         (Inl e, t) \<Rightarrow> (failed e, t) | (Inr st, t) \<Rightarrow> (answer extra, t)) in
   POST_payment_action cr demoMode pid token (Some b) s = (case pending_request pid u of
      None \<Rightarrow> release [] u
    | Some r \<Rightarrow> (case recordApprovalAction \<lparr> ai_requestId = ar_id r, ai_actorId = su_userId user,
          ai_actorRoles = map (\<lambda>_. ''APPROVER'') (filter (starts_with ''payment.'') perms),
          ai_decision = (if js_string (js_nullish (js_lookup ''decision'' b) (JString ''approve'')) = ''approve'' then APPROVE else REJECT),
          ai_comment = optional_text ''comment'' b, ai_delegatedForId = None \<rparr> u of
        (Inl e, v) \<Rightarrow> (failed e, v)
      | (Inr (status, rid), v) \<Rightarrow>
          let extra = [(''outcome'', JString (request_status_name status))] in
          if status = AR_APPROVED then release extra v else (answer extra, v)))"
proof -
  have "b \<noteq> JNull" using act by (auto simp: js_lookup_def)
  then show ?thesis
    using user act perms
    by (auto simp: POST_payment_action_def requireUser_def withJson_def property_of_def js_nullish_def is_nullish_def
        approveAction_def tx_run catch_def Let_def split: option.splits sum.splits prod.splits)
qed

text \<open>A payment whose request was rejected is released by its own maker.\<close>

definition demo_rejected_request :: approvalRequest where
  "demo_rejected_request = \<lparr> ar_id = ''q'', ar_tenantId = ''t'', ar_paymentId = Some ''pay'', ar_batchId = None, ar_resourceType = None,
     ar_resourceId = None, ar_policyId = None, ar_policySnapshot = \<lparr> sn_rules = [], sn_context = control_context 0 [] [],
     sn_metadata = JUndefined \<rparr>, ar_status = AR_REJECTED, ar_mode = ANY, ar_requiredApprovals = 1, ar_currentLevel = 1,
     ar_dueAt = None, ar_createdById = ''maker'', ar_createdAt = 0, ar_executedAt = None, ar_executionError = None \<rparr>"

definition demo_rejected :: db where
  "demo_rejected = (empty_db show_nat 0)\<lparr>approvalRequests := [demo_rejected_request],
     wallets := [\<lparr> w_id = ''w'', w_tenantId = ''t'', w_name = [], w_currency = ''KES'', w_availableMinor = 500, w_reservedMinor = 0,
        w_status = W_ACTIVE, w_createdAt = 0, w_updatedAt = 0 \<rparr>],
     payments := [(blank_payment ''t'' ''P-1'')\<lparr>p_id := ''pay'', p_status := PENDING_APPROVAL, p_sourceWalletId := Some ''w'',
        p_amountMinor := 100, p_totalMinor := 100, p_createdById := Some ''maker''\<rparr>]\<rparr>"

definition demo_maker :: sessionUser where
  "demo_maker = \<lparr> su_sessionId = ''s'', su_userId = ''maker'', su_tenantId = Some ''t'', su_email = [], su_fullName = [],
     su_mfaEnabled = False, su_expiresAt = 0 \<rparr>"

lemma rejected_payment_released:
  "pending_request ''pay'' demo_rejected = None \<and>
   map p_status (payments (snd (approveQueuedPayment (session_tenant demo_maker) ''pay'' (su_userId demo_maker) demo_rejected))) = [QUEUED]"
  by code_simp

end
