(* ===== verification/Web_Login.thy ===== *)
theory Web_Login
  imports Web_Access
begin

text \<open>
  What the doors promise: a login opens a session only for a user who authenticated with the password and,
  where it is enabled, the second factor; five wrong passwords close the account for a quarter of an hour;
  a registration needs an invitation that is open and whose role needs no approval or has it.
\<close>

section \<open>What handlers leave alone\<close>

lemma sessions_modify [preserved]:
  "(\<And>s. sessions (f s) = sessions s) \<Longrightarrow> preserves (\<lambda>s. sessions s = v) (modify f)"
  by (rule preserves_modify) simp

lemma sessions_fresh_id [preserved]: "preserves (\<lambda>s. sessions s = v) fresh_id"
  by (rule preservesI) (auto simp: fresh_id_def)

lemma lift_run: "lift v s = (case v of Inl e \<Rightarrow> (Inl e, s) | Inr x \<Rightarrow> (Inr x, s))"
  by (simp add: lift_def throw_def return_def split: sum.splits)

lemma preserves_lifted [preserved]: "preserves P (lift v)"
  by (rule preservesI) (auto simp: lift_run split: sum.splits)

lemma sessions_events [preserved]:
  "preserves (\<lambda>s. sessions s = v) (writeSecurityEvent a b c d e f)"
  "preserves (\<lambda>s. sessions s = v) (writeAuditEventFrom ip tid aid rl act rt rid before after)"
  unfolding writeSecurityEvent_def writeAuditEventFrom_def by (intro preserved; simp)+

lemma sessions_refusals [preserved]:
  "preserves (\<lambda>s. sessions s = v) (badPassword ip u)"
  "preserves (\<lambda>s. sessions s = v) (unknownUser ip r e)"
  "preserves (\<lambda>s. sessions s = v) (useBackupCode cr uid code)"
  unfolding badPassword_def unknownUser_def useBackupCode_def updateUser_def Let_def by (intro preserved; simp)+

section \<open>Login\<close>

definition login_session :: "crypto \<Rightarrow> string \<Rightarrow> string option \<Rightarrow> string option \<Rightarrow> user \<Rightarrow> string \<Rightarrow> int \<Rightarrow> session" where
  "login_session cr token ip ua u sid t = \<lparr> se_id = sid, se_userId = us_id u, se_tenantId = us_tenantId u,
     se_tokenHash = cr_sha256 cr token, se_ip = ip, se_userAgent = ua, se_deviceName = None,
     se_expiresAt = t + SESSION_TTL_MS, se_lastSeenAt = t, se_revokedAt = None, se_createdAt = t \<rparr>"

definition signed_in :: "crypto \<Rightarrow> string \<Rightarrow> string option \<Rightarrow> string option \<Rightarrow> user \<Rightarrow> db \<Rightarrow> db \<Rightarrow> bool" where
  "signed_in cr token ip ua u s t \<longleftrightarrow> cr_sha256 cr token \<notin> se_tokenHash ` set (sessions s) \<and>
     (\<exists>sid. sessions t = sessions s @ [login_session cr token ip ua u sid (now s)]) \<and>
     users t = update_rows (\<lambda>v. us_id v = us_id u)
       (\<lambda>v. v\<lparr>us_failedLoginAttempts := 0, us_lockedUntil := None, us_lastLoginAt := Some (now s)\<rparr>) (users s)"

lemma openSession_cases:
  "openSession cr token ip ua u s = (r, t) \<Longrightarrow> (case r of
     Inr (ApiOk (SignedIn v tok expires)) \<Rightarrow> v = user_view u \<and> tok = token \<and> expires = now s + SESSION_TTL_MS \<and>
       signed_in cr token ip ua u s t \<and> mfaBackupCodes t = mfaBackupCodes s
   | _ \<Rightarrow> sessions t = sessions s)"
  by (auto simp: openSession_def createSession_def updateUser_def writeAuditEventFrom_def writeSecurityEvent_def
      fresh_id_def tx_run signed_in_def login_session_def Let_def split: if_splits)

definition accepted_factor :: "webEnv \<Rightarrow> user \<Rightarrow> string option \<Rightarrow> db \<Rightarrow> db \<Rightarrow> bool" where
  "accepted_factor env u otp s t \<longleftrightarrow> (if us_mfaEnabled u
     then \<exists>code. otp = Some code \<and>
       (some_factor env code (now s) (enabled_factors (us_id u) s) = Inr True \<and> mfaBackupCodes t = mfaBackupCodes s \<or>
        (\<exists>b \<in> set (mfaBackupCodes s). unused_backup (we_crypto env) (us_id u) code b \<and>
          mfaBackupCodes t = update_rows (\<lambda>x. bc_id x = bc_id b) (\<lambda>x. x\<lparr>bc_usedAt := Some (now s)\<rparr>) (mfaBackupCodes s)))
     else mfaBackupCodes t = mfaBackupCodes s)"

lemma find_in: "find P xs = Some x \<Longrightarrow> x \<in> set xs \<and> P x"
  by (metis find_Some_iff nth_mem)

text \<open>The second factor lets the continuation run only after it accepted the code.\<close>

lemma secondFactor_run:
  assumes run: "secondFactor env ip u otp k s = (r, t)"
  obtains (stopped) "sessions t = sessions s" "\<nexists>v tok e. r = Inr (ApiOk (SignedIn v tok e))"
  | (passed) s' where "k s' = (r, t)" "sessions s' = sessions s" "users s' = users s" "now s' = now s" "accepted_factor env u otp s s'"
proof (cases "us_mfaEnabled u \<and> truthy otp")
  case False
  with run show thesis
    by (cases "us_mfaEnabled u")
      (auto simp: secondFactor_def return_def accepted_factor_def intro: stopped passed)
next
  case True
  then obtain code where code: "otp = Some code" "us_mfaEnabled u" "truthy otp" by (cases otp) (auto simp: truthy_def)
  let ?f = "some_factor env code (now s) (enabled_factors (us_id u) s)"
  show thesis
  proof (cases ?f)
    case (Inl e)
    with run code show thesis by (intro stopped) (auto simp: secondFactor_def tx_run lift_run)
  next
    case (Inr valid)
    show thesis
    proof (cases valid)
      case True
      with run code Inr have "k s = (r, t)" by (simp add: secondFactor_def tx_run lift_run)
      then show thesis using True Inr code by (intro passed) (auto simp: accepted_factor_def)
    next
      case False
      show thesis
      proof (cases "find (unused_backup (we_crypto env) (us_id u) code) (mfaBackupCodes s)")
        case None
        with run code Inr False show thesis
          by (intro stopped) (auto simp: secondFactor_def tx_run lift_run useBackupCode_def writeSecurityEvent_def fresh_id_def)
      next
        case (Some b)
        let ?s = "s\<lparr>mfaBackupCodes := update_rows (\<lambda>x. bc_id x = bc_id b) (\<lambda>x. x\<lparr>bc_usedAt := Some (now s)\<rparr>) (mfaBackupCodes s)\<rparr>"
        from run code Inr False Some have "k ?s = (r, t)" by (simp add: secondFactor_def tx_run lift_run useBackupCode_def)
        moreover have "accepted_factor env u otp s ?s" using code find_in [OF Some] by (auto simp: accepted_factor_def)
        ultimately show thesis by (intro passed) simp_all
      qed
    qed
  qed
qed

text \<open>The fields of a login that the limiter and the schema let through.\<close>

definition login_fields :: "webEnv \<Rightarrow> int option \<Rightarrow> loginRequest \<Rightarrow> loginFields option" where
  "login_fields env count r = (if \<not> rateLimit count (login_max (we_loginRateMax env)) then None
     else case lr_body r of None \<Rightarrow> None | Some b \<Rightarrow> loginSchema (we_emailFormat env) b)"

abbreviation login_ip :: "loginRequest \<Rightarrow> string option" where
  "login_ip r \<equiv> Some (nullish (client_ip (lr_forwardedFor r)) ''unknown'')"

lemma POST_login_fields: "login_fields env count r = Some f \<Longrightarrow>
    POST_login env count token r = authenticate env token (login_ip r) (lr_userAgent r) f"
  by (auto simp: login_fields_def POST_login_def withJson_def split: if_splits option.splits)

lemma POST_login_refused: "login_fields env count r = None \<Longrightarrow> \<exists>c n m. POST_login env count token r s = (Inr (ApiError c n m), s)"
  by (auto simp: login_fields_def POST_login_def withJson_def return_def split: if_splits option.splits)

lemma sessions_same: "preserves (\<lambda>t. sessions t = sessions s) m \<Longrightarrow> m s = (r, t) \<Longrightarrow> sessions t = sessions s"
  by (auto dest: preservesD)

lemma refusals_sign_nobody:
  "unknownUser ip row e s = (r, t) \<Longrightarrow> \<nexists>v tok x. r = Inr (ApiOk (SignedIn v tok x))"
  "badPassword ip u s = (r, t) \<Longrightarrow> \<nexists>v tok x. r = Inr (ApiOk (SignedIn v tok x))"
  by (auto simp: unknownUser_def badPassword_def updateUser_def writeSecurityEvent_def fresh_id_def tx_run Let_def)

lemma authenticate_run:
  assumes run: "authenticate env token ip ua f s = (r, t)"
  obtains (refused) "sessions t = sessions s" "\<nexists>v tok x. r = Inr (ApiOk (SignedIn v tok x))"
  | (admitted) u h s' where "user_by_email (toLowerCase (lf_email f)) s = Some u" "\<not> account_locked (now s) u"
      "us_passwordHash u = Some h" "verifyPassword (we_crypto env) (lf_password f) h"
      "openSession (we_crypto env) token ip ua u s' = (r, t)" "sessions s' = sessions s" "users s' = users s" "now s' = now s"
      "accepted_factor env u (lf_otpCode f) s s'"
proof (cases "user_by_email (toLowerCase (lf_email f)) s")
  case None
  with run have "unknownUser ip None (lf_email f) s = (r, t)" by (simp add: authenticate_def tx_run)
  then show thesis by (intro refused sessions_same [OF sessions_refusals(2)] refusals_sign_nobody)
next
  case (Some u)
  show thesis
  proof (cases "truthy (us_passwordHash u) \<and> \<not> account_locked (now s) u \<and>
      verifyPassword (we_crypto env) (lf_password f) (the (us_passwordHash u))")
    case True
    with run Some have "secondFactor env ip u (lf_otpCode f) (openSession (we_crypto env) token ip ua u) s = (r, t)"
      by (simp add: authenticate_def tx_run)
    then show thesis
    proof (cases rule: secondFactor_run)
      case stopped
      then show thesis by (rule refused)
    next
      case (passed s')
      with True Some show thesis by (intro admitted [of u "the (us_passwordHash u)"]) (auto simp: truthy_def)
    qed
  next
    case False
    with run Some consider "unknownUser ip (Some u) (lf_email f) s = (r, t)" | "badPassword ip u s = (r, t)"
      | "r = Inr (ApiError 423 ''ACCOUNT_LOCKED'' ''Account temporarily locked after repeated failures'')" "t = s"
      by (auto simp: authenticate_def tx_run split: if_splits)
    then show thesis
    proof cases
      case 1
      then show thesis by (intro refused sessions_same [OF sessions_refusals(2)] refusals_sign_nobody)
    next
      case 2
      then show thesis by (intro refused sessions_same [OF sessions_refusals(1)] refusals_sign_nobody)
    next
      case 3
      then show thesis by (intro refused) simp_all
    qed
  qed
qed

text \<open>C8. Only who authenticates gets a session: a login opens one exactly when it answers as signed in, and then the
  request passed the limiter and the schema, the e-mail is the one of an account that is not locked, the password
  verifies against its hash and, where the account has a second factor, the code was accepted by an enabled
  factor or is an unused backup code, which is now used; the session is the account's, lasts twelve hours and
  its token is fresh, and the counter of failures is cleared.  Every other outcome opens no session.\<close>

theorem login_authenticates:
  "case POST_login env count token r s of
     (Inr (ApiOk (SignedIn v tok expires)), t) \<Rightarrow> \<exists>f u h. login_fields env count r = Some f \<and>
       user_by_email (toLowerCase (lf_email f)) s = Some u \<and> \<not> account_locked (now s) u \<and>
       us_passwordHash u = Some h \<and> verifyPassword (we_crypto env) (lf_password f) h \<and>
       accepted_factor env u (lf_otpCode f) s t \<and> v = user_view u \<and> tok = token \<and> expires = now s + SESSION_TTL_MS \<and>
       signed_in (we_crypto env) token (login_ip r) (lr_userAgent r) u s t
   | (_, t) \<Rightarrow> sessions t = sessions s"
proof (cases "login_fields env count r")
  case None
  from POST_login_refused [OF this, of token s] show ?thesis by auto
next
  case (Some f)
  obtain res t where run: "POST_login env count token r s = (res, t)" by fastforce
  with Some have auth: "authenticate env token (login_ip r) (lr_userAgent r) f s = (res, t)" by (simp add: POST_login_fields)
  then show ?thesis
  proof (cases rule: authenticate_run)
    case refused
    then show ?thesis by (auto simp: run split: sum.splits response.splits loginAnswer.splits)
  next
    case (admitted u h s')
    from openSession_cases [OF admitted(5)] admitted Some show ?thesis
      by (auto simp: run accepted_factor_def signed_in_def split: sum.splits response.splits loginAnswer.splits if_splits)
  qed
qed

section \<open>Lockout\<close>

definition login_at :: "webEnv \<Rightarrow> int \<times> int option \<times> string \<times> loginRequest \<Rightarrow> loginAnswer response cmd" where
  "login_at env a s = (case a of (tm, count, token, r) \<Rightarrow> POST_login env count token r (s\<lparr>now := tm\<rparr>))"

definition wrong_password :: "webEnv \<Rightarrow> string \<Rightarrow> string \<Rightarrow> int \<times> int option \<times> string \<times> loginRequest \<Rightarrow> bool" where
  "wrong_password env email h a \<longleftrightarrow> (case a of (tm, count, token, r) \<Rightarrow> case login_fields env count r of None \<Rightarrow> False
     | Some f \<Rightarrow> toLowerCase (lf_email f) = email \<and> \<not> verifyPassword (we_crypto env) (lf_password f) h)"

definition failures :: "int \<Rightarrow> int option \<Rightarrow> user \<Rightarrow> user" where
  "failures n until u = u\<lparr>us_failedLoginAttempts := n, us_lockedUntil := until\<rparr>"

lemma user_by_email_update:
  assumes "user_by_email e s = Some u" and "\<And>v. us_email (f v) = us_email v"
  shows "find (\<lambda>v. us_email v = e) (update_rows (\<lambda>v. us_id v = us_id u) f (users s)) = Some (f u)"
proof -
  have "find (\<lambda>v. us_email v = e) (update_rows Q f us) = map_option (\<lambda>v. if Q v then f v else v) (find (\<lambda>v. us_email v = e) us)" for Q us
    using assms(2) by (induction us) auto
  then show ?thesis using assms(1) by (simp add: user_by_email_def)
qed

lemma wrong_password_step:
  assumes "wrong_password env email h (tm, a)" and u: "user_by_email email s = Some u" "us_passwordHash u = Some h" "h \<noteq> []"
    and "us_lockedUntil u = None"
  shows "let t = snd (login_at env (tm, a) s); n = us_failedLoginAttempts u + 1 in sessions t = sessions s \<and>
    user_by_email email t = Some (failures n (if LOCK_AFTER \<le> n then Some (tm + LOCK_MS) else None) u)"
proof -
  obtain count token r where a: "a = (count, token, r)" by (cases a)
  with assms(1) obtain f where f: "login_fields env count r = Some f" "toLowerCase (lf_email f) = email"
    "\<not> verifyPassword (we_crypto env) (lf_password f) h"
    by (auto simp: wrong_password_def split: option.splits)
  have u': "user_by_email email (s\<lparr>now := tm\<rparr>) = Some u" using u(1) by (simp add: user_by_email_def)
  have run: "login_at env (tm, a) s = badPassword (login_ip r) u (s\<lparr>now := tm\<rparr>)"
    using f u u' assms(5) by (simp add: a login_at_def POST_login_fields authenticate_def tx_run truthy_def account_locked_def)
  show ?thesis unfolding run
    using user_by_email_update [OF u(1)]
    by (simp add: badPassword_def updateUser_def writeSecurityEvent_def fresh_id_def tx_run Let_def user_by_email_def failures_def)
qed

lemma wrong_passwords_count:
  "list_all (wrong_password env email h) rs \<Longrightarrow> user_by_email email s = Some u \<Longrightarrow> us_passwordHash u = Some h \<Longrightarrow> h \<noteq> [] \<Longrightarrow>
   us_lockedUntil u = None \<Longrightarrow> us_failedLoginAttempts u + int (length rs) < LOCK_AFTER \<Longrightarrow>
   sessions (run_all (login_at env) rs s) = sessions s \<and>
   user_by_email email (run_all (login_at env) rs s) = Some (failures (us_failedLoginAttempts u + int (length rs)) None u)"
proof (induction rs arbitrary: s u)
  case Nil
  then show ?case by (simp add: failures_def)
next
  case (Cons a rs)
  obtain tm b where a: "a = (tm, b)" by (cases a)
  let ?t = "snd (login_at env a s)" and ?u = "failures (us_failedLoginAttempts u + 1) None u"
  have "sessions ?t = sessions s \<and> user_by_email email ?t = Some ?u"
    using wrong_password_step [of env email h tm b s u] Cons.prems by (simp add: a Let_def)
  then show ?case using Cons.IH [of ?t ?u] Cons.prems by (auto simp: failures_def algebra_simps)
qed

text \<open>C9. Brute force is stopped: when an account with no lock has been tried with wrong passwords up to the fifth failure in a
  row, no session was opened, and until a quarter of an hour after the last attempt every login for its e-mail
  that reaches the account is refused as locked, with the right password as well, and changes nothing.\<close>

theorem wrong_passwords_lock_account:
  assumes u: "user_by_email email s = Some u" "us_passwordHash u = Some h" "h \<noteq> []" "us_lockedUntil u = None"
    and tries: "list_all (wrong_password env email h) (rs @ [(tm, a)])" "us_failedLoginAttempts u + int (length rs) = 4"
    and f: "login_fields env count r = Some f" "toLowerCase (lf_email f) = email" and soon: "n < tm + 15 * 60000"
  shows "let t = run_all (login_at env) (rs @ [(tm, a)]) s in sessions t = sessions s \<and>
    POST_login env count token r (t\<lparr>now := n\<rparr>) =
      (Inr (ApiError 423 ''ACCOUNT_LOCKED'' ''Account temporarily locked after repeated failures''), t\<lparr>now := n\<rparr>)"
proof -
  let ?m = "run_all (login_at env) rs s" and ?v = "failures 4 None u"
  from wrong_passwords_count [OF _ u, of env rs] tries
  have m: "sessions ?m = sessions s" "user_by_email email ?m = Some ?v" by (simp_all add: LOCK_AFTER_def)
  have "snd (login_at env (tm, a) ?m) = run_all (login_at env) (rs @ [(tm, a)]) s" by (simp add: run_all_def)
  with wrong_password_step [OF _ m(2), of env h tm a] tries(1) u m(1)
  have t: "sessions (run_all (login_at env) (rs @ [(tm, a)]) s) = sessions s"
    "user_by_email email (run_all (login_at env) (rs @ [(tm, a)]) s) = Some (failures 5 (Some (tm + LOCK_MS)) u)"
    by (auto simp: failures_def LOCK_AFTER_def Let_def)
  have "user_by_email email ((run_all (login_at env) (rs @ [(tm, a)]) s)\<lparr>now := n\<rparr>) = Some (failures 5 (Some (tm + LOCK_MS)) u)"
    using t(2) by (simp add: user_by_email_def)
  with f u(2,3) soon t(1) show ?thesis
    by (simp add: Let_def POST_login_fields authenticate_def tx_run truthy_def account_locked_def failures_def LOCK_MS_def)
qed

text \<open>An account with the password \<open>right\<close>, five wrong attempts a minute apart, and the right password a minute later.\<close>

definition demo_env :: webEnv where
  "demo_env = \<lparr> we_crypto = demo_crypto\<lparr>cr_scrypt := \<lambda>p salt n. replicate n (length p)\<rparr>, we_hmac = (\<lambda>k m. m),
     we_emailFormat = (\<lambda>e. True), we_loginRateMax = None \<rparr>"

definition demo_member :: user where
  "demo_member = \<lparr> us_id = ''u'', us_tenantId = Some ''t'', us_email = ''a@b.ke'', us_phone = None, us_fullName = ''A'',
     us_passwordHash = Some ''n$00$05'', us_status = ''ACTIVE'', us_mfaEnabled = False, us_mfaSecretEncrypted = None,
     us_failedLoginAttempts = 0, us_lockedUntil = None, us_lastLoginAt = None, us_createdAt = 0 \<rparr>"

definition demo_members :: db where
  "demo_members = (empty_db show_nat 0)\<lparr>users := [demo_member]\<rparr>"

definition demo_login :: "string \<Rightarrow> loginRequest" where
  "demo_login password = \<lparr> lr_forwardedFor = None, lr_userAgent = None,
     lr_body = Some (JObject [(''email'', JString ''A@b.ke''), (''password'', JString password)]) \<rparr>"

lemma right_password_signs_in:
  "fst (POST_login demo_env (Some 1) ''tok'' (demo_login ''right'') demo_members) =
     Inr (ApiOk (SignedIn (user_view demo_member) ''tok'' SESSION_TTL_MS))"
  by code_simp

theorem wrong_passwords_lock_account_witness:
  "let t = run_all (login_at demo_env) (map (\<lambda>m. (m * 60000, None, ''tok'', demo_login ''wrong!'')) [1, 2, 3, 4] @
       [(5 * 60000, None, ''tok'', demo_login ''wrong!'')]) demo_members in sessions t = sessions demo_members \<and>
    POST_login demo_env None ''tok'' (demo_login ''right'') (t\<lparr>now := 6 * 60000\<rparr>) =
      (Inr (ApiError 423 ''ACCOUNT_LOCKED'' ''Account temporarily locked after repeated failures''), t\<lparr>now := 6 * 60000\<rparr>)"
proof (rule wrong_passwords_lock_account [where u = demo_member and h = "''n$00$05''"
      and f = "\<lparr> lf_email = ''A@b.ke'', lf_password = ''right'', lf_otpCode = None \<rparr>" and email = "''a@b.ke''"])
  show "list_all (wrong_password demo_env ''a@b.ke'' ''n$00$05'') (map (\<lambda>m. (m * 60000, None, ''tok'', demo_login ''wrong!'')) [1, 2, 3, 4] @
       [(5 * 60000, None, ''tok'', demo_login ''wrong!'')])" by code_simp
  show "login_fields demo_env None (demo_login ''right'') = Some \<lparr> lf_email = ''A@b.ke'', lf_password = ''right'', lf_otpCode = None \<rparr>"
    by code_simp
  show "toLowerCase (lf_email \<lparr> lf_email = ''A@b.ke'', lf_password = ''right'', lf_otpCode = None \<rparr>) = ''a@b.ke''" by code_simp
qed (simp_all add: user_by_email_def demo_members_def demo_member_def)

section \<open>Registration\<close>

definition registration_email :: "jsval \<Rightarrow> string" where
  "registration_email b = toLowerCase (trim (body_field ''email'' b))"

definition open_invitation :: "crypto \<Rightarrow> jsval \<Rightarrow> invitation \<Rightarrow> db \<Rightarrow> bool" where
  "open_invitation cr b i s \<longleftrightarrow> i \<in> set (invitations s) \<and> iv_tokenHash i = cr_sha256 cr (trim (body_field ''inviteToken'' b)) \<and>
     now s < iv_expiresAt i \<and> iv_acceptedAt i = None \<and> toLowerCase (iv_email i) = registration_email b \<and>
     (iv_roleApprovalStatus i = RA_NONE \<or> iv_roleApprovalStatus i = RA_APPROVED)"

lemma invitation_refusal_None: "invitation_refusal i email = None \<longleftrightarrow> iv_acceptedAt i = None \<and> toLowerCase (iv_email i) = email \<and>
    (iv_roleApprovalStatus i = RA_NONE \<or> iv_roleApprovalStatus i = RA_APPROVED)"
  by (cases "iv_roleApprovalStatus i") (simp_all add: invitation_refusal_def)

lemma invitation_refusal_error: "invitation_refusal i email = Some x \<Longrightarrow> \<exists>c n m. x = ApiError c n m"
  by (auto simp: invitation_refusal_def split: if_splits)

definition joined :: "crypto \<Rightarrow> string \<Rightarrow> invitation \<Rightarrow> string \<Rightarrow> db \<Rightarrow> db \<Rightarrow> bool" where
  "joined cr token i email s t \<longleftrightarrow> (\<exists>u x. users t = users s @ [u] \<and> us_tenantId u = Some (iv_tenantId i) \<and> us_email u = email \<and>
     us_status u = ''ACTIVE'' \<and> userRoles t = userRoles s @ [\<lparr> ur_userId = us_id u, ur_roleId = iv_roleId i, ur_tenantId = iv_tenantId i \<rparr>] \<and>
     sessions t = sessions s @ [x] \<and> se_userId x = us_id u \<and> se_tokenHash x = cr_sha256 cr token \<and>
     invitations t = update_rows (\<lambda>j. iv_id j = iv_id i) (\<lambda>j. j\<lparr>iv_acceptedAt := Some (now s)\<rparr>) (invitations s))"

lemma insertUser_run:
  "insertUser tid email name h s = (r, t) \<Longrightarrow> (case r of
     Inl e \<Rightarrow> sessions t = sessions s
   | Inr u \<Rightarrow> us_tenantId u = tid \<and> us_email u = email \<and> us_status u = ''ACTIVE'' \<and>
       users t = users s @ [u] \<and> userRoles t = userRoles s \<and> sessions t = sessions s \<and> invitations t = invitations s \<and> now t = now s)"
  by (auto simp: insertUser_def fresh_id_def tx_run Let_def split: if_splits)

lemma insertUserRole_run:
  "insertUserRole uid rid tid s = (r, t) \<Longrightarrow> (case r of
     Inl e \<Rightarrow> t = s
   | Inr x \<Rightarrow> userRoles t = userRoles s @ [\<lparr> ur_userId = uid, ur_roleId = rid, ur_tenantId = tid \<rparr>] \<and>
       users t = users s \<and> sessions t = sessions s \<and> invitations t = invitations s \<and> now t = now s)"
  by (auto simp: insertUserRole_def tx_run split: if_splits)

lemma createSession_run:
  "createSession hash token i s = (r, t) \<Longrightarrow> (case r of
     Inl e \<Rightarrow> sessions t = sessions s
   | Inr x \<Rightarrow> fst x = token \<and> (\<exists>y. se_userId y = cs_userId i \<and> se_tokenHash y = hash token \<and>
       sessions t = sessions s @ [y]) \<and>
       users t = users s \<and> userRoles t = userRoles s \<and> invitations t = invitations s \<and> now t = now s)"
  by (auto simp: createSession_def fresh_id_def tx_run Let_def split: if_splits)

lemma bind_run: "m s = (r, t) \<Longrightarrow> bind m f s = (case r of Inl e \<Rightarrow> (Inl e, t) | Inr x \<Rightarrow> f x t)"
  by (simp add: bind_def split: sum.splits)

lemma joinWorkspace_run:
  assumes run: "joinWorkspace cr salt token i email fullName password s = (r, t)"
  shows "case r of
     Inr (ApiOk a) \<Rightarrow> joined cr token i email s t \<and> now t = now s
   | Inr (ApiError c n m) \<Rightarrow> False
   | Inl e \<Rightarrow> sessions t = sessions s"
proof -
  obtain r1 s1 where user: "insertUser (Some (iv_tenantId i)) email fullName (hashPassword cr salt password) s = (r1, s1)" by fastforce
  show ?thesis
  proof (cases r1)
    case (Inl e)
    with run user insertUser_run [OF user] show ?thesis by (auto simp: joinWorkspace_def bind_def)
  next
    case (Inr u)
    obtain r2 s2 where role: "insertUserRole (us_id u) (iv_roleId i) (iv_tenantId i) s1 = (r2, s2)" by fastforce
    show ?thesis
    proof (cases r2)
      case (Inl e)
      with run user Inr role insertUser_run [OF user] insertUserRole_run [OF role] show ?thesis
        by (auto simp: joinWorkspace_def bind_def seq_def)
    next
      case r2: (Inr x)
      let ?s = "s2\<lparr>invitations := update_rows (\<lambda>j. iv_id j = iv_id i) (\<lambda>j. j\<lparr>iv_acceptedAt := Some (now s2)\<rparr>) (invitations s2)\<rparr>"
      obtain r3 s3 where sess: "createSession (cr_sha256 cr) token \<lparr> cs_userId = us_id u, cs_tenantId = us_tenantId u, cs_ip = None,
              cs_userAgent = None, cs_deviceName = None, cs_ttlMs = None \<rparr> ?s = (r3, s3)" by fastforce
      have "joinWorkspace cr salt token i email fullName password s = bind (createSession (cr_sha256 cr) token
          \<lparr> cs_userId = us_id u, cs_tenantId = us_tenantId u, cs_ip = None, cs_userAgent = None, cs_deviceName = None, cs_ttlMs = None \<rparr>)
          (\<lambda>(token, expiresAt). return (ApiOk (JObject [(''id'', JString (us_id u)), (''email'', JString (us_email u)),
             (''fullName'', JString (us_fullName u))], token, expiresAt))) ?s"
        using user role by (simp add: joinWorkspace_def seq_def Inr r2 bind_run modify_def)
      with run have ends: "t = s3" "(\<exists>e. r = Inl e \<and> r3 = Inl e) \<or> (\<exists>a p. r = Inr (ApiOk a) \<and> r3 = Inr p)"
        using sess by (auto simp: bind_run return_def split: sum.splits prod.splits)
      have u: "us_tenantId u = Some (iv_tenantId i)" "us_email u = email" "us_status u = ''ACTIVE''" "users s1 = users s @ [u]"
        "userRoles s1 = userRoles s" "sessions s1 = sessions s" "invitations s1 = invitations s" "now s1 = now s"
        using insertUser_run [OF user] Inr by simp_all
      have s2: "users s2 = users s1" "userRoles s2 = userRoles s1 @ [\<lparr> ur_userId = us_id u, ur_roleId = iv_roleId i, ur_tenantId = iv_tenantId i \<rparr>]"
        "sessions s2 = sessions s1" "invitations s2 = invitations s1" "now s2 = now s1"
        using insertUserRole_run [OF role] r2 by simp_all
      from ends(2) show ?thesis
      proof
        assume "\<exists>e. r = Inl e \<and> r3 = Inl e"
        with createSession_run [OF sess] u s2 ends(1) show ?thesis by auto
      next
        assume "\<exists>a p. r = Inr (ApiOk a) \<and> r3 = Inr p"
        then obtain a p where r: "r = Inr (ApiOk a)" "r3 = Inr p" by blast
        with createSession_run [OF sess] obtain y where y: "se_userId y = us_id u" "se_tokenHash y = cr_sha256 cr token"
          "sessions s3 = sessions s2 @ [y]" "users s3 = users s2" "userRoles s3 = userRoles s2" "invitations s3 = invitations ?s" "now s3 = now s2"
          by auto
        have "joined cr token i email s t" unfolding joined_def
          by (intro exI [of _ u] exI [of _ y]) (simp add: u s2 y ends(1))
        with r u s2 y ends(1) show ?thesis by simp
      qed
    qed
  qed
qed

definition registration_ok :: "int option \<Rightarrow> jsval \<Rightarrow> bool" where
  "registration_ok count b \<longleftrightarrow> rateLimit count 10 \<and> email_shape (registration_email b) \<and>
     10 \<le> length (body_field ''password'' b) \<and> trim (body_field ''inviteToken'' b) \<noteq> []"

definition invited :: "crypto \<Rightarrow> jsval \<Rightarrow> db \<Rightarrow> invitation option" where
  "invited cr b s = find (\<lambda>i. iv_tokenHash i = cr_sha256 cr (trim (body_field ''inviteToken'' b)) \<and> now s < iv_expiresAt i) (invitations s)"

lemma POST_register_run:
  "registration_ok count b \<Longrightarrow> POST_register cr count salt token (Some b) s = (case invited cr b s of
     None \<Rightarrow> (Inr (ApiError 400 ''INVALID_INVITE'' ''This invitation is invalid or has expired''), s)
   | Some i \<Rightarrow> (case invitation_refusal i (registration_email b) of
       Some refusal \<Rightarrow> (Inr refusal, s)
     | None \<Rightarrow> if user_by_email (registration_email b) s \<noteq> None
         then (Inr (ApiError 409 ''EMAIL_TAKEN'' ''An account with this email already exists''), s)
         else joinWorkspace cr salt token i (registration_email b) (trim (body_field ''fullName'' b)) (body_field ''password'' b) s))"
  by (simp add: POST_register_def withJson_def tx_run registration_ok_def registration_email_def invited_def Let_def split: option.split)

lemma POST_register_malformed:
  "\<not> registration_ok count b \<Longrightarrow> \<exists>c n m. POST_register cr count salt token (Some b) s = (Inr (ApiError c n m), s)"
  by (simp add: POST_register_def withJson_def tx_run registration_ok_def registration_email_def Let_def)

lemma find_first_update:
  assumes "find P xs = Some x" and "\<And>v. P (f v) = P v"
  shows "find P (update_rows Q f xs) = Some (if Q x then f x else x)"
proof -
  have "find P (update_rows Q f xs) = map_option (\<lambda>v. if Q v then f v else v) (find P xs)"
    by (induction xs) (simp_all add: assms(2))
  then show ?thesis by (simp add: assms(1))
qed

lemma register_refused:
  assumes "\<nexists>b i. body = Some b \<and> registration_ok count b \<and> invited cr b s = Some i \<and>
    invitation_refusal i (registration_email b) = None \<and> user_by_email (registration_email b) s = None"
  shows "\<exists>c n m. POST_register cr count salt token body s = (Inr (ApiError c n m), s)"
proof (cases body)
  case None
  then show ?thesis by (simp add: POST_register_def withJson_def return_def)
next
  case (Some b)
  show ?thesis
  proof (cases "registration_ok count b")
    case True
    then show ?thesis using assms Some
      by (auto simp: POST_register_run dest: invitation_refusal_error split: option.splits)
  qed (simp add: Some POST_register_malformed)
qed

lemma POST_register_joined:
  assumes run: "POST_register cr count salt token (Some b) s = (Inr (ApiOk a), t)"
  obtains i where "invited cr b s = Some i" "open_invitation cr b i s" "user_by_email (registration_email b) s = None"
    "joined cr token i (registration_email b) s t" "now t = now s" "registration_ok count b"
proof -
  have "\<exists>b' i. Some b = Some b' \<and> registration_ok count b' \<and> invited cr b' s = Some i \<and>
      invitation_refusal i (registration_email b') = None \<and> user_by_email (registration_email b') s = None"
  proof (rule ccontr)
    assume "\<not> ?thesis"
    then have "\<exists>c n m. POST_register cr count salt token (Some b) s = (Inr (ApiError c n m), s)" by (rule register_refused)
    with run show False by auto
  qed
  then obtain i where i: "registration_ok count b" "invited cr b s = Some i"
    "invitation_refusal i (registration_email b) = None" "user_by_email (registration_email b) s = None" by auto
  with run have "joinWorkspace cr salt token i (registration_email b) (trim (body_field ''fullName'' b))
      (body_field ''password'' b) s = (Inr (ApiOk a), t)" by (simp add: POST_register_run)
  from joinWorkspace_run [OF this] have "joined cr token i (registration_email b) s t" "now t = now s" by auto
  moreover have "open_invitation cr b i s"
    using find_in [OF i(2) [unfolded invited_def]] i(3) by (auto simp: open_invitation_def invitation_refusal_None)
  ultimately show thesis using i by (intro that)
qed

text \<open>C10. Registration is by invitation: it answers with an account only when the token is that of an invitation
  which has not expired, was not used, is for this e-mail and grants a role that needs no approval or has it,
  and no account has the e-mail; then exactly one active account joins the inviting workspace with the
  invited role, one session is opened for it, and the same request is refused from then on.  A refusal
  changes nothing, and a failure of the database opens no session.\<close>

theorem register_by_open_invitation:
  "case POST_register cr count salt token body s of
     (Inl e, t) \<Rightarrow> sessions t = sessions s
   | (Inr (ApiError c n m), t) \<Rightarrow> t = s
   | (Inr (ApiOk a), t) \<Rightarrow> \<exists>b i. body = Some b \<and> open_invitation cr b i s \<and> user_by_email (registration_email b) s = None \<and>
       joined cr token i (registration_email b) s t \<and>
       (\<exists>c n m. POST_register cr count' salt' token' body t = (Inr (ApiError c n m), t))"
proof (cases "\<exists>b i. body = Some b \<and> registration_ok count b \<and> invited cr b s = Some i \<and>
    invitation_refusal i (registration_email b) = None \<and> user_by_email (registration_email b) s = None")
  case False
  then have "\<exists>c n m. POST_register cr count salt token body s = (Inr (ApiError c n m), s)"
    by (rule register_refused)
  then show ?thesis by auto
next
  case True
  then obtain b i where b: "body = Some b" "registration_ok count b" and i: "invited cr b s = Some i"
    and free: "invitation_refusal i (registration_email b) = None" "user_by_email (registration_email b) s = None" by auto
  obtain r t where run: "POST_register cr count salt token body s = (r, t)" by fastforce
  with b i free have join: "joinWorkspace cr salt token i (registration_email b) (trim (body_field ''fullName'' b))
      (body_field ''password'' b) s = (r, t)" by (simp add: POST_register_run)
  show ?thesis
  proof (cases "\<exists>a. r = Inr (ApiOk a)")
    case False
    with joinWorkspace_run [OF join] show ?thesis by (auto simp: run split: sum.splits response.splits)
  next
    case True
    then obtain a where r: "r = Inr (ApiOk a)" by blast
    from run [unfolded r b(1)] obtain j where j: "invited cr b s = Some j" "open_invitation cr b j s"
      "joined cr token j (registration_email b) s t" and t: "now t = now s" by (rule POST_register_joined)
    have "invited cr b t = Some (j\<lparr>iv_acceptedAt := Some (now s)\<rparr>)"
      using j(3) find_first_update [OF j(1) [unfolded invited_def], of "\<lambda>j. j\<lparr>iv_acceptedAt := Some (now s)\<rparr>"]
      by (auto simp: invited_def joined_def t)
    then have "\<exists>c n m. POST_register cr count' salt' token' body t = (Inr (ApiError c n m), t)"
      using b by (intro register_refused) (simp add: invitation_refusal_def)
    then show ?thesis unfolding run r prod.case sum.case response.case using b(1) free(2) j by blast
  qed
qed

end
