(* ===== verification/Web_Grants.thy ===== *)
theory Web_Grants
  imports Web_Team Web_Login Config_Safety
begin

text \<open>
  Privileged roles need a checker: in every history of invitations, decisions in the approval centre, other
  approval requests, registrations and logins, an account gets a role with sensitive permissions only
  through an invitation whose grant another user than the inviter approved.
\<close>

section \<open>What concerns a grant\<close>

definition grant_view where
  "grant_view s = (invitations s, roles s, permissions s, rolePermissions s, approvalRequests s, approvalSteps s, approvalActions s)"

text \<open>Between \<open>s\<close> and \<open>t\<close> nothing of it changed, only identifiers were drawn.\<close>

definition quiet :: "db \<Rightarrow> db \<Rightarrow> bool" where
  "quiet s t \<longleftrightarrow> grant_view t = grant_view s \<and> uuid_gen t = uuid_gen s \<and> uuid_next s \<le> uuid_next t"

lemma quiet_refl [simp]: "quiet s s"
  by (simp add: quiet_def)

lemma quiet_trans: "quiet s t \<Longrightarrow> quiet t u \<Longrightarrow> quiet s u"
  by (simp add: quiet_def)

lemma quiet_modify [preserved]:
  "(\<And>s. grant_view (f s) = grant_view s \<and> uuid_gen (f s) = uuid_gen s \<and> uuid_next (f s) = uuid_next s) \<Longrightarrow>
     preserves (quiet s) (modify f)"
  by (rule preserves_modify) (simp add: quiet_def)

lemma quiet_fresh_id [preserved]: "preserves (quiet s) fresh_id"
  by (rule preservesI) (auto simp: fresh_id_def quiet_def grant_view_def)

section \<open>Commands that leave grants alone\<close>

subsection \<open>Sessions, events and notifications\<close>

lemma quiet_access [preserved]:
  "preserves (quiet s) (validateSession hash token)" "preserves (quiet s) (loadUserPermissions uid)"
  "preserves (quiet s) (createSession hash token cs)"
  "preserves (quiet s) (writeSecurityEvent a b c d e f)" "preserves (quiet s) (writeAuditEventFrom ip tid aid rl act rt rid before after)"
  "preserves (quiet s) (queueNotification ntid nuid ch tc ti bd dt)"
  unfolding validateSession_def loadUserPermissions_def createSession_def writeSecurityEvent_def writeAuditEventFrom_def
    queueNotification_def Let_def
  by (intro preserved; simp add: grant_view_def)+

lemma preserves_requireUser [preserved]:
  assumes "preserves P (getSessionUser cr token)" and "\<And>u. preserves P (k u)"
  shows "preserves P (requireUser cr token k)"
  unfolding requireUser_def by (intro preserved assms)

lemma preserves_withJson [preserved]: "(\<And>b. preserves P (k b)) \<Longrightarrow> preserves P (withJson body k)"
  unfolding withJson_def by (intro preserved)

lemma quiet_getSessionUser [preserved]: "preserves (quiet s) (getSessionUser cr token)"
  unfolding getSessionUser_def by (intro preserved)

lemma quiet_login [preserved]: "preserves (quiet s) (POST_login env count token r)"
  unfolding POST_login_def authenticate_def secondFactor_def openSession_def badPassword_def unknownUser_def useBackupCode_def
    updateUser_def Let_def
  by (intro preserved; simp add: grant_view_def)

subsection \<open>What an approval carries out\<close>

lemma quiet_updateWallets [preserved]: "preserves (quiet s) (updateWallets P f)"
  by (rule preservesI) (auto simp: updateWallets_def Let_def quiet_def grant_view_def split: if_splits)

lemma quiet_ledger [preserved]:
  "preserves (quiet s) (postJournal j)" "preserves (quiet s) (ensureSystemChart tid)"
  unfolding postJournal_def postJournalEntry_def insertJournalEntry_def insertSnapshot_def
    ensureSystemChart_def insertChartAccount_def insertSystemAccount_def
  by (intro preserved; simp add: Let_def grant_view_def)+

lemma quiet_getWalletLedgerAccount [preserved]: "preserves (quiet s) (getWalletLedgerAccount wid tid)"
proof -
  have "preserves (quiet s) (getWalletLedgerAccount_fuel n wid tid)" for n
    by (induction n) (auto intro!: preserved simp: Let_def grant_view_def)
  then show ?thesis by (simp add: getWalletLedgerAccount_def)
qed

lemma quiet_wallets [preserved]: "preserves (quiet s) (reserveFunds tid pid wid amt)"
  unfolding reserveFunds_def reserveFunds_attempt_def insertReservation_def appendWalletLedgerEntry_def
  by (intro preserved; simp add: grant_view_def)

lemma quiet_enqueueOutbox [preserved]: "preserves (quiet s) (enqueueOutbox ty ag ai tid payload)"
  unfolding enqueueOutbox_def by (intro preserved; simp add: grant_view_def)

lemma quiet_payments [preserved]:
  "preserves (quiet s) (transitionPayment pid st by_actor reason v)" "preserves (quiet s) (updatePayment pid f)"
  "preserves (quiet s) (payment_event ty pid tid extra)" "preserves (quiet s) (getPayment tid pid err)"
  unfolding transitionPayment_def updatePayment_def insertStatusHistory_def payment_event_def getPayment_def Let_def
  by (intro preserved; simp add: grant_view_def)+

lemma quiet_approved [preserved]:
  "preserves (quiet s) (approveQueuedPayment tid pid actor)" "preserves (quiet s) (approveBatch tid bid actor)"
  "preserves (quiet s) (activateBeneficiary tid ben actor)" "preserves (quiet s) (rejectBeneficiary tid ben actor)"
  unfolding approveQueuedPayment_def queuePayment_def approveBatch_def getBatch_def updateBatch_def batch_event_def
    activateBeneficiary_def rejectBeneficiary_def setBeneficiaryStatus_def beneficiary_event_def
  by (intro preserved; simp add: grant_view_def)+

lemma quiet_reversal [preserved]: "preserves (quiet s) (executeApprovedReversal tid pid actor reason prov)"
  unfolding executeApprovedReversal_def requestReversal_def loadReversiblePayment_def insertReversal_def postReversalJournal_def
    getSystemAccount_def
  by (intro preserved; simp add: grant_view_def)

section \<open>The invariant of grants\<close>

definition approved_grant :: "db \<Rightarrow> invitation \<Rightarrow> bool" where
  "approved_grant s i \<longleftrightarrow> (\<exists>q \<in> set (approvalRequests s). ar_resourceType q = Some ''invite'' \<and> ar_resourceId q = Some (iv_id i) \<and>
     ar_status q = AR_APPROVED \<and> iv_invitedById i = Some (ar_createdById q))"

definition invite_of :: "db \<Rightarrow> approvalRequest \<Rightarrow> bool" where
  "invite_of s q \<longleftrightarrow> (\<exists>i \<in> set (invitations s). ar_resourceId q = Some (iv_id i) \<and> iv_invitedById i = Some (ar_createdById q))"

definition invitation_ok :: "db \<Rightarrow> invitation \<Rightarrow> bool" where
  "invitation_ok s i \<longleftrightarrow> iv_id i \<in> used_ids s \<and> (role_sensitive (iv_roleId i) s \<longrightarrow> iv_roleApprovalStatus i \<noteq> RA_NONE) \<and>
     (iv_roleApprovalStatus i = RA_APPROVED \<longrightarrow> approved_grant s i)"

definition grants_inv :: "db \<Rightarrow> bool" where
  "grants_inv s \<longleftrightarrow> approval_inv s \<and> distinct (map iv_id (invitations s)) \<and>
     list_all (\<lambda>m. 1 \<le> m) (map as_minApprovers (approvalSteps s)) \<and>
     (\<forall>i \<in> set (invitations s). invitation_ok s i) \<and>
     (\<forall>q \<in> set (approvalRequests s). ar_resourceType q = Some ''invite'' \<longrightarrow> invite_of s q)"

lemma grants_quiet: "grants_inv s \<Longrightarrow> quiet s t \<Longrightarrow> grants_inv t"
proof -
  assume inv: "grants_inv s" and q: "quiet s t"
  have same: "invitations t = invitations s" "permissions t = permissions s" "rolePermissions t = rolePermissions s"
    "approvalRequests t = approvalRequests s" "approvalSteps t = approvalSteps s" "approvalActions t = approvalActions s"
    using q by (simp_all add: quiet_def grant_view_def)
  have "approval_inv t" using inv q same by (intro approval_inv_frame [of s t]) (simp_all add: grants_inv_def quiet_def)
  moreover have "used_ids s \<subseteq> used_ids t" by (rule used_ids_mono) (use q in \<open>simp_all add: quiet_def\<close>)
  ultimately show ?thesis
    using inv by (auto simp: grants_inv_def invitation_ok_def approved_grant_def invite_of_def role_sensitive_def same)
qed

lemma quiet_grants: "(\<And>s. preserves (quiet s) m) \<Longrightarrow> preserves grants_inv m"
  by (rule preservesI) (metis grants_quiet preservesD quiet_refl)

text \<open>Requests that only progress, the approved ones not at all.\<close>

definition request_static where
  "request_static q = (ar_id q, ar_resourceType q, ar_resourceId q, ar_createdById q)"

definition progressed :: "db \<Rightarrow> db \<Rightarrow> bool" where
  "progressed s t \<longleftrightarrow> (\<exists>f. approvalRequests t = map f (approvalRequests s) \<and>
      (\<forall>r \<in> set (approvalRequests s). request_static (f r) = request_static r \<and> (ar_status r = AR_APPROVED \<longrightarrow> f r = r))) \<and>
    map as_minApprovers (approvalSteps t) = map as_minApprovers (approvalSteps s) \<and> invitations t = invitations s \<and>
    permissions t = permissions s \<and> rolePermissions t = rolePermissions s \<and> used_ids s \<subseteq> used_ids t"

lemma grants_progressed:
  assumes inv: "grants_inv s" and p: "progressed s t" and "approval_inv t"
  shows "grants_inv t"
proof -
  from p obtain f where f: "approvalRequests t = map f (approvalRequests s)"
    "\<And>r. r \<in> set (approvalRequests s) \<Longrightarrow> request_static (f r) = request_static r"
    "\<And>r. r \<in> set (approvalRequests s) \<Longrightarrow> ar_status r = AR_APPROVED \<Longrightarrow> f r = r"
    and same: "map as_minApprovers (approvalSteps t) = map as_minApprovers (approvalSteps s)" "invitations t = invitations s"
      "permissions t = permissions s" "rolePermissions t = rolePermissions s" "used_ids s \<subseteq> used_ids t"
    by (auto simp: progressed_def)
  have "approved_grant t i" if "approved_grant s i" for i
    using that f(3) by (auto simp: approved_grant_def f(1) image_iff) metis
  moreover have "invite_of t (f q)" if "q \<in> set (approvalRequests s)" "ar_resourceType (f q) = Some ''invite''" for q
    using f(2) [OF that(1)] that inv by (auto simp: grants_inv_def invite_of_def request_static_def same)
  ultimately show ?thesis
    using assms same by (auto simp: grants_inv_def invitation_ok_def role_sensitive_def f(1))
qed

lemma progressed_row:
  assumes "approvalRequests t = update_rows (\<lambda>r. ar_id r = rid) f (approvalRequests s)"
    and "\<And>r. request_static (f r) = request_static r"
    and "\<And>r. r \<in> set (approvalRequests s) \<Longrightarrow> ar_id r = rid \<Longrightarrow> ar_status r \<noteq> AR_APPROVED"
    and "map as_minApprovers (approvalSteps t) = map as_minApprovers (approvalSteps s)" "invitations t = invitations s"
      "permissions t = permissions s" "rolePermissions t = rolePermissions s" "used_ids s \<subseteq> used_ids t"
  shows "progressed s t"
  unfolding progressed_def
  by (intro conjI exI [of _ "\<lambda>r. if ar_id r = rid then f r else r"]) (use assms in \<open>auto simp: update_rows_def\<close>)

lemma progressed_record:
  assumes inv: "approval_inv s" and run: "recordApprovalAction i s = (Inr out, t)"
  shows "progressed s t"
  using run
proof (rule recordApprovalAction_run)
  fix q :: approvalRequest and target rest a
  let ?steps = "sort_key as_level (steps_of (ar_id q) (approvalSteps s))"
  let ?s = "s\<lparr>uuid_next := Suc (uuid_next s), approvalActions := approvalActions s @ [a]\<rparr>"
  assume q: "q \<in> set (approvalRequests s)" "\<not> resolved (ar_status q)"
    and act: "(case ai_decision i of REJECT \<Rightarrow> rejectRequest q target | APPROVE \<Rightarrow> approveStep q ?steps target) ?s = (Inr out, t)"
  have "distinct (map ar_id (approvalRequests s))" using inv by (simp add: approval_inv_def approval_ids_def)
  with q have open_row: "ar_status r \<noteq> AR_APPROVED" if "r \<in> set (approvalRequests s)" "ar_id r = ar_id q" for r
    using that by (metis distinct_key_eq resolved_def insertCI)
  have ids: "used_ids s \<subseteq> used_ids ?s" by (rule used_ids_mono) simp_all
  let ?upd = "\<lambda>f. approvalRequests t = update_rows (\<lambda>r. ar_id r = ar_id q) f (approvalRequests s)"
  have "approvalRequests t = approvalRequests s \<or> (\<exists>st. ?upd (\<lambda>r. r\<lparr>ar_status := st\<rparr>)) \<or>
      (\<exists>st l. ?upd (\<lambda>r. r\<lparr>ar_status := st, ar_currentLevel := l\<rparr>))"
    using act by (cases "ai_decision i")
      (auto simp: rejectRequest_def approveStep_def setRequest_def setStepStatus_def tx_ok split: if_splits option.splits)
  then have "\<exists>f. ?upd f \<and> (\<forall>r. request_static (f r) = request_static r)"
  proof (elim disjE exE)
    assume "approvalRequests t = approvalRequests s"
    then show ?thesis by (intro exI [of _ "\<lambda>r. r"]) (simp add: update_rows_def)
  next
    fix st
    assume "?upd (\<lambda>r. r\<lparr>ar_status := st\<rparr>)"
    then show ?thesis by (intro exI [of _ "\<lambda>r. r\<lparr>ar_status := st\<rparr>"]) (simp add: request_static_def)
  next
    fix st l
    assume "?upd (\<lambda>r. r\<lparr>ar_status := st, ar_currentLevel := l\<rparr>)"
    then show ?thesis by (intro exI [of _ "\<lambda>r. r\<lparr>ar_status := st, ar_currentLevel := l\<rparr>"]) (simp add: request_static_def)
  qed
  then obtain f where "approvalRequests t = update_rows (\<lambda>r. ar_id r = ar_id q) f (approvalRequests s)"
    "\<And>r. request_static (f r) = request_static r" by blast
  then show "progressed s t"
  proof (rule progressed_row)
    show "map as_minApprovers (approvalSteps t) = map as_minApprovers (approvalSteps s)" "invitations t = invitations s"
      "permissions t = permissions s" "rolePermissions t = rolePermissions s" "used_ids s \<subseteq> used_ids t"
      using act ids by (cases "ai_decision i"; auto simp: rejectRequest_def approveStep_def setRequest_def setStepStatus_def tx_ok
          used_ids_def split: if_splits option.splits)+
  qed (rule open_row)
qed

lemma grants_record [preserved]: "preserves grants_inv (recordApprovalAction i)"
proof (rule preservesI)
  fix s r t
  assume inv: "grants_inv s" and run: "recordApprovalAction i s = (r, t)"
  show "grants_inv t"
  proof (cases r)
    case (Inl e)
    with run inv show ?thesis by (auto simp: recordApprovalAction_def dest: transaction_rollback)
  next
    case (Inr out)
    have "approval_inv s" using inv by (simp add: grants_inv_def)
    with inv run [unfolded Inr] show ?thesis
      by (intro grants_progressed [OF inv progressed_record] preservesD [OF approval_recordApprovalAction _ run])
  qed
qed

lemma grants_expire [preserved]: "preserves grants_inv (expireDueApprovals t0)"
proof (rule preservesI)
  fix s r t
  assume inv: "grants_inv s" and run: "expireDueApprovals t0 s = (r, t)"
  then have t: "t = s\<lparr>approvalRequests := update_rows (approval_due t0) (\<lambda>r. r\<lparr>ar_status := AR_EXPIRED\<rparr>) (approvalRequests s)\<rparr>"
    by (auto simp: expireDueApprovals_def tx_run)
  have "progressed s t" unfolding progressed_def
    by (intro conjI exI [of _ "\<lambda>r. if approval_due t0 r then r\<lparr>ar_status := AR_EXPIRED\<rparr> else r"])
      (auto simp: t update_rows_def request_static_def approval_due_def used_ids_def)
  moreover have "approval_inv s" using inv by (simp add: grants_inv_def)
  then have "approval_inv t" by (rule preservesD [OF approval_expireDueApprovals _ run])
  ultimately show "grants_inv t" by (rule grants_progressed [OF inv])
qed

section \<open>New requests\<close>

lemma validateRules_min: "validateRules rules = None \<longleftrightarrow> (\<forall>r \<in> set rules. rl_requiredRoles r \<noteq> [] \<and> 1 \<le> rl_minApprovers r \<and>
    \<not> (rl_mode r = ANY \<and> rl_minApprovers r > int (length (rl_requiredRoles r))))"
  by (induction rules) auto

lemma evaluatePolicy_min:
  assumes "validateRules rules = None"
  shows "list_all (\<lambda>q. 1 \<le> rq_minApprovers q) (evaluatePolicy rules ctx)"
proof -
  have "list_all (\<lambda>q. 1 \<le> rq_minApprovers q) (first_match rs ctx)" if "\<forall>r \<in> set rs. 1 \<le> rl_minApprovers r" for rs
    using that by (induction rs) (auto simp: ruleSteps_def list_all_iff)
  then show ?thesis using assms by (simp add: evaluatePolicy_def validateRules_min)
qed

lemma min_step_rows: "map as_minApprovers (step_rows rid gen n qs) = map rq_minApprovers qs"
  by (induction qs arbitrary: n) (simp_all add: step_row_def)

lemma createApprovalRequest_row:
  assumes "createApprovalRequest input s = (Inr rid, t)"
  obtains r where "t = after_create r (evaluatePolicy (ca_rules input) (ca_context input)) s" "ar_id r = rid"
    "ar_status r = AR_PENDING" "request_static r = (rid, ca_resourceType input, ca_resourceId input, ca_createdById input)"
    "validateRules (ca_rules input) = None"
proof -
  obtain q qs where qs: "evaluatePolicy (ca_rules input) (ca_context input) = q # qs"
    using assms by (cases "evaluatePolicy (ca_rules input) (ca_context input)")
      (auto simp: createApprovalRequest_def Let_def tx_ok split: option.splits)
  let ?r = "\<lparr> ar_id = uuid_gen s (uuid_next s), ar_tenantId = ca_tenantId input,
     ar_paymentId = ca_paymentId input, ar_batchId = ca_batchId input,
     ar_resourceType = ca_resourceType input, ar_resourceId = ca_resourceId input,
     ar_policyId = ca_policyId input, ar_policySnapshot = \<lparr> sn_rules = ca_rules input,
       sn_context = ca_context input, sn_metadata = to_jsonb (ca_metadata input) \<rparr>,
     ar_status = AR_PENDING, ar_mode = rq_mode q,
     ar_requiredApprovals = sum_list (map rq_minApprovers (q # qs)), ar_currentLevel = 1,
     ar_dueAt = ca_dueAt input, ar_createdById = ca_createdById input, ar_createdAt = now s,
     ar_executedAt = None, ar_executionError = None \<rparr>"
  have "rid = uuid_gen s (uuid_next s)" "t = after_create ?r (q # qs) s" "validateRules (ca_rules input) = None"
    using assms by (auto simp: createApprovalRequest_def Let_def tx_ok qs insertSteps_run after_create_def
        simp del: forEachM.simps split: option.splits)
  with qs show thesis by (intro that [of ?r]) (auto simp: request_static_def)
qed

text \<open>A new request keeps the invariant if it is for no invitation, or for the invitation of its maker.\<close>

lemma grants_after_create:
  assumes inv: "grants_inv s" and "approval_inv (after_create r qs s)" and mins: "list_all (\<lambda>q. 1 \<le> rq_minApprovers q) qs"
    and "ar_resourceType r = Some ''invite'' \<longrightarrow> invite_of s r"
  shows "grants_inv (after_create r qs s)"
proof -
  have "used_ids s \<subseteq> used_ids (after_create r qs s)" by (rule used_ids_mono) (simp_all add: after_create_def)
  then show ?thesis
    using assms by (auto simp: grants_inv_def invitation_ok_def approved_grant_def invite_of_def role_sensitive_def after_create_def
        min_step_rows list_all_iff)
qed

lemma grants_raise: "ca_resourceType ca \<noteq> Some ''invite'' \<Longrightarrow> preserves grants_inv (createApprovalRequest ca)"
proof (rule preservesI)
  fix s r t
  assume other: "ca_resourceType ca \<noteq> Some ''invite''" and inv: "grants_inv s" and run: "createApprovalRequest ca s = (r, t)"
  show "grants_inv t"
  proof (cases r)
    case (Inl e)
    with run inv show ?thesis by (auto dest: createApprovalRequest_err)
  next
    case (Inr rid)
    from run [unfolded Inr] obtain q where q: "t = after_create q (evaluatePolicy (ca_rules ca) (ca_context ca)) s"
      "request_static q = (rid, ca_resourceType ca, ca_resourceId ca, ca_createdById ca)" "validateRules (ca_rules ca) = None"
      by (elim createApprovalRequest_row)
    have "approval_inv t" using inv by (intro preservesD [OF approval_createApprovalRequest _ run]) (simp add: grants_inv_def)
    with inv other q show ?thesis
      by (simp add: grants_after_create evaluatePolicy_min request_static_def)
  qed
qed

text \<open>An invitation keeps its role and maker; its gate may close, and open only with an approved request.\<close>

definition gate_step :: "db \<Rightarrow> invitation \<Rightarrow> invitation \<Rightarrow> bool" where
  "gate_step s i j \<longleftrightarrow> iv_id j = iv_id i \<and> iv_roleId j = iv_roleId i \<and> iv_invitedById j = iv_invitedById i \<and>
     (iv_roleApprovalStatus j = iv_roleApprovalStatus i \<or> iv_roleApprovalStatus j = RA_PENDING \<or> iv_roleApprovalStatus j = RA_REJECTED \<or>
      iv_roleApprovalStatus j = RA_APPROVED \<and> approved_grant s i)"

lemma grants_gate:
  assumes inv: "grants_inv s" and g: "\<And>i. i \<in> set (invitations s) \<Longrightarrow> gate_step s i (g i)"
  shows "grants_inv (s\<lparr>invitations := map g (invitations s)\<rparr>)" (is "grants_inv ?t")
proof -
  have "approval_inv ?t" using inv by (intro approval_inv_frame [of s ?t]) (simp_all add: grants_inv_def)
  moreover have ids: "map (iv_id \<circ> g) (invitations s) = map iv_id (invitations s)" using g by (simp add: gate_step_def)
  have "distinct (map (iv_id \<circ> g) (invitations s))" unfolding ids using inv by (simp add: grants_inv_def)
  moreover have "invitation_ok ?t (g i)" if "i \<in> set (invitations s)" for i
  proof -
    have "invitation_ok s i" using inv that by (simp add: grants_inv_def)
    moreover have "approved_grant ?t (g i) = approved_grant s i" "role_sensitive r ?t = role_sensitive r s" "used_ids ?t = used_ids s" for r
      using g [OF that] by (simp_all add: approved_grant_def gate_step_def role_sensitive_def used_ids_def)
    ultimately show ?thesis using g [OF that] by (auto simp: invitation_ok_def gate_step_def)
  qed
  moreover have "invite_of ?t q" if "invite_of s q" for q
    using that g by (fastforce simp: invite_of_def gate_step_def)
  ultimately show ?thesis using inv by (auto simp: grants_inv_def)
qed

lemma grants_update:
  assumes "\<And>s i. i \<in> set (invitations s) \<Longrightarrow> P i \<Longrightarrow> gate_step s i (f s i)"
  shows "preserves grants_inv (modify (\<lambda>s. s\<lparr>invitations := update_rows P (f s) (invitations s)\<rparr>))"
  unfolding update_rows_def using assms by (intro preserves_modify grants_gate) (auto simp: gate_step_def)

section \<open>Invitations\<close>

lemma role_sensitive_invitations [simp]: "role_sensitive r (s\<lparr>invitations := is\<rparr>) = role_sensitive r s"
  by (simp add: role_sensitive_def)

lemma invite_steps: "evaluatePolicy [plain_rule ANY INVITE_APPROVER_ROLES 1 0] (control_context 0 ''control'' ''internal'') =
    [\<lparr> rq_level = 1, rq_mode = ANY, rq_roles = INVITE_APPROVER_ROLES, rq_minApprovers = 1 \<rparr>]"
  by code_simp

lemma createInvite_ok: "\<exists>rid u. createInviteRoleApprovalRequest tid iid uid s = (Inr rid, u)"
proof -
  have "validateRules [plain_rule ANY INVITE_APPROVER_ROLES 1 0] = None" by (simp add: plain_rule_def INVITE_APPROVER_ROLES_def)
  then show ?thesis
    by (simp add: createInviteRoleApprovalRequest_def createApprovalRequest_def invite_steps tx_run transaction_def fresh_id_def
        insertSteps_run del: validateRules.simps forEachM.simps)
qed

text \<open>The row of a new invitation and the state after its insertion.\<close>

lemma insertInvitation_run:
  "insertInvitation cr ie raw user email rid s = (r, t) \<Longrightarrow> (case r of
     Inl e \<Rightarrow> quiet s t
   | Inr iid \<Rightarrow> iid = uuid_gen s (uuid_next s) \<and> (\<exists>i. iv_id i = iid \<and> iv_roleId i = rid \<and> iv_invitedById i = Some (su_userId user) \<and>
       iv_roleApprovalStatus i = RA_NONE \<and> t = s\<lparr>uuid_next := Suc (uuid_next s), invitations := invitations s @ [i]\<rparr>))"
  by (cases "su_tenantId user")
    (auto simp: insertInvitation_def require_def fresh_id_def tx_run quiet_def grant_view_def split: if_splits
      intro!: exI [where x = "\<lparr> iv_id = x, iv_tenantId = y, iv_email = email, iv_roleId = rid, iv_tokenHash = z, iv_rawToken = w,
        iv_invitedById = Some (su_userId user), iv_roleApprovalStatus = RA_NONE, iv_roleApprovedById = None, iv_expiresAt = a,
        iv_acceptedAt = None, iv_createdAt = b \<rparr>" for x y z w a b])

text \<open>A new invitation and its gate are one step: the gate of a sensitive role cannot fail.\<close>

lemma grants_invite:
  assumes k: "\<And>iid gate. preserves grants_inv (k iid gate)"
  shows "preserves grants_inv (bind (insertInvitation cr ie raw user email rid) (\<lambda>iid. bind (roleGate user rid iid) (k iid)))"
proof (rule preservesI)
  fix s r t
  assume inv: "grants_inv s"
    and run: "bind (insertInvitation cr ie raw user email rid) (\<lambda>iid. bind (roleGate user rid iid) (k iid)) s = (r, t)"
  obtain r1 s1 where ins: "insertInvitation cr ie raw user email rid s = (r1, s1)" by fastforce
  show "grants_inv t"
  proof (cases r1)
    case (Inl e)
    with run ins have "t = s1" by (simp add: bind_def)
    with insertInvitation_run [OF ins] Inl inv show ?thesis by (auto intro: grants_quiet)
  next
    case (Inr iid)
    with insertInvitation_run [OF ins] obtain i where iid: "iid = uuid_gen s (uuid_next s)"
      and i: "iv_id i = iid" "iv_roleId i = rid" "iv_invitedById i = Some (su_userId user)" "iv_roleApprovalStatus i = RA_NONE"
      and s1: "s1 = s\<lparr>uuid_next := Suc (uuid_next s), invitations := invitations s @ [i]\<rparr>" by auto
    have ids: "approval_ids s" "iv_id ` set (invitations s) \<subseteq> used_ids s"
      using inv by (auto simp: grants_inv_def approval_inv_def invitation_ok_def)
    have new: "iid \<notin> used_ids s" using ids(1) by (simp add: iid fresh_not_used approval_ids_def)
    have used: "used_ids s \<subseteq> used_ids s1" "iid \<in> used_ids s1" by (auto simp: s1 iid used_ids_def)
    let ?j = "i\<lparr>iv_roleApprovalStatus := RA_PENDING\<rparr>"
    let ?s1 = "s1\<lparr>invitations := invitations s @ [?j]\<rparr>"
    have closed: "grants_inv (s1\<lparr>invitations := invitations s @ [x]\<rparr>)" if x: "x = i \<and> \<not> role_sensitive rid s \<or> x = ?j" for x
    proof -
      let ?u = "s1\<lparr>invitations := invitations s @ [x]\<rparr>"
      have "approval_inv ?u" using inv by (intro approval_inv_frame [of s ?u]) (simp_all add: grants_inv_def s1)
      moreover have "role_sensitive q ?u = role_sensitive q s" "used_ids ?u = used_ids s1" for q
        by (simp_all add: role_sensitive_def s1 used_ids_def)
      moreover have "iv_id x = iid" "iv_roleApprovalStatus x \<noteq> RA_APPROVED" "iv_roleId x = rid"
        "iv_roleApprovalStatus x = RA_NONE \<longrightarrow> \<not> role_sensitive rid s" using x i by auto
      ultimately show ?thesis
        using inv ids new used by (auto simp: grants_inv_def invitation_ok_def approved_grant_def invite_of_def s1)
    qed
    show ?thesis
    proof (cases "role_sensitive rid s")
      case False
      then have "roleGate user rid iid s1 = (Inr None, s1)"
        by (simp add: roleGate_def roleGrantRequiresApproval_def tx_run transaction_def s1 role_sensitive_def)
      with run ins Inr have "k iid None s1 = (r, t)" by (simp add: bind_def)
      moreover have "grants_inv s1" using closed [of i] False by (simp add: s1)
      ultimately show ?thesis using k by (blast intro: preservesD)
    next
      case True
      obtain qid s2 where req: "createInviteRoleApprovalRequest (session_tenant user) iid (su_userId user) s1 = (Inr qid, s2)"
        using createInvite_ok by blast
      then obtain q where q: "s2 = after_create q (evaluatePolicy [plain_rule ANY INVITE_APPROVER_ROLES 1 0]
           (control_context 0 ''control'' ''internal'')) s1"
        "request_static q = (qid, Some ''invite'', Some iid, su_userId user)"
        unfolding createInviteRoleApprovalRequest_def by (elim createApprovalRequest_row) simp
      let ?s2 = "s2\<lparr>invitations := invitations s @ [?j]\<rparr>"
      have upd: "update_rows (\<lambda>x. iv_id x = iid) (\<lambda>x. x\<lparr>iv_roleApprovalStatus := RA_PENDING\<rparr>) (invitations s2) = invitations s @ [?j]"
        using ids(2) new i(1) by (simp add: q(1) after_create_def s1) (rule update_rows_none, auto)
      have "roleGate user rid iid s1 = (Inr (Some qid), ?s2)"
        using True req by (simp add: roleGate_def roleGrantRequiresApproval_def tx_run transaction_def upd)
          (simp add: s1 role_sensitive_def upd)
      with run ins Inr have "k iid (Some qid) ?s2 = (r, t)" by (simp add: bind_def)
      moreover have "grants_inv ?s2"
      proof -
        have s2: "?s2 = after_create q (evaluatePolicy [plain_rule ANY INVITE_APPROVER_ROLES 1 0]
           (control_context 0 ''control'' ''internal'')) ?s1" by (simp add: q(1) after_create_def)
        have "approval_inv s1" using inv by (intro approval_inv_frame [of s s1]) (simp_all add: grants_inv_def s1)
        then have "approval_inv s2"
          by (rule preservesD [OF approval_createApprovalRequest _ req [unfolded createInviteRoleApprovalRequest_def]])
        then have "approval_inv ?s2" by (rule approval_inv_frame) simp_all
        with closed [of ?j] show ?thesis unfolding s2
          by (intro grants_after_create) (use i q(2) in \<open>auto simp: invite_steps invite_of_def request_static_def\<close>)
      qed
      ultimately show ?thesis using k by (blast intro: preservesD)
    qed
  qed
qed

lemma grants_team [preserved]: "preserves grants_inv (POST_team cr ie uuid token body)"
proof -
  have member: "preserves grants_inv (inviteMember cr ie uuid user email role)" for user email role
    unfolding inviteMember_def deliverInvite_def Let_def
    by (intro grants_invite preserved quiet_grants)
  show ?thesis
    unfolding POST_team_def Let_def
    by (intro preserved member quiet_grants)
qed

section \<open>Decisions\<close>

lemma grants_decision:
  assumes "\<And>s i. grants_inv s \<Longrightarrow> i \<in> set (invitations s) \<Longrightarrow> iv_id i = iid \<Longrightarrow> Q s \<Longrightarrow>
      d = RA_REJECTED \<or> d = RA_APPROVED \<and> approved_grant s i"
    and "grants_inv s" "Q s" "applyInviteRoleDecision iid d actor s = (r, t)"
  shows "grants_inv t"
proof -
  from assms(4) have t: "t = s\<lparr>invitations := map (\<lambda>i. if iv_id i = iid
      then i\<lparr>iv_roleApprovalStatus := d, iv_roleApprovedById := Some actor\<rparr> else i) (invitations s)\<rparr>"
    by (simp add: applyInviteRoleDecision_def modify_def update_rows_def)
  show ?thesis unfolding t
    by (rule grants_gate [OF assms(2)]) (use assms(1-3) in \<open>auto simp: gate_step_def\<close>)
qed

lemma grants_approved_action:
  assumes inv: "grants_inv s" and q: "q \<in> set (approvalRequests s)" "ar_status q = AR_APPROVED"
    and run: "approved_action provider user q s = (r, t)"
  shows "grants_inv t"
proof (cases "\<not> truthy (ar_paymentId q) \<and> \<not> truthy (ar_batchId q) \<and> ar_resourceType q = Some ''invite'' \<and> truthy (ar_resourceId q)")
  case True
  then obtain iid where iid: "ar_resourceId q = Some iid" by (auto simp: truthy_def)
  with run True have act: "applyInviteRoleDecision iid RA_APPROVED (su_userId user) s = (r, t)" by (simp add: approved_action_def)
  from inv q(1) True obtain i0 where i0: "i0 \<in> set (invitations s)" "iid = iv_id i0" "iv_invitedById i0 = Some (ar_createdById q)"
    by (auto simp: grants_inv_def invite_of_def iid)
  show ?thesis
  proof (rule grants_decision [where Q = "\<lambda>u. u = s", OF _ inv refl act])
    fix u i
    assume u: "u = s" and i: "i \<in> set (invitations u)" "iv_id i = iid"
    have "i = i0" using inv i i0 u unfolding grants_inv_def by (metis distinct_key_eq)
    with i0 q True iid u show "RA_APPROVED = RA_REJECTED \<or> RA_APPROVED = RA_APPROVED \<and> approved_grant u i"
      by (auto simp: approved_grant_def)
  qed
next
  case False
  have "preserves grants_inv (approved_action provider user q)"
    using False unfolding approved_action_def by (intro preserved quiet_grants; simp)
  with inv run show ?thesis by (blast intro: preservesD)
qed

lemma grants_rejected_action [preserved]: "preserves grants_inv (rejected_action user q)"
proof -
  have "preserves grants_inv (applyInviteRoleDecision iid RA_REJECTED actor)" for iid actor
    by (rule preservesI) (rule grants_decision [where Q = "\<lambda>u. True"], auto)
  then show ?thesis unfolding rejected_action_def by (intro preserved quiet_grants [OF quiet_approved(4)])
qed

lemma find_request_in: "find (\<lambda>r. ar_id r = x) (approvalRequests s) = Some q \<Longrightarrow> q \<in> set (approvalRequests s)"
  by (auto dest: find_in)

lemma grants_decideRequest [preserved]: "preserves grants_inv (decideRequest provider user rid d nt)"
proof (rule preservesI)
  fix s r t
  assume inv: "grants_inv s" and run: "decideRequest provider user rid d nt s = (r, t)"
  let ?ai = "\<lparr> ai_requestId = rid, ai_actorId = su_userId user, ai_actorRoles = [''APPROVER'', ''FINANCE_MANAGER'', ''OWNER''],
     ai_decision = d, ai_comment = nt, ai_delegatedForId = None \<rparr>"
  obtain out u where act: "recordApprovalAction ?ai s = (out, u)" by fastforce
  have u: "grants_inv u" by (rule preservesD [OF grants_record inv act])
  show "grants_inv t"
  proof (cases "\<exists>x. out = Inr (AR_APPROVED, x)")
    case False
    have "preserves grants_inv (seq (bind (gets (\<lambda>s. find (\<lambda>r. ar_id r = rid) (approvalRequests s))) (\<lambda>row. case row of None \<Rightarrow> return ()
          | Some req \<Rightarrow> if fst o' = AR_APPROVED then approved_action provider user req
             else if fst o' = AR_REJECTED then rejected_action user req else return ())) (return (ApiOk o')))"
      if "fst o' \<noteq> AR_APPROVED" for o' using that by (intro preserved; simp)
    note rest = preservesD [OF this u]
    show ?thesis
    proof (cases out)
      case (Inl e)
      with run act have "t = u" by (simp add: decideRequest_def bind_def)
      with u show ?thesis by simp
    next
      case (Inr o')
      with False have "fst o' \<noteq> AR_APPROVED" by (cases o') auto
      moreover from run act Inr have "seq (bind (gets (\<lambda>s. find (\<lambda>r. ar_id r = rid) (approvalRequests s))) (\<lambda>row. case row of None \<Rightarrow> return ()
          | Some req \<Rightarrow> if fst o' = AR_APPROVED then approved_action provider user req
             else if fst o' = AR_REJECTED then rejected_action user req else return ())) (return (ApiOk o')) u = (r, t)"
        by (simp add: decideRequest_def bind_def)
      ultimately show ?thesis by (rule rest)
    qed
  next
    case True
    then obtain x where x: "out = Inr (AR_APPROVED, x)" by blast
    have "approval_inv s" using inv by (simp add: grants_inv_def)
    from this act [unfolded x] obtain q where "find (\<lambda>r. ar_id r = rid) (approvalRequests u) = Some (q\<lparr>ar_status := AR_APPROVED\<rparr>)"
      by (rule approving_row) simp
    then have found: "find (\<lambda>r. ar_id r = rid) (approvalRequests u) = Some (q\<lparr>ar_status := AR_APPROVED\<rparr>)" .
    obtain r2 t2 where gated: "approved_action provider user (q\<lparr>ar_status := AR_APPROVED\<rparr>) u = (r2, t2)" by fastforce
    have "t = t2" using run act x found gated
      by (auto simp: decideRequest_def bind_def seq_def gets_def return_def split: sum.splits)
    with grants_approved_action [OF u find_request_in [OF found] _ gated] show ?thesis by simp
  qed
qed

lemma grants_approvals [preserved]: "preserves grants_inv (POST_approvals cr provider token body)"
  unfolding POST_approvals_def Let_def by (intro preserved quiet_grants)

section \<open>Registration\<close>

lemma grants_register [preserved]: "preserves grants_inv (POST_register cr count salt token body)"
  unfolding POST_register_def joinWorkspace_def insertUser_def insertUserRole_def Let_def
  by (intro preserved grants_update quiet_grants [OF quiet_modify] quiet_grants [OF quiet_fresh_id] quiet_grants [OF quiet_access(3)];
      simp add: grant_view_def gate_step_def)

section \<open>Histories\<close>

datatype access_command =
    InviteMember inviteEnv string "string option" "jsval option"
  | DecideGrant paymentProvider "string option" "jsval option"
  | RaiseRequest createApprovalInput
  | ExpireGrants int
  | RegisterMember "int option" "nat list" string "jsval option"
  | SignIn "int option" string loginRequest

text \<open>The other packages raise requests for payments, batches, payees, reversals and the configuration only.\<close>

primrec exec_access :: "webEnv \<Rightarrow> access_command \<Rightarrow> unit cmd" where
  "exec_access env (InviteMember ie uuid token body) = seq (POST_team (we_crypto env) ie uuid token body) (return ())"
| "exec_access env (DecideGrant provider token body) = seq (POST_approvals (we_crypto env) provider token body) (return ())"
| "exec_access env (RaiseRequest ca) = (if ca_resourceType ca = Some ''invite'' then return () else seq (createApprovalRequest ca) (return ()))"
| "exec_access env (ExpireGrants t) = seq (expireDueApprovals t) (return ())"
| "exec_access env (RegisterMember count salt token body) = seq (POST_register (we_crypto env) count salt token body) (return ())"
| "exec_access env (SignIn count token r) = seq (POST_login env count token r) (return ())"

definition access_start :: "db \<Rightarrow> bool" where
  "access_start s \<longleftrightarrow> uuids_distinct s \<and> invitations s = [] \<and> approvalRequests s = [] \<and> approvalSteps s = [] \<and> approvalActions s = []"

lemma access_start_inv: "access_start s \<Longrightarrow> grants_inv s"
  by (simp add: access_start_def grants_inv_def approval_inv_def approval_ids_def actions_ok_def)

interpretation access: command_system "exec_access env" grants_inv for env
proof
  fix c
  show "preserves grants_inv (exec_access env c)"
    by (cases c; simp only: exec_access.simps; intro preserved grants_raise quiet_grants [OF quiet_login]; simp)
qed

lemma approved_by_other:
  assumes inv: "grants_inv s" and i: "i \<in> set (invitations s)"
    and gate: "role_sensitive (iv_roleId i) s" "iv_roleApprovalStatus i = RA_NONE \<or> iv_roleApprovalStatus i = RA_APPROVED"
  shows "\<exists>q \<in> set (approvalRequests s). ar_resourceType q = Some ''invite'' \<and> ar_resourceId q = Some (iv_id i) \<and>
    ar_status q = AR_APPROVED \<and> iv_invitedById i = Some (ar_createdById q) \<and>
    (\<exists>x \<in> set (approvalActions s). aa_requestId x = ar_id q \<and> aa_decision x = APPROVE \<and> Some (aa_actorId x) \<noteq> iv_invitedById i)"
proof -
  have ainv: "approval_inv s" using inv by (simp add: grants_inv_def)
  from inv i gate have "approved_grant s i" by (auto simp: grants_inv_def invitation_ok_def)
  then obtain q where q: "q \<in> set (approvalRequests s)" "ar_resourceType q = Some ''invite''" "ar_resourceId q = Some (iv_id i)"
    "ar_status q = AR_APPROVED" "iv_invitedById i = Some (ar_createdById q)" by (auto simp: approved_grant_def)
  have "steps_of (ar_id q) (approvalSteps s) \<noteq> []" using ainv q(1) by (auto simp: approval_inv_def request_ok_def)
  then obtain st where st: "st \<in> set (steps_of (ar_id q) (approvalSteps s))" by (meson last_in_set)
  then have mem: "st \<in> set (approvalSteps s)" "as_requestId st = ar_id q" by (auto simp: steps_of_def)
  let ?as = "approvals_on (as_id st) (approvalActions s)"
  have "1 \<le> as_minApprovers st" using inv mem(1) by (auto simp: grants_inv_def list_all_iff)
  with approved_request [OF ainv q(1,4) st] have "?as \<noteq> []" "ar_createdById q \<notin> aa_actorId ` set ?as" by auto
  then obtain x where x: "x \<in> set ?as" "aa_actorId x \<noteq> ar_createdById q" by (metis image_eqI last_in_set)
  then have act: "x \<in> set (approvalActions s)" "aa_stepId x = as_id st" "aa_decision x = APPROVE" by (auto simp: approvals_on_def)
  with ainv obtain st' where "st' \<in> set (approvalSteps s)" "as_id st' = as_id st" "as_requestId st' = aa_requestId x"
    by (auto simp: approval_inv_def actions_ok_def)
  with mem ainv have "aa_requestId x = ar_id q" unfolding approval_inv_def approval_ids_def by (metis distinct_key_eq)
  with q x(2) act show ?thesis by auto
qed

text \<open>C7. Privileged roles need a second pair of eyes: in every history of invitations, decisions, approval requests,
  registrations and logins, a registration gives the role of the invitation to the new account, and when that
  role carries a sensitive permission, the grant was approved: there is an approved request for the
  invitation, made by the inviter, and a recorded approval of it by another user.\<close>

theorem privileged_roles_need_a_checker:
  assumes "reachable (exec_access env) access_start s"
    and run: "POST_register cr count salt token (Some b) s = (Inr (ApiOk a), t)"
  shows "\<exists>i \<in> set (invitations s). \<exists>uid. userRoles t = userRoles s @ [\<lparr> ur_userId = uid, ur_roleId = iv_roleId i, ur_tenantId = iv_tenantId i \<rparr>] \<and>
    (if role_sensitive (iv_roleId i) s
     then \<exists>q \<in> set (approvalRequests s). ar_resourceType q = Some ''invite'' \<and> ar_resourceId q = Some (iv_id i) \<and>
       ar_status q = AR_APPROVED \<and> iv_invitedById i = Some (ar_createdById q) \<and>
       (\<exists>x \<in> set (approvalActions s). aa_requestId x = ar_id q \<and> aa_decision x = APPROVE \<and> Some (aa_actorId x) \<noteq> iv_invitedById i)
     else True)"
proof -
  have inv: "grants_inv s" by (rule access.reachable_inv [OF access_start_inv assms(1)])
  obtain i where i: "open_invitation cr b i s" and joined: "joined cr token i (registration_email b) s t"
    by (rule POST_register_joined [OF run])
  then have mem: "i \<in> set (invitations s)" and gate: "iv_roleApprovalStatus i = RA_NONE \<or> iv_roleApprovalStatus i = RA_APPROVED"
    by (simp_all add: open_invitation_def)
  show ?thesis
  proof (intro bexI [OF _ mem])
    show "\<exists>uid. userRoles t = userRoles s @ [\<lparr> ur_userId = uid, ur_roleId = iv_roleId i, ur_tenantId = iv_tenantId i \<rparr>] \<and>
      (if role_sensitive (iv_roleId i) s
       then \<exists>q \<in> set (approvalRequests s). ar_resourceType q = Some ''invite'' \<and> ar_resourceId q = Some (iv_id i) \<and>
         ar_status q = AR_APPROVED \<and> iv_invitedById i = Some (ar_createdById q) \<and>
         (\<exists>x \<in> set (approvalActions s). aa_requestId x = ar_id q \<and> aa_decision x = APPROVE \<and> Some (aa_actorId x) \<noteq> iv_invitedById i)
       else True)"
      using joined approved_by_other [OF inv mem _ gate] by (auto simp: joined_def)
  qed
qed

text \<open>A workspace with an owner and a checker: the owner invites a second owner, the checker signs off, the invited
  user registers.\<close>

definition demo_role_id :: string where
  "demo_role_id = ''00000000-0000-0000-0000-00000000000a''"

definition demo_account :: "string \<Rightarrow> user" where
  "demo_account uid = demo_member\<lparr>us_id := uid, us_email := uid @ ''@b.ke''\<rparr>"

definition demo_session_of :: "string \<Rightarrow> session" where
  "demo_session_of uid = login_session demo_crypto uid None None (demo_account uid) (''s'' @ uid) 0"

definition demo_workspace :: db where
  "demo_workspace = (empty_db show_nat 0)\<lparr>users := map demo_account [''owner'', ''checker''],
     sessions := map demo_session_of [''owner'', ''checker''],
     roles := [\<lparr> ro_id = demo_role_id, ro_tenantId = None, ro_scope = ''BUSINESS'', ro_name = ''OWNER'', ro_isSystem = True \<rparr>],
     permissions := [\<lparr> pm_id = ''p1'', pm_code = ''team.manage'' \<rparr>, \<lparr> pm_id = ''p2'', pm_code = ''payment.approve'' \<rparr>],
     rolePermissions := [\<lparr> rp_roleId = demo_role_id, rp_permissionId = ''p1'' \<rparr>, \<lparr> rp_roleId = demo_role_id, rp_permissionId = ''p2'' \<rparr>],
     userRoles := map (\<lambda>u. \<lparr> ur_userId = u, ur_roleId = demo_role_id, ur_tenantId = ''t'' \<rparr>) [''owner'', ''checker'']\<rparr>"

definition idle_provider :: paymentProvider where
  "idle_provider = (let r = \<lparr> prr_status = PR_PENDING, prr_providerReference = None, prr_errorCode = None, prr_errorMessage = None \<rparr>
     in \<lparr> provider_createPayment = (\<lambda>_. Inr r), provider_getPaymentStatus = (\<lambda>_ _. Inr r), provider_reversePayment = (\<lambda>_. Inr r) \<rparr>)"

definition grant_history :: "access_command list" where
  "grant_history =
    [InviteMember \<lparr> ie_demoMode = True, ie_baseUrl = [], ie_localeString = (\<lambda>t. []) \<rparr> ''raw'' (Some ''owner'')
       (Some (JObject [(''email'', JString ''new@b.ke''), (''roleId'', JString demo_role_id)])),
     DecideGrant idle_provider (Some ''checker'') (Some (JObject [(''requestId'', JString ''1'')]))]"

definition demo_registration :: jsval where
  "demo_registration = JObject [(''email'', JString ''new@b.ke''), (''password'', JString ''long enough''), (''fullName'', JString ''N''),
     (''inviteToken'', JString ''inv-raw'')]"

definition demo_granted :: db where
  "demo_granted = run_all (exec_access demo_env) grant_history demo_workspace"

definition registers_invited :: "db \<Rightarrow> bool" where
  "registers_invited s \<longleftrightarrow> map iv_roleId (invitations s) = [demo_role_id] \<and> role_sensitive demo_role_id s \<and>
    (case fst (POST_register demo_crypto None [0] ''tok'' (Some demo_registration) s) of Inr (ApiOk a) \<Rightarrow> True | _ \<Rightarrow> False)"

lemma demo_granted_registers: "registers_invited demo_granted"
  by code_simp

lemmas demo_granted_runs = demo_granted_registers [unfolded registers_invited_def]

theorem privileged_roles_need_a_checker_witness:
  "\<exists>i \<in> set (invitations demo_granted). role_sensitive (iv_roleId i) demo_granted \<and>
    (\<exists>q \<in> set (approvalRequests demo_granted). ar_resourceType q = Some ''invite'' \<and> ar_resourceId q = Some (iv_id i) \<and>
       ar_status q = AR_APPROVED \<and> iv_invitedById i = Some (ar_createdById q) \<and>
       (\<exists>x \<in> set (approvalActions demo_granted). aa_requestId x = ar_id q \<and> aa_decision x = APPROVE \<and>
          Some (aa_actorId x) \<noteq> iv_invitedById i))"
proof -
  have start: "access_start demo_workspace" by (simp add: access_start_def demo_workspace_def uuids_distinct_def empty_db_def)
  have reach: "reachable (exec_access demo_env) access_start demo_granted"
    unfolding demo_granted_def by (intro reachable_run_all reachable_init start)
  obtain a t where run: "POST_register demo_crypto None [0] ''tok'' (Some demo_registration) demo_granted = (Inr (ApiOk a), t)"
    using demo_granted_runs
    by (cases "POST_register demo_crypto None [0] ''tok'' (Some demo_registration) demo_granted") (auto split: sum.splits response.splits)
  from privileged_roles_need_a_checker [OF reach run] obtain i where i: "i \<in> set (invitations demo_granted)"
    and grant: "if role_sensitive (iv_roleId i) demo_granted
     then \<exists>q \<in> set (approvalRequests demo_granted). ar_resourceType q = Some ''invite'' \<and> ar_resourceId q = Some (iv_id i) \<and>
       ar_status q = AR_APPROVED \<and> iv_invitedById i = Some (ar_createdById q) \<and>
       (\<exists>x \<in> set (approvalActions demo_granted). aa_requestId x = ar_id q \<and> aa_decision x = APPROVE \<and> Some (aa_actorId x) \<noteq> iv_invitedById i)
     else True" by blast
  have "iv_roleId i \<in> set (map iv_roleId (invitations demo_granted))" using i by simp
  then have role: "role_sensitive (iv_roleId i) demo_granted" using demo_granted_runs by (metis empty_iff insert_iff list.set)
  with i grant show ?thesis by (intro bexI [of _ i]) (simp only: if_True simp_thms, blast)
qed

end
