(* ===== verification/Dsar.thy ===== *)
theory Dsar
  imports Web_Login Webhooks
begin

text \<open>
  packages/audit/src/dsar.ts: export and erasure of the personal data of a user.  The rows an export is
  ordered by are sorted by their time, newest first; a count is the number of rows.
\<close>

section \<open>The subject\<close>

record dsarInput =
  ds_userId :: "string option"
  ds_email :: "string option"

definition resolveDataSubject :: "dsarInput \<Rightarrow> user cmd" where
  "resolveDataSubject input =
     (if truthy (ds_userId input)
      then bind (gets (\<lambda>s. find (\<lambda>u. us_id u = the (ds_userId input)) (users s))) (\<lambda>row.
        require row (DsarError ''User not found'' ''NOT_FOUND''))
      else if truthy (ds_email input)
      then bind (gets (\<lambda>s. take 20 (filter (\<lambda>u. us_email u = toLowerCase (trim (the (ds_email input)))) (users s)))) (\<lambda>rows.
        case rows of
          [] \<Rightarrow> throw (DsarError ''No user found with that email'' ''NOT_FOUND'')
        | [u] \<Rightarrow> return u
        | _ \<Rightarrow> throw (DsarError (''Email belongs to '' @ show_nat (length rows) @ '' accounts (one per tenant) '' @ em_dash @
            '' resolve by userId: '' @ join '', '' (map us_id rows)) ''AMBIGUOUS''))
      else throw (DsarError ''Provide userId or email'' ''BAD_INPUT''))"

definition findSubjectsByEmail :: "string \<Rightarrow> nat \<Rightarrow> (string \<times> string option \<times> string \<times> string \<times> int) list cmd" where
  "findSubjectsByEmail email limit = gets (\<lambda>s. map (\<lambda>u. (us_id u, us_tenantId u, us_email u, us_status u, us_createdAt u))
     (take limit (filter (\<lambda>u. us_email u = toLowerCase (trim email)) (users s))))"

section \<open>exportDataSubject\<close>

definition iso :: "int option \<Rightarrow> jsval" where
  "iso d = (case d of None \<Rightarrow> JNull | Some t \<Rightarrow> JString (toISOString t))"

definition newest :: "nat \<Rightarrow> ('a \<Rightarrow> int) \<Rightarrow> ('a \<Rightarrow> bool) \<Rightarrow> 'a list \<Rightarrow> 'a list" where
  "newest n created P rows = take n (sort_key (\<lambda>x. - created x) (filter P rows))"

definition subject_json :: "user \<Rightarrow> jsval" where
  "subject_json u = JObject [(''id'', JString (us_id u)), (''email'', JString (us_email u)), (''fullName'', JString (us_fullName u)),
     (''phone'', js_null_opt (us_phone u)), (''status'', JString (us_status u)), (''mfaEnabled'', JBool (us_mfaEnabled u)),
     (''createdAt'', iso (Some (us_createdAt u))), (''lastLoginAt'', iso (us_lastLoginAt u))]"

definition roles_json :: "string \<Rightarrow> db \<Rightarrow> jsval" where
  "roles_json uid s = JArray (map (\<lambda>r. JObject [(''tenantId'', JString (ur_tenantId r)),
     (''tenantName'', js_null_opt (map_option tn_name (find (\<lambda>t. tn_id t = ur_tenantId r) (tenants s)))),
     (''roleName'', JString (case find (\<lambda>x. ro_id x = ur_roleId r) (roles s) of None \<Rightarrow> [] | Some x \<Rightarrow> ro_name x))])
     (filter (\<lambda>r. ur_userId r = uid) (userRoles s)))"

definition sessions_json :: "string \<Rightarrow> db \<Rightarrow> jsval" where
  "sessions_json uid s = JArray (map (\<lambda>x. JObject [(''createdAt'', iso (Some (se_createdAt x))),
     (''lastSeenAt'', iso (Some (se_lastSeenAt x))), (''expiresAt'', iso (Some (se_expiresAt x))), (''ip'', js_null_opt (se_ip x)),
     (''deviceName'', js_null_opt (se_deviceName x))])
     (newest 100 se_createdAt (\<lambda>x. se_userId x = uid) (sessions s)))"

definition notifications_json :: "string \<Rightarrow> db \<Rightarrow> jsval" where
  "notifications_json uid s = JArray (map (\<lambda>n. JObject [(''channel'', JString (nt_channel n)), (''title'', js_null_opt (nt_title n)),
     (''body'', js_null_opt (nt_body n)), (''status'', JString (nt_status n)), (''createdAt'', iso (Some (nt_createdAt n)))])
     (newest 200 nt_createdAt (\<lambda>n. nt_userId n = Some uid) (notifications s)))"

definition invitations_json :: "string \<Rightarrow> db \<Rightarrow> jsval" where
  "invitations_json email s = JArray (map (\<lambda>i. JObject [(''tenantId'', JString (iv_tenantId i)),
     (''createdAt'', iso (Some (iv_createdAt i))), (''expiresAt'', iso (Some (iv_expiresAt i))), (''acceptedAt'', iso (iv_acceptedAt i))])
     (newest 100 iv_createdAt (\<lambda>i. iv_email i = email) (invitations s)))"

definition login_events_json :: "string \<Rightarrow> db \<Rightarrow> jsval" where
  "login_events_json uid s = JArray (map (\<lambda>l. JObject [(''event'', JString (le_event l)), (''ip'', js_null_opt (le_ip l)),
     (''createdAt'', iso (Some (le_createdAt l)))]) (newest 100 le_createdAt (\<lambda>l. le_userId l = Some uid) (loginEvents s)))"

definition security_events_json :: "string \<Rightarrow> db \<Rightarrow> jsval" where
  "security_events_json uid s = JArray (map (\<lambda>v. JObject [(''eventType'', JString (sv_eventType v)), (''severity'', JString (sv_severity v)),
     (''ip'', js_null_opt (sv_ip v)), (''createdAt'', iso (Some (sv_createdAt v)))])
     (newest 100 sv_createdAt (\<lambda>v. sv_userId v = Some uid) (securityEvents s)))"

text \<open>\<open>byAction[a] = (byAction[a] ?? 0) + 1\<close>, keys in the order of their first row.\<close>

fun count_actions :: "auditEvent list \<Rightarrow> (string \<times> jsval) list \<Rightarrow> (string \<times> jsval) list" where
  "count_actions [] acc = acc"
| "count_actions (e # es) acc = count_actions es (js_set (ae_action e)
     (JNumber ((case map_of acc (ae_action e) of Some (JNumber n) \<Rightarrow> n | _ \<Rightarrow> 0) + 1)) acc)"

definition audit_json :: "string \<Rightarrow> db \<Rightarrow> jsval" where
  "audit_json uid s = (let rows = newest 500 ae_createdAt (\<lambda>e. ae_actorId e = Some uid) (auditEvents s) in
     JObject [(''note'', JString (''Append-only audit trail referencing this account'' @ [CHR 0x27] @
         ''s actions (internal identifiers, retained under the documented retention exception).'')),
       (''count'', JNumber (int (length rows))), (''byAction'', JObject (count_actions rows [])),
       (''firstAt'', if rows = [] then JNull else iso (Some (ae_createdAt (last rows)))),
       (''lastAt'', if rows = [] then JNull else iso (Some (ae_createdAt (hd rows))))])"

definition reference_json :: "(string \<times> int) list \<Rightarrow> jsval" where
  "reference_json rows = JArray (map (\<lambda>(i, t). JObject [(''id'', JString i), (''createdAt'', iso (Some t))]) rows)"

definition financial_json :: "string \<Rightarrow> db \<Rightarrow> jsval" where
  "financial_json uid s = JObject
     [(''note'', JString ''Financial records are business data subject to statutory retention and are referenced, not copied. Request copies through the same DSAR channel.''),
      (''payments'', JArray (map (\<lambda>p. JObject [(''paymentNumber'', JString (p_paymentNumber p)), (''status'', JString (state_name (p_status p))),
         (''createdAt'', iso (Some (p_createdAt p)))]) (newest 50 p_createdAt (\<lambda>p. p_createdById p = Some uid) (payments s)))),
      (''paymentLinks'', reference_json (map (\<lambda>p. (pl_id p, pl_createdAt p)) (newest 50 pl_createdAt (\<lambda>p. pl_createdById p = Some uid) (paymentLinks s)))),
      (''reportSchedules'', reference_json (map (\<lambda>r. (rs_id r, rs_createdAt r)) (newest 50 rs_createdAt (\<lambda>r. rs_createdById r = Some uid) (reportSchedules s)))),
      (''reconRuns'', reference_json (map (\<lambda>r. (rr_id r, rr_createdAt r)) (newest 50 rr_createdAt (\<lambda>r. rr_createdById r = Some uid) (reconRuns s)))),
      (''webhookSubscriptions'', reference_json (map (\<lambda>w. (ws_id w, ws_createdAt w))
         (newest 50 ws_createdAt (\<lambda>w. ws_createdById w = Some uid) (webhookSubscriptions s))))]"

definition exportDataSubject :: "dsarInput \<Rightarrow> jsval cmd" where
  "exportDataSubject input = bind (resolveDataSubject input) (\<lambda>u. gets (\<lambda>s. JObject
     [(''exportedAt'', JString (toISOString (now s))), (''subject'', subject_json u), (''roles'', roles_json (us_id u) s),
      (''sessions'', sessions_json (us_id u) s), (''notifications'', notifications_json (us_id u) s),
      (''invitations'', invitations_json (us_email u) s), (''loginEvents'', login_events_json (us_id u) s),
      (''securityEvents'', security_events_json (us_id u) s), (''auditTrail'', audit_json (us_id u) s),
      (''financialRecords'', financial_json (us_id u) s)]))"

section \<open>eraseDataSubject\<close>

definition count_rows :: "('a \<Rightarrow> bool) \<Rightarrow> 'a list \<Rightarrow> jsval" where
  "count_rows P rows = JNumber (int (length (filter P rows)))"

definition erased_email :: "string \<Rightarrow> string" where
  "erased_email uid = ''erased-'' @ uid @ ''@erased.invalid''"

definition anonymised :: "user \<Rightarrow> user" where
  "anonymised u = u\<lparr>us_email := erased_email (us_id u), us_fullName := ''Erasure Request'', us_phone := None,
     us_passwordHash := None, us_mfaEnabled := False, us_mfaSecretEncrypted := None, us_status := ''DISABLED''\<rparr>"

text \<open>The deletes and the update of the identity row.\<close>

definition eraseRows :: "user \<Rightarrow> unit cmd" where
  "eraseRows u = modify (\<lambda>s. s\<lparr>
     sessions := filter (\<lambda>x. se_userId x \<noteq> us_id u) (sessions s),
     mfaFactors := filter (\<lambda>f. mf_userId f \<noteq> us_id u) (mfaFactors s),
     mfaBackupCodes := filter (\<lambda>b. bc_userId b \<noteq> us_id u) (mfaBackupCodes s),
     userRoles := filter (\<lambda>r. ur_userId r \<noteq> us_id u) (userRoles s),
     notifications := filter (\<lambda>n. nt_userId n \<noteq> Some (us_id u)) (notifications s),
     invitations := filter (\<lambda>i. iv_email i \<noteq> us_email u) (invitations s),
     users := update_rows (\<lambda>v. us_id v = us_id u) anonymised (users s)\<rparr>)"

definition deleted_json :: "user \<Rightarrow> db \<Rightarrow> jsval" where
  "deleted_json u s = JObject [(''sessions'', count_rows (\<lambda>x. se_userId x = us_id u) (sessions s)),
     (''mfaFactors'', count_rows (\<lambda>f. mf_userId f = us_id u) (mfaFactors s)),
     (''mfaBackupCodes'', count_rows (\<lambda>b. bc_userId b = us_id u) (mfaBackupCodes s)),
     (''userRoles'', count_rows (\<lambda>r. ur_userId r = us_id u) (userRoles s)),
     (''notifications'', count_rows (\<lambda>n. nt_userId n = Some (us_id u)) (notifications s)),
     (''invitations'', count_rows (\<lambda>i. iv_email i = us_email u) (invitations s))]"

definition retained_json :: "string \<Rightarrow> db \<Rightarrow> jsval" where
  "retained_json uid s = JObject [(''auditEvents'', count_rows (\<lambda>e. ae_actorId e = Some uid) (auditEvents s)),
     (''loginEvents'', count_rows (\<lambda>l. le_userId l = Some uid) (loginEvents s)),
     (''securityEvents'', count_rows (\<lambda>v. sv_userId v = Some uid) (securityEvents s)),
     (''financialRecords'', JObject [(''payments'', count_rows (\<lambda>p. p_createdById p = Some uid) (payments s)),
        (''paymentLinks'', count_rows (\<lambda>p. pl_createdById p = Some uid) (paymentLinks s)),
        (''reportSchedules'', count_rows (\<lambda>r. rs_createdById r = Some uid) (reportSchedules s)),
        (''reconRuns'', count_rows (\<lambda>r. rr_createdById r = Some uid) (reconRuns s)),
        (''webhookSubscriptions'', count_rows (\<lambda>w. ws_createdById w = Some uid) (webhookSubscriptions s))])]"

definition eraseDataSubject :: "dsarInput \<Rightarrow> string option \<Rightarrow> string \<Rightarrow> jsval cmd" where
  "eraseDataSubject input actorId confirm =
     seq (guard (confirm = ''ERASE'') (DsarError (''Confirm erasure with confirm:\"ERASE\"'') ''CONFIRM_REQUIRED''))
     (bind (resolveDataSubject input) (\<lambda>u.
      seq (guard (\<not> (truthy actorId \<and> actorId = Some (us_id u)))
             (DsarError ''An administrator cannot erase their own account through this flow'' ''SELF_ERASURE_FORBIDDEN''))
      (bind (gets (deleted_json u)) (\<lambda>deleted.
      seq (eraseRows u)
      (bind (gets (retained_json (us_id u))) (\<lambda>retained.
       let summary = JObject [(''userId'', JString (us_id u)), (''identityScrubbed'', JBool True), (''deleted'', deleted),
         (''retained'', retained)] in
       seq (writeAuditEvent (us_tenantId u) actorId (Some ''platform_admin'') ''dsar.erasure.executed'' ''user'' (Some (us_id u))
              (JObject [(''email'', JString (us_email u)), (''fullName'', JString (us_fullName u)), (''status'', JString (us_status u))])
              summary)
           (return summary)))))))"

section \<open>Facts\<close>

definition same_email :: "dsarInput \<Rightarrow> db \<Rightarrow> user list" where
  "same_email input s = take 20 (filter (\<lambda>u. us_email u = toLowerCase (trim (the (ds_email input)))) (users s))"

lemma same_email_in: "u \<in> set (same_email input s) \<Longrightarrow> u \<in> set (users s)"
  unfolding same_email_def by (auto dest: in_set_takeD)

lemma resolveDataSubject_run:
  assumes "resolveDataSubject input s = (r, t)"
  shows "t = s \<and> (case r of Inl e \<Rightarrow> True | Inr u \<Rightarrow> u \<in> set (users s))"
proof (cases "truthy (ds_userId input)")
  case True
  with assms show ?thesis
    by (auto simp: resolveDataSubject_def tx_run require_def split: option.splits dest!: find_in)
next
  case False
  show ?thesis
  proof (cases "truthy (ds_email input)")
    case True
    with False assms have run: "(case same_email input s of [] \<Rightarrow> (Inl (DsarError ''No user found with that email'' ''NOT_FOUND''), s)
        | [u] \<Rightarrow> (Inr u, s) | us \<Rightarrow> (fst (r, t), s)) = (r, t)"
      by (cases "same_email input s" rule: remdups_adj.cases) (simp_all add: resolveDataSubject_def tx_run same_email_def [symmetric])
    show ?thesis
    proof (cases "same_email input s" rule: remdups_adj.cases)
      case (2 u)
      with run same_email_in [of u input s] show ?thesis by auto
    next
      case (3 u w us)
      with False True assms show ?thesis by (auto simp: resolveDataSubject_def tx_run same_email_def [symmetric])
    qed (use run in auto)
  qed (use False assms in \<open>auto simp: resolveDataSubject_def tx_run\<close>)
qed

text \<open>A session is validated only for the user of a stored session.\<close>

lemma validateSession_user:
  "validateSession hash token s = (Inr (Some x), t) \<Longrightarrow> \<exists>y \<in> set (sessions s). se_userId y = su_userId x"
  by (auto simp: validateSession_def tx_run split: option.splits if_splits dest!: find_in)

lemma anonymised_sel: "us_id (anonymised v) = us_id v" "us_passwordHash (anonymised v) = None"
  by (simp_all add: anonymised_def)

lemma anonymised_rows:
  "list_all (\<lambda>v. us_id v = uid \<longrightarrow> us_passwordHash v = None) (update_rows (\<lambda>v. us_id v = uid) anonymised us)"
  by (induction us) (simp_all add: anonymised_sel)

definition erased :: "user \<Rightarrow> db \<Rightarrow> bool" where
  "erased u t \<longleftrightarrow> list_all (\<lambda>x. se_userId x \<noteq> us_id u) (sessions t) \<and> list_all (\<lambda>f. mf_userId f \<noteq> us_id u) (mfaFactors t) \<and>
     list_all (\<lambda>b. bc_userId b \<noteq> us_id u) (mfaBackupCodes t) \<and> list_all (\<lambda>r. ur_userId r \<noteq> us_id u) (userRoles t) \<and>
     list_all (\<lambda>n. nt_userId n \<noteq> Some (us_id u)) (notifications t) \<and> list_all (\<lambda>i. iv_email i \<noteq> us_email u) (invitations t)"

lemma erased_eraseRows: "eraseRows u s = (r, t) \<Longrightarrow> erased u t \<and> users t = update_rows (\<lambda>v. us_id v = us_id u) anonymised (users s)"
  by (auto simp: eraseRows_def tx_run erased_def list_all_iff)

text \<open>Nobody can sign in as an erased user.\<close>

lemma login_after_erasure:
  assumes none: "list_all (\<lambda>x. se_userId x \<noteq> uid) (sessions s)"
    and rows: "list_all (\<lambda>v. us_id v = uid \<longrightarrow> us_passwordHash v = None) (users s)"
  shows "list_all (\<lambda>x. se_userId x \<noteq> uid) (sessions (snd (POST_login env count token r s)))"
proof (cases "login_fields env count r")
  case None
  from POST_login_refused [OF this, of token s] none show ?thesis by auto
next
  case (Some f)
  obtain res t where run: "POST_login env count token r s = (res, t)" by fastforce
  with Some have "authenticate env token (login_ip r) (lr_userAgent r) f s = (res, t)" by (simp add: POST_login_fields)
  then show ?thesis
  proof (cases rule: authenticate_run)
    case refused
    with none show ?thesis by (simp add: run)
  next
    case (admitted u h s')
    then have "us_id u \<noteq> uid"
      using rows find_in [OF admitted(1) [unfolded user_by_email_def]] by (auto simp: list_all_iff)
    with none openSession_cases [OF admitted(5)] admitted(6) show ?thesis
      by (auto simp: run signed_in_def login_session_def split: sum.splits response.splits loginAnswer.splits)
  qed
qed

section \<open>Property\<close>


end
