(* ===== verification/Provider_Adapters.thy ===== *)
theory Provider_Adapters
  imports Webhooks Circuit_Breaker Js_Number Etims
begin

text \<open>
  packages/providers: the adapters of M-Pesa (mpesa.ts), a bank or PSP (bank.ts), an airtime aggregator
  (airtime.ts) and the sandbox (mock.ts), and the registry that resolves their codes (index.ts).

  An adapter is a state transformer over its circuit breaker, its cached token and the list of the requests it
  has handed to \<open>fetch\<close>.  The network is an argument: what it answers to the last request of the list.  The clock
  stands still during a call.  Numbers in answers and callbacks are whole; \<open>parse\<close> stands for \<open>JSON.parse\<close> and is
  \<open>None\<close> when that throws.  \<open>raw\<close> and \<open>async\<close> of a result are kept where a caller reads them.
\<close>

section \<open>Requests\<close>

datatype wire = WNothing | WText string | WNum js_num | WObject "(string \<times> wire) list"

definition wire_opt :: "string option \<Rightarrow> wire" where
  "wire_opt v = (case v of None \<Rightarrow> WNothing | Some s \<Rightarrow> WText s)"

record httpRequest =
  hq_url :: string
  hq_post :: bool
  hq_headers :: "(string \<times> string) list"
  hq_body :: "(string \<times> wire) list"
  hq_timeoutMs :: int

text \<open>A failure of the network, or a status with the parsed body (\<open>None\<close> when \<open>res.json()\<close> throws).\<close>

datatype httpAnswer = HttpFailure string | HttpAnswer int "jsval option"

type_synonym network = "httpRequest list \<Rightarrow> httpAnswer"

record adapter =
  ad_breaker :: breaker
  ad_token :: "jsval option"
  ad_tokenExpiry :: js_num
  ad_sent :: "httpRequest list"

definition fetch :: "network \<Rightarrow> httpRequest \<Rightarrow> (adapter, int \<times> jsval option) tx" where
  "fetch net rq =
     seq (modify (\<lambda>s. s\<lparr>ad_sent := ad_sent s @ [rq]\<rparr>))
     (bind (gets ad_sent) (\<lambda>sent.
      case net sent of HttpFailure m \<Rightarrow> throw (PlainError m) | HttpAnswer status body \<Rightarrow> return (status, body)))"

definition res_ok :: "int \<Rightarrow> bool" where
  "res_ok status \<longleftrightarrow> 200 \<le> status \<and> status \<le> 299"

definition res_json :: "jsval option \<Rightarrow> (adapter, jsval) tx" where
  "res_json body = require body (PlainError ''Unexpected token in JSON'')"

text \<open>Reading a property of \<open>null\<close> is a \<open>TypeError\<close>.\<close>

definition not_null :: "jsval \<Rightarrow> error + jsval" where
  "not_null v = (if is_nullish v then Inl (PlainError ''Cannot read properties of null'') else Inr v)"

definition lift_sum :: "error + 'a \<Rightarrow> ('s, 'a) tx" where
  "lift_sum r = (case r of Inl e \<Rightarrow> throw e | Inr v \<Rightarrow> return v)"

definition json_body :: "jsval option \<Rightarrow> (adapter, jsval) tx" where
  "json_body body = bind (res_json body) (\<lambda>v. lift_sum (not_null v))"

text \<open>\<open>q * k\<close> and \<open>q / k\<close> of a number and a positive constant, and \<open>t < q\<close>.\<close>

definition num_times :: "js_num \<Rightarrow> rat \<Rightarrow> js_num" where
  "num_times q k = (case q of Fin r \<Rightarrow> dbl (r * k) | _ \<Rightarrow> q)"

definition num_plus :: "js_num \<Rightarrow> int \<Rightarrow> js_num" where
  "num_plus q k = (case q of Fin r \<Rightarrow> dbl (r + of_int k) | _ \<Rightarrow> q)"

definition less_num :: "int \<Rightarrow> js_num \<Rightarrow> bool" where
  "less_num t q = (case q of Fin r \<Rightarrow> of_int t < r | PosInf \<Rightarrow> True | _ \<Rightarrow> False)"

text \<open>\<open>Number(amountMinor) / 100\<close> and \<open>Math.ceil\<close> of it.\<close>

definition shillings :: "int \<Rightarrow> js_num" where
  "shillings a = num_times (dbl (of_int a)) (1 / 100)"

definition ceil_num :: "js_num \<Rightarrow> js_num" where
  "ceil_num q = (case q of Fin r \<Rightarrow> Fin (of_int \<lceil>r\<rceil>) | _ \<Rightarrow> q)"

text \<open>\<open>String(a ?? b ?? \"\")\<close> over properties of an answer.\<close>

definition js_first :: "jsval list \<Rightarrow> string" where
  "js_first vs = (case filter (\<lambda>v. \<not> is_nullish v) vs of [] \<Rightarrow> [] | v # _ \<Rightarrow> js_string v)"

definition js_first_or :: "jsval \<Rightarrow> string \<Rightarrow> string" where
  "js_first_or v d = (if is_nullish v then d else js_string v)"

text \<open>\<open>Buffer.from(s).toString(\"base64\")\<close>.\<close>

definition base64_char :: "nat \<Rightarrow> char" where
  "base64_char n = (if n < 26 then char_of (65 + n) else if n < 52 then char_of (71 + n)
     else if n < 62 then char_of (n - 4) else if n = 62 then CHR ''+'' else CHR ''/'')"

fun base64 :: "nat list \<Rightarrow> string" where
  "base64 [] = []"
| "base64 [a] = [base64_char (a div 4), base64_char (a mod 4 * 16), CHR ''='', CHR ''='']"
| "base64 [a, b] = [base64_char (a div 4), base64_char (a mod 4 * 16 + b div 16), base64_char (b mod 16 * 4), CHR ''='']"
| "base64 (a # b # c # bs) = [base64_char (a div 4), base64_char (a mod 4 * 16 + b div 16),
     base64_char (b mod 16 * 4 + c div 64), base64_char (c mod 64)] @ base64 bs"

definition base64_text :: "string \<Rightarrow> string" where
  "base64_text s = base64 (map of_char s)"

section \<open>mpesa.ts: formats\<close>

definition leading_zero :: "string \<Rightarrow> string" where
  "leading_zero s = (if starts_with ''0'' s then ''254'' @ drop 1 s else s)"

definition toDarajaMsisdn :: "string \<Rightarrow> string" where
  "toDarajaMsisdn phone = leading_zero (filter is_digit phone)"

text \<open>\<open>phone.replace(\"+\", \"\").replace(/^0/, \"254\")\<close>: only the first plus sign goes.\<close>

fun drop_first :: "char \<Rightarrow> string \<Rightarrow> string" where
  "drop_first x [] = []"
| "drop_first x (c # s) = (if c = x then s else c # drop_first x s)"

definition party :: "string option \<Rightarrow> string" where
  "party phone = leading_zero (drop_first CHR ''+'' (nullish phone []))"

definition darajaTimestamp :: "int \<Rightarrow> string" where
  "darajaTimestamp d = take 14 (filter (\<lambda>c. c \<notin> set ''-:.TZ'') (toISOString (d + 3 * 3600000)))"

text \<open>\<open>/^\d+(\.\d{1,2})?$/\<close>, with the parts before and after the point.\<close>

definition decimal_parts :: "string \<Rightarrow> (string \<times> string) option" where
  "decimal_parts a = (let w = takeWhile is_digit a; r = dropWhile is_digit a in
     if w = [] then None
     else if r = [] then Some (w, [])
     else if hd r = CHR ''.'' \<and> tl r \<noteq> [] \<and> length (tl r) \<le> 2 \<and> list_all is_digit (tl r) then Some (w, tl r)
     else None)"

definition name_part :: "jsval \<Rightarrow> string list" where
  "name_part v = (case v of JString s \<Rightarrow> (if trim s = [] then [] else [s]) | _ \<Rightarrow> [])"

definition parseC2BConfirmation :: "(string \<Rightarrow> jsval option) \<Rightarrow> string \<Rightarrow> error + c2bConfirmation option" where
  "parseC2BConfirmation parse rawBody = (case parse rawBody of
     None \<Rightarrow> Inr None
   | Some b \<Rightarrow> if is_nullish b then Inl (PlainError ''Cannot read properties of null'') else
       (let transId = trim (js_first [js_lookup ''TransID'' b]); amount = trim (js_first [js_lookup ''TransAmount'' b]) in
        if transId = [] then Inr None
        else case decimal_parts amount of None \<Rightarrow> Inr None | Some (whole, cents) \<Rightarrow>
          Inr (Some \<lparr> c2b_transId = transId, c2b_transType = js_first [js_lookup ''TransactionType'' b],
            c2b_amountMinor = int (digits_val whole) * 100 + int (digits_val (take 2 (cents @ ''00''))),
            c2b_billRefNumber = trim (js_first [js_lookup ''BillRefNumber'' b]), c2b_msisdn = js_first [js_lookup ''MSISDN'' b],
            c2b_payerName = join '' '' (concat (map (\<lambda>k. name_part (js_lookup k b)) [''FirstName'', ''MiddleName'', ''LastName''])),
            c2b_raw = b \<rparr>)))"

text \<open>\<open>items.find((i) => i.Name === n)?.Value\<close>\<close>

fun find_item :: "string \<Rightarrow> jsval list \<Rightarrow> error + jsval" where
  "find_item n [] = Inr JUndefined"
| "find_item n (v # vs) = (if is_nullish v then Inl (PlainError ''Cannot read properties of null'')
     else if js_lookup ''Name'' v = JString n then Inr (js_lookup ''Value'' v) else find_item n vs)"

record stkMetadata =
  sm_amount :: "js_num option"
  sm_receiptNumber :: "string option"
  sm_phone :: "string option"

definition defined_text :: "jsval \<Rightarrow> string option" where
  "defined_text v = (if v = JUndefined then None else Some (js_string v))"

definition metadata_items :: "jsval \<Rightarrow> error + jsval list" where
  "metadata_items stk = (let m = js_lookup ''CallbackMetadata'' stk; item = js_lookup ''Item'' m in
     if is_nullish item then Inr [] else case item of JArray vs \<Rightarrow> Inr vs | _ \<Rightarrow> Inl (PlainError ''items.find is not a function''))"

definition parseStkCallbackMetadata :: "jsval \<Rightarrow> error + stkMetadata" where
  "parseStkCallbackMetadata stk = (case metadata_items stk of Inl e \<Rightarrow> Inl e | Inr items \<Rightarrow>
     (case (find_item ''Amount'' items, find_item ''MpesaReceiptNumber'' items, find_item ''PhoneNumber'' items) of
        (Inr amount, Inr receipt, Inr phone) \<Rightarrow>
          Inr \<lparr> sm_amount = (if amount = JUndefined then None else Some (js_number amount)),
                sm_receiptNumber = defined_text receipt, sm_phone = defined_text phone \<rparr>
      | _ \<Rightarrow> Inl (PlainError ''Cannot read properties of null'')))"

section \<open>mpesa.ts: calls\<close>

record mpesaConfig =
  mp_production :: bool
  mp_apiBaseUrl :: "string option"
  mp_consumerKey :: string
  mp_consumerSecret :: string
  mp_passkey :: string
  mp_shortcode :: string
  mp_callbackBaseUrl :: string
  mp_initiatorName :: string
  mp_securityCredential :: string
  mp_timeoutMs :: int
  mp_tillNumber :: string
  mp_c2bToken :: string
  mp_breaker :: breaker_env

definition baseUrl :: "mpesaConfig \<Rightarrow> error + string" where
  "baseUrl cfg = (if truthy (mp_apiBaseUrl cfg)
     then (if mp_production cfg
           then Inl (ProviderError ''MPESA_API_BASE_URL override is refused when MPESA_ENVIRONMENT=production.'')
           else (let u = the (mp_apiBaseUrl cfg) in Inr (if last u = CHR ''/'' then butlast u else u)))
     else Inr (if mp_production cfg then ''https://api.safaricom.co.ke'' else ''https://sandbox.safaricom.co.ke''))"

definition credentials :: "mpesaConfig \<Rightarrow> (adapter, string \<times> string) tx" where
  "credentials cfg = seq (guard (mp_consumerKey cfg \<noteq> [] \<and> mp_consumerSecret cfg \<noteq> [])
      (ProviderError ''MPESA_CONSUMER_KEY / MPESA_CONSUMER_SECRET not configured. Live M-Pesa calls are fail-closed.''))
    (return (mp_consumerKey cfg, mp_consumerSecret cfg))"

text \<open>\<open>this.circuitBreaker.canExecute()\<close> and the two records.\<close>

definition breakerAllows :: "mpesaConfig \<Rightarrow> int \<Rightarrow> (adapter, bool) tx" where
  "breakerAllows cfg t s = (case canExecute (mp_breaker cfg) t (ad_breaker s) of (b, cb) \<Rightarrow> (Inr b, s\<lparr>ad_breaker := cb\<rparr>))"

definition breakerSuccess :: "mpesaConfig \<Rightarrow> int \<Rightarrow> (adapter, unit) tx" where
  "breakerSuccess cfg t = modify (\<lambda>s. s\<lparr>ad_breaker := recordSuccess (mp_breaker cfg) t (ad_breaker s)\<rparr>)"

definition breakerFailure :: "mpesaConfig \<Rightarrow> int \<Rightarrow> (adapter, unit) tx" where
  "breakerFailure cfg t = modify (\<lambda>s. s\<lparr>ad_breaker := recordFailure (mp_breaker cfg) t (ad_breaker s)\<rparr>)"

definition breaker_open :: error where
  "breaker_open = ProviderError (''Circuit breaker open '' @ em_dash @ '' provider unavailable'')"

definition executeWithCircuitBreaker :: "mpesaConfig \<Rightarrow> int \<Rightarrow> (adapter, 'a) tx \<Rightarrow> (adapter, 'a) tx" where
  "executeWithCircuitBreaker cfg t fn =
     bind (breakerAllows cfg t) (\<lambda>allowed.
     seq (guard allowed breaker_open)
         (catch (bind fn (\<lambda>result. seq (breakerSuccess cfg t) (return result)))
            (\<lambda>err. seq (breakerFailure cfg t) (throw err))))"

definition oauth_request :: "mpesaConfig \<Rightarrow> string \<Rightarrow> string \<times> string \<Rightarrow> httpRequest" where
  "oauth_request cfg url kv = \<lparr> hq_url = url @ ''/oauth/v1/generate?grant_type=client_credentials'', hq_post = False,
     hq_headers = [(''Authorization'', ''Basic '' @ base64_text (fst kv @ '':'' @ snd kv))], hq_body = [],
     hq_timeoutMs = mp_timeoutMs cfg \<rparr>"

definition cached_token :: "int \<Rightarrow> adapter \<Rightarrow> jsval option" where
  "cached_token t s = (case ad_token s of None \<Rightarrow> None | Some data \<Rightarrow>
     if js_truthy data \<and> less_num t (num_plus (ad_tokenExpiry s) (- 30000)) then Some data else None)"

definition fetchAccessToken :: "mpesaConfig \<Rightarrow> network \<Rightarrow> int \<Rightarrow> (adapter, string) tx" where
  "fetchAccessToken cfg net t =
     bind (gets (cached_token t)) (\<lambda>cached.
     case cached of Some data \<Rightarrow> return (js_string (js_lookup ''access_token'' data))
     | None \<Rightarrow>
        bind (credentials cfg) (\<lambda>kv.
        bind (executeWithCircuitBreaker cfg t (bind (lift_sum (baseUrl cfg)) (\<lambda>url. fetch net (oauth_request cfg url kv)))) (\<lambda>res.
        seq (guard (res_ok (fst res)) (ProviderError (''Daraja OAuth failed with HTTP '' @ show_int (fst res))))
        (bind (res_json (snd res)) (\<lambda>data.
         seq (modify (\<lambda>s. s\<lparr>ad_token := Some data\<rparr>))
         (bind (lift_sum (not_null data)) (\<lambda>_.
          seq (modify (\<lambda>s. s\<lparr>ad_tokenExpiry := num_plus (num_times (js_number (js_lookup ''expires_in'' data)) 1000) t\<rparr>))
              (return (js_string (js_lookup ''access_token'' data))))))))))"

definition daraja_request :: "mpesaConfig \<Rightarrow> string \<Rightarrow> string \<Rightarrow> string \<Rightarrow> (string \<times> wire) list \<Rightarrow> httpRequest" where
  "daraja_request cfg url path token body = \<lparr> hq_url = url @ path, hq_post = True,
     hq_headers = [(''Authorization'', ''Bearer '' @ token), (''Content-Type'', ''application/json'')], hq_body = body,
     hq_timeoutMs = mp_timeoutMs cfg \<rparr>"

definition darajaPost :: "mpesaConfig \<Rightarrow> network \<Rightarrow> int \<Rightarrow> string \<Rightarrow> (string \<times> wire) list \<Rightarrow> (adapter, jsval) tx" where
  "darajaPost cfg net t path body =
     bind (fetchAccessToken cfg net t) (\<lambda>token.
     executeWithCircuitBreaker cfg t
       (bind (lift_sum (baseUrl cfg)) (\<lambda>url.
        bind (fetch net (daraja_request cfg url path token body)) (\<lambda>res.
        seq (guard (res_ok (fst res)) (ProviderError (''Daraja '' @ path @ '' failed with HTTP '' @ show_int (fst res))))
            (res_json (snd res))))))"

section \<open>mpesa.ts: operations\<close>

definition callback_url :: "mpesaConfig \<Rightarrow> wire" where
  "callback_url cfg = WText (mp_callbackBaseUrl cfg @ ''/api/webhooks/mpesa'')"

definition stk_password :: "mpesaConfig \<Rightarrow> string \<Rightarrow> wire" where
  "stk_password cfg timestamp = WText (base64_text (mp_shortcode cfg @ mp_passkey cfg @ timestamp))"

definition b2c_body :: "mpesaConfig \<Rightarrow> providerPaymentInput \<Rightarrow> (string \<times> wire) list" where
  "b2c_body cfg input =
     [(''InitiatorName'', WText (mp_initiatorName cfg)), (''SecurityCredential'', WText (mp_securityCredential cfg)),
      (''CommandID'', WText ''BusinessPayment''), (''Amount'', WNum (shillings (ppi_amountMinor input))),
      (''PartyA'', WText (mp_shortcode cfg)), (''PartyB'', WText (party (pd_phone (ppi_destination input)))),
      (''Remarks'', WText (take 100 (ppi_reference input))), (''QueueTimeOutURL'', callback_url cfg), (''ResultURL'', callback_url cfg),
      (''Occasion'', WText ''Z-float'')]"

definition stk_body :: "mpesaConfig \<Rightarrow> int \<Rightarrow> providerPaymentInput \<Rightarrow> (string \<times> wire) list" where
  "stk_body cfg t input =
     (let timestamp = take 14 (filter (\<lambda>c. c \<notin> set ''-:.T'') (toISOString t)); dest = ppi_destination input in
     [(''BusinessShortCode'', WText (mp_shortcode cfg)), (''Password'', stk_password cfg timestamp), (''Timestamp'', WText timestamp),
      (''TransactionType'', WText ''CustomerPayBillOnline''), (''Amount'', WNum (shillings (ppi_amountMinor input))),
      (''PartyA'', WText (party (pd_phone dest))), (''PartyB'', WText (mp_shortcode cfg)), (''PhoneNumber'', WText (party (pd_phone dest))),
      (''CallBackURL'', callback_url cfg), (''AccountReference'', WText (nullish (pd_paybillAccount dest) ''Z-FLOAT'')),
      (''TransactionDesc'', WText (take 13 (ppi_reference input)))])"

definition mapDarajaResponse :: "jsval \<Rightarrow> providerPaymentInput \<Rightarrow> error + providerResult" where
  "mapDarajaResponse res input = (case not_null res of Inl e \<Rightarrow> Inl e | Inr _ \<Rightarrow>
     (let code = js_first [js_lookup ''ResponseCode'' res];
          ref = js_first [js_lookup ''ConversationID'' res, js_lookup ''OriginatorConversationID'' res] in
      if code = ''0'' \<or> code = []
      then Inr \<lparr> prr_status = PR_PENDING, prr_providerReference = Some (if ref \<noteq> [] then ref else ppi_providerReference input),
             prr_errorCode = None, prr_errorMessage = None \<rparr>
      else Inr \<lparr> prr_status = PR_FAILED, prr_providerReference = None, prr_errorCode = Some (''DARAJAC_'' @ code),
             prr_errorMessage = Some (js_first_or (js_lookup ''ResponseDescription'' res) ''Daraja rejected the request'') \<rparr>))"

definition mpesa_createPayment :: "mpesaConfig \<Rightarrow> network \<Rightarrow> int \<Rightarrow> providerPaymentInput \<Rightarrow> (adapter, providerResult) tx" where
  "mpesa_createPayment cfg net t input =
     (let dest = ppi_destination input in
     bind (credentials cfg) (\<lambda>_.
     if pd_channel dest = ''mpesa'' \<and> truthy (pd_phone dest)
     then seq (guard (mp_initiatorName cfg \<noteq> [] \<and> mp_securityCredential cfg \<noteq> [])
                 (ProviderError ''B2C initiator credentials not configured''))
          (bind (darajaPost cfg net t ''/mpesa/b2c/v1/paymentrequest'' (b2c_body cfg input)) (\<lambda>res.
           lift_sum (mapDarajaResponse res input)))
     else if (pd_channel dest = ''till'' \<or> pd_channel dest = ''paybill'') \<and> truthy (pd_phone dest)
     then bind (darajaPost cfg net t ''/mpesa/stkpush/v1/processrequest'' (stk_body cfg t input)) (\<lambda>res.
          lift_sum (mapDarajaResponse res input))
     else throw (ProviderError (''Unsupported M-Pesa channel \"'' @ pd_channel dest @ ''\" or missing phone''))))"

definition collection_body :: "mpesaConfig \<Rightarrow> int \<Rightarrow> collectionRequest \<Rightarrow> string option \<Rightarrow> (string \<times> wire) list" where
  "collection_body cfg t input kind =
     (let timestamp = darajaTimestamp t; msisdn = toDarajaMsisdn (cr_phone input);
          till = kind = Some ''till'' \<and> mp_tillNumber cfg \<noteq> []; desc = take 13 (cr_description input) in
     [(''BusinessShortCode'', WText (mp_shortcode cfg)), (''Password'', stk_password cfg timestamp), (''Timestamp'', WText timestamp),
      (''TransactionType'', WText (if till then ''CustomerBuyGoodsOnline'' else ''CustomerPayBillOnline'')),
      (''Amount'', WNum (ceil_num (shillings (cr_amountMinor input)))),
      (''PartyA'', WText msisdn), (''PartyB'', WText (if till then mp_tillNumber cfg else mp_shortcode cfg)),
      (''PhoneNumber'', WText msisdn), (''CallBackURL'', callback_url cfg),
      (''AccountReference'', WText (take 12 (cr_accountReference input))),
      (''TransactionDesc'', WText (if desc = [] then ''Payment'' else desc))])"

definition collection_answer :: "jsval \<Rightarrow> error + collectionResult" where
  "collection_answer res = (case not_null res of Inl e \<Rightarrow> Inl e | Inr _ \<Rightarrow>
     (let code = js_first [js_lookup ''ResponseCode'' res] in
      if code = ''0''
      then Inr \<lparr> crr_status = PR_PENDING, crr_providerReference = Some (js_first [js_lookup ''CheckoutRequestID'' res]),
             crr_errorMessage = None, crr_raw = Some (JObject [(''merchantRequestId'', js_lookup ''MerchantRequestID'' res),
               (''checkoutRequestId'', js_lookup ''CheckoutRequestID'' res), (''responseCode'', JString code)]) \<rparr>
      else Inr \<lparr> crr_status = PR_FAILED, crr_providerReference = None,
             crr_errorMessage = Some (js_first [js_lookup ''ResponseDescription'' res, js_lookup ''errorMessage'' res, JString ''STK push rejected'']),
             crr_raw = Some res \<rparr>))"

definition mpesa_requestCollection ::
  "mpesaConfig \<Rightarrow> network \<Rightarrow> int \<Rightarrow> collectionRequest \<Rightarrow> string option \<Rightarrow> (adapter, collectionResult) tx" where
  "mpesa_requestCollection cfg net t input kind =
     bind (credentials cfg) (\<lambda>_.
     seq (guard (mp_passkey cfg \<noteq> []) (ProviderError (''MPESA_PASSKEY not configured '' @ em_dash @ '' STK push is fail-closed'')))
     (bind (darajaPost cfg net t ''/mpesa/stkpush/v1/processrequest'' (collection_body cfg t input kind)) (\<lambda>res.
      lift_sum (collection_answer res))))"

definition registerC2BUrls :: "mpesaConfig \<Rightarrow> network \<Rightarrow> int \<Rightarrow> string option \<Rightarrow> (adapter, jsval) tx" where
  "registerC2BUrls cfg net t responseType =
     bind (credentials cfg) (\<lambda>_.
     let token = (if mp_c2bToken cfg \<noteq> [] then ''?token='' @ encodeURIComponent (mp_c2bToken cfg) else []) in
     darajaPost cfg net t ''/mpesa/c2b/v1/registerurl''
       [(''ShortCode'', WText (mp_shortcode cfg)), (''ResponseType'', WText (nullish responseType ''Completed'')),
        (''ConfirmationURL'', WText (mp_callbackBaseUrl cfg @ ''/api/webhooks/mpesa/c2b/confirmation'' @ token)),
        (''ValidationURL'', WText (mp_callbackBaseUrl cfg @ ''/api/webhooks/mpesa/c2b/validation'' @ token))])"

text \<open>The status query and the reversal look at the breaker and record the outcome around \<open>darajaPost\<close>, which does
  both itself.\<close>

definition guarded_post :: "mpesaConfig \<Rightarrow> network \<Rightarrow> int \<Rightarrow> string \<Rightarrow> (string \<times> wire) list \<Rightarrow> (jsval \<Rightarrow> error + providerResult) \<Rightarrow>
    (adapter, providerResult) tx" where
  "guarded_post cfg net t path body answer =
     bind (breakerAllows cfg t) (\<lambda>allowed.
     seq (guard allowed breaker_open)
       (catch (bind (darajaPost cfg net t path body) (\<lambda>res. seq (breakerSuccess cfg t) (lift_sum (answer res))))
          (\<lambda>err. seq (breakerFailure cfg t) (throw err))))"

definition status_answer :: "string \<Rightarrow> jsval \<Rightarrow> error + providerResult" where
  "status_answer ref res = (case not_null res of Inl e \<Rightarrow> Inl e | Inr _ \<Rightarrow>
     Inr \<lparr> prr_status = (if js_first [js_lookup ''ResponseCode'' res] = ''0'' then PR_PENDING else PR_UNKNOWN),
           prr_providerReference = Some ref, prr_errorCode = None, prr_errorMessage = None \<rparr>)"

definition mpesa_getPaymentStatus :: "mpesaConfig \<Rightarrow> network \<Rightarrow> int \<Rightarrow> string \<Rightarrow> (adapter, providerResult) tx" where
  "mpesa_getPaymentStatus cfg net t ref = guarded_post cfg net t ''/mpesa/transactionstatus/v1/query''
     [(''Initiator'', WText (mp_initiatorName cfg)), (''SecurityCredential'', WText (mp_securityCredential cfg)),
      (''CommandID'', WText ''TransactionStatusQuery''), (''TransactionID'', WText ref), (''PartyA'', WText (mp_shortcode cfg)),
      (''IdentifierType'', WText ''4''), (''ResultURL'', callback_url cfg), (''QueueTimeOutURL'', callback_url cfg),
      (''Remarks'', WText ''status-query''), (''Occasion'', WText ''Z-float'')] (status_answer ref)"

definition reversal_answer :: "string \<Rightarrow> jsval \<Rightarrow> error + providerResult" where
  "reversal_answer ref res = (case not_null res of Inl e \<Rightarrow> Inl e | Inr _ \<Rightarrow>
     if js_first [js_lookup ''ResponseCode'' res] = ''0''
     then Inr \<lparr> prr_status = PR_PENDING, prr_providerReference = Some ref, prr_errorCode = None, prr_errorMessage = None \<rparr>
     else Inr \<lparr> prr_status = PR_FAILED, prr_providerReference = None, prr_errorCode = None,
       prr_errorMessage = Some (js_first_or (js_lookup ''ResponseDescription'' res) ''reversal rejected'') \<rparr>)"

definition mpesa_reversePayment :: "mpesaConfig \<Rightarrow> network \<Rightarrow> int \<Rightarrow> providerReversalInput \<Rightarrow> (adapter, providerResult) tx" where
  "mpesa_reversePayment cfg net t input = guarded_post cfg net t ''/mpesa/reversal/v1/request''
     [(''Initiator'', WText (mp_initiatorName cfg)), (''SecurityCredential'', WText (mp_securityCredential cfg)),
      (''CommandID'', WText ''TransactionReversal''), (''TransactionID'', WText (pvi_providerReference input)),
      (''Amount'', WNum (shillings (pvi_amountMinor input))), (''ReceiverParty'', WText (mp_shortcode cfg)),
      (''RecieverIdentifierType'', WText ''11''), (''ResultURL'', callback_url cfg), (''QueueTimeOutURL'', callback_url cfg),
      (''Remarks'', WText (take 100 (pvi_reason input))), (''Occasion'', WText ''Z-float'')]
     (reversal_answer (pvi_providerReference input))"

section \<open>Callbacks\<close>

text \<open>\<open>BigInt(Math.round(amount * 100))\<close>, \<open>undefined\<close> when there is no finite amount.\<close>

definition minor_of_number :: "js_num option \<Rightarrow> error + int option" where
  "minor_of_number amount = (case amount of Some (Fin q) \<Rightarrow>
       (case num_times (Fin q) 100 of Fin r \<Rightarrow> Inr (Some (math_round r))
        | _ \<Rightarrow> Inl (PlainError ''The number Infinity cannot be converted to a BigInt''))
     | _ \<Rightarrow> Inr None)"

definition number_field :: "jsval \<Rightarrow> js_num option" where
  "number_field v = (case v of JNumber n \<Rightarrow> Some (Fin (of_int n)) | _ \<Rightarrow> None)"

definition invalid :: "string \<Rightarrow> error + verifiedWebhook" where
  "invalid reason = Inr \<lparr> vw_valid = False, vw_providerEventId = None, vw_event = None, vw_reason = Some reason \<rparr>"

definition verified :: "string \<Rightarrow> string \<Rightarrow> string \<Rightarrow> providerResultStatus \<Rightarrow> int option \<Rightarrow> jsval \<Rightarrow> error + verifiedWebhook" where
  "verified eventId typ ref status amountMinor raw = Inr \<lparr> vw_valid = True, vw_providerEventId = Some eventId,
     vw_event = Some \<lparr> wf_type = typ, wf_providerReference = ref, wf_status = status, wf_amountMinor = amountMinor, wf_raw = raw \<rparr>,
     vw_reason = None \<rparr>"

definition mpesa_event_raw :: "jsval \<Rightarrow> jsval \<Rightarrow> stkMetadata \<Rightarrow> bool \<Rightarrow> jsval" where
  "mpesa_event_raw raw stk meta failed = JObject (
     js_set ''errorMessage'' (if failed then JString (js_first_or (js_lookup ''ResultDesc'' stk) ''M-Pesa request failed'') else JUndefined)
     (js_set ''payerPhone'' (js_opt (sm_phone meta)) (js_set ''receiptNumber'' (js_opt (sm_receiptNumber meta)) (js_fields raw))))"

definition mpesa_verifyWebhook :: "(string \<Rightarrow> jsval option) \<Rightarrow> string \<Rightarrow> error + verifiedWebhook" where
  "mpesa_verifyWebhook parse rawBody = (case parse rawBody of None \<Rightarrow> invalid ''invalid json'' | Some raw \<Rightarrow>
     if is_nullish raw then Inl (PlainError ''Cannot read properties of null'') else
     let body = js_lookup ''Body'' raw; stk = js_nullish (js_lookup ''stkCallback'' body) (js_lookup ''Result'' body) in
     if \<not> js_truthy stk then invalid ''missing callback body'' else
     let ref = js_first [js_lookup ''CheckoutRequestID'' stk, js_lookup ''ConversationID'' stk, js_lookup ''TransactionID'' raw] in
     if ref = [] then invalid ''missing transaction reference'' else
     let ok = js_first_or (js_lookup ''ResultCode'' stk) ''0'' = ''0'' in
     (case parseStkCallbackMetadata stk of Inl e \<Rightarrow> Inl e | Inr meta \<Rightarrow>
      (case minor_of_number (case sm_amount meta of Some q \<Rightarrow> Some q | None \<Rightarrow> number_field (js_lookup ''Amount'' raw)) of
         Inl e \<Rightarrow> Inl e
       | Inr amountMinor \<Rightarrow> verified ref (if ok then ''payment.completed'' else ''payment.failed'') ref
           (if ok then PR_SUCCESS else PR_FAILED) amountMinor (mpesa_event_raw raw stk meta (\<not> ok)))))"

section \<open>bank.ts\<close>

record bankConfig =
  bk_apiBaseUrl :: "string option"
  bk_apiKey :: "string option"
  bk_apiSecret :: "string option"

definition bank_post :: "bankConfig \<Rightarrow> network \<Rightarrow> string \<Rightarrow> (string \<times> wire) list \<Rightarrow> (adapter, jsval) tx" where
  "bank_post cfg net path body =
     seq (guard (truthy (bk_apiBaseUrl cfg))
            (ProviderError ''BANK_API_BASE_URL not configured. Bank adapter is fail-closed without a contracted PSP.''))
     (bind (fetch net \<lparr> hq_url = the (bk_apiBaseUrl cfg) @ path, hq_post = True,
        hq_headers = [(''Content-Type'', ''application/json''), (''Authorization'', ''Bearer '' @ nullish (bk_apiKey cfg) []),
          (''X-Zfloat-Correlation'', case map_of body ''correlationId'' of Some (WText c) \<Rightarrow> c | _ \<Rightarrow> [])],
        hq_body = body, hq_timeoutMs = 20000 \<rparr>) (\<lambda>res.
      seq (guard (res_ok (fst res)) (ProviderError (''Bank/PSP '' @ path @ '' failed with HTTP '' @ show_int (fst res))))
          (json_body (snd res))))"

definition plain_result :: "providerResultStatus \<Rightarrow> string \<Rightarrow> providerResult" where
  "plain_result status ref = \<lparr> prr_status = status, prr_providerReference = Some ref, prr_errorCode = None, prr_errorMessage = None \<rparr>"

definition transfer_status :: "string \<Rightarrow> providerResultStatus" where
  "transfer_status status = (if status = ''COMPLETED'' then PR_SUCCESS else if status = ''FAILED'' then PR_FAILED else PR_PENDING)"

definition bank_createPayment :: "bankConfig \<Rightarrow> network \<Rightarrow> providerPaymentInput \<Rightarrow> (adapter, providerResult) tx" where
  "bank_createPayment cfg net input = (let dest = ppi_destination input in
     bind (bank_post cfg net ''/v1/transfers''
       [(''reference'', WText (ppi_providerReference input)), (''amount'', WNum (shillings (ppi_amountMinor input))),
        (''currency'', WText ''KES''),
        (''beneficiary'', WObject [(''name'', wire_opt (pd_bankAccountName dest)),
           (''accountNumber'', wire_opt (pd_bankAccountNumber dest)), (''bankCode'', wire_opt (pd_bankCode dest))]),
        (''narration'', WText (take 140 (ppi_reference input))), (''correlationId'', WText (ppi_paymentId input))]) (\<lambda>res.
     return (plain_result (transfer_status (toUpperCase (js_first_or (js_lookup ''status'' res) ''pending'')))
       (js_first [js_lookup ''transactionId'' res, js_lookup ''reference'' res, JString (ppi_providerReference input)]))))"

definition bank_getPaymentStatus :: "bankConfig \<Rightarrow> network \<Rightarrow> string \<Rightarrow> (adapter, providerResult) tx" where
  "bank_getPaymentStatus cfg net ref =
     bind (bank_post cfg net ''/v1/transfers/status'' [(''transactionId'', WText ref)]) (\<lambda>res.
     let status = toUpperCase (js_first_or (js_lookup ''status'' res) ''unknown'') in
     return (plain_result (if status = ''REVERSED'' then PR_REVERSED else transfer_status status) ref))"

definition bank_reversePayment :: "bankConfig \<Rightarrow> network \<Rightarrow> providerReversalInput \<Rightarrow> (adapter, providerResult) tx" where
  "bank_reversePayment cfg net input =
     bind (bank_post cfg net ''/v1/transfers/reverse'' [(''transactionId'', WText (pvi_providerReference input)),
       (''reason'', WText (pvi_reason input)), (''correlationId'', WText (pvi_paymentId input))]) (\<lambda>res.
     return (plain_result (transfer_status (toUpperCase (js_first_or (js_lookup ''status'' res) ''pending''))) (pvi_providerReference input)))"

text \<open>Headers have one value.  The secret of the configuration is compared with the header.\<close>

definition bank_verifyWebhook ::
  "(string \<Rightarrow> jsval option) \<Rightarrow> bankConfig \<Rightarrow> (string \<Rightarrow> string option) \<Rightarrow> string \<Rightarrow> error + verifiedWebhook" where
  "bank_verifyWebhook parse cfg header rawBody =
     (let supplied = nullish (header ''x-webhook-signature'') []; expected = nullish (bk_apiSecret cfg) [] in
      if expected = [] \<or> supplied \<noteq> expected then invalid ''invalid or missing signature''
      else case parse rawBody of None \<Rightarrow> invalid ''invalid json'' | Some raw \<Rightarrow>
        if is_nullish raw then Inl (PlainError ''Cannot read properties of null'') else
        let ref = js_first [js_lookup ''transactionId'' raw, js_lookup ''reference'' raw];
            status = toUpperCase (js_first_or (js_lookup ''status'' raw) ''UNKNOWN'') in
        if ref = [] then invalid ''missing reference'' else
        (case minor_of_number (number_field (js_lookup ''amount'' raw)) of Inl e \<Rightarrow> Inl e | Inr amountMinor \<Rightarrow>
           verified (js_first_or (js_lookup ''eventId'' raw) ref)
             (if status = ''COMPLETED'' then ''payment.completed'' else if status = ''FAILED'' then ''payment.failed'' else ''payment.pending'')
             ref (if status = ''COMPLETED'' then PR_SUCCESS else if status = ''FAILED'' then PR_FAILED
               else if status = ''REVERSED'' then PR_REVERSED else PR_UNKNOWN) amountMinor raw))"

section \<open>airtime.ts\<close>

record catalogEntry =
  ce_network :: string
  ce_productCode :: string
  ce_name :: string
  ce_type :: string
  ce_denominationMinor :: int

definition getCatalog :: "catalogEntry list" where
  "getCatalog = [\<lparr> ce_network = ''SAFARICOM'', ce_productCode = ''SAF-10'', ce_name = ''Safaricom Airtime 10'', ce_type = ''AIRTIME'', ce_denominationMinor = 1000 \<rparr>,
     \<lparr> ce_network = ''SAFARICOM'', ce_productCode = ''SAF-20'', ce_name = ''Safaricom Airtime 20'', ce_type = ''AIRTIME'', ce_denominationMinor = 2000 \<rparr>,
     \<lparr> ce_network = ''SAFARICOM'', ce_productCode = ''SAF-1GB'', ce_name = ''Safaricom Data 1GB'', ce_type = ''DATA'', ce_denominationMinor = 10000 \<rparr>,
     \<lparr> ce_network = ''AIRTEL'', ce_productCode = ''AIRT-10'', ce_name = ''Airtel Airtime 10'', ce_type = ''AIRTIME'', ce_denominationMinor = 1000 \<rparr>,
     \<lparr> ce_network = ''TELKOM'', ce_productCode = ''TELK-10'', ce_name = ''Telkom Airtime 10'', ce_type = ''AIRTIME'', ce_denominationMinor = 1000 \<rparr>]"

record airtimeConfig =
  at_apiBaseUrl :: "string option"
  at_apiKey :: "string option"

text \<open>\<open>product\<close> and \<open>operator\<close> are the fields of the destination that no caller sets.\<close>

definition airtime_createPayment ::
  "airtimeConfig \<Rightarrow> network \<Rightarrow> string option \<Rightarrow> string option \<Rightarrow> providerPaymentInput \<Rightarrow> (adapter, providerResult) tx" where
  "airtime_createPayment cfg net product operator input =
     seq (guard (truthy (at_apiBaseUrl cfg)) (ProviderError (''AIRTIME_API_BASE_URL not configured '' @ em_dash @
            '' airtime adapter is fail-closed without a contracted aggregator.'')))
     (bind (fetch net \<lparr> hq_url = the (at_apiBaseUrl cfg) @ ''/v1/topup'', hq_post = True,
        hq_headers = [(''Content-Type'', ''application/json''), (''Authorization'', ''Bearer '' @ nullish (at_apiKey cfg) [])],
        hq_body = [(''reference'', WText (ppi_providerReference input)), (''phone'', wire_opt (pd_phone (ppi_destination input))),
          (''productCode'', wire_opt product), (''network'', wire_opt operator),
          (''amount'', WNum (shillings (ppi_amountMinor input))), (''currency'', WText ''KES'')],
        hq_timeoutMs = 15000 \<rparr>) (\<lambda>res.
      seq (guard (res_ok (fst res)) (ProviderError (''Airtime topup failed with HTTP '' @ show_int (fst res))))
      (bind (json_body (snd res)) (\<lambda>data.
       let status = toUpperCase (js_first_or (js_lookup ''status'' data) ''PENDING'') in
       return (plain_result (if status = ''SUCCESS'' then PR_SUCCESS else if status = ''FAILED'' then PR_FAILED else PR_PENDING)
         (js_first_or (js_lookup ''transactionId'' data) (ppi_providerReference input)))))))"

definition airtime_getPaymentStatus :: "string \<Rightarrow> providerResult" where
  "airtime_getPaymentStatus ref = plain_result PR_UNKNOWN ref"

definition airtime_reversePayment :: "providerReversalInput \<Rightarrow> providerResult" where
  "airtime_reversePayment input = \<lparr> prr_status = PR_FAILED, prr_providerReference = None, prr_errorCode = None,
     prr_errorMessage = Some ''Airtime/data topups are not reversible once delivered.'' \<rparr>"

definition airtime_verifyWebhook ::
  "(string \<Rightarrow> jsval option) \<Rightarrow> airtimeConfig \<Rightarrow> (string \<Rightarrow> string option) \<Rightarrow> string \<Rightarrow> error + verifiedWebhook" where
  "airtime_verifyWebhook parse cfg header rawBody =
     (let supplied = nullish (header ''x-airtime-signature'') []; expected = nullish (at_apiKey cfg) [] in
      if expected = [] \<or> supplied \<noteq> expected then invalid ''invalid signature''
      else case parse rawBody of None \<Rightarrow> invalid ''invalid json'' | Some raw \<Rightarrow>
        if is_nullish raw then Inl (PlainError ''Cannot read properties of null'') else
        let ref = js_first [js_lookup ''transactionId'' raw]; ok = toUpperCase (js_first_or (js_lookup ''status'' raw) ''SUCCESS'') = ''SUCCESS'' in
        if ref = [] then invalid ''missing transactionId''
        else verified (js_first_or (js_lookup ''eventId'' raw) ref) (if ok then ''payment.completed'' else ''payment.failed'') ref
          (if ok then PR_SUCCESS else PR_FAILED) None raw)"

section \<open>mock.ts\<close>

datatype mock_behaviour = MB_SUCCESS | MB_PENDING | MB_RANDOM | MB_FAIL

text \<open>\<open>roll\<close> is the value of \<open>Math.random()\<close>.\<close>

definition below :: "rat \<Rightarrow> js_num \<Rightarrow> bool" where
  "below r q = (case q of Fin a \<Rightarrow> r < a | PosInf \<Rightarrow> True | _ \<Rightarrow> False)"

fun decide :: "mock_behaviour \<Rightarrow> rat \<Rightarrow> providerResultStatus" where
  "decide MB_SUCCESS roll = PR_SUCCESS"
| "decide MB_FAIL roll = PR_FAILED"
| "decide MB_PENDING roll = PR_PENDING"
| "decide MB_RANDOM roll = (if below roll (dbl (8 / 10)) then PR_SUCCESS else if below roll (dbl (9 / 10)) then PR_PENDING else PR_FAILED)"

fun behaviour_name :: "mock_behaviour \<Rightarrow> string" where
  "behaviour_name MB_SUCCESS = ''success''"
| "behaviour_name MB_PENDING = ''pending''"
| "behaviour_name MB_RANDOM = ''random''"
| "behaviour_name MB_FAIL = ''fail''"

definition mock_createPayment :: "mock_behaviour \<Rightarrow> rat \<Rightarrow> providerPaymentInput \<Rightarrow> providerResult" where
  "mock_createPayment behaviour roll input = (let status = decide behaviour roll in
     if status = PR_FAILED
     then \<lparr> prr_status = status, prr_providerReference = None, prr_errorCode = Some ''MOCK_ERR_001'',
            prr_errorMessage = Some ''Mock provider rejected the payment (fail behaviour).'' \<rparr>
     else plain_result status (''MOCK-'' @ ppi_providerReference input))"

definition mock_requestCollection :: "mock_behaviour \<Rightarrow> collectionRequest \<Rightarrow> collectionResult" where
  "mock_requestCollection behaviour input =
     (if behaviour = MB_FAIL
      then \<lparr> crr_status = PR_FAILED, crr_providerReference = None,
             crr_errorMessage = Some ''Mock provider rejected the STK push (fail behaviour).'', crr_raw = None \<rparr>
      else \<lparr> crr_status = PR_PENDING,
             crr_providerReference = Some (''ws_CO_MOCK_'' @ take 20 (filter (\<lambda>c. c \<noteq> CHR ''-'') (cr_collectionId input))),
             crr_errorMessage = None,
             crr_raw = Some (JObject [(''sandbox'', JBool True), (''behaviour'', JString (behaviour_name behaviour))]) \<rparr>)"

definition mock_getPaymentStatus :: "mock_behaviour \<Rightarrow> rat \<Rightarrow> string \<Rightarrow> providerResult" where
  "mock_getPaymentStatus behaviour roll ref = plain_result (decide behaviour roll) ref"

definition mock_reversePayment :: "providerReversalInput \<Rightarrow> providerResult" where
  "mock_reversePayment input = plain_result PR_SUCCESS (pvi_providerReference input)"

text \<open>The status of the body is cast, not checked: a text that is none of the five is kept in \<open>raw\<close> and stands
  here as \<open>PR_UNKNOWN\<close>.\<close>

definition cast_status :: "string \<Rightarrow> providerResultStatus" where
  "cast_status s = (if s = ''SUCCESS'' then PR_SUCCESS else if s = ''PENDING'' then PR_PENDING else if s = ''FAILED'' then PR_FAILED
     else if s = ''REVERSED'' then PR_REVERSED else PR_UNKNOWN)"

definition bigint_field :: "jsval \<Rightarrow> error + int option" where
  "bigint_field v = (case v of JString a \<Rightarrow>
       (case bigint_of_string a of None \<Rightarrow> Inl (PlainError (''Cannot convert '' @ a @ '' to a BigInt'')) | Some n \<Rightarrow> Inr (Some n))
     | _ \<Rightarrow> Inr None)"

definition mock_verifyWebhook ::
  "(string \<Rightarrow> jsval option) \<Rightarrow> string \<Rightarrow> (string \<Rightarrow> string option) \<Rightarrow> string \<Rightarrow> error + verifiedWebhook" where
  "mock_verifyWebhook parse secret header rawBody =
     (case parse (if rawBody = [] then ''{}'' else rawBody) of None \<Rightarrow> invalid ''invalid json'' | Some raw \<Rightarrow>
        if is_nullish raw then Inl (PlainError ''Cannot read properties of null'') else
        let body = js_nullish (js_lookup ''body'' raw) raw; ref = js_first [js_lookup ''providerReference'' body] in
        if nullish (header ''x-mock-signature'') [] \<noteq> secret then invalid ''invalid signature''
        else if ref = [] then invalid ''missing providerReference''
        else (case bigint_field (js_lookup ''amountMinor'' body) of Inl e \<Rightarrow> Inl e | Inr amountMinor \<Rightarrow>
          verified (js_first_or (js_lookup ''eventId'' body) ref) (js_first_or (js_lookup ''type'' body) ''payment.completed'') ref
            (cast_status (js_first_or (js_lookup ''status'' body) ''SUCCESS'')) amountMinor body))"

section \<open>The interface of the payment commands and the registry\<close>

text \<open>What a caller sees of a call: the result or the message of the error.\<close>

definition answered :: "(error + 'a) \<times> adapter \<Rightarrow> string option + 'a" where
  "answered r = (case fst r of Inl e \<Rightarrow> Inl (Some (error_message e)) | Inr v \<Rightarrow> Inr v)"

definition mpesaProvider :: "mpesaConfig \<Rightarrow> network \<Rightarrow> int \<Rightarrow> adapter \<Rightarrow> paymentProvider" where
  "mpesaProvider cfg net t s = \<lparr>
     provider_createPayment = (\<lambda>i. answered (mpesa_createPayment cfg net t i s)),
     provider_getPaymentStatus = (\<lambda>ref pid. answered (mpesa_getPaymentStatus cfg net t ref s)),
     provider_reversePayment = (\<lambda>i. answered (mpesa_reversePayment cfg net t i s)) \<rparr>"

definition mpesaCollections :: "mpesaConfig \<Rightarrow> network \<Rightarrow> int \<Rightarrow> adapter \<Rightarrow> collectionProvider" where
  "mpesaCollections cfg net t s = \<lparr> cpr_code = ''mpesa-safaricom'',
     cpr_requestCollection = (\<lambda>i. answered (mpesa_requestCollection cfg net t i None s)) \<rparr>"

definition bankProvider :: "bankConfig \<Rightarrow> network \<Rightarrow> adapter \<Rightarrow> paymentProvider" where
  "bankProvider cfg net s = \<lparr>
     provider_createPayment = (\<lambda>i. answered (bank_createPayment cfg net i s)),
     provider_getPaymentStatus = (\<lambda>ref pid. answered (bank_getPaymentStatus cfg net ref s)),
     provider_reversePayment = (\<lambda>i. answered (bank_reversePayment cfg net i s)) \<rparr>"

definition airtimeProvider :: "airtimeConfig \<Rightarrow> network \<Rightarrow> adapter \<Rightarrow> paymentProvider" where
  "airtimeProvider cfg net s = \<lparr>
     provider_createPayment = (\<lambda>i. answered (airtime_createPayment cfg net None None i s)),
     provider_getPaymentStatus = (\<lambda>ref pid. Inr (airtime_getPaymentStatus ref)),
     provider_reversePayment = (\<lambda>i. Inr (airtime_reversePayment i)) \<rparr>"

definition mockProvider :: "mock_behaviour \<Rightarrow> rat \<Rightarrow> paymentProvider" where
  "mockProvider behaviour roll = \<lparr>
     provider_createPayment = (\<lambda>i. Inr (mock_createPayment behaviour roll i)),
     provider_getPaymentStatus = (\<lambda>ref pid. Inr (mock_getPaymentStatus behaviour roll ref)),
     provider_reversePayment = (\<lambda>i. Inr (mock_reversePayment i)) \<rparr>"

text \<open>\<open>built\<close> holds the four adapters by code with the overrides put over them; \<open>default\<close> falls back to the sandbox.\<close>

definition built :: "paymentProvider \<Rightarrow> paymentProvider \<Rightarrow> paymentProvider \<Rightarrow> paymentProvider \<Rightarrow>
    (string \<times> paymentProvider) list \<Rightarrow> (string \<times> paymentProvider) list" where
  "built sandbox mpesa bank airtime overrides = overrides @
     [(''local-sandbox'', sandbox), (''mpesa-safaricom'', mpesa), (''bank-psp'', bank), (''airtime-aggregator'', airtime)]"

definition provider_for :: "(string \<times> paymentProvider) list \<Rightarrow> string \<Rightarrow> error + paymentProvider" where
  "provider_for reg code = (case map_of reg code of None \<Rightarrow> Inl (PlainError (''Unknown provider code: '' @ code)) | Some p \<Rightarrow> Inr p)"

definition default_provider :: "(string \<times> paymentProvider) list \<Rightarrow> string \<Rightarrow> paymentProvider" where
  "default_provider reg configured = nullish (map_of reg configured) (the (map_of reg ''local-sandbox''))"

section \<open>What a call sends\<close>

text \<open>\<open>sends m Q\<close>: every run of \<open>m\<close> hands some requests to the network, which with its result satisfy \<open>Q\<close>.\<close>

definition sends :: "(adapter, 'a) tx \<Rightarrow> (error + 'a \<Rightarrow> httpRequest list \<Rightarrow> bool) \<Rightarrow> bool" where
  "sends m Q \<longleftrightarrow> (\<forall>s. \<exists>rs. ad_sent (snd (m s)) = ad_sent s @ rs \<and> Q (fst (m s)) rs)"

named_theorems sending

lemma sends_quiet [sending]:
  "sends (return v) (\<lambda>r rs. r = Inr v \<and> rs = [])"
  "sends (throw e) (\<lambda>r rs. r = Inl e \<and> rs = [])"
  "sends (gets f) (\<lambda>r rs. \<not> isl r \<and> rs = [])"
  "sends (guard b e) (\<lambda>r rs. isl r = (\<not> b) \<and> rs = [])"
  "sends (lift_sum x) (\<lambda>r rs. r = x \<and> rs = [])"
  "sends (res_json j) (\<lambda>r rs. rs = [])"
  "sends (json_body j) (\<lambda>r rs. rs = [])"
  "sends (credentials cfg) (\<lambda>r rs. rs = [])"
  "sends (breakerAllows cfg t) (\<lambda>r rs. rs = [])"
  "sends (breakerSuccess cfg t) (\<lambda>r rs. rs = [])"
  "sends (breakerFailure cfg t) (\<lambda>r rs. rs = [])"
  by (auto simp: sends_def tx_run lift_sum_def res_json_def json_body_def require_def credentials_def breakerAllows_def
      breakerSuccess_def breakerFailure_def split: sum.splits option.splits prod.splits)

lemma sends_token [sending]:
  "sends (modify (\<lambda>s. s\<lparr>ad_token := v\<rparr>)) (\<lambda>r rs. rs = [])"
  "sends (modify (\<lambda>s. s\<lparr>ad_tokenExpiry := q\<rparr>)) (\<lambda>r rs. rs = [])"
  by (auto simp: sends_def tx_run)

lemma sends_fetch [sending]: "sends (fetch net rq) (\<lambda>r rs. rs = [rq])"
  by (auto simp: sends_def fetch_def tx_run split: httpAnswer.splits)

lemma sends_weaken: "sends m Q \<Longrightarrow> (\<And>r rs. Q r rs \<Longrightarrow> P r rs) \<Longrightarrow> sends m P"
  unfolding sends_def by blast

lemma sends_bind:
  assumes m: "sends m Q" and f: "\<And>v. sends (f v) (R v)"
    and fail: "\<And>e rs. Q (Inl e) rs \<Longrightarrow> P (Inl e) rs"
    and ok: "\<And>v rs r rs'. Q (Inr v) rs \<Longrightarrow> R v r rs' \<Longrightarrow> P r (rs @ rs')"
  shows "sends (bind m f) P"
  unfolding sends_def
proof
  fix s
  obtain x s1 where run: "m s = (x, s1)" by fastforce
  with m obtain rs where rs: "ad_sent s1 = ad_sent s @ rs" "Q x rs" unfolding sends_def by (metis fst_conv snd_conv)
  show "\<exists>rs. ad_sent (snd (bind m f s)) = ad_sent s @ rs \<and> P (fst (bind m f s)) rs"
  proof (cases x)
    case (Inl e)
    with run rs fail show ?thesis by (auto simp: bind_def)
  next
    case (Inr v)
    from f [of v] obtain rs' where "ad_sent (snd (f v s1)) = ad_sent s1 @ rs'" "R v (fst (f v s1)) rs'" unfolding sends_def by blast
    with run rs Inr ok show ?thesis by (auto simp: bind_def)
  qed
qed

lemma sends_seq:
  assumes "sends m Q" "sends f R" "\<And>e rs. Q (Inl e) rs \<Longrightarrow> P (Inl e) rs"
    "\<And>v rs r rs'. Q (Inr v) rs \<Longrightarrow> R r rs' \<Longrightarrow> P r (rs @ rs')"
  shows "sends (seq m f) P"
  using sends_bind [of m Q "\<lambda>_. f" "\<lambda>_. R" P] assms by (simp add: seq_def)

text \<open>Commands that send nothing.\<close>

lemma silent [sending]:
  "sends (return v) (\<lambda>r rs. rs = [])" "sends (throw e) (\<lambda>r rs. rs = [])" "sends (guard b e) (\<lambda>r rs. rs = [])"
  "sends (lift_sum x) (\<lambda>r rs. rs = [])"
  by (auto simp: sends_def tx_run lift_sum_def split: sum.splits)

lemma silent_bind: "sends m (\<lambda>r rs. rs = []) \<Longrightarrow> (\<And>v. sends (f v) (\<lambda>r rs. rs = [])) \<Longrightarrow> sends (bind m f) (\<lambda>r rs. rs = [])"
  by (rule sends_bind [where Q = "\<lambda>r rs. rs = []" and R = "\<lambda>v r rs. rs = []"]) auto

lemma silent_seq: "sends m (\<lambda>r rs. rs = []) \<Longrightarrow> sends f (\<lambda>r rs. rs = []) \<Longrightarrow> sends (seq m f) (\<lambda>r rs. rs = [])"
  unfolding seq_def by (rule silent_bind)

lemma sends_recorded:
  assumes "sends m Q"
  shows "sends (catch (bind m (\<lambda>v. seq (breakerSuccess cfg t) (return v))) (\<lambda>err. seq (breakerFailure cfg t) (throw err))) Q"
  unfolding sends_def
proof
  fix s
  obtain x s1 where run: "m s = (x, s1)" by fastforce
  with assms show "\<exists>rs. ad_sent (snd (catch (bind m (\<lambda>v. seq (breakerSuccess cfg t) (return v))) (\<lambda>err. seq (breakerFailure cfg t) (throw err)) s)) =
      ad_sent s @ rs \<and> Q (fst (catch (bind m (\<lambda>v. seq (breakerSuccess cfg t) (return v))) (\<lambda>err. seq (breakerFailure cfg t) (throw err)) s)) rs"
    unfolding sends_def by (cases x) (auto simp: catch_def tx_run breakerSuccess_def breakerFailure_def dest: spec [of _ s])
qed

lemma sends_breaker:
  assumes "sends m Q"
  shows "sends (executeWithCircuitBreaker cfg t m) (\<lambda>r rs. Q r rs \<or> isl r \<and> rs = [])"
  unfolding executeWithCircuitBreaker_def
  by (rule sends_bind [OF sends_quiet(9)], rule sends_seq [OF sends_quiet(4) sends_recorded [OF assms]]) auto

definition oauth_only :: "mpesaConfig \<Rightarrow> httpRequest list \<Rightarrow> bool" where
  "oauth_only cfg rs \<longleftrightarrow> rs = [] \<or> (\<exists>url kv. rs = [oauth_request cfg url kv])"

lemma sends_fetchAccessToken [sending]: "sends (fetchAccessToken cfg net t) (\<lambda>r rs. oauth_only cfg rs)"
proof -
  have oauth: "sends (bind (lift_sum (baseUrl cfg)) (\<lambda>url. fetch net (oauth_request cfg url kv))) (\<lambda>r rs. oauth_only cfg rs)" for kv
    by (rule sends_bind [OF sends_quiet(5) sends_fetch]) (auto simp: oauth_only_def simp del: split_paired_Ex)
  have rest: "sends (seq (guard (res_ok (fst res)) e) (bind (res_json (snd res)) (\<lambda>data.
         seq (modify (\<lambda>s. s\<lparr>ad_token := Some data\<rparr>)) (bind (lift_sum (not_null data)) (\<lambda>_.
          seq (modify (\<lambda>s. s\<lparr>ad_tokenExpiry := q data\<rparr>)) (return (w data))))))) (\<lambda>r rs. rs = [])" for res e q w
    by (intro silent_seq silent_bind silent sends_quiet(6) sends_token)
  have call: "sends (bind (credentials cfg) (\<lambda>kv.
        bind (executeWithCircuitBreaker cfg t (bind (lift_sum (baseUrl cfg)) (\<lambda>url. fetch net (oauth_request cfg url kv)))) (\<lambda>res.
        seq (guard (res_ok (fst res)) (e res)) (bind (res_json (snd res)) (\<lambda>data.
         seq (modify (\<lambda>s. s\<lparr>ad_token := Some data\<rparr>)) (bind (lift_sum (not_null data)) (\<lambda>_.
          seq (modify (\<lambda>s. s\<lparr>ad_tokenExpiry := q data\<rparr>)) (return (w data))))))))) (\<lambda>r rs. oauth_only cfg rs)" for e q w
    by (rule sends_bind [OF sends_quiet(8)], rule sends_bind [OF sends_breaker [OF oauth] rest]) (auto simp: oauth_only_def)
  have cases: "sends (case v of Some data \<Rightarrow> return (w data) | None \<Rightarrow> m) (\<lambda>r rs. oauth_only cfg rs)"
    if "sends m (\<lambda>r rs. oauth_only cfg rs)" for v w m
    using that sends_weaken [OF silent(1), of "\<lambda>r rs. oauth_only cfg rs"] by (cases v) (simp_all add: oauth_only_def)
  show ?thesis unfolding fetchAccessToken_def
    by (rule sends_bind [OF sends_quiet(3) cases [OF call]]) (simp_all add: oauth_only_def)
qed

text \<open>A call of Daraja is at most one token request and then at most one post, which an answer comes after.\<close>

definition posted :: "mpesaConfig \<Rightarrow> string \<Rightarrow> (string \<times> wire) list \<Rightarrow> bool \<Rightarrow> httpRequest list \<Rightarrow> bool" where
  "posted cfg path body failed rs \<longleftrightarrow> (\<exists>pre posts. rs = pre @ posts \<and> oauth_only cfg pre \<and>
     (posts = [] \<and> failed \<or> (\<exists>url token. posts = [daraja_request cfg url path token body])))"

lemma posted_pre: "oauth_only cfg rs \<Longrightarrow> posted cfg path body True rs"
  unfolding posted_def by (intro exI [of _ rs] exI [of _ "[]"]) simp

lemma posted_post:
  "oauth_only cfg rs \<Longrightarrow> rs' = [] \<and> failed \<or> (\<exists>url token. rs' = [daraja_request cfg url path token body]) \<Longrightarrow>
    posted cfg path body failed (rs @ rs')"
  unfolding posted_def by (intro exI [of _ rs] exI [of _ rs']) blast

lemma sends_darajaPost [sending]: "sends (darajaPost cfg net t path body) (\<lambda>r rs. posted cfg path body (isl r) rs)"
proof -
  have "sends (bind (lift_sum (baseUrl cfg)) (\<lambda>url.
        bind (fetch net (daraja_request cfg url path token body)) (\<lambda>res.
        seq (guard (res_ok (fst res)) (e res)) (res_json (snd res)))))
      (\<lambda>r rs. rs = [] \<and> isl r \<or> (\<exists>url token. rs = [daraja_request cfg url path token body]))" (is "sends _ ?P") for token e
  proof -
    have "sends (seq (guard (res_ok (fst res)) (e res)) (res_json (snd res))) (\<lambda>r rs. rs = [])" for res
      by (intro silent_seq silent sends_quiet(6))
    from sends_bind [OF sends_fetch this] have "sends (bind (fetch net (daraja_request cfg url path token body)) (\<lambda>res.
        seq (guard (res_ok (fst res)) (e res)) (res_json (snd res)))) (\<lambda>r rs. rs = [daraja_request cfg url path token body])" for url
      by simp
    then show ?thesis by (rule sends_bind [OF sends_quiet(5)]) auto
  qed
  from sends_breaker [OF this] have call: "sends (executeWithCircuitBreaker cfg t (bind (lift_sum (baseUrl cfg)) (\<lambda>url.
        bind (fetch net (daraja_request cfg url path token body)) (\<lambda>res.
        seq (guard (res_ok (fst res)) (e res)) (res_json (snd res))))))
      (\<lambda>r rs. rs = [] \<and> isl r \<or> (\<exists>url token. rs = [daraja_request cfg url path token body]))" for token e
    by (rule sends_weaken) auto
  show ?thesis unfolding darajaPost_def
    by (rule sends_bind [OF sends_fetchAccessToken call]) (auto intro: posted_pre posted_post)
qed

lemma breakerAllows_closed:
  "breakerAllows cfg t s = (Inr b, s1) \<Longrightarrow> b = fst (canExecute (mp_breaker cfg) t (ad_breaker s)) \<and> (\<not> b \<longrightarrow> s1 = s)"
  by (cases "cb_state (ad_breaker s)") (auto simp: breakerAllows_def canExecute_def Let_def split: if_splits)

lemma breaker_refuses:
  assumes "\<not> fst (canExecute (mp_breaker cfg) t (ad_breaker s))"
  shows "executeWithCircuitBreaker cfg t fn s = (Inl breaker_open, s)"
proof -
  obtain b s1 where run: "breakerAllows cfg t s = (Inr b, s1)" by (cases "canExecute (mp_breaker cfg) t (ad_breaker s)") (simp add: breakerAllows_def)
  with breakerAllows_closed [OF run] assms show ?thesis by (simp add: executeWithCircuitBreaker_def tx_run)
qed

lemma darajaPost_breaker_open:
  assumes "\<not> fst (canExecute (mp_breaker cfg) t (ad_breaker s))"
  shows "isl (fst (darajaPost cfg net t path body s)) \<and> snd (darajaPost cfg net t path body s) = s"
proof (cases "cached_token t s")
  case None
  then show ?thesis by (simp add: darajaPost_def fetchAccessToken_def credentials_def tx_run breaker_refuses [OF assms])
next
  case (Some data)
  then show ?thesis by (simp add: darajaPost_def fetchAccessToken_def tx_run breaker_refuses [OF assms])
qed

section \<open>Amounts of paybill confirmations\<close>

text \<open>A confirmation that carries the decimal form of an amount is credited with that amount.\<close>

lemma decimal_text:
  "0 \<le> a \<Longrightarrow> minorToDecimalString a = show_nat (nat a div 100) @ CHR ''.'' # padStart 2 CHR ''0'' (show_nat (nat a mod 100))"
  unfolding minorToDecimalString_def Let_def by (simp add: amount_parts(1,2))

lemma decimal_trim:
  assumes "0 \<le> a"
  shows "trim (minorToDecimalString a) = minorToDecimalString a"
proof -
  have "trim s = s" if "list_all (\<lambda>c. \<not> is_space c) s" for s
  proof -
    have "dropWhile is_space r = r" if "list_all (\<lambda>c. \<not> is_space c) r" for r using that by (cases r) auto
    from this [of s] this [of "rev s"] that show ?thesis by (simp add: trim_def)
  qed
  moreover have "\<not> is_space CHR ''.''" by (simp add: is_space_def)
  then have "list_all (\<lambda>c. \<not> is_space c) (minorToDecimalString a)"
    using show_nat_digits [of "nat a div 100"] fraction_digits(2) [of "nat a"] by (auto simp: decimal_text [OF assms] list_all_iff)
  ultimately show ?thesis .
qed

lemma decimal_parts_printed:
  assumes "0 \<le> a"
  shows "decimal_parts (minorToDecimalString a) =
    Some (show_nat (nat a div 100), padStart 2 CHR ''0'' (show_nat (nat a mod 100)))"
proof -
  let ?W = "show_nat (nat a div 100)" and ?F = "padStart 2 CHR ''0'' (show_nat (nat a mod 100))"
  have W: "takeWhile is_digit (?W @ CHR ''.'' # ?F) = ?W" "dropWhile is_digit (?W @ CHR ''.'' # ?F) = CHR ''.'' # ?F"
    using show_nat_digits [of "nat a div 100"] by (simp_all add: list_all_iff takeWhile_append dropWhile_append)
  have F: "length ?F = 2" "list_all is_digit ?F" using fraction_digits [of "nat a"] by simp_all
  then have "?F \<noteq> []" by (metis list.size(3) zero_neq_numeral)
  then show ?thesis using F unfolding decimal_parts_def decimal_text [OF assms] W Let_def by simp
qed

lemma c2b_amount_exact:
  assumes "parse rawBody = Some b" "\<not> is_nullish b" "trim (js_first [js_lookup ''TransID'' b]) \<noteq> []"
    and "js_lookup ''TransAmount'' b = JString (minorToDecimalString a)" and a: "0 \<le> a"
  shows "\<exists>c. parseC2BConfirmation parse rawBody = Inr (Some c) \<and> c2b_amountMinor c = a"
  using assms decimal_trim [OF a] decimal_parts_printed [OF a] fraction_digits [of "nat a"] amount_parts(3) [OF a]
  by (simp add: parseC2BConfirmation_def Let_def js_first_def is_nullish_def)

section \<open>The breaker of the status query\<close>

text \<open>With the network down, each status query counts as two failures: three queries open a breaker with a threshold
  of five.\<close>

definition demo_mpesa :: mpesaConfig where
  "demo_mpesa = \<lparr> mp_production = False, mp_apiBaseUrl = None, mp_consumerKey = ''key'', mp_consumerSecret = ''secret'',
     mp_passkey = ''pass'', mp_shortcode = ''174379'', mp_callbackBaseUrl = ''https://pay.example'', mp_initiatorName = ''api'',
     mp_securityCredential = ''cred'', mp_timeoutMs = 15000, mp_tillNumber = [], mp_c2bToken = [],
     mp_breaker = \<lparr> env_failureThreshold = None, env_successThreshold = None, env_timeoutMs = None \<rparr> \<rparr>"

definition demo_adapter :: adapter where
  "demo_adapter = \<lparr> ad_breaker = new_breaker 0 ''mpesa-safaricom'' default_config, ad_token = None, ad_tokenExpiry = Fin 0, ad_sent = [] \<rparr>"

definition query_down :: "adapter \<Rightarrow> adapter" where
  "query_down s = snd (mpesa_getPaymentStatus demo_mpesa (\<lambda>_. HttpFailure ''timeout'') 0 ''ref'' s)"

lemma status_query_counts_twice:
  "cb_failureCount (ad_breaker (query_down (query_down demo_adapter))) = 4 \<and>
   cb_state (ad_breaker (query_down (query_down (query_down demo_adapter)))) = OPEN \<and>
   length (ad_sent (query_down (query_down (query_down demo_adapter)))) = 3"
  by code_simp

section \<open>Properties\<close>

definition payment_path :: "providerPaymentInput \<Rightarrow> string" where
  "payment_path input = (if pd_channel (ppi_destination input) = ''mpesa''
     then ''/mpesa/b2c/v1/paymentrequest'' else ''/mpesa/stkpush/v1/processrequest'')"

definition payment_body :: "mpesaConfig \<Rightarrow> int \<Rightarrow> providerPaymentInput \<Rightarrow> (string \<times> wire) list" where
  "payment_body cfg t input = (if pd_channel (ppi_destination input) = ''mpesa'' then b2c_body cfg input else stk_body cfg t input)"

text \<open>What has to be configured, and open, for a payment to go out.\<close>

definition may_pay :: "mpesaConfig \<Rightarrow> int \<Rightarrow> providerPaymentInput \<Rightarrow> adapter \<Rightarrow> bool" where
  "may_pay cfg t input s \<longleftrightarrow> mp_consumerKey cfg \<noteq> [] \<and> mp_consumerSecret cfg \<noteq> [] \<and>
     fst (canExecute (mp_breaker cfg) t (ad_breaker s)) \<and> truthy (pd_phone (ppi_destination input)) \<and>
     (pd_channel (ppi_destination input) = ''mpesa'' \<and> mp_initiatorName cfg \<noteq> [] \<and> mp_securityCredential cfg \<noteq> [] \<or>
      pd_channel (ppi_destination input) \<in> {''till'', ''paybill''})"

lemma mapDarajaResponse_status:
  "mapDarajaResponse res input = Inr r \<Longrightarrow> prr_status r \<in> {PR_PENDING, PR_FAILED}"
  by (auto simp: mapDarajaResponse_def Let_def split: sum.splits if_splits)

lemma sends_payment:
  "sends (bind (darajaPost cfg net t path body) (\<lambda>res. lift_sum (mapDarajaResponse res input)))
     (\<lambda>r rs. posted cfg path body (isl r) rs \<and> (case r of Inl e \<Rightarrow> True | Inr v \<Rightarrow> prr_status v \<in> {PR_PENDING, PR_FAILED}))"
  by (rule sends_bind [OF sends_darajaPost sends_quiet(5)])
     (auto simp: posted_def dest: mapDarajaResponse_status split: sum.splits)

lemma createPayment_admitted:
  assumes "may_pay cfg t input s"
  shows "mpesa_createPayment cfg net t input s =
    bind (darajaPost cfg net t (payment_path input) (payment_body cfg t input)) (\<lambda>res. lift_sum (mapDarajaResponse res input)) s"
  using assms by (auto simp: may_pay_def mpesa_createPayment_def payment_path_def payment_body_def credentials_def Let_def seq_def bind_def
      guard_def return_def)

lemma createPayment_refused:
  assumes "\<not> may_pay cfg t input s"
  shows "isl (fst (mpesa_createPayment cfg net t input s)) \<and> snd (mpesa_createPayment cfg net t input s) = s"
proof (cases "fst (canExecute (mp_breaker cfg) t (ad_breaker s))")
  case True
  with assms show ?thesis
    by (auto simp: may_pay_def mpesa_createPayment_def credentials_def Let_def tx_run)
next
  case False
  have "\<exists>e. darajaPost cfg net t path body s = (Inl e, s)" for path body
    using darajaPost_breaker_open [OF False, of net path body] by (cases "darajaPost cfg net t path body s") (auto simp: isl_def)
  then obtain e e' where "darajaPost cfg net t ''/mpesa/b2c/v1/paymentrequest'' (b2c_body cfg input) s = (Inl e, s)"
    "darajaPost cfg net t ''/mpesa/stkpush/v1/processrequest'' (stk_body cfg t input) s = (Inl e', s)" by meson
  then show ?thesis by (simp add: mpesa_createPayment_def credentials_def Let_def tx_run)
qed

text \<open>C16.  A payment through M-Pesa is sent at most once and never settled by the sender: without credentials, with
  an open breaker, for another channel or without a phone nothing is sent and the call fails; otherwise it sends at
  most a request for a token and then at most one payment order, exactly that of the input.  A result is given only
  after the order was sent, and it is pending or failed: the success of a payment comes by callback.\<close>

theorem mpesa_payment_sent_once:
  "case mpesa_createPayment cfg net t input s of (r, s') \<Rightarrow>
     \<exists>rs. ad_sent s' = ad_sent s @ rs \<and>
       (if may_pay cfg t input s then posted cfg (payment_path input) (payment_body cfg t input) (isl r) rs else isl r \<and> rs = []) \<and>
       (case r of Inl e \<Rightarrow> True | Inr v \<Rightarrow> prr_status v \<in> {PR_PENDING, PR_FAILED})"
proof (cases "may_pay cfg t input s")
  case True
  from sends_payment [of cfg net t "payment_path input" "payment_body cfg t input" input] show ?thesis
    unfolding sends_def createPayment_admitted [OF True, of net, symmetric] prod.case_eq_if if_P [OF True]
    using createPayment_admitted [OF True, of net] by metis
next
  case False
  with createPayment_refused [OF False, of net] show ?thesis
    by (cases "mpesa_createPayment cfg net t input s") (auto simp: isl_def)
qed

end
