(* ===== verification/Event_Router.thy ===== *)
theory Event_Router
  imports Outbox_Relay Outbound Etims_Invariants Web_Team
begin

text \<open>
  \<open>handleOutboxEvent\<close> of packages/payments-core/src/outbox-relay.ts: what the relay does with an event of the
  outbox, across the components.  It hands jobs to the execution queue, propagates payment outcomes to batch rows,
  issues receipts and submits fiscal documents, notifies the tenant and fans the event out to its webhooks.

  The queue is the argument \<open>re_queue\<close>, which may refuse a job; the jobs a handler hands over are its result, those of
  the fan-out are the result of \<open>fanoutWebhookDeliveries\<close>.  \<open>re_localeString\<close> is \<open>Number(n).toLocaleString("en-KE")\<close>.
\<close>

section \<open>Jobs\<close>

record executionJob =
  xj_correlationId :: string
  xj_tenantId :: "string option"
  xj_paymentId :: string
  xj_providerCode :: string
  xj_attemptNumber :: int
  xj_idempotencyKey :: string
  xj_jobId :: string

record batchJob =
  bj_correlationId :: string
  bj_tenantId :: string
  bj_batchId :: string
  bj_actorId :: jsval
  bj_providerCode :: string
  bj_jobId :: string

datatype relayJob = ExecutePayment executionJob | ExecuteBatch batchJob | DeliverJob deliverJob

record routerEnv =
  re_crypto :: crypto
  re_hmac :: hmac
  re_client :: "error + etimsClient"
  re_queue :: "relayJob \<Rightarrow> error option"
  re_localeString :: "int \<Rightarrow> string"

definition hand_over :: "routerEnv \<Rightarrow> relayJob \<Rightarrow> relayJob list cmd" where
  "hand_over env job = (case re_queue env job of None \<Rightarrow> return [job] | Some e \<Rightarrow> throw e)"

definition payment_job :: "outboxEvent \<Rightarrow> string \<Rightarrow> relayJob" where
  "payment_job event paymentId = ExecutePayment \<lparr> xj_correlationId = ''outbox:'' @ ob_id event, xj_tenantId = ob_tenantId event,
     xj_paymentId = paymentId, xj_providerCode = ''local-sandbox'', xj_attemptNumber = 1,
     xj_idempotencyKey = ''pay:'' @ paymentId, xj_jobId = ''pay-'' @ paymentId \<rparr>"

definition batch_job :: "outboxEvent \<Rightarrow> string \<Rightarrow> relayJob" where
  "batch_job event batchId = ExecuteBatch \<lparr> bj_correlationId = ''outbox:'' @ ob_id event, bj_tenantId = nullish (ob_tenantId event) [],
     bj_batchId = batchId, bj_actorId = js_lookup ''actorId'' (ob_payload event), bj_providerCode = ''local-sandbox'',
     bj_jobId = ''batch-'' @ batchId \<rparr>"

section \<open>The consumers of an event\<close>

definition payload_text :: "string \<Rightarrow> outboxEvent \<Rightarrow> string" where
  "payload_text k event = js_string_or (js_lookup k (ob_payload event)) []"

definition notify_tenant :: "outboxEvent \<Rightarrow> string \<Rightarrow> string \<Rightarrow> unit cmd" where
  "notify_tenant event title body =
     seq (queueNotification (ob_tenantId event) None ''IN_APP'' None (Some title) body (ob_payload event)) (return ())"

definition event_title :: "string \<Rightarrow> string" where
  "event_title ty = (if ty = ''payment.succeeded'' then ''Payment successful'' else if ty = ''payment.failed'' then ''Payment failed''
     else if ty = ''payment.reversed'' then ''Payment reversed'' else if ty = ''payment.approval_requested'' then ''Approval required''
     else ''Payment update'')"

definition onPaymentOutcome :: "outboxEvent \<Rightarrow> unit cmd" where
  "onPaymentOutcome event = (let title = event_title (ob_eventType event) in
     seq (syncBatchRow (ob_eventType event) (ob_payload event))
         (notify_tenant event title (title @ '' '' @ em_dash @ '' '' @ payload_text ''paymentId'' event)))"

definition receipt_note :: "etimsDocument option \<Rightarrow> string" where
  "receipt_note receipt = (case receipt of None \<Rightarrow> [] | Some r \<Rightarrow>
     '' Receipt '' @ ed_number r @ (if ed_status r = ''SIGNED'' then '' (eTIMS signed)'' else []) @ ''.'')"

definition receiptFor :: "routerEnv \<Rightarrow> string \<Rightarrow> string cmd" where
  "receiptFor env collectionId = (if collectionId = [] then return []
     else catch (bind (issueReceiptForCollection (re_crypto env) (re_client env) collectionId) (\<lambda>r. return (receipt_note r)))
       (\<lambda>_. return []))"

text \<open>\<open>s.replace("_", " ")\<close> replaces the first underscore.\<close>

fun first_space :: "string \<Rightarrow> string" where
  "first_space [] = []"
| "first_space (c # s) = (if c = CHR ''_'' then CHR '' '' # s else c # first_space s)"

definition payer_note :: "jsval \<Rightarrow> string" where
  "payer_note name = (if js_truthy name then '' from '' @ js_string name else [])"

definition onCollectionReceived :: "routerEnv \<Rightarrow> outboxEvent \<Rightarrow> unit cmd" where
  "onCollectionReceived env event =
     bind (receiptFor env (payload_text ''collectionId'' event)) (\<lambda>note.
     let text = js_string_or (js_lookup ''amountMinor'' (ob_payload event)) ''0'' in
     bind (require (bigint_of_string text) (PlainError (''Cannot convert '' @ text @ '' to a BigInt''))) (\<lambda>amount.
     notify_tenant event ''Payment received''
       (''KES '' @ re_localeString env (bigint_div amount 100) @ '' received'' @ payer_note (js_lookup ''payerName'' (ob_payload event)) @
        '' via '' @ first_space (js_string_or (js_lookup ''channel'' (ob_payload event)) ''collection'') @ ''.'' @ note)))"

definition onCollectionFailed :: "outboxEvent \<Rightarrow> unit cmd" where
  "onCollectionFailed event = notify_tenant event ''Payment request not completed''
     (payload_text ''collectionNumber'' event @ '': '' @ js_string_or (js_lookup ''reason'' (ob_payload event)) ''failed'')"

definition onFiscaliseRequested :: "routerEnv \<Rightarrow> outboxEvent \<Rightarrow> unit cmd" where
  "onFiscaliseRequested env event = (let documentId = payload_text ''documentId'' event in
     whenM (documentId \<noteq> [] \<and> truthy (ob_tenantId event))
       (catch (seq (fiscaliseDocument (re_crypto env) (re_client env) (the (ob_tenantId event)) documentId None) (return ()))
          (\<lambda>err. case err of EtimsError m c r \<Rightarrow> if r then throw err else return () | _ \<Rightarrow> throw err)))"

definition routeEvent :: "routerEnv \<Rightarrow> outboxEvent \<Rightarrow> relayJob list cmd" where
  "routeEvent env event = (let ty = ob_eventType event in
     if ty = ''payment.queued''
     then (let paymentId = payload_text ''paymentId'' event in
       if paymentId \<noteq> [] then hand_over env (payment_job event paymentId) else return [])
     else if ty = ''batch.approved''
     then (let batchId = payload_text ''batchId'' event in
       if batchId \<noteq> [] \<and> truthy (ob_tenantId event) then hand_over env (batch_job event batchId) else return [])
     else if ty \<in> {''payment.succeeded'', ''payment.failed'', ''payment.reversed'', ''payment.approval_requested''}
     then seq (onPaymentOutcome event) (return [])
     else if ty = ''collection.received'' then seq (onCollectionReceived env event) (return [])
     else if ty = ''collection.failed'' then seq (onCollectionFailed event) (return [])
     else if ty = ''etims.fiscalise_requested'' then seq (onFiscaliseRequested env event) (return [])
     else return [])"

definition fanOut :: "routerEnv \<Rightarrow> outboxEvent \<Rightarrow> unit cmd" where
  "fanOut env event = whenM (truthy (ob_tenantId event))
     (catch (seq (fanoutWebhookDeliveries (re_crypto env) (re_hmac env) (\<lambda>j. re_queue env (DeliverJob j)) (the (ob_tenantId event))
          (ob_eventType event) (js_fields (ob_payload event))) (return ()))
        (\<lambda>_. return ()))"

definition handleOutboxEvent :: "routerEnv \<Rightarrow> outboxEvent \<Rightarrow> relayJob list cmd" where
  "handleOutboxEvent env event = bind (routeEvent env event) (\<lambda>jobs. seq (fanOut env event) (return jobs))"

section \<open>What routing leaves alone\<close>

text \<open>The tables of the money and of the payments.\<close>

definition money_frame :: "db \<Rightarrow> db \<Rightarrow> bool" where
  "money_frame a s \<longleftrightarrow> wallets s = wallets a \<and> walletReservations s = walletReservations a \<and>
     walletLedgerEntries s = walletLedgerEntries a \<and> ledgerAccounts s = ledgerAccounts a \<and> journals s = journals a \<and>
     journalEntries s = journalEntries a \<and> payments s = payments a \<and> approvalRequests s = approvalRequests a"

lemma frame_modify: "(\<And>s. money_frame s (f s)) \<Longrightarrow> preserves (money_frame a) (modify f)"
  by (simp add: preserves_def modify_def money_frame_def)

lemma frame_fresh_id [preserved]: "preserves (money_frame a) fresh_id"
  by (simp add: preserves_def fresh_id_def money_frame_def)

lemma frame_updateDocument [preserved]: "preserves (money_frame a) (updateDocument did f)"
  unfolding updateDocument_def Let_def by (intro preserved frame_modify; simp add: money_frame_def)

lemma frame_updateDevice [preserved]: "preserves (money_frame a) (updateDevice did f)"
  unfolding updateDevice_def by (intro preserved frame_modify; simp add: money_frame_def)

lemma frame_publicToken [preserved]: "preserves (money_frame a) (generatePublicToken)"
  unfolding generatePublicToken_def by (intro preserved frame_modify; simp add: money_frame_def)

lemma frame_insertDocument [preserved]: "preserves (money_frame a) (insertDocument d)"
  unfolding insertDocument_def by (intro preserved frame_modify; simp add: money_frame_def)

lemma frame_emitOutbox [preserved]: "preserves (money_frame a) (emitOutbox ev tid rid v)"
  unfolding emitOutbox_def enqueueOutbox_def by (intro preserved frame_modify; simp add: money_frame_def)

lemma frame_updateCollection [preserved]: "preserves (money_frame a) (updateCollection cid f)"
  unfolding updateCollection_def by (intro preserved frame_modify; simp add: money_frame_def)

lemma frame_linkReceipt [preserved]: "preserves (money_frame a) (linkReceipt cid did)"
  unfolding linkReceipt_def by (intro preserved frame_modify; simp add: money_frame_def)

lemma frame_batchRow [preserved]: "preserves (money_frame a) (updateBatchRow rid f)"
  unfolding updateBatchRow_def by (intro preserved frame_modify; simp add: money_frame_def)

lemma frame_batch [preserved]: "preserves (money_frame a) (updateBatch bid f)"
  unfolding updateBatch_def by (intro preserved frame_modify; simp add: money_frame_def)

lemma frame_insertDelivery [preserved]: "preserves (money_frame a) (insertDelivery tid sid ev v w x)"
  unfolding insertDelivery_def by (intro preserved frame_modify; simp add: money_frame_def)

lemma frame_queueNotification [preserved]: "preserves (money_frame a) (queueNotification tid uid ch tc title body data)"
  unfolding queueNotification_def by (intro preserved frame_modify; simp add: money_frame_def)

lemma frame_reading [preserved]: "preserves (money_frame a) (loadDocForTenant tid did)" "preserves (money_frame a) (decrypted cr v)"
  unfolding loadDocForTenant_def decrypted_def by (intro preserved)+

lemma frame_case_prepared:
  "(\<And>doc. preserves P (m doc)) \<Longrightarrow> (\<And>x y. preserves P (n x y)) \<Longrightarrow>
    preserves P (case p of Done doc \<Rightarrow> m doc | Submit x y \<Rightarrow> n x y)"
  by (cases p) simp_all

lemma frame_prepare [preserved]: "preserves (money_frame a) (prepareSubmission cr tid did actor)"
  unfolding prepareSubmission_def allocateInvoiceNo_def by (intro preserved)

lemma frame_fiscalise [preserved]: "preserves (money_frame a) (fiscaliseDocument cr client tid did actor)"
  unfolding fiscaliseDocument_def signDocument_def recordFailure_of_def by (intro frame_case_prepared preserved)

lemma frame_receipt [preserved]: "preserves (money_frame a) (issueReceiptForCollection cr client cid)"
  unfolding issueReceiptForCollection_def createReceipt_def requestFiscalisation_def nextNumber_def by (intro preserved)

lemma frame_fanOut [preserved]: "preserves (money_frame a) (fanOut env event)"
  unfolding fanOut_def fanoutWebhookDeliveries_def enqueue_def by (intro preserved)

lemma frame_sync [preserved]: "preserves (money_frame a) (syncBatchRow ev payload)"
  unfolding syncBatchRow_def markBatchRowOutcome_def refreshBatchStatus_def by (intro preserved)

lemma frame_notify [preserved]: "preserves (money_frame a) (notify_tenant event title body)"
  unfolding notify_tenant_def by (intro preserved)

lemma frame_fiscalise_request [preserved]: "preserves (money_frame a) (onFiscaliseRequested env event)"
proof -
  have "preserves (money_frame a) (case err of EtimsError m c r \<Rightarrow> if r then throw err else return () | _ \<Rightarrow> throw err)" for err
    by (cases err) (auto intro: preserved)
  then show ?thesis unfolding onFiscaliseRequested_def Let_def by (intro preserved)
qed

lemma frame_route [preserved]: "preserves (money_frame a) (routeEvent env event)"
  unfolding routeEvent_def onPaymentOutcome_def onCollectionReceived_def receiptFor_def onCollectionFailed_def hand_over_def
  by (intro preserved)

section \<open>When routing fails\<close>

text \<open>The jobs an event calls for, and what can keep its handler from returning.\<close>

definition expected_jobs :: "outboxEvent \<Rightarrow> relayJob list" where
  "expected_jobs event =
     (if ob_eventType event = ''payment.queued'' \<and> payload_text ''paymentId'' event \<noteq> []
      then [payment_job event (payload_text ''paymentId'' event)]
      else if ob_eventType event = ''batch.approved'' \<and> payload_text ''batchId'' event \<noteq> [] \<and> truthy (ob_tenantId event)
      then [batch_job event (payload_text ''batchId'' event)] else [])"

definition may_fail :: "routerEnv \<Rightarrow> outboxEvent \<Rightarrow> bool" where
  "may_fail env event \<longleftrightarrow> list_ex (\<lambda>job. re_queue env job \<noteq> None) (expected_jobs event) \<or>
     ob_eventType event = ''etims.fiscalise_requested'' \<or>
     ob_eventType event = ''collection.received'' \<and>
       bigint_of_string (js_string_or (js_lookup ''amountMinor'' (ob_payload event)) ''0'') = None"

lemma notify_returns: "\<exists>t. notify_tenant event title body s = (Inr (), t)"
  by (simp add: notify_tenant_def queueNotification_def tx_run fresh_id_def)

lemma updateBatchRow_returns: "\<exists>t. updateBatchRow rid f s = (Inr (), t)" "\<exists>t. updateBatch bid g s = (Inr (), t)"
  by (simp_all add: updateBatchRow_def updateBatch_def tx_run)

lemma refresh_returns: "\<exists>t. refreshBatchStatus bid s = (Inr (), t)"
  using updateBatchRow_returns(2) by (simp add: refreshBatchStatus_def bind_def gets_def)

lemma mark_returns: "\<exists>t. markBatchRowOutcome rid st m s = (Inr (), t)"
  using updateBatchRow_returns(1) by (simp add: markBatchRowOutcome_def)

lemma sync_returns: "\<exists>t. syncBatchRow ev payload s = (Inr (), t)"
proof -
  have rest: "\<exists>t. (bind (gets (\<lambda>s. find (\<lambda>p. p_id p = pid) (payments s))) (\<lambda>payment.
      case Option.bind payment p_batchId of None \<Rightarrow> return () | Some b \<Rightarrow> whenM (b \<noteq> []) (refreshBatchStatus b))) s = (Inr (), t)" for pid s
    using refresh_returns by (auto simp: bind_def gets_def whenM_def return_def split: option.splits)
  have "\<exists>t. seq (if ev = ''payment.succeeded'' then markBatchRowOutcome rid ROW_SUCCESS None
         else markBatchRowOutcome rid ROW_FAILED m) (bind (gets (\<lambda>s. find (\<lambda>p. p_id p = pid) (payments s))) (\<lambda>payment.
      case Option.bind payment p_batchId of None \<Rightarrow> return () | Some b \<Rightarrow> whenM (b \<noteq> []) (refreshBatchStatus b))) s = (Inr (), t)"
    for rid m pid s
    using mark_returns [of rid ROW_SUCCESS None s] mark_returns [of rid ROW_FAILED m s] rest
    by (cases "ev = ''payment.succeeded''") (auto simp: seq_def bind_def [of "markBatchRowOutcome r st x" for r st x])
  then show ?thesis
    by (auto simp: syncBatchRow_def Let_def whenM_def return_def bind_def [of "gets f" for f] gets_def split: option.split)
qed

lemma fanOut_returns: "\<exists>t. fanOut env event s = (Inr (), t)"
  by (auto simp: fanOut_def whenM_def catch_def return_def seq_def bind_def split: prod.split sum.split)

lemma receiptFor_returns: "\<exists>x t. receiptFor env cid s = (Inr x, t)"
  by (auto simp: receiptFor_def catch_def return_def split: prod.split sum.split)

lemma received_returns:
  "bigint_of_string (js_string_or (js_lookup ''amountMinor'' (ob_payload event)) ''0'') = Some n \<Longrightarrow>
    \<exists>t. onCollectionReceived env event s = (Inr (), t)"
  using receiptFor_returns [of env "payload_text ''collectionId'' event" s] notify_returns
  by (auto simp: onCollectionReceived_def bind_def require_def return_def)

lemma outcome_returns: "\<exists>t. onPaymentOutcome event s = (Inr (), t)"
proof -
  obtain u where "syncBatchRow (ob_eventType event) (ob_payload event) s = (Inr (), u)" using sync_returns by blast
  then show ?thesis using notify_returns by (simp add: onPaymentOutcome_def Let_def seq_def bind_def)
qed

lemma hand_over_run:
  "hand_over env job s = (case re_queue env job of None \<Rightarrow> (Inr [job], s) | Some e \<Rightarrow> (Inl e, s))"
  by (simp add: hand_over_def return_def throw_def split: option.split)

lemma routeEvent_run:
  "case routeEvent env event s of (Inl e, t) \<Rightarrow> may_fail env event | (Inr jobs, t) \<Rightarrow> jobs = expected_jobs event \<and>
     list_all (\<lambda>job. re_queue env job = None) jobs"
proof -
  consider "ob_eventType event = ''payment.queued''" | "ob_eventType event = ''batch.approved''"
    | (outcome) "ob_eventType event \<in> {''payment.succeeded'', ''payment.failed'', ''payment.reversed'', ''payment.approval_requested''}"
    | (received) "ob_eventType event = ''collection.received''" | (failed) "ob_eventType event = ''collection.failed''"
    | (fiscal) "ob_eventType event = ''etims.fiscalise_requested''"
    | (other) "ob_eventType event \<notin> {''payment.queued'', ''batch.approved'', ''payment.succeeded'', ''payment.failed'', ''payment.reversed'',
        ''payment.approval_requested'', ''collection.received'', ''collection.failed'', ''etims.fiscalise_requested''}" by blast
  then show ?thesis
  proof cases
    case outcome
    obtain t where "onPaymentOutcome event s = (Inr (), t)" using outcome_returns by blast
    with outcome show ?thesis by (auto simp: routeEvent_def seq_def bind_def return_def expected_jobs_def)
  next
    case received
    show ?thesis
    proof (cases "bigint_of_string (js_string_or (js_lookup ''amountMinor'' (ob_payload event)) ''0'')")
      case None
      with received show ?thesis
        by (auto simp: routeEvent_def seq_def bind_def return_def expected_jobs_def may_fail_def split: sum.split prod.split)
    next
      case (Some n)
      with received_returns [OF this, of env s] received show ?thesis
        by (auto simp: routeEvent_def seq_def bind_def return_def expected_jobs_def)
    qed
  next
    case failed
    obtain t where "onCollectionFailed event s = (Inr (), t)" unfolding onCollectionFailed_def using notify_returns by blast
    with failed show ?thesis by (simp add: routeEvent_def seq_def bind_def return_def expected_jobs_def)
  qed (auto simp: routeEvent_def hand_over_run seq_def bind_def return_def expected_jobs_def may_fail_def split: sum.split prod.split option.split)
qed

section \<open>Property\<close>

text \<open>C29. Routing an event of the outbox moves no money: whatever the event, the client of the tax authority and the
  queue do, the wallets, reservations, ledger, payments and approval requests are as before.  It hands over exactly
  the execution job the event calls for, and fails only if the queue refuses that job, the amount of a collection
  is not a number, or a fiscal submission has to be tried again; webhooks and receipts never make it fail.\<close>

theorem routing_moves_no_money:
  "case handleOutboxEvent env event s of (r, t) \<Rightarrow> money_frame s t \<and>
     (case r of Inl e \<Rightarrow> may_fail env event
      | Inr jobs \<Rightarrow> jobs = expected_jobs event \<and> list_all (\<lambda>job. re_queue env job = None) jobs)"
proof -
  obtain r t where run: "handleOutboxEvent env event s = (r, t)" by fastforce
  have "preserves (money_frame s) (handleOutboxEvent env event)" unfolding handleOutboxEvent_def by (intro preserved)
  moreover have "money_frame s s" by (simp add: money_frame_def)
  ultimately have "money_frame s t" using run by (rule preservesD)
  moreover have "case r of Inl e \<Rightarrow> may_fail env event | Inr jobs \<Rightarrow> jobs = expected_jobs event \<and> list_all (\<lambda>job. re_queue env job = None) jobs"
  proof (cases "routeEvent env event s")
    case (Pair x u)
    with routeEvent_run [of env event s] run fanOut_returns [of env event u] show ?thesis
      by (cases x) (auto simp: handleOutboxEvent_def bind_def seq_def return_def)
  qed
  ultimately show ?thesis by (simp add: run)
qed

end
