(* ===== verification/Spec2Isabelle.thy ===== *)
theory Spec2Isabelle
  imports Wallet_Commands Payment_Commands Collection_Commands Back_Office Tax Circuit_Breaker
    Tenant_Policy Config_Requests Config_Safety Identity Totp Outbound Schedules Worker_Jobs Etims_History
    Web_Payments Web_Grants Dsar Provider_Adapters Event_Router
begin

text \<open>
  A verification development for the Z-float payments platform.

  \<^bold>\<open>The program.\<close>  Tenants hold wallets, pay recipients from them and collect money into them.  The packages
  under src/packages are layered: money, validation and database at the bottom; ledger (double-entry journals,
  wallets, reservations, health check); audit; auth (passwords, sessions, roles, API keys, one-time codes);
  approvals (policies, maker-checker requests, staged configuration); kyc (name screening); providers (adapters to
  the outside and the circuit breaker); payments-core, which calls all of them (payments, execution, reversal, bulk
  files, collections, callbacks, payment links, reconciliation, schedules, webhooks to tenants, outbox); etims
  (fiscal documents).  Two processes sit on top: the routes of apps/web and the jobs of services/worker.  They share
  one PostgreSQL database, reached through drizzle transactions.

  \<^bold>\<open>The model.\<close>  The database is the record \<open>db\<close> of Schema.thy: one list of rows per table, the clock, and the
  generator of random ids with the number of ids drawn.  A function of the source that touches the database is a
  command \<open>'a cmd\<close>, a state transformer that returns a value or throws an \<open>error\<close> (Prelude.thy): \<open>await\<close> is
  \<open>bind\<close>, \<open>if (!x) throw e\<close> is \<open>guard\<close>, \<open>db.transaction\<close> is \<open>transaction\<close> and rolls back on a throw,
  \<open>try/catch\<close> is \<open>catch\<close>, a \<open>for\<close> loop is \<open>forEachM\<close> or \<open>foldM\<close>.  Unique indexes, foreign keys and the triggers of
  custom-migrations are checked by the inserts and updates they guard.  Amounts are BigInt in the source and \<open>int\<close>
  here; \<open>Number\<close> is the IEEE arithmetic of Js_Number.thy where a validator uses it.  Commands run one after the
  other; the row locks of the source are what makes that a faithful reading of concurrent transactions.

  \<^item> Prelude, Interfaces: strings, numbers, commands, tables; histories of commands, codecs and normalisers as locales.
  \<^item> Json (database/json-safe.ts), Js_Number, Schema (database/schema), Money (money), Validation (validation),
    Circuit_Breaker (providers/circuit-breaker.ts), Provider_Adapters (the adapters of providers), Audit_Log (audit/index.ts), Dsar (audit/dsar.ts).
  \<^item> Ledger (ledger/ledger.ts, wallet.ts, health.ts and the triggers), with Ledger_Invariants and Wallet_Invariants.
  \<^item> Approvals (approvals/policy.ts, service.ts), with Approval_Invariants; Tenant_Policy (tenant-policy.ts);
    Config_Validation, Platform_Config and Config_Requests (platform-config.ts), with Config_Safety; Kyc (kyc).
  \<^item> Payment_State (state.ts, outbox.ts, fees.ts, idempotency), Payments (beneficiaries.ts, payments.ts), Execution
    (execute.ts, reversal.ts, monitor.ts), Bulk, Collections, Webhooks, Payment_Links, Reconciliation, Outbox_Relay,
    Event_Router (the consumers of outbox-relay.ts), Outbound, Schedules, all of payments-core.
  \<^item> Core_Invariants, Payment_Invariants, System: the commands together as one transition system.
  \<^item> Wallet_Account, Wallet_Commands, Payment_Commands, Collection_Commands, Back_Office: what single commands do.
  \<^item> Tax (etims/tax.ts), Etims (devices and payload), Etims_Documents (documents), Etims_Invariants, Etims_History.
  \<^item> Identity (auth: rbac.ts, sessions.ts, api-keys.ts), Passwords (password.ts, crypto.ts), Totp (totp.ts).
  \<^item> Web_Access (apps/web: lib/api.ts and app/api/auth), Web_Login, Web_Team (team, approvals, lib/invite-controls.ts),
    Web_Payments (payments), Web_Grants; Worker_Jobs (services/worker/jobs.ts and storage/clamd.ts).

  \<^bold>\<open>What is shown.\<close>  The locale \<open>core_invariant\<close> of Core_Invariants states what an invariant of the core tables has to
  satisfy, one law per basic command; every other command of the platform is proved to keep it once, inside the
  locale, and \<open>system_invariant\<close> does the same for invariants that also speak about payments.  The interpretations
  \<open>ledger_core\<close>, \<open>wallet_core\<close>, \<open>approval_core\<close>, \<open>payment_core\<close>, \<open>account_core\<close> and \<open>codes_core\<close> give, through the
  sublocale \<open>history\<close>, results about every state a history of commands reaches from a fresh installation, with
  arbitrary actors, providers and passing time: balanced books, wallets that are never overdrawn and implement an
  abstract account, payments backed by reservations, legal status histories, independent approvals, and the end of
  the retry in \<open>getWalletLedgerAccount\<close>.  The theorems about single commands give their exact effect on every
  branch, errors included: idempotent creation, execution, settlement and callbacks, fee bounds,
  reconciliation accounting, screening, the draining of the outbox, tax totals, and the round trips of the printers.

  Three more histories interpret \<open>history\<close> on commands of their own.  Of the fiscal documents: the numbers of a
  device are gapless and used once, a signed document never changes, a submission ends as the authority answers.  Of
  the staged configuration: a configuration table changes only when another administrator approves, and by exactly
  the staged change.  Of invitations, decisions and registrations: a role with sensitive permissions is granted only
  after another user approved.  Around them: a session is opened only for the right password and second factor,
  wrong passwords lock an account, a registration uses up one open invitation, one-time codes are those of three
  periods, an erased user cannot sign in, deliveries to tenants end within five attempts, a schedule drafts an
  occurrence once, a file that could not be scanned is never clean, the consumers of the outbox move no money, and an
  M-Pesa order is sent at most once and only by a configured adapter.

  Some theorems and lemmas state behaviour that differs from a comment of the source: a cancelled payment keeps its
  reservation, a reversal credits no wallet, an adverse match lowers the risk level, phone numbers keep plus signs,
  a forced-open breaker does not hold, a payment whose approval was rejected can be released by its maker.

  \<^bold>\<open>Bounds and fuel.\<close>  The only function with fuel is \<open>getWalletLedgerAccount_fuel\<close>; two units are used, and one is
  shown to be enough in every reachable state.  All other recursion is structural or has a measure.  Names and texts
  are strings of one-byte characters; the similarity of names is a pair of natural numbers compared exactly (Kyc.thy
  says where that agrees with the floating-point computation).

  \<^bold>\<open>Assumptions.\<close>  Random ids do not repeat (\<open>uuids_distinct\<close>).  What is not the repository's code is an argument, an
  arbitrary function unless a theorem says what it needs of it: the network, provider adapters (the payment commands
  hold for all, Provider_Adapters models those of the repository) and outbox handlers, the client of the tax authority, hashes, ciphers and key derivation, the random values of tokens, the job queue and HTTP posts,
  the object store and the connection to the scanner, the counter of the rate limiter, the QR code.

  \<^bold>\<open>Not modelled.\<close>  The pages of the web application and the routes that only read or only wrap one modelled command;
  the HTTP client of the tax authority; notification channels, object storage, queues,
  secret stores, metrics and logging; seeds, migrations and the database client (input and output around the commands
  above); the list and search queries of the user interface.
\<close>

section \<open>Properties of every history\<close>

text \<open>C1.  In every state the platform can reach from a fresh installation the books balance: the debits of
  every journal equal its credits, the posted balance of every account is the sum of its entries, the
  trial balance is zero, and the health check reports every tenant as healthy.\<close>

theorem books_always_balance:
  assumes "reachable exec fresh_install t"
  shows "(\<forall>j \<in> set (journals t). journal_debits (j_id j) t = journal_credits (j_id j) t) \<and>
    (\<forall>a \<in> set (ledgerAccounts t). la_postedBalanceMinor a = posted_sum (la_id a) (journalEntries t)) \<and>
    sum_list (map la_postedBalanceMinor (ledgerAccounts t)) = 0 \<and>
    (\<exists>hs. checkLedgerHealth tid t = (Inr hs, t) \<and> list_all lh_healthy hs)"
proof -
  have inv: "ledger_inv t" by (rule ledger_core.sys.history.reachable_inv [OF fresh_ledger_inv assms])
  then have "journals_balanced t" "balances_synced t" "distinct (map j_id (journals t))"
    by (simp_all add: ledger_inv_def ledger_ids_def)
  with inv show ?thesis
    by (simp add: journals_balanced_def balances_synced_def trial_balance_zero checkLedgerHealth_def gets_def
        healthy_iff_rows health_rows_balanced_iff)
qed

theorem books_always_balance_witness:
  "reachable exec fresh_install (run_all exec demo_history demo_db) \<and>
   sum_list (map la_postedBalanceMinor (ledgerAccounts (run_all exec demo_history demo_db))) = 0"
  using books_always_balance [OF demo_reachable [of demo_history], of "Some ''acme''"] demo_reachable [of demo_history] by blast

text \<open>C2.  No wallet is ever overdrawn: in every reachable state both balances of every wallet are
  non-negative, the reserved balance is the sum of its held reservations, and both are the sums of the
  deltas in the append-only movement log.\<close>

theorem wallets_never_overdrawn:
  assumes "reachable exec fresh_install t"
  shows "\<forall>w \<in> set (wallets t). 0 \<le> w_availableMinor w \<and> 0 \<le> w_reservedMinor w \<and>
    w_reservedMinor w = held_of (w_id w) (walletReservations t) \<and>
    w_availableMinor w = log_available (w_id w) (walletLedgerEntries t) \<and>
    w_reservedMinor w = log_reserved (w_id w) (walletLedgerEntries t)"
proof -
  have "wallet_inv t" using payment_core.history.reachable_inv [OF fresh_payment_inv assms] by (simp add: payment_inv_def)
  then show ?thesis unfolding wallet_inv_def wallet_row_ok_def by blast
qed

theorem wallets_never_overdrawn_witness:
  "reachable exec fresh_install (run_all exec demo_history demo_db) \<and>
   (\<exists>w \<in> set (wallets (run_all exec demo_history demo_db)). w_id w = ''wallet'' \<and> 0 \<le> w_availableMinor w \<and> 0 \<le> w_reservedMinor w)"
  using wallets_never_overdrawn [OF demo_reachable [of demo_history]] demo_reachable [of demo_history]
    demo_wallet_stays [of demo_history] by blast

text \<open>C3.  A wallet implements an account.  Replaying the movement log of a wallet on an empty abstract
  account, operation by operation and with the guards of the account (a hold needs the available amount,
  a release or a capture needs the held amount), never gets stuck and ends in exactly the balances of the
  row of the wallet.\<close>

theorem wallet_refines_account:
  assumes "reachable exec fresh_install t"
  shows "\<forall>w \<in> set (wallets t).
    account_run (account_log (w_id w) t) (0, 0) = Some (w_availableMinor w, w_reservedMinor w)"
  using account_core.sys.history.reachable_inv [OF fresh_account_inv assms]
  by (simp add: account_inv_def implements_account_def account_of_def)

theorem wallet_refines_account_witness:
  "reachable exec fresh_install (run_all exec demo_history demo_db) \<and>
   (\<exists>w \<in> set (wallets (run_all exec demo_history demo_db)). w_id w = ''wallet'' \<and>
      account_run (account_log (w_id w) (run_all exec demo_history demo_db)) (0, 0) =
        Some (w_availableMinor w, w_reservedMinor w))"
  using wallet_refines_account [OF demo_reachable [of demo_history]] demo_reachable [of demo_history]
    demo_wallet_stays [of demo_history] by blast



text \<open>C24.  In every reachable state every row of the payment history is either the creation of a draft or
  an edge of the transition table.\<close>

theorem status_history_legal:
  assumes "reachable exec fresh_install t"
  shows "\<forall>h \<in> set (paymentStatusHistories t). case psh_fromStatus h of None \<Rightarrow> psh_toStatus h = DRAFT
    | Some st \<Rightarrow> psh_toStatus h \<in> set (TRANSITIONS st)"
proof -
  have "hist_inv t" using payment_core.history.reachable_inv [OF fresh_payment_inv assms] by (simp add: payment_inv_def)
  then show ?thesis
    by (fastforce simp: hist_inv_def list_all_iff legal_step_def canTransition_def split: option.splits)
qed

theorem status_history_legal_witness:
  "reachable exec fresh_install (run_all exec demo_history demo_db) \<and>
   (list_all (\<lambda>h. case psh_fromStatus h of None \<Rightarrow> psh_toStatus h = DRAFT | Some st \<Rightarrow> psh_toStatus h \<in> set (TRANSITIONS st)) (paymentStatusHistories (run_all exec demo_history demo_db)))"
  unfolding list_all_iff using status_history_legal [OF demo_reachable [of demo_history]] demo_reachable [of demo_history] by blast

text \<open>C27.  \<open>getWalletLedgerAccount\<close> returns: in every reachable state the retry after a lost insert race is
  never taken, so one unit of fuel suffices, any larger amount gives the same result, and that result is
  never the exhausted one.\<close>

theorem getWalletLedgerAccount_returns:
  assumes "reachable exec fresh_install t"
  shows "getWalletLedgerAccount_fuel (Suc n) wid tid t = getWalletLedgerAccount wid tid t \<and>
    fst (getWalletLedgerAccount wid tid t) \<noteq> Inl OutOfFuel"
proof -
  have "wallet_codes s" if "fresh_install s" for s using that by (simp add: fresh_install_def wallet_codes_def)
  from codes_core.sys.history.reachable_inv [OF this assms] have codes: "wallet_codes t" .
  then show ?thesis
    using getWalletLedgerAccount_no_retry [OF codes, of n wid tid 1] getWalletLedgerAccount_in_time [OF codes]
    by (simp add: getWalletLedgerAccount_def numeral_2_eq_2)
qed

theorem getWalletLedgerAccount_returns_witness:
  "reachable exec fresh_install (run_all exec demo_history demo_db) \<and>
   fst (getWalletLedgerAccount ''wallet'' ''acme'' (run_all exec demo_history demo_db)) \<noteq> Inl OutOfFuel"
  using getWalletLedgerAccount_returns [OF demo_reachable [of demo_history], of 0] demo_reachable [of demo_history] by blast

end
